(* ===== verification/Prelude.thy ===== *)
theory Prelude
  imports Main "HOL-Library.Sublist"
begin

text \<open>
  What every component of the development shares: the error values of the Go code, the
  state-and-error combinators its functions are written with, the preservation rules that carry
  invariants through them, and the string, list and integer operations of Go's standard library
  that the modelled code uses.

  A Go function that may fail and that touches the database or the hypervisor is a function
  from a world to a result and a new world; the result is \<open>Inl e\<close> for a non-nil error and
  \<open>Inr x\<close> otherwise. The human-readable text of an error is kept only where the code reads it
  again (\<open>truncate(err.Error(), 500)\<close>, \<open>strings.Contains(err.Error(), ...)\<close>); a refusal keeps
  its HTTP status and its code.
\<close>

named_theorems keeps_intros \<open>rules that carry an invariant through the program combinators\<close>
named_theorems triples \<open>Hoare triples of the program combinators\<close>
named_theorems row_simps \<open>what an UPDATE of one row does to a table\<close>
named_theorems lifecycle_intros \<open>operations that keep a row lifecycle\<close>

section \<open>Errors\<close>

datatype err =
    Refuse int string          \<comment> \<open>an \<open>Error\<close> for the HTTP layer: status and code\<close>
  | NotFound                   \<comment> \<open>\<open>db.ErrNotFound\<close>\<close>
  | Duplicate                  \<comment> \<open>\<open>db.ErrDuplicate\<close>\<close>
  | NoVMID                     \<comment> \<open>\<open>db.ErrNoVMID\<close>\<close>
  | GiveUp string              \<comment> \<open>\<open>giveUp\<close>: a failure retrying cannot fix\<close>
  | Busy                       \<comment> \<open>\<open>errBusy\<close>\<close>
  | DiskMissing                \<comment> \<open>\<open>errDiskMissing\<close>\<close>
  | Failed string              \<comment> \<open>any other error\<close>
  | Wrap string err            \<comment> \<open>\<open>fmt.Errorf("...: %w", err)\<close>\<close>
  | Detail err string          \<comment> \<open>\<open>fmt.Errorf("%w: ...", err)\<close>\<close>
  | Join err err               \<comment> \<open>\<open>errors.Join\<close> of two non-nil errors\<close>

text \<open>\<open>errors.Is(err, target)\<close> looks through wrapping and joining.\<close>

fun err_is :: "err \<Rightarrow> err \<Rightarrow> bool" where
  "err_is (Wrap p e) t = (Wrap p e = t \<or> err_is e t)"
| "err_is (Detail e m) t = (Detail e m = t \<or> err_is e t)"
| "err_is (Join a b) t = (Join a b = t \<or> err_is a t \<or> err_is b t)"
| "err_is e t = (e = t)"

text \<open>\<open>errors.As(err, &permanent)\<close> for the \<open>giveUp\<close> type: the reason, if there is one.\<close>

fun as_give_up :: "err \<Rightarrow> string option" where
  "as_give_up (GiveUp r) = Some r"
| "as_give_up (Wrap p e) = as_give_up e"
| "as_give_up (Detail e m) = as_give_up e"
| "as_give_up (Join a b) = (case as_give_up a of Some r \<Rightarrow> Some r | None \<Rightarrow> as_give_up b)"
| "as_give_up _ = None"

text \<open>\<open>err.Error()\<close>. The message of a refusal is not modelled, only its code.\<close>

fun err_text :: "err \<Rightarrow> string" where
  "err_text (Refuse st code) = code"
| "err_text NotFound = ''not found''"
| "err_text Duplicate = ''already exists''"
| "err_text NoVMID = ''no free VMID''"
| "err_text (GiveUp r) = r"
| "err_text Busy = ''the instance is busy with another action; trying again''"
| "err_text DiskMissing = ''the disk is not where it was recorded''"
| "err_text (Failed m) = m"
| "err_text (Wrap p e) = p @ '': '' @ err_text e"
| "err_text (Detail e m) = err_text e @ '': '' @ m"
| "err_text (Join a b) = err_text a @ [CHR 0x0A] @ err_text b"

section \<open>Programs\<close>

type_synonym 'a res = "err + 'a"
type_synonym ('w, 'a) prog = "'w \<Rightarrow> 'a res \<times> 'w"

definition ret :: "'a \<Rightarrow> ('w, 'a) prog" where
  "ret x = (\<lambda>w. (Inr x, w))"

definition raise :: "err \<Rightarrow> ('w, 'a) prog" where
  "raise e = (\<lambda>w. (Inl e, w))"

text \<open>\<open>x, err := m(); if err != nil { return err }\<close>, then the rest.\<close>

definition bindE :: "('w, 'a) prog \<Rightarrow> ('a \<Rightarrow> ('w, 'b) prog) \<Rightarrow> ('w, 'b) prog" where
  "bindE m f = (\<lambda>w. case m w of (Inl e, w') \<Rightarrow> (Inl e, w') | (Inr x, w') \<Rightarrow> f x w')"

text \<open>\<open>x, err := m()\<close>, then code that looks at both.\<close>

definition attempt :: "('w, 'a) prog \<Rightarrow> ('a res \<Rightarrow> ('w, 'b) prog) \<Rightarrow> ('w, 'b) prog" where
  "attempt m k = (\<lambda>w. case m w of (r, w') \<Rightarrow> k r w')"

definition seqE :: "('w, unit) prog \<Rightarrow> ('w, 'b) prog \<Rightarrow> ('w, 'b) prog" where
  "seqE m n = bindE m (\<lambda>_. n)"

definition whenE :: "bool \<Rightarrow> ('w, unit) prog \<Rightarrow> ('w, unit) prog" where
  "whenE b m = (if b then m else ret ())"

text \<open>\<open>return fmt.Errorf("prefix: %w", err)\<close> around a call.\<close>

definition wrapE :: "string \<Rightarrow> ('w, 'a) prog \<Rightarrow> ('w, 'a) prog" where
  "wrapE p m = (\<lambda>w. case m w of (Inl e, w') \<Rightarrow> (Inl (Wrap p e), w') | (Inr x, w') \<Rightarrow> (Inr x, w'))"

text \<open>\<open>for _, x := range xs { if err := f(x); err != nil { return err } }\<close>\<close>

primrec for_eachE :: "'x list \<Rightarrow> ('x \<Rightarrow> ('w, unit) prog) \<Rightarrow> ('w, unit) prog" where
  "for_eachE [] f = ret ()"
| "for_eachE (x # xs) f = seqE (f x) (for_eachE xs f)"

definition get_world :: "('w \<Rightarrow> 'a) \<Rightarrow> ('w, 'a) prog" where
  "get_world f = (\<lambda>w. (Inr (f w), w))"

definition put_world :: "('w \<Rightarrow> 'w) \<Rightarrow> ('w, unit) prog" where
  "put_world f = (\<lambda>w. (Inr (), f w))"

lemmas prog_defs = ret_def raise_def bindE_def attempt_def seqE_def whenE_def wrapE_def
  get_world_def put_world_def

subsection \<open>Invariants through programs\<close>

text \<open>
  \<open>keeps I m\<close>: whatever the program returns, error or value, it leaves a world that satisfies
  \<open>I\<close> when it started in one. The rules follow the combinators, so that a handler's invariant
  proof is one application per primitive it calls.
\<close>

definition keeps :: "('w \<Rightarrow> bool) \<Rightarrow> ('w, 'a) prog \<Rightarrow> bool" where
  "keeps I m \<longleftrightarrow> (\<forall>w. I w \<longrightarrow> I (snd (m w)))"

lemma keepsI: "(\<And>w. I w \<Longrightarrow> I (snd (m w))) \<Longrightarrow> keeps I m"
  by (simp add: keeps_def)

lemma keepsD: "keeps I m \<Longrightarrow> I w \<Longrightarrow> I (snd (m w))"
  by (simp add: keeps_def)

lemma keeps_result: "keeps I m \<Longrightarrow> I w \<Longrightarrow> m w = (r, w') \<Longrightarrow> I w'"
  by (drule keepsD [where w = w]) simp_all

lemma keeps_ret [keeps_intros]: "keeps I (ret x)"
  by (simp add: keeps_def ret_def)

lemma keeps_raise [keeps_intros]: "keeps I (raise e)"
  by (simp add: keeps_def raise_def)

lemma keeps_bindE [keeps_intros]:
  "keeps I m \<Longrightarrow> (\<And>x. keeps I (f x)) \<Longrightarrow> keeps I (bindE m f)"
  by (force simp: keeps_def bindE_def split: prod.splits sum.splits)

lemma keeps_attempt [keeps_intros]:
  "keeps I m \<Longrightarrow> (\<And>r. keeps I (k r)) \<Longrightarrow> keeps I (attempt m k)"
  by (force simp: keeps_def attempt_def split: prod.splits)

lemma keeps_seqE [keeps_intros]: "keeps I m \<Longrightarrow> keeps I n \<Longrightarrow> keeps I (seqE m n)"
  by (simp add: seqE_def keeps_bindE)

lemma keeps_whenE [keeps_intros]: "(b \<Longrightarrow> keeps I m) \<Longrightarrow> keeps I (whenE b m)"
  by (simp add: whenE_def keeps_ret)

lemma keeps_wrapE [keeps_intros]: "keeps I m \<Longrightarrow> keeps I (wrapE p m)"
  by (force simp: keeps_def wrapE_def split: prod.splits sum.splits)

lemma keeps_for_eachE [keeps_intros]:
  "(\<And>x. x \<in> set xs \<Longrightarrow> keeps I (f x)) \<Longrightarrow> keeps I (for_eachE xs f)"
  by (induction xs) (auto intro: keeps_ret keeps_seqE)

lemma keeps_get_world [keeps_intros]: "keeps I (get_world f)"
  by (simp add: keeps_def get_world_def)

lemma keeps_if [keeps_intros]:
  "(b \<Longrightarrow> keeps I m) \<Longrightarrow> (\<not> b \<Longrightarrow> keeps I n) \<Longrightarrow> keeps I (if b then m else n)"
  by simp

lemma keeps_case_option [keeps_intros]:
  "(x = None \<Longrightarrow> keeps I m) \<Longrightarrow> (\<And>y. x = Some y \<Longrightarrow> keeps I (f y)) \<Longrightarrow>
   keeps I (case x of None \<Rightarrow> m | Some y \<Rightarrow> f y)"
  by (cases x) simp_all

lemma keeps_case_sum [keeps_intros]:
  "(\<And>e. r = Inl e \<Longrightarrow> keeps I (f e)) \<Longrightarrow> (\<And>x. r = Inr x \<Longrightarrow> keeps I (g x)) \<Longrightarrow>
   keeps I (case r of Inl e \<Rightarrow> f e | Inr x \<Rightarrow> g x)"
  by (cases r) simp_all

lemma keeps_case_prod [keeps_intros]:
  "(\<And>a b. p = (a, b) \<Longrightarrow> keeps I (f a b)) \<Longrightarrow> keeps I (case p of (a, b) \<Rightarrow> f a b)"
  by (cases p) simp_all

lemma keeps_let [keeps_intros]: "keeps I (f x) \<Longrightarrow> keeps I (let y = x in f y)"
  by simp


subsection \<open>Triples\<close>

text \<open>
  \<open>triple P m Q F\<close>: started in a world with \<open>P\<close>, a program that returns a value leaves \<open>Q\<close> for it,
  and one that returns an error leaves \<open>F\<close>. Programs are total, so nothing is said "if it returns".
\<close>

definition triple ::
    "('w \<Rightarrow> bool) \<Rightarrow> ('w, 'a) prog \<Rightarrow> ('a \<Rightarrow> 'w \<Rightarrow> bool) \<Rightarrow> ('w \<Rightarrow> bool) \<Rightarrow> bool" where
  "triple P m Q F \<longleftrightarrow>
     (\<forall>w. P w \<longrightarrow> (case m w of (Inl e, w') \<Rightarrow> F w' | (Inr x, w') \<Rightarrow> Q x w'))"

lemma triple_Inr: "triple P m Q F \<Longrightarrow> P w \<Longrightarrow> m w = (Inr x, w') \<Longrightarrow> Q x w'"
  by (auto simp: triple_def)

lemma triple_Inl: "triple P m Q F \<Longrightarrow> P w \<Longrightarrow> m w = (Inl e, w') \<Longrightarrow> F w'"
  by (auto simp: triple_def)

lemma triple_weaken:
  "triple P m Q F \<Longrightarrow> (\<And>w. P' w \<Longrightarrow> P w) \<Longrightarrow> (\<And>x w. Q x w \<Longrightarrow> Q' x w) \<Longrightarrow> (\<And>w. F w \<Longrightarrow> F' w) \<Longrightarrow>
   triple P' m Q' F'"
  by (fastforce simp: triple_def split: prod.splits sum.splits)

lemma triple_pre: "triple P m Q F \<Longrightarrow> (\<And>w. P' w \<Longrightarrow> P w) \<Longrightarrow> triple P' m Q F"
  by (auto simp: triple_def)

lemma triple_ret: "(\<And>w. P w \<Longrightarrow> Q x w) \<Longrightarrow> triple P (ret x) Q F"
  by (simp add: triple_def ret_def)

lemma triple_raise: "(\<And>w. P w \<Longrightarrow> F w) \<Longrightarrow> triple P (raise e) Q F"
  by (simp add: triple_def raise_def)

lemma triple_bindE [triples]:
  assumes "triple P m R F" and "\<And>x. triple (R x) (f x) Q F"
  shows "triple P (bindE m f) Q F"
  unfolding triple_def
proof (intro allI impI)
  fix w assume w: "P w"
  obtain r w' where m: "m w = (r, w')" by fastforce
  show "case bindE m f w of (Inl e, w') \<Rightarrow> F w' | (Inr x, w') \<Rightarrow> Q x w'"
  proof (cases r)
    case (Inl e)
    then show ?thesis
      using w m assms(1) by (auto simp: bindE_def triple_def)
  next
    case (Inr x)
    then have "R x w'"
      using w m assms(1) by (auto simp: triple_def)
    then show ?thesis
      using m Inr assms(2) [of x] by (simp add: bindE_def triple_def)
  qed
qed

lemma triple_seqE [triples]: "triple P m (\<lambda>_. R) F \<Longrightarrow> triple R n Q F \<Longrightarrow> triple P (seqE m n) Q F"
  unfolding seqE_def by (rule triple_bindE)

lemma triple_attempt:
  assumes "triple P m (\<lambda>x. R (Inr x)) G" and "\<And>w. G w \<Longrightarrow> \<forall>e. R (Inl e) w"
    and "\<And>r. triple (R r) (k r) Q F"
  shows "triple P (attempt m k) Q F"
  unfolding triple_def
proof (intro allI impI)
  fix w assume w: "P w"
  obtain r w' where m: "m w = (r, w')" by fastforce
  with w assms(1,2) have "R r w'"
    by (cases r) (auto simp: triple_def)
  with m assms(3) [of r] show "case attempt m k w of (Inl e, w') \<Rightarrow> F w' | (Inr x, w') \<Rightarrow> Q x w'"
    by (auto simp: triple_def attempt_def)
qed

lemma triple_whenE [triples]:
  "(b \<Longrightarrow> triple P m Q F) \<Longrightarrow> (\<And>w. \<not> b \<Longrightarrow> P w \<Longrightarrow> Q () w) \<Longrightarrow> triple P (whenE b m) Q F"
  by (auto simp: whenE_def triple_def ret_def)

lemma triple_wrapE [triples]: "triple P m Q F \<Longrightarrow> triple P (wrapE p m) Q F"
  by (fastforce simp: triple_def wrapE_def split: prod.splits sum.splits)

lemma triple_get_world [triples]: "(\<And>w. P w \<Longrightarrow> Q (f w) w) \<Longrightarrow> triple P (get_world f) Q F"
  by (simp add: triple_def get_world_def)

lemma triple_put_world [triples]: "(\<And>w. P w \<Longrightarrow> Q () (f w)) \<Longrightarrow> triple P (put_world f) Q F"
  by (simp add: triple_def put_world_def)

lemma triple_if [triples]:
  "(b \<Longrightarrow> triple P m Q F) \<Longrightarrow> (\<not> b \<Longrightarrow> triple P n Q F) \<Longrightarrow> triple P (if b then m else n) Q F"
  by simp

lemma triple_case_option [triples]:
  "(x = None \<Longrightarrow> triple P m Q F) \<Longrightarrow> (\<And>y. x = Some y \<Longrightarrow> triple P (f y) Q F) \<Longrightarrow>
   triple P (case x of None \<Rightarrow> m | Some y \<Rightarrow> f y) Q F"
  by (cases x) simp_all

lemma triple_keeps: "keeps I m \<Longrightarrow> (\<And>w. P w \<Longrightarrow> I w) \<Longrightarrow> (\<And>x w. I w \<Longrightarrow> Q x w) \<Longrightarrow> (\<And>w. I w \<Longrightarrow> F w) \<Longrightarrow>
   triple P m Q F"
  unfolding triple_def keeps_def by (force split: prod.splits sum.splits)

lemma keeps_triple: "keeps I m \<longleftrightarrow> triple I m (\<lambda>_. I) I"
proof -
  have "(case m w of (Inl e, w') \<Rightarrow> I w' | (Inr x, w') \<Rightarrow> I w') = I (snd (m w))" for w
    by (auto split: prod.split sum.split)
  then show ?thesis
    by (simp add: triple_def keeps_def)
qed

lemma triple_for_eachE:
  assumes "\<And>x ys zs. xs = ys @ x # zs \<Longrightarrow> triple (R ys) (f x) (\<lambda>_. R (ys @ [x])) F"
  shows "triple (R []) (for_eachE xs f) (\<lambda>_. R xs) F"
proof -
  have "triple (R ys) (for_eachE zs f) (\<lambda>_. R xs) F" if "xs = ys @ zs" for ys zs
    using that
  proof (induction zs arbitrary: ys)
    case Nil
    then show ?case by (simp add: triple_ret)
  next
    case (Cons z zs)
    then show ?case
      using assms [of ys z zs] Cons.IH [of "ys @ [z]"]
      by (auto intro: triple_seqE)
  qed
  from this [of "[]" xs] show ?thesis by simp
qed

subsection \<open>Evaluating programs\<close>

text \<open>
  To evaluate a program on a concrete world, rewrite with \<open>run_steps\<close> under the congruence rules
  \<open>run_lazy\<close>, which keep the simplifier out of the part of a program that has not been reached.
\<close>

lemma bindE_lazy: "bindE m f w = bindE m f w" ..
lemma seqE_lazy: "seqE m n w = seqE m n w" ..
lemma attempt_lazy: "attempt m k w = attempt m k w" ..
lemma whenE_lazy: "whenE b m w = whenE b m w" ..
lemma wrapE_lazy: "wrapE p m w = wrapE p m w" ..

lemmas run_lazy = bindE_lazy seqE_lazy attempt_lazy whenE_lazy wrapE_lazy

lemma run_steps:
  "bindE m f w = (case m w of (Inl e, w') \<Rightarrow> (Inl e, w') | (Inr x, w') \<Rightarrow> f x w')"
  "seqE m' n w = (case m' w of (Inl e, w') \<Rightarrow> (Inl e, w') | (Inr x, w') \<Rightarrow> n w')"
  "attempt m k w = (case m w of (r, w') \<Rightarrow> k r w')"
  "whenE b m' w = (if b then m' w else (Inr (), w))"
  "wrapE p m w = (case m w of (Inl e, w') \<Rightarrow> (Inl (Wrap p e), w') | (Inr x, w') \<Rightarrow> (Inr x, w'))"
  "ret x w = (Inr x, w)" "raise e w = (Inl e, w)" "get_world g w = (Inr (g w), w)"
  "put_world h w = (Inr (), h w)"
  by (simp_all add: prog_defs)

end
