(* ===== verification/Go_Lib.thy ===== *)
theory Go_Lib
  imports Prelude
begin

text \<open>
  The parts of Go's language and standard library the modelled code calls: \<open>strings\<close>,
  \<open>strconv.Itoa\<close>, \<open>slices.Index\<close>/\<open>slices.Delete\<close>/\<open>slices.Contains\<close>, maps ranged over in an
  unspecified order, and 64-bit \<open>int\<close> arithmetic. A Go string is its bytes, so a \<open>char\<close> here is
  a byte and \<open>length\<close> counts bytes.
\<close>

section \<open>64-bit integers\<close>

definition min_i64 :: int where "min_i64 = - (2 ^ 63)"
definition max_i64 :: int where "max_i64 = 2 ^ 63 - 1"

definition in_i64 :: "int \<Rightarrow> bool" where
  "in_i64 x \<longleftrightarrow> min_i64 \<le> x \<and> x \<le> max_i64"

text \<open>What an \<open>int\<close> or \<open>int64\<close> operation leaves of the mathematical result.\<close>

definition wrap64 :: "int \<Rightarrow> int" where
  "wrap64 x = (x + 2 ^ 63) mod 2 ^ 64 - 2 ^ 63"

lemma wrap64_id [simp]: "in_i64 x \<Longrightarrow> wrap64 x = x"
  by (simp add: wrap64_def in_i64_def min_i64_def max_i64_def)

lemma wrap64_range: "in_i64 (wrap64 x)"
proof -
  have "0 \<le> (x + 2 ^ 63) mod 2 ^ 64" and "(x + 2 ^ 63) mod 2 ^ 64 < 2 ^ 64"
    by simp_all
  then show ?thesis
    by (simp add: wrap64_def in_i64_def min_i64_def max_i64_def)
qed

lemma wrap64_wrap64 [simp]: "wrap64 (wrap64 x) = wrap64 x"
  by (simp add: wrap64_range)

lemma in_i64_nonneg: "0 \<le> x \<Longrightarrow> x \<le> max_i64 \<Longrightarrow> in_i64 x"
  by (simp add: in_i64_def min_i64_def)

text \<open>Go's integer division truncates towards zero.\<close>

definition go_div :: "int \<Rightarrow> int \<Rightarrow> int" where
  "go_div a b = sgn a * sgn b * (\<bar>a\<bar> div \<bar>b\<bar>)"

lemma go_div_nonneg: "0 \<le> a \<Longrightarrow> 0 < b \<Longrightarrow> go_div a b = a div b"
  by (cases "a = 0") (simp_all add: go_div_def)

section \<open>Strings\<close>

definition has_prefix :: "string \<Rightarrow> string \<Rightarrow> bool" where
  "has_prefix s p \<longleftrightarrow> take (length p) s = p"

definition has_suffix :: "string \<Rightarrow> string \<Rightarrow> bool" where
  "has_suffix s p \<longleftrightarrow> has_prefix (rev s) (rev p)"

definition trim_prefix :: "string \<Rightarrow> string \<Rightarrow> string" where
  "trim_prefix s p = (if has_prefix s p then drop (length p) s else s)"

definition trim_suffix :: "string \<Rightarrow> string \<Rightarrow> string" where
  "trim_suffix s p = (if has_suffix s p then take (length s - length p) s else s)"

fun contains_str :: "string \<Rightarrow> string \<Rightarrow> bool" where
  "contains_str [] p = (p = [])"
| "contains_str (c # s) p = (has_prefix (c # s) p \<or> contains_str s p)"

text \<open>\<open>strings.Cut\<close> at a one-byte separator: before, after, found.\<close>

fun cut :: "string \<Rightarrow> char \<Rightarrow> string \<times> string \<times> bool" where
  "cut [] c = ([], [], False)"
| "cut (x # xs) c =
     (if x = c then ([], xs, True)
      else case cut xs c of (a, b, f) \<Rightarrow> (x # a, b, f))"

text \<open>\<open>strings.Split\<close> at a one-byte separator, and \<open>strings.Join\<close>.\<close>

fun split_at :: "char \<Rightarrow> string \<Rightarrow> string list" where
  "split_at c [] = [[]]"
| "split_at c (x # xs) =
     (if x = c then [] # split_at c xs
      else case split_at c xs of [] \<Rightarrow> [[x]] | y # ys \<Rightarrow> (x # y) # ys)"

fun join_with :: "string \<Rightarrow> string list \<Rightarrow> string" where
  "join_with sep [] = []"
| "join_with sep [x] = x"
| "join_with sep (x # y # ys) = x @ sep @ join_with sep (y # ys)"

fun nat_digits :: "nat \<Rightarrow> string" where
  "nat_digits n =
     (if n < 10 then [char_of (n + 48)] else nat_digits (n div 10) @ [char_of (n mod 10 + 48)])"

declare nat_digits.simps [simp del]

definition itoa :: "int \<Rightarrow> string" where
  "itoa i = (if i < 0 then CHR ''-'' # nat_digits (nat (- i)) else nat_digits (nat i))"

definition truncate_to :: "nat \<Rightarrow> string \<Rightarrow> string" where
  "truncate_to n s = (if length s \<le> n then s else take n s)"

lemma has_prefix_append [simp]: "has_prefix (p @ s) p"
  by (simp add: has_prefix_def)

lemma has_prefix_iff: "has_prefix s p \<longleftrightarrow> (\<exists>t. s = p @ t)"
  by (metis append_take_drop_id has_prefix_append has_prefix_def)

lemma contains_str_iff: "contains_str s p \<longleftrightarrow> (\<exists>a b. s = a @ p @ b)"
proof (induction s p rule: contains_str.induct)
  case (2 c s p)
  have "has_prefix (c # s) p \<longleftrightarrow> (\<exists>b. c # s = [] @ p @ b)"
    by (simp add: has_prefix_iff)
  moreover have "(\<exists>a b. c # s = a @ p @ b) \<longleftrightarrow>
      (\<exists>b. c # s = [] @ p @ b) \<or> (\<exists>a b. s = a @ p @ b)"
    by (metis append_Cons append_Nil list.inject neq_Nil_conv)
  ultimately show ?case
    using 2 by simp
qed auto

lemma cut_append: "cut s c = (a, b, f) \<Longrightarrow> s = (if f then a @ [c] @ b else a) \<and> c \<notin> set a \<and> (\<not> f \<longrightarrow> b = [])"
  by (induction s c arbitrary: a b f rule: cut.induct) (auto split: if_splits prod.splits)

lemma join_split: "join_with [c] (split_at c s) = s"
proof (induction s)
  case (Cons x xs)
  then show ?case
    by (cases "split_at c xs"; cases "tl (split_at c xs)") (auto simp: Cons)
qed simp

lemma split_at_nonempty: "split_at c s \<noteq> []"
  by (induction s) (auto split: list.splits)

lemma split_at_free: "x \<in> set (split_at c s) \<Longrightarrow> c \<notin> set x"
  by (induction s arbitrary: x) (auto split: list.splits if_splits)

lemma length_truncate_to: "length (truncate_to n s) \<le> n"
  by (simp add: truncate_to_def)

lemma nat_digits_nonempty [simp]: "nat_digits n \<noteq> []"
  by (subst nat_digits.simps) simp

section \<open>Slices and maps\<close>

text \<open>\<open>slices.Index\<close> and then \<open>slices.Delete\<close> at that index is removing the first occurrence.\<close>

fun index_of :: "'a list \<Rightarrow> 'a \<Rightarrow> nat option" where
  "index_of [] x = None"
| "index_of (y # ys) x = (if y = x then Some 0 else map_option Suc (index_of ys x))"

definition delete_at :: "nat \<Rightarrow> 'a list \<Rightarrow> 'a list" where
  "delete_at i xs = take i xs @ drop (Suc i) xs"

lemma index_of_Some: "index_of xs x = Some i \<Longrightarrow> i < length xs \<and> xs ! i = x"
  by (induction xs arbitrary: i) (auto split: if_splits)

lemma index_of_None: "index_of xs x = None \<longleftrightarrow> x \<notin> set xs"
  by (induction xs) auto

lemma delete_index_of: "index_of xs x = Some i \<Longrightarrow> delete_at i xs = remove1 x xs"
  by (induction xs arbitrary: i) (auto simp: delete_at_def split: if_splits)

text \<open>
  A Go map is an association list; \<open>map_of\<close> reads it, and a \<open>for range\<close> over it visits the
  entries in the list's order, which stands for the order Go leaves unspecified.
\<close>

type_synonym ('k, 'v) gomap = "('k \<times> 'v) list"

definition gomap_get :: "('k, 'v) gomap \<Rightarrow> 'k \<Rightarrow> 'v option" where
  "gomap_get m k = map_of m k"

definition gomap_str :: "('k, string) gomap \<Rightarrow> 'k \<Rightarrow> string" where
  "gomap_str m k = (case map_of m k of Some v \<Rightarrow> v | None \<Rightarrow> '''')"

text \<open>\<open>url.Values.Set\<close> and storing into a map.\<close>

fun gomap_set :: "'k \<Rightarrow> 'v \<Rightarrow> ('k, 'v) gomap \<Rightarrow> ('k, 'v) gomap" where
  "gomap_set k v [] = [(k, v)]"
| "gomap_set k v ((k', v') # m) = (if k = k' then (k, v) # m else (k', v') # gomap_set k v m)"

lemma map_of_gomap_set [simp]: "map_of (gomap_set k v m) = (map_of m)(k \<mapsto> v)"
  by (induction k v m rule: gomap_set.induct) auto

text \<open>\<open>if p != nil { *target = *p }\<close>.\<close>

definition override :: "'a option \<Rightarrow> 'a \<Rightarrow> 'a" where
  "override p x = (case p of None \<Rightarrow> x | Some y \<Rightarrow> y)"

lemma override_simps [simp]: "override None x = x" "override (Some y) x = y"
  by (simp_all add: override_def)

section \<open>Rows of a table\<close>

text \<open>
  A table is the list of its rows. \<open>UPDATE t SET ... WHERE id = $1 [AND cond]\<close> maps over it;
  \<open>RETURNING\<close> gives the updated row, or \<open>ErrNotFound\<close> when no row matched.
\<close>

definition update_where :: "('r \<Rightarrow> bool) \<Rightarrow> ('r \<Rightarrow> 'r) \<Rightarrow> 'r list \<Rightarrow> 'r list" where
  "update_where c f = map (\<lambda>r. if c r then f r else r)"

definition select_one :: "('r \<Rightarrow> bool) \<Rightarrow> 'r list \<Rightarrow> 'r res" where
  "select_one c t = (case find c t of None \<Rightarrow> Inl NotFound | Some r \<Rightarrow> Inr r)"

lemma update_where_id: "(\<And>r. r \<in> set t \<Longrightarrow> \<not> c r) \<Longrightarrow> update_where c f t = t"
  by (induction t) (simp_all add: update_where_def)

lemma length_update_where [simp]: "length (update_where c f t) = length t"
  by (simp add: update_where_def)

lemma set_update_where: "set (update_where c f t) = f ` {r \<in> set t. c r} \<union> {r \<in> set t. \<not> c r}"
  by (auto simp: update_where_def)

lemma map_update_where: "(\<And>r. g (f r) = g r) \<Longrightarrow> map g (update_where c f t) = map g t"
  by (simp add: update_where_def)

lemma select_one_Inr: "select_one c t = Inr r \<Longrightarrow> r \<in> set t \<and> c r"
  by (auto simp: select_one_def find_Some_iff split: option.splits)

lemma select_one_Inl: "select_one c t = Inl e \<longleftrightarrow> e = NotFound \<and> (\<forall>r \<in> set t. \<not> c r)"
proof (cases "find c t")
  case None
  then have "\<forall>r \<in> set t. \<not> c r"
    by (simp add: find_None_iff)
  with None show ?thesis
    by (auto simp: select_one_def)
next
  case (Some r)
  then have "r \<in> set t" and "c r"
    by (auto simp: find_Some_iff)
  with Some show ?thesis
    by (auto simp: select_one_def)
qed

lemma find_exists: "x \<in> set xs \<Longrightarrow> P x \<Longrightarrow> \<exists>y. find P xs = Some y"
  by (induction xs) auto

lemma select_one_distinct:
  assumes "distinct (map key t)" and "r \<in> set t" and "key r = k"
  shows "select_one (\<lambda>r. key r = k) t = Inr r"
  using assms by (induction t) (force simp: select_one_def)+


section \<open>UTF-8\<close>

text \<open>
  \<open>unicode/utf8\<close> over the bytes of a string: how many bytes the first rune takes, and whether they
  are a valid encoding. An invalid byte is one rune of one byte, as \<open>RuneCountInString\<close> counts it.
\<close>

definition in_range :: "nat \<Rightarrow> nat \<Rightarrow> nat \<Rightarrow> bool" where
  "in_range lo hi b \<longleftrightarrow> lo \<le> b \<and> b \<le> hi"

definition continuation :: "nat \<Rightarrow> bool" where
  "continuation b \<longleftrightarrow> in_range 128 191 b"

definition rune_size :: "nat list \<Rightarrow> nat \<times> bool" where
  "rune_size s = (case s of
       [] \<Rightarrow> (0, True)
     | a # r \<Rightarrow>
         if a < 128 then (1, True)
         else case r of
           [] \<Rightarrow> (1, False)
         | b # r \<Rightarrow>
             if in_range 194 223 a then (if continuation b then (2, True) else (1, False))
             else if \<not> continuation b \<or> (a = 224 \<and> b < 160) \<or> (a = 237 \<and> b > 159) \<or>
                     (a = 240 \<and> b < 144) \<or> (a = 244 \<and> b > 143) then (1, False)
             else case r of
               [] \<Rightarrow> (1, False)
             | c # r \<Rightarrow>
                 if in_range 224 239 a then (if continuation c then (3, True) else (1, False))
                 else if in_range 240 244 a then
                   (case r of d # _ \<Rightarrow> if continuation c \<and> continuation d then (4, True) else (1, False)
                    | [] \<Rightarrow> (1, False))
                 else (1, False))"

lemma rune_size_pos: "s \<noteq> [] \<Longrightarrow> 0 < fst (rune_size s)"
  by (auto simp: rune_size_def split: list.splits)

text \<open>Fuel: every rune takes at least one byte, so the length is enough.\<close>

fun runes_of :: "nat \<Rightarrow> nat list \<Rightarrow> nat \<times> bool" where
  "runes_of 0 s = (0, True)"
| "runes_of (Suc fuel) s =
     (if s = [] then (0, True)
      else case rune_size s of (k, ok) \<Rightarrow>
        case runes_of fuel (drop k s) of (n, rest) \<Rightarrow> (Suc n, ok \<and> rest))"

definition bytes_of :: "string \<Rightarrow> nat list" where
  "bytes_of s = map of_char s"

definition rune_count :: "string \<Rightarrow> nat" where
  "rune_count s = fst (runes_of (length s) (bytes_of s))"

definition valid_utf8 :: "string \<Rightarrow> bool" where
  "valid_utf8 s \<longleftrightarrow> snd (runes_of (length s) (bytes_of s))"

lemma rune_count_ascii_example: "rune_count ''web-1'' = 5"
  by code_simp

lemma rune_count_kana_example:
  "rune_count (map char_of [227::nat, 129, 130, 227, 129, 132]) = 2 \<and>
   valid_utf8 (map char_of [227::nat, 129, 130, 227, 129, 132]) \<and>
   \<not> valid_utf8 (map char_of [227::nat, 129])"
  by code_simp


lemma find_SomeD: "find P xs = Some y \<Longrightarrow> y \<in> set xs \<and> P y"
  by (induction xs) (auto split: if_splits)


lemma split_at_append: "c \<notin> set a \<Longrightarrow> split_at c (a @ c # b) = a # split_at c b"
  by (induction a) auto

lemma split_at_id: "c \<notin> set a \<Longrightarrow> split_at c a = [a]"
  by (induction a) auto

lemma split_join: "ps \<noteq> [] \<Longrightarrow> \<forall>p \<in> set ps. c \<notin> set p \<Longrightarrow> split_at c (join_with [c] ps) = ps"
  by (induction "[c]" ps rule: join_with.induct) (simp_all add: split_at_append split_at_id)


text \<open>\<open>hex.EncodeToString\<close>: two lower-case digits a byte.\<close>

definition hex_encode :: "nat list \<Rightarrow> string" where
  "hex_encode bs = concat (map (\<lambda>b. [''0123456789abcdef'' ! (b div 16 mod 16), ''0123456789abcdef'' ! (b mod 16)]) bs)"

end
