(* ===== verification/Net_Prefix.thy ===== *)
theory Net_Prefix
  imports Go_Lib "HOL-Library.Word"
begin

unbundle bit_operations_syntax

text \<open>
  Go's \<open>net/netip\<close>: the addresses and prefixes that \<open>site.go\<close>, \<open>securitygroups.go\<close> and
  \<open>adopt.go\<close> parse and compare. Addresses are words of their width, so masking is what the
  library does with its bits. The lemmas show that \<open>Overlaps\<close> decides whether two prefixes share
  an address and that \<open>Masked\<close> picks the canonical name of a prefix.
\<close>

section \<open>Addresses and prefixes\<close>

datatype addr = V4 "32 word" | V6 "128 word" string   \<comment> \<open>the zone, usually empty\<close>

datatype prefix = Prefix (pfx_addr: addr) (pfx_bits: nat)

fun is4 :: "addr \<Rightarrow> bool" where
  "is4 (V4 w) = True"
| "is4 (V6 w z) = False"

text \<open>The top \<open>n\<close> bits of a word agree with another's; the rest of a word cleared.\<close>

definition same_top :: "nat \<Rightarrow> 'a::len word \<Rightarrow> 'a word \<Rightarrow> bool" where
  "same_top n a b \<longleftrightarrow> drop_bit (LENGTH('a) - n) a = drop_bit (LENGTH('a) - n) b"

definition mask_top :: "nat \<Rightarrow> 'a::len word \<Rightarrow> 'a word" where
  "mask_top n a = push_bit (LENGTH('a) - n) (drop_bit (LENGTH('a) - n) a)"

fun masked :: "prefix \<Rightarrow> prefix" where
  "masked (Prefix (V4 w) n) = Prefix (V4 (mask_top n w)) n"
| "masked (Prefix (V6 w z) n) = Prefix (V6 (mask_top n w) '''') n"

fun prefix_contains :: "prefix \<Rightarrow> addr \<Rightarrow> bool" where
  "prefix_contains (Prefix (V4 a) n) (V4 b) = same_top n a b"
| "prefix_contains (Prefix (V6 a z) n) (V6 b z') = (z' = '''' \<and> same_top n a b)"
| "prefix_contains _ _ = False"

fun overlaps :: "prefix \<Rightarrow> prefix \<Rightarrow> bool" where
  "overlaps (Prefix (V4 a) n) (Prefix (V4 b) m) = same_top (min n m) a b"
| "overlaps (Prefix (V6 a z) n) (Prefix (V6 b z') m) = same_top (min n m) a b"
| "overlaps _ _ = False"

fun valid_prefix :: "prefix \<Rightarrow> bool" where
  "valid_prefix (Prefix (V4 w) n) = (n \<le> 32)"
| "valid_prefix (Prefix (V6 w z) n) = (n \<le> 128 \<and> z = '''')"

lemma same_top_refl [simp]: "same_top n a a"
  by (simp add: same_top_def)

lemma same_top_sym: "same_top n a b = same_top n b a"
  by (auto simp: same_top_def)

lemma same_top_trans: "same_top n a b \<Longrightarrow> same_top n b c \<Longrightarrow> same_top n a c"
  by (simp add: same_top_def)

lemma same_top_weaken:
  fixes a b :: "'a::len word"
  assumes "m \<le> n" and "same_top n a b"
  shows "same_top m a b"
proof -
  obtain k where "LENGTH('a) - m = k + (LENGTH('a) - n)"
    using assms(1) by (metis diff_le_mono2 le_Suc_ex add.commute)
  then have "drop_bit (LENGTH('a) - m) x = drop_bit k (drop_bit (LENGTH('a) - n) x)"
    for x :: "'a word"
    by (simp add: drop_bit_drop_bit)
  then show ?thesis
    using assms(2) unfolding same_top_def by metis
qed

lemma same_top_mask [simp]: "same_top n (mask_top n a) a"
  unfolding same_top_def mask_top_def
  by (rule bit_word_eqI) (auto simp: bit_simps dest: bit_imp_le_length)

lemma mask_top_idem [simp]: "mask_top n (mask_top n a) = mask_top n a"
  using same_top_mask [of n a] by (simp add: mask_top_def same_top_def)

lemma mask_top_eq_iff: "mask_top n a = mask_top n b \<longleftrightarrow> same_top n a b"
proof
  assume "mask_top n a = mask_top n b"
  then show "same_top n a b"
    by (metis same_top_mask same_top_sym same_top_trans)
qed (simp add: mask_top_def same_top_def)

lemma masked_idem: "masked (masked p) = masked p"
  by (cases p rule: masked.cases) simp_all

lemma masked_contains: "prefix_contains (masked p) a = prefix_contains p a"
proof (cases p rule: masked.cases)
  case (1 w n)
  then show ?thesis
    by (cases a) (simp_all, metis same_top_mask same_top_sym same_top_trans)
next
  case (2 w z n)
  then show ?thesis
    by (cases a) (simp_all, metis same_top_mask same_top_sym same_top_trans)
qed

text \<open>\<open>Overlaps\<close> is exactly "some address is in both".\<close>

lemma common_top:
  "same_top (min n m) a b \<longleftrightarrow> (\<exists>x. same_top n a x \<and> same_top m b x)"
proof
  assume top: "same_top (min n m) a b"
  show "\<exists>x. same_top n a x \<and> same_top m b x"
  proof (cases "n \<le> m")
    case True
    with top show ?thesis by (auto simp: min_absorb1)
  next
    case False
    with top have "same_top m b a" by (simp add: min_absorb2 same_top_sym)
    then show ?thesis by (intro exI [of _ a]) simp
  qed
next
  assume "\<exists>x. same_top n a x \<and> same_top m b x"
  then show "same_top (min n m) a b"
    by (metis min.cobounded1 min.cobounded2 same_top_sym same_top_trans same_top_weaken)
qed

lemma ex_addr: "(\<exists>a. P a) \<longleftrightarrow> (\<exists>w. P (V4 w)) \<or> (\<exists>w z. P (V6 w z))"
  by (metis addr.exhaust)

lemma overlaps_iff:
  "overlaps p q \<longleftrightarrow> (\<exists>a. prefix_contains p a \<and> prefix_contains q a)"
  by (induction p q rule: overlaps.induct) (simp_all add: ex_addr common_top)

section \<open>Parsing\<close>

text \<open>\<open>netip.ParseAddr\<close> and \<open>netip.ParsePrefix\<close>; \<open>None\<close> is a parse error.\<close>

definition digit_val :: "char \<Rightarrow> nat option" where
  "digit_val c = (let n = of_char c in if 48 \<le> n \<and> n \<le> 57 then Some (n - 48) else None)"

definition hex_val :: "char \<Rightarrow> nat option" where
  "hex_val c = (let n = of_char c in
     if 48 \<le> n \<and> n \<le> 57 then Some (n - 48)
     else if 97 \<le> n \<and> n \<le> 102 then Some (n - 87)
     else if 65 \<le> n \<and> n \<le> 70 then Some (n - 55) else None)"

definition all_digits :: "string \<Rightarrow> bool" where
  "all_digits s \<longleftrightarrow> (\<forall>c \<in> set s. digit_val c \<noteq> None)"

definition dec_value :: "string \<Rightarrow> nat" where
  "dec_value s = foldl (\<lambda>n c. 10 * n + of_char c - 48) 0 s"

text \<open>An IPv4 field: digits, at most 255, no leading zero.\<close>

definition parse_octet :: "string \<Rightarrow> nat option" where
  "parse_octet s =
     (if s = [] \<or> \<not> all_digits s \<or> (1 < length s \<and> hd s = CHR ''0'') \<or> 255 < dec_value s
      then None else Some (dec_value s))"

definition parse_v4 :: "string \<Rightarrow> nat option" where
  "parse_v4 s = (case map parse_octet (split_at CHR ''.'' s) of
       [Some a, Some b, Some c, Some d] \<Rightarrow> Some (((a * 256 + b) * 256 + c) * 256 + d)
     | _ \<Rightarrow> None)"

text \<open>The hexadecimal digits at the head of a string, and the rest.\<close>

fun hex_span :: "string \<Rightarrow> string \<times> string" where
  "hex_span [] = ([], [])"
| "hex_span (c # s) = (if hex_val c = None then ([], c # s)
                       else case hex_span s of (h, t) \<Rightarrow> (c # h, t))"

definition hex_value :: "string \<Rightarrow> nat" where
  "hex_value s = foldl (\<lambda>n c. 16 * n + (case hex_val c of Some v \<Rightarrow> v | None \<Rightarrow> 0)) 0 s"

text \<open>
  \<open>parseIPv6\<close> after the zone is split off: 16-bit groups so far, where \<open>::\<close> was seen (as a
  number of groups), and what is left to read. Every group takes at least one byte, so one unit of
  fuel per byte is enough.
\<close>

fun parse_v6_groups :: "nat \<Rightarrow> nat list \<Rightarrow> nat option \<Rightarrow> string \<Rightarrow> (nat list \<times> nat option) option" where
  "parse_v6_groups 0 gs ell s = None"
| "parse_v6_groups (Suc fuel) gs ell s =
     (if 8 \<le> length gs then (if s = [] then Some (gs, ell) else None)
      else case hex_span s of (h, t) \<Rightarrow>
        if h = [] \<or> 65535 < hex_value h \<or> 4 < length h then None
        else if t \<noteq> [] \<and> hd t = CHR ''.'' then
          (if (ell = None \<and> length gs \<noteq> 6) \<or> 6 < length gs then None
           else case parse_v4 s of None \<Rightarrow> None
                | Some v \<Rightarrow> Some (gs @ [v div 65536, v mod 65536], ell))
        else let gs' = gs @ [hex_value h] in
          (case t of
             [] \<Rightarrow> Some (gs', ell)
           | [c] \<Rightarrow> None
           | c # d # u \<Rightarrow>
               if c \<noteq> CHR '':'' then None
               else if d = CHR '':'' then
                 (if ell \<noteq> None then None
                  else if u = [] then Some (gs', Some (length gs'))
                  else parse_v6_groups fuel gs' (Some (length gs')) u)
               else parse_v6_groups fuel gs' ell (d # u)))"

definition groups_value :: "nat list \<Rightarrow> nat" where
  "groups_value gs = foldl (\<lambda>n g. 65536 * n + g) 0 gs"

definition parse_v6 :: "string \<Rightarrow> nat option" where
  "parse_v6 s =
     (let double = has_prefix s ''::''; body = (if double then drop 2 s else s) in
      case (if double \<and> body = [] then Some ([], Some 0)
            else parse_v6_groups (Suc (length body)) [] (if double then Some 0 else None) body) of
        None \<Rightarrow> None
      | Some (gs, None) \<Rightarrow> if length gs = 8 then Some (groups_value gs) else None
      | Some (gs, Some e) \<Rightarrow>
          if length gs < 8
          then Some (groups_value (take e gs @ replicate (8 - length gs) 0 @ drop e gs))
          else None)"

text \<open>The first of \<open>.\<close>, \<open>:\<close> and \<open>%\<close> decides which parser reads the string.\<close>

definition parse_addr :: "string \<Rightarrow> addr option" where
  "parse_addr s =
     (case find (\<lambda>c. c \<in> {CHR ''.'', CHR '':'', CHR ''%''}) s of
        None \<Rightarrow> None
      | Some c \<Rightarrow>
          if c = CHR ''.'' then map_option (\<lambda>n. V4 (of_nat n)) (parse_v4 s)
          else if c = CHR '':'' then
            (case cut s CHR ''%'' of (body, zone, z) \<Rightarrow>
               if z \<and> zone = [] then None
               else map_option (\<lambda>n. V6 (of_nat n) zone) (parse_v6 body))
          else None)"

text \<open>The last \<open>/\<close> of the string splits it; the length has no sign and no leading zero.\<close>

definition parse_prefix :: "string \<Rightarrow> prefix option" where
  "parse_prefix s =
     (case cut (rev s) CHR ''/'' of (rbits, raddr, found) \<Rightarrow>
        if \<not> found then None
        else let bits = rev rbits in
          case parse_addr (rev raddr) of
            None \<Rightarrow> None
          | Some a \<Rightarrow>
              if bits = [] \<or> \<not> all_digits bits \<or> (1 < length bits \<and> hd bits = CHR ''0'')
              then None
              else (case a of
                  V4 w \<Rightarrow> if dec_value bits \<le> 32 then Some (Prefix a (dec_value bits)) else None
                | V6 w z \<Rightarrow> if z = [] \<and> dec_value bits \<le> 128
                            then Some (Prefix a (dec_value bits)) else None))"

lemma parse_prefix_valid: "parse_prefix s = Some p \<Longrightarrow> valid_prefix p"
  by (auto simp: parse_prefix_def Let_def split: prod.splits option.splits if_splits addr.splits)

lemma replicate_numeral: "replicate (numeral k) x = x # replicate (pred_numeral k) x"
  by (simp add: numeral_eq_Suc)

lemmas net_eval = replicate_numeral parse_prefix_def parse_addr_def parse_v4_def parse_octet_def all_digits_def
  digit_val_def dec_value_def Let_def parse_v6_def has_prefix_def hex_val_def hex_value_def
  groups_value_def

lemma parse_v4_prefix_example:
  "parse_prefix ''192.168.10.0/24'' = Some (Prefix (V4 0xC0A80A00) 24)"
  by (simp add: net_eval)

lemma parse_v6_zero_example: "parse_prefix ''::/0'' = Some (Prefix (V6 0 []) 0)"
  by (simp add: net_eval)

lemma parse_leading_zero_example: "parse_prefix ''10.0.0.01/8'' = None"
  by (simp add: net_eval)

lemma parse_v6_embedded_example: "parse_addr ''::ffff:10.0.0.1'' = Some (V6 0xffff0a000001 [])"
  by (simp add: net_eval)


section \<open>Printing\<close>

text \<open>\<open>Addr.String\<close> and \<open>Prefix.String\<close>: dotted IPv4; IPv6 as RFC 5952 has it.\<close>

definition hex_digit :: "nat \<Rightarrow> char" where
  "hex_digit n = (if n < 10 then char_of (48 + n) else char_of (87 + n))"

text \<open>A 16-bit group has at most four digits.\<close>

definition show_hex :: "nat \<Rightarrow> string" where
  "show_hex n = (if n < 16 then [hex_digit n]
     else if n < 256 then [hex_digit (n div 16), hex_digit (n mod 16)]
     else if n < 4096 then [hex_digit (n div 256), hex_digit (n div 16 mod 16), hex_digit (n mod 16)]
     else [hex_digit (n div 4096), hex_digit (n div 256 mod 16), hex_digit (n div 16 mod 16), hex_digit (n mod 16)])"

definition show_v4 :: "nat \<Rightarrow> string" where
  "show_v4 n = join_with ''.'' (map nat_digits
     [n div 16777216 mod 256, n div 65536 mod 256, n div 256 mod 256, n mod 256])"

definition v6_groups :: "nat \<Rightarrow> nat list" where
  "v6_groups n = map (\<lambda>i. n div 2 ^ (112 - 16 * i) mod 65536) [0, 1, 2, 3, 4, 5, 6, 7]"

definition zero_run :: "nat list \<Rightarrow> nat" where
  "zero_run gs = length (takeWhile (\<lambda>g. g = 0) gs)"

text \<open>The first longest run of at least two zero groups: where it starts and how long it is.\<close>

definition best_run :: "nat list \<Rightarrow> (nat \<times> nat) option" where
  "best_run gs = foldl (\<lambda>best i. let l = zero_run (drop i gs) in
     if 2 \<le> l \<and> (case best of None \<Rightarrow> True | Some (s, k) \<Rightarrow> k < l) then Some (i, l) else best)
     None [0, 1, 2, 3, 4, 5, 6, 7]"

definition show_v6 :: "nat \<Rightarrow> string" where
  "show_v6 n = (let gs = v6_groups n in
     if take 6 gs = [0, 0, 0, 0, 0, 65535] then ''::ffff:'' @ show_v4 (n mod 4294967296)
     else case best_run gs of
       None \<Rightarrow> join_with '':'' (map show_hex gs)
     | Some (s, k) \<Rightarrow> join_with '':'' (map show_hex (take s gs)) @ ''::'' @
                     join_with '':'' (map show_hex (drop (s + k) gs)))"

fun show_addr :: "addr \<Rightarrow> string" where
  "show_addr (V4 w) = show_v4 (unat w)"
| "show_addr (V6 w z) = show_v6 (unat w) @ (if z = '''' then '''' else CHR ''%'' # z)"

definition show_prefix :: "prefix \<Rightarrow> string" where
  "show_prefix p = show_addr (pfx_addr p) @ CHR ''/'' # nat_digits (pfx_bits p)"

lemmas show_eval = show_prefix_def show_v4_def show_v6_def v6_groups_def best_run_def zero_run_def
  show_hex_def hex_digit_def nat_digits.simps char_of_def

lemma show_prefix_v4_example: "show_prefix (Prefix (V4 0xC0A80A00) 24) = ''192.168.10.0/24''"
  by (simp add: show_eval bit_Suc_0_iff)

lemma show_prefix_v6_example:
  "show_prefix (Prefix (V6 0 []) 0) = ''::/0''"
  "show_prefix (Prefix (V6 0x20010db8000000000001000000000000 []) 64) = ''2001:db8:0:0:1::/64''"
  by (simp_all add: show_eval bit_Suc_0_iff)


text \<open>Reading back the decimal text of a number.\<close>

lemma dec_value_snoc: "dec_value (s @ [c]) = 10 * dec_value s + of_char c - 48"
  by (simp add: dec_value_def)

lemma dec_value_nat_digits: "dec_value (nat_digits n) = n"
proof (induction n rule: nat_digits.induct)
  case (1 n)
  show ?case
  proof (cases "n < 10")
    case True
    then show ?thesis
      by (subst nat_digits.simps) (simp add: dec_value_def)
  next
    case False
    have "dec_value (nat_digits n) = 10 * dec_value (nat_digits (n div 10)) + n mod 10"
      using False by (subst nat_digits.simps) (simp add: dec_value_snoc)
    then show ?thesis
      using 1 [OF False] by simp
  qed
qed

lemma nat_digits_digit: "c \<in> set (nat_digits n) \<Longrightarrow> (of_char c :: nat) \<in> {48..57}"
proof (induction n rule: nat_digits.induct)
  case (1 n)
  show ?case
  proof (cases "n < 10")
    case True
    with 1(2) have "c = char_of (n + 48)"
      by (subst (asm) nat_digits.simps) simp
    with True show ?thesis by simp
  next
    case False
    with 1(2) have "c = char_of (n mod 10 + 48) \<or> c \<in> set (nat_digits (n div 10))"
      by (subst (asm) nat_digits.simps) auto
    moreover have "n mod 10 < 10" by simp
    ultimately show ?thesis
      using 1(1) [OF False] by auto
  qed
qed

lemma cut_none: "c \<notin> set s \<Longrightarrow> cut s c = (s, [], False)"
  by (induction s) auto

lemma cut_at: "c \<notin> set a \<Longrightarrow> cut (a @ c # b) c = (a, b, True)"
  by (induction a) auto

lemma nat_digits_free: "(of_char c :: nat) \<notin> {48..57} \<Longrightarrow> c \<notin> set (nat_digits n)"
  using nat_digits_digit by blast

end
