(* ===== verification/Site_Model.thy ===== *)
theory Site_Model
  imports Net_Prefix
begin

text \<open>
  \<open>api/internal/site/site.go\<close>: the deployment's fixed facts, the subnet and disk-tier lookups over
  them, and \<open>Validate\<close>, which every start runs. JSON decoding is not modelled: a site is the
  decoded value. The lemmas show what a validated site guarantees to the rest of the program.
\<close>

section \<open>The declaration\<close>

record ledger_cfg =
  cluster :: string
  group_accounts :: "string list"
  tags_by_name :: "(string, string list) gomap"

record iso_decl =
  iso_name :: string
  iso_volume :: string
  iso_os :: string

definition TierSSD :: string where "TierSSD = ''ssd''"
definition TierHDD :: string where "TierHDD = ''hdd''"
definition DiskTiers :: "string list" where "DiskTiers = [TierSSD, TierHDD]"

record storage =
  vm_disks :: string
  vm_disks_hdd :: string
  images_store :: string
  admin_images :: string

definition disk_tier_storage :: "storage \<Rightarrow> string \<Rightarrow> string \<times> bool" where
  "disk_tier_storage st tier =
     (if tier = '''' \<or> tier = TierSSD then (vm_disks st, vm_disks st \<noteq> '''')
      else if tier = TierHDD then (vm_disks_hdd st, vm_disks_hdd st \<noteq> '''')
      else ('''', False))"

definition tier_of_storage :: "storage \<Rightarrow> string \<Rightarrow> string" where
  "tier_of_storage st pool = (if pool \<noteq> '''' \<and> pool = vm_disks_hdd st then TierHDD else TierSSD)"

record subnet =
  sub_name :: string
  sub_prefix :: string
  sub_gateway :: string
  sub_vlan_id :: int
  sub_bridge_tag :: int
  sub_range_start :: string
  sub_default :: bool
  sub_description :: string

record network =
  bridge :: string
  gateway :: string
  dns_servers :: "string list"
  ip_range_start :: string
  vlan_id :: int
  bridge_vlan_aware :: bool
  subnets :: "subnet list"

definition DefaultSubnet :: string where "DefaultSubnet = ''server''"

definition subnet_id :: "string \<Rightarrow> string" where
  "subnet_id name = ''subnet-'' @ name"

text \<open>
  A deployment that declares no subnets has one, the flat network its range lies in.
\<close>

definition subnet_list :: "network \<Rightarrow> subnet list" where
  "subnet_list n =
     (if subnets n \<noteq> [] then subnets n
      else let pfx = (case parse_prefix (ip_range_start n) of
                        Some p \<Rightarrow> show_prefix (masked p) | None \<Rightarrow> '''') in
        [\<lparr>sub_name = DefaultSubnet, sub_prefix = pfx, sub_gateway = gateway n,
          sub_vlan_id = vlan_id n, sub_bridge_tag = vlan_id n,
          sub_range_start = ip_range_start n, sub_default = True, sub_description = ''''\<rparr>])"

definition network_subnet :: "network \<Rightarrow> string \<Rightarrow> subnet option" where
  "network_subnet n name =
     find (\<lambda>s. (name = '''' \<and> sub_default s) \<or> (name \<noteq> '''' \<and> sub_name s = name))
       (subnet_list n)"

definition launchable :: "network \<Rightarrow> subnet \<Rightarrow> bool \<times> string" where
  "launchable n s =
     (if sub_range_start s = '''' then (False, ''the cloud does not place instances in this subnet'')
      else if sub_bridge_tag s \<noteq> 0 \<and> \<not> bridge_vlan_aware n
        then (False, ''bridge '' @ bridge n @ '' is not VLAN-aware yet'')
      else (True, ''''))"

record image_decl =
  img_name :: string
  img_volume :: string
  img_os :: string

record instance_type =
  it_cpu_cores :: int
  it_memory_mib :: int
  it_memory_min_mib :: int

record quota =
  q_instances :: int
  q_vcpus :: int
  q_memory_mib :: int
  q_root_disk_gib :: int
  q_volumes :: int
  q_volume_gib :: int

record limits =
  account_quota :: quota
  root_disk_min :: int
  root_disk_max :: int
  root_disk_default :: int
  volume_size_min :: int
  volume_size_max :: int
  memory_budget_mib :: int
  node_memory_reserve_mib :: int
  vm_disk_max_used_percent :: int
  image_store_min_free_mib :: int
  max_image_gib :: int

record site =
  s_node :: string
  s_pool :: string
  vmid_from :: int
  vmid_to :: int
  probe_vmids :: "int list"
  volume_holder_vmid :: int
  s_storage :: storage
  s_network :: network
  s_images :: "(string, image_decl) gomap"
  shared_isos :: "(string, iso_decl) gomap"
  instance_types :: "(string, instance_type) gomap"
  s_limits :: limits
  s_ledger :: ledger_cfg
  routed_prefixes :: "(string, string) gomap"

section \<open>The identifiers' formats\<close>

definition is_digit :: "char \<Rightarrow> bool" where
  "is_digit c \<longleftrightarrow> (let n = of_char c :: nat in 48 \<le> n \<and> n \<le> 57)"

definition is_lower :: "char \<Rightarrow> bool" where
  "is_lower c \<longleftrightarrow> (let n = of_char c :: nat in 97 \<le> n \<and> n \<le> 122)"

definition is_letter :: "char \<Rightarrow> bool" where
  "is_letter c \<longleftrightarrow> is_lower c \<or> (let n = of_char c :: nat in 65 \<le> n \<and> n \<le> 90)"

definition slug_char :: "char \<Rightarrow> bool" where
  "slug_char c \<longleftrightarrow> is_lower c \<or> is_digit c \<or> c = CHR ''-''"

definition hex_char :: "char \<Rightarrow> bool" where
  "hex_char c \<longleftrightarrow> is_digit c \<or> (let n = of_char c :: nat in 97 \<le> n \<and> n \<le> 102)"

definition matches_tail :: "string \<Rightarrow> (char \<Rightarrow> bool) \<Rightarrow> string \<Rightarrow> bool" where
  "matches_tail p ok s \<longleftrightarrow> has_prefix s p \<and> drop (length p) s \<noteq> [] \<and> list_all ok (drop (length p) s)"

definition imageID :: "string \<Rightarrow> bool" where "imageID = matches_tail ''img-'' slug_char"
definition sharedISOID :: "string \<Rightarrow> bool" where "sharedISOID = matches_tail ''iso-'' slug_char"
definition ledgerAccountID :: "string \<Rightarrow> bool" where
  "ledgerAccountID s \<longleftrightarrow> length s = 12 \<and> list_all is_digit s"
definition ledgerTag :: "string \<Rightarrow> bool" where
  "ledgerTag s \<longleftrightarrow> s \<noteq> [] \<and> hd s \<noteq> CHR ''-'' \<and> list_all slug_char s"
definition instanceID :: "string \<Rightarrow> bool" where
  "instanceID s \<longleftrightarrow> length s = 19 \<and> matches_tail ''i-'' hex_char s"

section \<open>Validate\<close>

text \<open>\<open>check(ok, ...)\<close> adds an error; the errors are named, their formatted text is not modelled.\<close>

definition check :: "bool \<Rightarrow> string \<Rightarrow> string list" where
  "check ok msg = (if ok then [] else [msg])"

definition known_os :: "string \<Rightarrow> bool" where
  "known_os s \<longleftrightarrow> s = '''' \<or> s = ''linux'' \<or> s = ''windows''"

definition check_subnet :: "network \<Rightarrow> string list \<Rightarrow> subnet \<Rightarrow> string list" where
  "check_subnet n seen s =
     (let pfx = parse_prefix (sub_prefix s); gw = parse_addr (sub_gateway s) in
      check (sub_name s \<noteq> '''' \<and> sub_name s \<notin> set seen) ''subnet name'' @
      check (pfx \<noteq> None) ''subnet prefix'' @
      check (case gw of None \<Rightarrow> False
             | Some a \<Rightarrow> (case pfx of None \<Rightarrow> True | Some p \<Rightarrow> prefix_contains p a)) ''subnet gateway'' @
      check (0 \<le> sub_bridge_tag s \<and> sub_bridge_tag s \<le> 4094) ''subnet bridge_tag'' @
      (if sub_range_start s \<noteq> '''' then
         check (case parse_prefix (sub_range_start s) of None \<Rightarrow> False
                | Some r \<Rightarrow> (case pfx of None \<Rightarrow> True | Some p \<Rightarrow> prefix_contains p (pfx_addr r)))
           ''subnet ip_range_start''
       else []) @
      (if sub_default s then check (fst (launchable n s)) ''default subnet'' else []))"

fun check_subnets :: "network \<Rightarrow> string list \<Rightarrow> subnet list \<Rightarrow> string list" where
  "check_subnets n seen [] = []"
| "check_subnets n seen (s # ss) = check_subnet n seen s @ check_subnets n (sub_name s # seen) ss"

definition check_images :: "(string, image_decl) gomap \<Rightarrow> string list" where
  "check_images m = concat (map (\<lambda>(id, image).
     check (imageID id) ''image id'' @ check (img_volume image \<noteq> '''') ''image volume'' @
     check (known_os (img_os image)) ''image os'') m)"

definition check_isos :: "(string, iso_decl) gomap \<Rightarrow> string list" where
  "check_isos m = concat (map (\<lambda>(id, iso).
     check (sharedISOID id) ''iso id'' @ check (iso_volume iso \<noteq> '''') ''iso volume'' @
     check (known_os (iso_os iso)) ''iso os'') m)"

definition check_types :: "(string, instance_type) gomap \<Rightarrow> string list" where
  "check_types m = concat (map (\<lambda>(name, t).
     check (it_cpu_cores t > 0 \<and> it_memory_mib t \<ge> it_memory_min_mib t \<and> it_memory_min_mib t > 0)
       ''instance type'') m)"

definition check_ledger :: "ledger_cfg \<Rightarrow> string list" where
  "check_ledger l =
     check (cluster l \<noteq> '''' \<or> (group_accounts l = [] \<and> tags_by_name l = [])) ''ledger cluster'' @
     concat (map (\<lambda>a. check (ledgerAccountID a) ''ledger account'') (group_accounts l)) @
     concat (map (\<lambda>(name, tags).
       check (name \<noteq> '''' \<and> tags \<noteq> []) ''ledger entry'' @
       concat (map (\<lambda>t. check (ledgerTag t) ''ledger tag'') tags)) (tags_by_name l))"

text \<open>The loop over \<open>RoutedPrefixes\<close>; \<open>routed\<close> holds the parsed prefixes seen so far.\<close>

fun check_routed :: "subnet list \<Rightarrow> prefix list \<Rightarrow> (string, string) gomap \<Rightarrow> string list" where
  "check_routed ss routed [] = []"
| "check_routed ss routed ((owner, cidr) # m) =
     check (instanceID owner) ''routed owner'' @
     (case parse_prefix cidr of
        None \<Rightarrow> ''routed prefix'' # check_routed ss routed m
      | Some p \<Rightarrow>
          check (is4 (pfx_addr p) \<and> p = masked p) ''routed prefix'' @
          concat (map (\<lambda>s. case parse_prefix (sub_prefix s) of None \<Rightarrow> []
                           | Some segment \<Rightarrow> check (\<not> overlaps p segment) ''routed overlaps segment'') ss) @
          concat (map (\<lambda>other. check (\<not> overlaps p other) ''routed prefixes overlap'') routed) @
          check_routed ss (p # routed) m)"

definition check_limits :: "limits \<Rightarrow> string list" where
  "check_limits l =
     (let q = account_quota l in
      check (q_instances q > 0 \<and> q_vcpus q > 0 \<and> q_memory_mib q > 0 \<and> q_root_disk_gib q > 0)
        ''account quota'' @
      check (root_disk_min l > 0 \<and> root_disk_min l \<le> root_disk_default l \<and>
             root_disk_default l \<le> root_disk_max l) ''root disk limits'' @
      check (memory_budget_mib l > 0 \<and> vm_disk_max_used_percent l > 0 \<and>
             vm_disk_max_used_percent l \<le> 100) ''capacity limits'' @
      check (q_volumes q > 0 \<and> q_volume_gib q > 0) ''volume quota'' @
      check (volume_size_min l > 0 \<and> volume_size_min l \<le> volume_size_max l) ''volume size limits'')"

definition check_network :: "network \<Rightarrow> string list" where
  "check_network n =
     check (bridge n \<noteq> '''') ''bridge'' @
     check (parse_addr (gateway n) \<noteq> None) ''gateway'' @
     concat (map (\<lambda>d. check (parse_addr d \<noteq> None) ''dns server'') (dns_servers n)) @
     check (parse_prefix (ip_range_start n) \<noteq> None) ''ip_range_start'' @
     check (0 \<le> vlan_id n \<and> vlan_id n \<le> 4094) ''vlan_id'' @
     check (vlan_id n = 0 \<or> bridge_vlan_aware n) ''vlan_id on an unaware bridge'' @
     check_subnets n [] (subnets n) @
     check (subnets n = [] \<or> length (filter sub_default (subnets n)) = 1) ''one default subnet''"

definition validate_site :: "site \<Rightarrow> string list" where
  "validate_site s =
     (let st = s_storage s in
      check (s_node s \<noteq> '''') ''node'' @
      check (s_pool s \<noteq> '''') ''pool'' @
      check (vmid_from s \<ge> 100 \<and> vmid_to s > vmid_from s) ''VMID range'' @
      check (vm_disks st \<noteq> '''' \<and> images_store st \<noteq> '''' \<and> admin_images st \<noteq> '''') ''storage'' @
      check (vm_disks_hdd st = '''' \<or> (vm_disks_hdd st \<noteq> vm_disks st \<and>
             vm_disks_hdd st \<noteq> images_store st \<and> vm_disks_hdd st \<noteq> admin_images st)) ''vm_disks_hdd'' @
      check_network (s_network s) @
      check (s_images s \<noteq> []) ''images'' @
      check_images (s_images s) @
      check_isos (shared_isos s) @
      check (instance_types s \<noteq> []) ''instance types'' @
      check_types (instance_types s) @
      check_ledger (s_ledger s) @
      check_routed (subnets (s_network s)) [] (routed_prefixes s) @
      check_limits (s_limits s) @
      check (volume_holder_vmid s \<ge> vmid_from s \<and> volume_holder_vmid s \<le> vmid_to s) ''volume holder'' @
      concat (map (\<lambda>p. check (p \<noteq> volume_holder_vmid s) ''volume holder is a probe'') (probe_vmids s)))"

definition reserved_vmid :: "site \<Rightarrow> int \<Rightarrow> bool" where
  "reserved_vmid s v \<longleftrightarrow> v = volume_holder_vmid s \<or> v \<in> set (probe_vmids s)"

definition site_ok :: "site \<Rightarrow> bool" where
  "site_ok s \<longleftrightarrow> validate_site s = []"

section \<open>What a validated site guarantees\<close>

lemma check_Nil [simp]: "check ok msg = [] \<longleftrightarrow> ok"
  by (simp add: check_def)

lemmas site_checks = site_ok_def validate_site_def check_network_def check_limits_def
  check_images_def check_isos_def check_types_def check_ledger_def Let_def

lemma check_subnets_launchable:
  "check_subnets n seen ss = [] \<Longrightarrow> s \<in> set ss \<Longrightarrow> sub_default s \<Longrightarrow> fst (launchable n s)"
  by (induction ss arbitrary: seen) (auto simp: check_subnet_def Let_def)

text \<open>A routed network is checked against every routed network before it and every segment.\<close>

lemma check_routed_segment:
  assumes "check_routed ss routed m = []" and "(owner, cidr) \<in> set m" and "s \<in> set ss"
    and "parse_prefix (sub_prefix s) = Some segment"
  shows "\<exists>p. parse_prefix cidr = Some p \<and> \<not> overlaps p segment"
  using assms by (induction m arbitrary: routed) (auto split: option.splits)

lemma check_routed_earlier:
  assumes "check_routed ss routed m = []" and "(owner, cidr) \<in> set m" and "q \<in> set routed"
  shows "\<exists>p. parse_prefix cidr = Some p \<and> \<not> overlaps p q"
  using assms by (induction m arbitrary: routed) (auto split: option.splits)

lemma check_routed_pairwise:
  assumes "check_routed ss routed m = []" and "i < j" and "j < length m"
  shows "\<exists>p q. parse_prefix (snd (m ! i)) = Some p \<and> parse_prefix (snd (m ! j)) = Some q
               \<and> \<not> overlaps q p"
  using assms
proof (induction m arbitrary: routed i j)
  case (Cons e m)
  obtain owner cidr where e: "e = (owner, cidr)" by fastforce
  from Cons.prems(1) e obtain p where p: "parse_prefix cidr = Some p"
    and rest: "check_routed ss (p # routed) m = []"
    by (auto split: option.splits)
  show ?case
  proof (cases i)
    case 0
    from Cons.prems(2,3) 0 have "j - 1 < length m" and j: "(e # m) ! j = m ! (j - 1)"
      by auto
    then have mem: "m ! (j - 1) \<in> set m" by simp
    then obtain q where "parse_prefix (snd (m ! (j - 1))) = Some q \<and> \<not> overlaps q p"
      using check_routed_earlier [OF rest, of "fst (m ! (j - 1))" "snd (m ! (j - 1))" p] by auto
    with 0 e p j show ?thesis by auto
  next
    case (Suc i')
    with Cons.prems(2,3) obtain j' where "j = Suc j'" "i' < j'" "j' < length m"
      by (cases j) auto
    with Suc Cons.IH [OF rest] show ?thesis by simp
  qed
qed simp

lemma validate_storage:
  "site_ok s \<Longrightarrow> vm_disks_hdd (s_storage s) = '''' \<or> vm_disks_hdd (s_storage s) \<noteq> vm_disks (s_storage s)"
  by (auto simp: site_checks)

lemma validate_network: "site_ok s \<Longrightarrow> check_network (s_network s) = []"
  by (simp add: site_ok_def validate_site_def Let_def)

lemma default_subnet_launchable:
  assumes net: "check_network n = []" and d: "d \<in> set (subnet_list n)" "sub_default d"
  shows "fst (launchable n d)"
proof (cases "subnets n = []")
  case True
  from net have "parse_prefix (ip_range_start n) \<noteq> None"
    by (simp add: check_network_def)
  then have "ip_range_start n \<noteq> ''''"
    by (auto simp: parse_prefix_def)
  with net True d show ?thesis
    by (auto simp: subnet_list_def launchable_def check_network_def Let_def)
next
  case False
  with net d show ?thesis
    by (auto simp: subnet_list_def check_network_def intro: check_subnets_launchable)
qed

lemma default_subnet_exists:
  assumes net: "check_network n = []"
  shows "\<exists>d \<in> set (subnet_list n). sub_default d"
proof (cases "subnets n = []")
  case False
  with net have "filter sub_default (subnets n) \<noteq> []"
    by (auto simp: check_network_def)
  with False show ?thesis
    by (auto simp: subnet_list_def filter_empty_conv)
qed (simp add: subnet_list_def Let_def)

section \<open>Properties of the site\<close>

text \<open>
  After \<open>Validate\<close> accepts a site, the empty subnet name resolves to a subnet that is
  marked default and that the API can place instances in, whether the site declares subnets or is
  still the one flat network.
\<close>

theorem site_default_subnet:
  assumes "site_ok s"
  shows "\<exists>d. network_subnet (s_network s) '''' = Some d \<and> sub_default d \<and>
             fst (launchable (s_network s) d)"
proof -
  have net: "check_network (s_network s) = []"
    using assms by (rule validate_network)
  obtain d where "d \<in> set (subnet_list (s_network s))" "sub_default d"
    using default_subnet_exists [OF net] by blast
  then obtain d' where found: "network_subnet (s_network s) '''' = Some d'"
    unfolding network_subnet_def using find_exists by fastforce
  then have "d' \<in> set (subnet_list (s_network s))" "sub_default d'"
    by (auto simp: network_subnet_def find_Some_iff)
  with found default_subnet_launchable [OF net] show ?thesis by blast
qed


text \<open>
  In a validated site the pool a tier resolves to names that tier again, so the tier
  recorded for an adopted VM's disk is the one whose pool its disks are measured on.
\<close>

theorem site_tier_roundtrip:
  assumes "site_ok s" and "disk_tier_storage (s_storage s) tier = (pool, True)"
  shows "tier_of_storage (s_storage s) pool = (if tier = '''' then TierSSD else tier) \<and>
         disk_tier_storage (s_storage s) (tier_of_storage (s_storage s) pool) = (pool, True)"
  using assms validate_storage [OF assms(1)]
  by (auto simp: disk_tier_storage_def tier_of_storage_def TierSSD_def TierHDD_def split: if_splits)

section \<open>A site that validates\<close>

definition example_limits :: limits where
  "example_limits = \<lparr>account_quota = \<lparr>q_instances = 4, q_vcpus = 8, q_memory_mib = 16384,
       q_root_disk_gib = 100, q_volumes = 4, q_volume_gib = 200\<rparr>,
     root_disk_min = 8, root_disk_max = 64, root_disk_default = 16,
     volume_size_min = 1, volume_size_max = 128,
     memory_budget_mib = 32768, node_memory_reserve_mib = 4096, vm_disk_max_used_percent = 85,
     image_store_min_free_mib = 10240, max_image_gib = 20\<rparr>"

definition example_subnet :: subnet where
  "example_subnet = \<lparr>sub_name = ''server'', sub_prefix = ''192.168.10.0/24'',
     sub_gateway = ''192.168.10.1'', sub_vlan_id = 10, sub_bridge_tag = 0,
     sub_range_start = ''192.168.10.100/24'', sub_default = True, sub_description = ''''\<rparr>"

definition example_site :: site where
  "example_site = \<lparr>s_node = ''pve'', s_pool = ''cloud'', vmid_from = 5000, vmid_to = 5003,
     probe_vmids = [5001], volume_holder_vmid = 5000,
     s_storage = \<lparr>vm_disks = ''local-lvm'', vm_disks_hdd = ''hdd'', images_store = ''images'',
                  admin_images = ''local''\<rparr>,
     s_network = \<lparr>bridge = ''vmbr0'', gateway = ''192.168.10.1'', dns_servers = [''192.168.10.1''],
                  ip_range_start = ''192.168.10.100/24'', vlan_id = 0, bridge_vlan_aware = False,
                  subnets = [example_subnet]\<rparr>,
     s_images = [(''img-debian-13'', \<lparr>img_name = ''Debian 13'', img_volume = ''images:import/d.qcow2'',
                                    img_os = ''''\<rparr>)],
     shared_isos = [],
     instance_types = [(''s1.small'', \<lparr>it_cpu_cores = 1, it_memory_mib = 2048, it_memory_min_mib = 1024\<rparr>)],
     s_limits = example_limits,
     s_ledger = \<lparr>cluster = '''', group_accounts = [], tags_by_name = []\<rparr>,
     routed_prefixes = [(''i-00000000000000001'', ''172.31.0.0/24''), (''i-00000000000000002'', ''172.31.1.0/24'')]\<rparr>"

lemmas format_eval = matches_tail_def imageID_def sharedISOID_def ledgerAccountID_def ledgerTag_def
  instanceID_def slug_char_def hex_char_def is_lower_def is_digit_def known_os_def

lemma example_site_ok: "site_ok example_site"
  by (simp add: site_checks example_site_def example_subnet_def example_limits_def check_subnet_def
      launchable_def net_eval format_eval mask_top_def same_top_def)

theorem site_default_subnet_witness:
  "\<exists>d. network_subnet (s_network example_site) '''' = Some d \<and> sub_default d \<and>
       fst (launchable (s_network example_site) d)"
  by (rule site_default_subnet [OF example_site_ok])


theorem site_tier_roundtrip_witness:
  "tier_of_storage (s_storage example_site) ''hdd'' = ''hdd''"
  using site_tier_roundtrip [OF example_site_ok, of "''hdd''" "''hdd''"]
  by (simp add: example_site_def disk_tier_storage_def TierSSD_def TierHDD_def)

end
