(* ===== verification/Sizing.thy ===== *)
theory Sizing
  imports Site_Model
begin

text \<open>
  How big an instance may be: the limits in force (\<open>WithOverrides\<close>, \<open>ValidateLimits\<close> in
  \<open>service.go\<close> and \<open>capacity.go\<close>), the size a launch asks for (\<open>resolveSpec\<close>, \<open>validateSpec\<close>), the
  size a resize ends with (\<open>ModifyRequest.target\<close>) and the worker's retry delay (\<open>backoff\<close>). These
  are the pure halves of the admission handlers; \<open>Admission\<close> composes them with the ledger.
\<close>

section \<open>Limits and an administrator's overrides\<close>

record limit_overrides =
  o_account_instances :: "int option"
  o_account_vcpus :: "int option"
  o_account_memory_mib :: "int option"
  o_account_root_disk_gib :: "int option"
  o_root_disk_min_gib :: "int option"
  o_root_disk_default_gib :: "int option"
  o_root_disk_max_gib :: "int option"
  o_memory_budget_mib :: "int option"
  o_node_memory_reserve_mib :: "int option"
  o_vm_disk_max_used_percent :: "int option"
  o_image_store_min_free_mib :: "int option"
  o_max_image_gib :: "int option"
  o_account_volumes :: "int option"
  o_account_volume_gib :: "int option"
  o_volume_min_gib :: "int option"
  o_volume_max_gib :: "int option"

definition no_overrides :: limit_overrides where
  "no_overrides = \<lparr>o_account_instances = None, o_account_vcpus = None, o_account_memory_mib = None,
     o_account_root_disk_gib = None, o_root_disk_min_gib = None, o_root_disk_default_gib = None,
     o_root_disk_max_gib = None, o_memory_budget_mib = None, o_node_memory_reserve_mib = None,
     o_vm_disk_max_used_percent = None, o_image_store_min_free_mib = None, o_max_image_gib = None,
     o_account_volumes = None, o_account_volume_gib = None, o_volume_min_gib = None,
     o_volume_max_gib = None\<rparr>"

definition with_overrides :: "limits \<Rightarrow> limit_overrides \<Rightarrow> limits" where
  "with_overrides l ov =
     \<lparr>account_quota = \<lparr>q_instances = override (o_account_instances ov) (q_instances (account_quota l)),
        q_vcpus = override (o_account_vcpus ov) (q_vcpus (account_quota l)),
        q_memory_mib = override (o_account_memory_mib ov) (q_memory_mib (account_quota l)),
        q_root_disk_gib = override (o_account_root_disk_gib ov) (q_root_disk_gib (account_quota l)),
        q_volumes = override (o_account_volumes ov) (q_volumes (account_quota l)),
        q_volume_gib = override (o_account_volume_gib ov) (q_volume_gib (account_quota l))\<rparr>,
      root_disk_min = override (o_root_disk_min_gib ov) (root_disk_min l),
      root_disk_max = override (o_root_disk_max_gib ov) (root_disk_max l),
      root_disk_default = override (o_root_disk_default_gib ov) (root_disk_default l),
      volume_size_min = override (o_volume_min_gib ov) (volume_size_min l),
      volume_size_max = override (o_volume_max_gib ov) (volume_size_max l),
      memory_budget_mib = override (o_memory_budget_mib ov) (memory_budget_mib l),
      node_memory_reserve_mib = override (o_node_memory_reserve_mib ov) (node_memory_reserve_mib l),
      vm_disk_max_used_percent = override (o_vm_disk_max_used_percent ov) (vm_disk_max_used_percent l),
      image_store_min_free_mib = override (o_image_store_min_free_mib ov) (image_store_min_free_mib l),
      max_image_gib = override (o_max_image_gib ov) (max_image_gib l)\<rparr>"

definition validation_error :: err where
  "validation_error = Refuse 400 ''ValidationError''"

definition validate_limits :: "limits \<Rightarrow> err option" where
  "validate_limits l =
     (let q = account_quota l in
      if q_instances q < 0 \<or> q_vcpus q < 0 \<or> q_memory_mib q < 0 \<or> q_root_disk_gib q < 0 \<or>
         q_volumes q < 0 \<or> q_volume_gib q < 0 then Some validation_error
      else if volume_size_min l \<le> 0 \<or> volume_size_max l < volume_size_min l then Some validation_error
      else if root_disk_min l \<le> 0 \<or> root_disk_default l \<le> 0 \<or> root_disk_max l \<le> 0
        then Some validation_error
      else if root_disk_min l > root_disk_default l \<or> root_disk_default l > root_disk_max l
        then Some validation_error
      else if memory_budget_mib l < 0 \<or> node_memory_reserve_mib l < 0 \<or>
              image_store_min_free_mib l < 0 \<or> max_image_gib l < 0 then Some validation_error
      else if vm_disk_max_used_percent l < 0 \<or> vm_disk_max_used_percent l > 100
        then Some validation_error
      else None)"

section \<open>The size of an instance\<close>

record spec =
  sp_cpu_cores :: int
  sp_memory_mib :: int
  sp_memory_min_mib :: int
  sp_ballooning :: bool
  sp_type_name :: string

text \<open>The size fields of a launch request and of a resize; \<open>None\<close> is "not given".\<close>

record size_request =
  rq_instance_type :: string
  rq_vcpus :: "int option"
  rq_memory_mib :: "int option"
  rq_memory_min_mib :: "int option"
  rq_ballooning :: "bool option"

definition minMemoryMiB :: int where "minMemoryMiB = 512"

definition balloon_floor :: "int \<Rightarrow> int" where
  "balloon_floor memory = max minMemoryMiB (go_div memory 4)"

definition invalid_parameter :: err where
  "invalid_parameter = Refuse 400 ''InvalidParameterValue''"

definition validate_spec :: "spec \<Rightarrow> err option" where
  "validate_spec s =
     (if sp_cpu_cores s < 1 then Some invalid_parameter
      else if sp_memory_mib s < minMemoryMiB then Some invalid_parameter
      else if sp_ballooning s \<and> sp_memory_min_mib s < minMemoryMiB then Some invalid_parameter
      else if sp_ballooning s \<and> sp_memory_min_mib s > sp_memory_mib s then Some invalid_parameter
      else None)"

text \<open>
  \<open>resolveSpec\<close>: a named preset, or \<open>vcpus\<close> and \<open>memory_mib\<close> outright; then the explicit fields
  over it; then the balloon floor.
\<close>

definition preset_spec :: "(string, instance_type) gomap \<Rightarrow> size_request \<Rightarrow> spec res" where
  "preset_spec types r =
     (if rq_instance_type r \<noteq> '''' then
        (case gomap_get types (rq_instance_type r) of
           None \<Rightarrow> Inl invalid_parameter
         | Some t \<Rightarrow> Inr \<lparr>sp_cpu_cores = it_cpu_cores t, sp_memory_mib = it_memory_mib t,
                        sp_memory_min_mib = it_memory_min_mib t, sp_ballooning = False,
                        sp_type_name = rq_instance_type r\<rparr>)
      else if rq_vcpus r = None \<or> rq_memory_mib r = None then Inl invalid_parameter
      else Inr \<lparr>sp_cpu_cores = 0, sp_memory_mib = 0, sp_memory_min_mib = 0, sp_ballooning = False,
                sp_type_name = ''''\<rparr>)"

definition explicit_spec :: "size_request \<Rightarrow> spec \<Rightarrow> spec" where
  "explicit_spec r s =
     (let s = s\<lparr>sp_cpu_cores := override (rq_vcpus r) (sp_cpu_cores s)\<rparr>;
          s = s\<lparr>sp_memory_mib := override (rq_memory_mib r) (sp_memory_mib s)\<rparr>;
          s = (if rq_vcpus r \<noteq> None \<or> rq_memory_mib r \<noteq> None \<or> rq_memory_min_mib r \<noteq> None \<or>
                  rq_ballooning r \<noteq> None then s\<lparr>sp_type_name := ''''\<rparr> else s)
      in s\<lparr>sp_ballooning := (rq_ballooning r = None \<or> rq_ballooning r = Some True)\<rparr>)"

definition floor_spec :: "size_request \<Rightarrow> spec \<Rightarrow> spec" where
  "floor_spec r s =
     (if \<not> sp_ballooning s then s\<lparr>sp_memory_min_mib := 0\<rparr>
      else case rq_memory_min_mib r of
          Some m \<Rightarrow> s\<lparr>sp_memory_min_mib := m\<rparr>
        | None \<Rightarrow> if sp_memory_min_mib s = 0 \<or> rq_memory_mib r \<noteq> None
                  then s\<lparr>sp_memory_min_mib := balloon_floor (sp_memory_mib s)\<rparr> else s)"

definition resolve_spec :: "(string, instance_type) gomap \<Rightarrow> size_request \<Rightarrow> spec res" where
  "resolve_spec types r =
     (case preset_spec types r of
        Inl e \<Rightarrow> Inl e
      | Inr s \<Rightarrow> (let s = floor_spec r (explicit_spec r s) in
          case validate_spec s of Some e \<Rightarrow> Inl e | None \<Rightarrow> Inr s))"

record modify_request =
  m_vcpus :: "int option"
  m_memory_mib :: "int option"
  m_memory_min_mib :: "int option"
  m_ballooning :: "bool option"
  m_root_disk_gib :: "int option"

definition modify_empty :: "modify_request \<Rightarrow> bool" where
  "modify_empty r \<longleftrightarrow> m_vcpus r = None \<and> m_memory_mib r = None \<and> m_memory_min_mib r = None \<and>
     m_ballooning r = None \<and> m_root_disk_gib r = None"

text \<open>\<open>target\<close>, from the size the instance has now (whose \<open>TypeName\<close> is empty, as in \<open>Modify\<close>).\<close>

definition modify_target :: "modify_request \<Rightarrow> spec \<Rightarrow> spec" where
  "modify_target r cur =
     (let s = cur\<lparr>sp_cpu_cores := override (m_vcpus r) (sp_cpu_cores cur),
                 sp_memory_mib := override (m_memory_mib r) (sp_memory_mib cur),
                 sp_ballooning := override (m_ballooning r) (sp_ballooning cur)\<rparr> in
      if \<not> sp_ballooning s then s\<lparr>sp_memory_min_mib := 0\<rparr>
      else case m_memory_min_mib r of
          Some m \<Rightarrow> s\<lparr>sp_memory_min_mib := m\<rparr>
        | None \<Rightarrow> if m_memory_mib r \<noteq> None \<or> sp_memory_min_mib s = 0 \<or>
                     sp_memory_min_mib s > sp_memory_mib s
                  then s\<lparr>sp_memory_min_mib := balloon_floor (sp_memory_mib s)\<rparr> else s)"

section \<open>The retry delay\<close>

text \<open>
  \<open>time.Duration(float64(s.RetryDelay) * math.Pow(2, float64(attempts-1)))\<close>. The product of a
  delay below \<open>2 ^ 53\<close> ns and a power of two is exact in a \<open>float64\<close>. Converting a \<open>float64\<close> that
  does not fit an \<open>int64\<close> gives an implementation-dependent value, the parameter \<open>ov\<close>: Go on
  amd64 gives the smallest \<open>int64\<close>, on arm64 the largest.
\<close>

definition f64_to_i64 :: "(int \<Rightarrow> int) \<Rightarrow> int \<Rightarrow> int" where
  "f64_to_i64 ov x = (if in_i64 x then x else ov x)"

definition five_minutes :: int where "five_minutes = 300 * 10 ^ 9"

definition backoff :: "(int \<Rightarrow> int) \<Rightarrow> int \<Rightarrow> nat \<Rightarrow> int" where
  "backoff ov retry_delay attempts =
     min (f64_to_i64 ov (retry_delay * 2 ^ (attempts - 1))) five_minutes"

section \<open>Lemmas\<close>

text \<open>What the \<open>instances_balloon_floor\<close> and \<open>instances_size\<close> constraints ask of a row.\<close>

text \<open>What fits a column of type \<open>integer\<close>; the driver refuses to send anything else.\<close>

definition int4 :: "int \<Rightarrow> bool" where
  "int4 n \<longleftrightarrow> - (2 ^ 31) \<le> n \<and> n < 2 ^ 31"

definition db_size_ok :: "int \<Rightarrow> int \<Rightarrow> int \<Rightarrow> bool \<Rightarrow> bool" where
  "db_size_ok cpu mem floor ballooning \<longleftrightarrow>
     cpu \<ge> 1 \<and> mem \<ge> 512 \<and>
     (if ballooning then floor > 0 \<and> floor \<le> mem else floor = 0)"

definition spec_fits :: "spec \<Rightarrow> bool" where
  "spec_fits s \<longleftrightarrow> db_size_ok (sp_cpu_cores s) (sp_memory_mib s) (sp_memory_min_mib s) (sp_ballooning s)"

lemma validate_spec_None: "validate_spec s = None \<longleftrightarrow>
   sp_cpu_cores s \<ge> 1 \<and> sp_memory_mib s \<ge> 512 \<and>
   (sp_ballooning s \<longrightarrow> 512 \<le> sp_memory_min_mib s \<and> sp_memory_min_mib s \<le> sp_memory_mib s)"
  by (auto simp: validate_spec_def minMemoryMiB_def)

lemma balloon_floor_bounds: "512 \<le> m \<Longrightarrow> 512 \<le> balloon_floor m \<and> balloon_floor m \<le> m"
  by (simp add: balloon_floor_def minMemoryMiB_def go_div_nonneg)

lemma floor_spec_sel [simp]:
  "sp_cpu_cores (floor_spec r s) = sp_cpu_cores s"
  "sp_memory_mib (floor_spec r s) = sp_memory_mib s"
  "sp_ballooning (floor_spec r s) = sp_ballooning s"
  "sp_type_name (floor_spec r s) = sp_type_name s"
  by (simp_all add: floor_spec_def split: option.split)

lemma floor_spec_off: "\<not> sp_ballooning s \<Longrightarrow> sp_memory_min_mib (floor_spec r s) = 0"
  by (simp add: floor_spec_def)

lemma modify_target_off: "\<not> sp_ballooning (modify_target r s) \<Longrightarrow> sp_memory_min_mib (modify_target r s) = 0"
  by (auto simp: modify_target_def Let_def split: option.splits if_splits)

lemma validated_fits:
  "validate_spec s = None \<Longrightarrow> (\<not> sp_ballooning s \<Longrightarrow> sp_memory_min_mib s = 0) \<Longrightarrow> spec_fits s"
  by (auto simp: validate_spec_None spec_fits_def db_size_ok_def)

lemma resolve_spec_Inr:
  assumes "resolve_spec types r = Inr s"
  obtains p where "preset_spec types r = Inr p" and "s = floor_spec r (explicit_spec r p)"
    and "validate_spec s = None"
  using assms by (auto simp: resolve_spec_def Let_def split: sum.splits option.splits)

lemma explicit_spec_sel [simp]:
  "sp_cpu_cores (explicit_spec r s) = override (rq_vcpus r) (sp_cpu_cores s)"
  "sp_memory_mib (explicit_spec r s) = override (rq_memory_mib r) (sp_memory_mib s)"
  "sp_ballooning (explicit_spec r s) \<longleftrightarrow> rq_ballooning r \<noteq> Some False"
  by (auto simp: explicit_spec_def Let_def) (metis (full_types) option.exhaust)

lemma resolve_spec_fits: "resolve_spec types r = Inr s \<Longrightarrow> spec_fits s"
  by (erule resolve_spec_Inr) (auto intro!: validated_fits floor_spec_off)

lemma validate_limits_None:
  "validate_limits l = None \<longleftrightarrow>
     (let q = account_quota l in
      0 \<le> q_instances q \<and> 0 \<le> q_vcpus q \<and> 0 \<le> q_memory_mib q \<and> 0 \<le> q_root_disk_gib q \<and>
      0 \<le> q_volumes q \<and> 0 \<le> q_volume_gib q) \<and>
     0 < volume_size_min l \<and> volume_size_min l \<le> volume_size_max l \<and>
     0 < root_disk_min l \<and> root_disk_min l \<le> root_disk_default l \<and>
     root_disk_default l \<le> root_disk_max l \<and>
     0 \<le> memory_budget_mib l \<and> 0 \<le> node_memory_reserve_mib l \<and> 0 \<le> image_store_min_free_mib l \<and>
     0 \<le> max_image_gib l \<and> 0 \<le> vm_disk_max_used_percent l \<and> vm_disk_max_used_percent l \<le> 100"
  by (auto simp: validate_limits_def Let_def)

lemma with_no_overrides [simp]: "with_overrides l no_overrides = l"
  by (simp add: with_overrides_def no_overrides_def)

lemma site_ok_limits:
  assumes "site_ok s" and "0 \<le> node_memory_reserve_mib (s_limits s)"
    and "0 \<le> image_store_min_free_mib (s_limits s)" and "0 \<le> max_image_gib (s_limits s)"
  shows "validate_limits (s_limits s) = None"
  using assms by (simp add: validate_limits_None site_ok_def validate_site_def check_limits_def Let_def)

section \<open>Properties of sizes, limits and delays\<close>

text \<open>
  A launch that \<open>resolveSpec\<close> accepts gets every number it named, keeps a preset's name only
  when it named none, and always satisfies the \<open>instances_size\<close> and \<open>instances_balloon_floor\<close>
  constraints, so the row can be inserted.
\<close>

theorem resolve_spec_sound:
  assumes "resolve_spec types r = Inr s"
  shows "db_size_ok (sp_cpu_cores s) (sp_memory_mib s) (sp_memory_min_mib s) (sp_ballooning s) \<and>
    (rq_vcpus r = Some c \<longrightarrow> sp_cpu_cores s = c) \<and>
    (rq_memory_mib r = Some m \<longrightarrow> sp_memory_mib s = m) \<and>
    (rq_memory_min_mib r = Some f \<longrightarrow> rq_ballooning r \<noteq> Some False \<longrightarrow> sp_memory_min_mib s = f) \<and>
    (sp_type_name s \<noteq> '''' \<longrightarrow> (\<exists>t. gomap_get types (sp_type_name s) = Some t \<and>
        sp_cpu_cores s = it_cpu_cores t \<and> sp_memory_mib s = it_memory_mib t))"
proof -
  from assms obtain p where p: "preset_spec types r = Inr p"
    and s: "s = floor_spec r (explicit_spec r p)"
    by (rule resolve_spec_Inr)
  have "sp_memory_min_mib s = f" if "rq_memory_min_mib r = Some f" "rq_ballooning r \<noteq> Some False"
    using that s by (simp add: floor_spec_def)
  moreover have "\<exists>t. gomap_get types (sp_type_name s) = Some t \<and>
      sp_cpu_cores s = it_cpu_cores t \<and> sp_memory_mib s = it_memory_mib t"
    if "sp_type_name s \<noteq> ''''"
    using that s p
    by (auto simp: explicit_spec_def preset_spec_def Let_def split: if_splits option.splits)
  ultimately show ?thesis
    using resolve_spec_fits [OF assms] s by (auto simp: spec_fits_def)
qed

theorem resolve_spec_sound_witness:
  "resolve_spec (instance_types example_site)
     \<lparr>rq_instance_type = ''s1.small'', rq_vcpus = Some 3, rq_memory_mib = None,
      rq_memory_min_mib = None, rq_ballooning = None\<rparr>
   = Inr \<lparr>sp_cpu_cores = 3, sp_memory_mib = 2048, sp_memory_min_mib = 1024, sp_ballooning = True,
          sp_type_name = ''''\<rparr> \<and> db_size_ok 3 2048 1024 True"
proof -
  have res: "resolve_spec (instance_types example_site)
     \<lparr>rq_instance_type = ''s1.small'', rq_vcpus = Some 3, rq_memory_mib = None,
      rq_memory_min_mib = None, rq_ballooning = None\<rparr>
   = Inr \<lparr>sp_cpu_cores = 3, sp_memory_mib = 2048, sp_memory_min_mib = 1024, sp_ballooning = True,
          sp_type_name = ''''\<rparr>"
    by (simp add: resolve_spec_def preset_spec_def explicit_spec_def floor_spec_def validate_spec_def
        example_site_def gomap_get_def Let_def minMemoryMiB_def)
  then show ?thesis
    using resolve_spec_sound [OF res] by simp
qed

text \<open>
  C38. A resize and a launch that name the same numbers end with the same size and are refused for
  the same sizes, whatever size the instance had: the two admission paths cannot drift apart.
\<close>

theorem resize_matches_launch:
  "let t = modify_target \<lparr>m_vcpus = Some c, m_memory_mib = Some m, m_memory_min_mib = f,
                          m_ballooning = Some b, m_root_disk_gib = d\<rparr> cur;
       launch = resolve_spec types \<lparr>rq_instance_type = '''', rq_vcpus = Some c,
                  rq_memory_mib = Some m, rq_memory_min_mib = f, rq_ballooning = Some b\<rparr>
   in (case validate_spec t of
         Some e \<Rightarrow> launch = Inl e
       | None \<Rightarrow> \<exists>s. launch = Inr s \<and> sp_cpu_cores s = sp_cpu_cores t \<and>
                   sp_memory_mib s = sp_memory_mib t \<and>
                   sp_memory_min_mib s = sp_memory_min_mib t \<and> sp_ballooning s = sp_ballooning t)"
  by (cases f; cases b)
    (auto simp: modify_target_def resolve_spec_def preset_spec_def explicit_spec_def floor_spec_def
      validate_spec_def Let_def split: option.splits if_splits)

text \<open>
  A resize that changes only the disk leaves cpu, memory and ballooning exactly as they are, so
  it never needs the instance to be stopped.
\<close>

theorem resize_disk_only_keeps_size:
  assumes "spec_fits cur"
  shows "modify_target \<lparr>m_vcpus = None, m_memory_mib = None, m_memory_min_mib = None,
           m_ballooning = None, m_root_disk_gib = d\<rparr> cur = cur"
  using assms by (cases cur) (auto simp: modify_target_def spec_fits_def db_size_ok_def Let_def)

theorem resize_disk_only_keeps_size_witness:
  "modify_target \<lparr>m_vcpus = None, m_memory_mib = None, m_memory_min_mib = None,
           m_ballooning = None, m_root_disk_gib = Some 40\<rparr>
     \<lparr>sp_cpu_cores = 2, sp_memory_mib = 4096, sp_memory_min_mib = 1024, sp_ballooning = True,
      sp_type_name = ''''\<rparr>
   = \<lparr>sp_cpu_cores = 2, sp_memory_mib = 4096, sp_memory_min_mib = 1024, sp_ballooning = True,
      sp_type_name = ''''\<rparr>"
  by (rule resize_disk_only_keeps_size) (simp add: spec_fits_def db_size_ok_def)

text \<open>
  As long as the doubled delay fits an \<open>int64\<close>, the retry delay is the exponential one capped
  at five minutes: at least the first delay (or the cap) and never decreasing in the attempts.
\<close>

theorem backoff_in_range:
  assumes "0 < delay" and "delay * 2 ^ (Suc n - 1) \<le> max_i64"
  shows "backoff ov delay (Suc n) = min (delay * 2 ^ n) five_minutes \<and>
         min delay five_minutes \<le> backoff ov delay (Suc n) \<and>
         backoff ov delay (Suc n) \<le> five_minutes \<and>
         backoff ov delay n \<le> backoff ov delay (Suc n)"
proof -
  have pos: "0 \<le> delay * 2 ^ n" and grow: "delay * 1 \<le> delay * 2 ^ n"
    using assms(1) by (simp_all only: mult_le_cancel_left_pos) simp_all
  have prev: "delay * 2 ^ (n - 1) \<le> delay * 2 ^ n"
    using assms(1) by (simp add: power_increasing)
  have "0 \<le> delay * 2 ^ (n - 1)"
    using assms(1) by simp
  then have in64: "in_i64 (delay * 2 ^ n)" "in_i64 (delay * 2 ^ (n - 1))"
    using pos prev assms(2) by (auto intro!: in_i64_nonneg)
  then show ?thesis
    using grow prev by (auto simp: backoff_def f64_to_i64_def)
qed

theorem backoff_in_range_witness:
  "backoff (\<lambda>_. min_i64) 5000000000 31 = five_minutes"
  using backoff_in_range [of 5000000000 30 "\<lambda>_. min_i64"] by (simp add: max_i64_def five_minutes_def)

text \<open>
  C39. With the deployment's five-second first delay, the 32nd and every later attempt no longer
  fits: on amd64 the delay is then the smallest \<open>int64\<close>, so the next attempt is due in the past and
  the five-minute cap is gone. Only actions that are never given up (terminate, detach, delete)
  get that far.
\<close>

theorem backoff_overflow_amd64:
  assumes "32 \<le> attempts"
  shows "backoff (\<lambda>_. min_i64) 5000000000 attempts = min_i64"
proof -
  have "(2::int) ^ 31 \<le> 2 ^ (attempts - 1)"
    using assms by (intro power_increasing) auto
  then have "\<not> in_i64 (5000000000 * 2 ^ (attempts - 1))"
    by (simp add: in_i64_def max_i64_def)
  then show ?thesis
    by (simp add: backoff_def f64_to_i64_def min_i64_def five_minutes_def)
qed

theorem backoff_overflow_amd64_witness: "backoff (\<lambda>_. min_i64) 5000000000 32 < 0"
  using backoff_overflow_amd64 [of 32] by (simp add: min_i64_def)

end
