(* ===== verification/Row_Lifecycle.thy ===== *)
theory Row_Lifecycle
  imports Go_Lib
begin

text \<open>
  How a table of rows with a lifecycle changes: rows are updated in place or appended, never
  removed, and each row moves along the transitions of its lifecycle. The instance ledger and the
  volume ledger interpret the locale on their own row invariant and transitions; worker programs
  then carry \<open>table_evolves\<close> through their statements, whatever other requests do in between.
\<close>

definition table_evolves ::
    "('r \<Rightarrow> bool) \<Rightarrow> ('r \<Rightarrow> 'r \<Rightarrow> bool) \<Rightarrow> 'r list \<Rightarrow> 'r list \<Rightarrow> bool" where
  "table_evolves ok nxt t t' \<longleftrightarrow> (list_all ok t \<longrightarrow>
     list_all ok t' \<and> length t \<le> length t' \<and> list_all2 nxt t (take (length t) t'))"

locale row_lifecycle =
  fixes ok :: "'r \<Rightarrow> bool"
    and nxt :: "'r \<Rightarrow> 'r \<Rightarrow> bool"
  assumes nxt_refl: "nxt r r"
    and nxt_trans: "nxt r s \<Longrightarrow> nxt s q \<Longrightarrow> nxt r q"
begin

lemma evolves_refl: "table_evolves ok nxt t t"
  by (simp add: table_evolves_def list.rel_refl nxt_refl)

lemma evolves_trans:
  assumes "table_evolves ok nxt t u" and "table_evolves ok nxt u v"
  shows "table_evolves ok nxt t v"
proof -
  have "list_all2 nxt t (take (length t) v)"
    if tu: "list_all2 nxt t (take (length t) u)" and uv: "list_all2 nxt u (take (length u) v)"
      and len: "length t \<le> length u"
  proof -
    from uv have "list_all2 nxt (take (length t) u) (take (length t) (take (length u) v))"
      by (rule list_all2_takeI)
    with len have "list_all2 nxt (take (length t) u) (take (length t) v)"
      by (simp add: min.absorb1)
    with tu show ?thesis
      by (rule list_all2_trans [rotated]) (rule nxt_trans)
  qed
  then show ?thesis
    using assms unfolding table_evolves_def by auto
qed

lemma evolves_update:
  assumes "\<And>r. ok r \<Longrightarrow> c r \<Longrightarrow> ok (f r) \<and> nxt r (f r)"
  shows "table_evolves ok nxt t (update_where c f t)"
proof -
  have "list_all ok (update_where c f t) \<and> list_all2 nxt t (update_where c f t)" if "list_all ok t"
    using that assms nxt_refl by (induction t) (auto simp: update_where_def)
  then show ?thesis
    by (simp add: table_evolves_def)
qed

lemma evolves_append: "ok r \<Longrightarrow> table_evolves ok nxt t (t @ [r])"
  by (simp add: table_evolves_def list.rel_refl nxt_refl)

lemma evolves_nth:
  assumes "table_evolves ok nxt t t'" and "list_all ok t" and "n < length t"
  shows "n < length t' \<and> ok (t' ! n) \<and> nxt (t ! n) (t' ! n)"
  using assms by (auto simp: table_evolves_def list_all2_conv_all_nth list_all_length)

lemma evolves_ok: "table_evolves ok nxt t t' \<Longrightarrow> list_all ok t \<Longrightarrow> list_all ok t'"
  by (simp add: table_evolves_def)

end

end
