(* ===== verification/Work_Queue.thy ===== *)
theory Work_Queue
  imports Go_Lib "HOL-Library.Product_Lexorder" "HOL-Library.List_Lexorder" "HOL-Library.Char_ord"
begin

text \<open>
  The statement all three of the worker's queues share (\<open>ClaimWork\<close>, \<open>ClaimVolumeWork\<close>,
  \<open>ClaimFirewallWork\<close>): among the rows with work due, take the first in the order of the next
  attempt and the ID, and write a lease on it. The locale is the contract a row type keeps so that
  two workers never hold the same row; the ledgers interpret it on their own rows.
\<close>

text \<open>\<open>UPDATE ... WHERE id = (SELECT id ... ORDER BY ... LIMIT 1 FOR UPDATE SKIP LOCKED) RETURNING\<close>.\<close>

definition claim_first ::
    "('r \<Rightarrow> string) \<Rightarrow> ('r \<Rightarrow> bool) \<Rightarrow> ('r \<Rightarrow> int \<times> string) \<Rightarrow> ('r \<Rightarrow> 'r) \<Rightarrow> 'r list \<Rightarrow> 'r res \<times> 'r list" where
  "claim_first key due ord hold t =
     (case sort_key ord (filter due t) of
        [] \<Rightarrow> (Inl NotFound, t)
      | r # _ \<Rightarrow> (Inr (hold r), update_where (\<lambda>x. key x = key r) hold t))"

lemma claim_first_cases:
  obtains (none) "claim_first key due ord hold t = (Inl NotFound, t)" "\<forall>r \<in> set t. \<not> due r"
  | (some) r where
      "claim_first key due ord hold t = (Inr (hold r), update_where (\<lambda>x. key x = key r) hold t)"
      "r \<in> set t" "due r" "\<forall>x \<in> set t. due x \<longrightarrow> ord r \<le> ord x"
proof (cases "sort_key ord (filter due t)")
  case Nil
  then have "filter due t = []"
    by (metis length_0_conv length_sort)
  then show thesis
    using none Nil by (simp add: claim_first_def filter_empty_conv)
next
  case (Cons r rs)
  have "set (sort_key ord (filter due t)) = {x \<in> set t. due x}" by simp
  with Cons have mem: "r \<in> set t" "due r" and all: "\<And>x. x \<in> set t \<Longrightarrow> due x \<Longrightarrow> x = r \<or> x \<in> set rs"
    by auto
  have "sorted (map ord (r # rs))"
    using Cons by (metis sorted_sort_key)
  then have "\<forall>x \<in> set t. due x \<longrightarrow> ord r \<le> ord x"
    using all by auto
  then show thesis
    using some Cons mem by (simp add: claim_first_def)
qed

locale leased_queue =
  fixes key :: "'r \<Rightarrow> string"
    and due :: "int \<Rightarrow> 'r \<Rightarrow> bool"
    and ord :: "'r \<Rightarrow> int \<times> string"
    and hold :: "int \<Rightarrow> 'r \<Rightarrow> 'r"
  assumes key_hold: "key (hold u r) = key r"
    and hold_blocks: "now \<le> u \<Longrightarrow> \<not> due now (hold u r)"
begin

lemma claim_keys:
  "map key (snd (claim_first key (due now) ord (hold u) t)) = map key t"
  by (cases rule: claim_first_cases [of key "due now" ord "hold u" t])
    (auto simp: update_where_def key_hold)

lemma claim_only_due:
  assumes "claim_first key (due now) ord (hold u) t = (Inr r, t')"
  obtains r0 where "r0 \<in> set t" "due now r0" "r = hold u r0" "\<forall>x \<in> set t. due now x \<longrightarrow> ord r0 \<le> ord x"
  using assms by (cases rule: claim_first_cases [of key "due now" ord "hold u" t]) auto

lemma claim_none_iff:
  "fst (claim_first key (due now) ord (hold u) t) = Inl NotFound \<longleftrightarrow> (\<forall>r \<in> set t. \<not> due now r)"
  by (cases rule: claim_first_cases [of key "due now" ord "hold u" t]) auto

text \<open>A row under a lease that has not run out is not claimed again.\<close>

lemma claim_excludes:
  assumes first: "claim_first key (due now) ord (hold u) t = (Inr r, t')"
    and later: "now' \<le> u"
    and second: "claim_first key (due now') ord (hold u') t' = (Inr r', t'')"
  shows "key r' \<noteq> key r"
proof -
  from first obtain r0 where r: "r = hold u r0"
    and t': "t' = update_where (\<lambda>x. key x = key r0) (hold u) t"
    by (cases rule: claim_first_cases [of key "due now" ord "hold u" t]) auto
  from second obtain r1 where r1: "r1 \<in> set t'" "due now' r1" "r' = hold u' r1"
    by (rule claim_only_due)
  have "key r1 \<noteq> key r0"
    using r1 hold_blocks [OF later] unfolding t' by (auto simp: set_update_where)
  then show ?thesis
    by (simp add: r r1(3) key_hold)
qed

text \<open>Rows other than the claimed one are left as they are.\<close>

lemma claim_frame:
  assumes "claim_first key (due now) ord (hold u) t = (Inr r, t')"
  shows "filter (\<lambda>x. key x \<noteq> key r) t' = filter (\<lambda>x. key x \<noteq> key r) t"
proof -
  from assms obtain r0 where r: "r = hold u r0"
    and t': "t' = update_where (\<lambda>x. key x = key r0) (hold u) t"
    by (cases rule: claim_first_cases [of key "due now" ord "hold u" t]) auto
  show ?thesis
    unfolding t' r key_hold by (induction t) (simp_all add: update_where_def key_hold)
qed

end

end
