(* ===== verification/Instance_Ledger.thy ===== *)
theory Instance_Ledger
  imports Work_Queue Row_Lifecycle Sizing
begin

text \<open>
  \<open>api/internal/db/instances.go\<close>: the \<open>instances\<close> table, one definition per SQL statement, with the
  constraints the migrations put on it. \<open>NULL\<close> text columns are the empty string, as \<open>coalesce\<close> and
  \<open>nullif\<close> make them for the Go code. Times are nanoseconds, \<open>now\<close> is the statement's \<open>now()\<close>.
\<close>

section \<open>Rows\<close>

datatype inst_state = StatePending | StateRunning | StateStopping | StateStopped
  | StateShuttingDown | StateTerminated

datatype action = ActionLaunch | ActionStart | ActionStop | ActionReboot | ActionTerminate

record instance_row =
  i_id :: string
  i_account :: string
  i_client_token :: string
  i_request_hash :: "nat list"
  i_name :: string
  i_image :: string
  i_guest_os :: string
  i_install_iso :: string
  i_driver_iso :: string
  i_type :: string
  i_cpu :: int
  i_memory :: int
  i_memory_min :: int
  i_ballooning :: bool
  i_root_disk :: int
  i_disk_tier :: string
  i_subnet :: string
  i_user_data :: string
  i_key_name :: string
  i_key_public :: string
  i_tags :: "(string, string) gomap"
  i_state :: inst_state
  i_pending :: "action option"
  i_state_reason :: string
  i_last_error :: string
  i_attempts :: nat
  i_next_attempt :: int
  i_lease_until :: "int option"
  i_vmid :: "int option"
  i_vm_created :: bool
  i_mac :: string
  i_ip :: string
  i_netbox_ip :: "int option"
  i_seed_volume :: string
  i_launch_time :: int
  i_terminated_at :: "int option"
  i_updated_at :: int
  i_adopted :: bool
  i_fw_generation :: int
  i_fw_applied :: int
  i_fw_last_error :: string
  i_fw_next_attempt :: int
  i_fw_lease_until :: "int option"

text \<open>The worker's \<open>Resources\<close>: what it has created for an instance.\<close>

record resources =
  r_vmid :: "int option"
  r_vm_created :: bool
  r_ip :: string
  r_netbox_ip :: "int option"
  r_seed_volume :: string

type_synonym inst_table = "instance_row list"

definition live :: "instance_row \<Rightarrow> bool" where
  "live i \<longleftrightarrow> i_state i \<noteq> StateTerminated"

definition by_id :: "string \<Rightarrow> instance_row \<Rightarrow> bool" where
  "by_id k i \<longleftrightarrow> i_id i = k"

section \<open>Constraints\<close>

definition live_vmids :: "inst_table \<Rightarrow> int list" where
  "live_vmids t = List.map_filter i_vmid (filter live t)"

definition client_tokens :: "inst_table \<Rightarrow> (string \<times> string) list" where
  "client_tokens t = map (\<lambda>i. (i_account i, i_client_token i)) (filter (\<lambda>i. i_client_token i \<noteq> '''') t)"

definition row_size_ok :: "instance_row \<Rightarrow> bool" where
  "row_size_ok i \<longleftrightarrow> db_size_ok (i_cpu i) (i_memory i) (i_memory_min i) (i_ballooning i) \<and> i_root_disk i \<ge> 1 \<and>
     int4 (i_cpu i) \<and> int4 (i_memory i) \<and> int4 (i_memory_min i) \<and> int4 (i_root_disk i)"

definition inst_constraints :: "inst_table \<Rightarrow> bool" where
  "inst_constraints t \<longleftrightarrow>
     distinct (map i_id t) \<and> distinct (live_vmids t) \<and> distinct (client_tokens t) \<and>
     list_all row_size_ok t"

text \<open>PostgreSQL refuses a statement whose result breaks a constraint, and then changes nothing.\<close>

definition constrained :: "inst_table \<Rightarrow> inst_table \<Rightarrow> 'a res \<Rightarrow> 'a res \<times> inst_table" where
  "constrained t t' r = (if inst_constraints t' then (r, t') else (Inl (Failed ''constraint violation''), t))"

section \<open>Statements\<close>

definition InsertInstance :: "int \<Rightarrow> instance_row \<Rightarrow> inst_table \<Rightarrow> instance_row res \<times> inst_table" where
  "InsertInstance now i t =
     (let row = i\<lparr>i_state := StatePending, i_pending := Some ActionLaunch, i_state_reason := '''',
            i_last_error := '''', i_attempts := 0, i_next_attempt := now, i_lease_until := None,
            i_disk_tier := (if i_disk_tier i = '''' then TierSSD else i_disk_tier i),
            i_vm_created := False, i_ip := '''', i_netbox_ip := None, i_seed_volume := '''',
            i_launch_time := now, i_terminated_at := None, i_updated_at := now, i_adopted := False,
            i_fw_generation := 0, i_fw_applied := 0, i_fw_last_error := '''',
            i_fw_next_attempt := now, i_fw_lease_until := None\<rparr>
      in constrained t (t @ [row]) (Inr row))"

definition InsertAdoptedInstance ::
    "int \<Rightarrow> instance_row \<Rightarrow> inst_table \<Rightarrow> instance_row res \<times> inst_table" where
  "InsertAdoptedInstance now i t =
     (let row = i\<lparr>i_client_token := '''', i_request_hash := [], i_guest_os := '''',
            i_install_iso := '''', i_driver_iso := '''', i_user_data := '''',
            i_key_name := '''', i_key_public := '''',
            i_pending := None, i_state_reason := '''',
            i_last_error := '''', i_attempts := 0, i_next_attempt := now, i_lease_until := None,
            i_disk_tier := (if i_disk_tier i = '''' then TierSSD else i_disk_tier i),
            i_vm_created := True, i_netbox_ip := None, i_seed_volume := '''',
            i_launch_time := now, i_terminated_at := None, i_updated_at := now, i_adopted := True,
            i_fw_generation := 0, i_fw_applied := 0, i_fw_last_error := '''',
            i_fw_next_attempt := now, i_fw_lease_until := None\<rparr>
      in constrained t (t @ [row]) (Inr row))"

definition GetInstance :: "string \<Rightarrow> inst_table \<Rightarrow> instance_row res" where
  "GetInstance k t = select_one (by_id k) t"

definition InstanceByClientToken :: "string \<Rightarrow> string \<Rightarrow> inst_table \<Rightarrow> instance_row res" where
  "InstanceByClientToken acct token t =
     select_one (\<lambda>i. i_account i = acct \<and> token \<noteq> '''' \<and> i_client_token i = token) t"

definition LiveInstanceByVMID :: "int \<Rightarrow> inst_table \<Rightarrow> instance_row res" where
  "LiveInstanceByVMID v t = select_one (\<lambda>i. i_vmid i = Some v \<and> live i) t"

definition one_hour :: int where "one_hour = 3600 * 10 ^ 9"

definition ListInstances :: "int \<Rightarrow> string \<Rightarrow> inst_table \<Rightarrow> instance_row list" where
  "ListInstances now acct t =
     sort_key (\<lambda>i. - i_launch_time i) (sort_key i_id
       (filter (\<lambda>i. (acct = '''' \<or> i_account i = acct) \<and>
                    (live i \<or> (case i_terminated_at i of None \<Rightarrow> False
                               | Some at \<Rightarrow> at > now - one_hour))) t))"

text \<open>Updates of one row: \<open>WHERE instance_id = $1\<close>, and with \<open>AND pending_action = $2\<close>.\<close>

definition set_row :: "string \<Rightarrow> (instance_row \<Rightarrow> instance_row) \<Rightarrow> inst_table \<Rightarrow> inst_table" where
  "set_row k f t = update_where (by_id k) f t"

definition set_if_pending ::
    "string \<Rightarrow> action \<Rightarrow> (instance_row \<Rightarrow> instance_row) \<Rightarrow> inst_table \<Rightarrow> inst_table" where
  "set_if_pending k a f t = update_where (\<lambda>i. by_id k i \<and> i_pending i = Some a) f t"

definition SetInstanceTags ::
    "int \<Rightarrow> string \<Rightarrow> string \<Rightarrow> (string, string) gomap \<Rightarrow> inst_table \<Rightarrow> unit res \<times> inst_table" where
  "SetInstanceTags now k name tags t =
     constrained t (set_row k (\<lambda>i. i\<lparr>i_tags := tags, i_name := name, i_updated_at := now\<rparr>) t) (Inr ())"

definition RecordResources :: "int \<Rightarrow> string \<Rightarrow> resources \<Rightarrow> inst_table \<Rightarrow> unit res \<times> inst_table" where
  "RecordResources now k r t =
     constrained t (set_row k (\<lambda>i. i\<lparr>i_vmid := r_vmid r, i_vm_created := r_vm_created r,
       i_ip := r_ip r, i_netbox_ip := r_netbox_ip r, i_seed_volume := r_seed_volume r,
       i_updated_at := now\<rparr>) t) (Inr ())"

definition ReleaseLease :: "string \<Rightarrow> inst_table \<Rightarrow> unit res \<times> inst_table" where
  "ReleaseLease k t = constrained t (set_row k (\<lambda>i. i\<lparr>i_lease_until := None\<rparr>) t) (Inr ())"

definition finish_row :: "int \<Rightarrow> inst_state \<Rightarrow> string \<Rightarrow> instance_row \<Rightarrow> instance_row" where
  "finish_row now st reason i =
     i\<lparr>i_state := st, i_pending := None, i_state_reason := reason, i_last_error := '''',
       i_attempts := 0, i_lease_until := None, i_updated_at := now,
       i_terminated_at := (if st = StateTerminated then Some now else i_terminated_at i)\<rparr>"

definition FinishAction ::
    "int \<Rightarrow> string \<Rightarrow> action \<Rightarrow> inst_state \<Rightarrow> string \<Rightarrow> inst_table \<Rightarrow> bool res \<times> inst_table" where
  "FinishAction now k a st reason t =
     (case constrained t (set_if_pending k a (finish_row now st reason) t) (Inr ()) of
        (Inl e, t') \<Rightarrow> (Inl e, t')
      | (Inr _, t') \<Rightarrow>
          if (\<exists>i \<in> set t. by_id k i \<and> i_pending i = Some a) then (Inr True, t')
          else case ReleaseLease k t' of (Inl e, t'') \<Rightarrow> (Inl e, t'') | (Inr _, t'') \<Rightarrow> (Inr False, t''))"

definition RetryLater ::
    "int \<Rightarrow> string \<Rightarrow> action \<Rightarrow> string \<Rightarrow> int \<Rightarrow> inst_table \<Rightarrow> unit res \<times> inst_table" where
  "RetryLater now k a last_error next t =
     (case constrained t (set_if_pending k a (\<lambda>i. i\<lparr>i_attempts := i_attempts i + 1,
         i_last_error := last_error, i_next_attempt := next, i_lease_until := None,
         i_updated_at := now\<rparr>) t) (Inr ()) of
        (Inl e, t') \<Rightarrow> (Inl e, t')
      | (Inr _, t') \<Rightarrow> ReleaseLease k t')"

definition AbandonLaunch :: "int \<Rightarrow> string \<Rightarrow> string \<Rightarrow> inst_table \<Rightarrow> unit res \<times> inst_table" where
  "AbandonLaunch now k reason t =
     constrained t (set_if_pending k ActionLaunch (\<lambda>i. i\<lparr>i_state := StateShuttingDown,
       i_pending := Some ActionTerminate, i_state_reason := reason, i_attempts := 0,
       i_next_attempt := now, i_lease_until := None, i_updated_at := now\<rparr>) t) (Inr ())"

definition GiveUpAction ::
    "int \<Rightarrow> string \<Rightarrow> action \<Rightarrow> inst_state \<Rightarrow> string \<Rightarrow> inst_table \<Rightarrow> unit res \<times> inst_table" where
  "GiveUpAction now k a st reason t =
     constrained t (set_if_pending k a (\<lambda>i. i\<lparr>i_state := st, i_pending := None,
       i_state_reason := reason, i_attempts := 0, i_lease_until := None, i_updated_at := now\<rparr>) t) (Inr ())"

text \<open>\<open>UPDATE ... RETURNING\<close>: the new row, or \<open>ErrNotFound\<close>.\<close>

definition returning :: "string \<Rightarrow> unit res \<times> inst_table \<Rightarrow> instance_row res \<times> inst_table" where
  "returning k p = (case p of (Inl e, t) \<Rightarrow> (Inl e, t) | (Inr _, t) \<Rightarrow> (GetInstance k t, t))"

definition SetSpec ::
    "int \<Rightarrow> string \<Rightarrow> int \<Rightarrow> int \<Rightarrow> int \<Rightarrow> bool \<Rightarrow> int \<Rightarrow> inst_table \<Rightarrow> instance_row res \<times> inst_table" where
  "SetSpec now k cpu mem floor ballooning disk t =
     returning k (constrained t (set_row k (\<lambda>i. i\<lparr>i_cpu := cpu, i_memory := mem,
       i_memory_min := floor, i_ballooning := ballooning, i_root_disk := disk, i_type := '''',
       i_updated_at := now\<rparr>) t) (Inr ()))"

definition SetAction ::
    "int \<Rightarrow> string \<Rightarrow> inst_state \<Rightarrow> action \<Rightarrow> inst_table \<Rightarrow> instance_row res \<times> inst_table" where
  "SetAction now k st a t =
     returning k (constrained t (set_row k (\<lambda>i. i\<lparr>i_state := st, i_pending := Some a,
       i_attempts := 0, i_last_error := '''', i_next_attempt := now, i_updated_at := now\<rparr>) t) (Inr ()))"

definition lease_free :: "int \<Rightarrow> int option \<Rightarrow> bool" where
  "lease_free now l = (case l of None \<Rightarrow> True | Some u \<Rightarrow> u < now)"

definition SettledInstances :: "int \<Rightarrow> inst_table \<Rightarrow> instance_row list" where
  "SettledInstances now t = filter (\<lambda>i. (i_state i = StateRunning \<or> i_state i = StateStopped) \<and>
     i_pending i = None \<and> lease_free now (i_lease_until i)) t"

definition UnterminatedInstances :: "inst_table \<Rightarrow> instance_row list" where
  "UnterminatedInstances t = sort_key i_id (filter live t)"

definition ObserveState ::
    "int \<Rightarrow> string \<Rightarrow> inst_state \<Rightarrow> inst_state \<Rightarrow> string \<Rightarrow> inst_table \<Rightarrow> unit res \<times> inst_table" where
  "ObserveState now k from to reason t =
     constrained t (update_where (\<lambda>i. by_id k i \<and> i_state i = from \<and> i_pending i = None)
       (\<lambda>i. i\<lparr>i_state := to, i_state_reason := reason, i_updated_at := now\<rparr>) t) (Inr ())"

definition NoteReason :: "int \<Rightarrow> string \<Rightarrow> string \<Rightarrow> inst_table \<Rightarrow> unit res \<times> inst_table" where
  "NoteReason now k reason t =
     constrained t (update_where (\<lambda>i. by_id k i \<and> i_pending i = None \<and> i_state_reason i \<noteq> reason)
       (\<lambda>i. i\<lparr>i_state_reason := reason, i_updated_at := now\<rparr>) t) (Inr ())"

subsection \<open>Claiming work\<close>

definition action_due :: "int \<Rightarrow> instance_row \<Rightarrow> bool" where
  "action_due now i \<longleftrightarrow> i_pending i \<noteq> None \<and> i_next_attempt i \<le> now \<and> lease_free now (i_lease_until i)"

definition action_order :: "instance_row \<Rightarrow> int \<times> string" where
  "action_order i = (i_next_attempt i, i_id i)"

definition hold_lease :: "int \<Rightarrow> instance_row \<Rightarrow> instance_row" where
  "hold_lease until i = i\<lparr>i_lease_until := Some until\<rparr>"

definition ClaimWork :: "int \<Rightarrow> int \<Rightarrow> inst_table \<Rightarrow> instance_row res \<times> inst_table" where
  "ClaimWork now lease t = claim_first i_id (action_due now) action_order (hold_lease (now + lease)) t"

subsection \<open>VMIDs and usage\<close>

definition AllocateVMID :: "int \<Rightarrow> int \<Rightarrow> int list \<Rightarrow> int list \<Rightarrow> inst_table \<Rightarrow> int res" where
  "AllocateVMID from to skip quarantine t =
     (case find (\<lambda>v. v \<notin> set skip \<and> v \<notin> set (live_vmids t) \<and> v \<notin> set quarantine) [from..to] of
        None \<Rightarrow> Inl NoVMID | Some v \<Rightarrow> Inr v)"

record usage =
  u_instances :: int
  u_vcpus :: int
  u_memory :: int
  u_root_disk :: int
  u_volumes :: int
  u_volume_gib :: int

text \<open>The instance half of \<open>usageQuery\<close>; an empty account is every account.\<close>

definition held :: "string \<Rightarrow> inst_table \<Rightarrow> instance_row list" where
  "held acct t = filter (\<lambda>i. (acct = '''' \<or> i_account i = acct) \<and> live i) t"

definition instance_usage :: "string \<Rightarrow> inst_table \<Rightarrow> usage" where
  "instance_usage acct t =
     \<lparr>u_instances = int (length (held acct t)),
      u_vcpus = sum_list (map i_cpu (held acct t)),
      u_memory = sum_list (map i_memory (held acct t)),
      u_root_disk = sum_list (map i_root_disk (held acct t)),
      u_volumes = 0, u_volume_gib = 0\<rparr>"

definition LiveMemoryMiB :: "inst_table \<Rightarrow> int" where
  "LiveMemoryMiB t = sum_list (map i_memory (filter live t))"


section \<open>Lifecycle\<close>

text \<open>
  What a row is doing is its state and its pending action. \<open>phase_ok\<close> lists the pairs the code
  uses; \<open>life_edge\<close> lists the moves between them: what \<open>Request\<close> records, what the worker
  finishes or gives up, and what the reconciler observes.
\<close>

type_synonym phase = "inst_state \<times> action option"

definition phase :: "instance_row \<Rightarrow> phase" where
  "phase i = (i_state i, i_pending i)"

fun phase_ok :: "phase \<Rightarrow> bool" where
  "phase_ok (StatePending, p) = (p = Some ActionLaunch \<or> p = Some ActionStart)"
| "phase_ok (StateRunning, p) = (p = None \<or> p = Some ActionReboot)"
| "phase_ok (StateStopping, p) = (p = Some ActionStop)"
| "phase_ok (StateStopped, p) = (p = None)"
| "phase_ok (StateShuttingDown, p) = (p = Some ActionTerminate)"
| "phase_ok (StateTerminated, p) = (p = None)"

inductive life_edge :: "phase \<Rightarrow> phase \<Rightarrow> bool" where
  ask_stop: "life_edge (StateRunning, None) (StateStopping, Some ActionStop)"
| ask_start: "life_edge (StateStopped, None) (StatePending, Some ActionStart)"
| ask_reboot: "life_edge (StateRunning, None) (StateRunning, Some ActionReboot)"
| ask_terminate: "s \<noteq> StateTerminated \<Longrightarrow> p \<noteq> Some ActionTerminate \<Longrightarrow>
    life_edge (s, p) (StateShuttingDown, Some ActionTerminate)"
| launched: "life_edge (StatePending, Some ActionLaunch) (StateRunning, None)"
| started: "life_edge (StatePending, Some ActionStart) (StateRunning, None)"
| stopped: "life_edge (StateStopping, Some ActionStop) (StateStopped, None)"
| rebooted: "life_edge (StateRunning, Some ActionReboot) (StateRunning, None)"
| terminated: "life_edge (StateShuttingDown, Some ActionTerminate) (StateTerminated, None)"
| start_given_up: "life_edge (StatePending, Some ActionStart) (StateStopped, None)"
| stop_given_up: "life_edge (StateStopping, Some ActionStop) (StateRunning, None)"
| seen_stopped: "life_edge (StateRunning, None) (StateStopped, None)"
| seen_running: "life_edge (StateStopped, None) (StateRunning, None)"

inductive_cases from_terminated: "life_edge (StateTerminated, p) q"

lemma life_edge_ok: "life_edge a b \<Longrightarrow> phase_ok a \<Longrightarrow> phase_ok b"
  by (cases rule: life_edge.cases) auto

lemma life_path_ok: "life_edge\<^sup>*\<^sup>* a b \<Longrightarrow> phase_ok a \<Longrightarrow> phase_ok b"
  by (induction rule: rtranclp_induct) (auto dest: life_edge_ok)

lemma terminated_stays: "life_edge\<^sup>*\<^sup>* (StateTerminated, None) b \<Longrightarrow> b = (StateTerminated, None)"
  by (induction rule: rtranclp_induct) (auto elim: from_terminated)

text \<open>What a statement may do to one row: its identity stays, its phase moves along the edges.\<close>

definition row_ok :: "instance_row \<Rightarrow> bool" where
  "row_ok i \<longleftrightarrow> phase_ok (phase i) \<and> (i_terminated_at i \<noteq> None \<longleftrightarrow> i_state i = StateTerminated)"

definition same_identity :: "instance_row \<Rightarrow> instance_row \<Rightarrow> bool" where
  "same_identity i j \<longleftrightarrow> i_id j = i_id i \<and> i_account j = i_account i \<and> i_client_token j = i_client_token i \<and>
     i_request_hash j = i_request_hash i \<and> i_adopted j = i_adopted i \<and> i_mac j = i_mac i \<and>
     i_image j = i_image i \<and> i_disk_tier j = i_disk_tier i \<and> i_subnet j = i_subnet i"

definition row_next :: "instance_row \<Rightarrow> instance_row \<Rightarrow> bool" where
  "row_next i j \<longleftrightarrow> same_identity i j \<and> life_edge\<^sup>*\<^sup>* (phase i) (phase j)"

abbreviation evolves :: "inst_table \<Rightarrow> inst_table \<Rightarrow> bool" where
  "evolves \<equiv> table_evolves row_ok row_next"

lemma row_next_refl [simp]: "row_next i i"
  by (simp add: row_next_def same_identity_def)

lemma row_next_trans: "row_next i j \<Longrightarrow> row_next j k \<Longrightarrow> row_next i k"
  by (auto simp: row_next_def same_identity_def elim: rtranclp_trans)

interpretation inst_life: row_lifecycle row_ok row_next
  by unfold_locales (simp, rule row_next_trans)

lemmas evolves_refl = inst_life.evolves_refl
lemmas evolves_trans = inst_life.evolves_trans

declare inst_life.evolves_refl [simp, lifecycle_intros] inst_life.evolves_append [lifecycle_intros]

lemma evolves_constrained [lifecycle_intros]:
  "evolves t t' \<Longrightarrow> evolves t (snd (constrained t t' r))"
  by (simp add: constrained_def)

lemma constrained_keeps: "inst_constraints t \<Longrightarrow> inst_constraints (snd (constrained t t' r))"
  by (simp add: constrained_def)

lemma constrained_res: "constrained t t' (Inr x) = (Inr y, u) \<Longrightarrow> u = t' \<and> y = x \<and> inst_constraints t'"
  by (simp add: constrained_def split: if_splits)

lemma snd_returning [simp]: "snd (returning k p) = snd p"
  by (auto simp: returning_def split: prod.splits sum.splits)

subsection \<open>Every statement moves rows along the edges\<close>

lemmas row_next_simps = row_next_def same_identity_def phase_def row_ok_def

lemma evolves_same_phase:
  assumes "\<And>i. same_identity i (f i)" and "\<And>i. phase (f i) = phase i"
    and "\<And>i. i_terminated_at (f i) = i_terminated_at i"
  shows "evolves t (update_where c f t)"
proof (rule inst_life.evolves_update)
  fix i assume ok: "row_ok i"
  have "i_state (f i) = i_state i"
    using assms(2) [of i] by (simp add: phase_def)
  with ok assms show "row_ok (f i) \<and> row_next i (f i)"
    by (simp add: row_ok_def row_next_def)
qed

lemma evolves_one_edge:
  assumes "\<And>i. same_identity i (f i)"
    and "\<And>i. row_ok i \<Longrightarrow> c i \<Longrightarrow> life_edge (phase i) (phase (f i)) \<or> phase (f i) = phase i"
    and "\<And>i. row_ok i \<Longrightarrow> c i \<Longrightarrow> (i_terminated_at (f i) \<noteq> None \<longleftrightarrow> i_state (f i) = StateTerminated)"
  shows "evolves t (update_where c f t)"
proof (rule inst_life.evolves_update)
  fix i assume i: "row_ok i" "c i"
  have "life_edge\<^sup>*\<^sup>* (phase i) (phase (f i))"
    using assms(2) [OF i] by auto
  with i assms show "row_ok (f i) \<and> row_next i (f i)"
    by (auto simp: row_ok_def row_next_def dest: life_path_ok)
qed

lemma evolves_InsertInstance [lifecycle_intros]: "evolves t (snd (InsertInstance now i t))"
  unfolding InsertInstance_def Let_def
  by (intro lifecycle_intros) (simp add: row_ok_def phase_def)

lemma evolves_InsertAdopted [lifecycle_intros]:
  "i_state i = StateRunning \<or> i_state i = StateStopped \<Longrightarrow> evolves t (snd (InsertAdoptedInstance now i t))"
  unfolding InsertAdoptedInstance_def Let_def
  by (intro lifecycle_intros) (auto simp: row_ok_def phase_def)

lemma evolves_SetInstanceTags [lifecycle_intros]: "evolves t (snd (SetInstanceTags now k name tags t))"
  unfolding SetInstanceTags_def set_row_def
  by (intro evolves_constrained evolves_same_phase) (simp_all add: same_identity_def phase_def)

lemma evolves_RecordResources [lifecycle_intros]: "evolves t (snd (RecordResources now k r t))"
  unfolding RecordResources_def set_row_def
  by (intro evolves_constrained evolves_same_phase) (simp_all add: same_identity_def phase_def)

lemma evolves_ReleaseLease [lifecycle_intros]: "evolves t (snd (ReleaseLease k t))"
  unfolding ReleaseLease_def set_row_def
  by (intro evolves_constrained evolves_same_phase) (simp_all add: same_identity_def phase_def)

lemma evolves_SetSpec [lifecycle_intros]: "evolves t (snd (SetSpec now k c m f b d t))"
  unfolding SetSpec_def set_row_def snd_returning
  by (intro evolves_constrained evolves_same_phase) (simp_all add: same_identity_def phase_def)

lemma evolves_NoteReason [lifecycle_intros]: "evolves t (snd (NoteReason now k reason t))"
  unfolding NoteReason_def
  by (intro evolves_constrained evolves_same_phase) (simp_all add: same_identity_def phase_def)

lemma evolves_ClaimWork [lifecycle_intros]: "evolves t (snd (ClaimWork now lease t))"
  unfolding ClaimWork_def
  by (cases rule: claim_first_cases [of i_id "action_due now" action_order "hold_lease (now + lease)" t])
    (auto intro!: evolves_same_phase simp: same_identity_def phase_def hold_lease_def)

lemma evolves_then_ReleaseLease:
  "evolves t u \<Longrightarrow> evolves t (snd (ReleaseLease k u))"
  by (rule evolves_trans [OF _ evolves_ReleaseLease])

text \<open>The state \<open>carryOut\<close> returns for an action, and the state giving the action up leaves.\<close>

fun finished_state :: "action \<Rightarrow> inst_state" where
  "finished_state ActionLaunch = StateRunning"
| "finished_state ActionStart = StateRunning"
| "finished_state ActionStop = StateStopped"
| "finished_state ActionReboot = StateRunning"
| "finished_state ActionTerminate = StateTerminated"

lemma evolves_FinishAction [lifecycle_intros]:
  "st = finished_state a \<Longrightarrow> evolves t (snd (FinishAction now k a st reason t))"
proof -
  assume st: "st = finished_state a"
  let ?u = "constrained t (set_if_pending k a (finish_row now st reason) t) (Inr ())"
  have "evolves t (snd ?u)"
    unfolding set_if_pending_def
  proof (intro evolves_constrained evolves_one_edge)
    fix i
    show "same_identity i (finish_row now st reason i)"
      by (simp add: same_identity_def finish_row_def)
    assume i: "row_ok i" "by_id k i \<and> i_pending i = Some a"
    then show "life_edge (phase i) (phase (finish_row now st reason i)) \<or>
        phase (finish_row now st reason i) = phase i"
      by (cases "i_state i"; cases a)
        (auto simp: st row_ok_def phase_def finish_row_def intro: life_edge.intros)
    show "(i_terminated_at (finish_row now st reason i) \<noteq> None) \<longleftrightarrow>
        (i_state (finish_row now st reason i) = StateTerminated)"
      using i by (cases "i_state i") (auto simp: row_ok_def phase_def finish_row_def)
  qed
  then show ?thesis
    by (auto simp: FinishAction_def split: prod.split sum.split
        dest: evolves_then_ReleaseLease [where k = k])
qed

lemma evolves_RetryLater [lifecycle_intros]: "evolves t (snd (RetryLater now k a le next t))"
proof -
  let ?f = "\<lambda>i. i\<lparr>i_attempts := i_attempts i + 1, i_last_error := le, i_next_attempt := next,
      i_lease_until := None, i_updated_at := now\<rparr>"
  have "evolves t (snd (constrained t (set_if_pending k a ?f t) (Inr ())))"
    unfolding set_if_pending_def
    by (intro evolves_constrained evolves_same_phase) (simp_all add: same_identity_def phase_def)
  then show ?thesis
    by (auto simp: RetryLater_def split: prod.split sum.split
        dest: evolves_then_ReleaseLease [where k = k])
qed

lemma evolves_AbandonLaunch [lifecycle_intros]: "evolves t (snd (AbandonLaunch now k reason t))"
  unfolding AbandonLaunch_def set_if_pending_def
  by (intro evolves_constrained evolves_one_edge)
    (auto simp: same_identity_def phase_def row_ok_def intro!: life_edge.intros)

definition given_up_state :: "action \<Rightarrow> inst_state" where
  "given_up_state a = (if a = ActionStart then StateStopped else StateRunning)"

lemma evolves_GiveUpAction [lifecycle_intros]:
  assumes "a \<in> {ActionStart, ActionStop, ActionReboot}" and "st = given_up_state a"
  shows "evolves t (snd (GiveUpAction now k a st reason t))"
  unfolding GiveUpAction_def set_if_pending_def
proof (intro evolves_constrained evolves_one_edge)
  fix i :: instance_row
  let ?j = "i\<lparr>i_state := st, i_pending := None, i_state_reason := reason, i_attempts := 0,
      i_lease_until := None, i_updated_at := now\<rparr>"
  show "same_identity i ?j"
    by (simp add: same_identity_def)
  assume i: "row_ok i" "by_id k i \<and> i_pending i = Some a"
  then show "life_edge (phase i) (phase ?j) \<or> phase ?j = phase i"
    using assms by (cases "i_state i")
      (auto simp: row_ok_def phase_def given_up_state_def intro: life_edge.intros)
  show "(i_terminated_at ?j \<noteq> None) \<longleftrightarrow> (i_state ?j = StateTerminated)"
    using i assms by (cases "i_state i") (auto simp: row_ok_def phase_def given_up_state_def)
qed

lemma evolves_ObserveState [lifecycle_intros]:
  assumes "from \<in> {StateRunning, StateStopped}" and "to \<in> {StateRunning, StateStopped}"
  shows "evolves t (snd (ObserveState now k from to reason t))"
  unfolding ObserveState_def
  using assms by (intro evolves_constrained evolves_one_edge)
    (auto simp: same_identity_def phase_def row_ok_def intro: life_edge.intros)

text \<open>
  \<open>SetAction\<close> itself checks nothing: its callers hold the row and have checked its phase.
\<close>

lemma evolves_SetAction [lifecycle_intros]:
  assumes "\<And>i. i \<in> set t \<Longrightarrow> i_id i = k \<Longrightarrow> life_edge (phase i) (st, Some a)"
    and "st \<noteq> StateTerminated"
  shows "evolves t (snd (SetAction now k st a t))"
proof -
  let ?f = "\<lambda>i. i\<lparr>i_state := st, i_pending := Some a, i_attempts := 0, i_last_error := '''',
      i_next_attempt := now, i_updated_at := now\<rparr>"
  have "update_where (by_id k) ?f t = update_where (\<lambda>i. by_id k i \<and> life_edge (phase i) (st, Some a)) ?f t"
    using assms(1) by (auto simp: update_where_def by_id_def)
  moreover have "evolves t \<dots>"
    using assms(2)
    by (intro evolves_one_edge)
      (auto simp: same_identity_def phase_def row_ok_def elim: from_terminated)
  ultimately show ?thesis
    by (simp add: SetAction_def set_row_def evolves_constrained)
qed


section \<open>The queue of instance actions\<close>

interpretation inst_queue: leased_queue i_id action_due action_order hold_lease
  by unfold_locales (auto simp: hold_lease_def action_due_def lease_free_def)

text \<open>
  A worker's claim is exclusive: while the lease it wrote has not run out, no later claim (by
  another worker, or by this one after a crash) gets the same instance.
\<close>

theorem claimed_instance_is_leased:
  assumes "ClaimWork now lease t = (Inr i, t')"
    and "now' \<le> now + lease"
    and "ClaimWork now' lease' t' = (Inr j, t'')"
  shows "i_id j \<noteq> i_id i"
  using inst_queue.claim_excludes [OF assms(1) [unfolded ClaimWork_def] assms(2)
      assms(3) [unfolded ClaimWork_def]] .

text \<open>A row to evaluate witnesses on.\<close>

definition example_row :: "string \<Rightarrow> instance_row" where
  "example_row k = \<lparr>i_id = k, i_account = ''acct'', i_client_token = '''', i_request_hash = [],
     i_name = ''web'', i_image = ''img'', i_guest_os = ''linux'', i_install_iso = '''', i_driver_iso = '''',
     i_type = '''', i_cpu = 2, i_memory = 2048, i_memory_min = 512, i_ballooning = True,
     i_root_disk = 20, i_disk_tier = TierSSD, i_subnet = '''', i_user_data = '''', i_key_name = '''',
     i_key_public = '''', i_tags = [], i_state = StatePending, i_pending = Some ActionLaunch,
     i_state_reason = '''', i_last_error = '''', i_attempts = 0, i_next_attempt = 0,
     i_lease_until = None, i_vmid = Some 5000, i_vm_created = False, i_mac = ''02:00:00:00:00:01'',
     i_ip = '''', i_netbox_ip = None, i_seed_volume = '''', i_launch_time = 0, i_terminated_at = None,
     i_updated_at = 0, i_adopted = False, i_fw_generation = 0, i_fw_applied = 0,
     i_fw_last_error = '''', i_fw_next_attempt = 0, i_fw_lease_until = None\<rparr>"

lemmas ledger_eval = example_row_def ClaimWork_def claim_first_def action_due_def lease_free_def
  hold_lease_def update_where_def action_order_def by_id_def phase_def live_def

theorem claimed_instance_is_leased_witness:
  "\<exists>t' t'' j. ClaimWork 10 100 [example_row ''i-1'', (example_row ''i-2'')\<lparr>i_vmid := Some 5001, i_next_attempt := 5\<rparr>] =
      (Inr ((example_row ''i-1'')\<lparr>i_lease_until := Some 110\<rparr>), t') \<and>
    ClaimWork 50 100 t' = (Inr j, t'') \<and> i_id j \<noteq> ''i-1''"
proof -
  let ?r1 = "(example_row ''i-1'')\<lparr>i_lease_until := Some 110\<rparr>"
  let ?r2 = "(example_row ''i-2'')\<lparr>i_vmid := Some 5001, i_next_attempt := 5\<rparr>"
  have 1: "ClaimWork 10 100 [example_row ''i-1'', ?r2] = (Inr ?r1, [?r1, ?r2])"
    by (simp add: ledger_eval)
  have 2: "ClaimWork 50 100 [?r1, ?r2] =
      (Inr (?r2\<lparr>i_lease_until := Some 150\<rparr>), [?r1, ?r2\<lparr>i_lease_until := Some 150\<rparr>])"
    by (simp add: ledger_eval)
  have "i_id (?r2\<lparr>i_lease_until := Some 150\<rparr>) \<noteq> i_id ?r1"
    by (rule claimed_instance_is_leased [OF 1 _ 2]) simp
  with 1 2 show ?thesis
    by (auto simp: example_row_def)
qed

section \<open>Replaced actions\<close>

lemma set_if_pending_none:
  "(\<forall>i \<in> set t. i_id i = k \<longrightarrow> i_pending i \<noteq> Some a) \<Longrightarrow> set_if_pending k a f t = t"
  unfolding set_if_pending_def by (rule update_where_id) (auto simp: by_id_def)

text \<open>
  When the user asked for something else while the worker was carrying an action out (a
  terminate during a launch), finishing the old action reports that it did not apply and changes
  nothing but the lease: the new request is neither lost nor marked as done.
\<close>

theorem replaced_action_not_finished:
  assumes "inst_constraints t" and "\<forall>i \<in> set t. i_id i = k \<longrightarrow> i_pending i \<noteq> Some a"
  shows "FinishAction now k a st reason t =
    (Inr False, update_where (by_id k) (\<lambda>i. i\<lparr>i_lease_until := None\<rparr>) t)"
proof -
  let ?u = "update_where (by_id k) (\<lambda>i. i\<lparr>i_lease_until := None\<rparr>) t"
  have same: "map i_id ?u = map i_id t" "live_vmids ?u = live_vmids t" "client_tokens ?u = client_tokens t"
    "list_all row_size_ok ?u = list_all row_size_ok t"
    by (induction t) (auto simp: update_where_def live_vmids_def client_tokens_def live_def
        row_size_ok_def map_filter_simps split: option.split)
  have "constrained t ?u (Inr ()) = (Inr (), ?u)"
    using assms(1) by (simp add: constrained_def inst_constraints_def same)
  then show ?thesis
    using assms by (auto simp: FinishAction_def ReleaseLease_def set_row_def set_if_pending_none
        constrained_def by_id_def)
qed

theorem replaced_action_not_finished_witness:
  "fst (FinishAction 9 ''i-1'' ActionLaunch StateRunning ''''
     [(example_row ''i-1'')\<lparr>i_state := StateShuttingDown, i_pending := Some ActionTerminate\<rparr>]) = Inr False"
  by (subst replaced_action_not_finished)
    (simp_all add: example_row_def inst_constraints_def live_vmids_def client_tokens_def live_def
      row_size_ok_def db_size_ok_def int4_def map_filter_simps)

text \<open>A table that has evolved still has every terminated row, still terminated.\<close>

lemma evolves_terminated:
  assumes "evolves t t'" and "list_all row_ok t" and "n < length t"
    and "i_state (t ! n) = StateTerminated"
  shows "n < length t' \<and> i_id (t' ! n) = i_id (t ! n) \<and> i_account (t' ! n) = i_account (t ! n) \<and>
    i_state (t' ! n) = StateTerminated \<and> i_pending (t' ! n) = None"
proof -
  have moved: "row_next (t ! n) (t' ! n)" and len: "n < length t'"
    using inst_life.evolves_nth [OF assms(1-3)] by simp_all
  have "row_ok (t ! n)"
    using assms by (simp add: list_all_length)
  then have "phase (t ! n) = (StateTerminated, None)"
    using assms(4) by (simp add: row_ok_def phase_def)
  then have "phase (t' ! n) = (StateTerminated, None)"
    using moved terminated_stays by (simp add: row_next_def)
  then show ?thesis
    using moved len by (simp add: row_next_def same_identity_def phase_def)
qed

lemma live_vmids_iff: "v \<in> set (live_vmids t) \<longleftrightarrow> (\<exists>i \<in> set t. live i \<and> i_vmid i = Some v)"
  by (induction t) (auto simp: live_vmids_def map_filter_simps split: option.splits)

lemma live_vmid_inj:
  assumes "distinct (live_vmids t)" and "i \<in> set t" and "j \<in> set t" and "live i" and "live j"
    and "i_vmid i = Some v" and "i_vmid j = Some v"
  shows "i = j"
  using assms
proof (induction t)
  case (Cons a t)
  have "distinct (live_vmids t)" and "live a \<Longrightarrow> i_vmid a = Some v \<Longrightarrow> v \<notin> set (live_vmids t)"
    using Cons.prems(1) by (auto simp: live_vmids_def map_filter_simps split: if_splits option.splits)
  with Cons show ?case
    by (auto simp: live_vmids_iff)
qed simp

section \<open>Allocating VMIDs\<close>

text \<open>
  \<open>AllocateVMID\<close> gives the lowest number of the range that no live instance holds, that is not
  quarantined and not skipped; it refuses only when there is none.
\<close>

theorem allocate_vmid_lowest:
  "case AllocateVMID from to skip quarantine t of
     Inr v \<Rightarrow> from \<le> v \<and> v \<le> to \<and> v \<notin> set skip \<and> v \<notin> set quarantine \<and>
       (\<forall>i \<in> set t. live i \<longrightarrow> i_vmid i \<noteq> Some v) \<and>
       (\<forall>u. from \<le> u \<and> u < v \<longrightarrow> u \<in> set skip \<or> u \<in> set quarantine \<or> (\<exists>i \<in> set t. live i \<and> i_vmid i = Some u))
   | Inl e \<Rightarrow> e = NoVMID \<and>
       (\<forall>u. from \<le> u \<and> u \<le> to \<longrightarrow> u \<in> set skip \<or> u \<in> set quarantine \<or> (\<exists>i \<in> set t. live i \<and> i_vmid i = Some u))"
proof -
  let ?P = "\<lambda>v. v \<notin> set skip \<and> v \<notin> set (live_vmids t) \<and> v \<notin> set quarantine"
  show ?thesis
  proof (cases "find ?P [from..to]")
    case None
    then have "AllocateVMID from to skip quarantine t = Inl NoVMID"
      by (simp add: AllocateVMID_def)
    with None show ?thesis
      by (auto simp: find_None_iff live_vmids_iff)
  next
    case (Some v)
    then obtain n where n: "n < length [from..to]" "v = [from..to] ! n" "?P v"
      and before: "\<forall>m<n. \<not> ?P ([from..to] ! m)"
      unfolding find_Some_iff by auto
    have v: "v = from + int n" "v \<le> to"
      using n(1,2) by (auto simp: nth_upto)
    have "\<not> ?P u" if "from \<le> u" "u < v" for u
      using before [rule_format, of "nat (u - from)"] that v by (simp add: nth_upto nat_less_iff)
    moreover have "AllocateVMID from to skip quarantine t = Inr v"
      using Some by (simp add: AllocateVMID_def)
    ultimately show ?thesis
      using n(3) v by (auto simp: live_vmids_iff)
  qed
qed


theorem allocate_vmid_lowest_witness:
  "AllocateVMID 5000 5010 [5001] [5002] [example_row ''i-1''] = Inr 5003 \<and>
   i_vmid (example_row ''i-1'') \<noteq> Some 5003"
proof -
  have r: "AllocateVMID 5000 5010 [5001] [5002] [example_row ''i-1''] = Inr 5003"
    by (simp add: AllocateVMID_def live_vmids_def live_def example_row_def upto.simps)
  show ?thesis
    using allocate_vmid_lowest [of 5000 5010 "[5001]" "[5002]" "[example_row ''i-1'']", unfolded r] r
    by (auto simp: live_def example_row_def)
qed

end
