(* ===== verification/Volume_Ledger.thy ===== *)
theory Volume_Ledger
  imports Instance_Ledger
begin

text \<open>
  \<open>api/internal/db/volumes.go\<close>: the \<open>volumes\<close> table, one definition per SQL statement, with the
  constraints of \<open>0006_volumes_and_security_groups.sql\<close>, and the lifecycle of a volume and its
  attachment. A nullable text column is the empty string, as for the instances.
\<close>

section \<open>Rows\<close>

datatype vol_state = VolumeCreating | VolumeAvailable | VolumeInUse | VolumeDeleting
  | VolumeDeleted | VolumeError

datatype attachment = AttachmentAttaching | AttachmentAttached | AttachmentDetaching

datatype vol_action = VolumeActionCreate | VolumeActionAttach | VolumeActionDetach
  | VolumeActionResize | VolumeActionDelete

text \<open>\<open>Location\<close>: where the disk is, and where a \<open>move_disk\<close> in progress takes it.\<close>

record location =
  l_vmid :: "int option"
  l_config_key :: string
  l_volid :: string
  l_move_vmid :: "int option"
  l_move_key :: string

definition no_location :: location where
  "no_location = \<lparr>l_vmid = None, l_config_key = '''', l_volid = '''', l_move_vmid = None, l_move_key = ''''\<rparr>"

record volume_row =
  v_id :: string
  v_account :: string
  v_client_token :: string
  v_request_hash :: "nat list"
  v_size :: int
  v_tier :: string
  v_tags :: "(string, string) gomap"
  v_state :: vol_state
  v_instance :: string
  v_device :: string
  v_attachment :: "attachment option"
  v_pending :: "vol_action option"
  v_state_reason :: string
  v_last_error :: string
  v_attempts :: nat
  v_next_attempt :: int
  v_lease_until :: "int option"
  v_location :: location
  v_created_at :: int
  v_deleted_at :: "int option"
  v_updated_at :: int

type_synonym vol_table = "volume_row list"

definition vol_live :: "volume_row \<Rightarrow> bool" where
  "vol_live v \<longleftrightarrow> v_state v \<noteq> VolumeDeleted"

definition vol_by_id :: "string \<Rightarrow> volume_row \<Rightarrow> bool" where
  "vol_by_id k v \<longleftrightarrow> v_id v = k"

section \<open>Constraints\<close>

definition volume_devices :: "string list" where
  "volume_devices = map (\<lambda>n. ''virtio'' @ itoa n) [1..15]"

definition vol_row_ok :: "volume_row \<Rightarrow> bool" where
  "vol_row_ok v \<longleftrightarrow> v_size v > 0 \<and> int4 (v_size v) \<and>
     (v_instance v = '''' \<longleftrightarrow> v_device v = '''') \<and> (v_instance v = '''' \<longleftrightarrow> v_attachment v = None) \<and>
     (v_device v = '''' \<or> v_device v \<in> set volume_devices)"

definition used_devices :: "vol_table \<Rightarrow> (string \<times> string) list" where
  "used_devices t = map (\<lambda>v. (v_instance v, v_device v)) (filter (\<lambda>v. v_instance v \<noteq> '''') t)"

definition live_volids :: "vol_table \<Rightarrow> string list" where
  "live_volids t = map (\<lambda>v. l_volid (v_location v))
     (filter (\<lambda>v. vol_live v \<and> l_volid (v_location v) \<noteq> '''') t)"

definition vol_tokens :: "vol_table \<Rightarrow> (string \<times> string) list" where
  "vol_tokens t = map (\<lambda>v. (v_account v, v_client_token v)) (filter (\<lambda>v. v_client_token v \<noteq> '''') t)"

definition vol_constraints :: "vol_table \<Rightarrow> bool" where
  "vol_constraints t \<longleftrightarrow> distinct (map v_id t) \<and> distinct (vol_tokens t) \<and>
     distinct (used_devices t) \<and> distinct (live_volids t) \<and> list_all vol_row_ok t"

definition vol_constrained :: "vol_table \<Rightarrow> vol_table \<Rightarrow> 'a res \<Rightarrow> 'a res \<times> vol_table" where
  "vol_constrained t t' r =
     (if vol_constraints t' then (r, t') else (Inl (Failed ''constraint violation''), t))"

section \<open>Statements\<close>

definition InsertVolume :: "int \<Rightarrow> volume_row \<Rightarrow> vol_table \<Rightarrow> volume_row res \<times> vol_table" where
  "InsertVolume now v t =
     (let row = v\<lparr>v_state := VolumeCreating, v_pending := Some VolumeActionCreate,
            v_tier := (if v_tier v = '''' then TierSSD else v_tier v),
            v_instance := '''', v_device := '''', v_attachment := None, v_state_reason := '''',
            v_last_error := '''', v_attempts := 0, v_next_attempt := now, v_lease_until := None,
            v_location := no_location, v_created_at := now, v_deleted_at := None, v_updated_at := now\<rparr>
      in vol_constrained t (t @ [row]) (Inr row))"

definition GetVolume :: "string \<Rightarrow> vol_table \<Rightarrow> volume_row res" where
  "GetVolume k t = select_one (vol_by_id k) t"

definition VolumeByClientToken :: "string \<Rightarrow> string \<Rightarrow> vol_table \<Rightarrow> volume_row res" where
  "VolumeByClientToken acct token t =
     select_one (\<lambda>v. v_account v = acct \<and> token \<noteq> '''' \<and> v_client_token v = token) t"

definition VolumeByVolID :: "string \<Rightarrow> vol_table \<Rightarrow> volume_row res" where
  "VolumeByVolID volid t =
     select_one (\<lambda>v. volid \<noteq> '''' \<and> l_volid (v_location v) = volid \<and> vol_live v) t"

definition ListVolumes :: "int \<Rightarrow> vol_table \<Rightarrow> volume_row list" where
  "ListVolumes now t = sort_key (\<lambda>v. - v_created_at v) (sort_key v_id
     (filter (\<lambda>v. vol_live v \<or> (case v_deleted_at v of None \<Rightarrow> False | Some at \<Rightarrow> at > now - one_hour)) t))"

definition VolumesOfInstance :: "string \<Rightarrow> vol_table \<Rightarrow> volume_row list" where
  "VolumesOfInstance k t = sort_key v_device (filter (\<lambda>v. k \<noteq> '''' \<and> v_instance v = k) t)"

definition VolumesOnVM :: "int \<Rightarrow> vol_table \<Rightarrow> volume_row list" where
  "VolumesOnVM vmid t = sort_key v_id (filter (\<lambda>v. vol_live v \<and>
     (l_vmid (v_location v) = Some vmid \<or> l_move_vmid (v_location v) = Some vmid)) t)"

definition LiveVolumeCount :: "vol_table \<Rightarrow> int" where
  "LiveVolumeCount t = int (length (filter vol_live t))"

definition set_vol :: "string \<Rightarrow> (volume_row \<Rightarrow> volume_row) \<Rightarrow> vol_table \<Rightarrow> vol_table" where
  "set_vol k f t = update_where (vol_by_id k) f t"

definition set_vol_if_pending ::
    "string \<Rightarrow> vol_action \<Rightarrow> (volume_row \<Rightarrow> volume_row) \<Rightarrow> vol_table \<Rightarrow> vol_table" where
  "set_vol_if_pending k a f t = update_where (\<lambda>v. vol_by_id k v \<and> v_pending v = Some a) f t"

definition vol_due :: "int \<Rightarrow> volume_row \<Rightarrow> bool" where
  "vol_due now v \<longleftrightarrow> v_pending v \<noteq> None \<and> v_next_attempt v \<le> now \<and> lease_free now (v_lease_until v)"

definition vol_order :: "volume_row \<Rightarrow> int \<times> string" where
  "vol_order v = (v_next_attempt v, v_id v)"

definition vol_hold :: "int \<Rightarrow> volume_row \<Rightarrow> volume_row" where
  "vol_hold until v = v\<lparr>v_lease_until := Some until\<rparr>"

definition ClaimVolumeWork :: "int \<Rightarrow> int \<Rightarrow> vol_table \<Rightarrow> volume_row res \<times> vol_table" where
  "ClaimVolumeWork now lease t = claim_first v_id (vol_due now) vol_order (vol_hold (now + lease)) t"

definition RecordLocation :: "int \<Rightarrow> string \<Rightarrow> location \<Rightarrow> vol_table \<Rightarrow> unit res \<times> vol_table" where
  "RecordLocation now k l t =
     vol_constrained t (set_vol k (\<lambda>v. v\<lparr>v_location := l, v_updated_at := now\<rparr>) t) (Inr ())"

definition vol_returning :: "string \<Rightarrow> unit res \<times> vol_table \<Rightarrow> volume_row res \<times> vol_table" where
  "vol_returning k p = (case p of (Inl e, t) \<Rightarrow> (Inl e, t) | (Inr _, t) \<Rightarrow> (GetVolume k t, t))"

text \<open>What every request resets: the attempts, the last error and the time of the next attempt.\<close>

definition fresh_request :: "int \<Rightarrow> vol_action \<Rightarrow> volume_row \<Rightarrow> volume_row" where
  "fresh_request now a v = v\<lparr>v_pending := Some a, v_state_reason := '''', v_attempts := 0,
     v_last_error := '''', v_next_attempt := now, v_updated_at := now\<rparr>"

definition RequestAttach ::
    "int \<Rightarrow> string \<Rightarrow> string \<Rightarrow> string \<Rightarrow> vol_table \<Rightarrow> volume_row res \<times> vol_table" where
  "RequestAttach now k inst device t = vol_returning k (vol_constrained t
     (set_vol k (\<lambda>v. (fresh_request now VolumeActionAttach v)\<lparr>v_instance := inst, v_device := device,
        v_attachment := Some AttachmentAttaching\<rparr>) t) (Inr ()))"

definition RequestDetach :: "int \<Rightarrow> string \<Rightarrow> vol_table \<Rightarrow> volume_row res \<times> vol_table" where
  "RequestDetach now k t = vol_returning k (vol_constrained t
     (set_vol k (\<lambda>v. (fresh_request now VolumeActionDetach v)\<lparr>v_attachment := Some AttachmentDetaching\<rparr>) t)
     (Inr ()))"

definition RequestResize :: "int \<Rightarrow> string \<Rightarrow> int \<Rightarrow> vol_table \<Rightarrow> volume_row res \<times> vol_table" where
  "RequestResize now k sz t = vol_returning k (vol_constrained t
     (set_vol k (\<lambda>v. (fresh_request now VolumeActionResize v)\<lparr>v_size := sz\<rparr>) t) (Inr ()))"

definition RequestDelete :: "int \<Rightarrow> string \<Rightarrow> vol_table \<Rightarrow> volume_row res \<times> vol_table" where
  "RequestDelete now k t = vol_returning k (vol_constrained t
     (set_vol k (\<lambda>v. (fresh_request now VolumeActionDelete v)\<lparr>v_state := VolumeDeleting\<rparr>) t) (Inr ()))"

definition ReleaseVolumeLease :: "string \<Rightarrow> vol_table \<Rightarrow> unit res \<times> vol_table" where
  "ReleaseVolumeLease k t = vol_constrained t (set_vol k (\<lambda>v. v\<lparr>v_lease_until := None\<rparr>) t) (Inr ())"

text \<open>The \<open>CASE\<close> expressions of \<open>FinishVolumeAction\<close>.\<close>

definition finish_vol :: "int \<Rightarrow> vol_action \<Rightarrow> volume_row \<Rightarrow> volume_row" where
  "finish_vol now a v = v\<lparr>v_pending := None, v_attempts := 0, v_last_error := '''', v_lease_until := None,
     v_state_reason := '''', v_updated_at := now,
     v_state := (case a of VolumeActionCreate \<Rightarrow> VolumeAvailable | VolumeActionAttach \<Rightarrow> VolumeInUse
       | VolumeActionDetach \<Rightarrow> VolumeAvailable | VolumeActionDelete \<Rightarrow> VolumeDeleted
       | VolumeActionResize \<Rightarrow> v_state v),
     v_attachment := (case a of VolumeActionAttach \<Rightarrow> Some AttachmentAttached
       | VolumeActionDetach \<Rightarrow> None | _ \<Rightarrow> v_attachment v),
     v_instance := (if a = VolumeActionDetach then '''' else v_instance v),
     v_device := (if a = VolumeActionDetach then '''' else v_device v),
     v_deleted_at := (if a = VolumeActionDelete then Some now else v_deleted_at v)\<rparr>"

definition FinishVolumeAction :: "int \<Rightarrow> string \<Rightarrow> vol_action \<Rightarrow> vol_table \<Rightarrow> bool res \<times> vol_table" where
  "FinishVolumeAction now k a t =
     (case vol_constrained t (set_vol_if_pending k a (finish_vol now a) t) (Inr ()) of
        (Inl e, t') \<Rightarrow> (Inl e, t')
      | (Inr _, t') \<Rightarrow>
          if (\<exists>v \<in> set t. vol_by_id k v \<and> v_pending v = Some a) then (Inr True, t')
          else case ReleaseVolumeLease k t' of (Inl e, t'') \<Rightarrow> (Inl e, t'') | (Inr _, t'') \<Rightarrow> (Inr False, t''))"

definition RetryVolumeLater ::
    "int \<Rightarrow> string \<Rightarrow> vol_action \<Rightarrow> string \<Rightarrow> int \<Rightarrow> vol_table \<Rightarrow> unit res \<times> vol_table" where
  "RetryVolumeLater now k a last_error next t =
     vol_constrained t (set_vol_if_pending k a (\<lambda>v. v\<lparr>v_attempts := v_attempts v + 1,
       v_last_error := last_error, v_next_attempt := next, v_lease_until := None, v_updated_at := now\<rparr>) t)
     (Inr ())"

definition GiveUpCreate :: "int \<Rightarrow> string \<Rightarrow> string \<Rightarrow> vol_table \<Rightarrow> unit res \<times> vol_table" where
  "GiveUpCreate now k reason t =
     vol_constrained t (set_vol_if_pending k VolumeActionCreate (\<lambda>v. v\<lparr>v_state := VolumeError,
       v_pending := None, v_state_reason := reason, v_attempts := 0, v_lease_until := None,
       v_updated_at := now\<rparr>) t) (Inr ())"

definition GiveUpAttach :: "int \<Rightarrow> string \<Rightarrow> string \<Rightarrow> vol_table \<Rightarrow> unit res \<times> vol_table" where
  "GiveUpAttach now k reason t =
     vol_constrained t (set_vol_if_pending k VolumeActionAttach (\<lambda>v. v\<lparr>
       v_attachment := Some AttachmentDetaching, v_pending := Some VolumeActionDetach,
       v_state_reason := reason, v_attempts := 0, v_next_attempt := now, v_lease_until := None,
       v_updated_at := now\<rparr>) t) (Inr ())"

definition GiveUpResize :: "int \<Rightarrow> string \<Rightarrow> int \<Rightarrow> string \<Rightarrow> vol_table \<Rightarrow> unit res \<times> vol_table" where
  "GiveUpResize now k actual reason t =
     vol_constrained t (set_vol_if_pending k VolumeActionResize (\<lambda>v. v\<lparr>v_size := actual,
       v_pending := None, v_state_reason := reason, v_attempts := 0, v_lease_until := None,
       v_updated_at := now\<rparr>) t) (Inr ())"

definition return_vol :: "int \<Rightarrow> location \<Rightarrow> string \<Rightarrow> volume_row \<Rightarrow> volume_row" where
  "return_vol now l reason v =
     (let over = v_pending v = Some VolumeActionAttach \<or> v_pending v = Some VolumeActionDetach in
      v\<lparr>v_instance := '''', v_device := '''', v_attachment := None,
        v_state := (if v_state v = VolumeInUse then VolumeAvailable else v_state v),
        v_pending := (if over then None else v_pending v),
        v_attempts := (if over then 0 else v_attempts v),
        v_location := l\<lparr>l_move_vmid := None, l_move_key := ''''\<rparr>,
        v_state_reason := reason, v_updated_at := now\<rparr>)"

definition ReturnToHolder ::
    "int \<Rightarrow> string \<Rightarrow> location \<Rightarrow> string \<Rightarrow> vol_table \<Rightarrow> unit res \<times> vol_table" where
  "ReturnToHolder now k l reason t = vol_constrained t (set_vol k (return_vol now l reason) t) (Inr ())"

text \<open>The volume half of \<open>usageQuery\<close>, and \<open>AccountUsage\<close>: both halves.\<close>

definition vol_held :: "string \<Rightarrow> vol_table \<Rightarrow> volume_row list" where
  "vol_held acct t = filter (\<lambda>v. (acct = '''' \<or> v_account v = acct) \<and> vol_live v) t"

definition AccountUsage :: "string \<Rightarrow> inst_table \<Rightarrow> vol_table \<Rightarrow> usage" where
  "AccountUsage acct is vs = (instance_usage acct is)\<lparr>
     u_volumes := int (length (vol_held acct vs)), u_volume_gib := sum_list (map v_size (vol_held acct vs))\<rparr>"

definition CloudUsage :: "inst_table \<Rightarrow> vol_table \<Rightarrow> usage" where
  "CloudUsage is vs = AccountUsage '''' is vs"

text \<open>
  \<open>UsageByAccount\<close>: one line per account that holds something, largest memory first, then largest
  volumes, then the account's ID. The argument is the account table's IDs and user names.
\<close>

definition UsageByAccount ::
    "(string \<times> string) list \<Rightarrow> inst_table \<Rightarrow> vol_table \<Rightarrow> (string \<times> string \<times> usage) list" where
  "UsageByAccount accounts is vs =
     sort_key (\<lambda>(a, n, u). - u_memory u) (sort_key (\<lambda>(a, n, u). - u_volume_gib u)
       (sort_key fst (map (\<lambda>(a, n). (a, n, AccountUsage a is vs))
         (filter (\<lambda>(a, n). (\<exists>i \<in> set is. live i \<and> i_account i = a) \<or>
                         (\<exists>v \<in> set vs. vol_live v \<and> v_account v = a)) accounts))))"


section \<open>Lifecycle\<close>

text \<open>
  What a volume is doing: its state, its pending action and its attachment. The disk is an
  instance's from the moment an attach is asked for until it is back on the holder.
\<close>

type_synonym vol_phase = "vol_state \<times> vol_action option \<times> attachment option"

definition vol_phase :: "volume_row \<Rightarrow> vol_phase" where
  "vol_phase v = (v_state v, v_pending v, v_attachment v)"

fun vol_phase_ok :: "vol_phase \<Rightarrow> bool" where
  "vol_phase_ok (VolumeCreating, p, a) = (p = Some VolumeActionCreate \<and> a = None)"
| "vol_phase_ok (VolumeAvailable, p, a) =
     (p = None \<and> a = None \<or> p = Some VolumeActionResize \<and> a = None \<or>
      p = Some VolumeActionAttach \<and> a = Some AttachmentAttaching \<or>
      p = Some VolumeActionDetach \<and> a = Some AttachmentDetaching)"
| "vol_phase_ok (VolumeInUse, p, a) =
     (p = None \<and> a = Some AttachmentAttached \<or> p = Some VolumeActionResize \<and> a = Some AttachmentAttached \<or>
      p = Some VolumeActionDetach \<and> a = Some AttachmentDetaching)"
| "vol_phase_ok (VolumeDeleting, p, a) = (p = Some VolumeActionDelete \<and> a = None)"
| "vol_phase_ok (VolumeDeleted, p, a) = (p = None \<and> a = None)"
| "vol_phase_ok (VolumeError, p, a) = (p = None \<and> a = None)"

inductive vol_edge :: "vol_phase \<Rightarrow> vol_phase \<Rightarrow> bool" where
  ask_attach: "vol_edge (VolumeAvailable, None, None)
    (VolumeAvailable, Some VolumeActionAttach, Some AttachmentAttaching)"
| ask_detach: "vol_edge (VolumeInUse, None, Some AttachmentAttached)
    (VolumeInUse, Some VolumeActionDetach, Some AttachmentDetaching)"
| ask_resize: "s = VolumeAvailable \<and> a = None \<or> s = VolumeInUse \<and> a = Some AttachmentAttached \<Longrightarrow>
    vol_edge (s, None, a) (s, Some VolumeActionResize, a)"
| ask_delete: "s = VolumeAvailable \<or> s = VolumeError \<Longrightarrow>
    vol_edge (s, None, None) (VolumeDeleting, Some VolumeActionDelete, None)"
| created: "vol_edge (VolumeCreating, Some VolumeActionCreate, None) (VolumeAvailable, None, None)"
| attached: "vol_edge (VolumeAvailable, Some VolumeActionAttach, Some AttachmentAttaching)
    (VolumeInUse, None, Some AttachmentAttached)"
| detached: "s = VolumeAvailable \<or> s = VolumeInUse \<Longrightarrow>
    vol_edge (s, Some VolumeActionDetach, Some AttachmentDetaching) (VolumeAvailable, None, None)"
| resized: "vol_edge (s, Some VolumeActionResize, a) (s, None, a)"
| deleted: "vol_edge (VolumeDeleting, Some VolumeActionDelete, None) (VolumeDeleted, None, None)"
| create_failed: "vol_edge (VolumeCreating, Some VolumeActionCreate, None) (VolumeError, None, None)"
| attach_failed: "vol_edge (VolumeAvailable, Some VolumeActionAttach, Some AttachmentAttaching)
    (VolumeAvailable, Some VolumeActionDetach, Some AttachmentDetaching)"
| returned: "p = None \<or> p = Some VolumeActionAttach \<Longrightarrow> a \<noteq> None \<Longrightarrow>
    vol_edge (s, p, a) (VolumeAvailable, None, None)"
| returned_resizing: "vol_edge (VolumeInUse, Some VolumeActionResize, Some AttachmentAttached)
    (VolumeAvailable, Some VolumeActionResize, None)"

inductive_cases vol_from_deleted: "vol_edge (VolumeDeleted, p, a) q"
inductive_cases vol_to_deleted: "vol_edge x (VolumeDeleted, Some p, a)"

lemma vol_edge_ok: "vol_edge x y \<Longrightarrow> vol_phase_ok x \<Longrightarrow> vol_phase_ok y"
proof (induction rule: vol_edge.induct)
  case (resized s a)
  then show ?case by (cases s) auto
qed auto

lemma vol_path_ok: "vol_edge\<^sup>*\<^sup>* x y \<Longrightarrow> vol_phase_ok x \<Longrightarrow> vol_phase_ok y"
  by (induction rule: rtranclp_induct) (auto dest: vol_edge_ok)

lemma deleted_stays:
  "vol_edge\<^sup>*\<^sup>* (VolumeDeleted, None, None) y \<Longrightarrow> y = (VolumeDeleted, None, None)"
  by (induction rule: rtranclp_induct) (auto elim: vol_from_deleted)

definition vol_ok :: "volume_row \<Rightarrow> bool" where
  "vol_ok v \<longleftrightarrow> vol_phase_ok (vol_phase v) \<and> (v_deleted_at v \<noteq> None \<longleftrightarrow> v_state v = VolumeDeleted)"

definition vol_identity :: "volume_row \<Rightarrow> volume_row \<Rightarrow> bool" where
  "vol_identity v w \<longleftrightarrow> v_id w = v_id v \<and> v_account w = v_account v \<and> v_tier w = v_tier v \<and>
     v_client_token w = v_client_token v \<and> v_request_hash w = v_request_hash v"

definition vol_next :: "volume_row \<Rightarrow> volume_row \<Rightarrow> bool" where
  "vol_next v w \<longleftrightarrow> vol_identity v w \<and> vol_edge\<^sup>*\<^sup>* (vol_phase v) (vol_phase w)"

abbreviation vol_evolves :: "vol_table \<Rightarrow> vol_table \<Rightarrow> bool" where
  "vol_evolves \<equiv> table_evolves vol_ok vol_next"

lemma vol_next_refl [simp]: "vol_next v v"
  by (simp add: vol_next_def vol_identity_def)

lemma vol_next_trans: "vol_next u v \<Longrightarrow> vol_next v w \<Longrightarrow> vol_next u w"
  by (auto simp: vol_next_def vol_identity_def elim: rtranclp_trans)

interpretation vol_life: row_lifecycle vol_ok vol_next
  by unfold_locales (simp, rule vol_next_trans)

lemmas vol_evolves_refl = vol_life.evolves_refl
lemmas vol_evolves_trans = vol_life.evolves_trans

declare vol_life.evolves_refl [simp, lifecycle_intros] vol_life.evolves_append [lifecycle_intros]

lemma vol_evolves_constrained [lifecycle_intros]:
  "vol_evolves t t' \<Longrightarrow> vol_evolves t (snd (vol_constrained t t' r))"
  by (simp add: vol_constrained_def)

lemma vol_constrained_keeps: "vol_constraints t \<Longrightarrow> vol_constraints (snd (vol_constrained t t' r))"
  by (simp add: vol_constrained_def)

lemma snd_vol_returning [simp]: "snd (vol_returning k p) = snd p"
  by (auto simp: vol_returning_def split: prod.splits sum.splits)

lemma vol_evolves_one_edge:
  assumes "\<And>v. vol_identity v (f v)"
    and "\<And>v. vol_ok v \<Longrightarrow> c v \<Longrightarrow> vol_edge (vol_phase v) (vol_phase (f v)) \<or> vol_phase (f v) = vol_phase v"
    and "\<And>v. vol_ok v \<Longrightarrow> c v \<Longrightarrow> (v_deleted_at (f v) \<noteq> None \<longleftrightarrow> v_state (f v) = VolumeDeleted)"
  shows "vol_evolves t (update_where c f t)"
proof (rule vol_life.evolves_update)
  fix v assume v: "vol_ok v" "c v"
  have "vol_edge\<^sup>*\<^sup>* (vol_phase v) (vol_phase (f v))"
    using assms(2) [OF v] by auto
  with v assms show "vol_ok (f v) \<and> vol_next v (f v)"
    by (auto simp: vol_ok_def vol_next_def dest: vol_path_ok)
qed

lemma vol_evolves_same_phase:
  assumes "\<And>v. vol_identity v (f v)" and "\<And>v. vol_phase (f v) = vol_phase v"
    and "\<And>v. v_deleted_at (f v) = v_deleted_at v"
  shows "vol_evolves t (update_where c f t)"
proof -
  have "v_state (f v) = v_state v" for v
    using assms(2) [of v] by (simp add: vol_phase_def)
  with assms show ?thesis
    by (intro vol_evolves_one_edge) (auto simp: vol_ok_def)
qed

text \<open>A request's update, for the phases its caller has checked.\<close>

lemma vol_evolves_request:
  assumes "\<And>v. vol_identity v (f v)" and "\<And>v. v_pending (f v) \<noteq> None"
    and "\<And>v. v_deleted_at (f v) = v_deleted_at v"
    and "\<And>v. v \<in> set t \<Longrightarrow> v_id v = k \<Longrightarrow> vol_edge (vol_phase v) (vol_phase (f v))"
  shows "vol_evolves t (set_vol k f t)"
proof -
  have "set_vol k f t = update_where (\<lambda>v. vol_by_id k v \<and> vol_edge (vol_phase v) (vol_phase (f v))) f t"
    using assms(4) by (auto simp: set_vol_def update_where_def vol_by_id_def)
  moreover have "vol_evolves t \<dots>"
  proof (rule vol_evolves_one_edge)
    fix v assume v: "vol_ok v" "vol_by_id k v \<and> vol_edge (vol_phase v) (vol_phase (f v))"
    have "v_state v \<noteq> VolumeDeleted"
      using v by (cases "v_state v") (auto simp: vol_ok_def vol_phase_def elim: vol_from_deleted)
    moreover have "v_state (f v) \<noteq> VolumeDeleted"
      using v assms(2) [of v] by (auto simp: vol_phase_def elim: vol_to_deleted)
    ultimately show "(v_deleted_at (f v) \<noteq> None) \<longleftrightarrow> (v_state (f v) = VolumeDeleted)"
      using v(1) assms(3) by (simp add: vol_ok_def)
  qed (use assms(1) in auto)
  ultimately show ?thesis by simp
qed


subsection \<open>Every statement moves volumes along the edges\<close>

lemma vol_evolves_InsertVolume [lifecycle_intros]: "vol_evolves t (snd (InsertVolume now v t))"
  unfolding InsertVolume_def Let_def
  by (intro lifecycle_intros) (simp add: vol_ok_def vol_phase_def)

lemma vol_evolves_ClaimVolumeWork [lifecycle_intros]: "vol_evolves t (snd (ClaimVolumeWork now lease t))"
  unfolding ClaimVolumeWork_def
  by (cases rule: claim_first_cases [of v_id "vol_due now" vol_order "vol_hold (now + lease)" t])
    (auto intro!: vol_evolves_same_phase simp: vol_identity_def vol_phase_def vol_hold_def)

lemma vol_evolves_RecordLocation [lifecycle_intros]: "vol_evolves t (snd (RecordLocation now k l t))"
  unfolding RecordLocation_def set_vol_def
  by (intro vol_evolves_constrained vol_evolves_same_phase) (simp_all add: vol_identity_def vol_phase_def)

lemma vol_evolves_ReleaseVolumeLease [lifecycle_intros]: "vol_evolves t (snd (ReleaseVolumeLease k t))"
  unfolding ReleaseVolumeLease_def set_vol_def
  by (intro vol_evolves_constrained vol_evolves_same_phase) (simp_all add: vol_identity_def vol_phase_def)

lemma vol_evolves_RetryVolumeLater [lifecycle_intros]:
  "vol_evolves t (snd (RetryVolumeLater now k a le next t))"
  unfolding RetryVolumeLater_def set_vol_if_pending_def
  by (intro vol_evolves_constrained vol_evolves_same_phase) (simp_all add: vol_identity_def vol_phase_def)

lemma vol_evolves_GiveUpCreate [lifecycle_intros]: "vol_evolves t (snd (GiveUpCreate now k reason t))"
  unfolding GiveUpCreate_def set_vol_if_pending_def
proof (intro vol_evolves_constrained vol_evolves_one_edge)
  fix v :: volume_row assume v: "vol_ok v" "vol_by_id k v \<and> v_pending v = Some VolumeActionCreate"
  then have "v_state v = VolumeCreating \<and> v_attachment v = None"
    by (cases "v_state v") (auto simp: vol_ok_def vol_phase_def)
  with v show "(v_deleted_at (v\<lparr>v_state := VolumeError, v_pending := None, v_state_reason := reason,
      v_attempts := 0, v_lease_until := None, v_updated_at := now\<rparr>) \<noteq> None) \<longleftrightarrow>
    (v_state (v\<lparr>v_state := VolumeError, v_pending := None, v_state_reason := reason,
      v_attempts := 0, v_lease_until := None, v_updated_at := now\<rparr>) = VolumeDeleted)"
    and "vol_edge (vol_phase v) (vol_phase (v\<lparr>v_state := VolumeError, v_pending := None,
      v_state_reason := reason, v_attempts := 0, v_lease_until := None, v_updated_at := now\<rparr>)) \<or>
    vol_phase (v\<lparr>v_state := VolumeError, v_pending := None,
      v_state_reason := reason, v_attempts := 0, v_lease_until := None, v_updated_at := now\<rparr>) = vol_phase v"
    by (auto simp: vol_ok_def vol_phase_def intro: vol_edge.intros)
qed (simp add: vol_identity_def)

lemma vol_evolves_GiveUpAttach [lifecycle_intros]: "vol_evolves t (snd (GiveUpAttach now k reason t))"
  unfolding GiveUpAttach_def set_vol_if_pending_def
proof (intro vol_evolves_constrained vol_evolves_one_edge)
  fix v :: volume_row assume v: "vol_ok v" "vol_by_id k v \<and> v_pending v = Some VolumeActionAttach"
  let ?w = "v\<lparr>v_attachment := Some AttachmentDetaching, v_pending := Some VolumeActionDetach,
       v_state_reason := reason, v_attempts := 0, v_next_attempt := now, v_lease_until := None,
       v_updated_at := now\<rparr>"
  have "v_state v = VolumeAvailable \<and> v_attachment v = Some AttachmentAttaching"
    using v by (cases "v_state v") (auto simp: vol_ok_def vol_phase_def)
  with v show "vol_edge (vol_phase v) (vol_phase ?w) \<or> vol_phase ?w = vol_phase v"
    and "(v_deleted_at ?w \<noteq> None) \<longleftrightarrow> (v_state ?w = VolumeDeleted)"
    by (auto simp: vol_ok_def vol_phase_def intro: vol_edge.intros)
qed (simp add: vol_identity_def)

lemma vol_evolves_GiveUpResize [lifecycle_intros]:
  "vol_evolves t (snd (GiveUpResize now k actual reason t))"
  unfolding GiveUpResize_def set_vol_if_pending_def
  by (intro vol_evolves_constrained vol_evolves_one_edge)
    (auto simp: vol_identity_def vol_phase_def vol_ok_def intro: vol_edge.intros)

lemma finish_vol_edge:
  assumes "vol_ok v" and "v_pending v = Some a"
  shows "vol_edge (vol_phase v) (vol_phase (finish_vol now a v))"
  using assms by (cases "v_state v"; cases a)
    (auto simp: vol_ok_def vol_phase_def finish_vol_def intro: vol_edge.intros)

lemma vol_evolves_FinishVolumeAction [lifecycle_intros]:
  "vol_evolves t (snd (FinishVolumeAction now k a t))"
proof -
  let ?u = "vol_constrained t (set_vol_if_pending k a (finish_vol now a) t) (Inr ())"
  have "vol_evolves t (snd ?u)"
    unfolding set_vol_if_pending_def
  proof (intro vol_evolves_constrained vol_evolves_one_edge)
    fix v assume v: "vol_ok v" "vol_by_id k v \<and> v_pending v = Some a"
    then show "vol_edge (vol_phase v) (vol_phase (finish_vol now a v)) \<or>
        vol_phase (finish_vol now a v) = vol_phase v"
      by (simp add: finish_vol_edge)
    show "(v_deleted_at (finish_vol now a v) \<noteq> None) \<longleftrightarrow> (v_state (finish_vol now a v) = VolumeDeleted)"
      using v by (cases "v_state v"; cases a) (auto simp: vol_ok_def vol_phase_def finish_vol_def)
  qed (simp add: vol_identity_def finish_vol_def)
  then have "vol_evolves t (snd (ReleaseVolumeLease k (snd ?u)))"
    by (rule vol_evolves_trans [OF _ vol_evolves_ReleaseVolumeLease])
  with \<open>vol_evolves t (snd ?u)\<close> show ?thesis
    by (auto simp: FinishVolumeAction_def split: prod.split sum.split)
qed

lemma returned_edges: "vol_edge (s, None, Some a) (VolumeAvailable, None, None)"
  "vol_edge (s, Some VolumeActionAttach, Some a) (VolumeAvailable, None, None)"
  by (rule vol_edge.returned; simp)+

lemma vol_evolves_ReturnToHolder [lifecycle_intros]:
  "vol_evolves t (snd (ReturnToHolder now k l reason t))"
  unfolding ReturnToHolder_def set_vol_def
proof (intro vol_evolves_constrained vol_evolves_one_edge)
  fix v assume v: "vol_ok v"
  then show "vol_edge (vol_phase v) (vol_phase (return_vol now l reason v)) \<or>
      vol_phase (return_vol now l reason v) = vol_phase v"
    by (cases "v_state v") (auto simp: vol_ok_def vol_phase_def return_vol_def Let_def
        intro: returned_edges vol_edge.detached vol_edge.returned_resizing)
  show "(v_deleted_at (return_vol now l reason v) \<noteq> None) \<longleftrightarrow>
      (v_state (return_vol now l reason v) = VolumeDeleted)"
    using v by (auto simp: vol_ok_def return_vol_def Let_def)
qed (simp add: vol_identity_def return_vol_def Let_def)

lemma vol_evolves_RequestAttach [lifecycle_intros]:
  assumes "\<And>v. v \<in> set t \<Longrightarrow> v_id v = k \<Longrightarrow> vol_phase v = (VolumeAvailable, None, None)"
  shows "vol_evolves t (snd (RequestAttach now k inst device t))"
  unfolding RequestAttach_def snd_vol_returning
proof (intro vol_evolves_constrained vol_evolves_request)
  fix v assume "v \<in> set t" "v_id v = k"
  from assms [OF this] show "vol_edge (vol_phase v) (vol_phase ((fresh_request now VolumeActionAttach v)
      \<lparr>v_instance := inst, v_device := device, v_attachment := Some AttachmentAttaching\<rparr>))"
    by (auto simp: vol_phase_def fresh_request_def intro: vol_edge.intros)
qed (simp_all add: vol_identity_def fresh_request_def)

lemma vol_evolves_RequestDetach [lifecycle_intros]:
  assumes "\<And>v. v \<in> set t \<Longrightarrow> v_id v = k \<Longrightarrow> vol_phase v = (VolumeInUse, None, Some AttachmentAttached)"
  shows "vol_evolves t (snd (RequestDetach now k t))"
  unfolding RequestDetach_def snd_vol_returning
proof (intro vol_evolves_constrained vol_evolves_request)
  fix v assume "v \<in> set t" "v_id v = k"
  from assms [OF this] show "vol_edge (vol_phase v) (vol_phase ((fresh_request now VolumeActionDetach v)
      \<lparr>v_attachment := Some AttachmentDetaching\<rparr>))"
    by (auto simp: vol_phase_def fresh_request_def intro: vol_edge.intros)
qed (simp_all add: vol_identity_def fresh_request_def)

lemma vol_evolves_RequestResize [lifecycle_intros]:
  assumes "\<And>v. v \<in> set t \<Longrightarrow> v_id v = k \<Longrightarrow> vol_phase v = (VolumeAvailable, None, None) \<or>
      vol_phase v = (VolumeInUse, None, Some AttachmentAttached)"
  shows "vol_evolves t (snd (RequestResize now k sz t))"
  unfolding RequestResize_def snd_vol_returning
proof (intro vol_evolves_constrained vol_evolves_request)
  fix v assume "v \<in> set t" "v_id v = k"
  from assms [OF this] show "vol_edge (vol_phase v)
      (vol_phase ((fresh_request now VolumeActionResize v)\<lparr>v_size := sz\<rparr>))"
    by (auto simp: vol_phase_def fresh_request_def intro: vol_edge.intros)
qed (simp_all add: vol_identity_def fresh_request_def)

lemma vol_evolves_RequestDelete [lifecycle_intros]:
  assumes "\<And>v. v \<in> set t \<Longrightarrow> v_id v = k \<Longrightarrow> vol_phase v = (VolumeAvailable, None, None) \<or>
      vol_phase v = (VolumeError, None, None)"
  shows "vol_evolves t (snd (RequestDelete now k t))"
  unfolding RequestDelete_def snd_vol_returning
proof (intro vol_evolves_constrained vol_evolves_request)
  fix v assume "v \<in> set t" "v_id v = k"
  from assms [OF this] show "vol_edge (vol_phase v)
      (vol_phase ((fresh_request now VolumeActionDelete v)\<lparr>v_state := VolumeDeleting\<rparr>))"
    by (auto simp: vol_phase_def fresh_request_def intro: vol_edge.intros)
qed (simp_all add: vol_identity_def fresh_request_def)

section \<open>The queue of volume actions\<close>

interpretation vol_queue: leased_queue v_id vol_due vol_order vol_hold
  by unfold_locales (auto simp: vol_hold_def vol_due_def lease_free_def)

lemma claimed_volume_is_leased:
  assumes "ClaimVolumeWork now lease t = (Inr v, t')" and "now' \<le> now + lease"
    and "ClaimVolumeWork now' lease' t' = (Inr w, t'')"
  shows "v_id w \<noteq> v_id v"
  using vol_queue.claim_excludes [OF assms(1) [unfolded ClaimVolumeWork_def] assms(2)
      assms(3) [unfolded ClaimVolumeWork_def]] .

section \<open>Attachments\<close>

text \<open>
  An attachment is all or nothing, and exclusive: in a table that keeps its constraints no two
  volumes share a device of one instance, a live disk belongs to one volume, and a volume whose
  lifecycle phase is in order has an instance and a device exactly while it is attaching, attached
  or detaching.
\<close>

theorem attachment_exclusive:
  assumes "vol_constraints t" and "v \<in> set t" and "w \<in> set t" and "v_id v \<noteq> v_id w"
  shows "(v_instance v \<noteq> '''' \<longrightarrow> (v_instance v, v_device v) \<noteq> (v_instance w, v_device w)) \<and>
    (vol_live v \<and> vol_live w \<and> l_volid (v_location v) \<noteq> '''' \<longrightarrow>
       l_volid (v_location v) \<noteq> l_volid (v_location w)) \<and>
    (v_attachment v \<noteq> None \<longleftrightarrow> v_instance v \<noteq> '''') \<and> (v_attachment v \<noteq> None \<longleftrightarrow> v_device v \<noteq> '''')"
proof -
  have inj: "distinct (map f (filter P t)) \<Longrightarrow> P v \<Longrightarrow> P w \<Longrightarrow> f v \<noteq> f w" for f :: "volume_row \<Rightarrow> 'b" and P
    using assms(2-4) by (auto simp: distinct_map inj_on_def)
  have "vol_row_ok v"
    using assms(1,2) by (auto simp: vol_constraints_def list_all_iff)
  moreover have "v_instance v \<noteq> '''' \<longrightarrow> (v_instance v, v_device v) \<noteq> (v_instance w, v_device w)"
    using assms(1) inj [of "\<lambda>v. (v_instance v, v_device v)" "\<lambda>v. v_instance v \<noteq> ''''"]
    by (auto simp: vol_constraints_def used_devices_def)
  moreover have "vol_live v \<and> vol_live w \<and> l_volid (v_location v) \<noteq> '''' \<longrightarrow>
      l_volid (v_location v) \<noteq> l_volid (v_location w)"
    using assms(1) inj [of "\<lambda>v. l_volid (v_location v)" "\<lambda>v. vol_live v \<and> l_volid (v_location v) \<noteq> ''''"]
    by (auto simp: vol_constraints_def live_volids_def)
  ultimately show ?thesis
    by (auto simp: vol_row_ok_def)
qed

definition example_volume :: "string \<Rightarrow> volume_row" where
  "example_volume k = \<lparr>v_id = k, v_account = ''acct'', v_client_token = '''', v_request_hash = [],
     v_size = 10, v_tier = TierSSD, v_tags = [], v_state = VolumeAvailable, v_instance = '''',
     v_device = '''', v_attachment = None, v_pending = None, v_state_reason = '''', v_last_error = '''',
     v_attempts = 0, v_next_attempt = 0, v_lease_until = None,
     v_location = \<lparr>l_vmid = Some 4999, l_config_key = ''unused0'', l_volid = ''lvm:vm-4999-disk-0'',
       l_move_vmid = None, l_move_key = ''''\<rparr>,
     v_created_at = 0, v_deleted_at = None, v_updated_at = 0\<rparr>"

definition example_attached :: "string \<Rightarrow> volume_row" where
  "example_attached k = (example_volume k)\<lparr>v_state := VolumeInUse, v_instance := ''i-1'', v_device := ''virtio1'',
     v_attachment := Some AttachmentAttached, v_location := \<lparr>l_vmid = Some 5000,
       l_config_key = ''virtio1'', l_volid = ''lvm:vm-5000-disk-1'', l_move_vmid = None, l_move_key = ''''\<rparr>\<rparr>"

lemma volume_devices_eval [simp]: "volume_devices = [''virtio1'', ''virtio2'', ''virtio3'', ''virtio4'',
  ''virtio5'', ''virtio6'', ''virtio7'', ''virtio8'', ''virtio9'', ''virtio10'', ''virtio11'',
  ''virtio12'', ''virtio13'', ''virtio14'', ''virtio15'']"
  by code_simp

lemmas vol_eval = example_volume_def example_attached_def vol_constraints_def vol_tokens_def
  used_devices_def live_volids_def vol_row_ok_def vol_live_def vol_by_id_def int4_def

theorem attachment_exclusive_witness:
  "let v = example_attached ''vol-1''; w = example_volume ''vol-2'' in
   vol_constraints [v, w] \<and> (v_instance v, v_device v) \<noteq> (v_instance w, v_device w) \<and>
   l_volid (v_location v) \<noteq> l_volid (v_location w)"
proof -
  let ?v = "example_attached ''vol-1''" and ?w = "example_volume ''vol-2''"
  have ok: "vol_constraints [?v, ?w]"
    by (simp add: vol_eval)
  show ?thesis
    using attachment_exclusive [OF ok, of ?v ?w] ok by (simp add: vol_eval Let_def)
qed

text \<open>
  Terminating an instance returns each of its volumes available and detached whatever it was
  doing: an attach or detach in flight is over, a resize stays pending, and nothing but the
  attachment, the location and the reason changes.
\<close>

theorem returned_volume_is_free:
  assumes "vol_ok v" and "v_instance v \<noteq> ''''" and "vol_row_ok v"
  shows "let w = return_vol now l reason v in
     v_state w = VolumeAvailable \<and> v_instance w = '''' \<and> v_attachment w = None \<and>
     v_pending w = (if v_pending v = Some VolumeActionResize then Some VolumeActionResize else None) \<and>
     v_size w = v_size v \<and> v_tags w = v_tags v \<and> vol_identity v w \<and> vol_ok w"
  using assms by (cases "v_state v")
    (auto simp: vol_ok_def vol_phase_def vol_row_ok_def return_vol_def Let_def vol_identity_def)

theorem returned_volume_is_free_witness:
  "v_state (return_vol 5 no_location ''gone'' (example_attached ''vol-1'')) = VolumeAvailable"
  using returned_volume_is_free [of "example_attached ''vol-1''" 5 no_location "''gone''"]
  by (simp add: vol_eval vol_ok_def vol_phase_def Let_def)

end
