(* ===== verification/Tenant_Tables.thy ===== *)
theory Tenant_Tables
  imports Go_Lib
begin

text \<open>
  The tables of the management database that belong to accounts rather than to machines:
  accounts, access keys, sessions and login attempts (\<open>db/accounts.go\<close>, \<open>keys.go\<close>,
  \<open>sessions.go\<close>), and the appliances (\<open>buckets.go\<close>, \<open>databases.go\<close>, \<open>functions.go\<close>,
  \<open>services.go\<close>). Times are nanoseconds. The audit trail is written by the callers' closures and
  is not kept.
\<close>

section \<open>Accounts and credentials\<close>

record account =
  ac_id :: string
  ac_kind :: string
  ac_subject :: "string option"
  ac_username :: string
  ac_email :: string
  ac_is_admin :: bool
  ac_created_at :: int
  ac_last_login_at :: "int option"

record access_key =
  ak_id :: string
  ak_account :: string
  ak_secret :: "nat list"             \<comment> \<open>\<open>secret_sha256\<close>\<close>
  ak_description :: string
  ak_scope :: string
  ak_created_at :: int
  ak_expires_at :: "int option"
  ak_revoked_at :: "int option"
  ak_last_used_at :: "int option"

record session =
  se_token :: "nat list"
  se_account :: string
  se_expires_at :: int

record login_attempt =
  la_state :: "nat list"
  la_nonce :: string
  la_verifier :: string
  la_expires_at :: int

section \<open>Appliances\<close>

text \<open>\<open>OwnerUsername\<close> is a join every query adds; the stored rows leave it empty.\<close>

record bucket_row =
  bu_name :: string
  bu_account :: string
  bu_owner :: string
  bu_garage_id :: string
  bu_created_at :: int

record s3_key =
  sk_id :: string
  sk_account :: string
  sk_name :: string
  sk_created_at :: int

record bucket_key =
  bk_bucket :: string
  bk_key :: string
  bk_read :: bool
  bk_write :: bool
  bk_owner :: bool

record database_row =
  da_id :: string
  da_account :: string
  da_owner :: string
  da_name :: string
  da_namespace :: string
  da_engine :: string
  da_version :: string
  da_storage_gib :: int
  da_created_at :: int

record function_row =
  fu_id :: string
  fu_account :: string
  fu_owner :: string
  fu_name :: string
  fu_namespace :: string
  fu_image :: string
  fu_created_at :: int

record service_row =
  sv_id :: string
  sv_account :: string
  sv_owner :: string
  sv_name :: string
  sv_namespace :: string
  sv_image :: string
  sv_port :: int
  sv_memory_mib :: int
  sv_env :: "(string, string) gomap"
  sv_secret_names :: "string list"
  sv_disk_gib :: int
  sv_mount_path :: string
  sv_created_at :: int

record tenants =
  t_accounts :: "account list"
  t_keys :: "access_key list"
  t_sessions :: "session list"
  t_logins :: "login_attempt list"
  t_buckets :: "bucket_row list"
  t_s3_keys :: "s3_key list"
  t_bucket_keys :: "bucket_key list"
  t_databases :: "database_row list"
  t_functions :: "function_row list"
  t_services :: "service_row list"

definition no_tenants :: tenants where
  "no_tenants = \<lparr>t_accounts = [], t_keys = [], t_sessions = [], t_logins = [], t_buckets = [],
     t_s3_keys = [], t_bucket_keys = [], t_databases = [], t_functions = [], t_services = []\<rparr>"

end
