(* ===== verification/Group_Ledger.thy ===== *)
theory Group_Ledger
  imports Volume_Ledger Tenant_Tables
begin

text \<open>
  The whole management database (\<open>ledger\<close>), and \<open>api/internal/db/securitygroups.go\<close>: security
  groups, their rules, which instances have them, and the generation counters that tell the
  firewall worker which instances are behind. One definition per SQL statement.
\<close>

section \<open>The ledger\<close>

datatype direction = DirectionIngress | DirectionEgress

record group_row =
  g_id :: string
  g_account :: string
  g_name :: string
  g_description :: string
  g_default :: bool
  g_created_at :: int
  g_updated_at :: int

record rule_row =
  gr_id :: string
  gr_group :: string
  gr_direction :: direction
  gr_protocol :: string
  gr_from_port :: "int option"
  gr_to_port :: "int option"
  gr_cidr :: prefix
  gr_description :: string
  gr_created_at :: int

record image_row =
  im_id :: string
  im_account :: string
  im_name :: string
  im_volume :: string
  im_format :: string
  im_size :: int
  im_created_at :: int

record iso_row =
  iso_id :: string
  iso_account :: string
  iso_title :: string
  iso_vol :: string
  iso_size :: int
  iso_guest :: string
  iso_created_at :: int

record key_pair =
  kp_account :: string
  kp_name :: string
  kp_public_key :: string
  kp_fingerprint :: string
  kp_created_at :: int

record ledger =
  d_instances :: inst_table
  d_volumes :: vol_table
  d_quarantine :: "int list"
  d_groups :: "group_row list"
  d_rules :: "rule_row list"
  d_members :: "(string \<times> string) list"   \<comment> \<open>instance and group\<close>
  d_images :: "image_row list"
  d_isos :: "iso_row list"
  d_key_pairs :: "key_pair list"
  d_overrides :: limit_overrides
  d_tenants :: tenants

definition empty_ledger :: ledger where
  "empty_ledger = \<lparr>d_instances = [], d_volumes = [], d_quarantine = [], d_groups = [], d_rules = [],
     d_members = [], d_images = [], d_isos = [], d_key_pairs = [], d_overrides = no_overrides,
     d_tenants = no_tenants\<rparr>"

type_synonym 'a stmt = "ledger \<Rightarrow> 'a res \<times> ledger"

text \<open>A statement on one of the tables, as a statement on the ledger.\<close>

definition on_instances :: "(inst_table \<Rightarrow> 'a res \<times> inst_table) \<Rightarrow> 'a stmt" where
  "on_instances f d = (case f (d_instances d) of (r, t) \<Rightarrow> (r, d\<lparr>d_instances := t\<rparr>))"

definition on_volumes :: "(vol_table \<Rightarrow> 'a res \<times> vol_table) \<Rightarrow> 'a stmt" where
  "on_volumes f d = (case f (d_volumes d) of (r, t) \<Rightarrow> (r, d\<lparr>d_volumes := t\<rparr>))"

definition reading :: "(ledger \<Rightarrow> 'a res) \<Rightarrow> 'a stmt" where
  "reading f d = (f d, d)"

text \<open>Statements in sequence, the next only when the one before succeeded.\<close>

definition then_stmt :: "'a stmt \<Rightarrow> ('a \<Rightarrow> 'b stmt) \<Rightarrow> 'b stmt" where
  "then_stmt m f d = (case m d of (Inl e, d') \<Rightarrow> (Inl e, d') | (Inr x, d') \<Rightarrow> f x d')"

section \<open>Constraints of the group tables\<close>

definition rule_key :: "rule_row \<Rightarrow> string \<times> direction \<times> string \<times> int \<times> int \<times> prefix" where
  "rule_key r = (gr_group r, gr_direction r, gr_protocol r,
     (case gr_from_port r of Some p \<Rightarrow> p | None \<Rightarrow> -1), (case gr_to_port r of Some p \<Rightarrow> p | None \<Rightarrow> -1),
     gr_cidr r)"

definition port_ok :: "int option \<Rightarrow> bool" where
  "port_ok p = (case p of None \<Rightarrow> True | Some n \<Rightarrow> 0 \<le> n \<and> n \<le> 65535)"

definition rule_row_ok :: "rule_row \<Rightarrow> bool" where
  "rule_row_ok r \<longleftrightarrow>
     gr_protocol r \<in> {''tcp'', ''udp'', ''icmp'', ''icmpv6'', ''all''} \<and>
     port_ok (gr_from_port r) \<and> port_ok (gr_to_port r) \<and>
     (gr_protocol r \<in> {''tcp'', ''udp''} \<longleftrightarrow> gr_from_port r \<noteq> None \<and> gr_to_port r \<noteq> None) \<and>
     (case gr_from_port r of None \<Rightarrow> True
      | Some f \<Rightarrow> (case gr_to_port r of None \<Rightarrow> True | Some t \<Rightarrow> f \<le> t)) \<and>
     (gr_protocol r = ''icmp'' \<longrightarrow> is4 (pfx_addr (gr_cidr r))) \<and>
     (gr_protocol r = ''icmpv6'' \<longrightarrow> \<not> is4 (pfx_addr (gr_cidr r)))"

definition group_constraints :: "ledger \<Rightarrow> bool" where
  "group_constraints d \<longleftrightarrow>
     distinct (map g_id (d_groups d)) \<and>
     distinct (map (\<lambda>g. (g_account g, g_name g)) (d_groups d)) \<and>
     distinct (map g_account (filter g_default (d_groups d))) \<and>
     distinct (map gr_id (d_rules d)) \<and> distinct (map rule_key (d_rules d)) \<and>
     list_all rule_row_ok (d_rules d) \<and>
     gr_group ` set (d_rules d) \<subseteq> g_id ` set (d_groups d) \<and>
     distinct (d_members d) \<and>
     (\<forall>(i, g) \<in> set (d_members d). i \<in> i_id ` set (d_instances d) \<and> g \<in> g_id ` set (d_groups d))"

definition grp_constrained :: "ledger \<Rightarrow> ledger \<Rightarrow> 'a res \<Rightarrow> 'a res \<times> ledger" where
  "grp_constrained d d' r =
     (if group_constraints d' then (r, d') else (Inl (Failed ''constraint violation''), d))"

section \<open>Groups\<close>

definition name_taken :: "string \<Rightarrow> string \<Rightarrow> ledger \<Rightarrow> bool" where
  "name_taken acct name d \<longleftrightarrow> (\<exists>g \<in> set (d_groups d). g_account g = acct \<and> g_name g = name)"

definition InsertSecurityGroup :: "int \<Rightarrow> group_row \<Rightarrow> group_row stmt" where
  "InsertSecurityGroup now g d =
     (let row = g\<lparr>g_default := False, g_created_at := now, g_updated_at := now\<rparr> in
      if name_taken (g_account g) (g_name g) d then (Inl Duplicate, d)
      else grp_constrained d (d\<lparr>d_groups := d_groups d @ [row]\<rparr>) (Inr row))"

fun insert_rules :: "int \<Rightarrow> rule_row list \<Rightarrow> unit stmt" where
  "insert_rules now [] d = (Inr (), d)"
| "insert_rules now (r # rs) d =
     (if rule_key r \<in> rule_key ` set (d_rules d) then (Inl Duplicate, d)
      else case grp_constrained d (d\<lparr>d_rules := d_rules d @ [r\<lparr>gr_created_at := now\<rparr>]\<rparr>) (Inr ()) of
          (Inl e, d') \<Rightarrow> (Inl e, d') | (Inr _, d') \<Rightarrow> insert_rules now rs d')"

definition InsertSecurityGroupRules :: "int \<Rightarrow> rule_row list \<Rightarrow> unit stmt" where
  "InsertSecurityGroupRules now rules =
     then_stmt (insert_rules now rules) (\<lambda>_ d. grp_constrained d
       (d\<lparr>d_groups := update_where (\<lambda>g. g_id g \<in> set (map gr_group rules))
            (\<lambda>g. g\<lparr>g_updated_at := now\<rparr>) (d_groups d)\<rparr>) (Inr ()))"

text \<open>
  \<open>INSERT ... ON CONFLICT DO NOTHING RETURNING\<close>: no row comes back when the account already has
  the name or a default group. The result's flag tells whether this call created the group.
\<close>

definition EnsureDefaultSecurityGroup ::
    "int \<Rightarrow> group_row \<Rightarrow> rule_row list \<Rightarrow> (group_row \<times> bool) stmt" where
  "EnsureDefaultSecurityGroup now g rules d =
     (let row = g\<lparr>g_default := True, g_created_at := now, g_updated_at := now\<rparr>;
          conflict = name_taken (g_account g) (g_name g) d \<or>
            (\<exists>h \<in> set (d_groups d). g_account h = g_account g \<and> g_default h) \<or>
            g_id g \<in> g_id ` set (d_groups d) in
      if conflict then
        (case select_one (\<lambda>h. g_account h = g_account g \<and> g_default h) (d_groups d) of
           Inl e \<Rightarrow> (Inl e, d) | Inr h \<Rightarrow> (Inr (h, False), d))
      else case grp_constrained d (d\<lparr>d_groups := d_groups d @ [row]\<rparr>) (Inr ()) of
        (Inl e, d') \<Rightarrow> (Inl e, d')
      | (Inr _, d') \<Rightarrow>
          (case InsertSecurityGroupRules now (map (\<lambda>r. r\<lparr>gr_group := g_id row\<rparr>) rules) d' of
             (Inl e, d'') \<Rightarrow> (Inl e, d'') | (Inr _, d'') \<Rightarrow> (Inr (row, True), d'')))"

definition GetSecurityGroup :: "string \<Rightarrow> ledger \<Rightarrow> group_row res" where
  "GetSecurityGroup k d = select_one (\<lambda>g. g_id g = k) (d_groups d)"

definition ListSecurityGroups :: "string \<Rightarrow> ledger \<Rightarrow> group_row list" where
  "ListSecurityGroups acct d =
     sort_key g_account (sort_key (\<lambda>g. if g_default g then 0 else (1::int))
       (sort_key g_created_at (sort_key g_id (filter (\<lambda>g. acct = '''' \<or> g_account g = acct) (d_groups d)))))"

definition CountSecurityGroups :: "string \<Rightarrow> ledger \<Rightarrow> int" where
  "CountSecurityGroups acct d = int (length (filter (\<lambda>g. g_account g = acct) (d_groups d)))"

definition terminated_ids :: "inst_table \<Rightarrow> string set" where
  "terminated_ids t = i_id ` {i \<in> set t. \<not> live i}"

text \<open>Deleting the group removes its rules (\<open>ON DELETE CASCADE\<close>) and fails while a row of
  \<open>instance_security_groups\<close> still names it.\<close>

definition DeleteSecurityGroup :: "string \<Rightarrow> unit stmt" where
  "DeleteSecurityGroup k d =
     (let d1 = d\<lparr>d_members := filter (\<lambda>(i, g). \<not> (g = k \<and> (\<exists>r \<in> set (d_instances d). i_id r = i \<and> \<not> live r)))
                   (d_members d)\<rparr> in
      if \<not> (\<exists>g \<in> set (d_groups d). g_id g = k) then (Inl NotFound, d1)
      else grp_constrained d1
        (d1\<lparr>d_groups := filter (\<lambda>g. g_id g \<noteq> k) (d_groups d1),
            d_rules := filter (\<lambda>r. gr_group r \<noteq> k) (d_rules d1)\<rparr>) (Inr ()))"

text \<open>\<open>ORDER BY group_id, direction DESC, created_at, rule_id\<close>: ingress before egress.\<close>

definition direction_rank :: "direction \<Rightarrow> int" where
  "direction_rank x = (if x = DirectionIngress then 0 else 1)"

definition RulesOfGroups :: "string list \<Rightarrow> ledger \<Rightarrow> rule_row list" where
  "RulesOfGroups ids d =
     sort_key gr_group (sort_key (\<lambda>r. direction_rank (gr_direction r))
       (sort_key gr_created_at (sort_key gr_id (filter (\<lambda>r. gr_group r \<in> set ids) (d_rules d)))))"

definition DeleteSecurityGroupRule :: "int \<Rightarrow> string \<Rightarrow> string \<Rightarrow> unit stmt" where
  "DeleteSecurityGroupRule now grp rule d =
     (if \<not> (\<exists>r \<in> set (d_rules d). gr_group r = grp \<and> gr_id r = rule) then (Inl NotFound, d)
      else grp_constrained d
        (d\<lparr>d_rules := filter (\<lambda>r. \<not> (gr_group r = grp \<and> gr_id r = rule)) (d_rules d),
           d_groups := update_where (\<lambda>g. g_id g = grp) (\<lambda>g. g\<lparr>g_updated_at := now\<rparr>) (d_groups d)\<rparr>)
        (Inr ()))"

definition CountRules :: "string \<Rightarrow> direction \<Rightarrow> ledger \<Rightarrow> int" where
  "CountRules grp dir d =
     int (length (filter (\<lambda>r. gr_group r = grp \<and> gr_direction r = dir) (d_rules d)))"

section \<open>Groups of instances\<close>

text \<open>The groups of one instance, default group first, then by name; the instances of one group.\<close>

definition InstanceGroups :: "string \<Rightarrow> ledger \<Rightarrow> (string \<times> string) list" where
  "InstanceGroups inst d =
     map (\<lambda>g. (g_id g, g_name g))
       (sort_key (\<lambda>g. if g_default g then 0 else (1::int)) (sort_key g_name
         (filter (\<lambda>g. (inst, g_id g) \<in> set (d_members d)) (d_groups d))))"

definition GroupInstances :: "string \<Rightarrow> ledger \<Rightarrow> string list" where
  "GroupInstances grp d =
     sort_key id (map i_id (filter (\<lambda>i. live i \<and> (i_id i, grp) \<in> set (d_members d)) (d_instances d)))"

definition bump :: "int \<Rightarrow> instance_row \<Rightarrow> instance_row" where
  "bump now i = i\<lparr>i_fw_generation := i_fw_generation i + 1, i_fw_next_attempt := now\<rparr>"

definition SetInstanceGroups :: "int \<Rightarrow> string \<Rightarrow> string list \<Rightarrow> unit stmt" where
  "SetInstanceGroups now inst ids d =
     grp_constrained d
       (d\<lparr>d_members := filter (\<lambda>(i, g). i \<noteq> inst) (d_members d) @ map (\<lambda>g. (inst, g)) ids,
          d_instances := update_where (by_id inst) (\<lambda>i. (bump now i)\<lparr>i_updated_at := now\<rparr>) (d_instances d)\<rparr>)
       (Inr ())"

definition grouped :: "ledger \<Rightarrow> instance_row \<Rightarrow> bool" where
  "grouped d i \<longleftrightarrow> live i \<and> i_id i \<in> fst ` set (d_members d)"

definition BumpFirewallOfAllGrouped :: "int \<Rightarrow> int stmt" where
  "BumpFirewallOfAllGrouped now d =
     (Inr (int (length (filter (grouped d) (d_instances d)))),
      d\<lparr>d_instances := update_where (grouped d) (bump now) (d_instances d)\<rparr>)"

definition BumpFirewallOfGroup :: "int \<Rightarrow> string \<Rightarrow> unit stmt" where
  "BumpFirewallOfGroup now grp d =
     (Inr (), d\<lparr>d_instances := update_where (\<lambda>i. live i \<and> (i_id i, grp) \<in> set (d_members d)) (bump now)
                  (d_instances d)\<rparr>)"

definition fw_due :: "int \<Rightarrow> instance_row \<Rightarrow> bool" where
  "fw_due now i \<longleftrightarrow> i_fw_generation i \<noteq> i_fw_applied i \<and> i_vm_created i \<and> i_vmid i \<noteq> None \<and> live i \<and>
     i_pending i \<noteq> Some ActionLaunch \<and> i_pending i \<noteq> Some ActionTerminate \<and>
     i_fw_next_attempt i \<le> now \<and> lease_free now (i_fw_lease_until i)"

definition fw_order :: "instance_row \<Rightarrow> int \<times> string" where
  "fw_order i = (i_fw_next_attempt i, i_id i)"

definition fw_hold :: "int \<Rightarrow> instance_row \<Rightarrow> instance_row" where
  "fw_hold until i = i\<lparr>i_fw_lease_until := Some until\<rparr>"

definition ClaimFirewallWork :: "int \<Rightarrow> int \<Rightarrow> inst_table \<Rightarrow> instance_row res \<times> inst_table" where
  "ClaimFirewallWork now lease t = claim_first i_id (fw_due now) fw_order (fw_hold (now + lease)) t"

definition RecordFirewallApplied :: "string \<Rightarrow> int \<Rightarrow> inst_table \<Rightarrow> unit res \<times> inst_table" where
  "RecordFirewallApplied k generation t =
     (Inr (), set_row k (\<lambda>i. i\<lparr>i_fw_applied := max (i_fw_applied i) generation,
        i_fw_last_error := '''', i_fw_lease_until := None\<rparr>) t)"

definition FirewallRetryLater :: "string \<Rightarrow> string \<Rightarrow> int \<Rightarrow> inst_table \<Rightarrow> unit res \<times> inst_table" where
  "FirewallRetryLater k last_error next t =
     (Inr (), set_row k (\<lambda>i. i\<lparr>i_fw_last_error := last_error, i_fw_next_attempt := next,
        i_fw_lease_until := None\<rparr>) t)"

interpretation fw_queue: leased_queue i_id fw_due fw_order fw_hold
  by unfold_locales (auto simp: fw_hold_def fw_due_def lease_free_def)

end
