(* ===== verification/Media_Ledger.thy ===== *)
theory Media_Ledger
  imports Group_Ledger
begin

text \<open>
  The smaller tables: uploaded images (\<open>db/images.go\<close>), ISOs (\<open>db/isos.go\<close>), SSH key pairs
  (\<open>db/keypairs.go\<close>), the VMID quarantine and an administrator's limits (\<open>db/limits.go\<close>). One
  definition per SQL statement.
\<close>

section \<open>Images\<close>

definition volumes_taken :: "ledger \<Rightarrow> string set" where
  "volumes_taken d = im_volume ` set (d_images d)"

definition InsertImage :: "int \<Rightarrow> image_row \<Rightarrow> image_row stmt" where
  "InsertImage now i d =
     (let row = i\<lparr>im_created_at := now\<rparr> in
      if im_id i \<in> im_id ` set (d_images d) \<or> im_volume i \<in> im_volume ` set (d_images d) \<or>
         im_name i = '''' \<or> im_size i \<le> 0
      then (Inl (Failed ''constraint violation''), d)
      else (Inr row, d\<lparr>d_images := d_images d @ [row]\<rparr>))"

definition ListImages :: "ledger \<Rightarrow> image_row list" where
  "ListImages d = sort_key (\<lambda>i. - im_created_at i) (sort_key im_id (d_images d))"

definition GetImage :: "string \<Rightarrow> ledger \<Rightarrow> image_row res" where
  "GetImage k d = select_one (\<lambda>i. im_id i = k) (d_images d)"

definition DeleteImage :: "string \<Rightarrow> unit stmt" where
  "DeleteImage k d =
     (if \<exists>i \<in> set (d_images d). im_id i = k
      then (Inr (), d\<lparr>d_images := filter (\<lambda>i. im_id i \<noteq> k) (d_images d)\<rparr>) else (Inl NotFound, d))"

definition CountImagesOf :: "string \<Rightarrow> ledger \<Rightarrow> int" where
  "CountImagesOf acct d = int (length (filter (\<lambda>i. im_account i = acct) (d_images d)))"

definition LaunchingFromImage :: "string \<Rightarrow> ledger \<Rightarrow> int" where
  "LaunchingFromImage k d = int (length (filter (\<lambda>i. i_image i = k \<and> live i \<and>
     i_pending i = Some ActionLaunch) (d_instances d)))"

section \<open>ISOs\<close>

definition InsertISO :: "int \<Rightarrow> iso_row \<Rightarrow> iso_row stmt" where
  "InsertISO now i d =
     (let row = i\<lparr>iso_created_at := now\<rparr> in
      if iso_id i \<in> iso_id ` set (d_isos d) \<or> iso_vol i \<in> iso_vol ` set (d_isos d) \<or>
         iso_title i = '''' \<or> iso_size i \<le> 0 \<or> iso_guest i \<notin> {'''', ''linux'', ''windows''}
      then (Inl (Failed ''constraint violation''), d)
      else (Inr row, d\<lparr>d_isos := d_isos d @ [row]\<rparr>))"

definition ListISOs :: "ledger \<Rightarrow> iso_row list" where
  "ListISOs d = sort_key (\<lambda>i. - iso_created_at i) (sort_key iso_id (d_isos d))"

definition GetISO :: "string \<Rightarrow> ledger \<Rightarrow> iso_row res" where
  "GetISO k d = select_one (\<lambda>i. iso_id i = k) (d_isos d)"

definition DeleteISO :: "string \<Rightarrow> unit stmt" where
  "DeleteISO k d =
     (if \<exists>i \<in> set (d_isos d). iso_id i = k
      then (Inr (), d\<lparr>d_isos := filter (\<lambda>i. iso_id i \<noteq> k) (d_isos d)\<rparr>) else (Inl NotFound, d))"

definition ISOInUse :: "string \<Rightarrow> ledger \<Rightarrow> int" where
  "ISOInUse k d = int (length (filter (\<lambda>i. live i \<and> k \<noteq> '''' \<and> (i_install_iso i = k \<or> i_driver_iso i = k))
     (d_instances d)))"

section \<open>Key pairs\<close>

definition ErrKeyNameTaken :: err where "ErrKeyNameTaken = Failed ''key name already in use''"

definition same_key :: "string \<Rightarrow> string \<Rightarrow> key_pair \<Rightarrow> bool" where
  "same_key acct name k \<longleftrightarrow> kp_account k = acct \<and> kp_name k = name"

definition InsertKeyPair :: "int \<Rightarrow> key_pair \<Rightarrow> key_pair stmt" where
  "InsertKeyPair now k d =
     (let row = k\<lparr>kp_created_at := now\<rparr> in
      if \<exists>x \<in> set (d_key_pairs d). same_key (kp_account k) (kp_name k) x then (Inl ErrKeyNameTaken, d)
      else (Inr row, d\<lparr>d_key_pairs := d_key_pairs d @ [row]\<rparr>))"

definition ListKeyPairs :: "string \<Rightarrow> ledger \<Rightarrow> key_pair list" where
  "ListKeyPairs acct d = sort_key kp_created_at (sort_key kp_name
     (filter (\<lambda>k. kp_account k = acct) (d_key_pairs d)))"

definition GetKeyPair :: "string \<Rightarrow> string \<Rightarrow> ledger \<Rightarrow> key_pair res" where
  "GetKeyPair acct name d = select_one (same_key acct name) (d_key_pairs d)"

definition DeleteKeyPair :: "string \<Rightarrow> string \<Rightarrow> unit stmt" where
  "DeleteKeyPair acct name d =
     (if \<exists>k \<in> set (d_key_pairs d). same_key acct name k
      then (Inr (), d\<lparr>d_key_pairs := filter (\<lambda>k. \<not> same_key acct name k) (d_key_pairs d)\<rparr>)
      else (Inl NotFound, d))"

section \<open>Quarantine and limits\<close>

definition QuarantineVMID :: "int \<Rightarrow> unit stmt" where
  "QuarantineVMID v d =
     (Inr (), if v \<in> set (d_quarantine d) then d else d\<lparr>d_quarantine := d_quarantine d @ [v]\<rparr>)"

text \<open>The advisory lock that serialises launches; a transaction is isolated, so it only can fail.\<close>

definition LockCapacity :: "unit stmt" where
  "LockCapacity = reading (\<lambda>_. Inr ())"

definition GetLimitOverrides :: "ledger \<Rightarrow> limit_overrides res" where
  "GetLimitOverrides d = Inr (d_overrides d)"

definition SetLimitOverrides :: "limit_overrides \<Rightarrow> limit_overrides stmt" where
  "SetLimitOverrides ov d = (Inr ov, d\<lparr>d_overrides := ov\<rparr>)"

text \<open>None of these, and none of the group statements on rules alone, touches an instance or a volume.\<close>

definition leaves_machines :: "'a stmt \<Rightarrow> bool" where
  "leaves_machines f \<longleftrightarrow>
     (\<forall>d. d_instances (snd (f d)) = d_instances d \<and> d_volumes (snd (f d)) = d_volumes d)"

lemma leaves_machines_media:
  "leaves_machines (InsertImage now i)" "leaves_machines (DeleteImage k)"
  "leaves_machines (InsertISO now s)" "leaves_machines (DeleteISO k)"
  "leaves_machines (InsertKeyPair now kp)" "leaves_machines (DeleteKeyPair acct name)"
  "leaves_machines (QuarantineVMID v)" "leaves_machines (SetLimitOverrides ov)"
  "leaves_machines (reading f)" "leaves_machines LockCapacity"
  by (auto simp: LockCapacity_def leaves_machines_def InsertImage_def DeleteImage_def InsertISO_def DeleteISO_def
      InsertKeyPair_def DeleteKeyPair_def QuarantineVMID_def SetLimitOverrides_def reading_def Let_def)

lemma leaves_machines_constrained:
  "d_instances d' = d_instances d \<Longrightarrow> d_volumes d' = d_volumes d \<Longrightarrow>
   d_instances (snd (grp_constrained d d' r)) = d_instances d \<and> d_volumes (snd (grp_constrained d d' r)) = d_volumes d"
  by (simp add: grp_constrained_def)

lemma leaves_machines_then:
  "leaves_machines m \<Longrightarrow> (\<And>x. leaves_machines (f x)) \<Longrightarrow> leaves_machines (then_stmt m f)"
  unfolding leaves_machines_def
proof
  fix d
  assume m: "\<forall>d. d_instances (snd (m d)) = d_instances d \<and> d_volumes (snd (m d)) = d_volumes d"
    and f: "\<And>x. \<forall>d. d_instances (snd (f x d)) = d_instances d \<and> d_volumes (snd (f x d)) = d_volumes d"
  obtain r d' where "m d = (r, d')" by fastforce
  with m [rule_format, of d] f show "d_instances (snd (then_stmt m f d)) = d_instances d \<and>
      d_volumes (snd (then_stmt m f d)) = d_volumes d"
    by (cases r) (simp_all add: then_stmt_def)
qed

lemma leaves_machines_insert_rules: "leaves_machines (insert_rules now rs)"
proof -
  have "d_instances (snd (insert_rules now rs d)) = d_instances d \<and>
        d_volumes (snd (insert_rules now rs d)) = d_volumes d" for d
    by (induction now rs d rule: insert_rules.induct)
      (auto simp: grp_constrained_def split: prod.split sum.split)
  then show ?thesis
    by (simp add: leaves_machines_def)
qed

lemma leaves_machines_groups:
  "leaves_machines (InsertSecurityGroup now g)" "leaves_machines (InsertSecurityGroupRules now rs)"
  "leaves_machines (EnsureDefaultSecurityGroup now g rs)" "leaves_machines (DeleteSecurityGroup k)"
  "leaves_machines (DeleteSecurityGroupRule now k rule)"
proof -
  show ins: "leaves_machines (InsertSecurityGroupRules now rs)" for now rs
    unfolding InsertSecurityGroupRules_def
    by (intro leaves_machines_then leaves_machines_insert_rules)
      (simp add: leaves_machines_def leaves_machines_constrained)
  show "leaves_machines (InsertSecurityGroup now g)" "leaves_machines (DeleteSecurityGroup k)"
    "leaves_machines (DeleteSecurityGroupRule now k rule)"
    by (auto simp: leaves_machines_def InsertSecurityGroup_def DeleteSecurityGroup_def
        DeleteSecurityGroupRule_def leaves_machines_constrained Let_def)
  let ?row = "g\<lparr>g_default := True, g_created_at := now, g_updated_at := now\<rparr>"
  let ?rules = "map (\<lambda>r. r\<lparr>gr_group := g_id ?row\<rparr>) rs"
  have rules: "d_instances (snd (InsertSecurityGroupRules now ?rules d)) = d_instances d"
    "d_volumes (snd (InsertSecurityGroupRules now ?rules d)) = d_volumes d" for d
    using ins [of now ?rules] by (simp_all add: leaves_machines_def)
  have "d_instances (snd (EnsureDefaultSecurityGroup now g rs d)) = d_instances d \<and>
      d_volumes (snd (EnsureDefaultSecurityGroup now g rs d)) = d_volumes d" for d
  proof -
    obtain r1 d1 where c: "grp_constrained d (d\<lparr>d_groups := d_groups d @ [?row]\<rparr>) (Inr ()) = (r1, d1)"
      by fastforce
    then have d1: "d_instances d1 = d_instances d" "d_volumes d1 = d_volumes d"
      by (auto simp: grp_constrained_def split: if_splits)
    obtain r2 d2 where i: "InsertSecurityGroupRules now ?rules d1 = (r2, d2)" by fastforce
    with rules [of d1] d1 have "d_instances d2 = d_instances d" "d_volumes d2 = d_volumes d"
      by simp_all
    with c i d1 show ?thesis
      by (simp add: EnsureDefaultSecurityGroup_def Let_def split: sum.split)
  qed
  then show "leaves_machines (EnsureDefaultSecurityGroup now g rs)"
    by (simp add: leaves_machines_def)
qed

end
