(* ===== verification/Cloud_World.thy ===== *)
theory Cloud_World
  imports Media_Ledger
begin

text \<open>
  The state the service's handlers and worker act on, and their primitive steps: a statement on the
  ledger, a transaction, a call of the hypervisor or of the address manager. Proxmox and NetBox are
  not under \<open>src/\<close>: the \<open>hypervisor\<close> and \<open>ipam\<close> records are the interfaces \<open>Hypervisor\<close> and \<open>IPAM\<close>
  of \<open>service.go\<close>, functions over a state \<open>'h\<close> the model knows nothing about. Any of them may fail,
  answer anything and change \<open>'h\<close> in any way.

  Requests run concurrently with the worker. Every statement and every transaction is preceded by
  \<open>e_others\<close>, what other requests committed since the last one, and may itself fail; both are
  functions of a step counter, so that a theorem over all environments covers every schedule at
  the granularity of statements. A transaction is one isolated step (its row and advisory locks
  make the rows it reads stable) and leaves the ledger untouched when it fails.
\<close>

section \<open>What Proxmox and NetBox answer\<close>

text \<open>A JSON value of a VM's configuration; numbers carry their decimal text.\<close>

datatype any = Str string | Num string | Null | Other string

type_synonym vm_config = "(string, any) gomap"
type_synonym url_values = "(string, string) gomap"

record vm =
  vm_id :: int
  vm_name :: string
  vm_status :: string
  vm_pool :: string
  vm_node :: string

record node_status =
  ns_mem_total :: int
  ns_mem_free :: int
  ns_mem_available :: int
  ns_cpus :: int

record storage_status =
  ss_total :: int
  ss_used :: int
  ss_avail :: int

record pve_volume =
  pv_volid :: string
  pv_size :: int
  pv_format :: string

record fw_rule =
  fr_pos :: int
  fr_type :: string
  fr_action :: string
  fr_proto :: string
  fr_dport :: string
  fr_source :: string
  fr_dest :: string
  fr_enable :: int
  fr_comment :: string

record ip_address =
  ip_id :: int
  ip_addr :: string
  ip_description :: string
  ip_dns_name :: string

record allocation =
  al_description :: string
  al_dns_name :: string
  al_tags :: "string list"

type_synonym ('h, 'a) ext = "'h \<Rightarrow> 'a res \<times> 'h"

record 'h hypervisor =
  ListVMs :: "('h, vm list) ext"
  NodeStatus :: "('h, node_status) ext"
  StorageStatus :: "string \<Rightarrow> ('h, storage_status) ext"
  CreateVM :: "url_values \<Rightarrow> ('h, string) ext"
  VMConfig :: "int \<Rightarrow> ('h, vm_config) ext"
  UpdateVMConfig :: "int \<Rightarrow> url_values \<Rightarrow> ('h, unit) ext"
  VMStatus :: "int \<Rightarrow> ('h, string) ext"
  Power :: "int \<Rightarrow> string \<Rightarrow> url_values \<Rightarrow> ('h, string) ext"
  ResizeDisk :: "int \<Rightarrow> string \<Rightarrow> string \<Rightarrow> ('h, unit) ext"
  DeleteVM :: "int \<Rightarrow> ('h, string) ext"
  UploadISO :: "string \<Rightarrow> string \<Rightarrow> nat list \<Rightarrow> ('h, string) ext"
  UploadISOStream :: "string \<Rightarrow> string \<Rightarrow> nat list \<Rightarrow> int \<Rightarrow> ('h, string) ext"
  UploadImage :: "string \<Rightarrow> string \<Rightarrow> nat list \<Rightarrow> int \<Rightarrow> ('h, string) ext"
  ListVolumes' :: "string \<Rightarrow> string \<Rightarrow> ('h, pve_volume list) ext"
  DeleteVolume' :: "string \<Rightarrow> string \<Rightarrow> ('h, unit) ext"
  WaitTask :: "string \<Rightarrow> ('h, unit) ext"
  ConfigureVM :: "int \<Rightarrow> url_values \<Rightarrow> ('h, string) ext"
  UnlinkDisks :: "int \<Rightarrow> string list \<Rightarrow> bool \<Rightarrow> ('h, unit) ext"
  MoveDisk :: "int \<Rightarrow> string \<Rightarrow> int \<Rightarrow> string \<Rightarrow> ('h, string) ext"
  VMPending :: "int \<Rightarrow> ('h, string list) ext"
  FirewallRules :: "int \<Rightarrow> ('h, fw_rule list) ext"
  InsertFirewallRule :: "int \<Rightarrow> fw_rule \<Rightarrow> ('h, unit) ext"
  DeleteFirewallRule :: "int \<Rightarrow> int \<Rightarrow> ('h, unit) ext"
  FirewallOptions :: "int \<Rightarrow> ('h, vm_config) ext"
  SetFirewallOptions :: "int \<Rightarrow> url_values \<Rightarrow> ('h, unit) ext"
  IPSets :: "int \<Rightarrow> ('h, string list) ext"
  CreateIPSet :: "int \<Rightarrow> string \<Rightarrow> ('h, unit) ext"
  IPSetEntries :: "int \<Rightarrow> string \<Rightarrow> ('h, string list) ext"
  AddIPSetEntry :: "int \<Rightarrow> string \<Rightarrow> string \<Rightarrow> ('h, unit) ext"
  DeleteIPSetEntry :: "int \<Rightarrow> string \<Rightarrow> string \<Rightarrow> ('h, unit) ext"

record 'h ipam =
  IPRangeID :: "string \<Rightarrow> ('h, int) ext"
  IPAddressesByDescription :: "string \<Rightarrow> ('h, ip_address list) ext"
  AllocateIP :: "int \<Rightarrow> allocation \<Rightarrow> ('h, ip_address) ext"
  CreateIPAddress :: "string \<Rightarrow> allocation \<Rightarrow> ('h, ip_address) ext"
  DeleteIPAddress :: "int \<Rightarrow> ('h, unit) ext"

text \<open>
  Garage and Kubernetes, which hold the appliances: the interfaces \<open>BucketStore\<close>, \<open>DatabaseStore\<close>,
  \<open>FunctionStore\<close> and \<open>WorkloadStore\<close>. Each is absent on a deployment that does not have it. The
  error of an object that does not exist, \<open>garage.Error\<close>, \<open>cnpg.Error\<close> or \<open>knative.Error\<close> with
  \<open>NotFound()\<close>, is one that \<open>err_is\<close> \<open>NotFound\<close>.
\<close>

record garage_bucket =
  gb_id :: string
  gb_objects :: int
  gb_bytes :: int

record garage_key =
  gk_id :: string
  gk_secret :: string

record 'h bucket_store =
  GCreateBucket :: "string \<Rightarrow> ('h, garage_bucket) ext"
  GBucketInfo :: "string \<Rightarrow> ('h, garage_bucket) ext"
  GDeleteBucket :: "string \<Rightarrow> ('h, unit) ext"
  GCreateKey :: "string \<Rightarrow> ('h, garage_key) ext"
  GDeleteKey :: "string \<Rightarrow> ('h, unit) ext"
  GAllow :: "string \<Rightarrow> string \<Rightarrow> bool \<times> bool \<times> bool \<Rightarrow> ('h, unit) ext"
  GDeny :: "string \<Rightarrow> string \<Rightarrow> bool \<times> bool \<times> bool \<Rightarrow> ('h, unit) ext"

record cluster_spec =
  cs_name :: string
  cs_namespace :: string
  cs_instances :: int
  cs_storage_class :: string
  cs_storage_gib :: int
  cs_labels :: "(string, string) gomap"

record cluster =
  cl_name :: string
  cl_phase :: string
  cl_ready :: int
  cl_instances :: int

record 'h database_store =
  KCreateCluster :: "cluster_spec \<Rightarrow> ('h, cluster) ext"
  KGetCluster :: "string \<Rightarrow> string \<Rightarrow> ('h, cluster) ext"
  KListClusters :: "string \<Rightarrow> string \<Rightarrow> ('h, cluster list) ext"
  KDeleteCluster :: "string \<Rightarrow> string \<Rightarrow> ('h, unit) ext"
  KGetCredentials :: "string \<Rightarrow> string \<Rightarrow> ('h, (string, string) gomap) ext"

record knative_spec =
  ks_name :: string
  ks_namespace :: string
  ks_image :: string
  ks_labels :: "(string, string) gomap"

record knative_service =
  kn_name :: string
  kn_url :: string
  kn_ready :: bool

record 'h function_store =
  KCreateService :: "knative_spec \<Rightarrow> ('h, knative_service) ext"
  KGetService :: "string \<Rightarrow> string \<Rightarrow> ('h, knative_service) ext"
  KListServices :: "string \<Rightarrow> string \<Rightarrow> ('h, knative_service list) ext"
  KDeleteService :: "string \<Rightarrow> string \<Rightarrow> ('h, unit) ext"

record workload_spec =
  ws_name :: string
  ws_namespace :: string
  ws_image :: string
  ws_port :: int
  ws_memory_mib :: int
  ws_env :: "(string, string) gomap"
  ws_secrets :: "(string, string) gomap"
  ws_disk_gib :: int
  ws_mount_path :: string
  ws_labels :: "(string, string) gomap"

record workload_state =
  wl_ready :: bool
  wl_address :: string

record 'h workload_store =
  WApply :: "workload_spec \<Rightarrow> ('h, unit) ext"
  WGet :: "string \<Rightarrow> string \<Rightarrow> ('h, workload_state) ext"
  WSecrets :: "string \<Rightarrow> string \<Rightarrow> ('h, (string, string) gomap) ext"
  WDelete :: "string \<Rightarrow> string \<Rightarrow> ('h, unit) ext"

record 'h appliances =
  ap_garage :: "'h bucket_store option"
  ap_databases :: "'h database_store option"
  ap_functions :: "'h function_store option"
  ap_workloads :: "'h workload_store option"
  ap_database_namespace :: string
  ap_storage_class :: string
  ap_function_namespace :: string
  ap_service_namespace :: string

definition no_appliances :: "'h appliances" where
  "no_appliances = \<lparr>ap_garage = None, ap_databases = None, ap_functions = None, ap_workloads = None,
     ap_database_namespace = '''', ap_storage_class = '''', ap_function_namespace = '''',
     ap_service_namespace = ''''\<rparr>"

text \<open>
  The seed ISO of an instance: the fields of \<open>seed.Config\<close>. Writing the ISO 9660 file is left to
  \<open>e_seed_build\<close>.
\<close>

record seed_config =
  sc_instance :: string
  sc_hostname :: string
  sc_mac :: string
  sc_address :: prefix
  sc_gateway :: addr
  sc_nameservers :: "addr list"
  sc_guest_os :: string
  sc_user_data :: string
  sc_public_keys :: "string list"

section \<open>The world\<close>

text \<open>
  The log holds, newest first, the calls that change something outside and the reads the safety
  properties speak about.
\<close>

datatype event =
    DidCreateVM url_values
  | DidUpdateVMConfig int url_values
  | DidPower int string
  | DidResizeDisk int string string
  | DidDeleteVM int
  | DidUpload string string
  | DidDeleteVolume string string
  | DidConfigureVM int url_values
  | DidUnlink int "string list" bool
  | DidMoveDisk int string int string
  | DidInsertRule int fw_rule
  | DidDeleteRule int int
  | DidSetFirewall int url_values
  | DidCreateIPSet int string
  | DidAddEntry int string string
  | DidDeleteEntry int string string
  | DidAllocateIP string
  | DidDeleteIP int
  | DidCreateBucket string
  | DidDeleteBucket string
  | DidCreateS3Key string
  | DidDeleteS3Key string
  | DidAllow string string bool bool bool
  | DidDeny string string
  | DidCreateAppliance string string    \<comment> \<open>a Kubernetes object: namespace and name\<close>
  | DidDeleteAppliance string string
  | SawConfig int vm_config
  | SawVolumeByVolID string bool      \<comment> \<open>whether a live volume records the disk\<close>

record 'h world =
  w_db :: ledger
  w_hv :: 'h
  w_tick :: nat
  w_log :: "event list"
  w_wake :: bool
  w_ledger_wake :: bool
  w_range_ids :: "(string, int) gomap"
  w_onboot :: "(string, bool) gomap"

record 'h env =
  e_site :: site
  e_pve :: "'h hypervisor"
  e_ipam :: "'h ipam"
  e_now :: "nat \<Rightarrow> int"
  e_db_down :: "nat \<Rightarrow> bool"
  e_others :: "nat \<Rightarrow> ledger \<Rightarrow> ledger"
  e_cancelled :: "nat \<Rightarrow> bool"
  e_max_attempts :: nat
  e_retry_delay :: int
  e_overflow :: "int \<Rightarrow> int"
  e_random_hex :: "nat \<Rightarrow> string"     \<comment> \<open>\<open>randomHex17\<close>\<close>
  e_random_mac :: "nat \<Rightarrow> string"
  e_random_account :: "nat \<Rightarrow> nat"            \<comment> \<open>\<open>rand.Int\<close> below 10^12\<close>
  e_random_bytes :: "nat \<Rightarrow> nat \<Rightarrow> nat list"      \<comment> \<open>\<open>rand.Read\<close> of so many bytes\<close>
  e_lower :: "string \<Rightarrow> string"                  \<comment> \<open>PostgreSQL's \<open>lower\<close>, which depends on the collation\<close>
  e_seed_build :: "seed_config \<Rightarrow> nat list res"
  e_sha256 :: "string \<Rightarrow> nat list"
  e_appliances :: "'h appliances"

type_synonym ('h, 'a) cloud = "('h world, 'a) prog"

section \<open>Steps\<close>

definition db_failed :: err where "db_failed = Failed ''database error''"

text \<open>One statement inside a transaction: it may fail, and sees the ledger as the transaction left it.\<close>

definition sql :: "'h env \<Rightarrow> (int \<Rightarrow> 'a stmt) \<Rightarrow> ('h, 'a) cloud" where
  "sql E f w =
     (let n = w_tick w; w = w\<lparr>w_tick := Suc n\<rparr> in
      if e_db_down E n then (Inl db_failed, w)
      else case f (e_now E n) (w_db w) of (r, d) \<Rightarrow> (r, w\<lparr>w_db := d\<rparr>))"

definition interfere :: "'h env \<Rightarrow> 'h world \<Rightarrow> 'h world" where
  "interfere E w = w\<lparr>w_db := e_others E (w_tick w) (w_db w), w_tick := Suc (w_tick w)\<rparr>"

text \<open>One statement on the pool: what others committed comes first.\<close>

definition db :: "'h env \<Rightarrow> (int \<Rightarrow> 'a stmt) \<Rightarrow> ('h, 'a) cloud" where
  "db E f w = sql E f (interfere E w)"

text \<open>\<open>pgx.BeginFunc\<close>: an error from the body or from the commit rolls the ledger back.\<close>

definition tx :: "'h env \<Rightarrow> ('h, 'a) cloud \<Rightarrow> ('h, 'a) cloud" where
  "tx E body w =
     (let w0 = interfere E w in
      case body w0 of
        (Inl e, w') \<Rightarrow> (Inl e, w'\<lparr>w_db := w_db w0\<rparr>)
      | (Inr x, w') \<Rightarrow>
          if e_db_down E (w_tick w') then (Inl db_failed, w'\<lparr>w_db := w_db w0, w_tick := Suc (w_tick w')\<rparr>)
          else (Inr x, w'\<lparr>w_tick := Suc (w_tick w')\<rparr>))"

definition external :: "('h, 'a) ext \<Rightarrow> ('h, 'a) cloud" where
  "external f w = (case f (w_hv w) of (r, h) \<Rightarrow> (r, w\<lparr>w_hv := h\<rparr>))"

definition log_event :: "event \<Rightarrow> ('h, unit) cloud" where
  "log_event ev = put_world (\<lambda>w. w\<lparr>w_log := ev # w_log w\<rparr>)"

text \<open>A call of the hypervisor that changes something: it is logged whether it fails or not.\<close>

definition pve_do :: "event \<Rightarrow> ('h, 'a) ext \<Rightarrow> ('h, 'a) cloud" where
  "pve_do ev f = seqE (log_event ev) (external f)"

text \<open>\<open>VMConfig\<close>, whose answers the log keeps.\<close>

definition vm_config :: "'h env \<Rightarrow> int \<Rightarrow> ('h, vm_config) cloud" where
  "vm_config E vmid =
     bindE (external (VMConfig (e_pve E) vmid)) (\<lambda>c. seqE (log_event (SawConfig vmid c)) (ret c))"

text \<open>\<open>s.now()\<close>, \<open>ctx.Err() != nil\<close> and fresh random numbers.\<close>

definition clock :: "'h env \<Rightarrow> ('h, int) cloud" where
  "clock E w = (Inr (e_now E (w_tick w)), w\<lparr>w_tick := Suc (w_tick w)\<rparr>)"

definition cancelled :: "'h env \<Rightarrow> ('h, bool) cloud" where
  "cancelled E w = (Inr (e_cancelled E (w_tick w)), w\<lparr>w_tick := Suc (w_tick w)\<rparr>)"

definition random_hex :: "'h env \<Rightarrow> ('h, string) cloud" where
  "random_hex E w = (Inr (e_random_hex E (w_tick w)), w\<lparr>w_tick := Suc (w_tick w)\<rparr>)"

definition random_mac :: "'h env \<Rightarrow> ('h, string) cloud" where
  "random_mac E w = (Inr (e_random_mac E (w_tick w)), w\<lparr>w_tick := Suc (w_tick w)\<rparr>)"

definition random_bytes :: "'h env \<Rightarrow> nat \<Rightarrow> ('h, nat list) cloud" where
  "random_bytes E n w = (Inr (e_random_bytes E (w_tick w) n), w\<lparr>w_tick := Suc (w_tick w)\<rparr>)"

definition random_account :: "'h env \<Rightarrow> ('h, nat) cloud" where
  "random_account E w = (Inr (e_random_account E (w_tick w)), w\<lparr>w_tick := Suc (w_tick w)\<rparr>)"

definition Wake :: "('h, unit) cloud" where
  "Wake = put_world (\<lambda>w. w\<lparr>w_wake := True\<rparr>)"

definition wakeLedger :: "('h, unit) cloud" where
  "wakeLedger = put_world (\<lambda>w. w\<lparr>w_ledger_wake := True\<rparr>)"

text \<open>\<open>s.task\<close>: start a Proxmox task and wait for it.\<close>

definition task :: "'h env \<Rightarrow> ('h, string) cloud \<Rightarrow> ('h, unit) cloud" where
  "task E start = bindE start (\<lambda>upid. external (WaitTask (e_pve E) upid))"

text \<open>An error that is only logged: \<open>if err := m(); err != nil { log }\<close>.\<close>

definition logged :: "('h, 'a) cloud \<Rightarrow> ('h, unit) cloud" where
  "logged m = attempt m (\<lambda>_. ret ())"

section \<open>Invariants of the ledger\<close>

text \<open>
  \<open>db_inv P\<close> is a property of the ledger as an invariant of the world. Only statements change the
  ledger, so its rules ask about statements and about the other requests and nothing else.
\<close>

definition db_inv :: "(ledger \<Rightarrow> bool) \<Rightarrow> 'h world \<Rightarrow> bool" where
  "db_inv P w \<longleftrightarrow> P (w_db w)"

definition others_keep :: "(ledger \<Rightarrow> bool) \<Rightarrow> 'h env \<Rightarrow> bool" where
  "others_keep P E \<longleftrightarrow> (\<forall>n d. P d \<longrightarrow> P (e_others E n d))"

definition stmt_keeps :: "(ledger \<Rightarrow> bool) \<Rightarrow> (int \<Rightarrow> 'a stmt) \<Rightarrow> bool" where
  "stmt_keeps P f \<longleftrightarrow> (\<forall>now d. P d \<longrightarrow> P (snd (f now d)))"

lemma stmt_keepsI: "(\<And>now d. P d \<Longrightarrow> P (snd (f now d))) \<Longrightarrow> stmt_keeps P f"
  by (simp add: stmt_keeps_def)

lemma db_inv_interfere: "others_keep P E \<Longrightarrow> db_inv P w \<Longrightarrow> db_inv P (interfere E w)"
  by (simp add: db_inv_def interfere_def others_keep_def)

lemma keeps_sql:
  fixes E :: "'h env"
  assumes f: "stmt_keeps P f"
  shows "keeps (db_inv P) (sql E f)"
proof (rule keepsI)
  fix w :: "'h world" assume w: "db_inv P w"
  have "P (snd (f (e_now E (w_tick w)) (w_db w)))"
    using f w by (simp add: stmt_keeps_def db_inv_def)
  with w show "db_inv P (snd (sql E f w))"
    by (simp add: sql_def db_inv_def Let_def split_beta)
qed

lemma keeps_db:
  fixes E :: "'h env"
  assumes "others_keep P E" and "stmt_keeps P f"
  shows "keeps (db_inv P) (db E f)"
  unfolding db_def [abs_def]
  using keepsD [OF keeps_sql [OF assms(2)] db_inv_interfere [OF assms(1)]] by (rule keepsI)

lemma keeps_tx:
  fixes E :: "'h env"
  assumes "others_keep P E" and "keeps (db_inv P) body"
  shows "keeps (db_inv P) (tx E body)"
proof (rule keepsI)
  fix w :: "'h world" assume w: "db_inv P w"
  have 0: "db_inv P (interfere E w)"
    using assms(1) w by (rule db_inv_interfere)
  have "db_inv P (snd (body (interfere E w)))"
    using assms(2) 0 by (rule keepsD)
  with 0 show "db_inv P (snd (tx E body w))"
    by (auto simp: tx_def Let_def db_inv_def split: prod.splits sum.splits)
qed

lemma keeps_external [keeps_intros]: "keeps (db_inv P) (external f)"
  by (rule keepsI) (auto simp: external_def db_inv_def split: prod.splits)

lemma keeps_put [keeps_intros]: "(\<And>w. w_db (f w) = w_db w) \<Longrightarrow> keeps (db_inv P) (put_world f)"
  by (rule keepsI) (simp add: put_world_def db_inv_def)

lemma keeps_log_event [keeps_intros]: "keeps (db_inv P) (log_event ev)"
  by (simp add: log_event_def keeps_put)

lemma keeps_pve_do [keeps_intros]: "keeps (db_inv P) (pve_do ev f)"
  by (simp add: pve_do_def keeps_intros)

lemma keeps_vm_config [keeps_intros]: "keeps (db_inv P) (vm_config E vmid)"
  by (simp add: vm_config_def keeps_intros)

lemma keeps_clock [keeps_intros]: "keeps (db_inv P) (clock E)"
  by (simp add: keeps_def clock_def db_inv_def)

lemma keeps_cancelled [keeps_intros]: "keeps (db_inv P) (cancelled E)"
  by (simp add: keeps_def cancelled_def db_inv_def)

lemma keeps_random_hex [keeps_intros]: "keeps (db_inv P) (random_hex E)"
  by (simp add: keeps_def random_hex_def db_inv_def)

lemma keeps_random_mac [keeps_intros]: "keeps (db_inv P) (random_mac E)"
  by (simp add: keeps_def random_mac_def db_inv_def)

lemma keeps_random_bytes [keeps_intros]: "keeps (db_inv P) (random_bytes E n)"
  by (simp add: keeps_def random_bytes_def db_inv_def)

lemma keeps_random_account [keeps_intros]: "keeps (db_inv P) (random_account E)"
  by (simp add: keeps_def random_account_def db_inv_def)

lemma keeps_Wake [keeps_intros]: "keeps (db_inv P) Wake"
  by (simp add: Wake_def keeps_put)

lemma keeps_wakeLedger [keeps_intros]: "keeps (db_inv P) wakeLedger"
  by (simp add: wakeLedger_def keeps_put)

lemma keeps_task [keeps_intros]: "keeps (db_inv P) m \<Longrightarrow> keeps (db_inv P) (task E m)"
  by (simp add: task_def keeps_intros)

lemma keeps_logged [keeps_intros]: "keeps (db_inv P) m \<Longrightarrow> keeps (db_inv P) (logged m)"
  by (simp add: logged_def keeps_intros)

lemma stmt_keeps_reading [keeps_intros]: "stmt_keeps P (\<lambda>now. reading f)"
  by (simp add: stmt_keeps_def reading_def)

lemma stmt_keeps_reading' [keeps_intros]: "stmt_keeps P (\<lambda>now. reading (f now))"
  by (simp add: stmt_keeps_def reading_def)


section \<open>Triples of the steps\<close>

lemma triple_external:
  assumes "\<And>w. P w \<Longrightarrow> (case f (w_hv w) of (Inl e, h) \<Rightarrow> F (w\<lparr>w_hv := h\<rparr>) | (Inr x, h) \<Rightarrow> Q x (w\<lparr>w_hv := h\<rparr>))"
  shows "triple P (external f) Q F"
  unfolding triple_def
proof (intro allI impI)
  fix w assume w: "P w"
  obtain r h where "f (w_hv w) = (r, h)" by fastforce
  with assms [OF w] show "case external f w of (Inl e, w') \<Rightarrow> F w' | (Inr x, w') \<Rightarrow> Q x w'"
    by (cases r) (simp_all add: external_def)
qed

lemma triple_pve_do:
  assumes "\<And>w. P w \<Longrightarrow> (case f (w_hv w) of
      (Inl e, h) \<Rightarrow> F (w\<lparr>w_log := ev # w_log w, w_hv := h\<rparr>)
    | (Inr x, h) \<Rightarrow> Q x (w\<lparr>w_log := ev # w_log w, w_hv := h\<rparr>))"
  shows "triple P (pve_do ev f) Q F"
  unfolding triple_def
proof (intro allI impI)
  fix w assume w: "P w"
  obtain r h where "f (w_hv w) = (r, h)" by fastforce
  with assms [OF w] show "case pve_do ev f w of (Inl e, w') \<Rightarrow> F w' | (Inr x, w') \<Rightarrow> Q x w'"
    by (cases r) (simp_all add: pve_do_def log_event_def prog_defs external_def)
qed

text \<open>A step whose calls leave an observation \<open>g\<close> of the outside as it is, and do not look at the ledger.\<close>

definition leaves :: "('h \<Rightarrow> 'o) \<Rightarrow> ('h, 'a) ext \<Rightarrow> bool" where
  "leaves g f \<longleftrightarrow> (\<forall>h. g (snd (f h)) = g h)"

definition hv_inv :: "('h \<Rightarrow> bool) \<Rightarrow> 'h world \<Rightarrow> bool" where
  "hv_inv R w \<longleftrightarrow> R (w_hv w)"

lemma keeps_hv_external:
  "leaves g f \<Longrightarrow> keeps (hv_inv (\<lambda>h. R (g h))) (external f)"
  by (rule keepsI) (simp add: external_def hv_inv_def leaves_def split_beta)

lemma keeps_hv_log: "keeps (hv_inv R) (log_event ev)"
  by (simp add: keeps_def log_event_def put_world_def hv_inv_def)

lemma keeps_hv_pve_do: "leaves g f \<Longrightarrow> keeps (hv_inv (\<lambda>h. R (g h))) (pve_do ev f)"
  unfolding pve_do_def by (intro keeps_seqE keeps_hv_log keeps_hv_external)

lemma keeps_hv_vm_config:
  "leaves g (VMConfig (e_pve E) vmid) \<Longrightarrow> keeps (hv_inv (\<lambda>h. R (g h))) (vm_config E vmid)"
  unfolding vm_config_def by (intro keeps_bindE keeps_seqE keeps_hv_log keeps_hv_external keeps_ret)

lemma keeps_hv_sql: "keeps (hv_inv R) (sql E f)"
  by (rule keepsI) (simp add: sql_def hv_inv_def Let_def split_beta)

lemma keeps_hv_db: "keeps (hv_inv R) (db E f)"
  by (rule keepsI) (simp add: db_def sql_def interfere_def hv_inv_def Let_def split_beta)


subsection \<open>Transactions\<close>

text \<open>
  Inside a transaction only what holds of the ledger matters, and after an error nothing does: the
  transaction rolls back. Outside, the invariant \<open>I\<close> holds before and after.
\<close>

definition in_tx :: "(ledger \<Rightarrow> bool) \<Rightarrow> ('h, 'a) cloud \<Rightarrow> ('a \<Rightarrow> ledger \<Rightarrow> bool) \<Rightarrow> bool" where
  "in_tx P m Q \<longleftrightarrow> triple (db_inv P) m (\<lambda>x. db_inv (Q x)) (\<lambda>_. True)"

named_theorems tx_intros \<open>rules for the body of a transaction\<close>

lemma in_tx_sql:
  fixes E :: "'h env"
  assumes "\<And>now d d' x. P d \<Longrightarrow> f now d = (Inr x, d') \<Longrightarrow> Q x d'"
  shows "in_tx P (sql E f) Q"
  unfolding in_tx_def triple_def
proof (intro allI impI)
  fix w :: "'h world" assume w: "db_inv P w"
  obtain r d' where f: "f (e_now E (w_tick w)) (w_db w) = (r, d')" by fastforce
  show "case sql E f w of (Inl e, w') \<Rightarrow> True | (Inr x, w') \<Rightarrow> db_inv (Q x) w'"
    using assms f w by (cases r) (auto simp: sql_def db_inv_def Let_def)
qed

lemma in_tx_reading:
  "(\<And>d x. P d \<Longrightarrow> f d = Inr x \<Longrightarrow> Q x d) \<Longrightarrow> in_tx P (sql E (\<lambda>_. reading f)) Q"
  by (rule in_tx_sql) (auto simp: reading_def)

lemma in_tx_bindE: "in_tx P m R \<Longrightarrow> (\<And>x. in_tx (R x) (f x) Q) \<Longrightarrow> in_tx P (bindE m f) Q"
  unfolding in_tx_def by (rule triple_bindE)

lemma in_tx_seqE: "in_tx P m (\<lambda>_. R) \<Longrightarrow> in_tx R n Q \<Longrightarrow> in_tx P (seqE m n) Q"
  unfolding in_tx_def by (rule triple_seqE)

lemma in_tx_ret: "(\<And>d. P d \<Longrightarrow> Q x d) \<Longrightarrow> in_tx P (ret x) Q"
  unfolding in_tx_def by (rule triple_ret) (simp add: db_inv_def)

lemma in_tx_raise [tx_intros]: "in_tx P (raise e) Q"
  unfolding in_tx_def by (rule triple_raise) simp

lemma in_tx_if [tx_intros]:
  "(b \<Longrightarrow> in_tx P m Q) \<Longrightarrow> (\<not> b \<Longrightarrow> in_tx P n Q) \<Longrightarrow> in_tx P (if b then m else n) Q"
  by simp

lemma in_tx_whenE [tx_intros]:
  "(b \<Longrightarrow> in_tx P m (\<lambda>_. Q)) \<Longrightarrow> (\<And>d. \<not> b \<Longrightarrow> P d \<Longrightarrow> Q d) \<Longrightarrow> in_tx P (whenE b m) (\<lambda>_. Q)"
  by (auto simp: whenE_def intro: in_tx_ret)

lemma in_tx_case_option [tx_intros]:
  "(x = None \<Longrightarrow> in_tx P m Q) \<Longrightarrow> (\<And>y. x = Some y \<Longrightarrow> in_tx P (f y) Q) \<Longrightarrow>
   in_tx P (case x of None \<Rightarrow> m | Some y \<Rightarrow> f y) Q"
  by (cases x) simp_all

lemma in_tx_case_prod [tx_intros]:
  "(\<And>a b. p = (a, b) \<Longrightarrow> in_tx P (f a b) Q) \<Longrightarrow> in_tx P (case p of (a, b) \<Rightarrow> f a b) Q"
  by (cases p) simp

lemma in_tx_pre: "in_tx P m Q \<Longrightarrow> (\<And>d. P' d \<Longrightarrow> P d) \<Longrightarrow> in_tx P' m Q"
  unfolding in_tx_def by (erule triple_pre) (simp add: db_inv_def)

lemma in_tx_post: "in_tx P m Q \<Longrightarrow> (\<And>x d. Q x d \<Longrightarrow> Q' x d) \<Longrightarrow> in_tx P m Q'"
  unfolding in_tx_def by (erule triple_weaken) (simp_all add: db_inv_def)

lemma in_tx_keeps: "keeps (db_inv P) m \<Longrightarrow> in_tx P m (\<lambda>_. P)"
  unfolding in_tx_def by (rule triple_keeps [where I = "db_inv P"]) simp_all

text \<open>A read whose error the code looks at, as \<open>LockInstance\<close>: the error branch raises.\<close>

lemma in_tx_attempt:
  fixes m :: "('h, 'a) cloud"
  assumes "in_tx P m R" and "\<And>e. \<exists>e'. k (Inl e) = raise e'" and "\<And>x. in_tx (R x) (k (Inr x)) Q"
  shows "in_tx P (attempt m k) Q"
  unfolding in_tx_def triple_def
proof (intro allI impI)
  fix w :: "'h world" assume w: "db_inv P w"
  obtain r w' where m: "m w = (r, w')" by fastforce
  show "case attempt m k w of (Inl e, w') \<Rightarrow> True | (Inr x, w') \<Rightarrow> db_inv (Q x) w'"
  proof (cases r)
    case (Inl e)
    then show ?thesis
      using m assms(2) [of e] by (auto simp: attempt_def raise_def)
  next
    case (Inr x)
    then have "db_inv (R x) w'"
      using assms(1) w m by (auto simp: in_tx_def triple_def)
    then show ?thesis
      using m Inr assms(3) [of x] by (simp add: attempt_def in_tx_def triple_def)
  qed
qed

text \<open>What the body leaves is committed; otherwise the ledger is as it was.\<close>

lemma triple_tx:
  fixes E :: "'h env"
  assumes others: "others_keep I E" and body: "in_tx I body Q"
  shows "triple (db_inv I) (tx E body) (\<lambda>x. db_inv (Q x)) (db_inv I)"
  unfolding triple_def
proof (intro allI impI)
  fix w :: "'h world" assume "db_inv I w"
  then have 0: "db_inv I (interfere E w)"
    by (rule db_inv_interfere [OF others])
  obtain r w' where run: "body (interfere E w) = (r, w')" by fastforce
  show "case tx E body w of (Inl e, w') \<Rightarrow> db_inv I w' | (Inr x, w') \<Rightarrow> db_inv (Q x) w'"
  proof (cases r)
    case (Inl e)
    with run 0 show ?thesis
      by (simp add: tx_def db_inv_def)
  next
    case (Inr x)
    then have "db_inv (Q x) w'"
      using body 0 run by (auto simp: in_tx_def triple_def)
    with run 0 Inr show ?thesis
      by (simp add: tx_def db_inv_def Let_def)
  qed
qed

lemma keeps_tx_body:
  fixes E :: "'h env"
  assumes "others_keep I E" and "in_tx I body (\<lambda>_. I)"
  shows "keeps (db_inv I) (tx E body)"
  unfolding keeps_triple by (rule triple_tx [OF assms])

section \<open>Example environments\<close>

text \<open>A hypervisor and an address manager that cannot be reached, to be updated where a witness needs an answer.\<close>

definition unreachable :: "('h, 'a) ext" where
  "unreachable h = (Inl (Failed ''unreachable''), h)"

definition offline_pve :: "'h hypervisor" where
  "offline_pve = \<lparr>ListVMs = unreachable, NodeStatus = unreachable, StorageStatus = (\<lambda>_. unreachable),
     CreateVM = (\<lambda>_. unreachable), VMConfig = (\<lambda>_. unreachable), UpdateVMConfig = (\<lambda>_ _. unreachable),
     VMStatus = (\<lambda>_. unreachable), Power = (\<lambda>_ _ _. unreachable), ResizeDisk = (\<lambda>_ _ _. unreachable),
     DeleteVM = (\<lambda>_. unreachable), UploadISO = (\<lambda>_ _ _. unreachable),
     UploadISOStream = (\<lambda>_ _ _ _. unreachable), UploadImage = (\<lambda>_ _ _ _. unreachable),
     ListVolumes' = (\<lambda>_ _. unreachable), DeleteVolume' = (\<lambda>_ _. unreachable),
     WaitTask = (\<lambda>_. unreachable), ConfigureVM = (\<lambda>_ _. unreachable),
     UnlinkDisks = (\<lambda>_ _ _. unreachable), MoveDisk = (\<lambda>_ _ _ _. unreachable),
     VMPending = (\<lambda>_. unreachable), FirewallRules = (\<lambda>_. unreachable),
     InsertFirewallRule = (\<lambda>_ _. unreachable), DeleteFirewallRule = (\<lambda>_ _. unreachable),
     FirewallOptions = (\<lambda>_. unreachable), SetFirewallOptions = (\<lambda>_ _. unreachable),
     IPSets = (\<lambda>_. unreachable), CreateIPSet = (\<lambda>_ _. unreachable), IPSetEntries = (\<lambda>_ _. unreachable),
     AddIPSetEntry = (\<lambda>_ _ _. unreachable), DeleteIPSetEntry = (\<lambda>_ _ _. unreachable)\<rparr>"

definition offline_ipam :: "'h ipam" where
  "offline_ipam = \<lparr>IPRangeID = (\<lambda>_. unreachable), IPAddressesByDescription = (\<lambda>_. unreachable),
     AllocateIP = (\<lambda>_ _. unreachable), CreateIPAddress = (\<lambda>_ _. unreachable),
     DeleteIPAddress = (\<lambda>_. unreachable)\<rparr>"

text \<open>A deployment with no other requests, a working database and \<open>New\<close>'s settings.\<close>

definition quiet_env :: "'h hypervisor \<Rightarrow> 'h ipam \<Rightarrow> 'h env" where
  "quiet_env pve ipam = \<lparr>e_site = example_site, e_pve = pve, e_ipam = ipam, e_now = int,
     e_db_down = (\<lambda>_. False), e_others = (\<lambda>_ d. d), e_cancelled = (\<lambda>_. False), e_max_attempts = 6,
     e_retry_delay = 5000000000, e_overflow = (\<lambda>_. min_i64),
     e_random_hex = (\<lambda>n. ''0123456789abcdef'' @ itoa (int n)), e_random_mac = (\<lambda>_. ''BC:24:11:00:00:01''),
     e_random_account = (\<lambda>n. n), e_random_bytes = (\<lambda>n len. replicate len (n mod 256)), e_lower = id,
     e_seed_build = (\<lambda>_. Inr []), e_sha256 = (\<lambda>s. map of_char s), e_appliances = no_appliances\<rparr>"

definition start_world :: "'h \<Rightarrow> ledger \<Rightarrow> 'h world" where
  "start_world h d = \<lparr>w_db = d, w_hv = h, w_tick = 0, w_log = [], w_wake = False, w_ledger_wake = False,
     w_range_ids = [], w_onboot = []\<rparr>"

lemma quiet_env_simps [simp]:
  "e_site (quiet_env pve ipam) = example_site" "e_pve (quiet_env pve ipam) = pve"
  "e_ipam (quiet_env pve ipam) = ipam" "e_now (quiet_env pve ipam) = int"
  "e_db_down (quiet_env pve ipam) n = False" "e_others (quiet_env pve ipam) n d = d"
  "e_cancelled (quiet_env pve ipam) n = False" "e_max_attempts (quiet_env pve ipam) = 6"
  "e_appliances (quiet_env pve ipam) = no_appliances"
  "e_retry_delay (quiet_env pve ipam) = 5000000000" "e_seed_build (quiet_env pve ipam) c = Inr []"
  by (simp_all add: quiet_env_def)

lemmas step_eval = prog_defs sql_def interfere_def db_def tx_def external_def log_event_def pve_do_def
  vm_config_def clock_def cancelled_def random_hex_def random_mac_def Wake_def wakeLedger_def task_def
  logged_def start_world_def unreachable_def offline_pve_def offline_ipam_def on_instances_def
  on_volumes_def reading_def Let_def

lemma task_lazy: "task E m w = task E m w" ..

lemma task_step:
  "task E m w = (case m w of (Inl e, w') \<Rightarrow> (Inl e, w') | (Inr x, w') \<Rightarrow> external (WaitTask (e_pve E) x) w')"
  by (simp add: task_def prog_defs)

lemmas cloud_lazy = run_lazy task_lazy

text \<open>With \<open>cong: cloud_lazy\<close>.\<close>

lemmas cloud_eval = run_steps task_step vm_config_def external_def start_world_def log_event_def pve_do_def
  db_def sql_def interfere_def on_instances_def on_volumes_def reading_def cancelled_def clock_def
  Wake_def wakeLedger_def logged_def random_bytes_def random_account_def Let_def

end
