(* ===== verification/Vm_Identity.thy ===== *)
theory Vm_Identity
  imports Cloud_World
begin

text \<open>
  How the service recognises VMs and disks in what Proxmox answers (\<open>worker.go\<close>,
  \<open>volume_worker.go\<close>, \<open>adopt.go\<close>): finding a VM in a listing, whether a VM belongs to an instance,
  and reading disks out of a VM's configuration. Also \<open>seed.Hostname\<close>, which names VMs.
\<close>

section \<open>VMs\<close>

definition findVM :: "vm list \<Rightarrow> int \<Rightarrow> vm option" where
  "findVM vms vmid = find (\<lambda>v. vm_id v = vmid) vms"

text \<open>\<open>value, _ := config[key].(string)\<close>, and \<open>configString\<close>, which also prints other values.\<close>

definition config_str :: "vm_config \<Rightarrow> string \<Rightarrow> string" where
  "config_str c key = (case gomap_get c key of Some (Str s) \<Rightarrow> s | _ \<Rightarrow> '''')"

definition configString :: "vm_config \<Rightarrow> string \<Rightarrow> string" where
  "configString c key = (case gomap_get c key of
       None \<Rightarrow> '''' | Some Null \<Rightarrow> '''' | Some (Str s) \<Rightarrow> s | Some (Num s) \<Rightarrow> s | Some (Other s) \<Rightarrow> s)"

definition owned_config :: "instance_row \<Rightarrow> vm_config \<Rightarrow> bool" where
  "owned_config i c \<longleftrightarrow> contains_str (config_str c ''description'') (i_id i)"

definition owns :: "'h env \<Rightarrow> int \<Rightarrow> instance_row \<Rightarrow> ('h, bool) cloud" where
  "owns E vmid i =
     (if i_adopted i then ret True
      else bindE (vm_config E vmid) (\<lambda>c. ret (owned_config i c)))"

definition list_vms :: "'h env \<Rightarrow> ('h, vm list) cloud" where
  "list_vms E = external (ListVMs (e_pve E))"

definition volumeExists :: "'h env \<Rightarrow> string \<Rightarrow> string \<Rightarrow> ('h, bool) cloud" where
  "volumeExists E storage volume =
     bindE (external (ListVolumes' (e_pve E) storage ''iso'')) (\<lambda>vs.
       ret (\<exists>v \<in> set vs. pv_volid v = volume))"

section \<open>Disks of a VM\<close>

definition disk_prefixes :: "string list" where
  "disk_prefixes = [''virtio'', ''scsi'', ''sata'', ''ide'', ''unused'']"

text \<open>The regular expression \<open>diskKey\<close>: a prefix and at least one digit.\<close>

definition diskKey :: "string \<Rightarrow> bool" where
  "diskKey key \<longleftrightarrow> (\<exists>p \<in> set disk_prefixes. matches_tail p is_digit key)"

definition volidAt :: "vm_config \<Rightarrow> string \<Rightarrow> string" where
  "volidAt c key = fst (cut (config_str c key) CHR '','')"

text \<open>\<open>for key := range config\<close>: the first match in the map's iteration order.\<close>

definition diskKeyOf :: "vm_config \<Rightarrow> string \<Rightarrow> string" where
  "diskKeyOf c volid =
     (case find (\<lambda>key. diskKey key \<and> volidAt c key = volid) (map fst c) of Some key \<Rightarrow> key | None \<Rightarrow> '''')"

definition freeKey :: "vm_config \<Rightarrow> string \<Rightarrow> int \<Rightarrow> int \<Rightarrow> string" where
  "freeKey c p from to =
     (case find (\<lambda>n. gomap_get c (p @ itoa n) = None) [from..to] of Some n \<Rightarrow> p @ itoa n | None \<Rightarrow> '''')"

definition plugged :: "string \<Rightarrow> bool" where
  "plugged key \<longleftrightarrow> key \<noteq> '''' \<and> \<not> has_prefix key ''unused''"

lemma keeps_owns [keeps_intros]: "keeps (db_inv P) (owns E vmid i)"
  by (simp add: owns_def keeps_intros)

lemma keeps_list_vms [keeps_intros]: "keeps (db_inv P) (list_vms E)"
  by (simp add: list_vms_def keeps_intros)

lemma keeps_volumeExists [keeps_intros]: "keeps (db_inv P) (volumeExists E s v)"
  by (simp add: volumeExists_def keeps_intros)

lemma diskKeyOf_found:
  assumes "diskKeyOf c volid = key" and "key \<noteq> ''''"
  shows "key \<in> fst ` set c \<and> diskKey key \<and> volidAt c key = volid"
proof -
  from assms obtain k where "find (\<lambda>key. diskKey key \<and> volidAt c key = volid) (map fst c) = Some k" "k = key"
    by (auto simp: diskKeyOf_def split: option.splits)
  then show ?thesis
    by (auto dest: find_SomeD)
qed

lemma diskKey_nonempty: "diskKey key \<Longrightarrow> key \<noteq> ''''"
  by (auto simp: diskKey_def matches_tail_def disk_prefixes_def)

lemma diskKeyOf_none:
  assumes "diskKeyOf c volid = ''''" "key \<in> fst ` set c" "diskKey key"
  shows "volidAt c key \<noteq> volid"
proof (cases "find (\<lambda>key. diskKey key \<and> volidAt c key = volid) (map fst c)")
  case None
  with assms(2,3) show ?thesis by (auto simp: find_None_iff)
next
  case (Some k)
  then have "diskKey k" by (auto dest: find_SomeD)
  with Some assms(1) show ?thesis by (simp add: diskKeyOf_def diskKey_nonempty)
qed

section \<open>Hostnames\<close>

text \<open>
  \<open>strings.ToLower\<close> works on runes. Besides A-Z, the only two runes whose lower case contains a
  character of \<open>[a-z0-9-]\<close> are U+0130 (which lowers to \<open>i\<close>) and U+212A (the Kelvin sign,
  \<open>k\<close>); every other rune stays outside the class, so it is kept as its bytes here, and bytes
  outside the class only ever become a hyphen together with their neighbours.
\<close>

definition lower_ascii :: "nat \<Rightarrow> nat" where
  "lower_ascii b = (if 65 \<le> b \<and> b \<le> 90 then b + 32 else b)"

fun lower_bytes :: "nat list \<Rightarrow> nat list" where
  "lower_bytes [] = []"
| "lower_bytes [a] = [lower_ascii a]"
| "lower_bytes [a, b] = (if a = 196 \<and> b = 176 then [105] else lower_ascii a # lower_bytes [b])"
| "lower_bytes (a # b # c # r) =
     (if a = 196 \<and> b = 176 then 105 # lower_bytes (c # r)
      else if a = 226 \<and> b = 132 \<and> c = 170 then 107 # lower_bytes r
      else lower_ascii a # lower_bytes (b # c # r))"

definition host_byte :: "nat \<Rightarrow> bool" where
  "host_byte b \<longleftrightarrow> (97 \<le> b \<and> b \<le> 122) \<or> (48 \<le> b \<and> b \<le> 57) \<or> b = 45"

text \<open>\<open>notHostname.ReplaceAllString(s, "-")\<close>: every run outside the class becomes one hyphen.\<close>

fun squeeze :: "bool \<Rightarrow> nat list \<Rightarrow> nat list" where
  "squeeze inrun [] = []"
| "squeeze inrun (b # r) =
     (if host_byte b then b # squeeze False r
      else if inrun then squeeze True r else 45 # squeeze True r)"

definition trim_hyphens :: "nat list \<Rightarrow> nat list" where
  "trim_hyphens s = rev (dropWhile (\<lambda>b. b = 45) (rev (dropWhile (\<lambda>b. b = 45) s)))"

definition Hostname :: "string \<Rightarrow> string \<Rightarrow> string" where
  "Hostname name inst =
     (let label = trim_hyphens (squeeze False (lower_bytes (bytes_of name)));
          label = (if length label > 63 then trim_hyphens (take 63 label) else label) in
      if label = [] then inst else map char_of label)"

lemma host_byte_small: "host_byte b \<Longrightarrow> b < 128"
  by (auto simp: host_byte_def)

lemma squeeze_host: "b \<in> set (squeeze r s) \<Longrightarrow> host_byte b"
  by (induction r s rule: squeeze.induct) (auto simp: host_byte_def split: if_splits)

lemma set_trim: "set (trim_hyphens s) \<subseteq> set s"
  by (auto simp: trim_hyphens_def dest!: set_dropWhileD)

lemma trim_ends:
  assumes "trim_hyphens s \<noteq> []"
  shows "hd (trim_hyphens s) \<noteq> 45 \<and> last (trim_hyphens s) \<noteq> 45"
proof -
  let ?p = "\<lambda>b::nat. b = 45" and ?a = "dropWhile (\<lambda>b. b = 45) s"
  have ne1: "dropWhile ?p (rev ?a) \<noteq> []"
    using assms unfolding trim_hyphens_def by (simp del: dropWhile_eq_Nil_conv)
  then have "?a \<noteq> []"
    by (metis dropWhile.simps(1) rev.simps(1))
  with ne1 have ne: "dropWhile ?p (rev ?a) \<noteq> []" "?a \<noteq> []" .
  have last: "last (trim_hyphens s) = hd (dropWhile ?p (rev ?a))"
    using ne by (simp add: trim_hyphens_def last_rev)
  have "\<exists>u. rev ?a = u @ dropWhile ?p (rev ?a)"
    by (metis takeWhile_dropWhile_id)
  then obtain u where u: "?a = rev (dropWhile ?p (rev ?a)) @ rev u"
    by (metis rev_append rev_rev_ident)
  have "hd ?a = hd (rev (dropWhile ?p (rev ?a)) @ rev u)"
    using u by (rule arg_cong)
  then have "hd (trim_hyphens s) = hd ?a"
    using ne by (simp add: trim_hyphens_def)
  then show ?thesis
    using hd_dropWhile [OF ne(1)] hd_dropWhile [OF ne(2)] last by simp
qed

lemma length_trim: "length (trim_hyphens s) \<le> length s"
  by (metis (no_types, lifting) length_dropWhile_le length_rev order_trans trim_hyphens_def)

text \<open>
  A hostname made from a Name tag is a DNS label whatever the tag holds: 1 to 63 bytes of
  lower-case letters, digits and hyphens, not starting or ending with a hyphen; only a tag with
  nothing usable in it falls back to the instance's ID.
\<close>

theorem hostname_is_dns_label:
  assumes "Hostname name inst \<noteq> inst"
  shows "let h = Hostname name inst in
    1 \<le> length h \<and> length h \<le> 63 \<and> (\<forall>c \<in> set h. slug_char c) \<and>
    hd h \<noteq> CHR ''-'' \<and> last h \<noteq> CHR ''-''"
proof -
  define base where "base = trim_hyphens (squeeze False (lower_bytes (bytes_of name)))"
  define label where "label = (if length base > 63 then trim_hyphens (take 63 base) else base)"
  have h: "Hostname name inst = map char_of label" and ne: "label \<noteq> []"
    using assms by (auto simp: Hostname_def base_def label_def Let_def split: if_splits)
  have "set label \<subseteq> set base"
    using set_trim [of "take 63 base"] set_take_subset [of 63 base] by (auto simp: label_def)
  then have host: "\<forall>b \<in> set label. host_byte b"
    using set_trim [of "squeeze False (lower_bytes (bytes_of name))"] squeeze_host
    by (fastforce simp: base_def)
  have len: "length label \<le> 63"
    using length_trim [of "take 63 base"] by (simp add: label_def)
  have ends: "hd label \<noteq> 45" "last label \<noteq> 45"
    using trim_ends ne by (auto simp: label_def base_def split: if_splits)
  have minus: "char_of (45::nat) = CHR ''-''"
    by (simp add: char_of_def bit_Suc_0_iff)
  have slug: "host_byte b \<Longrightarrow> slug_char (char_of b)" for b
    by (auto simp: minus host_byte_def slug_char_def is_lower_def is_digit_def Let_def)
  have hyphen: "b = 45" if "host_byte b" and "char_of b = CHR ''-''" for b
  proof -
    have "(of_char (char_of b) :: nat) = of_char (CHR ''-'')"
      by (simp only: that(2))
    then show ?thesis
      using host_byte_small [OF that(1)] by simp
  qed
  show ?thesis
    using ne len host ends slug hyphen
    by (auto simp: h Let_def hd_map last_map Suc_le_eq)
qed

theorem hostname_is_dns_label_witness:
  "Hostname ''My Web-Server_1!'' ''i-1'' = ''my-web-server-1'' \<and>
   hd (Hostname ''My Web-Server_1!'' ''i-1'') \<noteq> CHR ''-''"
proof -
  have "Hostname ''My Web-Server_1!'' ''i-1'' = ''my-web-server-1''"
    by code_simp
  then show ?thesis
    using hostname_is_dns_label [of "''My Web-Server_1!''" "''i-1''"] by simp
qed

end
