(* ===== verification/Ledger_Contract.thy ===== *)
theory Ledger_Contract
  imports Cloud_World
begin

text \<open>
  The contract between the service and its ledger: a property of the instance and volume tables that
  every statement the service issues keeps, with the side conditions under which it issues it
  (\<open>SetAction\<close> only from a phase the request may leave, \<open>FinishAction\<close> only with the state the action
  ends in). Every worker step and handler is shown once, inside the locale, to keep any such
  property; the interpretations at the end say which properties those are.
\<close>

locale ledger_contract =
  fixes Q :: "inst_table \<Rightarrow> vol_table \<Rightarrow> bool"
  assumes insert: "Q t v \<Longrightarrow> Q (snd (InsertInstance now i t)) v"
    and insert_adopted: "Q t v \<Longrightarrow> i_state i = StateRunning \<or> i_state i = StateStopped \<Longrightarrow>
      Q (snd (InsertAdoptedInstance now i t)) v"
    and claim: "Q t v \<Longrightarrow> Q (snd (ClaimWork now lease t)) v"
    and finish: "Q t v \<Longrightarrow> st = finished_state a \<Longrightarrow> Q (snd (FinishAction now k a st reason t)) v"
    and retry: "Q t v \<Longrightarrow> Q (snd (RetryLater now k a msg next t)) v"
    and abandon: "Q t v \<Longrightarrow> Q (snd (AbandonLaunch now k reason t)) v"
    and give_up: "Q t v \<Longrightarrow> a \<in> {ActionStart, ActionStop, ActionReboot} \<Longrightarrow> st = given_up_state a \<Longrightarrow>
      Q (snd (GiveUpAction now k a st reason t)) v"
    and release: "Q t v \<Longrightarrow> Q (snd (ReleaseLease k t)) v"
    and record_resources: "Q t v \<Longrightarrow> Q (snd (RecordResources now k r t)) v"
    and set_tags: "Q t v \<Longrightarrow> Q (snd (SetInstanceTags now k name tags t)) v"
    and set_spec: "Q t v \<Longrightarrow> Q (snd (SetSpec now k cpu mem floor b disk t)) v"
    and note_reason: "Q t v \<Longrightarrow> Q (snd (NoteReason now k reason t)) v"
    and observe: "Q t v \<Longrightarrow> from \<in> {StateRunning, StateStopped} \<Longrightarrow> to \<in> {StateRunning, StateStopped} \<Longrightarrow>
      Q (snd (ObserveState now k from to reason t)) v"
    and set_action: "Q t v \<Longrightarrow> (\<And>i. i \<in> set t \<Longrightarrow> i_id i = k \<Longrightarrow> row_ok i \<Longrightarrow> life_edge (phase i) (st, Some a)) \<Longrightarrow>
      st \<noteq> StateTerminated \<Longrightarrow> Q (snd (SetAction now k st a t)) v"
    and bump: "Q t v \<Longrightarrow> Q (update_where c (bump now) t) v"
    and bump_touch: "Q t v \<Longrightarrow> Q (update_where c (\<lambda>i. (bump now i)\<lparr>i_updated_at := now\<rparr>) t) v"
    and fw_claim: "Q t v \<Longrightarrow> Q (snd (ClaimFirewallWork now lease t)) v"
    and fw_retry: "Q t v \<Longrightarrow> Q (snd (FirewallRetryLater k msg next t)) v"
    and fw_applied: "Q t v \<Longrightarrow> Q (snd (RecordFirewallApplied k g t)) v"
    and vol_insert: "Q t v \<Longrightarrow> Q t (snd (InsertVolume now x v))"
    and vol_claim: "Q t v \<Longrightarrow> Q t (snd (ClaimVolumeWork now lease v))"
    and vol_record: "Q t v \<Longrightarrow> Q t (snd (RecordLocation now k l v))"
    and vol_release: "Q t v \<Longrightarrow> Q t (snd (ReleaseVolumeLease k v))"
    and vol_finish: "Q t v \<Longrightarrow> Q t (snd (FinishVolumeAction now k va v))"
    and vol_retry: "Q t v \<Longrightarrow> Q t (snd (RetryVolumeLater now k va msg next v))"
    and vol_give_up_create: "Q t v \<Longrightarrow> Q t (snd (GiveUpCreate now k reason v))"
    and vol_give_up_attach: "Q t v \<Longrightarrow> Q t (snd (GiveUpAttach now k reason v))"
    and vol_give_up_resize: "Q t v \<Longrightarrow> Q t (snd (GiveUpResize now k sz reason v))"
    and vol_return: "Q t v \<Longrightarrow> Q t (snd (ReturnToHolder now k l reason v))"
    and vol_attach: "Q t v \<Longrightarrow> (\<And>x. x \<in> set v \<Longrightarrow> v_id x = k \<Longrightarrow> vol_ok x \<Longrightarrow> vol_phase x = (VolumeAvailable, None, None)) \<Longrightarrow>
      Q t (snd (RequestAttach now k inst device v))"
    and vol_detach: "Q t v \<Longrightarrow>
      (\<And>x. x \<in> set v \<Longrightarrow> v_id x = k \<Longrightarrow> vol_ok x \<Longrightarrow> vol_phase x = (VolumeInUse, None, Some AttachmentAttached)) \<Longrightarrow>
      Q t (snd (RequestDetach now k v))"
    and vol_resize: "Q t v \<Longrightarrow> (\<And>x. x \<in> set v \<Longrightarrow> v_id x = k \<Longrightarrow> vol_ok x \<Longrightarrow> vol_phase x = (VolumeAvailable, None, None) \<or>
        vol_phase x = (VolumeInUse, None, Some AttachmentAttached)) \<Longrightarrow>
      Q t (snd (RequestResize now k sz v))"
    and vol_delete: "Q t v \<Longrightarrow> (\<And>x. x \<in> set v \<Longrightarrow> v_id x = k \<Longrightarrow> vol_ok x \<Longrightarrow> vol_phase x = (VolumeAvailable, None, None) \<or>
        vol_phase x = (VolumeError, None, None)) \<Longrightarrow>
      Q t (snd (RequestDelete now k v))"
begin

abbreviation P :: "ledger \<Rightarrow> bool" where
  "P d \<equiv> Q (d_instances d) (d_volumes d)"

lemma keeps_instances:
  "(\<And>now t v. Q t v \<Longrightarrow> Q (snd (f now t)) v) \<Longrightarrow> stmt_keeps P (\<lambda>now. on_instances (f now))"
  by (rule stmt_keepsI) (simp add: on_instances_def split_beta)

lemma keeps_volumes:
  "(\<And>now t v. Q t v \<Longrightarrow> Q t (snd (f now v))) \<Longrightarrow> stmt_keeps P (\<lambda>now. on_volumes (f now))"
  by (rule stmt_keepsI) (simp add: on_volumes_def split_beta)

lemma keeps_other_tables: "(\<And>now. leaves_machines (f now)) \<Longrightarrow> stmt_keeps P f"
  by (rule stmt_keepsI) (simp add: leaves_machines_def)

lemmas instance_laws = claim finish retry abandon give_up release record_resources set_tags set_spec
  note_reason observe fw_claim fw_retry fw_applied insert
lemmas volume_laws = vol_claim vol_record vol_release vol_finish vol_retry vol_give_up_create
  vol_give_up_attach vol_give_up_resize vol_return vol_insert

lemma keeps_members:
  "stmt_keeps P (\<lambda>now. SetInstanceGroups now k ids)" "stmt_keeps P (\<lambda>now. BumpFirewallOfGroup now g)"
  "stmt_keeps P (\<lambda>now. BumpFirewallOfAllGrouped now)"
  by (auto simp: stmt_keeps_def SetInstanceGroups_def BumpFirewallOfGroup_def
      BumpFirewallOfAllGrouped_def grp_constrained_def bump bump_touch)

end

section \<open>Lifecycles\<close>

text \<open>Rows only ever move along the transitions of their lifecycles, from any tables.\<close>

definition lifecycles :: "inst_table \<Rightarrow> vol_table \<Rightarrow> inst_table \<Rightarrow> vol_table \<Rightarrow> bool" where
  "lifecycles t0 v0 t v \<longleftrightarrow> evolves t0 t \<and> vol_evolves v0 v"

lemma evolves_firewall:
  "evolves t (update_where c (bump now) t)"
  "evolves t (update_where c (\<lambda>i. (bump now i)\<lparr>i_updated_at := now\<rparr>) t)"
  "evolves t (snd (FirewallRetryLater k msg next t))"
  "evolves t (snd (RecordFirewallApplied k g t))"
  by (auto simp: FirewallRetryLater_def RecordFirewallApplied_def set_row_def bump_def
      intro!: evolves_same_phase simp: same_identity_def phase_def)

lemma evolves_ClaimFirewallWork: "evolves t (snd (ClaimFirewallWork now lease t))"
  unfolding ClaimFirewallWork_def
  by (cases rule: claim_first_cases [of i_id "fw_due now" fw_order "fw_hold (now + lease)" t])
    (auto intro!: evolves_same_phase simp: same_identity_def phase_def fw_hold_def)

lemma evolves_if_ok: "(list_all row_ok t \<Longrightarrow> evolves t u) \<Longrightarrow> evolves t u"
  by (auto simp: table_evolves_def)

lemma vol_evolves_if_ok: "(list_all vol_ok t \<Longrightarrow> vol_evolves t u) \<Longrightarrow> vol_evolves t u"
  by (auto simp: table_evolves_def)

lemma lifecycles_steps:
  "lifecycles t0 v0 t v \<Longrightarrow> (list_all row_ok t \<Longrightarrow> evolves t t') \<Longrightarrow> lifecycles t0 v0 t' v"
  "lifecycles t0 v0 t v \<Longrightarrow> (list_all vol_ok v \<Longrightarrow> vol_evolves v v') \<Longrightarrow> lifecycles t0 v0 t v'"
  unfolding lifecycles_def by (blast intro: evolves_trans evolves_if_ok vol_evolves_trans vol_evolves_if_ok)+

interpretation life: ledger_contract "lifecycles t0 v0" for t0 v0
proof unfold_locales
  fix t v k inst device sz and now :: int
  show "lifecycles t0 v0 t v \<Longrightarrow>
      (\<And>i. i \<in> set t \<Longrightarrow> i_id i = k \<Longrightarrow> row_ok i \<Longrightarrow> life_edge (phase i) (st, Some a)) \<Longrightarrow>
      st \<noteq> StateTerminated \<Longrightarrow> lifecycles t0 v0 (snd (SetAction now k st a t)) v" for st a
    by (erule lifecycles_steps, rule evolves_SetAction) (auto simp: list_all_iff)
  show "lifecycles t0 v0 t v \<Longrightarrow>
      (\<And>x. x \<in> set v \<Longrightarrow> v_id x = k \<Longrightarrow> vol_ok x \<Longrightarrow> vol_phase x = (VolumeAvailable, None, None)) \<Longrightarrow>
      lifecycles t0 v0 t (snd (RequestAttach now k inst device v))"
    by (erule lifecycles_steps, rule vol_evolves_RequestAttach) (auto simp: list_all_iff)
  show "lifecycles t0 v0 t v \<Longrightarrow>
      (\<And>x. x \<in> set v \<Longrightarrow> v_id x = k \<Longrightarrow> vol_ok x \<Longrightarrow>
        vol_phase x = (VolumeInUse, None, Some AttachmentAttached)) \<Longrightarrow>
      lifecycles t0 v0 t (snd (RequestDetach now k v))"
    by (erule lifecycles_steps, rule vol_evolves_RequestDetach) (auto simp: list_all_iff)
  show "lifecycles t0 v0 t v \<Longrightarrow>
      (\<And>x. x \<in> set v \<Longrightarrow> v_id x = k \<Longrightarrow> vol_ok x \<Longrightarrow> vol_phase x = (VolumeAvailable, None, None) \<or>
        vol_phase x = (VolumeInUse, None, Some AttachmentAttached)) \<Longrightarrow>
      lifecycles t0 v0 t (snd (RequestResize now k sz v))"
    by (erule lifecycles_steps, rule vol_evolves_RequestResize) (auto simp: list_all_iff)
  show "lifecycles t0 v0 t v \<Longrightarrow>
      (\<And>x. x \<in> set v \<Longrightarrow> v_id x = k \<Longrightarrow> vol_ok x \<Longrightarrow> vol_phase x = (VolumeAvailable, None, None) \<or>
        vol_phase x = (VolumeError, None, None)) \<Longrightarrow>
      lifecycles t0 v0 t (snd (RequestDelete now k v))"
    by (erule lifecycles_steps, rule vol_evolves_RequestDelete) (auto simp: list_all_iff)
qed (unfold lifecycles_def, (blast intro: evolves_trans vol_evolves_trans lifecycle_intros evolves_firewall
      evolves_ClaimFirewallWork)+)

section \<open>Constraints\<close>

text \<open>
  The migrations' constraints: unique IDs, client tokens, live VMIDs, devices and disks, and sizes in
  range. Most statements are checked as a whole; the ones that cannot break a constraint are shown
  not to.
\<close>

definition tables_ok :: "inst_table \<Rightarrow> vol_table \<Rightarrow> bool" where
  "tables_ok t v \<longleftrightarrow> inst_constraints t \<and> vol_constraints v"

definition inst_key :: "instance_row \<Rightarrow> string \<times> string \<times> string \<times> int option \<times> bool \<times> bool" where
  "inst_key i = (i_id i, i_account i, i_client_token i, i_vmid i, live i, row_size_ok i)"

lemma inst_constraints_as_key:
  "inst_constraints t \<longleftrightarrow>
     distinct (map fst (map inst_key t)) \<and>
     distinct (List.map_filter (\<lambda>(k, a, c, v, l, ok). if l then v else None) (map inst_key t)) \<and>
     distinct (map (\<lambda>(k, a, c, r). (a, c)) (filter (\<lambda>(k, a, c, r). c \<noteq> '''') (map inst_key t))) \<and>
     list_all (\<lambda>(k, a, c, v, l, ok). ok) (map inst_key t)"
proof -
  have "map fst (map inst_key t) = map i_id t"
    by (simp add: inst_key_def)
  moreover have "List.map_filter (\<lambda>(k, a, c, v, l, ok). if l then v else None) (map inst_key t) = live_vmids t"
    by (induction t) (simp_all add: live_vmids_def inst_key_def map_filter_simps split: option.split)
  moreover have "map (\<lambda>(k, a, c, r). (a, c)) (filter (\<lambda>(k, a, c, r). c \<noteq> '''') (map inst_key t)) = client_tokens t"
    by (induction t) (simp_all add: client_tokens_def inst_key_def)
  moreover have "list_all (\<lambda>(k, a, c, v, l, ok). ok) (map inst_key t) = list_all row_size_ok t"
    by (induction t) (simp_all add: inst_key_def)
  ultimately show ?thesis
    by (simp only: inst_constraints_def)
qed

lemma inst_constraints_key:
  "map inst_key t = map inst_key u \<Longrightarrow> inst_constraints t = inst_constraints u"
  by (simp only: inst_constraints_as_key)

lemma inst_constraints_update:
  "(\<And>i. inst_key (f i) = inst_key i) \<Longrightarrow> inst_constraints (update_where c f t) = inst_constraints t"
  by (rule inst_constraints_key) (simp add: map_update_where)

lemmas inst_key_simps = inst_key_def live_def row_size_ok_def

lemma inst_constraints_firewall:
  "inst_constraints (update_where c (bump now) t) = inst_constraints t"
  "inst_constraints (update_where c (\<lambda>i. (bump now i)\<lparr>i_updated_at := now\<rparr>) t) = inst_constraints t"
  "inst_constraints (snd (FirewallRetryLater k msg next t)) = inst_constraints t"
  "inst_constraints (snd (RecordFirewallApplied k g t)) = inst_constraints t"
  by (simp_all add: inst_constraints_update bump_def inst_key_simps FirewallRetryLater_def
      RecordFirewallApplied_def set_row_def)

lemma inst_constraints_claims:
  "inst_constraints t \<Longrightarrow> inst_constraints (snd (ClaimWork now lease t))"
  "inst_constraints t \<Longrightarrow> inst_constraints (snd (ClaimFirewallWork now lease t))"
  unfolding ClaimWork_def ClaimFirewallWork_def
  by (cases rule: claim_first_cases [of i_id "action_due now" action_order "hold_lease (now + lease)" t],
      simp_all add: inst_constraints_update hold_lease_def inst_key_simps)
    (cases rule: claim_first_cases [of i_id "fw_due now" fw_order "fw_hold (now + lease)" t],
      simp_all add: inst_constraints_update fw_hold_def inst_key_simps)

definition vol_key :: "volume_row \<Rightarrow> string \<times> string \<times> string \<times> string \<times> string \<times> string \<times> bool \<times> bool" where
  "vol_key v = (v_id v, v_account v, v_client_token v, v_instance v, v_device v, l_volid (v_location v),
     vol_live v, vol_row_ok v)"

lemma vol_constraints_as_key:
  "vol_constraints t \<longleftrightarrow>
     distinct (map fst (map vol_key t)) \<and>
     distinct (map (\<lambda>(k, a, c, r). (a, c)) (filter (\<lambda>(k, a, c, r). c \<noteq> '''') (map vol_key t))) \<and>
     distinct (map (\<lambda>(k, a, c, i, d, r). (i, d)) (filter (\<lambda>(k, a, c, i, r). i \<noteq> '''') (map vol_key t))) \<and>
     distinct (map (\<lambda>(k, a, c, i, d, x, r). x) (filter (\<lambda>(k, a, c, i, d, x, l, ok). l \<and> x \<noteq> '''') (map vol_key t))) \<and>
     list_all (\<lambda>(k, a, c, i, d, x, l, ok). ok) (map vol_key t)"
proof -
  have "map fst (map vol_key t) = map v_id t"
    by (simp add: vol_key_def)
  moreover have "map (\<lambda>(k, a, c, r). (a, c)) (filter (\<lambda>(k, a, c, r). c \<noteq> '''') (map vol_key t)) = vol_tokens t"
    by (induction t) (simp_all add: vol_tokens_def vol_key_def)
  moreover have "map (\<lambda>(k, a, c, i, d, r). (i, d)) (filter (\<lambda>(k, a, c, i, r). i \<noteq> '''') (map vol_key t)) = used_devices t"
    by (induction t) (simp_all add: used_devices_def vol_key_def)
  moreover have "map (\<lambda>(k, a, c, i, d, x, r). x)
      (filter (\<lambda>(k, a, c, i, d, x, l, ok). l \<and> x \<noteq> '''') (map vol_key t)) = live_volids t"
    by (induction t) (simp_all add: live_volids_def vol_key_def)
  moreover have "list_all (\<lambda>(k, a, c, i, d, x, l, ok). ok) (map vol_key t) = list_all vol_row_ok t"
    by (induction t) (simp_all add: vol_key_def)
  ultimately show ?thesis
    by (simp only: vol_constraints_def)
qed

lemma vol_constraints_key:
  "map vol_key t = map vol_key u \<Longrightarrow> vol_constraints t = vol_constraints u"
  by (simp only: vol_constraints_as_key)

lemma vol_constraints_claim:
  "vol_constraints t \<Longrightarrow> vol_constraints (snd (ClaimVolumeWork now lease t))"
proof -
  have "map vol_key (update_where c (vol_hold u) t) = map vol_key t" for c u t
    by (rule map_update_where) (simp add: vol_key_def vol_hold_def vol_live_def vol_row_ok_def)
  then show "vol_constraints t \<Longrightarrow> ?thesis"
    unfolding ClaimVolumeWork_def
    by (cases rule: claim_first_cases [of v_id "vol_due now" vol_order "vol_hold (now + lease)" t])
      (simp_all add: vol_constraints_key [of "update_where _ _ _"])
qed

lemma snd_FinishAction:
  "snd (FinishAction now k a st reason t) = snd (constrained t (set_if_pending k a (finish_row now st reason) t) (Inr ())) \<or>
   snd (FinishAction now k a st reason t) =
     snd (ReleaseLease k (snd (constrained t (set_if_pending k a (finish_row now st reason) t) (Inr ()))))"
  by (auto simp: FinishAction_def split: prod.split sum.split)

lemma snd_FinishVolumeAction:
  "snd (FinishVolumeAction now k a t) = snd (vol_constrained t (set_vol_if_pending k a (finish_vol now a) t) (Inr ())) \<or>
   snd (FinishVolumeAction now k a t) =
     snd (ReleaseVolumeLease k (snd (vol_constrained t (set_vol_if_pending k a (finish_vol now a) t) (Inr ()))))"
  by (auto simp: FinishVolumeAction_def split: prod.split sum.split)

lemma snd_RetryLater:
  "\<exists>u. snd (RetryLater now k a msg next t) = snd (constrained t u (Inr ())) \<or>
   snd (RetryLater now k a msg next t) = snd (ReleaseLease k (snd (constrained t u (Inr ()))))"
  unfolding RetryLater_def by (auto simp: prod_eq_iff split: prod.split sum.split intro!: exI)

lemma inst_constraints_finish:
  "inst_constraints t \<Longrightarrow> inst_constraints (snd (FinishAction now k a st reason t))"
  "inst_constraints t \<Longrightarrow> inst_constraints (snd (RetryLater now k a msg next t))"
  using snd_FinishAction [of now k a st reason t] snd_RetryLater [of now k a msg "next" t]
  unfolding ReleaseLease_def by (metis constrained_keeps)+

lemma vol_constraints_finish:
  "vol_constraints t \<Longrightarrow> vol_constraints (snd (FinishVolumeAction now k va t))"
  using snd_FinishVolumeAction [of now k va t]
  unfolding ReleaseVolumeLease_def by (metis vol_constrained_keeps)

interpretation kept: ledger_contract tables_ok
  by (unfold_locales; unfold tables_ok_def)
    (auto simp: inst_constraints_firewall inst_constraints_claims inst_constraints_finish
      vol_constraints_claim vol_constraints_finish constrained_keeps vol_constrained_keeps
      InsertInstance_def InsertAdoptedInstance_def AbandonLaunch_def GiveUpAction_def ReleaseLease_def
      RecordResources_def SetInstanceTags_def SetSpec_def NoteReason_def ObserveState_def SetAction_def
      InsertVolume_def RecordLocation_def ReleaseVolumeLease_def RetryVolumeLater_def GiveUpCreate_def
      GiveUpAttach_def GiveUpResize_def ReturnToHolder_def RequestAttach_def RequestDetach_def
      RequestResize_def RequestDelete_def Let_def)


end
