(* ===== verification/Firewall.thy ===== *)
theory Firewall
  imports Vm_Identity Ledger_Contract "HOL-Library.Multiset"
begin

text \<open>
  \<open>compute/firewall.go\<close>: an instance's security groups rendered into its own VM firewall, the
  ordered calls that replace the rules of a VM without a gap, the address filter, and the worker
  step that writes a firewall that is behind its groups.
\<close>

section \<open>Rendering\<close>

definition blank_rule :: fw_rule where
  "blank_rule = \<lparr>fr_pos = 0, fr_type = '''', fr_action = ''ACCEPT'', fr_proto = '''', fr_dport = '''',
     fr_source = '''', fr_dest = '''', fr_enable = 1, fr_comment = ''''\<rparr>"

text \<open>
  One group rule without its comment. The ports of a \<open>tcp\<close> or \<open>udp\<close> rule are never \<open>nil\<close>: the
  table's \<open>CHECK\<close> says so.
\<close>

definition dport_text :: "int \<Rightarrow> int \<Rightarrow> string" where
  "dport_text f t =
     (if f \<noteq> 0 \<or> t \<noteq> 65535 then (if t \<noteq> f then itoa f @ '':'' @ itoa t else itoa f) else '''')"

definition fw_of_rule :: "rule_row \<Rightarrow> fw_rule" where
  "fw_of_rule r =
     (let rule = (if gr_direction r = DirectionIngress
            then blank_rule\<lparr>fr_type := ''in'', fr_source := show_prefix (gr_cidr r)\<rparr>
            else blank_rule\<lparr>fr_type := ''out'', fr_dest := show_prefix (gr_cidr r)\<rparr>) in
      if gr_protocol r = ''tcp'' \<or> gr_protocol r = ''udp'' then
        (case (gr_from_port r, gr_to_port r) of
           (Some f, Some t) \<Rightarrow> rule\<lparr>fr_proto := gr_protocol r, fr_dport := dport_text f t\<rparr>
         | _ \<Rightarrow> rule\<lparr>fr_proto := gr_protocol r\<rparr>)
      else if gr_protocol r = ''icmp'' then rule\<lparr>fr_proto := ''icmp''\<rparr>
      else if gr_protocol r = ''icmpv6'' then rule\<lparr>fr_proto := ''ipv6-icmp''\<rparr>
      else rule)"

fun render_from :: "fw_rule list \<Rightarrow> rule_row list \<Rightarrow> fw_rule list" where
  "render_from seen [] = []"
| "render_from seen (r # rs) =
     (let rule = fw_of_rule r in
      if rule \<in> set seen then render_from seen rs
      else rule\<lparr>fr_comment := ''shakecloud '' @ gr_group r @ '' '' @ gr_id r\<rparr> # render_from (rule # seen) rs)"

definition renderFirewall :: "rule_row list \<Rightarrow> fw_rule list" where
  "renderFirewall rules = render_from [] rules"

definition without_pos :: "fw_rule \<Rightarrow> fw_rule" where
  "without_pos r = r\<lparr>fr_pos := 0\<rparr>"

definition sameRules :: "fw_rule list \<Rightarrow> fw_rule list \<Rightarrow> bool" where
  "sameRules current desired \<longleftrightarrow> length current = length desired \<and> map without_pos current = desired"

section \<open>Writing a VM's firewall\<close>

definition replaceRules :: "'h env \<Rightarrow> int \<Rightarrow> fw_rule list \<Rightarrow> fw_rule list \<Rightarrow> ('h, unit) cloud" where
  "replaceRules E vmid current desired =
     (if sameRules current desired then ret ()
      else seqE
        (for_eachE (rev desired) (\<lambda>r. wrapE ''add rule''
           (pve_do (DidInsertRule vmid r) (InsertFirewallRule (e_pve E) vmid r))))
        (for_eachE (rev current) (\<lambda>r. wrapE ''remove old rule''
           (pve_do (DidDeleteRule vmid (int (length desired) + fr_pos r))
              (DeleteFirewallRule (e_pve E) vmid (int (length desired) + fr_pos r))))))"

definition ipfilterSet :: string where "ipfilterSet = ''ipfilter-net0''"
definition globalIPv6 :: string where "globalIPv6 = ''2000::/3''"

definition filteredOptions :: url_values where
  "filteredOptions = [(''enable'', ''1''), (''policy_in'', ''DROP''), (''policy_out'', ''DROP''),
     (''macfilter'', ''1''), (''ipfilter'', ''1''), (''dhcp'', ''0''), (''ndp'', ''1''), (''radv'', ''0'')]"

text \<open>A host route is listed with or without its \<open>/32\<close>.\<close>

definition bare :: "string \<Rightarrow> string" where
  "bare entry = trim_suffix entry ''/32''"

text \<open>The loop over the entries: keep the wanted ones, delete the rest; the result is what is missing.\<close>

fun keep_entries ::
    "'h env \<Rightarrow> int \<Rightarrow> string list \<Rightarrow> string list \<Rightarrow> ('h, string list) cloud" where
  "keep_entries E vmid missing [] = ret missing"
| "keep_entries E vmid missing (entry # rest) =
     (case index_of missing (bare entry) of
        Some i \<Rightarrow> keep_entries E vmid (delete_at i missing) rest
      | None \<Rightarrow> seqE (pve_do (DidDeleteEntry vmid ipfilterSet entry)
                  (DeleteIPSetEntry (e_pve E) vmid ipfilterSet entry))
                (keep_entries E vmid missing rest))"

definition pinAddress :: "'h env \<Rightarrow> int \<Rightarrow> string \<Rightarrow> string \<Rightarrow> ('h, unit) cloud" where
  "pinAddress E vmid pfx routed =
     (let address = fst (cut pfx CHR ''/'') in
      if address = '''' then raise (Failed ''the instance has no address yet'')
      else bindE (external (IPSets (e_pve E) vmid)) (\<lambda>sets.
        seqE (whenE (ipfilterSet \<notin> set sets)
                (pve_do (DidCreateIPSet vmid ipfilterSet) (CreateIPSet (e_pve E) vmid ipfilterSet)))
        (bindE (external (IPSetEntries (e_pve E) vmid ipfilterSet)) (\<lambda>entries.
           bindE (keep_entries E vmid
                    ([address, globalIPv6] @ (if routed \<noteq> '''' then [routed] else [])) entries)
             (\<lambda>missing. for_eachE missing (\<lambda>entry.
                pve_do (DidAddEntry vmid ipfilterSet entry)
                  (AddIPSetEntry (e_pve E) vmid ipfilterSet entry)))))))"

definition setFilteredOptions :: "'h env \<Rightarrow> int \<Rightarrow> ('h, unit) cloud" where
  "setFilteredOptions E vmid =
     pve_do (DidSetFirewall vmid filteredOptions) (SetFirewallOptions (e_pve E) vmid filteredOptions)"

text \<open>
  The parts of the NIC string with every \<open>firewall=\<close> part turned on; \<open>None\<close> when the loop finds
  \<open>firewall=1\<close> and returns.
\<close>

definition nic_key :: string where "nic_key = ''firewall=''"
definition nic_on :: string where "nic_on = ''firewall=1''"

fun nic_parts :: "string list \<Rightarrow> (string list \<times> bool) option" where
  "nic_parts [] = Some ([], False)"
| "nic_parts (p # ps) =
     (if \<not> has_prefix p nic_key then
        (case nic_parts ps of None \<Rightarrow> None | Some (qs, found) \<Rightarrow> Some (p # qs, found))
      else if p = nic_on then None
      else (case nic_parts ps of None \<Rightarrow> None | Some (qs, found) \<Rightarrow> Some (nic_on # qs, True)))"

definition filtered_nic :: "string \<Rightarrow> string option" where
  "filtered_nic net0 =
     (case nic_parts (split_at CHR '','' net0) of
        None \<Rightarrow> None
      | Some (parts, found) \<Rightarrow> Some (join_with '','' (if found then parts else parts @ [nic_on])))"

definition filterNIC :: "'h env \<Rightarrow> int \<Rightarrow> ('h, unit) cloud" where
  "filterNIC E vmid =
     bindE (vm_config E vmid) (\<lambda>c.
       let net0 = configString c ''net0'' in
       if net0 = '''' then ret ()
       else case filtered_nic net0 of
           None \<Rightarrow> ret ()
         | Some nic \<Rightarrow> pve_do (DidUpdateVMConfig vmid [(''net0'', nic)])
                        (UpdateVMConfig (e_pve E) vmid [(''net0'', nic)]))"

definition applyFirewall :: "'h env \<Rightarrow> instance_row \<Rightarrow> ('h, unit) cloud" where
  "applyFirewall E i =
     (case i_vmid i of
        None \<Rightarrow> raise (Failed ''the instance has no VM'')
      | Some vmid \<Rightarrow>
          bindE (owns E vmid i) (\<lambda>owned.
          if \<not> owned then raise (Failed (''VM '' @ itoa vmid @ '' does not belong to '' @ i_id i))
          else bindE (db E (\<lambda>_. reading (\<lambda>d. Inr (map fst (InstanceGroups (i_id i) d))))) (\<lambda>ids.
          bindE (external (FirewallRules (e_pve E) vmid)) (\<lambda>current.
          if ids = [] then
            seqE (pve_do (DidSetFirewall vmid [(''enable'', ''0'')])
                    (SetFirewallOptions (e_pve E) vmid [(''enable'', ''0'')]))
              (replaceRules E vmid current [])
          else bindE (db E (\<lambda>_. reading (\<lambda>d. Inr (RulesOfGroups ids d)))) (\<lambda>rules.
            seqE (replaceRules E vmid current (renderFirewall rules))
            (seqE (pinAddress E vmid (i_ip i) (gomap_str (routed_prefixes (e_site E)) (i_id i)))
            (seqE (setFilteredOptions E vmid) (filterNIC E vmid))))))))"

definition writeFirewall :: "'h env \<Rightarrow> string \<Rightarrow> ('h, unit) cloud" where
  "writeFirewall E k =
     bindE (db E (\<lambda>_. reading (\<lambda>d. GetInstance k (d_instances d)))) (\<lambda>i.
       seqE (applyFirewall E i)
         (db E (\<lambda>_. on_instances (RecordFirewallApplied (i_id i) (i_fw_generation i)))))"

definition five_min :: int where "five_min = 300 * 10 ^ 9"
definition thirty_seconds :: int where "thirty_seconds = 30 * 10 ^ 9"

definition workFirewallOnce :: "'h env \<Rightarrow> ('h, bool) cloud" where
  "workFirewallOnce E =
     attempt (db E (\<lambda>now. on_instances (ClaimFirewallWork now five_min))) (\<lambda>r. case r of
         Inl e \<Rightarrow> ret False
       | Inr i \<Rightarrow> attempt (applyFirewall E i) (\<lambda>r. case r of
             Inl e \<Rightarrow> bindE (cancelled E) (\<lambda>stop.
               if stop then ret True
               else bindE (clock E) (\<lambda>now.
                 seqE (logged (db E (\<lambda>_. on_instances (FirewallRetryLater (i_id i)
                         (truncate_to 500 (err_text e)) (now + thirty_seconds)))))
                   (ret True)))
           | Inr _ \<Rightarrow> seqE (logged (db E (\<lambda>_. on_instances
                         (RecordFirewallApplied (i_id i) (i_fw_generation i)))))
                     (ret True)))"


section \<open>What the rules let through\<close>

text \<open>
  A packet as a rule sees it: its direction, its protocol in Proxmox's names, the port it is sent to
  and the remote end. Both policies are \<open>DROP\<close>, so the firewall lets through what an enabled
  \<open>ACCEPT\<close> rule matches.
\<close>

record packet =
  p_direction :: direction
  p_proto :: string
  p_port :: int
  p_remote :: addr

definition group_allows :: "rule_row \<Rightarrow> packet \<Rightarrow> bool" where
  "group_allows r p \<longleftrightarrow> gr_direction r = p_direction p \<and> prefix_contains (gr_cidr r) (p_remote p) \<and>
     (gr_protocol r = ''all'' \<or>
      gr_protocol r \<in> {''tcp'', ''udp''} \<and> p_proto p = gr_protocol r \<and>
        (\<exists>f t. gr_from_port r = Some f \<and> gr_to_port r = Some t \<and> f \<le> p_port p \<and> p_port p \<le> t) \<or>
      gr_protocol r = ''icmp'' \<and> p_proto p = ''icmp'' \<or>
      gr_protocol r = ''icmpv6'' \<and> p_proto p = ''ipv6-icmp'')"

definition dport_matches :: "string \<Rightarrow> int \<Rightarrow> bool" where
  "dport_matches s port \<longleftrightarrow> s = '''' \<or>
     (case cut s CHR '':'' of (a, b, many) \<Rightarrow>
        if many then int (dec_value a) \<le> port \<and> port \<le> int (dec_value b) else int (dec_value a) = port)"

definition cidr_matches :: "string \<Rightarrow> addr \<Rightarrow> bool" where
  "cidr_matches s a \<longleftrightarrow> s = '''' \<or> (case parse_prefix s of None \<Rightarrow> False | Some pfx \<Rightarrow> prefix_contains pfx a)"

definition fw_matches :: "fw_rule \<Rightarrow> packet \<Rightarrow> bool" where
  "fw_matches r p \<longleftrightarrow> fr_enable r = 1 \<and> fr_action r = ''ACCEPT'' \<and>
     (if p_direction p = DirectionIngress then fr_type r = ''in'' \<and> cidr_matches (fr_source r) (p_remote p)
      else fr_type r = ''out'' \<and> cidr_matches (fr_dest r) (p_remote p)) \<and>
     (fr_proto r = '''' \<or> fr_proto r = p_proto p) \<and> dport_matches (fr_dport r) (p_port p)"

definition fw_accepts :: "fw_rule list \<Rightarrow> packet \<Rightarrow> bool" where
  "fw_accepts rules p \<longleftrightarrow> (\<exists>r \<in> set rules. fw_matches r p)"

lemma itoa_nonneg: "0 \<le> n \<Longrightarrow> itoa n = nat_digits (nat n)"
  by (simp add: itoa_def)

lemma dport_text_matches:
  assumes "0 \<le> f" and "f \<le> t" and "0 \<le> port" and "port \<le> 65535"
  shows "dport_matches (dport_text f t) port \<longleftrightarrow> f \<le> port \<and> port \<le> t"
proof -
  have colon: "CHR '':'' \<notin> set (nat_digits n)" for n
    by (rule nat_digits_free) simp

  show ?thesis
  proof (cases "f = 0 \<and> t = 65535")
    case True
    then show ?thesis
      using assms by (simp add: dport_matches_def dport_text_def)
  next
    case False
    show ?thesis
    proof (cases "t = f")
      case True
      with False assms show ?thesis
        by (auto simp: dport_text_def dport_matches_def itoa_nonneg cut_none [OF colon] dec_value_nat_digits)
    next
      case neq: False
      with False assms show ?thesis
        using cut_at [OF colon, of "nat f" "nat_digits (nat t)"]
        by (auto simp: dport_text_def dport_matches_def itoa_nonneg dec_value_nat_digits)
    qed
  qed
qed

definition cidr_text_ok :: "rule_row \<Rightarrow> bool" where
  "cidr_text_ok r \<longleftrightarrow> parse_prefix (show_prefix (gr_cidr r)) = Some (gr_cidr r)"

lemma show_prefix_nonempty: "show_prefix p \<noteq> ''''"
  by (simp add: show_prefix_def)

lemma fw_of_rule_matches:
  assumes "rule_row_ok r" and "cidr_text_ok r" and "0 \<le> p_port p" and "p_port p \<le> 65535"
  shows "fw_matches (fw_of_rule r) p \<longleftrightarrow> group_allows r p"
proof -
  have cidr: "cidr_matches (show_prefix (gr_cidr r)) a \<longleftrightarrow> prefix_contains (gr_cidr r) a" for a
    using assms(2) show_prefix_nonempty [of "gr_cidr r"] by (simp add: cidr_matches_def cidr_text_ok_def)
  have dir: "gr_direction r = DirectionIngress \<or> gr_direction r = DirectionEgress"
    by (cases "gr_direction r") simp_all
  show ?thesis
  proof (cases "gr_protocol r \<in> {''tcp'', ''udp''}")
    case True
    then obtain f t where ports: "gr_from_port r = Some f" "gr_to_port r = Some t"
      and le: "0 \<le> f" "f \<le> t" "t \<le> 65535"
      using assms(1) by (auto simp: rule_row_ok_def port_ok_def)
    have "dport_matches (dport_text f t) (p_port p) \<longleftrightarrow> f \<le> p_port p \<and> p_port p \<le> t"
      by (rule dport_text_matches [OF le(1,2) assms(3,4)])
    then show ?thesis
      using True dir by (cases "p_direction p")
        (auto simp: fw_matches_def fw_of_rule_def group_allows_def ports cidr blank_rule_def Let_def)
  next
    case False
    then show ?thesis
      using assms(1) dir by (cases "p_direction p")
        (auto simp: fw_matches_def fw_of_rule_def group_allows_def cidr blank_rule_def Let_def
          dport_matches_def rule_row_ok_def)
  qed
qed

lemma fw_matches_comment: "fw_matches (r\<lparr>fr_comment := c\<rparr>) p = fw_matches r p"
  by (simp add: fw_matches_def)

lemma render_from_accepts:
  "fw_accepts (render_from seen rules) p \<or> fw_accepts seen p \<longleftrightarrow>
   (\<exists>r \<in> set rules. fw_matches (fw_of_rule r) p) \<or> fw_accepts seen p"
proof (induction seen rules rule: render_from.induct)
  case (2 seen r rs)
  then show ?case
    by (cases "fw_of_rule r \<in> set seen") (auto simp: fw_accepts_def Let_def fw_matches_comment)
qed (simp add: fw_accepts_def)

text \<open>
  C10. Rendering neither adds nor loses traffic: a packet passes the rendered VM firewall exactly
  when some rule of the instance's groups allows it, duplicates between groups included.
\<close>

theorem render_allows_exactly:
  assumes "\<forall>r \<in> set rules. rule_row_ok r \<and> cidr_text_ok r" and "0 \<le> p_port p" and "p_port p \<le> 65535"
  shows "fw_accepts (renderFirewall rules) p \<longleftrightarrow> (\<exists>r \<in> set rules. group_allows r p)"
  using render_from_accepts [of "[]" rules p] fw_of_rule_matches assms
  by (auto simp: renderFirewall_def fw_accepts_def [of "[]"])


section \<open>Replacing rules\<close>

text \<open>
  What Proxmox documents, and the client's comment measured, of its rule list: a rule posted without
  a position lands on top, deleting removes the rule at a position, and a listing numbers the rules
  in order. \<open>rl h vmid\<close> is the list in force, its rules without positions. A call that fails has
  either not happened or happened.
\<close>

definition rule_list_api :: "'h hypervisor \<Rightarrow> ('h \<Rightarrow> int \<Rightarrow> fw_rule list) \<Rightarrow> bool" where
  "rule_list_api pve rl \<longleftrightarrow>
     (\<forall>vmid r h res h'. InsertFirewallRule pve vmid r h = (res, h') \<longrightarrow>
        rl h' vmid = without_pos r # rl h vmid \<or> res \<noteq> Inr () \<and> rl h' vmid = rl h vmid) \<and>
     (\<forall>vmid pos h res h'. DeleteFirewallRule pve vmid pos h = (res, h') \<and>
        0 \<le> pos \<and> pos < int (length (rl h vmid)) \<longrightarrow>
        rl h' vmid = delete_at (nat pos) (rl h vmid) \<or> res \<noteq> Inr () \<and> rl h' vmid = rl h vmid) \<and>
     (\<forall>vmid h res h'. FirewallRules pve vmid h = (res, h') \<longrightarrow> rl h' vmid = rl h vmid \<and>
        (\<forall>rs. res = Inr rs \<longrightarrow> map without_pos rs = rl h vmid \<and> map fr_pos rs = map int [0..<length rs]))"

text \<open>The list holds all of the old rules under some of the new ones, or all of the new ones over some of the old.\<close>

definition no_gap :: "fw_rule list \<Rightarrow> fw_rule list \<Rightarrow> fw_rule list \<Rightarrow> bool" where
  "no_gap old new l \<longleftrightarrow> (\<exists>k. l = drop k new @ old) \<or> (\<exists>k. l = new @ take k old)"

lemma no_gap_accepts:
  "no_gap old new l \<Longrightarrow> fw_accepts old p \<Longrightarrow> fw_accepts new p \<Longrightarrow> fw_accepts l p"
  by (auto simp: no_gap_def fw_accepts_def)

lemma rule_list_insert:
  assumes "rule_list_api pve rl" and "InsertFirewallRule pve vmid r h = (res, h')"
  shows "rl h' vmid = without_pos r # rl h vmid \<or> res \<noteq> Inr () \<and> rl h' vmid = rl h vmid"
  using assms unfolding rule_list_api_def by (elim conjE) simp

lemma rule_list_delete:
  assumes "rule_list_api pve rl" and "DeleteFirewallRule pve vmid pos h = (res, h')"
    and "0 \<le> pos" and "pos < int (length (rl h vmid))"
  shows "rl h' vmid = delete_at (nat pos) (rl h vmid) \<or> res \<noteq> Inr () \<and> rl h' vmid = rl h vmid"
  using assms unfolding rule_list_api_def by (elim conjE) simp

lemma rule_list_read:
  assumes "rule_list_api pve rl" and "FirewallRules pve vmid h = (res, h')"
  shows "rl h' vmid = rl h vmid \<and>
    (\<forall>rs. res = Inr rs \<longrightarrow> map without_pos rs = rl h vmid \<and> map fr_pos rs = map int [0..<length rs])"
  using assms unfolding rule_list_api_def by (elim conjE) simp

lemma insert_rules_triple:
  fixes E :: "'h env"
  assumes api: "rule_list_api (e_pve E) rl"
  shows "triple (\<lambda>w. rl (w_hv w) vmid = old)
    (for_eachE (rev new) (\<lambda>r. wrapE ''add rule''
       (pve_do (DidInsertRule vmid r) (InsertFirewallRule (e_pve E) vmid r))))
    (\<lambda>_ w. rl (w_hv w) vmid = map without_pos new @ old)
    (\<lambda>w. no_gap old (map without_pos new) (rl (w_hv w) vmid))"
proof -
  let ?R = "\<lambda>ys w. rl (w_hv w) vmid = map without_pos (rev ys) @ old"
  have "triple (?R []) (for_eachE (rev new) (\<lambda>r. wrapE ''add rule''
       (pve_do (DidInsertRule vmid r) (InsertFirewallRule (e_pve E) vmid r))))
    (\<lambda>_. ?R (rev new)) (\<lambda>w. no_gap old (map without_pos new) (rl (w_hv w) vmid))"
  proof (rule triple_for_eachE, rule triple_wrapE, rule triple_pve_do)
    fix r ys zs and w :: "'h world"
    assume split: "rev new = ys @ r # zs" and w: "?R ys w"
    have new: "new = rev zs @ r # rev ys"
      using split by (metis append_assoc append_Cons append_Nil rev.simps(2) rev_append rev_rev_ident)
    have gap: "no_gap old (map without_pos new) (map without_pos (rev ys) @ old)"
        "no_gap old (map without_pos new) (without_pos r # map without_pos (rev ys) @ old)"
      unfolding no_gap_def new
      by (intro disjI1 exI [of _ "Suc (length zs)"], simp) (intro disjI1 exI [of _ "length zs"], simp)
    obtain res h where call: "InsertFirewallRule (e_pve E) vmid r (w_hv w) = (res, h)" by fastforce
    then have "rl h vmid = without_pos r # rl (w_hv w) vmid \<or> res \<noteq> Inr () \<and> rl h vmid = rl (w_hv w) vmid"
      by (rule rule_list_insert [OF api])
    with call w gap show "case InsertFirewallRule (e_pve E) vmid r (w_hv w) of
        (Inl e, h) \<Rightarrow> no_gap old (map without_pos new) (rl (w_hv (w\<lparr>w_log := DidInsertRule vmid r # w_log w, w_hv := h\<rparr>)) vmid)
      | (Inr x, h) \<Rightarrow> ?R (ys @ [r]) (w\<lparr>w_log := DidInsertRule vmid r # w_log w, w_hv := h\<rparr>)"
      by (cases res) auto
  qed
  then show ?thesis by simp
qed

lemma delete_last: "delete_at (length xs) (xs @ [x] ) = xs"
  by (simp add: delete_at_def)

lemma delete_rules_triple:
  fixes E :: "'h env"
  assumes api: "rule_list_api (e_pve E) rl" and pos: "map fr_pos current = map int [0..<length current]"
  shows "triple (\<lambda>w. rl (w_hv w) vmid = map without_pos new @ map without_pos current)
    (for_eachE (rev current) (\<lambda>r. wrapE ''remove old rule''
       (pve_do (DidDeleteRule vmid (int (length new) + fr_pos r))
          (DeleteFirewallRule (e_pve E) vmid (int (length new) + fr_pos r)))))
    (\<lambda>_ w. rl (w_hv w) vmid = map without_pos new)
    (\<lambda>w. no_gap (map without_pos current) (map without_pos new) (rl (w_hv w) vmid))"
proof -
  let ?old = "map without_pos current" and ?new = "map without_pos new"
  let ?R = "\<lambda>(ys :: fw_rule list) (w :: 'h world).
    rl (w_hv w) vmid = ?new @ take (length current - length ys) ?old"
  have "triple (?R []) (for_eachE (rev current) (\<lambda>r. wrapE ''remove old rule''
       (pve_do (DidDeleteRule vmid (int (length new) + fr_pos r))
          (DeleteFirewallRule (e_pve E) vmid (int (length new) + fr_pos r)))))
    (\<lambda>_. ?R (rev current)) (\<lambda>w. no_gap ?old ?new (rl (w_hv w) vmid))"
  proof (rule triple_for_eachE [where R = ?R], rule triple_wrapE, rule triple_pve_do)
    fix r ys zs and w :: "'h world"
    assume split: "rev current = ys @ r # zs" and w: "?R ys w"
    let ?at = "int (length new) + fr_pos r"
    have current: "current = rev zs @ r # rev ys"
      using split by (metis append_assoc append_Cons append_Nil rev.simps(2) rev_append rev_rev_ident)
    have "fr_pos r = map fr_pos current ! length zs"
      by (simp add: current nth_append)
    also have "\<dots> = int (length zs)"
      by (simp only: pos) (simp add: current del: upt_Suc)
    finally have at: "?at = int (length (?new @ map without_pos (rev zs)))" by simp
    have now: "rl (w_hv w) vmid = (?new @ map without_pos (rev zs)) @ [without_pos r]"
      using w by (simp add: current)
    have gap: "no_gap ?old ?new (?new @ map without_pos (rev zs))"
        "no_gap ?old ?new ((?new @ map without_pos (rev zs)) @ [without_pos r])"
      unfolding no_gap_def current
      by (intro disjI2 exI [of _ "length zs"], simp) (intro disjI2 exI [of _ "Suc (length zs)"], simp)
    obtain res h where call: "DeleteFirewallRule (e_pve E) vmid ?at (w_hv w) = (res, h)" by fastforce
    have "0 \<le> ?at" "?at < int (length (rl (w_hv w) vmid))"
      by (simp_all only: at now) simp_all
    with rule_list_delete [OF api call] have step: "rl h vmid = ?new @ map without_pos (rev zs) \<or>
        res \<noteq> Inr () \<and> rl h vmid = (?new @ map without_pos (rev zs)) @ [without_pos r]"
      unfolding now by (simp only: at nat_int delete_last)
    have len: "length current - length (ys @ [r]) = length zs"
      by (simp add: current)
    show "case DeleteFirewallRule (e_pve E) vmid ?at (w_hv w) of
        (Inl e, h) \<Rightarrow> no_gap ?old ?new (rl (w_hv (w\<lparr>w_log := DidDeleteRule vmid ?at # w_log w, w_hv := h\<rparr>)) vmid)
      | (Inr x, h) \<Rightarrow> ?R (ys @ [r]) (w\<lparr>w_log := DidDeleteRule vmid ?at # w_log w, w_hv := h\<rparr>)"
      using call step gap by (cases res) (auto simp: len, simp_all add: current)
  qed
  then show ?thesis by simp
qed

lemma replaceRules_triple:
  assumes api: "rule_list_api (e_pve E) rl" and pos: "map fr_pos current = map int [0..<length current]"
    and desired: "map without_pos desired = desired"
  shows "triple (\<lambda>w. rl (w_hv w) vmid = map without_pos current) (replaceRules E vmid current desired)
    (\<lambda>_ w. rl (w_hv w) vmid = desired) (\<lambda>w. no_gap (map without_pos current) desired (rl (w_hv w) vmid))"
proof (cases "sameRules current desired")
  case True
  then show ?thesis
    by (auto simp: replaceRules_def sameRules_def intro: triple_ret)
next
  case False
  then show ?thesis
    using insert_rules_triple [OF api, of vmid "map without_pos current" desired]
      delete_rules_triple [OF api pos, of vmid desired]
    by (auto simp: replaceRules_def desired intro: triple_seqE)
qed

text \<open>
  C9. Replacing a VM's rules ends with exactly the desired list, and at no moment, failures included,
  is there a gap: traffic that both the old and the new rules let through is let through by whatever
  list a failed replacement leaves behind.
\<close>

theorem replace_rules_without_gap:
  assumes "rule_list_api (e_pve E) rl" and "rl (w_hv w) vmid = map without_pos current"
    and "map fr_pos current = map int [0..<length current]"
    and "map without_pos desired = desired" and "replaceRules E vmid current desired w = (res, w')"
  shows "(res = Inr () \<longrightarrow> rl (w_hv w') vmid = desired) \<and>
    (\<forall>p. fw_accepts (map without_pos current) p \<and> fw_accepts desired p \<longrightarrow> fw_accepts (rl (w_hv w') vmid) p)"
proof -
  have "case res of Inr _ \<Rightarrow> rl (w_hv w') vmid = desired
      | Inl e \<Rightarrow> no_gap (map without_pos current) desired (rl (w_hv w') vmid)"
    using replaceRules_triple [OF assms(1,3,4), of vmid] assms(2,5)
    by (auto simp: triple_def split: sum.splits)
  then show ?thesis
    by (auto split: sum.splits intro: no_gap_accepts)
qed

text \<open>A hypervisor with one VM's rule list as its state.\<close>

definition number_rules :: "fw_rule list \<Rightarrow> fw_rule list" where
  "number_rules rs = map2 (\<lambda>r n. r\<lparr>fr_pos := int n\<rparr>) rs [0..<length rs]"

definition rule_list_pve :: "fw_rule list hypervisor" where
  "rule_list_pve = offline_pve\<lparr>FirewallRules := \<lambda>_ h. (Inr (number_rules h), h),
     InsertFirewallRule := \<lambda>_ r h. (Inr (), r # h),
     DeleteFirewallRule := \<lambda>_ pos h. (Inr (), delete_at (nat pos) h)\<rparr>"

definition example_rule :: "direction \<Rightarrow> string \<Rightarrow> int option \<Rightarrow> rule_row" where
  "example_rule dir proto port = \<lparr>gr_id = ''sgr-1'', gr_group = ''sg-1'', gr_direction = dir,
     gr_protocol = proto, gr_from_port = port, gr_to_port = port,
     gr_cidr = Prefix (V4 0xC0A80A00) 24, gr_description = '''', gr_created_at = 0\<rparr>"

lemma example_rule_ok:
  "rule_row_ok (example_rule dir ''tcp'' (Some 22)) \<and> cidr_text_ok (example_rule dir proto port)"
proof -
  have "show_prefix (Prefix (V4 0xC0A80A00) 24) = ''192.168.10.0/24''"
    by (rule show_prefix_v4_example)
  then show ?thesis
    using parse_v4_prefix_example
    by (simp add: example_rule_def rule_row_ok_def port_ok_def cidr_text_ok_def)
qed

theorem render_allows_exactly_witness:
  "let rules = [example_rule DirectionIngress ''tcp'' (Some 22), example_rule DirectionIngress ''tcp'' (Some 22)];
       p = \<lparr>p_direction = DirectionIngress, p_proto = ''tcp'', p_port = 22, p_remote = V4 0xC0A80A07\<rparr>
   in fw_accepts (renderFirewall rules) p \<and> length (renderFirewall rules) = 1 \<and>
      \<not> fw_accepts (renderFirewall rules) (p\<lparr>p_port := 80\<rparr>)"
proof -
  let ?r = "example_rule DirectionIngress ''tcp'' (Some 22)"
  let ?p = "\<lparr>p_direction = DirectionIngress, p_proto = ''tcp'', p_port = 22, p_remote = V4 0xC0A80A07\<rparr>"
  have ok: "\<forall>r \<in> set [?r, ?r]. rule_row_ok r \<and> cidr_text_ok r"
    using example_rule_ok by simp
  have inside: "prefix_contains (Prefix (V4 0xC0A80A00) 24) (V4 0xC0A80A07)"
    by (simp add: same_top_def)
  have "length (renderFirewall [?r, ?r]) = 1"
    by (simp add: renderFirewall_def Let_def)
  then show ?thesis
    using render_allows_exactly [OF ok, of ?p] render_allows_exactly [OF ok, of "?p\<lparr>p_port := 80\<rparr>"] inside
    by (simp add: group_allows_def example_rule_def Let_def)
qed

lemma map_without_pos_number: "map without_pos (number_rules rs) = map without_pos rs"
  by (rule nth_equalityI) (simp_all add: number_rules_def without_pos_def)

lemma number_rules_pos: "map fr_pos (number_rules rs) = map int [0..<length (number_rules rs)]"
  by (rule nth_equalityI) (simp_all add: number_rules_def)

lemma rule_list_pve_api: "rule_list_api rule_list_pve (\<lambda>h _. map without_pos h)"
  by (auto simp: rule_list_api_def rule_list_pve_def offline_pve_def delete_at_def take_map drop_map
      map_without_pos_number number_rules_pos)

theorem replace_rules_without_gap_witness:
  "let new = renderFirewall [example_rule DirectionIngress ''tcp'' (Some 22)];
       old = renderFirewall [example_rule DirectionEgress ''all'' None] in
   map without_pos (w_hv (snd (replaceRules (quiet_env rule_list_pve offline_ipam) 5000
      (number_rules old) new (start_world old empty_ledger)))) = new"
proof -
  let ?new = "renderFirewall [example_rule DirectionIngress ''tcp'' (Some 22)]"
  let ?old = "renderFirewall [example_rule DirectionEgress ''all'' None]"
  let ?w = "start_world ?old empty_ledger"
  let ?run = "replaceRules (quiet_env rule_list_pve offline_ipam) 5000 (number_rules ?old) ?new ?w"
  have api: "rule_list_api (e_pve (quiet_env rule_list_pve offline_ipam)) (\<lambda>h _. map without_pos h)"
    by (simp add: rule_list_pve_api)
  have new: "map without_pos ?new = ?new"
    by (simp add: renderFirewall_def fw_of_rule_def example_rule_def blank_rule_def without_pos_def Let_def)
  have "fst ?run = Inr ()"
    by (simp add: replaceRules_def step_eval rule_list_pve_def renderFirewall_def number_rules_def
        sameRules_def)
  then have run: "?run = (Inr (), snd ?run)"
    by (metis prod.collapse)
  show ?thesis
    using replace_rules_without_gap [OF api _ number_rules_pos new run]
    by (simp add: map_without_pos_number start_world_def Let_def)
qed


section \<open>Pinning the address\<close>

text \<open>
  What Proxmox documents of an IP set: a listing gives its entries, each once; adding and deleting
  an entry do that. \<open>es h vmid\<close> are the entries of the VM's \<open>ipfilter-net0\<close>.
\<close>

definition ipset_api :: "'h hypervisor \<Rightarrow> ('h \<Rightarrow> int \<Rightarrow> string list) \<Rightarrow> bool" where
  "ipset_api pve es \<longleftrightarrow>
     (\<forall>vmid. leaves (\<lambda>h. es h vmid) (IPSets pve vmid)) \<and>
     (\<forall>vmid. leaves (\<lambda>h. es h vmid) (CreateIPSet pve vmid ipfilterSet)) \<and>
     (\<forall>vmid h ents h'. IPSetEntries pve vmid ipfilterSet h = (Inr ents, h') \<longrightarrow>
        ents = es h vmid \<and> distinct ents \<and> es h' vmid = es h vmid) \<and>
     (\<forall>vmid entry h h'. DeleteIPSetEntry pve vmid ipfilterSet entry h = (Inr (), h') \<longrightarrow>
        es h' vmid = remove1 entry (es h vmid)) \<and>
     (\<forall>vmid entry h h'. AddIPSetEntry pve vmid ipfilterSet entry h = (Inr (), h') \<longrightarrow>
        es h' vmid = es h vmid @ [entry])"

lemma mset_index: "index_of xs x = Some i \<Longrightarrow> mset xs = add_mset x (mset (delete_at i xs))"
  by (frule delete_index_of) (use index_of_None [of xs x] in auto)

lemma keep_entries_triple:
  fixes E :: "'h env"
  assumes api: "ipset_api (e_pve E) es"
  shows "distinct (kept @ entries) \<Longrightarrow> mset (map bare kept) + mset missing = wanted \<Longrightarrow>
    triple (\<lambda>w. es (w_hv w) vmid = kept @ entries) (keep_entries E vmid missing entries)
      (\<lambda>missing w. mset (map bare (es (w_hv w) vmid)) + mset missing = wanted) (\<lambda>_. True)"
proof (induction entries arbitrary: kept missing)
  case Nil
  then show ?case
    by (auto intro!: triple_ret)
next
  case (Cons entry rest)
  show ?case
  proof (cases "index_of missing (bare entry)")
    case (Some i)
    have "mset (map bare (kept @ [entry])) + mset (delete_at i missing) = wanted"
      using Cons.prems(2) mset_index [OF Some] by simp
    with Cons.IH [of "kept @ [entry]" "delete_at i missing"] Cons.prems(1) Some show ?thesis
      by simp
  next
    case None
    have del: "triple (\<lambda>w. es (w_hv w) vmid = kept @ entry # rest)
        (pve_do (DidDeleteEntry vmid ipfilterSet entry) (DeleteIPSetEntry (e_pve E) vmid ipfilterSet entry))
        (\<lambda>_ w. es (w_hv w) vmid = kept @ rest) (\<lambda>_. True)"
    proof (rule triple_pve_do)
      fix w :: "'h world" assume w: "es (w_hv w) vmid = kept @ entry # rest"
      have removed: "remove1 entry (kept @ entry # rest) = kept @ rest"
        using Cons.prems(1) by (simp add: remove1_append)
      have "es h vmid = kept @ rest"
        if "DeleteIPSetEntry (e_pve E) vmid ipfilterSet entry (w_hv w) = (Inr (), h)" for h
        using api that unfolding ipset_api_def by (elim conjE) (simp add: w removed)
      then show "case DeleteIPSetEntry (e_pve E) vmid ipfilterSet entry (w_hv w) of (Inl e, h) \<Rightarrow> True
        | (Inr x, h) \<Rightarrow> es (w_hv (w\<lparr>w_log := DidDeleteEntry vmid ipfilterSet entry # w_log w, w_hv := h\<rparr>)) vmid =
            kept @ rest"
        by (auto split: prod.split sum.split)
    qed
    show ?thesis
      using triple_seqE [OF del Cons.IH [of kept missing]] Cons.prems None by simp
  qed
qed

lemma add_entries_triple:
  fixes E :: "'h env"
  assumes api: "ipset_api (e_pve E) es" and bare: "\<forall>x \<in> set missing. bare x = x"
  shows "triple (\<lambda>w. mset (map bare (es (w_hv w) vmid)) + mset missing = wanted)
    (for_eachE missing (\<lambda>entry. pve_do (DidAddEntry vmid ipfilterSet entry)
       (AddIPSetEntry (e_pve E) vmid ipfilterSet entry)))
    (\<lambda>_ w. mset (map bare (es (w_hv w) vmid)) = wanted) (\<lambda>_. True)"
  using bare
proof (induction missing)
  case Nil
  then show ?case by (simp add: triple_ret)
next
  case (Cons entry rest)
  have "triple (\<lambda>w. mset (map bare (es (w_hv w) vmid)) + mset (entry # rest) = wanted)
      (pve_do (DidAddEntry vmid ipfilterSet entry) (AddIPSetEntry (e_pve E) vmid ipfilterSet entry))
      (\<lambda>_ w. mset (map bare (es (w_hv w) vmid)) + mset rest = wanted) (\<lambda>_. True)"
  proof (rule triple_pve_do)
    fix w :: "'h world" assume w: "mset (map bare (es (w_hv w) vmid)) + mset (entry # rest) = wanted"
    have "es h vmid = es (w_hv w) vmid @ [entry]"
      if "AddIPSetEntry (e_pve E) vmid ipfilterSet entry (w_hv w) = (Inr (), h)" for h
      using api that unfolding ipset_api_def by (elim conjE) simp
    with w Cons.prems show "case AddIPSetEntry (e_pve E) vmid ipfilterSet entry (w_hv w) of (Inl e, h) \<Rightarrow> True
      | (Inr x, h) \<Rightarrow> mset (map bare (es (w_hv (w\<lparr>w_log := DidAddEntry vmid ipfilterSet entry # w_log w,
            w_hv := h\<rparr>)) vmid)) + mset rest = wanted"
      by (auto split: prod.split sum.split)
  qed
  then show ?case
    using Cons by (auto intro: triple_seqE)
qed

definition pinned :: "string \<Rightarrow> string \<Rightarrow> string list" where
  "pinned pfx routed = [fst (cut pfx CHR ''/''), globalIPv6] @ (if routed \<noteq> '''' then [routed] else [])"

lemma keep_entries_missing: "keep_entries E vmid missing entries w = (Inr m, w') \<Longrightarrow> mset m \<subseteq># mset missing"
proof (induction entries arbitrary: missing w)
  case Nil
  then show ?case by (simp add: ret_def)
next
  case (Cons entry rest)
  show ?case
  proof (cases "index_of missing (bare entry)")
    case None
    with Cons.prems obtain w1 where "keep_entries E vmid missing rest w1 = (Inr m, w')"
      by (auto simp: seqE_def bindE_def split: prod.splits sum.splits)
    then show ?thesis by (rule Cons.IH)
  next
    case (Some i)
    with Cons.prems have "mset m \<subseteq># mset (delete_at i missing)"
      by (auto intro: Cons.IH)
    also have "\<dots> \<subseteq># mset missing"
      using mset_index [OF Some] by simp
    finally show ?thesis .
  qed
qed

lemma bindE_Inr: "bindE m f w = (Inr y, w') \<longleftrightarrow> (\<exists>x w1. m w = (Inr x, w1) \<and> f x w1 = (Inr y, w'))"
  by (auto simp: bindE_def split: prod.splits sum.splits)

lemma seqE_Inr: "seqE m n w = (Inr y, w') \<longleftrightarrow> (\<exists>w1. m w = (Inr (), w1) \<and> n w1 = (Inr y, w'))"
  by (auto simp: seqE_def bindE_Inr)

text \<open>
  C11. Once \<open>pinAddress\<close> succeeds the VM's address filter holds the instance's address, the global
  IPv6 range and the network routed to it, and nothing else, whatever the set held before (a host
  route may be listed with or without its \<open>/32\<close>).
\<close>

theorem pin_address_exact:
  assumes api: "ipset_api (e_pve E) es" and "\<forall>x \<in> set (pinned pfx routed). bare x = x"
    and run: "pinAddress E vmid pfx routed w = (Inr (), w')"
  shows "mset (map bare (es (w_hv w') vmid)) = mset (pinned pfx routed) \<and> fst (cut pfx CHR ''/'') \<noteq> ''''"
proof -
  have address: "fst (cut pfx CHR ''/'') \<noteq> ''''"
    using run by (auto simp: pinAddress_def raise_def)
  then obtain sets w1 w2 entries w3 missing w4 where
    1: "external (IPSets (e_pve E) vmid) w = (Inr sets, w1)"
    and 2: "whenE (ipfilterSet \<notin> set sets) (pve_do (DidCreateIPSet vmid ipfilterSet)
       (CreateIPSet (e_pve E) vmid ipfilterSet)) w1 = (Inr (), w2)"
    and 3: "external (IPSetEntries (e_pve E) vmid ipfilterSet) w2 = (Inr entries, w3)"
    and 4: "keep_entries E vmid (pinned pfx routed) entries w3 = (Inr missing, w4)"
    and 5: "for_eachE missing (\<lambda>entry. pve_do (DidAddEntry vmid ipfilterSet entry)
       (AddIPSetEntry (e_pve E) vmid ipfilterSet entry)) w4 = (Inr (), w')"
    using run by (auto simp: pinAddress_def pinned_def bindE_Inr seqE_Inr Let_def)
  have entries: "es (w_hv w3) vmid = [] @ entries" "distinct ([] @ entries)"
    using 3 api unfolding ipset_api_def
    by (elim conjE, fastforce simp: external_def split: prod.splits)+
  have "set missing \<subseteq> set (pinned pfx routed)"
    using keep_entries_missing [OF 4] by (metis set_mset_mono set_mset_mset)
  then have bare: "\<forall>x \<in> set missing. bare x = x"
    using assms(2) by auto
  have "mset (map bare (es (w_hv w4) vmid)) + mset missing = mset (pinned pfx routed)"
    by (rule triple_Inr [OF keep_entries_triple [OF api entries(2)] entries(1) 4]) simp
  then have "mset (map bare (es (w_hv w') vmid)) = mset (pinned pfx routed)"
    by (rule triple_Inr [OF add_entries_triple [OF api bare] _ 5])
  with address show ?thesis by simp
qed


definition ipset_pve :: "string list hypervisor" where
  "ipset_pve = offline_pve\<lparr>IPSets := \<lambda>_ h. (Inr [ipfilterSet], h),
     IPSetEntries := \<lambda>_ _ h. (if distinct h then Inr h else Inl (Failed ''broken''), h),
     CreateIPSet := \<lambda>_ _ h. (Inr (), h),
     DeleteIPSetEntry := \<lambda>_ _ entry h. (Inr (), remove1 entry h),
     AddIPSetEntry := \<lambda>_ _ entry h. (Inr (), h @ [entry])\<rparr>"

theorem pin_address_exact_witness:
  "mset (map bare (w_hv (snd (pinAddress (quiet_env ipset_pve offline_ipam) 5000 ''192.168.10.7/24'' ''''
     (start_world [''10.0.0.9'', ''192.168.10.7/32''] empty_ledger))))) =
   {# ''192.168.10.7'', ''2000::/3'' #}"
proof -
  let ?w = "start_world [''10.0.0.9'', ''192.168.10.7/32''] empty_ledger"
  let ?run = "pinAddress (quiet_env ipset_pve offline_ipam) 5000 ''192.168.10.7/24'' '''' ?w"
  have api: "ipset_api (e_pve (quiet_env ipset_pve offline_ipam)) (\<lambda>h _. h)"
    by (auto simp: ipset_api_def ipset_pve_def leaves_def split: if_splits)
  have wanted: "pinned ''192.168.10.7/24'' '''' = [''192.168.10.7'', ''2000::/3'']"
    by (simp add: pinned_def globalIPv6_def)
  have bare: "\<forall>x \<in> set (pinned ''192.168.10.7/24'' ''''). bare x = x"
    by (simp add: wanted bare_def trim_suffix_def has_suffix_def has_prefix_def)
  have "fst ?run = Inr ()"
    by (simp add: pinAddress_def step_eval ipset_pve_def bare_def trim_suffix_def has_suffix_def
        has_prefix_def globalIPv6_def delete_at_def)
  then have run: "?run = (Inr (), snd ?run)"
    by (metis prod.collapse)
  show ?thesis
    using pin_address_exact [OF api bare run] by (simp add: wanted)
qed

section \<open>The NIC\<close>

lemma nic_on_simps: "has_prefix nic_on nic_key" "CHR '','' \<notin> set nic_on"
  by (simp_all add: nic_on_def nic_key_def has_prefix_def)

lemma nic_parts_None: "nic_parts ps = None \<Longrightarrow> nic_on \<in> set ps"
  by (induction ps) (auto split: if_splits option.splits)

lemma nic_parts_Some:
  "nic_parts ps = Some (qs, found) \<Longrightarrow>
   filter (\<lambda>p. \<not> has_prefix p nic_key) qs = filter (\<lambda>p. \<not> has_prefix p nic_key) ps \<and>
   (\<forall>q \<in> set qs. has_prefix q nic_key \<longrightarrow> q = nic_on) \<and>
   (found \<longleftrightarrow> nic_on \<in> set qs) \<and> set qs \<subseteq> insert nic_on (set ps)"
proof (induction ps arbitrary: qs found)
  case (Cons p ps)
  from Cons.prems obtain rs f where rest: "nic_parts ps = Some (rs, f)"
    by (auto split: if_splits option.splits)
  note IH = Cons.IH [OF rest]
  show ?case
  proof (cases "has_prefix p nic_key")
    case True
    with Cons.prems rest have "qs = nic_on # rs" "found"
      by (auto split: if_splits)
    with IH True show ?thesis
      by (auto simp: nic_on_simps)
  next
    case False
    with Cons.prems rest have "qs = p # rs" "found = f"
      by auto
    moreover have "p \<noteq> nic_on"
      using False nic_on_simps(1) by blast
    ultimately show ?thesis
      using IH False by auto
  qed
qed simp

text \<open>
  \<open>filterNIC\<close> leaves a NIC that already passes the firewall alone; any other NIC it rewrites so
  that exactly its \<open>firewall=\<close> settings become \<open>firewall=1\<close> (added when there was none) and every
  other setting, the MAC and the bridge among them, stays as it was and in order.
\<close>

theorem filtered_nic_sound:
  "case filtered_nic net0 of
     None \<Rightarrow> nic_on \<in> set (split_at CHR '','' net0)
   | Some nic \<Rightarrow> nic_on \<in> set (split_at CHR '','' nic) \<and>
       filter (\<lambda>p. has_prefix p nic_key \<and> p \<noteq> nic_on) (split_at CHR '','' nic) = [] \<and>
       filter (\<lambda>p. \<not> has_prefix p nic_key) (split_at CHR '','' nic) =
       filter (\<lambda>p. \<not> has_prefix p nic_key) (split_at CHR '','' net0)"
proof (cases "nic_parts (split_at CHR '','' net0)")
  case None
  then show ?thesis
    by (simp add: filtered_nic_def nic_parts_None)
next
  case (Some r)
  obtain qs found where r: "r = (qs, found)" by fastforce
  define ps where "ps = (if found then qs else qs @ [nic_on])"
  note q = nic_parts_Some [OF Some [unfolded r]]
  have on: "nic_on \<in> set ps" and only: "\<forall>x \<in> set ps. has_prefix x nic_key \<longrightarrow> x = nic_on"
    and rest: "filter (\<lambda>p. \<not> has_prefix p nic_key) ps =
      filter (\<lambda>p. \<not> has_prefix p nic_key) (split_at CHR '','' net0)"
    using q nic_on_simps(1) by (auto simp: ps_def)
  have "\<forall>p \<in> set (split_at CHR '','' net0). CHR '','' \<notin> set p"
    using split_at_free by fast
  then have "\<forall>p \<in> set ps. CHR '','' \<notin> set p"
    using q nic_on_simps(2) by (auto simp: ps_def)
  then have split: "split_at CHR '','' (join_with '','' ps) = ps"
    using on by (intro split_join) auto
  have "filtered_nic net0 = Some (join_with '','' ps)"
    by (simp add: filtered_nic_def Some r ps_def)
  then show ?thesis
    using on only rest by (simp add: split filter_empty_conv)
qed

section \<open>The whole firewall of an instance\<close>

text \<open>The other calls \<open>applyFirewall\<close> makes do not touch the rule list.\<close>

definition rules_frame :: "'h hypervisor \<Rightarrow> ('h \<Rightarrow> int \<Rightarrow> fw_rule list) \<Rightarrow> bool" where
  "rules_frame pve rl \<longleftrightarrow> (\<forall>vmid.
     leaves (\<lambda>h. rl h vmid) (VMConfig pve vmid) \<and>
     (\<forall>p. leaves (\<lambda>h. rl h vmid) (SetFirewallOptions pve vmid p)) \<and>
     leaves (\<lambda>h. rl h vmid) (IPSets pve vmid) \<and>
     (\<forall>s. leaves (\<lambda>h. rl h vmid) (CreateIPSet pve vmid s)) \<and>
     (\<forall>s. leaves (\<lambda>h. rl h vmid) (IPSetEntries pve vmid s)) \<and>
     (\<forall>s x. leaves (\<lambda>h. rl h vmid) (AddIPSetEntry pve vmid s x)) \<and>
     (\<forall>s x. leaves (\<lambda>h. rl h vmid) (DeleteIPSetEntry pve vmid s x)) \<and>
     (\<forall>p. leaves (\<lambda>h. rl h vmid) (UpdateVMConfig pve vmid p)))"

lemma keeps_rules_frame:
  assumes "rules_frame (e_pve E) rl"
  shows "keeps (hv_inv (\<lambda>h. R (rl h vmid))) (pinAddress E vmid pfx routed)"
    and "keeps (hv_inv (\<lambda>h. R (rl h vmid))) (setFilteredOptions E vmid)"
    and "keeps (hv_inv (\<lambda>h. R (rl h vmid))) (filterNIC E vmid)"
    and "keeps (hv_inv (\<lambda>h. R (rl h vmid))) (owns E vmid i)"
proof -
  have frame: "leaves (\<lambda>h. rl h vmid) (VMConfig (e_pve E) vmid)"
      "\<And>p. leaves (\<lambda>h. rl h vmid) (SetFirewallOptions (e_pve E) vmid p)"
      "leaves (\<lambda>h. rl h vmid) (IPSets (e_pve E) vmid)"
      "\<And>s. leaves (\<lambda>h. rl h vmid) (CreateIPSet (e_pve E) vmid s)"
      "\<And>s. leaves (\<lambda>h. rl h vmid) (IPSetEntries (e_pve E) vmid s)"
      "\<And>s x. leaves (\<lambda>h. rl h vmid) (AddIPSetEntry (e_pve E) vmid s x)"
      "\<And>s x. leaves (\<lambda>h. rl h vmid) (DeleteIPSetEntry (e_pve E) vmid s x)"
      "\<And>p. leaves (\<lambda>h. rl h vmid) (UpdateVMConfig (e_pve E) vmid p)"
    using assms by (simp_all add: rules_frame_def)
  note steps = keeps_hv_pve_do [OF frame(2)] keeps_hv_pve_do [OF frame(4)] keeps_hv_pve_do [OF frame(6)]
    keeps_hv_pve_do [OF frame(7)] keeps_hv_pve_do [OF frame(8)] keeps_hv_external [OF frame(3)]
    keeps_hv_external [OF frame(5)] keeps_hv_vm_config [OF frame(1)]
  have keep: "keeps (hv_inv (\<lambda>h. R (rl h vmid))) (keep_entries E vmid missing entries)" for missing entries
    by (induction entries arbitrary: missing) (auto intro!: keeps_intros steps split: option.split)
  show "keeps (hv_inv (\<lambda>h. R (rl h vmid))) (pinAddress E vmid pfx routed)"
    unfolding pinAddress_def Let_def by (intro keeps_intros steps keep)
  show "keeps (hv_inv (\<lambda>h. R (rl h vmid))) (setFilteredOptions E vmid)"
    unfolding setFilteredOptions_def by (rule steps)
  show "keeps (hv_inv (\<lambda>h. R (rl h vmid))) (filterNIC E vmid)"
    unfolding filterNIC_def Let_def by (intro keeps_intros steps)
  show "keeps (hv_inv (\<lambda>h. R (rl h vmid))) (owns E vmid i)"
    unfolding owns_def by (intro keeps_intros steps)
qed

section \<open>What the firewall worker does to the ledger\<close>

lemma keeps_keep_entries [keeps_intros]: "keeps (db_inv P) (keep_entries E vmid missing entries)"
  by (induction entries arbitrary: missing) (auto intro!: keeps_intros split: option.split)

lemma keeps_replaceRules [keeps_intros]: "keeps (db_inv P) (replaceRules E vmid current desired)"
  unfolding replaceRules_def by (intro keeps_intros)

lemma keeps_filter_steps [keeps_intros]:
  "keeps (db_inv P) (pinAddress E vmid pfx routed)"
  "keeps (db_inv P) (setFilteredOptions E vmid)"
  "keeps (db_inv P) (filterNIC E vmid)"
  unfolding pinAddress_def setFilteredOptions_def filterNIC_def Let_def by (intro keeps_intros)+

lemma keeps_applyFirewall [keeps_intros]: "others_keep P E \<Longrightarrow> keeps (db_inv P) (applyFirewall E i)"
  unfolding applyFirewall_def by (intro keeps_intros keeps_db)

context ledger_contract
begin

lemma keeps_writeFirewall: "others_keep P E \<Longrightarrow> keeps (db_inv P) (writeFirewall E k)"
  unfolding writeFirewall_def by (intro keeps_intros keeps_db keeps_instances instance_laws)

lemma keeps_workFirewallOnce: "others_keep P E \<Longrightarrow> keeps (db_inv P) (workFirewallOnce E)"
  unfolding workFirewallOnce_def by (intro keeps_intros keeps_db keeps_instances instance_laws)

end


section \<open>What a written firewall enforces\<close>

lemma quiet_read:
  assumes "\<And>n d. e_others E n d = d" and "db E (\<lambda>_. reading f) w = (Inr x, w')"
  shows "f (w_db w) = Inr x \<and> w_db w' = w_db w \<and> w_hv w' = w_hv w"
  using assms by (auto simp: db_def sql_def interfere_def reading_def Let_def split: if_splits)

lemma owns_keeps_db: "owns E vmid i w = (r, w') \<Longrightarrow> w_db w' = w_db w"
  using keeps_result [OF keeps_owns [of "\<lambda>d. d = w_db w"], of w] by (simp add: db_inv_def)

lemma render_plain: "map without_pos (render_from seen rules) = render_from seen rules"
proof -
  have "fr_pos (fw_of_rule r) = 0" for r
    by (auto simp: fw_of_rule_def blank_rule_def Let_def split: option.split)
  then show ?thesis
    by (induction seen rules rule: render_from.induct) (auto simp: Let_def without_pos_def)
qed

lemma set_RulesOfGroups: "set (RulesOfGroups ids d) = {r \<in> set (d_rules d). gr_group r \<in> set ids}"
  by (auto simp: RulesOfGroups_def)

lemma render_accepts:
  assumes "\<forall>r \<in> set rules. rule_row_ok r \<and> cidr_text_ok r" and "0 \<le> p_port p" and "p_port p \<le> 65535"
  shows "fw_accepts (renderFirewall rules) p \<longleftrightarrow> (\<exists>r \<in> set rules. group_allows r p)"
  using render_from_accepts [of "[]" rules p] fw_of_rule_matches assms
  by (auto simp: renderFirewall_def fw_accepts_def [of "[]"])


section \<open>Generations\<close>



section \<open>Witnesses\<close>

text \<open>One VM of an instance with one group, and its rule list as the hypervisor's state.\<close>

definition vm_fw_pve :: "fw_rule list hypervisor" where
  "vm_fw_pve = rule_list_pve\<lparr>VMConfig := \<lambda>_ h. (Inr [(''description'', Str ''i-1'')], h),
     IPSets := \<lambda>_ h. (Inr [ipfilterSet], h), IPSetEntries := \<lambda>_ _ h. (Inr [], h),
     AddIPSetEntry := \<lambda>_ _ _ h. (Inr (), h), SetFirewallOptions := \<lambda>_ _ h. (Inr (), h)\<rparr>"

definition grouped_ledger :: ledger where
  "grouped_ledger = empty_ledger\<lparr>d_instances := [(example_row ''i-1'')\<lparr>i_ip := ''192.168.10.7/24''\<rparr>],
     d_groups := [\<lparr>g_id = ''sg-1'', g_account = ''acct'', g_name = ''default'', g_description = '''',
       g_default = True, g_created_at = 0, g_updated_at = 0\<rparr>],
     d_rules := [example_rule DirectionIngress ''tcp'' (Some 22)], d_members := [(''i-1'', ''sg-1'')]\<rparr>"

lemma grouped_ledger_reads:
  "InstanceGroups ''i-1'' grouped_ledger = [(''sg-1'', ''default'')]"
  "d_rules grouped_ledger = [example_rule DirectionIngress ''tcp'' (Some 22)]"
  "RulesOfGroups [''sg-1''] grouped_ledger = [example_rule DirectionIngress ''tcp'' (Some 22)]"
  by (simp_all add: grouped_ledger_def InstanceGroups_def RulesOfGroups_def empty_ledger_def example_rule_def)

lemma vm_fw_pve_api:
  "rule_list_api vm_fw_pve (\<lambda>h _. map without_pos h)" "rules_frame vm_fw_pve (\<lambda>h _. map without_pos h)"
  using rule_list_pve_api
  by (simp_all add: rule_list_api_def rules_frame_def leaves_def vm_fw_pve_def rule_list_pve_def
      offline_pve_def unreachable_def)




end
