(* ===== verification/Media.thy ===== *)
theory Media
  imports Vm_Identity Ledger_Contract
begin

text \<open>
  \<open>compute/images.go\<close> and \<open>compute/isos.go\<close>: what an instance is launched or installed from. Shared
  media come from the site's declaration, uploaded ones from the ledger, and the ISOs of the
  administrator's store from Proxmox. Uploads are spooled under a cap, handed to the image store and
  recorded; deletions are refused while a machine needs the medium. The owner's user name, a join on
  the accounts, is left out.
\<close>

section \<open>Helpers of the service\<close>

definition of_res :: "'a res \<Rightarrow> ('w, 'a) prog" where
  "of_res r w = (r, w)"

lemma keeps_of_res [keeps_intros]: "keeps I (of_res r)"
  by (simp add: keeps_def of_res_def)

text \<open>\<open>x, err := m(); if err != nil { return handler(err) }; return x\<close>.\<close>

definition catchE :: "('w, 'a) prog \<Rightarrow> (err \<Rightarrow> ('w, 'a) prog) \<Rightarrow> ('w, 'a) prog" where
  "catchE m h = attempt m (\<lambda>r. case r of Inl e \<Rightarrow> h e | Inr x \<Rightarrow> ret x)"

lemma keeps_catchE [keeps_intros]:
  "keeps I m \<Longrightarrow> (\<And>e. keeps I (h e)) \<Longrightarrow> keeps I (catchE m h)"
  unfolding catchE_def by (intro keeps_intros)

text \<open>\<open>s.unavailable(err)\<close>: the hypervisor's errors become one refusal.\<close>

definition unavailable :: err where "unavailable = Refuse 503 ''ServiceUnavailable''"

definition or_unavailable :: "('h, 'a) cloud \<Rightarrow> ('h, 'a) cloud" where
  "or_unavailable m = catchE m (\<lambda>_. raise unavailable)"

lemma keeps_or_unavailable [keeps_intros]: "keeps I m \<Longrightarrow> keeps I (or_unavailable m)"
  unfolding or_unavailable_def by (intro keeps_intros)

text \<open>
  \<open>EffectiveLimits(ctx, q)\<close>: \<open>q\<close> is the pool or a transaction, \<open>db E\<close> or \<open>sql E\<close> here.
\<close>

definition EffectiveLimits ::
    "'h env \<Rightarrow> ((int \<Rightarrow> limit_overrides stmt) \<Rightarrow> ('h, limit_overrides) cloud) \<Rightarrow>
     ('h, limits \<times> limit_overrides) cloud" where
  "EffectiveLimits E q =
     bindE (q (\<lambda>_. reading GetLimitOverrides)) (\<lambda>ov.
       ret (with_overrides (s_limits (e_site E)) ov, ov))"

text \<open>\<open>int64(x) << n\<close>.\<close>

definition shl64 :: "nat \<Rightarrow> int \<Rightarrow> int" where
  "shl64 n x = wrap64 (x * 2 ^ n)"

section \<open>Paths and names\<close>

definition path_ext :: "string \<Rightarrow> string" where
  "path_ext s =
     (let base = rev (takeWhile (\<lambda>c. c \<noteq> CHR ''/'') (rev s)) in
      if CHR ''.'' \<in> set base then CHR ''.'' # rev (takeWhile (\<lambda>c. c \<noteq> CHR ''.'') (rev base)) else '''')"

definition path_base :: "string \<Rightarrow> string" where
  "path_base s =
     (if s = '''' then ''.''
      else let t = rev (dropWhile (\<lambda>c. c = CHR ''/'') (rev s));
               b = rev (takeWhile (\<lambda>c. c \<noteq> CHR ''/'') (rev t)) in
        if b = '''' then ''/'' else b)"

text \<open>
  \<open>strings.TrimSpace\<close>: the white space characters of Unicode, in UTF-8, off both ends.
\<close>

definition space_size :: "nat list \<Rightarrow> nat" where
  "space_size s =
     (if s = [] then 0
      else if hd s \<in> {9, 10, 11, 12, 13, 32} then 1
      else if take 2 s \<in> {[194, 133], [194, 160]} then 2
      else if take 3 s \<in> {[225, 154, 128], [226, 128, 168], [226, 128, 169], [226, 128, 175],
                          [226, 129, 159], [227, 128, 128]} then 3
      else if length s \<ge> 3 \<and> take 2 s = [226, 128] \<and> 128 \<le> s ! 2 \<and> s ! 2 \<le> 138 then 3
      else 0)"

lemma space_size_Nil [simp]: "space_size [] = 0"
  by (simp add: space_size_def)

function trim_left :: "nat list \<Rightarrow> nat list" where
  "trim_left s = (if space_size s = 0 then s else trim_left (drop (space_size s) s))"
  by auto
termination
proof (relation "measure length")
  fix s assume "space_size s \<noteq> 0"
  then have "s \<noteq> []"
    by (intro notI) simp
  with \<open>space_size s \<noteq> 0\<close> show "(drop (space_size s) s, s) \<in> measure length"
    by simp
qed simp

definition space_suffix :: "nat list \<Rightarrow> nat" where
  "space_suffix s =
     (case find (\<lambda>n. n \<le> length s \<and> space_size (drop (length s - n) s) = n) [1, 2, 3] of
        Some n \<Rightarrow> n | None \<Rightarrow> 0)"

function trim_right :: "nat list \<Rightarrow> nat list" where
  "trim_right s = (if space_suffix s = 0 \<or> s = [] then s else trim_right (take (length s - space_suffix s) s))"
  by auto
termination
  by (relation "measure length") auto

declare trim_left.simps [simp del] trim_right.simps [simp del]

definition trim_space :: "string \<Rightarrow> string" where
  "trim_space s = map char_of (trim_right (trim_left (bytes_of s)))"

definition lower_str :: "string \<Rightarrow> string" where
  "lower_str s = map char_of (lower_bytes (bytes_of s))"

section \<open>The capped copy of an upload\<close>

text \<open>
  A request body as \<open>io.Reader\<close>: the chunks it hands out, the error after them (\<open>None\<close> is
  \<open>io.EOF\<close>), and whether that comes together with the last bytes or from a read of its own. An error
  of writing the spool file ends the copy the same way and is an error of the body here.
\<close>

record body =
  b_chunks :: "nat list list"
  b_error :: "err option"
  b_together :: bool

definition errTooLarge :: err where "errTooLarge = Failed ''image is larger than the limit''"

text \<open>\<open>io.Copy(spool, &cappedReader{r: body, left: left})\<close>, through \<open>io.Copy\<close>'s 32 KiB buffer.\<close>

definition copy_buffer :: nat where "copy_buffer = 32768"

function copy_capped :: "int \<Rightarrow> nat list list \<Rightarrow> err option \<Rightarrow> bool \<Rightarrow> nat list \<times> err option" where
  "copy_capped left [] e tog = ([], if left \<le> 0 then Some errTooLarge else e)"
| "copy_capped left (c # cs) e tog =
     (if left \<le> 0 then ([], Some errTooLarge)
      else let n = min copy_buffer (nat left); got = take n c; rest = drop n c in
        if rest = [] \<and> cs = [] \<and> tog then (got, e)
        else case copy_capped (left - int (length got)) (if rest = [] then cs else rest # cs) e tog of
            (later, r) \<Rightarrow> (got @ later, r))"
  by pat_completeness auto
termination
  by (relation "measure (\<lambda>(left, cs, e, tog). length cs + sum_list (map length cs))")
    (auto simp: copy_buffer_def min_def)

definition receive :: "int \<Rightarrow> body \<Rightarrow> nat list \<times> err option" where
  "receive allowed b = copy_capped allowed (b_chunks b) (b_error b) (b_together b)"

section \<open>Images\<close>

record image_info =
  ii_id :: string
  ii_name :: string
  ii_os :: string
  ii_volume :: string
  ii_format :: string
  ii_public :: bool
  ii_account :: string
  ii_size :: int
  ii_created_at :: int

definition shared_image :: "string \<Rightarrow> image_decl \<Rightarrow> image_info" where
  "shared_image k d = \<lparr>ii_id = k, ii_name = img_name d, ii_os = img_os d, ii_volume = img_volume d,
     ii_format = '''', ii_public = True, ii_account = '''', ii_size = 0, ii_created_at = 0\<rparr>"

definition imageOf :: "image_row \<Rightarrow> image_info" where
  "imageOf i = \<lparr>ii_id = im_id i, ii_name = im_name i, ii_os = '''', ii_volume = im_volume i,
     ii_format = im_format i, ii_public = False, ii_account = im_account i, ii_size = im_size i,
     ii_created_at = im_created_at i\<rparr>"

definition imageExtensions :: "string list" where
  "imageExtensions = [''.qcow2'', ''.raw'', ''.img'', ''.vmdk'']"

definition ResolveImage :: "'h env \<Rightarrow> string \<Rightarrow> ('h, image_info) cloud" where
  "ResolveImage E k =
     (case gomap_get (s_images (e_site E)) k of
        Some d \<Rightarrow> ret (shared_image k d)
      | None \<Rightarrow> attempt (db E (\<lambda>_. reading (GetImage k))) (\<lambda>r. case r of
            Inr i \<Rightarrow> ret (imageOf i)
          | Inl e \<Rightarrow> raise (if err_is e NotFound then Refuse 400 ''InvalidImageID.NotFound'' else e)))"

definition Images :: "'h env \<Rightarrow> ('h, image_info list) cloud" where
  "Images E =
     bindE (db E (\<lambda>_. reading (\<lambda>d. Inr (ListImages d)))) (\<lambda>uploaded.
       ret (sort_key ii_id (map (\<lambda>(k, d). shared_image k d) (s_images (e_site E))) @ map imageOf uploaded))"

definition storedVolume :: "'h env \<Rightarrow> string \<Rightarrow> string \<Rightarrow> ('h, int \<times> string) cloud" where
  "storedVolume E store volume =
     bindE (or_unavailable (external (ListVolumes' (e_pve E) store ''import''))) (\<lambda>vs.
       case find (\<lambda>v. pv_volid v = volume) vs of
         None \<Rightarrow> raise (Failed (''the image store accepted '' @ volume @ '' but does not list it''))
       | Some v \<Rightarrow> ret (pv_size v,
           if pv_format v = '''' then trim_prefix (path_ext volume) ''.'' else pv_format v))"

text \<open>
  The part \<open>ImportImage\<close> and \<open>ImportISO\<close> share: how many bytes the store and the limits leave for
  an upload, and the spooled body. \<open>spool\<close> is what creating the spool file and seeking in it
  return.
\<close>

definition upload_allowance :: "'h env \<Rightarrow> string \<Rightarrow> ('h, int) cloud" where
  "upload_allowance E store =
     bindE (EffectiveLimits E (db E)) (\<lambda>(limits, _).
     bindE (or_unavailable (external (StorageStatus (e_pve E) store))) (\<lambda>status.
       let minFree = shl64 20 (image_store_min_free_mib limits) in
       if ss_avail status \<le> minFree then raise (Refuse 409 ''ImageLimitExceeded'')
       else let allowed = wrap64 (ss_avail status - minFree); cap = shl64 30 (max_image_gib limits) in
         ret (if cap > 0 \<and> cap < allowed then cap else allowed)))"

definition spool_body ::
    "bool \<Rightarrow> unit res \<times> unit res \<Rightarrow> int \<Rightarrow> body \<Rightarrow> nat list res" where
  "spool_body has_dir spool allowed b =
     (if \<not> has_dir then Inl unavailable
      else case fst spool of
          Inl e \<Rightarrow> Inl (Wrap ''open a spool file'' e)
        | Inr _ \<Rightarrow> (case receive allowed b of
            (bytes, Some e) \<Rightarrow> Inl (if err_is e errTooLarge then Refuse 413 ''RequestEntityTooLarge''
                                   else Wrap ''receive the image'' e)
          | (bytes, None) \<Rightarrow>
              if bytes = [] then Inl invalid_parameter
              else case snd spool of Inl e \<Rightarrow> Inl e | Inr _ \<Rightarrow> Inr bytes))"

definition ImportImage ::
    "'h env \<Rightarrow> bool \<Rightarrow> unit res \<times> unit res \<Rightarrow> string \<Rightarrow> string \<Rightarrow> string \<Rightarrow> body \<Rightarrow>
     (image_row \<Rightarrow> unit res) \<Rightarrow> ('h, image_row) cloud" where
  "ImportImage E has_dir spool acct name file b audit =
     (let name = trim_space name; extension = lower_str (path_ext file); store = images_store (s_storage (e_site E)) in
      if name = '''' \<or> length name > 128 then raise invalid_parameter
      else if extension \<notin> set imageExtensions then raise invalid_parameter
      else bindE (upload_allowance E store) (\<lambda>allowed.
        bindE (random_hex E) (\<lambda>hex.
        let k = ''img-'' @ hex; file = k @ extension; volume = store @ '':import/'' @ file in
        bindE (of_res (spool_body has_dir spool allowed b)) (\<lambda>bytes.
        bindE (wrapE ''upload image'' (pve_do (DidUpload store file)
                 (UploadImage (e_pve E) store file bytes (int (length bytes))))) (\<lambda>upid.
        seqE (catchE (external (WaitTask (e_pve E) upid)) (\<lambda>_. raise invalid_parameter))
        (bindE (storedVolume E store volume) (\<lambda>(sz, fmt).
        bindE (catchE
            (db E (\<lambda>now. InsertImage now \<lparr>im_id = k, im_account = acct, im_name = name, im_volume = volume,
                     im_format = fmt, im_size = sz, im_created_at = 0\<rparr>))
            (\<lambda>e. seqE (logged (pve_do (DidDeleteVolume store volume) (DeleteVolume' (e_pve E) store volume)))
                    (raise e))) (\<lambda>image.
        seqE (of_res (audit image)) (ret image)))))))))"

definition delete_image_allowed :: "'h env \<Rightarrow> string \<Rightarrow> (image_row \<Rightarrow> bool) \<Rightarrow> ('h, image_row) cloud" where
  "delete_image_allowed E k authorize =
     (if gomap_get (s_images (e_site E)) k \<noteq> None then raise (Refuse 409 ''ImageLimitExceeded'')
      else bindE (catchE (db E (\<lambda>_. reading (GetImage k)))
             (\<lambda>e. raise (if err_is e NotFound then Refuse 404 ''InvalidImageID.NotFound'' else e))) (\<lambda>image.
        if \<not> authorize image then raise (Refuse 403 ''UnauthorizedOperation'')
        else bindE (db E (\<lambda>_. reading (\<lambda>d. Inr (LaunchingFromImage k d)))) (\<lambda>launching.
          if launching > 0 then raise (Refuse 409 ''IncorrectInstanceState'') else ret image)))"

definition DeleteImage' ::
    "'h env \<Rightarrow> string \<Rightarrow> (image_row \<Rightarrow> bool) \<Rightarrow> (image_row \<Rightarrow> unit res) \<Rightarrow> ('h, unit) cloud" where
  "DeleteImage' E k authorize audit =
     bindE (delete_image_allowed E k authorize) (\<lambda>image.
       let store = images_store (s_storage (e_site E)) in
       seqE (wrapE ''delete image volume''
              (pve_do (DidDeleteVolume store (im_volume image)) (DeleteVolume' (e_pve E) store (im_volume image))))
       (seqE (db E (\<lambda>_. DeleteImage k)) (of_res (audit image))))"

section \<open>ISOs\<close>

record iso_info =
  is_id :: string
  is_name :: string
  is_volume :: string
  is_os :: string
  is_public :: bool
  is_account :: string
  is_size :: int
  is_created_at :: int

definition shared_iso :: "string \<Rightarrow> iso_decl \<Rightarrow> iso_info" where
  "shared_iso k d = \<lparr>is_id = k, is_name = iso_name d, is_volume = iso_volume d, is_os = iso_os d,
     is_public = True, is_account = '''', is_size = 0, is_created_at = 0\<rparr>"

definition isoOf :: "iso_row \<Rightarrow> iso_info" where
  "isoOf i = \<lparr>is_id = iso_id i, is_name = iso_title i, is_volume = iso_vol i, is_os = iso_guest i,
     is_public = False, is_account = iso_account i, is_size = iso_size i, is_created_at = iso_created_at i\<rparr>"

definition autoISOID :: "'h env \<Rightarrow> string \<Rightarrow> string" where
  "autoISOID E volume = ''iso-'' @ take 17 (hex_encode (e_sha256 E volume))"

definition adminISOs :: "'h env \<Rightarrow> ('h, iso_info list) cloud" where
  "adminISOs E =
     (let store = admin_images (s_storage (e_site E)) in
      if store = '''' then ret []
      else bindE (or_unavailable (external (ListVolumes' (e_pve E) store ''iso''))) (\<lambda>vs.
        ret (map (\<lambda>v. \<lparr>is_id = autoISOID E (pv_volid v),
               is_name = trim_suffix (path_base (pv_volid v)) (path_ext (pv_volid v)),
               is_volume = pv_volid v, is_os = '''', is_public = True, is_account = '''',
               is_size = pv_size v, is_created_at = 0\<rparr>) vs)))"

definition ResolveISO :: "'h env \<Rightarrow> string \<Rightarrow> ('h, iso_info) cloud" where
  "ResolveISO E k =
     (case gomap_get (shared_isos (e_site E)) k of
        Some d \<Rightarrow> ret (shared_iso k d)
      | None \<Rightarrow> attempt (db E (\<lambda>_. reading (GetISO k))) (\<lambda>r. case r of
            Inr i \<Rightarrow> ret (isoOf i)
          | Inl e \<Rightarrow> if \<not> err_is e NotFound then raise e
              else bindE (adminISOs E) (\<lambda>isos. case find (\<lambda>i. is_id i = k) isos of
                  Some i \<Rightarrow> ret i | None \<Rightarrow> raise (Refuse 400 ''InvalidISOID.NotFound''))))"

text \<open>\<open>sort.Slice\<close> does not say how it orders ISOs of one name; here they keep their order.\<close>

definition ISOs :: "'h env \<Rightarrow> ('h, iso_info list) cloud" where
  "ISOs E =
     bindE (db E (\<lambda>_. reading (\<lambda>d. Inr (ListISOs d)))) (\<lambda>stored.
       let known = map (\<lambda>(k, d). shared_iso k d) (shared_isos (e_site E)) @ map isoOf stored in
       bindE (adminISOs E) (\<lambda>admin.
         ret (sort_key is_name (known @ filter (\<lambda>i. is_volume i \<notin> is_volume ` set known) admin))))"

definition OSLinux :: string where "OSLinux = ''linux''"
definition OSWindows :: string where "OSWindows = ''windows''"

definition ImportISO ::
    "'h env \<Rightarrow> bool \<Rightarrow> unit res \<times> unit res \<Rightarrow> string \<Rightarrow> string \<Rightarrow> string \<Rightarrow> string \<Rightarrow> body \<Rightarrow>
     (iso_row \<Rightarrow> unit res) \<Rightarrow> ('h, iso_row) cloud" where
  "ImportISO E has_dir spool acct name guest file b audit =
     (let name = trim_space name; extension = lower_str (path_ext file); store = images_store (s_storage (e_site E)) in
      if name = '''' \<or> length name > 128 then raise invalid_parameter
      else if guest \<noteq> '''' \<and> guest \<noteq> OSLinux \<and> guest \<noteq> OSWindows then raise invalid_parameter
      else if extension \<noteq> ''.iso'' then raise invalid_parameter
      else bindE (upload_allowance E store) (\<lambda>allowed.
        bindE (random_hex E) (\<lambda>hex.
        let k = ''iso-'' @ hex; file = k @ extension; volume = store @ '':iso/'' @ file in
        bindE (of_res (spool_body has_dir spool allowed b)) (\<lambda>bytes.
        bindE (wrapE ''upload ISO'' (pve_do (DidUpload store file)
                 (UploadISOStream (e_pve E) store file bytes (int (length bytes))))) (\<lambda>upid.
        seqE (catchE (external (WaitTask (e_pve E) upid)) (\<lambda>_. raise invalid_parameter))
        (bindE (catchE
            (db E (\<lambda>now. InsertISO now \<lparr>iso_id = k, iso_account = acct, iso_title = name, iso_vol = volume,
                     iso_size = int (length bytes), iso_guest = guest, iso_created_at = 0\<rparr>))
            (\<lambda>e. seqE (logged (pve_do (DidDeleteVolume store volume) (DeleteVolume' (e_pve E) store volume)))
                    (raise e))) (\<lambda>iso.
        seqE (of_res (audit iso)) (ret iso))))))))"

definition delete_iso_allowed :: "'h env \<Rightarrow> string \<Rightarrow> (iso_row \<Rightarrow> bool) \<Rightarrow> ('h, iso_row) cloud" where
  "delete_iso_allowed E k authorize =
     (if gomap_get (shared_isos (e_site E)) k \<noteq> None then raise (Refuse 409 ''InvalidParameterValue'')
      else bindE (catchE (db E (\<lambda>_. reading (GetISO k)))
             (\<lambda>e. raise (if err_is e NotFound then Refuse 404 ''InvalidISOID.NotFound'' else e))) (\<lambda>iso.
        if \<not> authorize iso then raise (Refuse 403 ''UnauthorizedOperation'')
        else bindE (db E (\<lambda>_. reading (\<lambda>d. Inr (ISOInUse k d)))) (\<lambda>inUse.
          if inUse > 0 then raise (Refuse 409 ''IncorrectInstanceState'') else ret iso)))"

definition DeleteISO' ::
    "'h env \<Rightarrow> string \<Rightarrow> (iso_row \<Rightarrow> bool) \<Rightarrow> (iso_row \<Rightarrow> unit res) \<Rightarrow> ('h, unit) cloud" where
  "DeleteISO' E k authorize audit =
     bindE (delete_iso_allowed E k authorize) (\<lambda>iso.
       let store = images_store (s_storage (e_site E)) in
       seqE (wrapE ''delete ISO volume''
              (pve_do (DidDeleteVolume store (iso_vol iso)) (DeleteVolume' (e_pve E) store (iso_vol iso))))
       (seqE (db E (\<lambda>_. DeleteISO k)) (of_res (audit iso))))"


section \<open>Uploads\<close>

lemma copy_capped_step:
  assumes "0 < left" and "n = min copy_buffer (nat left)"
    and "later = (if drop n c = [] then cs else drop n c # cs)"
  shows "copy_capped left (c # cs) e tog =
    (if drop n c = [] \<and> cs = [] \<and> tog then (take n c, e)
     else case copy_capped (left - int (length (take n c))) later e tog of (b, r) \<Rightarrow> (take n c @ b, r))"
  using assms by (simp only: copy_capped.simps Let_def) simp

text \<open>What a copy may do, given the bytes of the body \<open>cs\<close>, the bytes it kept and its outcome.\<close>

definition copy_ok :: "int \<Rightarrow> nat list list \<Rightarrow> err option \<Rightarrow> bool \<Rightarrow> nat list \<Rightarrow> err option \<Rightarrow> bool" where
  "copy_ok left cs e tog bytes r \<longleftrightarrow>
     (0 \<le> left \<longrightarrow> int (length bytes) \<le> left) \<and> (\<exists>rest. concat cs = bytes @ rest) \<and>
     (int (length (concat cs)) < left \<longrightarrow> bytes = concat cs \<and> r = e) \<and>
     (int (length (concat cs)) > left \<longrightarrow> r = Some errTooLarge) \<and>
     (int (length (concat cs)) = left \<and> \<not> tog \<longrightarrow> r = Some errTooLarge) \<and>
     (int (length (concat cs)) = left \<and> tog \<and> cs \<noteq> [] \<and> last cs \<noteq> [] \<longrightarrow> r = e) \<and>
     (r = Some errTooLarge \<or> bytes = concat cs \<and> r = e)"

lemma copy_capped_ok:
  assumes "0 < left \<or> cs = []" and "copy_capped left cs e tog = (bytes, r)"
  shows "copy_ok left cs e tog bytes r"
  using assms
proof (induction left cs e tog arbitrary: bytes r rule: copy_capped.induct)
  case (1 left e tog)
  then show ?case by (auto simp: copy_ok_def split: if_splits)
next
  case (2 left c cs e tog)
  define n where "n = min copy_buffer (nat left)"
  define got where "got = take n c"
  define later where "later = (if drop n c = [] then cs else drop n c # cs)"
  have left: "0 < left" and n: "0 < n" "int n \<le> left"
    using 2(2) by (auto simp: n_def copy_buffer_def)
  have c: "c = got @ drop n c" and got: "int (length got) \<le> left"
    using n by (auto simp: got_def)
  have flat: "concat (c # cs) = got @ concat later"
    using c by (auto simp: later_def)
  have ends: "last (c # cs) \<noteq> [] \<Longrightarrow> later \<noteq> [] \<Longrightarrow> last later \<noteq> [] \<and> concat later \<noteq> []"
    by (auto simp: later_def split: if_splits)
  note step = copy_capped_step [OF left n_def later_def, folded got_def]
  show ?case
  proof (cases "drop n c = [] \<and> cs = [] \<and> tog")
    case True
    then have "bytes = got" "r = e"
      using 2(3) unfolding step by simp_all
    with True c got show ?thesis
      by (auto simp: copy_ok_def)
  next
    case False
    obtain b r' where run: "copy_capped (left - int (length got)) later e tog = (b, r')"
      by fastforce
    then have res: "bytes = got @ b" "r = r'"
      using 2(3) False unfolding step by (auto simp del: copy_capped.simps)
    show ?thesis
    proof (cases "0 < left - int (length got) \<or> later = []")
      case True
      then have "copy_ok (left - int (length got)) later e tog b r'"
        using 2(1) [OF _ n_def got_def refl, folded later_def, OF _ False True run] left by simp
      moreover have "later = [] \<Longrightarrow> \<not> tog"
        using False by (auto simp: later_def split: if_splits)
      ultimately show ?thesis
        using res got ends unfolding copy_ok_def flat by (auto simp del: last.simps)
    next
      case stop: False
      then have "b = [] \<and> r' = Some errTooLarge" and zero: "left = int (length got)"
        using run got by (cases later; auto)+
      then show ?thesis
        using res ends stop unfolding copy_ok_def flat by (auto simp del: last.simps)
    qed
  qed
qed

text \<open>
  C40. An upload never takes more bytes than it was allowed, and what is kept is the body: a body
  shorter than the allowance arrives whole with its own outcome, a longer one is refused as too
  large, and no accepted upload is truncated. A body of exactly the allowed size is refused as too
  large when its end takes a read of its own, and accepted when its end comes with its last bytes.
\<close>

theorem upload_cap:
  assumes "0 < allowed" and "b_error b \<noteq> Some errTooLarge" and "receive allowed b = (bytes, r)"
  shows "int (length bytes) \<le> allowed \<and> prefix bytes (concat (b_chunks b)) \<and>
    (int (length (concat (b_chunks b))) < allowed \<longrightarrow> bytes = concat (b_chunks b) \<and> r = b_error b) \<and>
    (int (length (concat (b_chunks b))) > allowed \<longrightarrow> r = Some errTooLarge) \<and>
    (int (length (concat (b_chunks b))) = allowed \<longrightarrow> last (b_chunks b) \<noteq> [] \<longrightarrow>
       r = (if b_together b then b_error b else Some errTooLarge)) \<and>
    (r = None \<longrightarrow> bytes = concat (b_chunks b) \<and> b_error b = None)"
  using copy_capped_ok [of allowed "b_chunks b" "b_error b" "b_together b" bytes r] assms
  by (auto simp: receive_def prefix_def copy_ok_def)

theorem upload_cap_witness:
  "snd (receive 3 \<lparr>b_chunks = [[1, 2], [3]], b_error = None, b_together = False\<rparr>) = Some errTooLarge \<and>
   snd (receive 3 \<lparr>b_chunks = [[1, 2], [3]], b_error = None, b_together = True\<rparr>) = None \<and>
   receive 4 \<lparr>b_chunks = [[1, 2], [3]], b_error = None, b_together = False\<rparr> = ([1, 2, 3], None)"
proof -
  let ?body = "\<lambda>tog. \<lparr>b_chunks = [[1, 2], [3]], b_error = None, b_together = tog\<rparr>"
  have "receive 4 (?body False) = ([1, 2, 3], None)"
    using upload_cap [of 4 "?body False" "fst (receive 4 (?body False))" "snd (receive 4 (?body False))"]
    by (auto simp: prod_eq_iff)
  moreover have "snd (receive 3 (?body tog)) = (if tog then None else Some errTooLarge)" for tog
    using upload_cap [of 3 "?body tog" "fst (receive 3 (?body tog))" "snd (receive 3 (?body tog))"]
    by simp
  ultimately show ?thesis by simp
qed


end
