(* ===== verification/Volume_Worker.thy ===== *)
theory Volume_Worker
  imports Firewall Media
begin

text \<open>
  \<open>compute/volume_worker.go\<close>: the steps that move disks between the VMs they are attached to and
  the holder VM where detached volumes wait. A step works on the volume's recorded location, which it
  changes in memory and records as it goes; a disk program is a program over the world and that
  location, so that what a failed step had already changed is kept, as in the code.
\<close>

section \<open>Disk programs\<close>

type_synonym ('h, 'a) disk = "('h world \<times> location, 'a) prog"

definition on_world :: "('h, 'a) cloud \<Rightarrow> ('h, 'a) disk" where
  "on_world m s = (case m (fst s) of (r, w) \<Rightarrow> (r, (w, snd s)))"

definition get_loc :: "('h, location) disk" where
  "get_loc = get_world snd"

definition set_loc :: "location \<Rightarrow> ('h, unit) disk" where
  "set_loc l = put_world (\<lambda>s. (fst s, l))"

text \<open>Running one on a volume: its result and the location it left.\<close>

definition with_location :: "location \<Rightarrow> ('h, 'a) disk \<Rightarrow> ('h, 'a res \<times> location) cloud" where
  "with_location l m w = (case m (w, l) of (r, (w', l')) \<Rightarrow> (Inr (r, l'), w'))"

definition disk_inv :: "(ledger \<Rightarrow> bool) \<Rightarrow> 'h world \<times> location \<Rightarrow> bool" where
  "disk_inv P s \<longleftrightarrow> db_inv P (fst s)"

lemma keeps_on_world [keeps_intros]: "keeps (db_inv P) m \<Longrightarrow> keeps (disk_inv P) (on_world m)"
  by (fastforce simp: keeps_def disk_inv_def on_world_def split: prod.splits)

lemma keeps_get_loc [keeps_intros]: "keeps (disk_inv P) get_loc"
  by (simp add: get_loc_def keeps_get_world)

lemma keeps_set_loc [keeps_intros]: "keeps (disk_inv P) (set_loc l)"
  by (simp add: keeps_def set_loc_def put_world_def disk_inv_def)

lemma keeps_with_location [keeps_intros]:
  fixes m :: "('h, 'a) disk"
  assumes "keeps (disk_inv P) m"
  shows "keeps (db_inv P) (with_location l m)"
proof (rule keepsI)
  fix w :: "'h world" assume "db_inv P w"
  then have "disk_inv P (snd (m (w, l)))"
    by (intro keepsD [OF assms]) (simp add: disk_inv_def)
  then show "db_inv P (snd (with_location l m w))"
    by (simp add: with_location_def disk_inv_def split_beta)
qed

definition record_location :: "'h env \<Rightarrow> string \<Rightarrow> ('h, unit) disk" where
  "record_location E k = bindE get_loc (\<lambda>l. on_world (db E (\<lambda>now. on_volumes (RecordLocation now k l))))"

definition vm_config' :: "'h env \<Rightarrow> int \<Rightarrow> ('h, vm_config) disk" where
  "vm_config' E vmid = on_world (vm_config E vmid)"

section \<open>Proxmox helpers\<close>

definition holderMarker :: string where "holderMarker = ''shake-cloud volume holder''"
definition holderSlots :: int where "holderSlots = 256"

text \<open>\<open>strings.Replace(id, "-", "", 1)\<close>: the first hyphen goes.\<close>

definition VolumeSerial :: "string \<Rightarrow> string" where
  "VolumeSerial k = (case cut k CHR ''-'' of (a, b, found) \<Rightarrow> a @ b)"

definition configure :: "'h env \<Rightarrow> int \<Rightarrow> url_values \<Rightarrow> ('h, unit) cloud" where
  "configure E vmid params =
     bindE (pve_do (DidConfigureVM vmid params) (ConfigureVM (e_pve E) vmid params)) (\<lambda>upid.
       if upid = '''' then ret () else external (WaitTask (e_pve E) upid))"

definition pendingKey :: "'h env \<Rightarrow> int \<Rightarrow> string \<Rightarrow> ('h, bool) cloud" where
  "pendingKey E vmid key =
     bindE (external (VMPending (e_pve E) vmid)) (\<lambda>changes. ret (key \<in> set changes))"

definition holder_params :: "'h env \<Rightarrow> url_values" where
  "holder_params E = [(''vmid'', itoa (volume_holder_vmid (e_site E))), (''name'', ''shakecloud-volumes''),
     (''pool'', s_pool (e_site E)), (''memory'', ''64''), (''cores'', ''1''), (''onboot'', ''0''),
     (''tags'', ''shakecloud''), (''description'', holderMarker @
       '': detached volumes wait here as unused disks. Never start it. Managed by cloud/api; do not edit.'')]"

definition ensureHolder :: "'h env \<Rightarrow> ('h, unit) cloud" where
  "ensureHolder E =
     (let holder = volume_holder_vmid (e_site E) in
      bindE (list_vms E) (\<lambda>vms.
        if findVM vms holder \<noteq> None then
          bindE (vm_config E holder) (\<lambda>c.
            if contains_str (config_str c ''description'') holderMarker then ret ()
            else raise (GiveUp (''Server.InternalError: VMID '' @ itoa holder @
                   '' is taken by a VM that is not the volume holder'')))
        else catchE (task E (pve_do (DidCreateVM (holder_params E)) (CreateVM (e_pve E) (holder_params E))))
          (\<lambda>e. raise (if contains_str (err_text e) ''already exists''
             then GiveUp (''Server.InternalError: VMID '' @ itoa holder @ '' is taken outside the cloud pool'')
             else e))))"

text \<open>\<open>VolumeByVolID\<close>, with its answer in the log; \<open>None\<close> when no live volume records the disk.\<close>

definition volume_by_volid :: "'h env \<Rightarrow> string \<Rightarrow> ('h, volume_row option) cloud" where
  "volume_by_volid E volid =
     attempt (db E (\<lambda>_. reading (\<lambda>d. VolumeByVolID volid (d_volumes d)))) (\<lambda>r. case r of
         Inr v \<Rightarrow> seqE (log_event (SawVolumeByVolID volid True)) (ret (Some v))
       | Inl e \<Rightarrow> if err_is e NotFound then seqE (log_event (SawVolumeByVolID volid False)) (ret None)
                 else raise e)"

definition volIDClaimed :: "'h env \<Rightarrow> string \<Rightarrow> string \<Rightarrow> ('h, bool) cloud" where
  "volIDClaimed E volid except =
     bindE (volume_by_volid E volid) (\<lambda>other. ret (case other of None \<Rightarrow> False | Some v \<Rightarrow> v_id v \<noteq> except))"

definition diskSizeGiB :: "'h env \<Rightarrow> string \<Rightarrow> ('h, int option) cloud" where
  "diskSizeGiB E volid =
     (if volid = '''' then ret None
      else let storage = (case cut volid CHR '':'' of (name, _, found) \<Rightarrow>
             if found \<and> name \<noteq> '''' then name else vm_disks (s_storage (e_site E))) in
        bindE (external (ListVolumes' (e_pve E) storage ''images'')) (\<lambda>vs.
          ret (map_option (\<lambda>v. pv_size v div 2 ^ 30) (find (\<lambda>v. pv_volid v = volid) vs))))"

section \<open>Finding a disk\<close>

definition derefVMID :: "int option \<Rightarrow> string" where
  "derefVMID vmid = (case vmid of None \<Rightarrow> ''none'' | Some v \<Rightarrow> itoa v)"

text \<open>The disk is on the VM it was recorded on, under any key; the result says whether it was found.\<close>

definition find_at_home :: "'h env \<Rightarrow> string \<Rightarrow> ('h, bool) disk" where
  "find_at_home E k =
     bindE get_loc (\<lambda>l. case l_vmid l of
         None \<Rightarrow> ret False
       | Some vmid \<Rightarrow>
           if l_volid l = '''' then ret False
           else bindE (vm_config' E vmid) (\<lambda>c.
             let key = diskKeyOf c (l_volid l) in
             if key = '''' then ret False
             else if key = l_config_key l \<and> l_move_vmid l = None then ret True
             else seqE (set_loc (l\<lparr>l_config_key := key, l_move_vmid := None, l_move_key := ''''\<rparr>))
               (seqE (record_location E k) (ret True))))"

text \<open>A move that finished without being recorded: the disk has a new name at the destination.\<close>

definition find_at_destination :: "'h env \<Rightarrow> string \<Rightarrow> ('h, bool) disk" where
  "find_at_destination E k =
     bindE get_loc (\<lambda>l. case l_move_vmid l of
         None \<Rightarrow> ret False
       | Some vmid \<Rightarrow>
           if l_move_key l = '''' then ret False
           else bindE (vm_config' E vmid) (\<lambda>c.
             let volid = volidAt c (l_move_key l) in
             if volid = '''' then ret False
             else bindE (on_world (volIDClaimed E volid k)) (\<lambda>claimed.
               if claimed then ret False
               else seqE (set_loc \<lparr>l_vmid = Some vmid, l_config_key = l_move_key l, l_volid = volid,
                      l_move_vmid = None, l_move_key = ''''\<rparr>)
                 (seqE (record_location E k) (ret True)))))"

definition locate :: "'h env \<Rightarrow> string \<Rightarrow> ('h, unit) disk" where
  "locate E k =
     bindE (find_at_home E k) (\<lambda>found.
       if found then ret ()
       else bindE (find_at_destination E k) (\<lambda>found.
         if found then ret ()
         else bindE get_loc (\<lambda>l.
           if l_volid l = '''' then ret ()
           else raise (Detail DiskMissing (''volume '' @ k @ '', disk '' @ l_volid l @ '' on VM '' @
                  derefVMID (l_vmid l))))))"

section \<open>Moving a disk\<close>

definition quoted :: "string \<Rightarrow> string" where
  "quoted s = CHR 0x22 # s @ [CHR 0x22]"

definition not_movable :: "string \<Rightarrow> location \<Rightarrow> err" where
  "not_movable k l = Failed (''volume '' @ k @ '' is at '' @ quoted (l_config_key l) @
     '', not an unused disk that can move'')"

definition finish_move :: "'h env \<Rightarrow> string \<Rightarrow> int \<Rightarrow> string \<Rightarrow> ('h, unit) disk" where
  "finish_move E k target key =
     bindE (vm_config' E target) (\<lambda>c.
       let volid = volidAt c key in
       if volid = ''''
       then raise (Failed (''the disk did not arrive at VM '' @ itoa target @ '' as '' @ key))
       else seqE (set_loc \<lparr>l_vmid = Some target, l_config_key = key, l_volid = volid,
              l_move_vmid = None, l_move_key = ''''\<rparr>)
         (record_location E k))"

text \<open>The destination is recorded before Proxmox is asked to move the disk.\<close>

definition hand_over_disk ::
    "'h env \<Rightarrow> string \<Rightarrow> location \<Rightarrow> int \<Rightarrow> int \<Rightarrow> string \<Rightarrow> ('h, unit) disk" where
  "hand_over_disk E k l source target key =
     seqE (set_loc (l\<lparr>l_move_vmid := Some target, l_move_key := key\<rparr>))
     (seqE (record_location E k)
     (seqE (wrapE (''move to VM '' @ itoa target) (on_world (task E
              (pve_do (DidMoveDisk source (l_config_key l) target key)
                 (MoveDisk (e_pve E) source (l_config_key l) target key)))))
       (finish_move E k target key)))"

definition move :: "'h env \<Rightarrow> string \<Rightarrow> int \<Rightarrow> ('h, unit) disk" where
  "move E k target =
     bindE get_loc (\<lambda>l. case l_vmid l of
         None \<Rightarrow> raise (not_movable k l)
       | Some source \<Rightarrow>
           if \<not> has_prefix (l_config_key l) ''unused''
           then raise (not_movable k l)
           else bindE (vm_config' E target) (\<lambda>c.
             let key = freeKey c ''unused'' 0 (holderSlots - 1) in
             if key = '''' then raise (Failed (''VM '' @ itoa target @ '' has no free unused slot''))
             else hand_over_disk E k l source target key))"

definition unplug :: "'h env \<Rightarrow> string \<Rightarrow> ('h, unit) disk" where
  "unplug E k =
     bindE get_loc (\<lambda>l. case l_vmid l of
         None \<Rightarrow> ret ()
       | Some vmid \<Rightarrow>
           if \<not> plugged (l_config_key l) then ret ()
           else seqE (wrapE (''unplug '' @ l_config_key l) (on_world
                  (pve_do (DidUnlink vmid [l_config_key l] False)
                     (UnlinkDisks (e_pve E) vmid [l_config_key l] False))))
             (attempt (on_world (pendingKey E vmid (l_config_key l))) (\<lambda>r.
               let waits = Failed (''the guest has not released '' @ l_config_key l @ '' yet; unmount it inside the guest'') in
               case r of
                 Inl e \<Rightarrow> raise (Join e waits)
               | Inr True \<Rightarrow> raise waits
               | Inr False \<Rightarrow> bindE (vm_config' E vmid) (\<lambda>c.
                   let key = diskKeyOf c (l_volid l) in
                   if \<not> has_prefix key ''unused''
                   then raise (Failed (''after unplugging, VM '' @ itoa vmid @ '' holds the disk as '' @ quoted key))
                   else seqE (set_loc (l\<lparr>l_config_key := key\<rparr>)) (record_location E k)))))"

section \<open>The five actions\<close>

definition scsi_slot_missing :: err where
  "scsi_slot_missing = Failed ''the volume holder has no free scsi slot''"

text \<open>The allocation of a disk that does not exist yet: the slot is recorded before Proxmox is asked.\<close>

definition allocate_disk :: "'h env \<Rightarrow> volume_row \<Rightarrow> ('h, unit) disk" where
  "allocate_disk E v =
     (let holder = volume_holder_vmid (e_site E) in
      bindE (vm_config' E holder) (\<lambda>c.
        let key = freeKey c ''scsi'' 0 30 in
        if key = '''' then raise scsi_slot_missing
        else case disk_tier_storage (s_storage (e_site E)) (v_tier v) of (storage, known) \<Rightarrow>
          if \<not> known
          then raise (GiveUp (''Server.InternalError: volume '' @ v_id v @ '' asks for disk tier '' @
                 quoted (v_tier v) @ '', which this deployment does not have''))
          else
            seqE (set_loc (no_location\<lparr>l_move_vmid := Some holder, l_move_key := key\<rparr>))
            (seqE (record_location E (v_id v))
            (seqE (wrapE ''allocate'' (on_world (configure E holder
                     [(key, storage @ '':'' @ itoa (v_size v) @ '',discard=on'')])))
            (seqE (locate E (v_id v))
            (bindE get_loc (\<lambda>l. whenE (l_volid l = '''')
               (raise (Failed (''the holder has no disk at '' @ key @ '' after allocating one'')))))))))) "

definition createVolumeDisk :: "'h env \<Rightarrow> volume_row \<Rightarrow> ('h, unit) disk" where
  "createVolumeDisk E v =
     seqE (on_world (ensureHolder E))
     (seqE (locate E (v_id v))
     (bindE get_loc (\<lambda>l.
        seqE (whenE (l_volid l = '''') (allocate_disk E v))
          (unplug E (v_id v)))))"

text \<open>Whether an attach may go on, and the VM it goes to.\<close>

definition attach_target :: "'h env \<Rightarrow> volume_row \<Rightarrow> ('h, int) cloud" where
  "attach_target E v =
     bindE (db E (\<lambda>_. reading (\<lambda>d. GetInstance (v_instance v) (d_instances d)))) (\<lambda>i.
       if i_state i = StateTerminated \<or> i_state i = StateShuttingDown
       then raise (GiveUp (''Client.InvalidInstanceID: instance '' @ i_id i @ '' is being terminated''))
       else if i_pending i \<noteq> None then raise Busy
       else case (i_vmid i, i_vm_created i) of
           (Some vmid, True) \<Rightarrow> bindE (owns E vmid i) (\<lambda>owned.
             if owned then ret vmid
             else raise (GiveUp (''Server.InternalError: VM '' @ itoa vmid @ '' does not belong to '' @ i_id i)))
         | _ \<Rightarrow> raise (GiveUp (''Server.InternalError: instance '' @ i_id i @ '' has no VM'')))"

definition plug_in :: "'h env \<Rightarrow> volume_row \<Rightarrow> int \<Rightarrow> ('h, unit) disk" where
  "plug_in E v vmid =
     bindE get_loc (\<lambda>l.
       if l_config_key l = v_device v then ret ()
       else if plugged (l_config_key l)
       then raise (GiveUp (''Server.InternalError: the disk is plugged in as '' @ l_config_key l @ '', not '' @ v_device v))
       else bindE (vm_config' E vmid) (\<lambda>c.
         let other = volidAt c (v_device v);
             disk = l_volid l @ '',discard=on,serial='' @ VolumeSerial (v_id v) @
               (if v_tier v = TierHDD then '',backup=0'' else '''') in
         if other \<noteq> ''''
         then raise (GiveUp (''Client.InvalidDevice: '' @ v_device v @ '' is already used on the VM by '' @ other))
         else seqE (wrapE (''plug in as '' @ v_device v) (on_world (configure E vmid [(v_device v, disk)])))
           (seqE (set_loc (l\<lparr>l_config_key := v_device v\<rparr>)) (record_location E (v_id v)))))"

definition attachVolumeDisk :: "'h env \<Rightarrow> volume_row \<Rightarrow> ('h, unit) disk" where
  "attachVolumeDisk E v =
     bindE (on_world (attach_target E v)) (\<lambda>vmid.
       seqE (locate E (v_id v))
       (bindE get_loc (\<lambda>l.
         seqE (whenE (l_vmid l \<noteq> Some vmid) (seqE (unplug E (v_id v)) (move E (v_id v) vmid)))
         (seqE (plug_in E v vmid)
         (attempt (on_world (pendingKey E vmid (v_device v))) (\<lambda>r.
            let waits = Failed (''the guest has not taken '' @ v_device v @ ''; the change is pending'') in
            case r of Inl e \<Rightarrow> raise (Join e waits) | Inr True \<Rightarrow> raise waits | Inr False \<Rightarrow> ret ()))))))"

definition detachVolumeDisk :: "'h env \<Rightarrow> volume_row \<Rightarrow> ('h, unit) disk" where
  "detachVolumeDisk E v =
     (let holder = volume_holder_vmid (e_site E) in
      seqE (locate E (v_id v))
      (bindE get_loc (\<lambda>l.
        if l_vmid l = None \<or> l_vmid l = Some holder then unplug E (v_id v)
        else seqE
          (whenE (plugged (l_config_key l))
            (bindE (on_world (db E (\<lambda>_. reading (\<lambda>d. GetInstance (v_instance v) (d_instances d))))) (\<lambda>i.
               if i_pending i \<noteq> None \<and> i_pending i \<noteq> Some ActionTerminate then raise Busy
               else unplug E (v_id v))))
          (seqE (on_world (ensureHolder E)) (move E (v_id v) holder)))))"

text \<open>The holder never runs: plugging a disk in there to resize it changes nothing but its config.\<close>

definition plug_on_holder :: "'h env \<Rightarrow> string \<Rightarrow> ('h, unit) disk" where
  "plug_on_holder E k =
     (let holder = volume_holder_vmid (e_site E) in
      bindE (vm_config' E holder) (\<lambda>c.
        let key = freeKey c ''scsi'' 0 30 in
        if key = '''' then raise scsi_slot_missing
        else bindE get_loc (\<lambda>l.
          seqE (on_world (configure E holder [(key, l_volid l @ '',discard=on'')]))
          (seqE (set_loc (l\<lparr>l_config_key := key\<rparr>)) (record_location E k)))))"

definition grow_volume :: "'h env \<Rightarrow> volume_row \<Rightarrow> int \<Rightarrow> ('h, unit) disk" where
  "grow_volume E v vmid =
     bindE get_loc (\<lambda>l.
       seqE (if plugged (l_config_key l) then ret ()
             else if vmid \<noteq> volume_holder_vmid (e_site E) then raise Busy
             else plug_on_holder E (v_id v))
       (bindE get_loc (\<lambda>l.
         wrapE ''resize'' (on_world (pve_do (DidResizeDisk vmid (l_config_key l) (itoa (v_size v) @ ''G''))
           (ResizeDisk (e_pve E) vmid (l_config_key l) (itoa (v_size v) @ ''G'')))))))"

definition resizeVolumeDisk :: "'h env \<Rightarrow> volume_row \<Rightarrow> ('h, unit) disk" where
  "resizeVolumeDisk E v =
     seqE (locate E (v_id v))
     (bindE get_loc (\<lambda>l. case l_vmid l of
         None \<Rightarrow> raise (GiveUp (''Server.InternalError: volume '' @ v_id v @ '' has no disk''))
       | Some vmid \<Rightarrow> bindE (on_world (diskSizeGiB E (l_volid l))) (\<lambda>found. case found of
             None \<Rightarrow> raise (Failed (''disk '' @ l_volid l @ '' was not found on its storage''))
           | Some current \<Rightarrow>
               seqE (whenE (current < v_size v) (grow_volume E v vmid))
                 (whenE (vmid = volume_holder_vmid (e_site E)) (unplug E (v_id v))))))"

definition destroy_disk :: "'h env \<Rightarrow> volume_row \<Rightarrow> ('h, unit) disk" where
  "destroy_disk E v =
     (let holder = volume_holder_vmid (e_site E) in
      bindE get_loc (\<lambda>l.
        if l_volid l = '''' then ret ()
        else if l_vmid l \<noteq> Some holder
        then raise (Failed (''volume '' @ v_id v @ '' is on VM '' @ derefVMID (l_vmid l) @ '', not on the holder''))
        else seqE (wrapE ''destroy'' (on_world (pve_do (DidUnlink holder [l_config_key l] True)
                     (UnlinkDisks (e_pve E) holder [l_config_key l] True))))
          (bindE (vm_config' E holder) (\<lambda>c.
            if diskKeyOf c (l_volid l) \<noteq> ''''
            then raise (Failed (''disk '' @ l_volid l @ '' is still on the holder'')) else ret ()))))"

definition deleteVolumeDisk :: "'h env \<Rightarrow> volume_row \<Rightarrow> ('h, unit) disk" where
  "deleteVolumeDisk E v =
     attempt (locate E (v_id v)) (\<lambda>r. case r of
         Inr _ \<Rightarrow> destroy_disk E v
       | Inl e \<Rightarrow>
           if \<not> err_is e DiskMissing then raise e
           else bindE get_loc (\<lambda>l. attempt (on_world (diskSizeGiB E (l_volid l))) (\<lambda>found.
             if found = Inr None then ret () else raise e)))"

definition carryOutVolume :: "'h env \<Rightarrow> volume_row \<Rightarrow> ('h, unit) disk" where
  "carryOutVolume E v = (case v_pending v of
       Some VolumeActionCreate \<Rightarrow> createVolumeDisk E v
     | Some VolumeActionAttach \<Rightarrow> attachVolumeDisk E v
     | Some VolumeActionDetach \<Rightarrow> detachVolumeDisk E v
     | Some VolumeActionResize \<Rightarrow> resizeVolumeDisk E v
     | Some VolumeActionDelete \<Rightarrow> deleteVolumeDisk E v
     | None \<Rightarrow> raise (Failed ''unknown volume action''))"

section \<open>The worker step\<close>

definition internal_error :: "err \<Rightarrow> string" where
  "internal_error e = ''Server.InternalError: '' @ truncate_to 500 (err_text e)"

text \<open>An attach, resize or create that is given up; detaches and deletes never are.\<close>

definition give_up_volume :: "'h env \<Rightarrow> volume_row \<Rightarrow> location \<Rightarrow> vol_action \<Rightarrow> string \<Rightarrow> ('h, unit) cloud" where
  "give_up_volume E v l a reason =
     (if a = VolumeActionCreate then logged (db E (\<lambda>now. on_volumes (GiveUpCreate now (v_id v) reason)))
      else if a = VolumeActionAttach
      then seqE (logged (db E (\<lambda>now. on_volumes (GiveUpAttach now (v_id v) reason)))) Wake
      else if a = VolumeActionResize then
        attempt (diskSizeGiB E (l_volid l)) (\<lambda>r.
          let actual = (case r of Inr (Some n) \<Rightarrow> n | _ \<Rightarrow> v_size v) in
          logged (db E (\<lambda>now. on_volumes (GiveUpResize now (v_id v) actual reason))))
      else ret ())"

definition volume_failed :: "'h env \<Rightarrow> volume_row \<Rightarrow> location \<Rightarrow> vol_action \<Rightarrow> err \<Rightarrow> ('h, unit) cloud" where
  "volume_failed E v l a e =
     bindE (cancelled E) (\<lambda>stop.
       if stop then logged (db E (\<lambda>_. on_volumes (ReleaseVolumeLease (v_id v))))
       else let attempts = Suc (v_attempts v);
                retry = a = VolumeActionDetach \<or> a = VolumeActionDelete \<or>
                  as_give_up e = None \<and> attempts < e_max_attempts E in
         if retry then bindE (clock E) (\<lambda>now.
           logged (db E (\<lambda>t. on_volumes (RetryVolumeLater t (v_id v) a (truncate_to 500 (err_text e))
             (now + backoff (e_overflow E) (e_retry_delay E) attempts)))))
         else give_up_volume E v l a (case as_give_up e of Some reason \<Rightarrow> reason | None \<Rightarrow> internal_error e))"

definition processVolume :: "'h env \<Rightarrow> volume_row \<Rightarrow> ('h, unit) cloud" where
  "processVolume E v =
     bindE (with_location (v_location v) (carryOutVolume E v)) (\<lambda>(r, l). case v_pending v of
         None \<Rightarrow> ret ()
       | Some a \<Rightarrow> (case r of
           Inl e \<Rightarrow> volume_failed E v l a e
         | Inr _ \<Rightarrow> attempt (db E (\<lambda>now. on_volumes (FinishVolumeAction now (v_id v) a))) (\<lambda>applied.
             if applied = Inr False then Wake else ret ())))"

definition fifteen_minutes :: int where "fifteen_minutes = 900 * 10 ^ 9"

definition workVolumeOnce :: "'h env \<Rightarrow> ('h, bool) cloud" where
  "workVolumeOnce E =
     attempt (db E (\<lambda>now. on_volumes (ClaimVolumeWork now fifteen_minutes))) (\<lambda>r. case r of
         Inl e \<Rightarrow> ret False
       | Inr v \<Rightarrow> seqE (processVolume E v) (ret True))"

section \<open>Before a VM is deleted\<close>

text \<open>\<open>for key := range config\<close>: none of the disks may be a live volume's.\<close>

fun no_volume_on :: "'h env \<Rightarrow> int \<Rightarrow> vm_config \<Rightarrow> string list \<Rightarrow> ('h, unit) cloud" where
  "no_volume_on E vmid c [] = ret ()"
| "no_volume_on E vmid c (key # keys) =
     (let volid = volidAt c key in
      if \<not> diskKey key \<or> volid = '''' then no_volume_on E vmid c keys
      else bindE (volume_by_volid E volid) (\<lambda>found. case found of
          Some v \<Rightarrow> raise (Failed (''VM '' @ itoa vmid @ '' still holds '' @ v_id v @ [CHR 0x27] @ ''s disk as '' @ key @
                      ''; not deleting it''))
        | None \<Rightarrow> no_volume_on E vmid c keys))"

definition refuseToDestroyVolumes :: "'h env \<Rightarrow> int \<Rightarrow> ('h, unit) cloud" where
  "refuseToDestroyVolumes E vmid = bindE (vm_config E vmid) (\<lambda>c. no_volume_on E vmid c (map fst c))"

fun first_by_id :: "string list \<Rightarrow> volume_row list \<Rightarrow> volume_row list" where
  "first_by_id seen [] = []"
| "first_by_id seen (v # vs) =
     (if v_id v \<in> set seen then first_by_id seen vs else v # first_by_id (v_id v # seen) vs)"

definition return_volume :: "'h env \<Rightarrow> instance_row \<Rightarrow> int \<Rightarrow> volume_row \<Rightarrow> ('h, unit) disk" where
  "return_volume E i vmid v =
     seqE (locate E (v_id v))
     (bindE get_loc (\<lambda>l.
       seqE (whenE (l_vmid l = Some vmid)
          (seqE (unplug E (v_id v))
          (seqE (on_world (ensureHolder E)) (move E (v_id v) (volume_holder_vmid (e_site E))))))
       (whenE (v_instance v = i_id i) (bindE get_loc (\<lambda>l.
          on_world (db E (\<lambda>now. on_volumes (ReturnToHolder now (v_id v) l
            (''Client.InstanceTerminated: detached when instance '' @ i_id i @ '' was terminated'')))))))))"

definition returnVolumes :: "'h env \<Rightarrow> instance_row \<Rightarrow> int \<Rightarrow> ('h, unit) cloud" where
  "returnVolumes E i vmid =
     bindE (db E (\<lambda>_. reading (\<lambda>d. Inr (VolumesOnVM vmid (d_volumes d))))) (\<lambda>onVM.
     bindE (db E (\<lambda>_. reading (\<lambda>d. Inr (VolumesOfInstance (i_id i) (d_volumes d))))) (\<lambda>attached.
       seqE (for_eachE (first_by_id [] (onVM @ attached)) (\<lambda>v.
               bindE (with_location (v_location v) (return_volume E i vmid v)) (\<lambda>(r, l). of_res r)))
         (refuseToDestroyVolumes E vmid)))"


section \<open>What the volume worker does to the ledger\<close>

lemma keeps_vm_config' [keeps_intros]: "keeps (disk_inv P) (vm_config' E vmid)"
  unfolding vm_config'_def by (intro keeps_intros)

lemma keeps_proxmox_helpers [keeps_intros]:
  "keeps (db_inv P) (configure E vmid params)" "keeps (db_inv P) (pendingKey E vmid key)"
  "keeps (db_inv P) (ensureHolder E)" "keeps (db_inv P) (diskSizeGiB E volid)"
  unfolding configure_def pendingKey_def ensureHolder_def diskSizeGiB_def Let_def by (intro keeps_intros)+

lemma keeps_volume_by_volid [keeps_intros]:
  "others_keep P E \<Longrightarrow> keeps (db_inv P) (volume_by_volid E volid)"
  unfolding volume_by_volid_def by (intro keeps_intros keeps_db)

lemma keeps_volIDClaimed [keeps_intros]:
  "others_keep P E \<Longrightarrow> keeps (db_inv P) (volIDClaimed E volid k)"
  unfolding volIDClaimed_def by (intro keeps_intros)

lemma keeps_no_volume_on [keeps_intros]:
  assumes "others_keep P E"
  shows "keeps (db_inv P) (no_volume_on E vmid c keys)"
  by (induction keys) (auto simp: Let_def intro!: keeps_intros keeps_volume_by_volid assms)

lemma keeps_refuse [keeps_intros]: "others_keep P E \<Longrightarrow> keeps (db_inv P) (refuseToDestroyVolumes E vmid)"
  unfolding refuseToDestroyVolumes_def by (intro keeps_intros)

lemma keeps_attach_target [keeps_intros]: "others_keep P E \<Longrightarrow> keeps (db_inv P) (attach_target E v)"
  unfolding attach_target_def by (intro keeps_intros keeps_db; simp split: option.split bool.split)
    (intro keeps_intros allI impI conjI)

context ledger_contract
begin

lemma keeps_record_location: "others_keep P E \<Longrightarrow> keeps (disk_inv P) (record_location E k)"
  unfolding record_location_def by (intro keeps_intros keeps_db keeps_volumes volume_laws)

lemma keeps_locate: "others_keep P E \<Longrightarrow> keeps (disk_inv P) (locate E k)"
  unfolding locate_def find_at_home_def find_at_destination_def Let_def
  by (intro keeps_intros keeps_record_location)

lemma keeps_move: "others_keep P E \<Longrightarrow> keeps (disk_inv P) (move E k target)"
  unfolding move_def hand_over_disk_def finish_move_def Let_def by (intro keeps_intros keeps_record_location)

lemma keeps_case_bool_res:
  "(\<And>e. keeps I (f e)) \<Longrightarrow> keeps I g \<Longrightarrow> keeps I h \<Longrightarrow>
   keeps I (case r of Inl e \<Rightarrow> f e | Inr True \<Rightarrow> g | Inr False \<Rightarrow> h)"
  by (auto split: sum.split bool.split)

lemma keeps_unplug: "others_keep P E \<Longrightarrow> keeps (disk_inv P) (unplug E k)"
  unfolding unplug_def Let_def by (intro keeps_intros keeps_record_location keeps_case_bool_res)

lemmas keeps_disk_steps = keeps_record_location keeps_locate keeps_move keeps_unplug

lemma keeps_createVolumeDisk: "others_keep P E \<Longrightarrow> keeps (disk_inv P) (createVolumeDisk E v)"
  unfolding createVolumeDisk_def allocate_disk_def Let_def by (intro keeps_intros keeps_disk_steps)

lemma keeps_attachVolumeDisk: "others_keep P E \<Longrightarrow> keeps (disk_inv P) (attachVolumeDisk E v)"
  unfolding attachVolumeDisk_def plug_in_def Let_def
  by (intro keeps_intros keeps_disk_steps keeps_case_bool_res)

lemma keeps_detachVolumeDisk: "others_keep P E \<Longrightarrow> keeps (disk_inv P) (detachVolumeDisk E v)"
  unfolding detachVolumeDisk_def Let_def by (intro keeps_intros keeps_disk_steps keeps_db)

lemma keeps_resizeVolumeDisk: "others_keep P E \<Longrightarrow> keeps (disk_inv P) (resizeVolumeDisk E v)"
  unfolding resizeVolumeDisk_def grow_volume_def plug_on_holder_def Let_def
  by (intro keeps_intros keeps_disk_steps)

lemma keeps_deleteVolumeDisk: "others_keep P E \<Longrightarrow> keeps (disk_inv P) (deleteVolumeDisk E v)"
  unfolding deleteVolumeDisk_def destroy_disk_def Let_def by (intro keeps_intros keeps_disk_steps)

lemma keeps_carryOutVolume: "others_keep P E \<Longrightarrow> keeps (disk_inv P) (carryOutVolume E v)"
  unfolding carryOutVolume_def
  by (auto split: option.split vol_action.split intro!: keeps_intros keeps_createVolumeDisk
      keeps_attachVolumeDisk keeps_detachVolumeDisk keeps_resizeVolumeDisk keeps_deleteVolumeDisk)

lemma keeps_processVolume: "others_keep P E \<Longrightarrow> keeps (db_inv P) (processVolume E v)"
  unfolding processVolume_def volume_failed_def give_up_volume_def Let_def
  by (intro keeps_intros keeps_carryOutVolume keeps_db keeps_volumes volume_laws)

lemma keeps_workVolumeOnce: "others_keep P E \<Longrightarrow> keeps (db_inv P) (workVolumeOnce E)"
  unfolding workVolumeOnce_def by (intro keeps_intros keeps_processVolume keeps_db keeps_volumes volume_laws)

lemma keeps_returnVolumes: "others_keep P E \<Longrightarrow> keeps (db_inv P) (returnVolumes E i vmid)"
  unfolding returnVolumes_def return_volume_def
  by (intro keeps_intros keeps_disk_steps keeps_db keeps_volumes volume_laws)

end


end
