(* ===== verification/Instance_Worker.thy ===== *)
theory Instance_Worker
  imports Volume_Worker
begin

text \<open>
  \<open>compute/worker.go\<close>: what the worker does for each instance action. A launch takes an address,
  uploads the seed ISO, creates the VM, grows its disk, writes its firewall and starts it, recording
  each result so that a retry resumes; a terminate undoes all of it; the power actions drive one
  Proxmox task. \<open>workInstanceOnce\<close> claims one action, carries it out, and finishes, retries or
  gives it up; \<open>WorkOnce\<close> is one turn of the worker over its three queues.
\<close>

section \<open>Resources and subnets\<close>

definition resourcesOf :: "instance_row \<Rightarrow> resources" where
  "resourcesOf i = \<lparr>r_vmid = i_vmid i, r_vm_created = i_vm_created i, r_ip = i_ip i,
     r_netbox_ip = i_netbox_ip i, r_seed_volume = i_seed_volume i\<rparr>"

definition NetBoxTag :: string where "NetBoxTag = ''managed-by-cloud-api''"

definition record_resources :: "'h env \<Rightarrow> instance_row \<Rightarrow> resources \<Rightarrow> ('h, unit) cloud" where
  "record_resources E i r = db E (\<lambda>now. on_instances (RecordResources now (i_id i) r))"

definition no_subnet :: subnet where
  "no_subnet = \<lparr>sub_name = '''', sub_prefix = '''', sub_gateway = '''', sub_vlan_id = 0, sub_bridge_tag = 0,
     sub_range_start = '''', sub_default = False, sub_description = ''''\<rparr>"

definition instanceSubnet :: "'h env \<Rightarrow> instance_row \<Rightarrow> subnet" where
  "instanceSubnet E i =
     (case network_subnet (s_network (e_site E)) (i_subnet i) of
        Some s \<Rightarrow> s
      | None \<Rightarrow> (case network_subnet (s_network (e_site E)) '''' of Some s \<Rightarrow> s | None \<Rightarrow> no_subnet))"

section \<open>The address\<close>

definition ipRange :: "'h env \<Rightarrow> subnet \<Rightarrow> ('h, int) cloud" where
  "ipRange E s =
     bindE (get_world w_range_ids) (\<lambda>known. case gomap_get known (sub_range_start s) of
         Some k \<Rightarrow> ret k
       | None \<Rightarrow> bindE (external (IPRangeID (e_ipam E) (sub_range_start s))) (\<lambda>k.
           seqE (put_world (\<lambda>w. w\<lparr>w_range_ids := gomap_set (sub_range_start s) k (w_range_ids w)\<rparr>)) (ret k)))"

definition address :: "'h env \<Rightarrow> instance_row \<Rightarrow> ('h, ip_address) cloud" where
  "address E i =
     bindE (external (IPAddressesByDescription (e_ipam E) (i_id i))) (\<lambda>existing. case existing of
         a # _ \<Rightarrow> ret a
       | [] \<Rightarrow> bindE (ipRange E (instanceSubnet E i)) (\<lambda>k.
           pve_do (DidAllocateIP (i_id i)) (AllocateIP (e_ipam E) k
             \<lparr>al_description = i_id i, al_dns_name = Hostname (i_name i) (i_id i), al_tags = [NetBoxTag]\<rparr>)))"

section \<open>The seed ISO\<close>

definition seedFileName :: "string \<Rightarrow> string" where
  "seedFileName k = ''shakecloud-'' @ k @ ''.iso''"

text \<open>
  \<open>netip.MustParseAddr\<close> panics on a text that is not an address; \<open>Site.Validate\<close> has parsed the
  gateways and name servers it is used on.
\<close>

definition must_parse_addr :: "string \<Rightarrow> addr res" where
  "must_parse_addr s = (case parse_addr s of Some a \<Rightarrow> Inr a | None \<Rightarrow> Inl (Failed ''panic: not an address''))"

fun must_parse_addrs :: "string list \<Rightarrow> addr list res" where
  "must_parse_addrs [] = Inr []"
| "must_parse_addrs (s # ss) =
     (case must_parse_addr s of Inl e \<Rightarrow> Inl e
      | Inr a \<Rightarrow> (case must_parse_addrs ss of Inl e \<Rightarrow> Inl e | Inr as \<Rightarrow> Inr (a # as)))"

definition seed_guest_os :: "'h env \<Rightarrow> instance_row \<Rightarrow> ('h, string) cloud" where
  "seed_guest_os E i =
     (if i_guest_os i = '''' \<and> i_image i \<noteq> ''''
      then bindE (ResolveImage E (i_image i)) (\<lambda>im. ret (ii_os im)) else ret (i_guest_os i))"

definition uploadSeed :: "'h env \<Rightarrow> instance_row \<Rightarrow> string \<Rightarrow> ('h, string) cloud" where
  "uploadSeed E i ip =
     (case parse_prefix ip of
        None \<Rightarrow> raise (Failed (''address '' @ quoted ip @ '' from NetBox''))
      | Some pfx \<Rightarrow>
          bindE (seed_guest_os E i) (\<lambda>os.
          bindE (of_res (must_parse_addr (sub_gateway (instanceSubnet E i)))) (\<lambda>gw.
          bindE (of_res (must_parse_addrs (dns_servers (s_network (e_site E))))) (\<lambda>dns.
          bindE (of_res (e_seed_build E \<lparr>sc_instance = i_id i, sc_hostname = Hostname (i_name i) (i_id i),
             sc_mac = i_mac i, sc_address = pfx, sc_gateway = gw, sc_nameservers = dns, sc_guest_os = os,
             sc_user_data = i_user_data i,
             sc_public_keys = (if i_key_public i \<noteq> '''' then [i_key_public i] else [])\<rparr>)) (\<lambda>iso.
          let storage = images_store (s_storage (e_site E)); name = seedFileName (i_id i);
              volume = storage @ '':iso/'' @ name in
          bindE (volumeExists E storage volume) (\<lambda>there.
            seqE (whenE there (pve_do (DidDeleteVolume storage volume) (DeleteVolume' (e_pve E) storage volume)))
            (seqE (task E (pve_do (DidUpload storage name) (UploadISO (e_pve E) storage name iso)))
              (ret volume))))))))"

section \<open>The VM's parameters\<close>

definition vlanTag :: "int \<Rightarrow> string" where
  "vlanTag n = (if n \<le> 0 then '''' else '',tag='' @ itoa n)"

definition windowsParams :: "string \<Rightarrow> url_values \<Rightarrow> url_values" where
  "windowsParams disks values =
     gomap_set ''agent'' ''enabled=1''
    (gomap_set ''tpmstate0'' (disks @ '':4,version=v2.0'')
    (gomap_set ''efidisk0'' (disks @ '':0,efitype=4m,pre-enrolled-keys=1'')
    (gomap_set ''machine'' ''q35'' (gomap_set ''bios'' ''ovmf'' (gomap_set ''ostype'' ''win11'' values)))))"

definition net0_text :: "'h env \<Rightarrow> instance_row \<Rightarrow> string" where
  "net0_text E i = ''virtio='' @ i_mac i @ '',bridge='' @ bridge (s_network (e_site E)) @ '',firewall=1'' @
     vlanTag (sub_bridge_tag (instanceSubnet E i))"

definition vmParams :: "'h env \<Rightarrow> instance_row \<Rightarrow> int \<Rightarrow> resources \<Rightarrow> string \<Rightarrow> string \<Rightarrow> string \<Rightarrow> url_values" where
  "vmParams E i vmid r image_volume os disks =
     (let values = [(''vmid'', itoa vmid), (''name'', Hostname (i_name i) (i_id i)), (''pool'', s_pool (e_site E)),
         (''ostype'', ''l26''), (''cores'', itoa (i_cpu i)), (''cpu'', ''host''), (''memory'', itoa (i_memory i)),
         (''balloon'', itoa (i_memory_min i)), (''scsihw'', ''virtio-scsi-single''),
         (''virtio0'', disks @ '':0,import-from='' @ image_volume @ '',discard=on''),
         (''ide2'', r_seed_volume r @ '',media=cdrom''), (''net0'', net0_text E i),
         (''boot'', ''order=virtio0''), (''serial0'', ''socket''), (''onboot'', ''1''), (''tags'', ''shakecloud''),
         (''description'', ''shake-cloud instance '' @ i_id i @ '' (account '' @ i_account i @
            ''). Managed by cloud/api; do not edit.'')] in
      if os = OSWindows then windowsParams disks values else values)"

definition installVmParams ::
    "'h env \<Rightarrow> instance_row \<Rightarrow> int \<Rightarrow> resources \<Rightarrow> string \<Rightarrow> string \<Rightarrow> string \<Rightarrow> url_values" where
  "installVmParams E i vmid r install_volume driver_volume disks =
     (let values = [(''vmid'', itoa vmid), (''name'', Hostname (i_name i) (i_id i)), (''pool'', s_pool (e_site E)),
         (''ostype'', ''l26''), (''cores'', itoa (i_cpu i)), (''cpu'', ''host''), (''memory'', itoa (i_memory i)),
         (''balloon'', itoa (i_memory_min i)), (''scsihw'', ''virtio-scsi-single''),
         (''virtio0'', disks @ '':'' @ itoa (i_root_disk i) @ '',discard=on''),
         (''ide0'', r_seed_volume r @ '',media=cdrom''), (''ide2'', install_volume @ '',media=cdrom''),
         (''net0'', net0_text E i), (''boot'', ''order=ide2;virtio0''), (''serial0'', ''socket''),
         (''onboot'', ''1''), (''tags'', ''shakecloud''),
         (''description'', ''shake-cloud instance '' @ i_id i @ '' (account '' @ i_account i @
            '', ISO install). Managed by cloud/api; do not edit.'')];
          values = (if driver_volume \<noteq> '''' then gomap_set ''ide3'' (driver_volume @ '',media=cdrom'') values
                    else values) in
      if i_guest_os i = OSWindows then windowsParams disks values else values)"

section \<open>Creating the VM\<close>

definition instanceDiskStorage :: "'h env \<Rightarrow> instance_row \<Rightarrow> string res" where
  "instanceDiskStorage E i =
     (case disk_tier_storage (s_storage (e_site E)) (i_disk_tier i) of (pool, ok) \<Rightarrow>
        if ok then Inr pool
        else Inl (Failed (''instance '' @ i_id i @ '' asks for disk tier '' @ quoted (i_disk_tier i) @
               '', which this deployment does not have'')))"

definition skipVMIDs :: "'h env \<Rightarrow> vm list \<Rightarrow> int list" where
  "skipVMIDs E visible = volume_holder_vmid (e_site E) # probe_vmids (e_site E) @ map vm_id visible"

definition allocate_vmid :: "'h env \<Rightarrow> vm list \<Rightarrow> ('h, int) cloud" where
  "allocate_vmid E visible = sql E (\<lambda>_. reading (\<lambda>d.
     AllocateVMID (vmid_from (e_site E)) (vmid_to (e_site E)) (skipVMIDs E visible) (d_quarantine d) (d_instances d)))"

text \<open>Always an error, so that the retry starts with the new VMID.\<close>

definition moveVMID :: "'h env \<Rightarrow> instance_row \<Rightarrow> resources \<Rightarrow> int \<Rightarrow> vm list \<Rightarrow> string \<Rightarrow> ('h, unit) cloud" where
  "moveVMID E i r old visible reason =
     bindE (tx E
       (seqE (sql E (\<lambda>_. LockCapacity))
       (seqE (sql E (\<lambda>_. QuarantineVMID old))
       (bindE (allocate_vmid E visible) (\<lambda>vmid.
         seqE (sql E (\<lambda>now. on_instances (RecordResources now (i_id i) (r\<lparr>r_vmid := Some vmid\<rparr>))))
           (ret vmid))))))
     (\<lambda>vmid. raise (Failed (''VMID '' @ itoa old @ '' was taken ('' @ reason @ ''); moved to '' @ itoa vmid)))"

definition create_params :: "'h env \<Rightarrow> instance_row \<Rightarrow> int \<Rightarrow> resources \<Rightarrow> string \<Rightarrow> ('h, url_values) cloud" where
  "create_params E i vmid r disks =
     (if i_install_iso i \<noteq> '''' then
        bindE (ResolveISO E (i_install_iso i)) (\<lambda>install.
        bindE (if i_driver_iso i \<noteq> '''' then bindE (ResolveISO E (i_driver_iso i)) (\<lambda>x. ret (is_volume x))
               else ret '''') (\<lambda>driver.
          ret (installVmParams E i vmid r (is_volume install) driver disks)))
      else bindE (ResolveImage E (i_image i)) (\<lambda>im.
        ret (vmParams E i vmid r (ii_volume im) (ii_os im) disks)))"

text \<open>A launch row always has a VMID: \<open>Run\<close> allocates it with the row.\<close>

definition no_vmid :: err where "no_vmid = Failed ''panic: nil VMID''"

definition createVM :: "'h env \<Rightarrow> instance_row \<Rightarrow> resources \<Rightarrow> ('h, unit) cloud" where
  "createVM E i r =
     (case r_vmid r of
        None \<Rightarrow> raise no_vmid
      | Some vmid \<Rightarrow>
          bindE (of_res (instanceDiskStorage E i)) (\<lambda>disks.
          bindE (create_params E i vmid r disks) (\<lambda>params.
          bindE (list_vms E) (\<lambda>vms.
            if findVM vms vmid \<noteq> None then
              bindE (owns E vmid i) (\<lambda>owned.
                if owned then ret ()
                else moveVMID E i r vmid vms ''occupied by a VM the API did not create'')
            else catchE (task E (pve_do (DidCreateVM params) (CreateVM (e_pve E) params))) (\<lambda>e.
              if contains_str (err_text e) ''already exists''
              then moveVMID E i r vmid vms ''Proxmox reports the VMID already exists outside the cloud pool''
              else raise e)))))"

section \<open>The root disk\<close>

text \<open>
  \<open>diskSize.FindStringSubmatch\<close>: the digits of the first \<open>size=\<close> setting, the digits after its
  decimal point and its unit. \<open>sizeGiB(disk) >= n\<close> compares in bytes, exactly; the code's \<open>float64\<close>
  agrees while the number has at most 15 digits.
\<close>

definition size_setting :: "string \<Rightarrow> string option" where
  "size_setting disk = map_option (drop 5)
     (find (\<lambda>p. has_prefix p ''size='' \<and> drop 5 p \<noteq> [] \<and> is_digit (hd (drop 5 p))) (split_at CHR '','' disk))"

definition size_unit :: "string \<Rightarrow> nat" where
  "size_unit s = (case s of
       c # _ \<Rightarrow> if c = CHR ''K'' then 10 else if c = CHR ''M'' then 20 else if c = CHR ''G'' then 30
                else if c = CHR ''T'' then 40 else 0
     | [] \<Rightarrow> 0)"

definition parse_size :: "string \<Rightarrow> nat \<times> nat \<times> nat" where
  "parse_size s =
     (let whole = takeWhile is_digit s; rest = dropWhile is_digit s in
      if rest \<noteq> [] \<and> hd rest = CHR ''.'' \<and> tl rest \<noteq> [] \<and> is_digit (hd (tl rest))
      then (let frac = takeWhile is_digit (tl rest) in
        (dec_value (whole @ frac), length frac, size_unit (dropWhile is_digit (tl rest))))
      else (dec_value whole, 0, size_unit rest))"

definition size_at_least :: "string \<Rightarrow> int \<Rightarrow> bool" where
  "size_at_least disk n =
     (case size_setting disk of
        None \<Rightarrow> 0 \<ge> n
      | Some s \<Rightarrow> (case parse_size s of (digits, decimals, u) \<Rightarrow>
          int digits * 2 ^ u \<ge> n * 10 ^ decimals * 2 ^ 30))"

definition growDisk :: "'h env \<Rightarrow> instance_row \<Rightarrow> int \<Rightarrow> ('h, unit) cloud" where
  "growDisk E i vmid =
     bindE (vm_config E vmid) (\<lambda>c.
       if size_at_least (config_str c ''virtio0'') (i_root_disk i) then ret ()
       else pve_do (DidResizeDisk vmid ''virtio0'' (itoa (i_root_disk i) @ ''G''))
              (ResizeDisk (e_pve E) vmid ''virtio0'' (itoa (i_root_disk i) @ ''G'')))"

section \<open>Launch\<close>

definition launch_address :: "'h env \<Rightarrow> instance_row \<Rightarrow> resources \<Rightarrow> ('h, resources) cloud" where
  "launch_address E i r =
     (if r_netbox_ip r \<noteq> None then ret r
      else bindE (wrapE ''allocate address'' (address E i)) (\<lambda>a.
        let r = r\<lparr>r_ip := ip_addr a, r_netbox_ip := Some (ip_id a)\<rparr> in
        seqE (record_resources E i r) (ret r)))"

definition launch_seed :: "'h env \<Rightarrow> instance_row \<Rightarrow> resources \<Rightarrow> ('h, resources) cloud" where
  "launch_seed E i r =
     (if r_seed_volume r \<noteq> '''' then ret r
      else bindE (wrapE ''seed ISO'' (uploadSeed E i (r_ip r))) (\<lambda>volume.
        let r = r\<lparr>r_seed_volume := volume\<rparr> in
        seqE (record_resources E i r) (ret r)))"

definition launch_vm :: "'h env \<Rightarrow> instance_row \<Rightarrow> resources \<Rightarrow> ('h, resources) cloud" where
  "launch_vm E i r =
     (if r_vm_created r then ret r
      else seqE (wrapE ''create VM'' (createVM E i r))
        (let r = r\<lparr>r_vm_created := True\<rparr> in seqE (record_resources E i r) (ret r)))"

text \<open>Grow the disk, write the firewall before the first boot, and start the VM.\<close>

definition launch_boot :: "'h env \<Rightarrow> instance_row \<Rightarrow> int \<Rightarrow> ('h, unit) cloud" where
  "launch_boot E i vmid =
     seqE (wrapE ''resize disk'' (growDisk E i vmid))
     (seqE (wrapE ''firewall'' (writeFirewall E (i_id i)))
     (bindE (external (VMStatus (e_pve E) vmid)) (\<lambda>status.
        whenE (status \<noteq> ''running'')
          (wrapE ''start'' (task E (pve_do (DidPower vmid ''start'') (Power (e_pve E) vmid ''start'' [])))))))"

definition launch :: "'h env \<Rightarrow> instance_row \<Rightarrow> ('h, unit) cloud" where
  "launch E i =
     bindE (launch_address E i (resourcesOf i)) (\<lambda>r.
     bindE (launch_seed E i r) (\<lambda>r.
     bindE (launch_vm E i r) (\<lambda>r. case r_vmid r of
         None \<Rightarrow> raise no_vmid
       | Some vmid \<Rightarrow> launch_boot E i vmid)))"

section \<open>Power\<close>

definition setOnboot :: "'h env \<Rightarrow> string \<Rightarrow> int \<Rightarrow> bool \<Rightarrow> ('h, unit) cloud" where
  "setOnboot E k vmid on =
     (let params = [(''onboot'', if on then ''1'' else ''0'')] in
      seqE (pve_do (DidUpdateVMConfig vmid params) (UpdateVMConfig (e_pve E) vmid params))
        (put_world (\<lambda>w. w\<lparr>w_onboot := gomap_set k on (w_onboot w)\<rparr>)))"

definition onbootKnown :: "string \<Rightarrow> bool \<Rightarrow> ('h, bool) cloud" where
  "onbootKnown k on = get_world (\<lambda>w. gomap_get (w_onboot w) k = Some on)"

definition power :: "'h env \<Rightarrow> instance_row \<Rightarrow> string \<Rightarrow> url_values \<Rightarrow> ('h, unit) cloud" where
  "power E i act params =
     (case (i_vmid i, i_vm_created i) of
        (Some vmid, True) \<Rightarrow>
          bindE (list_vms E) (\<lambda>vms. case findVM vms vmid of
              None \<Rightarrow> raise (Failed (''VM '' @ itoa vmid @ '' is not in the cloud pool''))
            | Some vm \<Rightarrow>
                (let stranger = Failed (''VM '' @ itoa vmid @ '' does not belong to '' @ i_id i) in
                 attempt (owns E vmid i) (\<lambda>owned. case owned of
                     Inl e \<Rightarrow> raise (Join e stranger)
                   | Inr False \<Rightarrow> raise stranger
                   | Inr True \<Rightarrow>
                       seqE (if act = ''start'' then wrapE ''onboot'' (setOnboot E (i_id i) vmid True)
                             else if act = ''shutdown'' then wrapE ''onboot'' (setOnboot E (i_id i) vmid False)
                             else ret ())
                         (if act = ''start'' \<and> vm_status vm = ''running'' \<or>
                             act = ''shutdown'' \<and> vm_status vm = ''stopped''
                          then ret ()
                          else task E (pve_do (DidPower vmid act) (Power (e_pve E) vmid act params))))))
      | _ \<Rightarrow> raise (Failed ''the instance has no VM''))"

section \<open>Terminate\<close>

definition delete_vm :: "'h env \<Rightarrow> instance_row \<Rightarrow> int \<Rightarrow> string \<Rightarrow> ('h, unit) cloud" where
  "delete_vm E i vmid status =
     seqE (whenE (status = ''running'')
        (wrapE ''stop'' (task E (pve_do (DidPower vmid ''stop'') (Power (e_pve E) vmid ''stop'' [])))))
     (seqE (wrapE ''return volumes'' (returnVolumes E i vmid))
        (wrapE ''delete VM'' (task E (pve_do (DidDeleteVM vmid) (DeleteVM (e_pve E) vmid)))))"

definition terminate_vm :: "'h env \<Rightarrow> instance_row \<Rightarrow> ('h, unit) cloud" where
  "terminate_vm E i =
     (case i_vmid i of
        None \<Rightarrow> ret ()
      | Some vmid \<Rightarrow> bindE (list_vms E) (\<lambda>vms. case findVM vms vmid of
            None \<Rightarrow> ret ()
          | Some vm \<Rightarrow> bindE (owns E vmid i) (\<lambda>owned.
              if owned then delete_vm E i vmid (vm_status vm) else ret ())))"

definition terminate_seed :: "'h env \<Rightarrow> instance_row \<Rightarrow> ('h, unit) cloud" where
  "terminate_seed E i =
     (let storage = images_store (s_storage (e_site E)) in
      whenE (i_seed_volume i \<noteq> '''')
        (bindE (volumeExists E storage (i_seed_volume i)) (\<lambda>there.
          whenE there (wrapE ''delete seed ISO'' (pve_do (DidDeleteVolume storage (i_seed_volume i))
            (DeleteVolume' (e_pve E) storage (i_seed_volume i)))))))"

definition release_ip :: "'h env \<Rightarrow> int \<Rightarrow> ('h, unit) cloud" where
  "release_ip E k = wrapE ''release address'' (pve_do (DidDeleteIP k) (DeleteIPAddress (e_ipam E) k))"

definition terminate_addresses :: "'h env \<Rightarrow> instance_row \<Rightarrow> ('h, unit) cloud" where
  "terminate_addresses E i =
     bindE (external (IPAddressesByDescription (e_ipam E) (i_id i))) (\<lambda>addresses.
       seqE (for_eachE addresses (\<lambda>a. release_ip E (ip_id a)))
         (case i_netbox_ip i of
            None \<Rightarrow> ret ()
          | Some k \<Rightarrow> whenE (k \<notin> ip_id ` set addresses) (release_ip E k)))"

definition terminate :: "'h env \<Rightarrow> instance_row \<Rightarrow> ('h, unit) cloud" where
  "terminate E i = seqE (terminate_vm E i) (seqE (terminate_seed E i) (terminate_addresses E i))"

section \<open>The worker step\<close>

definition shutdown_params :: url_values where
  "shutdown_params = [(''forceStop'', ''1''), (''timeout'', ''120'')]"

definition carryOut :: "'h env \<Rightarrow> instance_row \<Rightarrow> action \<Rightarrow> ('h, inst_state) cloud" where
  "carryOut E i a = (case a of
       ActionLaunch \<Rightarrow> seqE (launch E i) (ret StateRunning)
     | ActionStart \<Rightarrow> seqE (power E i ''start'' []) (ret StateRunning)
     | ActionStop \<Rightarrow> seqE (power E i ''shutdown'' shutdown_params) (ret StateStopped)
     | ActionReboot \<Rightarrow> seqE (catchE (power E i ''reboot'' [(''timeout'', ''60'')])
                              (\<lambda>_. power E i ''reset'' [])) (ret StateRunning)
     | ActionTerminate \<Rightarrow> seqE (terminate E i) (ret StateTerminated))"

definition instance_finished :: "'h env \<Rightarrow> instance_row \<Rightarrow> action \<Rightarrow> inst_state \<Rightarrow> ('h, unit) cloud" where
  "instance_finished E i a st =
     attempt (db E (\<lambda>now. on_instances (FinishAction now (i_id i) a st
         (if a = ActionTerminate then i_state_reason i else '''')))) (\<lambda>applied. case applied of
       Inl e \<Rightarrow> ret ()
     | Inr False \<Rightarrow> Wake
     | Inr True \<Rightarrow> wakeLedger)"

definition give_up_instance :: "'h env \<Rightarrow> instance_row \<Rightarrow> action \<Rightarrow> string \<Rightarrow> ('h, unit) cloud" where
  "give_up_instance E i a reason = (case a of
       ActionLaunch \<Rightarrow> seqE (logged (db E (\<lambda>now. on_instances (AbandonLaunch now (i_id i) reason)))) Wake
     | ActionStart \<Rightarrow> logged (db E (\<lambda>now. on_instances (GiveUpAction now (i_id i) ActionStart StateStopped reason)))
     | _ \<Rightarrow> logged (db E (\<lambda>now. on_instances (GiveUpAction now (i_id i) a StateRunning reason))))"

definition instance_failed :: "'h env \<Rightarrow> instance_row \<Rightarrow> action \<Rightarrow> err \<Rightarrow> ('h, unit) cloud" where
  "instance_failed E i a e =
     bindE (cancelled E) (\<lambda>stop.
       if stop then logged (db E (\<lambda>_. on_instances (ReleaseLease (i_id i))))
       else let attempts = Suc (i_attempts i) in
         if attempts < e_max_attempts E \<or> a = ActionTerminate then bindE (clock E) (\<lambda>now.
           logged (db E (\<lambda>t. on_instances (RetryLater t (i_id i) a (truncate_to 500 (err_text e))
             (now + backoff (e_overflow E) (e_retry_delay E) attempts)))))
         else give_up_instance E i a (internal_error e))"

text \<open>A claimed row has a pending action.\<close>

definition process :: "'h env \<Rightarrow> instance_row \<Rightarrow> ('h, unit) cloud" where
  "process E i = (case i_pending i of
       None \<Rightarrow> ret ()
     | Some a \<Rightarrow> attempt (carryOut E i a) (\<lambda>r. case r of
           Inl e \<Rightarrow> instance_failed E i a e
         | Inr st \<Rightarrow> instance_finished E i a st))"

definition workInstanceOnce :: "'h env \<Rightarrow> ('h, bool) cloud" where
  "workInstanceOnce E =
     attempt (db E (\<lambda>now. on_instances (ClaimWork now fifteen_minutes))) (\<lambda>r. case r of
         Inl e \<Rightarrow> ret False
       | Inr i \<Rightarrow> seqE (process E i) (ret True))"

definition WorkOnce :: "'h env \<Rightarrow> ('h, bool) cloud" where
  "WorkOnce E =
     bindE (workInstanceOnce E) (\<lambda>worked. if worked then ret True
       else bindE (workVolumeOnce E) (\<lambda>worked. if worked then ret True else workFirewallOnce E))"

text \<open>
  \<open>RunWorker\<close>: turns until the context ends, here at most \<open>turns\<close> of them (the loop has no end of
  its own). With nothing to do it waits for a wake-up, which it consumes, or for five seconds.
\<close>

definition wait_for_wake :: "('h, unit) cloud" where
  "wait_for_wake = put_world (\<lambda>w. w\<lparr>w_wake := False\<rparr>)"

fun RunWorker :: "nat \<Rightarrow> 'h env \<Rightarrow> ('h, unit) cloud" where
  "RunWorker 0 E = ret ()"
| "RunWorker (Suc turns) E =
     bindE (cancelled E) (\<lambda>stop. if stop then ret ()
       else bindE (WorkOnce E) (\<lambda>worked. seqE (whenE (\<not> worked) wait_for_wake) (RunWorker turns E)))"

section \<open>What the worker does to the ledger\<close>

lemma keeps_address [keeps_intros]: "keeps (db_inv P) (address E i)"
  unfolding address_def ipRange_def by (auto intro!: keeps_intros split: list.split option.split)

lemma keeps_media [keeps_intros]:
  assumes "others_keep P E"
  shows "keeps (db_inv P) (ResolveImage E k)" and "keeps (db_inv P) (adminISOs E)"
    and "keeps (db_inv P) (ResolveISO E k)"
proof -
  show 1: "keeps (db_inv P) (adminISOs E)"
    unfolding adminISOs_def Let_def by (intro keeps_intros)
  show "keeps (db_inv P) (ResolveImage E k)"
    unfolding ResolveImage_def by (intro keeps_intros keeps_db assms)
  show "keeps (db_inv P) (ResolveISO E k)"
    unfolding ResolveISO_def by (intro keeps_intros keeps_db assms 1)
qed

lemma keeps_uploadSeed [keeps_intros]: "others_keep P E \<Longrightarrow> keeps (db_inv P) (uploadSeed E i ip)"
  unfolding uploadSeed_def seed_guest_os_def Let_def by (intro keeps_intros)

lemma keeps_create_params [keeps_intros]: "others_keep P E \<Longrightarrow> keeps (db_inv P) (create_params E i v r disks)"
  unfolding create_params_def by (intro keeps_intros)

lemma keeps_growDisk [keeps_intros]: "keeps (db_inv P) (growDisk E i vmid)"
  unfolding growDisk_def by (intro keeps_intros)

lemma keeps_setOnboot [keeps_intros]: "keeps (db_inv P) (setOnboot E k vmid on)"
  unfolding setOnboot_def Let_def by (intro keeps_intros) simp

lemma keeps_case_bool [keeps_intros]:
  "keeps I m \<Longrightarrow> keeps I n \<Longrightarrow> keeps I (case b of True \<Rightarrow> m | False \<Rightarrow> n)"
  by (simp split: bool.split)

lemma keeps_power [keeps_intros]: "keeps (db_inv P) (power E i act params)"
  unfolding power_def Let_def by (intro keeps_intros)

lemma keeps_terminate_rest [keeps_intros]:
  "keeps (db_inv P) (terminate_seed E i)" "keeps (db_inv P) (terminate_addresses E i)"
  unfolding terminate_seed_def terminate_addresses_def release_ip_def Let_def by (intro keeps_intros)+

lemma leaves_quarantine: "leaves_machines (QuarantineVMID v)"
  by (simp add: leaves_machines_def QuarantineVMID_def)

context ledger_contract
begin

lemma keeps_record_resources: "others_keep P E \<Longrightarrow> keeps (db_inv P) (record_resources E i r)"
  unfolding record_resources_def by (intro keeps_intros keeps_db keeps_instances instance_laws)

lemma keeps_moveVMID: "others_keep P E \<Longrightarrow> keeps (db_inv P) (moveVMID E i r old visible reason)"
  unfolding moveVMID_def allocate_vmid_def
  by (intro keeps_intros keeps_tx keeps_sql keeps_instances instance_laws keeps_other_tables leaves_quarantine
      leaves_machines_media)

lemma keeps_createVM: "others_keep P E \<Longrightarrow> keeps (db_inv P) (createVM E i r)"
  unfolding createVM_def by (intro keeps_intros keeps_moveVMID)

lemma keeps_launch: "others_keep P E \<Longrightarrow> keeps (db_inv P) (launch E i)"
  unfolding launch_def launch_address_def launch_seed_def launch_vm_def launch_boot_def Let_def
  by (intro keeps_intros keeps_record_resources keeps_createVM keeps_writeFirewall)

lemma keeps_terminate: "others_keep P E \<Longrightarrow> keeps (db_inv P) (terminate E i)"
  unfolding terminate_def terminate_vm_def delete_vm_def by (intro keeps_intros keeps_returnVolumes)

lemma carryOut_state: "carryOut E i a w = (Inr st, w') \<Longrightarrow> st = finished_state a"
  by (cases a) (auto simp: carryOut_def seqE_Inr ret_def)

lemma keeps_carryOut: "others_keep P E \<Longrightarrow> keeps (db_inv P) (carryOut E i a)"
  unfolding carryOut_def by (cases a) (auto intro!: keeps_intros keeps_launch keeps_terminate)

lemma keeps_give_up_instance:
  assumes "others_keep P E" and "a \<noteq> ActionTerminate"
  shows "keeps (db_inv P) (give_up_instance E i a reason)"
  using assms unfolding give_up_instance_def
  by (cases a) (auto intro!: keeps_intros keeps_db keeps_instances instance_laws simp: given_up_state_def)

lemma keeps_instance_failed: "others_keep P E \<Longrightarrow> keeps (db_inv P) (instance_failed E i a e)"
  unfolding instance_failed_def Let_def
  by (intro keeps_intros keeps_db keeps_instances instance_laws keeps_give_up_instance) auto

lemma keeps_instance_finished:
  "others_keep P E \<Longrightarrow> st = finished_state a \<Longrightarrow> keeps (db_inv P) (instance_finished E i a st)"
  unfolding instance_finished_def by (intro keeps_intros keeps_db keeps_instances instance_laws)

lemma keeps_process:
  fixes E :: "'h env"
  assumes others: "others_keep P E"
  shows "keeps (db_inv P) (process E i)"
proof (cases "i_pending i")
  case None
  then show ?thesis by (simp add: process_def keeps_ret)
next
  case (Some a)
  show ?thesis
  proof (rule keepsI)
    fix w :: "'h world" assume w: "db_inv P w"
    obtain r w1 where run: "carryOut E i a w = (r, w1)" by fastforce
    have w1: "db_inv P w1"
      using keeps_result [OF keeps_carryOut [OF others] w run] .
    then show "db_inv P (snd (process E i w))"
      using run Some keepsD [OF keeps_instance_failed [OF others]]
        keepsD [OF keeps_instance_finished [OF others carryOut_state]]
      by (cases r) (auto simp: process_def attempt_def)
  qed
qed

lemma keeps_workInstanceOnce: "others_keep P E \<Longrightarrow> keeps (db_inv P) (workInstanceOnce E)"
  unfolding workInstanceOnce_def by (intro keeps_intros keeps_db keeps_instances instance_laws keeps_process)

lemma keeps_WorkOnce: "others_keep P E \<Longrightarrow> keeps (db_inv P) (WorkOnce E)"
  unfolding WorkOnce_def
  by (intro keeps_intros keeps_workInstanceOnce keeps_workVolumeOnce keeps_workFirewallOnce)

lemma keeps_RunWorker:
  assumes "others_keep P E"
  shows "keeps (db_inv P) (RunWorker turns E)"
proof (induction turns)
  case 0
  show ?case by (simp add: keeps_ret)
next
  case (Suc turns)
  then show ?case
    unfolding RunWorker.simps wait_for_wake_def by (intro keeps_intros keeps_WorkOnce assms) simp_all
qed

end


end
