(* ===== verification/Call_Contract.thy ===== *)
theory Call_Contract
  imports Instance_Worker
begin

text \<open>
  The contract of the calls the worker makes outside: under which conditions, read off the log of
  earlier answers, it deletes a VM, drives its power, moves, plugs in or destroys a disk. A property
  of the log that such calls keep is kept by every worker step, shown once inside the locale
  \<open>call_contract\<close>; \<open>Worker_Safety\<close> interprets it.
\<close>

named_theorems log_intros \<open>rules that carry a property of the log through a program\<close>

section \<open>Properties of the log\<close>

definition log_inv :: "(event list \<Rightarrow> bool) \<Rightarrow> 'h world \<Rightarrow> bool" where
  "log_inv L w \<longleftrightarrow> L (w_log w)"

definition disk_log :: "(event list \<Rightarrow> bool) \<Rightarrow> 'h world \<times> location \<Rightarrow> bool" where
  "disk_log L s \<longleftrightarrow> log_inv L (fst s)"

lemma log_unchanged: "(\<And>w. w_log (snd (m w)) = w_log w) \<Longrightarrow> keeps (log_inv L) m"
  by (rule keepsI) (simp add: log_inv_def)

lemma sql_log: "w_log (snd (sql E f w)) = w_log w"
  by (simp add: sql_def Let_def split_beta)

lemma db_log: "w_log (snd (db E f w)) = w_log w"
  by (simp add: db_def sql_log interfere_def)

lemma external_log: "w_log (snd (external f w)) = w_log w"
  by (simp add: external_def split_beta)

lemma keeps_log_steps [log_intros]:
  "keeps (log_inv L) (sql E f)" "keeps (log_inv L) (db E f)" "keeps (log_inv L) (external g)"
  "keeps (log_inv L) (clock E)" "keeps (log_inv L) (cancelled E)" "keeps (log_inv L) (random_hex E)"
  "keeps (log_inv L) (random_mac E)" "keeps (log_inv L) Wake" "keeps (log_inv L) wakeLedger"
  by (rule log_unchanged; simp add: sql_log db_log external_log clock_def cancelled_def random_hex_def
      random_mac_def Wake_def wakeLedger_def put_world_def)+

lemma keeps_log_put [log_intros]: "(\<And>w. w_log (f w) = w_log w) \<Longrightarrow> keeps (log_inv L) (put_world f)"
  by (rule log_unchanged) (simp add: put_world_def)

lemma keeps_log_event': "(\<And>l. L l \<Longrightarrow> L (ev # l)) \<Longrightarrow> keeps (log_inv L) (log_event ev)"
  by (rule keepsI) (simp add: log_event_def put_world_def log_inv_def)

lemma keeps_log_pve_do: "(\<And>l. L l \<Longrightarrow> L (ev # l)) \<Longrightarrow> keeps (log_inv L) (pve_do ev f)"
  unfolding pve_do_def by (intro keeps_seqE keeps_log_event' keeps_log_steps)

lemma keeps_log_tx [log_intros]:
  fixes E :: "'h env"
  assumes "keeps (log_inv L) m"
  shows "keeps (log_inv L) (tx E m)"
proof (rule keepsI)
  fix w :: "'h world" assume "log_inv L w"
  then have "log_inv L (snd (m (interfere E w)))"
    by (intro keepsD [OF assms]) (simp add: log_inv_def interfere_def)
  then show "log_inv L (snd (tx E m w))"
    by (auto simp: tx_def Let_def log_inv_def split: prod.split sum.split)
qed

lemma keeps_log_task [log_intros]: "keeps (log_inv L) m \<Longrightarrow> keeps (log_inv L) (task E m)"
  unfolding task_def by (intro keeps_intros keeps_log_steps)

lemma keeps_log_logged [log_intros]: "keeps (log_inv L) m \<Longrightarrow> keeps (log_inv L) (logged m)"
  unfolding logged_def by (intro keeps_intros)

lemma keeps_disk_on_world [log_intros]: "keeps (log_inv L) m \<Longrightarrow> keeps (disk_log L) (on_world m)"
  by (fastforce simp: keeps_def disk_log_def on_world_def split: prod.splits)

lemma keeps_disk_loc [log_intros]: "keeps (disk_log L) get_loc" "keeps (disk_log L) (set_loc l)"
  by (simp_all add: get_loc_def get_world_def keeps_def set_loc_def put_world_def disk_log_def)

lemma keeps_log_with_location [log_intros]:
  fixes m :: "('h, 'a) disk"
  assumes "keeps (disk_log L) m"
  shows "keeps (log_inv L) (with_location l m)"
proof (rule keepsI)
  fix w :: "'h world" assume "log_inv L w"
  then have "disk_log L (snd (m (w, l)))"
    by (intro keepsD [OF assms]) (simp add: disk_log_def)
  then show "log_inv L (snd (with_location l m w))"
    by (simp add: with_location_def disk_log_def split_beta)
qed

lemma keeps_log_record_location [log_intros]: "keeps (disk_log L) (record_location E k)"
  unfolding record_location_def by (intro keeps_intros log_intros)

section \<open>Evidence\<close>

text \<open>The log's newest entry is a configuration of the VM.\<close>

definition last_config :: "int \<Rightarrow> event list \<Rightarrow> vm_config option" where
  "last_config vmid l = (case l of SawConfig v c # _ \<Rightarrow> if v = vmid then Some c else None | _ \<Rightarrow> None)"

lemma last_config_Some: "last_config vmid l = Some c \<longleftrightarrow> (\<exists>rest. l = SawConfig vmid c # rest)"
proof (cases l)
  case (Cons ev rest)
  then show ?thesis by (cases ev) (simp_all add: last_config_def)
qed (simp add: last_config_def)

definition saw :: "(event list \<Rightarrow> bool) \<Rightarrow> int \<Rightarrow> vm_config \<Rightarrow> 'h world \<Rightarrow> bool" where
  "saw L vmid c w \<longleftrightarrow> L (w_log w) \<and> last_config vmid (w_log w) = Some c"

text \<open>
  The newest entries say that no live volume records any of the disks of the configuration read just
  before them.
\<close>

definition clear_answer :: "event \<Rightarrow> bool" where
  "clear_answer ev = (case ev of SawVolumeByVolID v b \<Rightarrow> \<not> b | _ \<Rightarrow> False)"

definition disks_clear :: "vm_config \<Rightarrow> string list \<Rightarrow> event list \<Rightarrow> bool" where
  "disks_clear c keys answers =
     list_all (\<lambda>key. diskKey key \<and> volidAt c key \<noteq> '''' \<longrightarrow> SawVolumeByVolID (volidAt c key) False \<in> set answers) keys"

definition cleared :: "int \<Rightarrow> event list \<Rightarrow> bool" where
  "cleared vmid l =
     (case last_config vmid (dropWhile clear_answer l) of
        None \<Rightarrow> False | Some c \<Rightarrow> disks_clear c (map fst c) (takeWhile clear_answer l))"

text \<open>The VM is the instance's: it was registered with it, or its description was seen to name it.\<close>

definition shown_owned :: "instance_row \<Rightarrow> int \<Rightarrow> event list \<Rightarrow> bool" where
  "shown_owned i vmid l \<longleftrightarrow> i_vmid i = Some vmid \<and>
     (i_adopted i \<or> (\<exists>ev \<in> set l. case ev of SawConfig v c \<Rightarrow> v = vmid \<and> owned_config i c | _ \<Rightarrow> False))"

fun harmless :: "event \<Rightarrow> bool" where
  "harmless (DidPower vmid act) = (act = ''start'')"
| "harmless (DidDeleteVM vmid) = False"
| "harmless (DidConfigureVM vmid params) = False"
| "harmless (DidUnlink vmid keys force) = (\<not> force)"
| "harmless (DidMoveDisk vmid key target target_key) = False"
| "harmless _ = True"

section \<open>The contract\<close>

locale call_contract =
  fixes L :: "event list \<Rightarrow> bool" and holder :: int and claimed :: "instance_row \<Rightarrow> bool"
  assumes harmless: "harmless ev \<Longrightarrow> L l \<Longrightarrow> L (ev # l)"
    and destroy: "L l \<Longrightarrow> L (DidUnlink holder keys True # l)"
    and plug: "L l \<Longrightarrow> last_config vmid l = Some c \<Longrightarrow> volidAt c key = '''' \<Longrightarrow>
      L (DidConfigureVM vmid [(key, disk)] # l)"
    and hand_over: "L l \<Longrightarrow> last_config target l = Some c \<Longrightarrow> gomap_get c target_key = None \<Longrightarrow>
      has_prefix key ''unused'' \<Longrightarrow> L (DidMoveDisk source key target target_key # l)"
    and drive: "L l \<Longrightarrow> claimed i \<Longrightarrow> shown_owned i vmid l \<Longrightarrow> L (DidPower vmid act # l)"
    and delete: "L l \<Longrightarrow> claimed i \<Longrightarrow> shown_owned i vmid l \<Longrightarrow> cleared vmid l \<Longrightarrow> L (DidDeleteVM vmid # l)"
begin

lemma calls_harmless: "harmless ev \<Longrightarrow> keeps (log_inv L) (pve_do ev f)"
  by (intro keeps_log_pve_do harmless)

lemma calls_saw_config: "keeps (log_inv L) (vm_config E vmid)"
  unfolding vm_config_def by (intro keeps_intros log_intros keeps_log_event' harmless) simp

lemma calls_saw_config': "keeps (disk_log L) (vm_config' E vmid)"
  unfolding vm_config'_def by (intro log_intros calls_saw_config)

text \<open>Reading a configuration, and what may follow while it is the newest entry.\<close>

lemma saw_config_triple: "triple (log_inv L) (vm_config E vmid) (\<lambda>c. saw L vmid c) (log_inv L)"
  unfolding vm_config_def
proof (intro triple_bindE triple_seqE)
  show "triple (log_inv L) (external (VMConfig (e_pve E) vmid)) (\<lambda>_. log_inv L) (log_inv L)"
    by (rule keeps_triple [THEN iffD1, OF keeps_log_steps(3)])
  fix c
  show "triple (log_inv L) (log_event (SawConfig vmid c)) (\<lambda>_. saw L vmid c) (log_inv L)"
    using harmless [of "SawConfig vmid c"]
    by (auto simp: triple_def log_event_def put_world_def log_inv_def saw_def last_config_def)
  show "triple (saw L vmid c) (ret c) (saw L vmid) (log_inv L)"
    by (rule triple_ret)
qed

lemma calls_after_config:
  assumes "\<And>c. triple (saw L vmid c) (f c) (\<lambda>_. log_inv L) (log_inv L)"
  shows "keeps (log_inv L) (bindE (vm_config E vmid) f)"
  unfolding keeps_triple by (rule triple_bindE [OF saw_config_triple assms])

abbreviation saw' :: "int \<Rightarrow> vm_config \<Rightarrow> 'h world \<times> location \<Rightarrow> bool" where
  "saw' vmid c s \<equiv> saw L vmid c (fst s)"

lemma saw_config_triple': "triple (disk_log L) (vm_config' E vmid) (\<lambda>c. saw' vmid c) (disk_log L)"
  using saw_config_triple [of E vmid]
  by (force simp: triple_def vm_config'_def on_world_def disk_log_def split: prod.splits sum.splits)

lemma calls_after_config':
  assumes "\<And>c. triple (saw' vmid c) (f c) (\<lambda>_. disk_log L) (disk_log L)"
  shows "keeps (disk_log L) (bindE (vm_config' E vmid) f)"
  unfolding keeps_triple by (rule triple_bindE [OF saw_config_triple' assms])

lemma saw_then_keeps: "keeps (disk_log L) m \<Longrightarrow> triple (saw' vmid c) m (\<lambda>_. disk_log L) (disk_log L)"
  by (rule triple_keeps [where I = "disk_log L"]) (auto simp: disk_log_def saw_def log_inv_def)

lemma saw_set_loc: "triple (saw' vmid c) (set_loc l) (\<lambda>_. saw' vmid c) (disk_log L)"
  by (simp add: triple_def set_loc_def put_world_def)

lemma saw_get_loc: "triple (saw' vmid c) get_loc (\<lambda>_. saw' vmid c) (disk_log L)"
  by (simp add: triple_def get_loc_def get_world_def)

lemma saw_record: "triple (saw' vmid c) (record_location E k) (\<lambda>_. saw' vmid c) (disk_log L)"
proof -
  have "keeps (\<lambda>w. saw L vmid c w) (db E f)" for f :: "int \<Rightarrow> unit stmt" and E :: "'h env"
    by (rule keepsI) (simp add: saw_def db_log)
  then have "keeps (saw' vmid c) (record_location E k)"
    unfolding record_location_def
    by (intro keeps_bindE) (auto simp: keeps_def get_loc_def get_world_def on_world_def split_beta)
  then show ?thesis
    by (rule triple_keeps) (auto simp: saw_def disk_log_def log_inv_def)
qed

lemma saw_configure:
  assumes "volidAt c key = ''''"
  shows "triple (saw L vmid c) (configure E vmid [(key, disk)]) (\<lambda>_. log_inv L) (log_inv L)"
  unfolding configure_def
proof (rule triple_bindE)
  show "triple (saw L vmid c) (pve_do (DidConfigureVM vmid [(key, disk)]) (ConfigureVM (e_pve E) vmid [(key, disk)]))
      (\<lambda>_. log_inv L) (log_inv L)"
    using plug assms by (intro triple_pve_do) (auto simp: saw_def log_inv_def split: prod.split sum.split)
  show "triple (log_inv L) (if upid = [] then ret () else external (WaitTask (e_pve E) upid))
      (\<lambda>_. log_inv L) (log_inv L)" for upid
    unfolding keeps_triple [symmetric] by (intro keeps_intros log_intros)
qed

lemma saw_on_world:
  "triple (saw L vmid c) m (\<lambda>_. log_inv L) (log_inv L) \<Longrightarrow>
   triple (saw' vmid c) (on_world m) (\<lambda>_. disk_log L) (disk_log L)"
  by (force simp: triple_def on_world_def disk_log_def split: prod.splits sum.splits)

end

end
