(* ===== verification/Disk_Recovery.thy ===== *)
theory Disk_Recovery
  imports Call_Contract
begin

text \<open>
  Disks survive a crash of the worker at any point: a move is recorded before Proxmox is asked for it
  (\<open>hand_over_disk\<close>), and \<open>locate\<close> finds a disk whose move finished without being recorded. Both are
  about \<open>compute/volume_worker.go\<close>.
\<close>

definition recorded :: "string \<Rightarrow> location \<Rightarrow> ledger \<Rightarrow> bool" where
  "recorded k loc d \<longleftrightarrow> (\<exists>v \<in> set (d_volumes d). v_id v = k \<and> v_location v = loc)"

definition moving :: "location \<Rightarrow> int \<Rightarrow> string \<Rightarrow> location" where
  "moving l target key = l\<lparr>l_move_vmid := Some target, l_move_key := key\<rparr>"

definition moved :: "int \<Rightarrow> string \<Rightarrow> string \<Rightarrow> location" where
  "moved target key volid = \<lparr>l_vmid = Some target, l_config_key = key, l_volid = volid, l_move_vmid = None, l_move_key = ''''\<rparr>"

definition row_at :: "string \<Rightarrow> location \<Rightarrow> 'h world \<Rightarrow> bool" where
  "row_at k loc w \<longleftrightarrow> recorded k loc (w_db w)"

lemma row_at_others: "others_keep (recorded k loc) E \<Longrightarrow> row_at k loc w \<Longrightarrow> row_at k loc (interfere E w)"
  by (simp add: others_keep_def row_at_def interfere_def)

lemma RecordLocation_records:
  assumes "recorded k old d" and "on_volumes (RecordLocation now k loc) d = (Inr u, d')"
  shows "recorded k loc d'"
proof -
  have "d_volumes d' = set_vol k (\<lambda>v. v\<lparr>v_location := loc, v_updated_at := now\<rparr>) (d_volumes d)"
    using assms(2) by (auto simp: on_volumes_def RecordLocation_def vol_constrained_def split: if_splits)
  moreover obtain v where "v \<in> set (d_volumes d)" "v_id v = k"
    using assms(1) by (auto simp: recorded_def)
  ultimately have "v\<lparr>v_location := loc, v_updated_at := now\<rparr> \<in> set (d_volumes d')"
    by (auto simp: set_vol_def set_update_where vol_by_id_def)
  then show ?thesis
    unfolding recorded_def
    by (rule bexI [rotated]) (simp add: \<open>v_id v = k\<close>)
qed

lemma RecordLocation_fails:
  "on_volumes (RecordLocation now k loc) d = (Inl e, d') \<Longrightarrow> d' = d"
  by (auto simp: on_volumes_def RecordLocation_def vol_constrained_def split: prod.splits if_splits)

lemma record_location_triple:
  fixes E :: "'h env"
  assumes others: "others_keep (recorded k old) E"
  shows "triple (\<lambda>s. row_at k old (fst s) \<and> w_log (fst s) = L \<and> snd s = loc) (record_location E k)
    (\<lambda>_ s. row_at k loc (fst s) \<and> w_log (fst s) = L \<and> snd s = loc)
    (\<lambda>s. row_at k old (fst s) \<and> w_log (fst s) = L \<and> snd s = loc)"
  unfolding triple_def
proof (intro allI impI)
  fix s :: "'h world \<times> location"
  assume s: "row_at k old (fst s) \<and> w_log (fst s) = L \<and> snd s = loc"
  let ?f = "\<lambda>now. on_volumes (RecordLocation now k loc)"
  obtain r w' where run: "db E ?f (fst s) = (r, w')" by fastforce
  have log: "w_log w' = L"
    using db_log [of E ?f "fst s"] run s by simp
  define w where "w = (interfere E (fst s))\<lparr>w_tick := Suc (w_tick (interfere E (fst s)))\<rparr>"
  have w: "recorded k old (w_db w)"
    using row_at_others [OF others] s by (simp add: row_at_def w_def)
  obtain q d where q: "?f (e_now E (w_tick (interfere E (fst s)))) (w_db w) = (q, d)"
    by fastforce
  have "(r = Inl db_failed \<and> w' = w) \<or> (r = q \<and> w' = w\<lparr>w_db := d\<rparr>)"
    using run q by (auto simp: db_def sql_def Let_def w_def split: if_splits)
  then have "case r of Inl e \<Rightarrow> row_at k old w' | Inr u \<Rightarrow> row_at k loc w'"
    using w RecordLocation_records [OF w] q
    by (cases q) (auto simp: row_at_def dest: RecordLocation_fails split: sum.split)
  then show "case record_location E k s of
      (Inl e, s') \<Rightarrow> row_at k old (fst s') \<and> w_log (fst s') = L \<and> snd s' = loc
    | (Inr u, s') \<Rightarrow> row_at k loc (fst s') \<and> w_log (fst s') = L \<and> snd s' = loc"
    using run log s
    by (cases r) (simp_all add: record_location_def run_steps get_loc_def on_world_def)
qed

lemma record_location_triple':
  fixes E :: "'h env"
  assumes others: "others_keep (recorded k old) E"
  shows "triple (\<lambda>s. row_at k old (fst s) \<and> snd s = loc) (record_location E k)
    (\<lambda>_ s. row_at k loc (fst s) \<and> snd s = loc) (\<lambda>s. row_at k old (fst s))"
  unfolding triple_def
proof (intro allI impI)
  fix s :: "'h world \<times> location" assume s: "row_at k old (fst s) \<and> snd s = loc"
  note inst = record_location_triple [OF others, of "w_log (fst s)" loc]
  obtain r s' where run: "record_location E k s = (r, s')" by (cases "record_location E k s")
  show "case record_location E k s of (Inl e, s') \<Rightarrow> row_at k old (fst s')
      | (Inr u, s') \<Rightarrow> row_at k loc (fst s') \<and> snd s' = loc"
  proof (cases r)
    case (Inl e)
    then show ?thesis
      using triple_Inl [OF inst _ run [unfolded Inl]] s run by simp
  next
    case (Inr u)
    then show ?thesis
      using triple_Inr [OF inst _ run [unfolded Inr]] s run by simp
  qed
qed

lemma keeps_row_external: "keeps (row_at k loc) (external f)"
  by (rule keepsI) (simp add: external_def row_at_def split_beta)

lemma keeps_row_pve_do: "keeps (row_at k loc) (pve_do ev f)"
  by (rule keepsI) (simp add: pve_do_def run_steps log_event_def external_def row_at_def split_beta)

lemma keeps_row_task: "keeps (row_at k loc) m \<Longrightarrow> keeps (row_at k loc) (task E m)"
  unfolding task_def by (intro keeps_intros keeps_row_external)

lemma keeps_row_config: "keeps (row_at k loc) (vm_config E v)"
  unfolding vm_config_def log_event_def
  by (intro keeps_intros keeps_row_external) (simp add: keeps_def put_world_def row_at_def)

lemma keeps_row_on_world:
  "keeps (row_at k loc) m \<Longrightarrow> keeps (\<lambda>s. row_at k loc (fst s)) (on_world m)"
  by (fastforce simp: keeps_def on_world_def split: prod.splits)

lemma finish_move_triple:
  fixes E :: "'h env"
  assumes "others_keep (recorded k old) E"
  shows "triple (\<lambda>s. row_at k old (fst s)) (finish_move E k target key)
    (\<lambda>_ s. \<exists>volid. volid \<noteq> '''' \<and> row_at k (moved target key volid) (fst s) \<and> snd s = moved target key volid)
    (\<lambda>s. row_at k old (fst s))"
  unfolding finish_move_def
proof (rule triple_bindE)
  show "triple (\<lambda>s. row_at k old (fst s)) (vm_config' E target) (\<lambda>_ s. row_at k old (fst s)) (\<lambda>s. row_at k old (fst s))"
    unfolding keeps_triple [symmetric] vm_config'_def by (intro keeps_row_on_world keeps_row_config)
  fix c
  have stored: "triple (\<lambda>s. row_at k old (fst s)) (seqE (set_loc (moved target key volid)) (record_location E k))
      (\<lambda>_ s. row_at k (moved target key volid) (fst s) \<and> snd s = moved target key volid) (\<lambda>s. row_at k old (fst s))"
    for volid
    by (rule triple_seqE [OF _ record_location_triple' [OF assms]]) (simp add: triple_def set_loc_def put_world_def)
  show "triple (\<lambda>s. row_at k old (fst s)) (let volid = volidAt c key in
      if volid = '''' then raise (Failed (''the disk did not arrive at VM '' @ itoa target @ '' as '' @ key))
      else seqE (set_loc \<lparr>l_vmid = Some target, l_config_key = key, l_volid = volid, l_move_vmid = None, l_move_key = ''''\<rparr>)
             (record_location E k))
      (\<lambda>_ s. \<exists>volid. volid \<noteq> '''' \<and> row_at k (moved target key volid) (fst s) \<and> snd s = moved target key volid)
      (\<lambda>s. row_at k old (fst s))"
    unfolding Let_def moved_def [symmetric]
  proof (rule triple_if)
    assume "volidAt c key \<noteq> ''''"
    then show "triple (\<lambda>s. row_at k old (fst s))
        (seqE (set_loc (moved target key (volidAt c key))) (record_location E k))
        (\<lambda>_ s. \<exists>volid. volid \<noteq> '''' \<and> row_at k (moved target key volid) (fst s) \<and> snd s = moved target key volid)
        (\<lambda>s. row_at k old (fst s))"
      by (intro triple_weaken [OF stored [of "volidAt c key"]]) auto
  qed (simp add: triple_raise)
qed

text \<open>
  C6. A disk is never lost in a move, wherever the worker stops and whatever Proxmox does: the move's
  destination is in the ledger before Proxmox is asked for it, so either nothing was asked and the
  recorded location is the old one, or the ledger names the destination the disk may have reached, or
  the move is done and the ledger has the disk's new place and name.
\<close>

theorem move_is_recorded_first:
  fixes w :: "'h world"
  assumes "\<And>loc. others_keep (recorded k loc) E" and "recorded k old (w_db w)"
    and "hand_over_disk E k l source target key (w, l0) = (r, (w', l'))"
  shows "(\<exists>e. r = Inl e) \<and> w_log w' = w_log w \<and> recorded k old (w_db w') \<or>
    (\<exists>e. r = Inl e) \<and> recorded k (moving l target key) (w_db w') \<or>
    r = Inr () \<and> (\<exists>volid. volid \<noteq> '''' \<and> recorded k (moved target key volid) (w_db w') \<and> l' = moved target key volid)"
proof -
  define stored where "stored s \<longleftrightarrow> row_at k (moving l target key) (fst s)" for s :: "'h world \<times> location"
  let ?F = "\<lambda>s. w_log (fst s) = w_log w \<and> row_at k old (fst s) \<or> stored s"
  let ?Q = "\<lambda>_ s. \<exists>volid. volid \<noteq> '''' \<and> row_at k (moved target key volid) (fst s) \<and> snd s = moved target key volid"
  have start: "triple (\<lambda>s. s = (w, l0)) (set_loc (moving l target key))
      (\<lambda>_ s. row_at k old (fst s) \<and> w_log (fst s) = w_log w \<and> snd s = moving l target key) ?F"
    using assms(2) by (simp add: triple_def set_loc_def put_world_def row_at_def)
  have note_it: "triple (\<lambda>s. row_at k old (fst s) \<and> w_log (fst s) = w_log w \<and> snd s = moving l target key)
      (record_location E k) (\<lambda>_. stored) ?F"
    by (rule triple_weaken [OF record_location_triple [OF assms(1), where L = "w_log w"]]) (auto simp: stored_def)
  have ask: "triple stored (wrapE p (on_world (task E (pve_do ev f)))) (\<lambda>_. stored) ?F" for p ev and f :: "('h, string) ext"
    unfolding stored_def
    by (rule triple_keeps [OF keeps_wrapE [OF keeps_row_on_world [OF keeps_row_task [OF keeps_row_pve_do]]]]) auto
  have finish: "triple stored (finish_move E k target key) ?Q ?F"
    by (rule triple_weaken [OF finish_move_triple [OF assms(1)]]) (auto simp: stored_def)
  have "triple (\<lambda>s. s = (w, l0)) (hand_over_disk E k l source target key) ?Q ?F"
    unfolding hand_over_disk_def moving_def [symmetric]
    by (rule triple_seqE [OF start triple_seqE [OF note_it triple_seqE [OF ask finish]]])
  then show ?thesis
    using assms(3) by (cases r) (auto simp: triple_def row_at_def stored_def)
qed


section \<open>Finding a disk after a crash\<close>

lemma relocate_frame:
  fixes loc :: location and now :: int
  defines "f \<equiv> \<lambda>v :: volume_row. v\<lparr>v_location := loc, v_updated_at := now\<rparr>"
  shows "vol_tokens (update_where c f t) = vol_tokens t" and "used_devices (update_where c f t) = used_devices t"
    and "list_all vol_row_ok (update_where c f t) = list_all vol_row_ok t"
    and "map v_id (update_where c f t) = map v_id t"
  by (induction t) (simp_all add: update_where_def vol_tokens_def used_devices_def f_def vol_row_ok_def)

lemma relocate_volids:
  assumes "distinct (map v_id t)" and "distinct (live_volids t)" and "l_volid loc \<notin> set (live_volids t)"
  shows "distinct (live_volids (update_where (vol_by_id k) (\<lambda>v. v\<lparr>v_location := loc, v_updated_at := now\<rparr>) t)) \<and>
    set (live_volids (update_where (vol_by_id k) (\<lambda>v. v\<lparr>v_location := loc, v_updated_at := now\<rparr>) t))
      \<subseteq> insert (l_volid loc) (set (live_volids t))"
  using assms
proof (induction t)
  case (Cons v t)
  let ?f = "\<lambda>v. v\<lparr>v_location := loc, v_updated_at := now\<rparr>"
  show ?case
  proof (cases "v_id v = k")
    case True
    then have "update_where (vol_by_id k) ?f t = t"
      using Cons.prems(1) by (intro update_where_id) (simp add: vol_by_id_def, metis image_eqI)
    then show ?thesis
      using Cons.prems True
      by (auto simp: update_where_def live_volids_def vol_by_id_def vol_live_def split: if_splits)
  next
    case False
    have IH: "distinct (live_volids (update_where (vol_by_id k) ?f t)) \<and>
        set (live_volids (update_where (vol_by_id k) ?f t)) \<subseteq> insert (l_volid loc) (set (live_volids t))"
      using Cons by (auto simp: live_volids_def split: if_splits)
    have step: "update_where (vol_by_id k) ?f (v # t) = v # update_where (vol_by_id k) ?f t"
      using False by (simp add: update_where_def vol_by_id_def)
    have split: "live_volids (v # u) = (if vol_live v \<and> l_volid (v_location v) \<noteq> '''' then [l_volid (v_location v)] else []) @ live_volids u" for u
      by (simp add: live_volids_def)
    show ?thesis
      using IH Cons.prems unfolding step split by (auto split: if_splits)
  qed
qed (simp add: update_where_def live_volids_def)

lemma relocate_constraints:
  assumes "vol_constraints t" and "l_volid loc \<notin> set (live_volids t)"
  shows "vol_constraints (set_vol k (\<lambda>v. v\<lparr>v_location := loc, v_updated_at := now\<rparr>) t)"
  using assms relocate_volids [of t loc k now]
  by (simp add: vol_constraints_def set_vol_def relocate_frame)

lemma unclaimed_volid: "VolumeByVolID volid t = Inl NotFound \<Longrightarrow> volid \<noteq> '''' \<Longrightarrow> volid \<notin> set (live_volids t)"
  by (auto simp: VolumeByVolID_def select_one_def find_None_iff live_volids_def split: option.splits)

text \<open>
  C7. A move that Proxmox finished just before the worker crashed is found again: when the disk is not
  where the ledger says, but an unclaimed disk is in the slot the move was recorded to go to, \<open>locate\<close>
  takes that for the volume's disk and records its new place and name.
\<close>

theorem locate_finds_finished_move:
  assumes "\<forall>n. \<not> e_db_down E n" and "\<forall>n d. e_others E n d = d"
    and "vol_constraints (d_volumes (w_db w))" and "recorded k l (w_db w)"
    and "l_vmid l = None \<or> (\<exists>source c. l_vmid l = Some source \<and>
      VMConfig (e_pve E) source (w_hv w) = (Inr c, w_hv w) \<and> diskKeyOf c (l_volid l) = '''')"
    and "l_move_vmid l = Some target" and "l_move_key l \<noteq> ''''"
    and "VMConfig (e_pve E) target (w_hv w) = (Inr d, w_hv w)" and "volidAt d (l_move_key l) = volid" and "volid \<noteq> ''''"
    and "VolumeByVolID volid (d_volumes (w_db w)) = Inl NotFound"
  shows "\<exists>w'. locate E k (w, l) = (Inr (), (w', moved target (l_move_key l) volid)) \<and>
    recorded k (moved target (l_move_key l) volid) (w_db w')"
proof -
  define loc where "loc = moved target (l_move_key l) volid"
  have kept: "vol_constraints (set_vol k (\<lambda>v. v\<lparr>v_location := loc, v_updated_at := now\<rparr>) (d_volumes (w_db w)))" for now
    using assms(3) unclaimed_volid [OF assms(11,10)] by (intro relocate_constraints) (simp_all add: loc_def moved_def)
  have rec: "recorded k loc (w_db w\<lparr>d_volumes := set_vol k (\<lambda>v. v\<lparr>v_location := loc, v_updated_at := now\<rparr>) (d_volumes (w_db w))\<rparr>)" for now
    using assms(4) kept by (intro RecordLocation_records [of k l "w_db w" now loc "()"])
      (simp_all add: on_volumes_def RecordLocation_def vol_constrained_def)
  have home: "\<exists>w1. find_at_home E k (w, l) = (Inr False, (w1, l)) \<and> w_db w1 = w_db w \<and> w_hv w1 = w_hv w"
    using assms(5)
    by (auto simp: find_at_home_def run_steps get_loc_def vm_config'_def on_world_def vm_config_def external_def
        log_event_def Let_def)
  then obtain w1 where w1: "find_at_home E k (w, l) = (Inr False, (w1, l))" "w_db w1 = w_db w" "w_hv w1 = w_hv w"
    by blast
  have "\<exists>w2. find_at_destination E k (w1, l) = (Inr True, (w2, loc)) \<and> recorded k loc (w_db w2)"
    using assms w1 kept rec
    by (simp add: find_at_destination_def run_steps get_loc_def vm_config'_def on_world_def vm_config_def
        external_def log_event_def Let_def volIDClaimed_def volume_by_volid_def db_def sql_def interfere_def
        reading_def set_loc_def record_location_def on_volumes_def RecordLocation_def vol_constrained_def
        loc_def [symmetric] moved_def [symmetric] cong: run_lazy)
  then show ?thesis
    using w1 by (auto simp: locate_def run_steps loc_def)
qed


section \<open>Witnesses\<close>

definition two_vm_pve :: "unit hypervisor" where
  "two_vm_pve = offline_pve\<lparr>VMConfig := \<lambda>vmid h.
     (Inr (if vmid = 5000 then [(''virtio1'', Str ''lvm:vm-5000-disk-1,size=10G'')] else []), h)\<rparr>"

definition midway :: location where
  "midway = moving (v_location (example_volume ''vol-1'')) 5000 ''virtio1''"

definition midway_world :: "unit world" where
  "midway_world = start_world () (empty_ledger\<lparr>d_volumes := [(example_volume ''vol-1'')\<lparr>v_location := midway\<rparr>]\<rparr>)"

theorem locate_finds_finished_move_witness:
  "\<exists>w. locate (quiet_env two_vm_pve offline_ipam) ''vol-1'' (midway_world, midway) =
     (Inr (), (w, moved 5000 ''virtio1'' ''lvm:vm-5000-disk-1''))"
proof -
  have "recorded ''vol-1'' midway (w_db midway_world)" "vol_constraints (d_volumes (w_db midway_world))"
    by (simp_all add: recorded_def midway_world_def start_world_def example_volume_def vol_constraints_def
        vol_tokens_def used_devices_def live_volids_def vol_row_ok_def int4_def)
  moreover have "diskKeyOf [] x = ''''" for x
    by (simp add: diskKeyOf_def)
  moreover have "volidAt [(''virtio1'', Str ''lvm:vm-5000-disk-1,size=10G'')] ''virtio1'' = ''lvm:vm-5000-disk-1''"
    by (simp add: volidAt_def config_str_def gomap_get_def)
  ultimately show ?thesis
    using locate_finds_finished_move [of "quiet_env two_vm_pve offline_ipam" midway_world "''vol-1''" midway 5000
        "[(''virtio1'', Str ''lvm:vm-5000-disk-1,size=10G'')]" "''lvm:vm-5000-disk-1''"]
    by (auto simp: two_vm_pve_def midway_def moving_def example_volume_def midway_world_def start_world_def
        VolumeByVolID_def select_one_def)
qed

theorem move_is_recorded_first_witness:
  "\<exists>e w l. hand_over_disk (quiet_env offline_pve offline_ipam) ''vol-1'' (v_location (example_volume ''vol-1''))
      4999 5000 ''unused0'' (start_world () (empty_ledger\<lparr>d_volumes := [example_volume ''vol-1'']\<rparr>), no_location) =
      (Inl e, (w, l)) \<and> recorded ''vol-1'' (moving (v_location (example_volume ''vol-1'')) 5000 ''unused0'') (w_db w)"
proof -
  let ?l = "v_location (example_volume ''vol-1'')"
  let ?w = "start_world () (empty_ledger\<lparr>d_volumes := [example_volume ''vol-1'']\<rparr>)"
  let ?E = "quiet_env offline_pve offline_ipam :: unit env"
  have ok: "vol_constraints [(example_volume ''vol-1'')\<lparr>v_location := moving ?l 5000 ''unused0'', v_updated_at := n\<rparr>]" for n
    by (simp add: example_volume_def vol_constraints_def vol_tokens_def used_devices_def live_volids_def vol_row_ok_def int4_def)
  have "\<exists>w l. hand_over_disk ?E ''vol-1'' ?l 4999 5000 ''unused0'' (?w, no_location) =
      (Inl (Wrap (''move to VM '' @ itoa 5000) (Failed ''unreachable'')), (w, l)) \<and> w_log w \<noteq> []"
    using ok
    by (simp add: hand_over_disk_def record_location_def set_loc_def get_loc_def on_world_def cloud_eval
        RecordLocation_def set_vol_def update_where_def vol_by_id_def vol_constrained_def moving_def
        offline_pve_def unreachable_def example_volume_def empty_ledger_def cong: cloud_lazy)
  then obtain w l where run: "hand_over_disk ?E ''vol-1'' ?l 4999 5000 ''unused0'' (?w, no_location) =
      (Inl (Wrap (''move to VM '' @ itoa 5000) (Failed ''unreachable'')), (w, l))" and log: "w_log w \<noteq> []"
    by blast
  have "recorded ''vol-1'' ?l (w_db ?w)" "w_log ?w = []"
    by (simp_all add: recorded_def start_world_def) (simp add: example_volume_def)
  then show ?thesis
    using move_is_recorded_first [OF _ _ run, of ?l] run log by (auto simp: others_keep_def)
qed

end
