(* ===== verification/Request_Steps.thy ===== *)
theory Request_Steps
  imports Instance_Worker
begin

text \<open>
  What the handlers of API requests share: locking the row a request names, the answers for a row
  that is missing, not the caller's or in the wrong state, and the rules for the bodies of their
  transactions. \<open>authorize\<close> and \<open>audit\<close> are the closures the HTTP layer passes in.
\<close>

section \<open>Rules\<close>

lemma in_tx_of_res: "(\<And>x d. P d \<Longrightarrow> r = Inr x \<Longrightarrow> Q x d) \<Longrightarrow> in_tx P (of_res r) Q"
  by (cases r) (auto simp: in_tx_def triple_def of_res_def db_inv_def)

lemma in_tx_catchE:
  fixes m :: "('h, 'a) cloud"
  shows "in_tx P m Q \<Longrightarrow> (\<And>e. \<exists>e'. h e = raise e') \<Longrightarrow> in_tx P (catchE m h) Q"
  unfolding catchE_def by (rule in_tx_attempt [where R = Q]) (auto intro: in_tx_ret)

text \<open>An error after which the transaction only cleans up outside and fails: nothing is left to show.\<close>

lemma in_tx_fails:
  fixes m :: "('h, 'a) cloud"
  assumes "\<And>w. \<exists>e' w'. m w = (Inl e', w')"
  shows "in_tx P m Q"
  unfolding in_tx_def triple_def
proof (intro allI impI)
  fix w :: "'h world"
  from assms [of w] obtain e w' where "m w = (Inl e, w')" by blast
  then show "case m w of (Inl e, w') \<Rightarrow> True | (Inr x, w') \<Rightarrow> db_inv (Q x) w'"
    by simp
qed

lemma in_tx_clean_up: "in_tx P (seqE (logged m) (raise e)) Q"
  by (rule in_tx_fails) (auto simp: logged_def prog_defs split: prod.split)

lemma in_tx_attempt_fail:
  fixes m :: "('h, 'a) cloud"
  assumes "in_tx P m R" and "\<And>e. in_tx (\<lambda>_. True) (k (Inl e)) Q" and "\<And>x. in_tx (R x) (k (Inr x)) Q"
  shows "in_tx P (attempt m k) Q"
  unfolding in_tx_def triple_def
proof (intro allI impI)
  fix w :: "'h world" assume w: "db_inv P w"
  obtain r v where m: "m w = (r, v)" by fastforce
  show "case attempt m k w of (Inl e, w') \<Rightarrow> True | (Inr x, w') \<Rightarrow> db_inv (Q x) w'"
  proof (cases r)
    case (Inl e)
    then show ?thesis
      using m assms(2) [of e] by (simp add: attempt_def in_tx_def triple_def db_inv_def)
  next
    case (Inr x)
    then have "db_inv (R x) v"
      using assms(1) w m by (auto simp: in_tx_def triple_def)
    then show ?thesis
      using m Inr assms(3) [of x] by (simp add: attempt_def in_tx_def triple_def)
  qed
qed

lemma in_tx_catchE_fail:
  fixes m :: "('h, 'a) cloud"
  shows "in_tx P m Q \<Longrightarrow> (\<And>e. in_tx (\<lambda>_. True) (h e) Q) \<Longrightarrow> in_tx P (catchE m h) Q"
  unfolding catchE_def by (rule in_tx_attempt_fail [where R = Q]) (auto intro: in_tx_ret)

text \<open>A read whose answer the code looks at.\<close>

lemma in_tx_look:
  fixes E :: "'h env"
  assumes "\<And>e. in_tx (\<lambda>d. P d \<and> (f d = Inl e \<or> e = db_failed)) (k (Inl e)) Q"
    and "\<And>x. in_tx (\<lambda>d. P d \<and> f d = Inr x) (k (Inr x)) Q"
  shows "in_tx P (attempt (sql E (\<lambda>_. reading f)) k) Q"
  unfolding in_tx_def triple_def
proof (intro allI impI)
  fix w :: "'h world" assume w: "db_inv P w"
  obtain r v where read: "sql E (\<lambda>_. reading f) w = (r, v)" by fastforce
  then have v: "w_db v = w_db w" and r: "r = f (w_db w) \<or> r = Inl db_failed"
    by (auto simp: sql_def reading_def Let_def split: if_splits)
  show "case attempt (sql E (\<lambda>_. reading f)) k w of (Inl e, w') \<Rightarrow> True | (Inr x, w') \<Rightarrow> db_inv (Q x) w'"
  proof (cases r)
    case (Inl e)
    then have "db_inv (\<lambda>d. P d \<and> (f d = Inl e \<or> e = db_failed)) v"
      using w v r by (auto simp: db_inv_def)
    then show ?thesis
      using assms(1) [of e] Inl read by (simp add: attempt_def in_tx_def triple_def)
  next
    case (Inr x)
    then have "db_inv (\<lambda>d. P d \<and> f d = Inr x) v"
      using w v r by (simp add: db_inv_def)
    then show ?thesis
      using assms(2) [of x] Inr read by (simp add: attempt_def in_tx_def triple_def)
  qed
qed

text \<open>What a committed transaction leaves, in terms of the ledger it started from.\<close>

lemma tx_result:
  fixes E :: "'h env"
  assumes "tx E body w = (Inr x, w')" and "P (w_db (interfere E w))" and "in_tx P body Q"
  shows "Q x (w_db w')"
proof -
  obtain r v where run: "body (interfere E w) = (r, v)" by fastforce
  with assms(1) have r: "r = Inr x" and w': "w_db w' = w_db v"
    by (auto simp: tx_def Let_def split: prod.splits sum.splits if_splits)
  have "db_inv (Q x) v"
    using assms(2,3) run r by (auto simp: in_tx_def triple_def db_inv_def)
  with w' show ?thesis
    by (simp add: db_inv_def)
qed

lemma tx_error:
  fixes E :: "'h env"
  shows "tx E body w = (Inl e, w') \<Longrightarrow> w_db w' = w_db (interfere E w)"
  by (auto simp: tx_def Let_def split: prod.splits sum.splits if_splits)

lemma bindE_InrE: "bindE m f w = (Inr y, w') \<Longrightarrow> (\<And>x v. m w = (Inr x, v) \<Longrightarrow> f x v = (Inr y, w') \<Longrightarrow> thesis) \<Longrightarrow> thesis"
  by (auto simp: bindE_def split: prod.splits sum.splits)

lemma seqE_InrE: "seqE m n w = (Inr y, w') \<Longrightarrow> (\<And>v. m w = (Inr (), v) \<Longrightarrow> n v = (Inr y, w') \<Longrightarrow> thesis) \<Longrightarrow> thesis"
  by (auto simp: seqE_def bindE_def split: prod.splits sum.splits)

lemma wake_ret: "seqE Wake (ret x) w = (r, w') \<longleftrightarrow> r = Inr x \<and> w' = w\<lparr>w_wake := True\<rparr>"
  by (auto simp: Wake_def prog_defs)

text \<open>A program that leaves the ledger alone, such as a random number.\<close>

definition ledger_free :: "('h, 'a) cloud \<Rightarrow> bool" where
  "ledger_free m \<longleftrightarrow> (\<forall>w. w_db (snd (m w)) = w_db w)"

lemma ledger_free_step: "ledger_free m \<Longrightarrow> m w = (r, w') \<Longrightarrow> w_db w' = w_db w"
  by (metis ledger_free_def snd_conv)

lemma ledger_free_keeps: "ledger_free m \<longleftrightarrow> (\<forall>P. keeps (db_inv P) m)"
proof
  assume "\<forall>P. keeps (db_inv P) m"
  then have "w_db (snd (m w)) = w_db w" for w
    by (auto simp: keeps_def db_inv_def dest: spec [where x = "\<lambda>d. d = w_db w"])
  then show "ledger_free m"
    by (simp add: ledger_free_def)
qed (simp add: ledger_free_def keeps_def db_inv_def)

lemma in_tx_ledger_free: "ledger_free m \<Longrightarrow> in_tx P m (\<lambda>_. P)"
  by (simp add: ledger_free_keeps in_tx_keeps)

section \<open>Locking the row a request names\<close>

definition bad_request :: err where "bad_request = Refuse 400 ''InvalidParameterValue''"
definition instance_not_found :: err where "instance_not_found = Refuse 404 ''InvalidInstanceID.NotFound''"
definition incorrect_state :: err where "incorrect_state = Refuse 409 ''IncorrectInstanceState''"
definition volume_not_found :: err where "volume_not_found = Refuse 404 ''InvalidVolume.NotFound''"
definition group_not_found :: err where "group_not_found = Refuse 404 ''InvalidGroup.NotFound''"

definition lock_row ::
    "'h env \<Rightarrow> (ledger \<Rightarrow> 'r res) \<Rightarrow> err \<Rightarrow> ('r \<Rightarrow> bool) \<Rightarrow> ('h, 'r) cloud" where
  "lock_row E get missing authorize =
     attempt (sql E (\<lambda>_. reading get)) (\<lambda>r. case r of
         Inl e \<Rightarrow> raise (if err_is e NotFound then missing else e)
       | Inr x \<Rightarrow> if authorize x then ret x else raise missing)"

definition lock_instance :: "'h env \<Rightarrow> string \<Rightarrow> (instance_row \<Rightarrow> bool) \<Rightarrow> ('h, instance_row) cloud" where
  "lock_instance E k = lock_row E (\<lambda>d. GetInstance k (d_instances d)) instance_not_found"

definition lock_volume :: "'h env \<Rightarrow> string \<Rightarrow> (volume_row \<Rightarrow> bool) \<Rightarrow> ('h, volume_row) cloud" where
  "lock_volume E k = lock_row E (\<lambda>d. GetVolume k (d_volumes d)) volume_not_found"

definition lock_group :: "'h env \<Rightarrow> string \<Rightarrow> (group_row \<Rightarrow> bool) \<Rightarrow> ('h, group_row) cloud" where
  "lock_group E k = lock_row E (GetSecurityGroup k) group_not_found"

lemma in_tx_lock_row:
  fixes E :: "'h env"
  assumes "\<And>d x. P d \<Longrightarrow> get d = Inr x \<Longrightarrow> authorize x \<Longrightarrow> Q x d"
  shows "in_tx P (lock_row E get missing authorize) Q"
  unfolding lock_row_def
  by (rule in_tx_attempt [where R = "\<lambda>x d. P d \<and> get d = Inr x"])
    (auto intro!: in_tx_reading in_tx_if in_tx_raise in_tx_ret assms)

lemma in_tx_lock_instance:
  fixes E :: "'h env"
  assumes "\<And>d i. P d \<Longrightarrow> GetInstance k (d_instances d) = Inr i \<Longrightarrow> i \<in> set (d_instances d) \<Longrightarrow> i_id i = k \<Longrightarrow>
    authorize i \<Longrightarrow> Q i d"
  shows "in_tx P (lock_instance E k authorize) Q"
  unfolding lock_instance_def
  by (rule in_tx_lock_row) (auto simp: GetInstance_def by_id_def dest: select_one_Inr intro!: assms)

lemma in_tx_lock_volume:
  fixes E :: "'h env"
  assumes "\<And>d v. P d \<Longrightarrow> GetVolume k (d_volumes d) = Inr v \<Longrightarrow> v \<in> set (d_volumes d) \<Longrightarrow> v_id v = k \<Longrightarrow>
    authorize v \<Longrightarrow> Q v d"
  shows "in_tx P (lock_volume E k authorize) Q"
  unfolding lock_volume_def
  by (rule in_tx_lock_row) (auto simp: GetVolume_def vol_by_id_def dest: select_one_Inr intro!: assms)

lemma in_tx_lock_group:
  fixes E :: "'h env"
  assumes "\<And>d g. P d \<Longrightarrow> g \<in> set (d_groups d) \<Longrightarrow> g_id g = k \<Longrightarrow> authorize g \<Longrightarrow> Q g d"
  shows "in_tx P (lock_group E k authorize) Q"
  unfolding lock_group_def
  by (rule in_tx_lock_row) (auto simp: GetSecurityGroup_def dest: select_one_Inr intro!: assms)

lemma ledger_free_lock_row: "ledger_free (lock_row E get missing authorize)"
  unfolding ledger_free_keeps lock_row_def by (intro allI keeps_intros keeps_sql)

end
