(* ===== verification/Group_Admission.thy ===== *)
theory Group_Admission
  imports Request_Steps
begin

text \<open>
  \<open>compute/securitygroups.go\<close>: the requests that create and delete security groups, change their
  rules, and choose the groups of an instance. Each runs in one transaction; a change of rules bumps
  the firewall generation of every instance that has the group.
\<close>

section \<open>Names, identifiers and limits\<close>

definition maxGroupsPerInstance :: nat where "maxGroupsPerInstance = 5"
definition maxRulesPerDirection :: int where "maxRulesPerDirection = 60"
definition maxGroupsPerAccount :: int where "maxGroupsPerAccount = 20"
definition defaultGroupName :: string where "defaultGroupName = ''default''"

text \<open>The regular expression \<open>^[A-Za-z0-9][A-Za-z0-9 ._:@-]{0,63}$\<close>.\<close>

definition groupName :: "string \<Rightarrow> bool" where
  "groupName s \<longleftrightarrow> s \<noteq> [] \<and> length s \<le> 64 \<and> (is_letter (hd s) \<or> is_digit (hd s)) \<and>
     list_all (\<lambda>c. is_letter c \<or> is_digit c \<or> c \<in> set '' ._:@-'') s"

definition too_long_text :: "string \<Rightarrow> bool" where
  "too_long_text s \<longleftrightarrow> \<not> valid_utf8 s \<or> rune_count s > 255"

record rule_request =
  q_protocol :: string
  q_from_port :: "int option"
  q_to_port :: "int option"
  q_cidr :: string
  q_description :: string

definition newGroupID :: "'h env \<Rightarrow> ('h, string) cloud" where
  "newGroupID E = bindE (random_hex E) (\<lambda>h. ret (''sg-'' @ h))"

definition newRuleID :: "'h env \<Rightarrow> ('h, string) cloud" where
  "newRuleID E = bindE (random_hex E) (\<lambda>h. ret (''sgr-'' @ h))"

definition new_rule :: "string \<Rightarrow> string \<Rightarrow> direction \<Rightarrow> string \<Rightarrow> int option \<Rightarrow> int option \<Rightarrow> prefix \<Rightarrow> string \<Rightarrow> rule_row" where
  "new_rule k grp dir proto from_port to_port cidr description = \<lparr>gr_id = k, gr_group = grp, gr_direction = dir,
     gr_protocol = proto, gr_from_port = from_port, gr_to_port = to_port, gr_cidr = cidr,
     gr_description = description, gr_created_at = 0\<rparr>"

definition new_group :: "string \<Rightarrow> string \<Rightarrow> string \<Rightarrow> string \<Rightarrow> group_row" where
  "new_group k acct name description = \<lparr>g_id = k, g_account = acct, g_name = name, g_description = description,
     g_default = False, g_created_at = 0, g_updated_at = 0\<rparr>"

text \<open>\<open>0.0.0.0/0\<close> and \<open>::/0\<close>.\<close>

definition allTraffic :: "'h env \<Rightarrow> direction \<Rightarrow> ('h, rule_row list) cloud" where
  "allTraffic E dir =
     bindE (newRuleID E) (\<lambda>a. bindE (newRuleID E) (\<lambda>b.
       ret [new_rule a '''' dir ''all'' None None (Prefix (V4 0) 0) '''',
            new_rule b '''' dir ''all'' None None (Prefix (V6 0 []) 0) '''']))"

section \<open>Creating and deleting groups\<close>

definition EnsureDefaultSecurityGroup' :: "'h env \<Rightarrow> string \<Rightarrow> ('h, group_row) cloud" where
  "EnsureDefaultSecurityGroup' E acct =
     bindE (newGroupID E) (\<lambda>k.
     bindE (allTraffic E DirectionIngress) (\<lambda>ingress.
     bindE (allTraffic E DirectionEgress) (\<lambda>egress.
     bindE (sql E (\<lambda>now. EnsureDefaultSecurityGroup now
              (new_group k acct defaultGroupName ''default group: allows all traffic'') (ingress @ egress)))
       (\<lambda>(g, _). ret g))))"

definition create_group_tx ::
    "'h env \<Rightarrow> string \<Rightarrow> string \<Rightarrow> string \<Rightarrow> (group_row \<Rightarrow> unit res) \<Rightarrow> ('h, group_row) cloud" where
  "create_group_tx E acct name description audit =
     seqE (sql E (\<lambda>_. LockCapacity))
     (bindE (EnsureDefaultSecurityGroup' E acct) (\<lambda>_.
     bindE (sql E (\<lambda>_. reading (\<lambda>d. Inr (CountSecurityGroups acct d)))) (\<lambda>count.
       if count \<ge> maxGroupsPerAccount then raise (Refuse 409 ''SecurityGroupLimitExceeded'')
       else bindE (newGroupID E) (\<lambda>k.
         bindE (catchE (sql E (\<lambda>now. InsertSecurityGroup now (new_group k acct name description)))
                  (\<lambda>e. raise (if err_is e Duplicate then Refuse 409 ''InvalidGroup.Duplicate'' else e))) (\<lambda>g.
         bindE (allTraffic E DirectionEgress) (\<lambda>egress.
         seqE (sql E (\<lambda>now. InsertSecurityGroupRules now (map (\<lambda>r. r\<lparr>gr_group := g_id g\<rparr>) egress)))
         (seqE (of_res (audit g)) (ret g))))))))"

definition CreateSecurityGroup ::
    "'h env \<Rightarrow> string \<Rightarrow> string \<Rightarrow> string \<Rightarrow> (group_row \<Rightarrow> unit res) \<Rightarrow> ('h, group_row) cloud" where
  "CreateSecurityGroup E acct name description audit =
     (if \<not> groupName name then raise bad_request
      else if lower_str name = defaultGroupName then raise bad_request
      else if too_long_text description then raise bad_request
      else tx E (create_group_tx E acct name description audit))"

definition DeleteSecurityGroup' ::
    "'h env \<Rightarrow> string \<Rightarrow> (group_row \<Rightarrow> bool) \<Rightarrow> (group_row \<Rightarrow> unit res) \<Rightarrow> ('h, unit) cloud" where
  "DeleteSecurityGroup' E k authorize audit =
     tx E (bindE (lock_group E k authorize) (\<lambda>g.
       if g_default g then raise (Refuse 409 ''CannotDelete'')
       else bindE (sql E (\<lambda>_. reading (\<lambda>d. Inr (GroupInstances k d)))) (\<lambda>using.
         if using \<noteq> [] then raise (Refuse 409 ''DependencyViolation'')
         else seqE (sql E (\<lambda>_. DeleteSecurityGroup k)) (of_res (audit g)))))"

section \<open>Rules\<close>

definition rule_problem :: "rule_request \<Rightarrow> bool" where
  "rule_problem r =
     (case parse_prefix (q_cidr r) of
        None \<Rightarrow> True
      | Some p \<Rightarrow>
          if masked p \<noteq> p then True
          else if (if q_protocol r = ''tcp'' \<or> q_protocol r = ''udp'' then
                (case (q_from_port r, q_to_port r) of
                   (Some f, Some t) \<Rightarrow> f < 0 \<or> t > 65535 \<or> f > t | _ \<Rightarrow> True)
              else if q_protocol r = ''icmp'' \<or> q_protocol r = ''icmpv6'' \<or> q_protocol r = ''all''
              then q_from_port r \<noteq> None \<or> q_to_port r \<noteq> None
              else True) then True
          else if q_protocol r = ''icmp'' \<and> \<not> is4 (pfx_addr p) then True
          else if q_protocol r = ''icmpv6'' \<and> is4 (pfx_addr p) then True
          else too_long_text (q_description r))"

fun rule_rows :: "'h env \<Rightarrow> string \<Rightarrow> direction \<Rightarrow> rule_request list \<Rightarrow> ('h, rule_row list) cloud" where
  "rule_rows E grp dir [] = ret []"
| "rule_rows E grp dir (r # rs) =
     (if rule_problem r then raise bad_request
      else case parse_prefix (q_cidr r) of
          None \<Rightarrow> raise bad_request
        | Some p \<Rightarrow> bindE (newRuleID E) (\<lambda>k.
            bindE (rule_rows E grp dir rs) (\<lambda>rows.
              ret (new_rule k grp dir (q_protocol r) (q_from_port r) (q_to_port r) p (q_description r) # rows))))"

definition validateRules :: "'h env \<Rightarrow> string \<Rightarrow> direction \<Rightarrow> rule_request list \<Rightarrow> ('h, rule_row list) cloud" where
  "validateRules E grp dir requests =
     (if requests = [] then raise bad_request else rule_rows E grp dir requests)"

definition authorize_rules_tx ::
    "'h env \<Rightarrow> string \<Rightarrow> direction \<Rightarrow> rule_row list \<Rightarrow> (group_row \<Rightarrow> bool) \<Rightarrow>
     (group_row \<Rightarrow> rule_row list \<Rightarrow> unit res) \<Rightarrow> ('h, group_row) cloud" where
  "authorize_rules_tx E k dir rules authorize audit =
     bindE (lock_group E k authorize) (\<lambda>g.
       bindE (sql E (\<lambda>_. reading (\<lambda>d. Inr (CountRules k dir d)))) (\<lambda>count.
         if count + int (length rules) > maxRulesPerDirection
         then raise (Refuse 409 ''RulesPerSecurityGroupLimitExceeded'')
         else seqE (catchE (sql E (\<lambda>now. InsertSecurityGroupRules now rules))
                (\<lambda>e. raise (if err_is e Duplicate then Refuse 409 ''InvalidPermission.Duplicate'' else e)))
           (seqE (sql E (\<lambda>now. BumpFirewallOfGroup now k))
           (seqE (of_res (audit g rules)) (ret g)))))"

definition AuthorizeRules ::
    "'h env \<Rightarrow> string \<Rightarrow> direction \<Rightarrow> rule_request list \<Rightarrow> (group_row \<Rightarrow> bool) \<Rightarrow>
     (group_row \<Rightarrow> rule_row list \<Rightarrow> unit res) \<Rightarrow> ('h, group_row) cloud" where
  "AuthorizeRules E k dir requests authorize audit =
     bindE (validateRules E k dir requests) (\<lambda>rules.
     bindE (tx E (authorize_rules_tx E k dir rules authorize audit)) (\<lambda>g. seqE Wake (ret g)))"

definition RevokeRule ::
    "'h env \<Rightarrow> string \<Rightarrow> string \<Rightarrow> (group_row \<Rightarrow> bool) \<Rightarrow> (group_row \<Rightarrow> unit res) \<Rightarrow> ('h, group_row) cloud" where
  "RevokeRule E k rule authorize audit =
     bindE (tx E (bindE (lock_group E k authorize) (\<lambda>g.
       seqE (catchE (sql E (\<lambda>now. DeleteSecurityGroupRule now k rule))
              (\<lambda>e. raise (if err_is e NotFound then Refuse 404 ''InvalidPermission.NotFound'' else e)))
         (seqE (sql E (\<lambda>now. BumpFirewallOfGroup now k))
         (seqE (of_res (audit g)) (ret g))))))
     (\<lambda>g. seqE Wake (ret g))"

section \<open>The groups of an instance\<close>

definition lock_groups_of :: "'h env \<Rightarrow> string \<Rightarrow> string list \<Rightarrow> ('h, unit) cloud" where
  "lock_groups_of E acct ids = for_eachE ids (\<lambda>k.
     attempt (sql E (\<lambda>_. reading (GetSecurityGroup k))) (\<lambda>r. case r of
         Inl e \<Rightarrow> raise (if err_is e NotFound then Refuse 400 ''InvalidGroup.NotFound'' else e)
       | Inr g \<Rightarrow> whenE (g_account g \<noteq> acct) (raise (Refuse 400 ''InvalidGroup.NotFound''))))"

definition resolveGroups :: "'h env \<Rightarrow> string \<Rightarrow> string list \<Rightarrow> ('h, string list) cloud" where
  "resolveGroups E acct group_ids =
     (if group_ids = [] then bindE (EnsureDefaultSecurityGroup' E acct) (\<lambda>g. ret [g_id g])
      else let ids = rev (remdups (rev group_ids)) in
        if length ids > maxGroupsPerInstance then raise (Refuse 409 ''SecurityGroupsPerInstanceLimitExceeded'')
        else let ids = sort ids in seqE (lock_groups_of E acct ids) (ret ids))"

definition SetInstanceSecurityGroups ::
    "'h env \<Rightarrow> string \<Rightarrow> string list \<Rightarrow> (instance_row \<Rightarrow> bool) \<Rightarrow> (instance_row \<Rightarrow> unit res) \<Rightarrow>
     ('h, instance_row) cloud" where
  "SetInstanceSecurityGroups E k group_ids authorize audit =
     (if group_ids = [] then raise bad_request
      else bindE (tx E (bindE (lock_instance E k authorize) (\<lambda>i.
          if i_state i = StateTerminated \<or> i_state i = StateShuttingDown then raise incorrect_state
          else bindE (resolveGroups E (i_account i) group_ids) (\<lambda>ids.
            seqE (sql E (\<lambda>now. SetInstanceGroups now k ids))
            (bindE (sql E (\<lambda>_. reading (\<lambda>d. GetInstance k (d_instances d)))) (\<lambda>i.
              seqE (of_res (audit i)) (ret i)))))))
        (\<lambda>i. seqE Wake (ret i)))"


section \<open>What the limits promise\<close>

text \<open>
  The invariant of the group tables: the database's constraints; at most 20 groups an account, the
  default one among them as soon as it has any; at most 60 rules a group and direction; at most 5
  groups an instance, all of the instance's own account.
\<close>

definition has_default :: "string \<Rightarrow> ledger \<Rightarrow> bool" where
  "has_default acct d \<longleftrightarrow> (\<exists>g \<in> set (d_groups d). g_account g = acct \<and> g_default g)"

definition accounts_within :: "ledger \<Rightarrow> bool" where
  "accounts_within d \<longleftrightarrow> (\<forall>acct. CountSecurityGroups acct d \<le> maxGroupsPerAccount \<and>
     (CountSecurityGroups acct d > 0 \<longrightarrow> has_default acct d))"

definition rules_within :: "ledger \<Rightarrow> bool" where
  "rules_within d \<longleftrightarrow> (\<forall>k dir. CountRules k dir d \<le> maxRulesPerDirection)"

definition groups_of :: "string \<Rightarrow> ledger \<Rightarrow> string list" where
  "groups_of inst d = map snd (filter (\<lambda>(i, g). i = inst) (d_members d))"

definition members_within :: "ledger \<Rightarrow> bool" where
  "members_within d \<longleftrightarrow> (\<forall>inst. length (groups_of inst d) \<le> maxGroupsPerInstance)"

definition owns_group :: "string \<Rightarrow> string \<Rightarrow> ledger \<Rightarrow> bool" where
  "owns_group acct k d \<longleftrightarrow> (\<exists>g \<in> set (d_groups d). g_id g = k \<and> g_account g = acct)"

definition owns_instance :: "string \<Rightarrow> string \<Rightarrow> inst_table \<Rightarrow> bool" where
  "owns_instance acct k t \<longleftrightarrow> (\<exists>i \<in> set t. i_id i = k \<and> i_account i = acct)"

definition same_tenant :: "ledger \<Rightarrow> bool" where
  "same_tenant d \<longleftrightarrow> (\<forall>(i, g) \<in> set (d_members d).
     \<exists>acct. owns_instance acct i (d_instances d) \<and> owns_group acct g d)"

definition group_inv :: "ledger \<Rightarrow> bool" where
  "group_inv d \<longleftrightarrow> group_constraints d \<and> accounts_within d \<and> rules_within d \<and> members_within d \<and> same_tenant d"

lemma same_tenantI:
  "(\<And>i g. (i, g) \<in> set (d_members d) \<Longrightarrow> \<exists>acct. owns_instance acct i (d_instances d) \<and> owns_group acct g d) \<Longrightarrow>
   same_tenant d"
  by (auto simp: same_tenant_def)

lemma same_tenantE:
  assumes "same_tenant d" and "(i, g) \<in> set (d_members d)"
  obtains acct where "owns_instance acct i (d_instances d)" and "owns_group acct g d"
  using assms by (auto simp: same_tenant_def)

subsection \<open>What the statements do to the tables\<close>

lemma grp_constrained_Inr: "grp_constrained d d' (Inr x) = (Inr y, d'') \<Longrightarrow> y = x \<and> d'' = d' \<and> group_constraints d'"
  by (simp add: grp_constrained_def split: if_splits)

lemma insert_rules_Inr:
  "insert_rules now rs d = (Inr u, d') \<Longrightarrow>
   d' = d\<lparr>d_rules := d_rules d @ map (\<lambda>r. r\<lparr>gr_created_at := now\<rparr>) rs\<rparr>"
proof (induction rs arbitrary: d)
  case (Cons r rs)
  then show ?case
    by (fastforce split: if_splits prod.splits sum.splits dest: grp_constrained_Inr)
qed simp

lemma InsertSecurityGroupRules_Inr:
  "InsertSecurityGroupRules now rules d = (Inr u, d') \<Longrightarrow>
   d' = d\<lparr>d_rules := d_rules d @ map (\<lambda>r. r\<lparr>gr_created_at := now\<rparr>) rules,
          d_groups := update_where (\<lambda>g. g_id g \<in> set (map gr_group rules)) (\<lambda>g. g\<lparr>g_updated_at := now\<rparr>) (d_groups d)\<rparr> \<and>
   group_constraints d'"
  by (auto simp: InsertSecurityGroupRules_def then_stmt_def split: prod.splits sum.splits
      dest!: insert_rules_Inr grp_constrained_Inr)

text \<open>A touched \<open>updated_at\<close> shows in none of the counts.\<close>

definition group_key :: "group_row \<Rightarrow> string \<times> string \<times> string \<times> bool" where
  "group_key g = (g_id g, g_account g, g_name g, g_default g)"

lemma group_key_touch: "map group_key (update_where c (\<lambda>g. g\<lparr>g_updated_at := now\<rparr>) gs) = map group_key gs"
  by (rule map_update_where) (simp add: group_key_def)

lemma by_group_key:
  assumes "map group_key (d_groups d') = map group_key (d_groups d)"
  shows "CountSecurityGroups acct d' = CountSecurityGroups acct d" (is ?c)
    and "has_default acct d' = has_default acct d" (is ?h)
    and "owns_group acct k d' = owns_group acct k d" (is ?o)
proof -
  have count: "CountSecurityGroups acct e = int (length (filter (\<lambda>(k, a, n, b). a = acct) (map group_key (d_groups e))))" for e
    by (simp add: CountSecurityGroups_def group_key_def filter_map comp_def)
  have default: "has_default acct e \<longleftrightarrow> (\<exists>(k, a, n, b) \<in> set (map group_key (d_groups e)). a = acct \<and> b)" for e
    by (auto simp: has_default_def group_key_def)
  have owner: "owns_group acct k e \<longleftrightarrow> (\<exists>(j, a, n, b) \<in> set (map group_key (d_groups e)). j = k \<and> a = acct)" for e
    by (auto simp: owns_group_def group_key_def)
  show ?c ?h ?o
    by (simp_all only: count default owner assms)
qed

lemma CountRules_append:
  "CountRules k dir (d\<lparr>d_rules := d_rules d @ rs\<rparr>) =
   CountRules k dir d + int (length (filter (\<lambda>r. gr_group r = k \<and> gr_direction r = dir) rs))"
  by (simp add: CountRules_def)

lemma CountRules_rules: "d_rules d' = d_rules d \<Longrightarrow> CountRules k dir d' = CountRules k dir d"
  by (simp add: CountRules_def)

lemma no_rules_yet: "group_constraints d \<Longrightarrow> k \<notin> g_id ` set (d_groups d) \<Longrightarrow> CountRules k dir d = 0"
  unfolding CountRules_def group_constraints_def by (force simp: filter_empty_conv)


subsection \<open>Statements that keep the invariant\<close>

lemma group_inv_same_members:
  assumes inv: "group_inv d" and ok: "group_constraints d'"
    and "map group_key (d_groups d') = map group_key (d_groups d)" and "d_members d' = d_members d"
    and "\<And>acct k. owns_instance acct k (d_instances d) \<Longrightarrow> owns_instance acct k (d_instances d')"
    and "rules_within d'"
  shows "group_inv d'"
proof -
  note key = by_group_key [OF assms(3)]
  have tenant: "same_tenant d"
    using inv by (simp add: group_inv_def)
  have "same_tenant d'"
  proof (rule same_tenantI)
    fix i g assume "(i, g) \<in> set (d_members d')"
    then obtain acct where "owns_instance acct i (d_instances d)" and "owns_group acct g d"
      using same_tenantE [OF tenant] assms(4) by metis
    then have "owns_instance acct i (d_instances d') \<and> owns_group acct g d'"
      using assms(5) key(3) by simp
    then show "\<exists>acct. owns_instance acct i (d_instances d') \<and> owns_group acct g d'" ..
  qed
  moreover have "accounts_within d'" and "members_within d'"
    using inv assms(4) by (simp_all add: group_inv_def accounts_within_def key members_within_def groups_of_def)
  ultimately show ?thesis
    using ok assms(6) by (simp add: group_inv_def)
qed

text \<open>An account that has no default group has no group.\<close>

lemma first_group:
  assumes inv: "group_inv d" and no: "\<not> has_default (g_account g) d"
    and ok: "group_constraints d'" and default: "g_default g" and new: "g_id g \<notin> g_id ` set (d_groups d)"
    and groups: "map group_key (d_groups d') = map group_key (d_groups d @ [g])"
    and same: "d_members d' = d_members d" "d_instances d' = d_instances d"
    and rules: "d_rules d' = d_rules d @ rs" "\<And>dir. length (filter (\<lambda>r. gr_direction r = dir) rs) \<le> 60"
      "\<forall>r \<in> set rs. gr_group r = g_id g"
  shows "group_inv d'"
proof -
  let ?e = "d\<lparr>d_groups := d_groups d @ [g]\<rparr>"
  have key: "map group_key (d_groups d') = map group_key (d_groups ?e)"
    using groups by simp
  have zero: "CountSecurityGroups (g_account g) d = 0"
  proof -
    have "\<not> CountSecurityGroups (g_account g) d > 0"
      using inv no by (auto simp: group_inv_def accounts_within_def)
    then show ?thesis
      by (simp add: CountSecurityGroups_def)
  qed
  have "accounts_within d"
    using inv by (simp add: group_inv_def)
  then have "accounts_within d'"
    unfolding accounts_within_def by_group_key [OF key]
    using zero default
    by (auto simp: CountSecurityGroups_def has_default_def maxGroupsPerAccount_def)
  moreover have "rules_within d'"
    unfolding rules_within_def
  proof (intro allI)
    fix k dir
    show "CountRules k dir d' \<le> maxRulesPerDirection"
    proof (cases "k = g_id g")
      case True
      have "CountRules k dir d' = CountRules k dir d + int (length (filter (\<lambda>r. gr_direction r = dir) rs))"
        using rules True by (simp add: CountRules_def rules(1) cong: filter_cong)
      moreover have "CountRules k dir d = 0"
        using inv new True by (simp add: no_rules_yet group_inv_def)
      ultimately show ?thesis
        using rules(2) [of dir] by (simp add: maxRulesPerDirection_def)
    next
      case False
      have none: "filter (\<lambda>r. gr_group r = k \<and> gr_direction r = dir) rs = []"
        using False rules(3) by (auto simp: filter_empty_conv)
      have "CountRules k dir d' = CountRules k dir d"
        unfolding CountRules_def rules(1) by (simp add: none)
      with inv show ?thesis
        by (simp add: group_inv_def rules_within_def)
    qed
  qed
  moreover have "members_within d'"
    using inv same by (simp add: group_inv_def members_within_def groups_of_def)
  moreover have "same_tenant d'"
  proof (rule same_tenantI)
    fix i k assume "(i, k) \<in> set (d_members d')"
    then have "(i, k) \<in> set (d_members d)"
      by (simp add: same)
    moreover have "same_tenant d"
      using inv by (simp add: group_inv_def)
    ultimately obtain acct where "owns_instance acct i (d_instances d)" and "owns_group acct k d"
      by (blast elim: same_tenantE)
    then show "\<exists>acct. owns_instance acct i (d_instances d') \<and> owns_group acct k d'"
      unfolding by_group_key [OF key] same by (auto simp: owns_group_def)
  qed
  ultimately show ?thesis
    using ok by (simp add: group_inv_def)
qed

definition default_rules :: "rule_row list \<Rightarrow> bool" where
  "default_rules rs \<longleftrightarrow> (\<forall>dir. length (filter (\<lambda>r. gr_direction r = dir) rs) \<le> 60)"

lemma EnsureDefaultSecurityGroup_Inr:
  assumes run: "EnsureDefaultSecurityGroup now g rules d = (Inr (h, made), d')"
    and inv: "group_inv d" and few: "default_rules rules"
  shows "group_inv d' \<and> g_account h = g_account g \<and> owns_group (g_account g) (g_id h) d' \<and>
    has_default (g_account g) d' \<and> d_instances d' = d_instances d \<and> d_volumes d' = d_volumes d \<and>
    d_quarantine d' = d_quarantine d"
proof (cases "has_default (g_account g) d")
  case True
  then have "(\<exists>h \<in> set (d_groups d). g_account h = g_account g \<and> g_default h)"
    by (simp add: has_default_def)
  with run have "d' = d" and "h \<in> set (d_groups d)" and "g_account h = g_account g" and "g_default h"
    by (auto simp: EnsureDefaultSecurityGroup_def Let_def split: sum.splits if_splits dest!: select_one_Inr)
  with inv True show ?thesis
    by (auto simp: owns_group_def)
next
  case False
  then have none: "\<not> (\<exists>h \<in> set (d_groups d). g_account h = g_account g \<and> g_default h)"
    by (auto simp: has_default_def)
  let ?row = "g\<lparr>g_default := True, g_created_at := now, g_updated_at := now\<rparr>"
  let ?rules = "map (\<lambda>r. r\<lparr>gr_group := g_id g\<rparr>) rules"
  let ?new = "map (\<lambda>r. r\<lparr>gr_created_at := now\<rparr>) ?rules"
  have no_default: "select_one (\<lambda>h. g_account h = g_account g \<and> g_default h) (d_groups d) \<noteq> Inr x" for x
    using none by (auto dest: select_one_Inr)
  have new: "g_id g \<notin> g_id ` set (d_groups d)" and h: "h = ?row"
    and d': "d' = d\<lparr>d_groups := update_where (\<lambda>x. g_id x \<in> set (map gr_group ?rules))
        (\<lambda>x. x\<lparr>g_updated_at := now\<rparr>) (d_groups d @ [?row]), d_rules := d_rules d @ ?new\<rparr>"
    and ok: "group_constraints d'"
    using run no_default
    by (auto simp: EnsureDefaultSecurityGroup_def Let_def split: prod.splits sum.splits if_splits
        dest!: grp_constrained_Inr InsertSecurityGroupRules_Inr)
  have key: "map group_key (d_groups d') = map group_key (d_groups d @ [?row])"
    by (simp add: d' group_key_touch del: map_append)
  have inv': "group_inv d'"
  proof (rule first_group [OF inv, of ?row])
    show "length (filter (\<lambda>r. gr_direction r = dir) ?new) \<le> 60" for dir
      using few by (simp add: default_rules_def filter_map comp_def)
  qed (use False new ok key in \<open>auto simp: d'\<close>)
  have key': "map group_key (d_groups d') = map group_key (d_groups (d\<lparr>d_groups := d_groups d @ [?row]\<rparr>))"
    using key by simp
  have "owns_group (g_account g) (g_id g) d'" and "has_default (g_account g) d'"
    unfolding by_group_key [OF key'] by (simp_all add: owns_group_def has_default_def)
  moreover have "d_instances d' = d_instances d" "d_volumes d' = d_volumes d" "d_quarantine d' = d_quarantine d"
    by (simp_all add: d')
  ultimately show ?thesis
    using inv' h by simp
qed


section \<open>Transaction bodies\<close>

text \<open>The tables the group statements leave alone.\<close>

definition others_are :: "(inst_table \<Rightarrow> vol_table \<Rightarrow> int list \<Rightarrow> bool) \<Rightarrow> ledger \<Rightarrow> bool" where
  "others_are R d \<longleftrightarrow> R (d_instances d) (d_volumes d) (d_quarantine d)"

lemma ledger_free_ids: "ledger_free (newGroupID E)" "ledger_free (newRuleID E)"
  unfolding ledger_free_keeps newGroupID_def newRuleID_def by (intro allI keeps_intros)+

lemma in_tx_newGroupID: "in_tx P (newGroupID E) (\<lambda>_. P)"
  by (rule in_tx_ledger_free) (rule ledger_free_ids)

lemma in_tx_newRuleID: "in_tx P (newRuleID E) (\<lambda>_. P)"
  by (rule in_tx_ledger_free) (rule ledger_free_ids)

lemma in_tx_allTraffic:
  fixes E :: "'h env"
  shows "in_tx P (allTraffic E dir) (\<lambda>rs d. P d \<and> length rs = 2 \<and> (\<forall>r \<in> set rs. gr_direction r = dir))"
  unfolding allTraffic_def
  by (intro in_tx_bindE [OF in_tx_newRuleID] in_tx_ret) (simp add: new_rule_def)

lemma default_rules_few: "length rs \<le> 60 \<Longrightarrow> default_rules rs"
  unfolding default_rules_def by (meson length_filter_le order_trans)

lemma in_tx_EnsureDefault:
  fixes E :: "'h env"
  shows "in_tx (\<lambda>d. group_inv d \<and> others_are R d) (EnsureDefaultSecurityGroup' E acct)
    (\<lambda>g d. (group_inv d \<and> others_are R d) \<and> owns_group acct (g_id g) d \<and> has_default acct d)"
  unfolding EnsureDefaultSecurityGroup'_def
proof (rule in_tx_bindE [OF in_tx_newGroupID], rule in_tx_bindE [OF in_tx_allTraffic],
    rule in_tx_bindE [OF in_tx_allTraffic], rule in_tx_bindE [where R = "\<lambda>x d. (group_inv d \<and> others_are R d) \<and>
      owns_group acct (g_id (fst x)) d \<and> has_default acct d"], rule in_tx_sql)
  fix k ingress egress now d d' x
  let ?g = "new_group k acct defaultGroupName ''default group: allows all traffic''"
  assume d: "((group_inv d \<and> others_are R d) \<and> length ingress = 2 \<and> (\<forall>r \<in> set ingress. gr_direction r = DirectionIngress)) \<and>
      length egress = 2 \<and> (\<forall>r \<in> set egress. gr_direction r = DirectionEgress)"
    and run: "EnsureDefaultSecurityGroup now ?g (ingress @ egress) d = (Inr x, d')"
  obtain g m where x: "x = (g, m)" by fastforce
  have "g_account ?g = acct"
    by (simp add: new_group_def)
  then show "(group_inv d' \<and> others_are R d') \<and> owns_group acct (g_id (fst x)) d' \<and> has_default acct d'"
    using EnsureDefaultSecurityGroup_Inr [OF run [unfolded x]] d by (simp add: x default_rules_few others_are_def)
qed (auto intro: in_tx_ret split: prod.split)

lemma in_tx_lock_groups:
  fixes E :: "'h env"
  shows "in_tx P (lock_groups_of E acct ids) (\<lambda>_ d. P d \<and> (\<forall>k \<in> set ids. owns_group acct k d))"
proof -
  let ?Q = "\<lambda>ks d. P d \<and> (\<forall>k \<in> set ks. owns_group acct k d)"
  have step: "in_tx (?Q ys) (attempt (sql E (\<lambda>_. reading (GetSecurityGroup k))) (\<lambda>r. case r of
         Inl e \<Rightarrow> raise (if err_is e NotFound then Refuse 400 ''InvalidGroup.NotFound'' else e)
       | Inr g \<Rightarrow> whenE (g_account g \<noteq> acct) (raise (Refuse 400 ''InvalidGroup.NotFound''))))
     (\<lambda>_. ?Q (ys @ [k]))" for ys k
    by (rule in_tx_attempt [where R = "\<lambda>g d. ?Q ys d \<and> g \<in> set (d_groups d) \<and> g_id g = k"])
      (auto intro!: in_tx_reading in_tx_whenE in_tx_raise simp: owns_group_def GetSecurityGroup_def dest: select_one_Inr)
  have "triple (db_inv (?Q [])) (lock_groups_of E acct ids) (\<lambda>_. db_inv (?Q ids)) (\<lambda>_. True)"
    unfolding lock_groups_of_def by (rule triple_for_eachE) (rule step [unfolded in_tx_def])
  then show ?thesis
    by (simp add: in_tx_def)
qed

lemma in_tx_resolveGroups:
  fixes E :: "'h env"
  shows "in_tx (\<lambda>d. group_inv d \<and> others_are R d) (resolveGroups E acct ids)
    (\<lambda>ks d. (group_inv d \<and> others_are R d) \<and> length ks \<le> maxGroupsPerInstance \<and> ks \<noteq> [] \<and>
      (\<forall>k \<in> set ks. owns_group acct k d))"
  unfolding resolveGroups_def Let_def
proof (intro in_tx_if in_tx_raise)
  show "in_tx (\<lambda>d. group_inv d \<and> others_are R d) (bindE (EnsureDefaultSecurityGroup' E acct) (\<lambda>g. ret [g_id g]))
    (\<lambda>ks d. (group_inv d \<and> others_are R d) \<and> length ks \<le> maxGroupsPerInstance \<and> ks \<noteq> [] \<and>
      (\<forall>k \<in> set ks. owns_group acct k d))"
    by (rule in_tx_bindE [OF in_tx_EnsureDefault], rule in_tx_ret) (simp add: maxGroupsPerInstance_def)
next
  let ?ks = "rev (remdups (rev ids))"
  assume "ids \<noteq> []" and "\<not> length ?ks > maxGroupsPerInstance"
  moreover have "sort ?ks = [] \<longleftrightarrow> ids = []"
    by (metis remdups_eq_nil_iff rev.simps(1) rev_rev_ident set_empty set_sort)
  ultimately show "in_tx (\<lambda>d. group_inv d \<and> others_are R d) (seqE (lock_groups_of E acct (sort ?ks)) (ret (sort ?ks)))
    (\<lambda>ks d. (group_inv d \<and> others_are R d) \<and> length ks \<le> maxGroupsPerInstance \<and> ks \<noteq> [] \<and>
      (\<forall>k \<in> set ks. owns_group acct k d))"
    by (intro in_tx_seqE [OF in_tx_lock_groups] in_tx_ret) auto
qed


section \<open>The handlers keep the invariant\<close>

lemma add_group:
  assumes run: "InsertSecurityGroup now (new_group k acct name description) d = (Inr g, d')"
    and inv: "group_inv d" and room: "CountSecurityGroups acct d < maxGroupsPerAccount" and has: "has_default acct d"
  shows "group_inv d' \<and> CountRules (g_id g) dir d' = 0 \<and> d_instances d' = d_instances d \<and>
    d_volumes d' = d_volumes d \<and> d_quarantine d' = d_quarantine d"
proof -
  let ?row = "(new_group k acct name description)\<lparr>g_default := False, g_created_at := now, g_updated_at := now\<rparr>"
  have g: "g = ?row" and d': "d' = d\<lparr>d_groups := d_groups d @ [?row]\<rparr>" and ok: "group_constraints d'"
    using run by (auto simp: InsertSecurityGroup_def Let_def split: if_splits dest: grp_constrained_Inr)
  have count: "CountSecurityGroups a d' = CountSecurityGroups a d + (if a = acct then 1 else 0)" for a
    by (simp add: d' CountSecurityGroups_def new_group_def)
  have rules: "CountRules j e d' = CountRules j e d" for j e
    by (simp add: d' CountRules_def)
  have acc: "accounts_within d"
    using inv by (simp add: group_inv_def)
  have "accounts_within d'"
    unfolding accounts_within_def
  proof (intro allI)
    fix a
    have "has_default a d' = has_default a d"
      by (auto simp: has_default_def d')
    moreover have "CountSecurityGroups a d \<le> maxGroupsPerAccount" "CountSecurityGroups a d > 0 \<Longrightarrow> has_default a d"
      using acc by (simp_all add: accounts_within_def)
    ultimately show "CountSecurityGroups a d' \<le> maxGroupsPerAccount \<and> (CountSecurityGroups a d' > 0 \<longrightarrow> has_default a d')"
      using room has count [of a] by (auto split: if_splits)
  qed
  moreover have "same_tenant d'"
  proof (rule same_tenantI)
    fix i j assume "(i, j) \<in> set (d_members d')"
    then obtain a where "owns_instance a i (d_instances d)" and "owns_group a j d"
      using inv by (auto simp: group_inv_def d' elim: same_tenantE)
    then show "\<exists>acct. owns_instance acct i (d_instances d') \<and> owns_group acct j d'"
      by (auto simp: d' owns_group_def)
  qed
  moreover have "rules_within d'"
    unfolding rules_within_def rules using inv by (simp add: group_inv_def rules_within_def)
  moreover have "members_within d'"
    using inv by (simp add: group_inv_def members_within_def groups_of_def d')
  moreover have "g_id g \<notin> g_id ` set (d_groups d)"
    using ok by (auto simp: group_constraints_def d' g)
  then have "CountRules (g_id g) dir d' = 0"
    using inv by (simp add: rules no_rules_yet group_inv_def)
  ultimately show ?thesis
    using ok by (simp add: group_inv_def d')
qed

lemma add_rules:
  assumes run: "InsertSecurityGroupRules now rs d = (Inr u, d')" and inv: "group_inv d"
    and these: "\<forall>r \<in> set rs. gr_group r = k \<and> gr_direction r = dir"
    and room: "CountRules k dir d + int (length rs) \<le> maxRulesPerDirection"
  shows "group_inv d' \<and> d_instances d' = d_instances d \<and> d_members d' = d_members d \<and>
    d_volumes d' = d_volumes d \<and> d_quarantine d' = d_quarantine d"
proof -
  note d' = InsertSecurityGroupRules_Inr [OF run]
  have "CountRules j e d' \<le> maxRulesPerDirection" for j e
  proof -
    let ?new = "map (\<lambda>r. r\<lparr>gr_created_at := now\<rparr>) rs"
    obtain n where n: "n = length (filter (\<lambda>r. gr_group r = j \<and> gr_direction r = e) ?new)" by simp
    have "CountRules j e d' = CountRules j e d + int n"
      by (simp add: n d' CountRules_def)
    moreover have "n \<le> (if j = k \<and> e = dir then length rs else 0)"
      using these by (auto simp: n filter_map comp_def filter_empty_conv intro: length_filter_le)
    moreover have "CountRules j e d \<le> maxRulesPerDirection"
      using inv by (simp add: group_inv_def rules_within_def)
    ultimately show ?thesis
      using room by (auto split: if_splits)
  qed
  then have "rules_within d'"
    by (simp add: rules_within_def)
  then have "group_inv d'"
    using d' inv by (intro group_inv_same_members [OF inv]) (auto simp: group_key_touch)
  then show ?thesis
    using d' by simp
qed

lemma owns_instance_update:
  "(\<And>i. i_id (f i) = i_id i \<and> i_account (f i) = i_account i) \<Longrightarrow>
   owns_instance acct k t \<Longrightarrow> owns_instance acct k (update_where c f t)"
  by (induction t) (auto simp: owns_instance_def update_where_def)

lemma group_inv_instances:
  assumes inv: "group_inv d" and f: "\<And>i. i_id (f i) = i_id i \<and> i_account (f i) = i_account i"
  shows "group_inv (d\<lparr>d_instances := update_where c f (d_instances d)\<rparr>)" (is "group_inv ?d")
proof (rule group_inv_same_members [OF inv])
  have "i_id ` set (update_where c f (d_instances d)) = i_id ` set (d_instances d)"
    using map_update_where [of i_id f c "d_instances d"] f by (metis list.set_map)
  then show "group_constraints ?d"
    using inv by (simp add: group_inv_def group_constraints_def)
  show "rules_within ?d"
    using inv by (simp add: group_inv_def rules_within_def CountRules_def)
qed (auto intro: owns_instance_update [OF f])

lemma bump_group:
  "BumpFirewallOfGroup now k d = (Inr u, d') \<Longrightarrow> group_inv d \<Longrightarrow> group_inv d'"
  by (auto simp: BumpFirewallOfGroup_def bump_def intro!: group_inv_instances)

lemma drop_rule:
  assumes run: "DeleteSecurityGroupRule now k r d = (Inr u, d')" and inv: "group_inv d"
  shows "group_inv d'"
proof (rule group_inv_same_members [OF inv])
  note d' = run [unfolded DeleteSecurityGroupRule_def]
  then have e: "d' = d\<lparr>d_rules := filter (\<lambda>x. \<not> (gr_group x = k \<and> gr_id x = r)) (d_rules d),
      d_groups := update_where (\<lambda>g. g_id g = k) (\<lambda>g. g\<lparr>g_updated_at := now\<rparr>) (d_groups d)\<rparr>"
    and ok: "group_constraints d'"
    by (auto split: if_splits dest: grp_constrained_Inr)
  show "group_constraints d'"
    by (rule ok)
  have "CountRules j dir d' \<le> CountRules j dir d" for j dir
  proof -
    have "length (filter p (filter q xs)) \<le> length (filter p xs)" for p q :: "rule_row \<Rightarrow> bool" and xs
      by (induction xs) auto
    then show ?thesis
      by (simp add: e CountRules_def del: filter_filter)
  qed
  then show "rules_within d'"
    using inv by (meson group_inv_def order_trans rules_within_def)
qed (use run in \<open>auto simp: DeleteSecurityGroupRule_def group_key_touch split: if_splits dest: grp_constrained_Inr\<close>)


lemma filter_shorter: "length (filter p (filter q xs)) \<le> length (filter p xs)"
  by (induction xs) auto

lemma drop_group:
  assumes run: "DeleteSecurityGroup k d = (Inr u, d')" and inv: "group_inv d"
    and g: "g \<in> set (d_groups d)" "g_id g = k" "\<not> g_default g"
  shows "group_inv d'"
proof -
  let ?members = "filter (\<lambda>(i, g). \<not> (g = k \<and> (\<exists>r \<in> set (d_instances d). i_id r = i \<and> \<not> live r))) (d_members d)"
  have d': "d' = d\<lparr>d_members := ?members, d_groups := filter (\<lambda>g. g_id g \<noteq> k) (d_groups d),
      d_rules := filter (\<lambda>r. gr_group r \<noteq> k) (d_rules d)\<rparr>" and ok: "group_constraints d'"
    using run by (auto simp: DeleteSecurityGroup_def Let_def split: if_splits dest: grp_constrained_Inr)
  have only: "h = g" if "h \<in> set (d_groups d)" "g_id h = k" for h
    using that g inv by (auto simp: group_inv_def group_constraints_def dest: inj_onD distinct_map [THEN iffD1])
  have inv': "accounts_within d" "rules_within d" "members_within d" "same_tenant d"
    using inv by (simp_all add: group_inv_def)
  have "accounts_within d'"
    unfolding accounts_within_def
  proof (intro allI)
    fix a
    have le: "CountSecurityGroups a d' \<le> CountSecurityGroups a d"
      by (simp add: d' CountSecurityGroups_def filter_shorter del: filter_filter)
    moreover have "has_default a d' = has_default a d"
      using only g(3) by (auto simp: has_default_def d')
    ultimately show "CountSecurityGroups a d' \<le> maxGroupsPerAccount \<and> (CountSecurityGroups a d' > 0 \<longrightarrow> has_default a d')"
      using inv'(1) by (auto simp: accounts_within_def intro: order_trans dest: spec [where x = a])
  qed
  moreover have "rules_within d'"
    unfolding rules_within_def
  proof (intro allI)
    fix j dir
    have "CountRules j dir d' \<le> CountRules j dir d"
      by (simp add: d' CountRules_def filter_shorter del: filter_filter)
    then show "CountRules j dir d' \<le> maxRulesPerDirection"
      using inv'(2) by (auto simp: rules_within_def intro: order_trans)
  qed
  moreover have "members_within d'"
    unfolding members_within_def
  proof (intro allI)
    fix i
    have "length (groups_of i d') \<le> length (groups_of i d)"
      by (simp add: d' groups_of_def filter_shorter del: filter_filter)
    then show "length (groups_of i d') \<le> maxGroupsPerInstance"
      using inv'(3) by (auto simp: members_within_def intro: order_trans)
  qed
  moreover have "same_tenant d'"
  proof (rule same_tenantI)
    fix i j assume m: "(i, j) \<in> set (d_members d')"
    then have "(i, j) \<in> set (d_members d)"
      by (simp add: d')
    with inv'(4) obtain a where a: "owns_instance a i (d_instances d)" "owns_group a j d"
      by (rule same_tenantE)
    have "j \<in> g_id ` set (d_groups d')"
      using ok m by (auto simp: group_constraints_def)
    then have "j \<noteq> k"
      by (auto simp: d')
    with a have "owns_group a j d'"
      by (auto simp: owns_group_def d')
    with a(1) show "\<exists>acct. owns_instance acct i (d_instances d') \<and> owns_group acct j d'"
      by (auto simp: d')
  qed
  ultimately show ?thesis
    using ok by (simp add: group_inv_def)
qed

lemma set_groups:
  assumes run: "SetInstanceGroups now k ids d = (Inr u, d')" and inv: "group_inv d"
    and few: "length ids \<le> maxGroupsPerInstance" and owner: "owns_instance acct k (d_instances d)"
    and groups: "\<forall>g \<in> set ids. owns_group acct g d"
  shows "group_inv d' \<and> groups_of k d' = ids"
proof -
  let ?members = "filter (\<lambda>(i, g). i \<noteq> k) (d_members d) @ map (\<lambda>g. (k, g)) ids"
  let ?f = "\<lambda>i. (bump now i)\<lparr>i_updated_at := now\<rparr>"
  have d': "d' = d\<lparr>d_members := ?members, d_instances := update_where (by_id k) ?f (d_instances d)\<rparr>"
    and ok: "group_constraints d'"
    using run by (auto simp: SetInstanceGroups_def dest: grp_constrained_Inr)
  have inv': "accounts_within d" "rules_within d" "members_within d" "same_tenant d"
    using inv by (simp_all add: group_inv_def)
  have keep: "owns_instance a i (d_instances d) \<Longrightarrow> owns_instance a i (d_instances d')" for a i
    unfolding d' by (simp add: owns_instance_update bump_def)
  have here: "groups_of k d' = ids"
  proof -
    have "filter (\<lambda>(i, g). i = k) (filter (\<lambda>(i, g). i \<noteq> k) ms) = []" for ms :: "(string \<times> string) list"
      by (induction ms) auto
    then show ?thesis
      by (simp add: groups_of_def d' filter_map comp_def del: filter_filter)
  qed
  have elsewhere: "groups_of i d' = groups_of i d" if "i \<noteq> k" for i
  proof -
    have "filter (\<lambda>(j, g). j = i) (filter (\<lambda>(i, g). i \<noteq> k) ms) = filter (\<lambda>(j, g). j = i) ms"
      for ms :: "(string \<times> string) list"
      using that by (induction ms) auto
    then show ?thesis
      using that by (simp add: groups_of_def d' filter_map comp_def del: filter_filter)
  qed
  have "members_within d'"
    unfolding members_within_def
  proof (intro allI)
    fix i show "length (groups_of i d') \<le> maxGroupsPerInstance"
      using few inv'(3) here elsewhere by (cases "i = k") (auto simp: members_within_def)
  qed
  moreover have "same_tenant d'"
  proof (rule same_tenantI)
    fix i j assume "(i, j) \<in> set (d_members d')"
    then consider "i = k" "j \<in> set ids" | "(i, j) \<in> set (d_members d)"
      by (auto simp: d')
    then show "\<exists>acct. owns_instance acct i (d_instances d') \<and> owns_group acct j d'"
    proof cases
      case 1
      then show ?thesis
        using keep [OF owner] groups by (auto simp: owns_group_def d')
    next
      case 2
      with inv'(4) obtain a where "owns_instance a i (d_instances d)" "owns_group a j d"
        by (rule same_tenantE)
      then show ?thesis
        using keep by (auto simp: owns_group_def d')
    qed
  qed
  moreover have "accounts_within d'" "rules_within d'"
    using inv' by (simp_all add: accounts_within_def CountSecurityGroups_def has_default_def rules_within_def
        CountRules_def d')
  ultimately show ?thesis
    using ok here by (simp add: group_inv_def)
qed


subsection \<open>Validated rules\<close>

definition rule_of_request :: "string \<Rightarrow> direction \<Rightarrow> rule_request \<Rightarrow> rule_row \<Rightarrow> bool" where
  "rule_of_request grp dir q r \<longleftrightarrow> gr_group r = grp \<and> gr_direction r = dir \<and> gr_protocol r = q_protocol q \<and>
     gr_from_port r = q_from_port q \<and> gr_to_port r = q_to_port q \<and> gr_description r = q_description q \<and>
     parse_prefix (q_cidr q) = Some (gr_cidr r) \<and> masked (gr_cidr r) = gr_cidr r \<and> rule_row_ok r"

lemma rule_of_request_time: "rule_of_request grp dir q (r\<lparr>gr_created_at := now\<rparr>) = rule_of_request grp dir q r"
  by (auto simp: rule_of_request_def rule_row_ok_def split: option.splits)

lemma accepted_rule:
  "\<not> rule_problem q \<Longrightarrow> parse_prefix (q_cidr q) = Some p \<Longrightarrow>
   rule_of_request grp dir q (new_rule k grp dir (q_protocol q) (q_from_port q) (q_to_port q) p (q_description q))"
  by (auto simp: rule_problem_def rule_of_request_def new_rule_def rule_row_ok_def port_ok_def
      split: if_splits option.splits)

lemma rule_rows_result:
  "rule_rows E grp dir qs w = (Inr rows, w') \<Longrightarrow> list_all2 (rule_of_request grp dir) qs rows"
proof (induction qs arbitrary: rows w)
  case (Cons q qs)
  then obtain p where ok: "\<not> rule_problem q" and p: "parse_prefix (q_cidr q) = Some p"
    by (auto simp: raise_def split: if_splits option.splits)
  with Cons.prems obtain k rest v where "rule_rows E grp dir qs v = (Inr rest, w')" and
    "rows = new_rule k grp dir (q_protocol q) (q_from_port q) (q_to_port q) p (q_description q) # rest"
    by (auto simp: ret_def elim!: bindE_InrE)
  with Cons.IH accepted_rule [OF ok p] show ?case
    by auto
qed (simp add: ret_def)

lemma ledger_free_rule_rows: "ledger_free (rule_rows E grp dir qs)"
  unfolding ledger_free_keeps
proof
  fix P
  have "keeps (db_inv P) (newRuleID E)"
    using ledger_free_ids(2) [of E] by (simp add: ledger_free_keeps)
  then show "keeps (db_inv P) (rule_rows E grp dir qs)"
    by (induction qs) (auto intro!: keeps_intros split: option.split)
qed

lemma validateRules_Inr:
  assumes "validateRules E grp dir qs w = (Inr rows, w')"
  shows "list_all2 (rule_of_request grp dir) qs rows \<and> qs \<noteq> [] \<and> w_db w' = w_db w"
  using assms ledger_free_step [OF ledger_free_rule_rows]
  by (auto simp: validateRules_def raise_def split: if_splits dest: rule_rows_result)

lemma rows_of_group: "list_all2 (rule_of_request k dir) qs rows \<Longrightarrow> \<forall>r \<in> set rows. gr_group r = k \<and> gr_direction r = dir"
  by (induction rule: list_all2_induct) (auto simp: rule_of_request_def)

lemma keeps_validated:
  fixes E :: "'h env"
  assumes "\<And>rows. list_all2 (rule_of_request k dir) qs rows \<Longrightarrow> keeps (db_inv I) (f rows)"
  shows "keeps (db_inv I) (bindE (validateRules E k dir qs) f)"
proof (rule keepsI)
  fix w :: "'h world" assume w: "db_inv I w"
  obtain r w' where run: "validateRules E k dir qs w = (r, w')" by fastforce
  have same: "w_db w' = w_db w"
    using run ledger_free_step [OF ledger_free_rule_rows]
    by (auto simp: validateRules_def raise_def split: if_splits)
  show "db_inv I (snd (bindE (validateRules E k dir qs) f w))"
  proof (cases r)
    case (Inl e)
    then show ?thesis
      using run w same by (simp add: bindE_def db_inv_def)
  next
    case (Inr rows)
    then have "keeps (db_inv I) (f rows)"
      using assms validateRules_Inr run by blast
    moreover have "db_inv I w'"
      using w same by (simp add: db_inv_def)
    ultimately show ?thesis
      using run Inr by (simp add: bindE_def keepsD)
  qed
qed

subsection \<open>The handlers\<close>

lemma in_tx_lock_capacity: "in_tx P (sql E (\<lambda>_. LockCapacity)) (\<lambda>_. P)"
  unfolding LockCapacity_def by (rule in_tx_reading)

lemma in_tx_insert_group:
  fixes E :: "'h env"
  assumes "\<And>e. \<exists>e'. h e = raise e'"
  shows "in_tx (\<lambda>d. group_inv d \<and> has_default acct d \<and> CountSecurityGroups acct d < maxGroupsPerAccount)
    (catchE (sql E (\<lambda>now. InsertSecurityGroup now (new_group k acct name description))) h)
    (\<lambda>g d. group_inv d \<and> CountRules (g_id g) DirectionEgress d = 0)"
  by (rule in_tx_catchE [OF in_tx_sql assms]) (use add_group in blast)

lemma in_tx_add_rules:
  fixes E :: "'h env"
  assumes "\<And>d. P d \<Longrightarrow> group_inv d \<and> (\<forall>r \<in> set rs. gr_group r = k \<and> gr_direction r = dir) \<and>
    CountRules k dir d + int (length rs) \<le> maxRulesPerDirection"
  shows "in_tx P (sql E (\<lambda>now. InsertSecurityGroupRules now rs)) (\<lambda>_. group_inv)"
proof (rule in_tx_sql)
  fix now d d' x assume "P d" and "InsertSecurityGroupRules now rs d = (Inr x, d')"
  with assms [OF \<open>P d\<close>] show "group_inv d'"
    using add_rules [of now rs d x d' k dir] by blast
qed

lemma in_tx_audit: "in_tx P (of_res r) (\<lambda>_. P)"
  by (rule in_tx_of_res)

lemma keeps_CreateSecurityGroup:
  fixes E :: "'h env"
  assumes "others_keep group_inv E"
  shows "keeps (db_inv group_inv) (CreateSecurityGroup E acct name description audit)"
proof -
  let ?P = "\<lambda>d. group_inv d \<and> has_default acct d"
  have default: "in_tx group_inv (EnsureDefaultSecurityGroup' E acct) (\<lambda>_. ?P)"
    by (rule in_tx_post [OF in_tx_pre [OF in_tx_EnsureDefault [where R = "\<lambda>_ _ _. True"]]]) (simp_all add: others_are_def)
  have count: "in_tx ?P (sql E (\<lambda>_. reading (\<lambda>d. Inr (CountSecurityGroups acct d))))
      (\<lambda>n d. ?P d \<and> CountSecurityGroups acct d = n)"
    by (rule in_tx_reading) simp
  let ?rest = "\<lambda>g. bindE (allTraffic E DirectionEgress) (\<lambda>egress.
       seqE (sql E (\<lambda>now. InsertSecurityGroupRules now (map (\<lambda>r. r\<lparr>gr_group := g_id g\<rparr>) egress)))
         (seqE (of_res (audit g)) (ret g)))"
  have rest: "in_tx (\<lambda>d. group_inv d \<and> CountRules (g_id g) DirectionEgress d = 0) (?rest g) (\<lambda>_. group_inv)" for g
    by (rule in_tx_bindE [OF in_tx_allTraffic], rule in_tx_seqE [OF in_tx_add_rules [where k = "g_id g" and dir = DirectionEgress]],
        simp add: maxRulesPerDirection_def, rule in_tx_seqE [OF in_tx_audit in_tx_ret])
  have insert: "in_tx (\<lambda>d. ?P d \<and> CountSecurityGroups acct d < maxGroupsPerAccount)
      (catchE (sql E (\<lambda>now. InsertSecurityGroup now (new_group k acct name description)))
        (\<lambda>e. raise (if err_is e Duplicate then Refuse 409 ''InvalidGroup.Duplicate'' else e)))
      (\<lambda>g d. group_inv d \<and> CountRules (g_id g) DirectionEgress d = 0)" for k
    by (rule in_tx_pre [OF in_tx_insert_group]) auto
  have "in_tx group_inv (create_group_tx E acct name description audit) (\<lambda>_. group_inv)"
    unfolding create_group_tx_def
    by (intro in_tx_seqE [OF in_tx_lock_capacity] in_tx_bindE [OF default] in_tx_bindE [OF count] in_tx_if in_tx_raise
        in_tx_bindE [OF in_tx_newGroupID] in_tx_bindE [OF in_tx_pre [OF insert]] rest) auto
  then show ?thesis
    unfolding CreateSecurityGroup_def by (intro keeps_intros keeps_tx_body assms)
qed

lemma keeps_DeleteSecurityGroup:
  fixes E :: "'h env"
  assumes "others_keep group_inv E"
  shows "keeps (db_inv group_inv) (DeleteSecurityGroup' E k authorize audit)"
proof -
  have lock: "in_tx group_inv (lock_group E k authorize)
      (\<lambda>g d. group_inv d \<and> g \<in> set (d_groups d) \<and> g_id g = k)"
    by (rule in_tx_lock_group) simp
  have using_it: "in_tx P (sql E (\<lambda>_. reading (\<lambda>d. Inr (GroupInstances k d)))) (\<lambda>_. P)" for P
    by (rule in_tx_reading) simp
  have drop: "in_tx (\<lambda>d. group_inv d \<and> g \<in> set (d_groups d) \<and> g_id g = k)
      (sql E (\<lambda>_. DeleteSecurityGroup k)) (\<lambda>_. group_inv)" if "\<not> g_default g" for g
    by (rule in_tx_sql) (use drop_group that in blast)
  show ?thesis
    unfolding DeleteSecurityGroup'_def
    by (intro keeps_tx_body [OF assms] in_tx_bindE [OF lock] in_tx_if in_tx_raise in_tx_bindE [OF using_it]
        in_tx_seqE [OF drop] in_tx_audit)
qed

lemma in_tx_bump_group: "in_tx group_inv (sql E (\<lambda>now. BumpFirewallOfGroup now k)) (\<lambda>_. group_inv)"
  by (rule in_tx_sql) (rule bump_group)

lemma keeps_AuthorizeRules:
  fixes E :: "'h env"
  assumes "others_keep group_inv E"
  shows "keeps (db_inv group_inv) (AuthorizeRules E k dir requests authorize audit)"
  unfolding AuthorizeRules_def
proof (rule keeps_validated)
  fix rows assume rows: "list_all2 (rule_of_request k dir) requests rows"
  have lock: "in_tx group_inv (lock_group E k authorize) (\<lambda>_. group_inv)"
    by (rule in_tx_lock_group)
  have count: "in_tx group_inv (sql E (\<lambda>_. reading (\<lambda>d. Inr (CountRules k dir d))))
      (\<lambda>n d. group_inv d \<and> CountRules k dir d = n)"
    by (rule in_tx_reading) simp
  have insert: "in_tx (\<lambda>d. group_inv d \<and> CountRules k dir d = n)
      (catchE (sql E (\<lambda>now. InsertSecurityGroupRules now rows))
        (\<lambda>e. raise (if err_is e Duplicate then Refuse 409 ''InvalidPermission.Duplicate'' else e)))
      (\<lambda>_. group_inv)" if "\<not> n + int (length rows) > maxRulesPerDirection" for n
    by (rule in_tx_catchE [OF in_tx_add_rules [where k = k and dir = dir]])
      (use that rows_of_group [OF rows] in auto)
  show "keeps (db_inv group_inv) (bindE (tx E (authorize_rules_tx E k dir rows authorize audit)) (\<lambda>g. seqE Wake (ret g)))"
    unfolding authorize_rules_tx_def
    by (intro keeps_bindE keeps_seqE keeps_Wake keeps_ret keeps_tx_body [OF assms] in_tx_bindE [OF lock]
        in_tx_bindE [OF count] in_tx_if in_tx_raise in_tx_seqE [OF insert] in_tx_seqE [OF in_tx_bump_group]
        in_tx_seqE [OF in_tx_audit] in_tx_ret)
qed

lemma keeps_RevokeRule:
  fixes E :: "'h env"
  assumes "others_keep group_inv E"
  shows "keeps (db_inv group_inv) (RevokeRule E k rule authorize audit)"
proof -
  have lock: "in_tx group_inv (lock_group E k authorize) (\<lambda>_. group_inv)"
    by (rule in_tx_lock_group)
  have drop: "in_tx group_inv (catchE (sql E (\<lambda>now. DeleteSecurityGroupRule now k rule))
      (\<lambda>e. raise (if err_is e NotFound then Refuse 404 ''InvalidPermission.NotFound'' else e))) (\<lambda>_. group_inv)"
    by (rule in_tx_catchE [OF in_tx_sql]) (use drop_rule in blast)+
  show ?thesis
    unfolding RevokeRule_def
    by (intro keeps_bindE keeps_seqE keeps_Wake keeps_ret keeps_tx_body [OF assms] in_tx_bindE [OF lock]
        in_tx_seqE [OF drop] in_tx_seqE [OF in_tx_bump_group] in_tx_seqE [OF in_tx_audit] in_tx_ret)
qed

lemma in_tx_set_groups:
  fixes E :: "'h env"
  assumes "\<And>d. P d \<Longrightarrow> group_inv d \<and> length ids \<le> maxGroupsPerInstance \<and>
    (\<exists>acct. owns_instance acct k (d_instances d) \<and> (\<forall>g \<in> set ids. owns_group acct g d))"
  shows "in_tx P (sql E (\<lambda>now. SetInstanceGroups now k ids)) (\<lambda>_. group_inv)"
proof (rule in_tx_sql)
  fix now d d' x assume "P d" and "SetInstanceGroups now k ids d = (Inr x, d')"
  with assms [OF \<open>P d\<close>] show "group_inv d'"
    using set_groups [of now k ids d x d'] by blast
qed

lemma keeps_SetInstanceSecurityGroups:
  fixes E :: "'h env"
  assumes "others_keep group_inv E"
  shows "keeps (db_inv group_inv) (SetInstanceSecurityGroups E k ids authorize audit)"
proof -
  let ?R = "\<lambda>acct t _ _. owns_instance acct k t"
  have lock: "in_tx group_inv (lock_instance E k authorize)
      (\<lambda>i d. group_inv d \<and> others_are (?R (i_account i)) d)"
    by (rule in_tx_lock_instance) (auto simp: others_are_def owns_instance_def)
  have set: "in_tx (\<lambda>d. (group_inv d \<and> others_are (?R acct) d) \<and> length ks \<le> maxGroupsPerInstance \<and> ks \<noteq> [] \<and>
      (\<forall>g \<in> set ks. owns_group acct g d))
      (sql E (\<lambda>now. SetInstanceGroups now k ks)) (\<lambda>_. group_inv)" for acct ks
    by (rule in_tx_set_groups) (auto simp: others_are_def)
  have read: "in_tx group_inv (sql E (\<lambda>_. reading (\<lambda>d. GetInstance k (d_instances d)))) (\<lambda>_. group_inv)"
    by (rule in_tx_reading)
  show ?thesis
    unfolding SetInstanceSecurityGroups_def
    by (intro keeps_if keeps_raise keeps_bindE keeps_seqE keeps_Wake keeps_ret keeps_tx_body [OF assms] in_tx_bindE [OF lock]
        in_tx_if in_tx_raise in_tx_bindE [OF in_tx_resolveGroups] in_tx_seqE [OF set] in_tx_bindE [OF read]
        in_tx_seqE [OF in_tx_audit] in_tx_ret)
qed


section \<open>Properties\<close>

text \<open>
  C13. Requests on security groups keep the limits and the separation of accounts: an account has at
  most 20 groups and never loses its default one, a group at most 60 rules a direction, an instance
  at most 5 groups and only groups of its own account, whatever the requests ask for, whether they
  succeed or fail, and whatever other requests that do the same commit in between.
\<close>

theorem group_requests_within_limits:
  fixes E :: "'h env"
  assumes "others_keep group_inv E" and "group_inv (w_db w)"
  shows "group_inv (w_db (snd (CreateSecurityGroup E acct name description audit1 w))) \<and>
    group_inv (w_db (snd (DeleteSecurityGroup' E k authorize audit2 w))) \<and>
    group_inv (w_db (snd (AuthorizeRules E k dir requests authorize audit3 w))) \<and>
    group_inv (w_db (snd (RevokeRule E k rule authorize audit4 w))) \<and>
    group_inv (w_db (snd (SetInstanceSecurityGroups E inst ids authorize' audit5 w)))"
  using assms(2) keeps_CreateSecurityGroup [OF assms(1)] keeps_DeleteSecurityGroup [OF assms(1)]
    keeps_AuthorizeRules [OF assms(1)] keeps_RevokeRule [OF assms(1)] keeps_SetInstanceSecurityGroups [OF assms(1)]
  by (simp add: keeps_def db_inv_def)

theorem group_requests_within_limits_witness:
  "group_inv (w_db (snd (CreateSecurityGroup (quiet_env offline_pve offline_ipam) ''acct'' ''web'' ''''
     (\<lambda>_. Inr ()) (start_world () empty_ledger))))"
proof -
  have "group_inv empty_ledger"
    by (simp add: group_inv_def group_constraints_def accounts_within_def rules_within_def members_within_def
        same_tenant_def CountSecurityGroups_def CountRules_def groups_of_def empty_ledger_def
        maxGroupsPerAccount_def maxRulesPerDirection_def)
  moreover have "others_keep group_inv (quiet_env offline_pve offline_ipam :: unit env)"
    by (simp add: others_keep_def)
  ultimately show ?thesis
    using group_requests_within_limits [of "quiet_env offline_pve offline_ipam :: unit env" "start_world () empty_ledger"]
    by (simp add: start_world_def)
qed

text \<open>
  C14. \<open>AuthorizeRules\<close> adds exactly the requested rules, each with its fields as given, and bumps the
  firewall generation of exactly the live instances that have the group, in the same transaction:
  there is no moment at which the rules are recorded and an instance that needs them is not due.
\<close>

theorem authorize_rules_marks_instances:
  fixes E :: "'h env"
  assumes run: "AuthorizeRules E k dir requests authorize audit w = (Inr g, w')"
  shows "\<exists>n now rows d. d = e_others E n (w_db w) \<and> list_all2 (rule_of_request k dir) requests rows \<and>
    d_rules (w_db w') = d_rules d @ rows \<and>
    d_instances (w_db w') = update_where (\<lambda>i. live i \<and> (i_id i, k) \<in> set (d_members d)) (bump now) (d_instances d) \<and>
    d_members (w_db w') = d_members d \<and> w_wake w'"
proof -
  obtain rows v where val: "validateRules E k dir requests w = (Inr rows, v)" and
    rest: "bindE (tx E (authorize_rules_tx E k dir rows authorize audit)) (\<lambda>g. seqE Wake (ret g)) v = (Inr g, w')"
    using run unfolding AuthorizeRules_def by (rule bindE_InrE)
  note val = validateRules_Inr [OF val]
  obtain g' u where t: "tx E (authorize_rules_tx E k dir rows authorize audit) v = (Inr g', u)"
    and w': "w' = u\<lparr>w_wake := True\<rparr>"
    using rest by (rule bindE_InrE) (simp add: wake_ret)
  let ?d = "e_others E (w_tick v) (w_db v)"
  let ?added = "\<lambda>d. \<exists>now. d_rules d = d_rules ?d @ map (\<lambda>r. r\<lparr>gr_created_at := now\<rparr>) rows \<and>
      d_instances d = d_instances ?d \<and> d_members d = d_members ?d"
  let ?done = "\<lambda>d. \<exists>now now'. d_rules d = d_rules ?d @ map (\<lambda>r. r\<lparr>gr_created_at := now\<rparr>) rows \<and>
      d_instances d = update_where (\<lambda>i. live i \<and> (i_id i, k) \<in> set (d_members ?d)) (bump now') (d_instances ?d) \<and>
      d_members d = d_members ?d"
  have lock: "in_tx (\<lambda>d. d = ?d) (lock_group E k authorize) (\<lambda>_ d. d = ?d)"
    by (rule in_tx_lock_group)
  have count: "in_tx (\<lambda>d. d = ?d) (sql E (\<lambda>_. reading (\<lambda>d. Inr (CountRules k dir d)))) (\<lambda>_ d. d = ?d)"
    by (rule in_tx_reading)
  have insert: "in_tx (\<lambda>d. d = ?d) (catchE (sql E (\<lambda>now. InsertSecurityGroupRules now rows))
        (\<lambda>e. raise (if err_is e Duplicate then Refuse 409 ''InvalidPermission.Duplicate'' else e))) (\<lambda>_. ?added)"
    by (rule in_tx_catchE [OF in_tx_sql]) (auto dest!: InsertSecurityGroupRules_Inr)
  have bump: "in_tx ?added (sql E (\<lambda>now. BumpFirewallOfGroup now k)) (\<lambda>_. ?done)"
    by (rule in_tx_sql) (auto simp: BumpFirewallOfGroup_def)
  have "?done (w_db u)"
    by (rule tx_result [OF t, where P = "\<lambda>d. d = ?d"], simp add: interfere_def, unfold authorize_rules_tx_def)
      (intro in_tx_bindE [OF lock] in_tx_bindE [OF count] in_tx_if in_tx_raise in_tx_seqE [OF insert]
        in_tx_seqE [OF bump] in_tx_seqE [OF in_tx_audit] in_tx_ret)
  then obtain now now' where d: "d_rules (w_db u) = d_rules ?d @ map (\<lambda>r. r\<lparr>gr_created_at := now\<rparr>) rows"
    "d_instances (w_db u) = update_where (\<lambda>i. live i \<and> (i_id i, k) \<in> set (d_members ?d)) (bump now') (d_instances ?d)"
    "d_members (w_db u) = d_members ?d"
    by blast
  have "list_all2 (rule_of_request k dir) requests (map (\<lambda>r. r\<lparr>gr_created_at := now\<rparr>) rows)"
    using val by (simp add: list_all2_map2 rule_of_request_time)
  moreover have "?d = e_others E (w_tick v) (w_db w)"
    using val by simp
  ultimately show ?thesis
    using d w' by (intro exI [of _ "w_tick v"] exI [of _ now'] exI [of _ "map (\<lambda>r. r\<lparr>gr_created_at := now\<rparr>) rows"]
        exI [of _ ?d]) auto
qed

text \<open>
  C15. \<open>validateRules\<close> accepts a list of rules exactly when it is not empty and every rule is well-formed,
  and the rows it makes satisfy every check constraint of the table.
\<close>

theorem validate_rules_exact:
  "case validateRules E grp dir requests w of
     (Inr rows, w') \<Rightarrow> requests \<noteq> [] \<and> \<not> list_ex rule_problem requests \<and>
       list_all2 (rule_of_request grp dir) requests rows \<and> list_all rule_row_ok rows \<and> w_db w' = w_db w
   | (Inl e, w') \<Rightarrow> e = bad_request \<and> (requests = [] \<or> list_ex rule_problem requests) \<and> w_db w' = w_db w"
proof -
  have parses: "\<not> rule_problem q \<Longrightarrow> parse_prefix (q_cidr q) \<noteq> None" for q
    by (auto simp: rule_problem_def split: option.splits)
  have refused: "fst (rule_rows E grp dir qs w) = (if list_ex rule_problem qs then Inl bad_request
      else Inr (projr (fst (rule_rows E grp dir qs w))))" for qs and w :: "'a world"
  proof (induction qs arbitrary: w)
    case (Cons q qs)
    show ?case
    proof (cases "rule_problem q")
      case False
      with parses obtain p where p: "parse_prefix (q_cidr q) = Some p" by blast
      obtain k v where "newRuleID E w = (Inr k, v)"
        by (simp add: newRuleID_def bindE_def random_hex_def ret_def)
      then show ?thesis
        using False p Cons.IH [of v] by (auto simp: bindE_def ret_def split: prod.splits sum.splits if_splits)
    qed (simp add: raise_def)
  qed (simp add: ret_def)
  have rows: "list_all2 (rule_of_request grp dir) requests rows \<Longrightarrow> list_all rule_row_ok rows" for rows
    by (induction rule: list_all2_induct) (auto simp: rule_of_request_def)
  obtain r w' where run: "validateRules E grp dir requests w = (r, w')" by fastforce
  then have "w_db w' = w_db w"
    using ledger_free_step [OF ledger_free_rule_rows]
    by (auto simp: validateRules_def raise_def split: if_splits)
  then show ?thesis
    using run refused [of requests w] rows
    by (cases r) (auto simp: validateRules_def raise_def split: if_splits dest: rule_rows_result)
qed


text \<open>A deployment with one group and one running instance that has it.\<close>

definition web_group :: group_row where
  "web_group = (new_group ''sg-1'' ''acct'' ''web'' '''')\<lparr>g_default := True\<rparr>"

definition member_ledger :: ledger where
  "member_ledger = empty_ledger\<lparr>d_instances := [(example_row ''i-1'')\<lparr>i_state := StateRunning, i_pending := None\<rparr>],
     d_groups := [web_group], d_members := [(''i-1'', ''sg-1'')]\<rparr>"

definition ssh_rule :: rule_request where
  "ssh_rule = \<lparr>q_protocol = ''tcp'', q_from_port = Some 22, q_to_port = Some 22, q_cidr = ''0.0.0.0/0'',
     q_description = ''''\<rparr>"

lemma ssh_rule_simps:
  "q_protocol ssh_rule = ''tcp''" "q_from_port ssh_rule = Some 22" "q_to_port ssh_rule = Some 22"
  "q_description ssh_rule = ''''"
  by (simp_all add: ssh_rule_def)

lemma ssh_rule_prefix: "parse_prefix (q_cidr ssh_rule) = Some (Prefix (V4 0) 0)"
  by (simp add: ssh_rule_def net_eval)

lemma ssh_rule_ok: "\<not> rule_problem ssh_rule"
  by (simp add: rule_problem_def ssh_rule_prefix ssh_rule_simps too_long_text_def valid_utf8_def rune_count_def
      mask_top_def)

theorem authorize_rules_marks_instances_witness:
  "\<exists>g w'. AuthorizeRules (quiet_env offline_pve offline_ipam :: unit env) ''sg-1'' DirectionIngress [ssh_rule] (\<lambda>_. True)
     (\<lambda>_ _. Inr ()) (start_world () member_ledger) = (Inr g, w') \<and> map gr_protocol (d_rules (w_db w')) = [''tcp'']"
proof -
  have run: "\<exists>g w'. AuthorizeRules (quiet_env offline_pve offline_ipam :: unit env) ''sg-1'' DirectionIngress [ssh_rule] (\<lambda>_. True)
     (\<lambda>_ _. Inr ()) (start_world () member_ledger) = (Inr g, w')"
    by (simp add: AuthorizeRules_def authorize_rules_tx_def validateRules_def ssh_rule_ok ssh_rule_prefix newRuleID_def
      random_hex_def lock_group_def lock_row_def catchE_def GetSecurityGroup_def select_one_def of_res_def
      CountRules_def InsertSecurityGroupRules_def then_stmt_def grp_constrained_def group_constraints_def
      new_rule_def rule_key_def rule_row_ok_def port_ok_def BumpFirewallOfGroup_def update_where_def
      maxRulesPerDirection_def member_ledger_def web_group_def new_group_def empty_ledger_def ssh_rule_simps tx_def
      example_row_def cloud_eval cong: cloud_lazy)
  then obtain g w' where run: "AuthorizeRules (quiet_env offline_pve offline_ipam :: unit env) ''sg-1'' DirectionIngress [ssh_rule]
      (\<lambda>_. True) (\<lambda>_ _. Inr ()) (start_world () member_ledger) = (Inr g, w')"
    by blast
  have "map gr_protocol (d_rules (w_db w')) = [''tcp'']"
    using authorize_rules_marks_instances [OF run]
    by (auto simp: start_world_def member_ledger_def empty_ledger_def rule_of_request_def list_all2_Cons1 ssh_rule_simps)
  with run show ?thesis
    by (intro exI conjI)
qed


section \<open>What group statements leave alone\<close>

text \<open>Making the default group touches groups and rules, nothing else.\<close>

definition only_groups :: "ledger \<Rightarrow> ledger \<Rightarrow> bool" where
  "only_groups d d' \<longleftrightarrow> d_instances d' = d_instances d \<and> d_volumes d' = d_volumes d \<and>
     d_quarantine d' = d_quarantine d \<and> d_members d' = d_members d \<and> d_images d' = d_images d \<and>
     d_isos d' = d_isos d \<and> d_key_pairs d' = d_key_pairs d \<and> d_overrides d' = d_overrides d"

lemma only_groups_insert_rules: "only_groups d (snd (insert_rules now rs d))"
  by (induction rs arbitrary: d) (auto simp: only_groups_def grp_constrained_def)

lemma only_groups_InsertSecurityGroupRules: "only_groups d (snd (InsertSecurityGroupRules now rs d))"
proof -
  obtain r d1 where run: "insert_rules now rs d = (r, d1)" by fastforce
  with only_groups_insert_rules [of d now rs] show ?thesis
    by (cases r) (auto simp: InsertSecurityGroupRules_def then_stmt_def grp_constrained_def only_groups_def)
qed

lemma only_groups_EnsureDefault: "only_groups d (snd (EnsureDefaultSecurityGroup now g rs d))"
proof -
  let ?row = "g\<lparr>g_default := True, g_created_at := now, g_updated_at := now\<rparr>"
  have added: "only_groups d (snd (InsertSecurityGroupRules now rules (d\<lparr>d_groups := d_groups d @ [?row]\<rparr>)))" for rules
    using only_groups_InsertSecurityGroupRules [of "d\<lparr>d_groups := d_groups d @ [?row]\<rparr>" now rules]
    by (simp add: only_groups_def)
  show ?thesis
    using added [of "map (\<lambda>r. r\<lparr>gr_group := g_id ?row\<rparr>) rs"]
    by (auto simp: EnsureDefaultSecurityGroup_def Let_def grp_constrained_def only_groups_def
        split: prod.split sum.split)
qed

lemma keeps_resolveGroups:
  fixes E :: "'h env"
  assumes "\<And>d d'. only_groups d d' \<Longrightarrow> P d \<Longrightarrow> P d'"
  shows "keeps (db_inv P) (resolveGroups E acct ids)"
proof -
  have "stmt_keeps P (\<lambda>now. EnsureDefaultSecurityGroup now g rs)" for g rs
    using assms only_groups_EnsureDefault by (blast intro: stmt_keepsI)
  moreover have "keeps (db_inv P) (newGroupID E)" "keeps (db_inv P) (newRuleID E)"
    using ledger_free_ids ledger_free_keeps by blast+
  ultimately show ?thesis
    unfolding resolveGroups_def EnsureDefaultSecurityGroup'_def allTraffic_def lock_groups_of_def Let_def
    by (intro keeps_intros keeps_sql)
qed

end
