(* ===== verification/Json_Text.thy ===== *)
theory Json_Text
  imports Net_Prefix
begin

text \<open>
  \<open>encoding/json.Marshal\<close> on the values whose hashes identify a request: strings escaped the way Go
  does it (HTML characters and U+2028/U+2029 included), integers, booleans, null, arrays, and objects
  whose fields come in the order given. \<open>json_unquote\<close> reads a string literal back; it is not part of
  the program, it states that escaping loses nothing.
\<close>

section \<open>Strings\<close>

definition backslash :: char where "backslash = char_of (0x5C :: nat)"
definition quote_char :: char where "quote_char = char_of (0x22 :: nat)"

definition hex_low :: "nat \<Rightarrow> char" where
  "hex_low n = ''0123456789abcdef'' ! n"

text \<open>A byte below 128.\<close>

definition esc_byte :: "nat \<Rightarrow> string" where
  "esc_byte b =
     (if b = 0x5C \<or> b = 0x22 then [backslash, char_of b]
      else if b = 8 then [backslash, CHR ''b'']
      else if b = 12 then [backslash, CHR ''f'']
      else if b = 10 then [backslash, CHR ''n'']
      else if b = 13 then [backslash, CHR ''r'']
      else if b = 9 then [backslash, CHR ''t'']
      else if b < 32 \<or> b = 0x3C \<or> b = 0x3E \<or> b = 0x26
        then [backslash, CHR ''u'', CHR ''0'', CHR ''0'', hex_low (b div 16), hex_low (b mod 16)]
      else [char_of b])"

definition esc_rune :: "nat list \<Rightarrow> bool \<Rightarrow> string" where
  "esc_rune bs ok =
     (if \<not> ok then backslash # ''ufffd''
      else if bs = [226, 128, 168] then backslash # ''u2028''
      else if bs = [226, 128, 169] then backslash # ''u2029''
      else case bs of [b] \<Rightarrow> esc_byte b | _ \<Rightarrow> map char_of bs)"

text \<open>Fuel as in \<open>runes_of\<close>: every rune takes at least one byte.\<close>

fun esc_runes :: "nat \<Rightarrow> nat list \<Rightarrow> string" where
  "esc_runes 0 s = []"
| "esc_runes (Suc fuel) s =
     (if s = [] then []
      else case rune_size s of (k, ok) \<Rightarrow> esc_rune (take k s) ok @ esc_runes fuel (drop k s))"

definition json_string :: "string \<Rightarrow> string" where
  "json_string s = quote_char # esc_runes (length s) (bytes_of s) @ [quote_char]"

section \<open>Reading a string back\<close>

definition unhex :: "char \<Rightarrow> nat" where
  "unhex c = (case hex_val c of Some n \<Rightarrow> n | None \<Rightarrow> 0)"

definition utf8_bytes :: "nat \<Rightarrow> nat list" where
  "utf8_bytes n =
     (if n < 128 then [n]
      else if n < 2048 then [192 + n div 64, 128 + n mod 64]
      else [224 + n div 4096, 128 + n div 64 mod 64, 128 + n mod 64])"

definition unescape :: "char \<Rightarrow> nat option" where
  "unescape c =
     (if c = backslash \<or> c = quote_char then Some (of_char c)
      else if c = CHR ''b'' then Some 8 else if c = CHR ''f'' then Some 12
      else if c = CHR ''n'' then Some 10 else if c = CHR ''r'' then Some 13
      else if c = CHR ''t'' then Some 9 else None)"

text \<open>The bytes of the literal up to its closing quote, and what follows it.\<close>

fun json_unquote :: "string \<Rightarrow> (nat list \<times> string) option" where
  "json_unquote [] = None"
| "json_unquote (c # s) =
     (if c = quote_char then Some ([], s)
      else if c \<noteq> backslash then map_option (apfst ((#) (of_char c))) (json_unquote s)
      else case s of
          [] \<Rightarrow> None
        | e # s1 \<Rightarrow>
            if e \<noteq> CHR ''u''
            then (case unescape e of None \<Rightarrow> None | Some b \<Rightarrow> map_option (apfst ((#) b)) (json_unquote s1))
            else (case s1 of
                h1 # h2 # h3 # h4 # s2 \<Rightarrow>
                  map_option (apfst ((@) (utf8_bytes (((unhex h1 * 16 + unhex h2) * 16 + unhex h3) * 16 + unhex h4))))
                    (json_unquote s2)
              | _ \<Rightarrow> None))"

lemma unquote_short:
  "e \<noteq> CHR ''u'' \<Longrightarrow> json_unquote (backslash # e # s) =
     (case unescape e of None \<Rightarrow> None | Some b \<Rightarrow> map_option (apfst ((#) b)) (json_unquote s))"
  by (simp add: backslash_def quote_char_def)

lemma unquote_hex:
  "json_unquote (backslash # CHR ''u'' # h1 # h2 # h3 # h4 # s) =
     map_option (apfst ((@) (utf8_bytes (((unhex h1 * 16 + unhex h2) * 16 + unhex h3) * 16 + unhex h4)))) (json_unquote s)"
  by (simp add: backslash_def quote_char_def)

lemma unquote_plain:
  "c \<noteq> quote_char \<Longrightarrow> c \<noteq> backslash \<Longrightarrow> json_unquote (c # s) = map_option (apfst ((#) (of_char c))) (json_unquote s)"
  by simp

definition short_escape :: "nat \<Rightarrow> bool" where
  "short_escape b \<longleftrightarrow> b \<in> {92, 34, 8, 12, 10, 13, 9}"

definition html_escape :: "nat \<Rightarrow> bool" where
  "html_escape b \<longleftrightarrow> b < 32 \<or> b = 60 \<or> b = 62 \<or> b = 38"

lemma special_chars: "of_char backslash = (92 :: nat)" "of_char quote_char = (34 :: nat)"
  by (simp_all add: backslash_def quote_char_def)

lemma special_codes: "char_of (92 :: nat) = CHR 0x5C" "char_of (34 :: nat) = CHR 0x22"
  by code_simp+

lemma backslash_char: "backslash = CHR 0x5C" and quote_char_char: "quote_char = CHR 0x22"
  by (simp_all add: backslash_def quote_char_def special_codes)

lemma short_escapes: "short_escape b \<Longrightarrow> \<exists>e. esc_byte b = [backslash, e] \<and> e \<noteq> CHR ''u'' \<and> unescape e = Some b"
  by (auto simp: short_escape_def esc_byte_def unescape_def backslash_char quote_char_char special_codes)

lemma unhex_hex_low: "d < 16 \<Longrightarrow> unhex (hex_low d) = d"
proof -
  assume "d < 16"
  then have "d \<in> set [0..<16]"
    by simp
  then show ?thesis
    by (auto simp: upt_rec hex_low_def unhex_def hex_val_def)
qed

lemma append_Cons_fun: "(@) [b] = (#) b"
  by (rule ext) simp

lemma unquote_esc_byte:
  assumes "b < 128"
  shows "json_unquote (esc_byte b @ s) = map_option (apfst ((#) b)) (json_unquote s)"
proof -
  have hex: "unhex (hex_low (b div 16)) * 16 + unhex (hex_low (b mod 16)) = b" if "html_escape b"
    using that by (subst (1 2) unhex_hex_low) (auto simp: html_escape_def)
  have zero: "unhex CHR ''0'' = 0"
    by (simp add: unhex_def hex_val_def)
  have byte: "of_char (char_of b :: char) = b"
    using assms by simp
  have plain: "char_of b \<noteq> quote_char \<and> char_of b \<noteq> backslash" if "\<not> short_escape b"
    using that byte by (metis insertCI short_escape_def special_chars)
  consider "short_escape b" | "\<not> short_escape b" "html_escape b" | "\<not> short_escape b" "\<not> html_escape b"
    by blast
  then show ?thesis
  proof cases
    case 1
    then obtain e where "esc_byte b = [backslash, e]" "e \<noteq> CHR ''u''" "unescape e = Some b"
      using short_escapes by blast
    then show ?thesis
      by (simp add: unquote_short del: json_unquote.simps)
  next
    case 2
    then have "esc_byte b = [backslash, CHR ''u'', CHR ''0'', CHR ''0'', hex_low (b div 16), hex_low (b mod 16)]"
      by (auto simp: esc_byte_def short_escape_def html_escape_def)
    then show ?thesis
      using 2 hex zero assms by (simp add: unquote_hex utf8_bytes_def append_Cons_fun del: json_unquote.simps)
  next
    case 3
    then have "esc_byte b = [char_of b]"
      by (auto simp: esc_byte_def short_escape_def html_escape_def)
    then show ?thesis
      using 3 plain byte by (simp add: unquote_plain del: json_unquote.simps)
  qed
qed

text \<open>The bytes of a longer rune are all at least 128, so no quote or backslash is among them.\<close>

lemma unquote_high:
  "\<forall>b \<in> set bs. 128 \<le> b \<and> b < 256 \<Longrightarrow>
   json_unquote (map char_of bs @ s) = map_option (apfst ((@) bs)) (json_unquote s)"
proof (induction bs)
  case Nil
  then show ?case by (cases "json_unquote s") auto
next
  case (Cons b bs)
  then have b: "of_char (char_of b :: char) = b" and "128 \<le> b"
    by (auto simp: mod_less)
  then have "char_of b \<noteq> quote_char" and "char_of b \<noteq> backslash"
    using special_chars by (metis numeral_le_iff order_refl semiring_norm(68) semiring_norm(69) semiring_norm(71) semiring_norm(72))+
  with Cons b show ?case
    by (cases "json_unquote s") (simp_all add: unquote_plain apfst_def prod.map_comp comp_def id_def del: json_unquote.simps)
qed

lemma long_rune:
  assumes "rune_size bs = (k, True)" and "1 < k"
  shows "\<forall>b \<in> set (take k bs). 128 \<le> b \<and> b < 256"
  using assms
  by (auto simp: rune_size_def continuation_def in_range_def split: list.splits if_splits)


lemma short_rune:
  assumes "rune_size bs = (k, True)" and "\<not> 1 < k" and "bs \<noteq> []"
  obtains b where "take k bs = [b]" and "b < 128"
proof -
  have k: "k = 1"
    using assms rune_size_pos [of bs] by simp
  obtain b r where bs: "bs = b # r"
    using assms(3) by (cases bs) auto
  have "b < 128"
    using assms(1) k bs by (auto simp: rune_size_def split: list.splits if_splits)
  then show ?thesis
    using that k bs by simp
qed

lemma unquote_rune:
  assumes "rune_size bs = (k, True)" and "bs \<noteq> []"
  shows "json_unquote (esc_rune (take k bs) True @ s) = map_option (apfst ((@) (take k bs))) (json_unquote s)"
proof (cases "1 < k")
  case False
  then obtain b where "take k bs = [b]" and "b < 128"
    using short_rune assms by metis
  then show ?thesis
    by (simp add: esc_rune_def unquote_esc_byte append_Cons_fun del: json_unquote.simps)
next
  case True
  have two: "json_unquote ((backslash # ''u2028'') @ s) = map_option (apfst ((@) [226, 128, 168])) (json_unquote s)"
    and nine: "json_unquote ((backslash # ''u2029'') @ s) = map_option (apfst ((@) [226, 128, 169])) (json_unquote s)"
    by (simp_all add: unquote_hex unhex_def hex_val_def utf8_bytes_def del: json_unquote.simps)
  have "length (take k bs) \<noteq> 1"
  proof -
    have "k \<le> length bs"
      using assms(1) by (auto simp: rune_size_def split: list.splits if_splits)
    then show ?thesis
      using True by simp
  qed
  then have plain: "(case take k bs of [b] \<Rightarrow> esc_byte b | _ \<Rightarrow> map char_of (take k bs)) = map char_of (take k bs)"
  proof (cases "take k bs")
    case (Cons b r)
    then show ?thesis
      using \<open>length (take k bs) \<noteq> 1\<close> by (cases r) simp_all
  qed (auto split: list.split)
  show ?thesis
    using unquote_high [OF long_rune [OF assms(1) True], of s] two nine plain
    by (simp add: esc_rune_def del: json_unquote.simps)
qed

lemma unquote_runes:
  "length bs \<le> fuel \<Longrightarrow> snd (runes_of fuel bs) \<Longrightarrow>
   json_unquote (esc_runes fuel bs @ s) = map_option (apfst ((@) bs)) (json_unquote s)"
proof (induction fuel arbitrary: bs)
  case 0
  then show ?case
    by (cases "json_unquote s") (auto simp: apfst_def)
next
  case (Suc fuel)
  show ?case
  proof (cases "bs = []")
    case True
    then show ?thesis
      by (cases "json_unquote s") (auto simp: apfst_def)
  next
    case False
    obtain k ok where r: "rune_size bs = (k, ok)" by fastforce
    then have ok: "ok" and rest: "snd (runes_of fuel (drop k bs))"
      using Suc.prems False by (auto split: prod.splits)
    have "0 < k"
      using rune_size_pos [OF False] r by simp
    then have "length (drop k bs) \<le> fuel"
      using Suc.prems(1) by simp
    note IH = Suc.IH [OF this rest]
    have "json_unquote (esc_runes (Suc fuel) bs @ s) =
        map_option (apfst ((@) (take k bs))) (map_option (apfst ((@) (drop k bs))) (json_unquote s))"
      using False r ok IH unquote_rune [of bs k "esc_runes fuel (drop k bs) @ s"]
      by (simp del: json_unquote.simps)
    also have "\<dots> = map_option (apfst ((@) bs)) (json_unquote s)"
    proof (cases "json_unquote s")
      case (Some p)
      have "take k bs @ drop k bs @ x = bs @ x" for x
        by (simp flip: append_assoc)
      with Some show ?thesis
        by (cases p) simp
    qed simp
    finally show ?thesis .
  qed
qed

text \<open>
  A string of valid UTF-8 can be read back from its JSON literal, and the literal ends where
  its closing quote is: escaping loses nothing and two strings never have the same literal.
\<close>

theorem json_string_roundtrip:
  assumes "valid_utf8 s"
  shows "json_unquote (tl (json_string s @ rest)) = Some (bytes_of s, rest)"
  using unquote_runes [of "bytes_of s" "length s" "quote_char # rest"] assms
  by (simp add: json_string_def valid_utf8_def bytes_of_def)

theorem json_string_roundtrip_witness:
  "json_unquote (tl (json_string ''a<b'' @ ''rest'')) = Some (bytes_of ''a<b'', ''rest'')"
  by (rule json_string_roundtrip) code_simp

lemma bytes_of_inj: "bytes_of s = bytes_of t \<Longrightarrow> s = t"
  by (simp add: bytes_of_def inj_map_eq_map [OF inj_of_char])

lemma json_string_delimited:
  assumes "valid_utf8 s" and "valid_utf8 t" and "json_string s @ x = json_string t @ y"
  shows "s = t \<and> x = y"
proof -
  have read: "json_unquote (esc_runes (length u) (bytes_of u) @ quote_char # z) = Some (bytes_of u, z)"
    if "valid_utf8 u" for u z
    using unquote_runes [of "bytes_of u" "length u" "quote_char # z"] that
    by (simp add: valid_utf8_def bytes_of_def)
  have "Some (bytes_of s, x) = Some (bytes_of t, y)"
    using assms(3) read [OF assms(1), of x] read [OF assms(2), of y]
    by (simp add: json_string_def del: json_unquote.simps)
  then show ?thesis
    by (simp add: bytes_of_inj)
qed


section \<open>Values\<close>

text \<open>
  The values \<open>Marshal\<close> is given: a struct and a map are both objects, a map's keys sorted; a nil map
  or pointer is \<open>null\<close>. After the first element or field, each is preceded by a comma.
\<close>

datatype json = JNull | JBool bool | JInt int | JString string | JArray "json list"
  | JObject "(string \<times> json) list"

fun json_text :: "json \<Rightarrow> string"
and more_elements :: "json list \<Rightarrow> string"
and more_fields :: "(string \<times> json) list \<Rightarrow> string" where
  "json_text JNull = ''null''"
| "json_text (JBool b) = (if b then ''true'' else ''false'')"
| "json_text (JInt i) = itoa i"
| "json_text (JString s) = json_string s"
| "json_text (JArray []) = ''[]''"
| "json_text (JArray (j # js)) = ''['' @ json_text j @ more_elements js"
| "json_text (JObject []) = ''{}''"
| "json_text (JObject ((k, j) # fs)) = ''{'' @ json_string k @ '':'' @ json_text j @ more_fields fs"
| "more_elements [] = '']''"
| "more_elements (j # js) = '','' @ json_text j @ more_elements js"
| "more_fields [] = ''}''"
| "more_fields ((k, j) # fs) = '','' @ json_string k @ '':'' @ json_text j @ more_fields fs"

text \<open>Strings that are valid UTF-8 throughout, as a request that was itself decoded from JSON has.\<close>

fun json_valid :: "json \<Rightarrow> bool" where
  "json_valid (JString s) = valid_utf8 s"
| "json_valid (JArray js) = list_all json_valid js"
| "json_valid (JObject fs) = list_all (\<lambda>(k, j). valid_utf8 k \<and> json_valid j) fs"
| "json_valid _ = True"

subsection \<open>A text determines its value\<close>

text \<open>What may follow a value: the end, or a character no number contains.\<close>

definition ends_value :: "string \<Rightarrow> bool" where
  "ends_value x \<longleftrightarrow> (case x of [] \<Rightarrow> True | c # _ \<Rightarrow> c \<in> set '',]}'')"

lemma more_ends: "ends_value (more_elements js @ x)" "ends_value (more_fields fs @ x)"
  by (cases js; simp add: ends_value_def) (cases fs; auto simp: ends_value_def)

definition number_char :: "char \<Rightarrow> bool" where
  "number_char c \<longleftrightarrow> c = CHR ''-'' \<or> (of_char c :: nat) \<in> {48..57}"

lemma itoa_chars: "c \<in> set (itoa i) \<Longrightarrow> number_char c"
  using nat_digits_digit by (auto simp: itoa_def number_char_def split: if_splits)

lemma itoa_nonempty: "itoa i \<noteq> []"
  by (simp add: itoa_def)

lemma ends_value_number: "ends_value x \<Longrightarrow> x \<noteq> [] \<Longrightarrow> \<not> number_char (hd x)"
  by (cases x) (auto simp: ends_value_def number_char_def)

lemma itoa_inj: "itoa i = itoa j \<Longrightarrow> i = j"
proof -
  have minus: "nat_digits n \<noteq> CHR ''-'' # x" for n x
  proof
    assume "nat_digits n = CHR ''-'' # x"
    then have "CHR ''-'' \<in> set (nat_digits n)" by simp
    then show False
      using nat_digits_digit [of "CHR ''-''" n] by simp
  qed
  have digits: "nat_digits m = nat_digits n \<Longrightarrow> m = n" for m n
    by (metis dec_value_nat_digits)
  assume "itoa i = itoa j"
  then show ?thesis
    by (auto simp: itoa_def minus minus [symmetric] split: if_splits dest: digits)
qed

lemma itoa_delimited:
  assumes "itoa i @ x = itoa j @ y" and "ends_value x" and "ends_value y"
  shows "i = j \<and> x = y"
proof -
  have "takeWhile number_char (itoa k @ z) = itoa k" if "ends_value z" for k z
    using ends_value_number [OF that] itoa_chars
    by (cases "z = []") (auto simp: takeWhile_append2 takeWhile_eq_Nil_iff takeWhile_eq_all_conv)
  with assms have "itoa i = itoa j"
    by metis
  with assms(1) itoa_inj show ?thesis
    by auto
qed

text \<open>The first character tells the kind of a value.\<close>

definition kind_char :: "json \<Rightarrow> char \<Rightarrow> bool" where
  "kind_char j c = (case j of
       JNull \<Rightarrow> c = CHR ''n'' | JBool b \<Rightarrow> c = (if b then CHR ''t'' else CHR ''f'') | JInt i \<Rightarrow> number_char c
     | JString s \<Rightarrow> c = quote_char | JArray js \<Rightarrow> c = CHR ''['' | JObject fs \<Rightarrow> c = CHR ''{'')"

lemma json_text_head: "\<exists>c r. json_text j = c # r \<and> kind_char j c"
proof (cases j)
  case (JInt i)
  then show ?thesis
    using itoa_chars [of "hd (itoa i)" i] itoa_nonempty [of i]
    by (cases "itoa i") (simp_all add: kind_char_def)
next
  case (JArray js)
  then show ?thesis
    by (cases js) (simp_all add: kind_char_def)
next
  case (JObject fs)
  then show ?thesis
    by (cases fs) (auto simp: kind_char_def)
qed (simp_all add: kind_char_def json_string_def)

definition same_kind :: "json \<Rightarrow> json \<Rightarrow> bool" where
  "same_kind j j' = (case (j, j') of (JNull, JNull) \<Rightarrow> True | (JBool a, JBool b) \<Rightarrow> a = b | (JInt _, JInt _) \<Rightarrow> True
     | (JString _, JString _) \<Rightarrow> True | (JArray _, JArray _) \<Rightarrow> True | (JObject _, JObject _) \<Rightarrow> True | _ \<Rightarrow> False)"

lemma kind_char_kind: "kind_char j c \<Longrightarrow> kind_char j' c \<Longrightarrow> same_kind j j'"
  by (auto simp: kind_char_def same_kind_def number_char_def quote_char_char split: json.splits if_splits)

lemma text_same_kind:
  assumes "json_text j @ x = json_text j' @ y"
  shows "same_kind j j'"
proof -
  obtain c r where 1: "json_text j = c # r" "kind_char j c"
    using json_text_head by blast
  obtain c' r' where 2: "json_text j' = c' # r'" "kind_char j' c'"
    using json_text_head by blast
  with 1 assms have "c = c'"
    by simp
  with 1 2 show ?thesis
    using kind_char_kind by blast
qed


lemma text_not_bracket: "json_text j @ x \<noteq> CHR '']'' # y" "CHR '']'' # y \<noteq> json_text j @ x"
proof -
  obtain c r where "json_text j = c # r" "kind_char j c"
    using json_text_head by blast
  moreover have "\<not> kind_char j CHR '']''"
    by (cases j) (simp_all add: kind_char_def number_char_def quote_char_char)
  ultimately show "json_text j @ x \<noteq> CHR '']'' # y" "CHR '']'' # y \<noteq> json_text j @ x"
    by auto
qed

lemma field_delimited:
  assumes IH: "\<And>j' x y. json_valid j' \<Longrightarrow> ends_value x \<Longrightarrow> ends_value y \<Longrightarrow> json_text j @ x = json_text j' @ y \<Longrightarrow>
      j = j' \<and> x = y"
    and "valid_utf8 k" "valid_utf8 k'" "json_valid j'" "ends_value x" "ends_value y"
    and eq: "json_string k @ CHR '':'' # json_text j @ x = json_string k' @ CHR '':'' # json_text j' @ y"
  shows "k = k' \<and> j = j' \<and> x = y"
proof -
  have "k = k' \<and> CHR '':'' # json_text j @ x = CHR '':'' # json_text j' @ y"
    using json_string_delimited [OF assms(2,3) eq] .
  then show ?thesis
    using IH [OF assms(4,5,6)] by simp
qed

lemma json_text_delimited:
  "json_valid j \<Longrightarrow> json_valid j' \<Longrightarrow> ends_value x \<Longrightarrow> ends_value y \<Longrightarrow> json_text j @ x = json_text j' @ y \<Longrightarrow>
     j = j' \<and> x = y"
  "list_all json_valid js \<Longrightarrow> list_all json_valid js' \<Longrightarrow> more_elements js @ x = more_elements js' @ y \<Longrightarrow>
     js = js' \<and> x = y"
  "list_all (\<lambda>(k, j). valid_utf8 k \<and> json_valid j) fs \<Longrightarrow> list_all (\<lambda>(k, j). valid_utf8 k \<and> json_valid j) fs' \<Longrightarrow>
     more_fields fs @ x = more_fields fs' @ y \<Longrightarrow> fs = fs' \<and> x = y"
proof (induction j and js and fs arbitrary: j' x y and js' x y and fs' x y
    rule: json_text_more_elements_more_fields.induct)
  case 1
  then show ?case
    using text_same_kind [OF 1(5)] by (cases j') (auto simp: same_kind_def)
next
  case (2 b)
  then show ?case
    using text_same_kind [OF 2(5)] by (cases j') (auto simp: same_kind_def split: if_splits)
next
  case (3 i)
  obtain n where j': "j' = JInt n"
    using text_same_kind [OF 3(5)] by (cases j') (auto simp: same_kind_def)
  then show ?case
    using 3 itoa_delimited [of i x n y] by simp
next
  case (4 s)
  obtain t where j': "j' = JString t"
    using text_same_kind [OF 4(5)] by (cases j') (auto simp: same_kind_def)
  then show ?case
    using 4 json_string_delimited [of s t x y] by simp
next
  case 5
  obtain js where j': "j' = JArray js"
    using text_same_kind [OF 5(5)] by (cases j') (auto simp: same_kind_def)
  then show ?case
    using 5(5) j' by (cases js) (simp_all add: text_not_bracket)
next
  case (6 j js)
  obtain ks where j': "j' = JArray ks"
    using text_same_kind [OF 6(7)] by (cases j') (auto simp: same_kind_def)
  then obtain k ks' where ks: "ks = k # ks'"
    using 6(7) by (cases ks) (simp_all add: text_not_bracket)
  have "j = k \<and> more_elements js @ x = more_elements ks' @ y"
    using 6(3,4,7) j' ks by (intro 6(1)) (simp_all add: more_ends)
  then show ?case
    using 6(2) [of ks' x y] 6(3,4) j' ks by simp
next
  case 7
  obtain fs where j': "j' = JObject fs"
    using text_same_kind [OF 7(5)] by (cases j') (auto simp: same_kind_def)
  then show ?case
    using 7 by (cases fs) (auto simp: json_string_def quote_char_char)
next
  case (8 k j fs)
  obtain gs where j': "j' = JObject gs"
    using text_same_kind [OF 8(7)] by (cases j') (auto simp: same_kind_def)
  then obtain k' i gs' where gs: "gs = (k', i) # gs'"
    using 8(7) by (cases gs) (auto simp: json_string_def quote_char_char)
  have "k = k' \<and> j = i \<and> more_fields fs @ x = more_fields gs' @ y"
    by (rule field_delimited [OF 8(1)]) (use 8(3,4,7) j' gs in \<open>simp_all add: more_ends\<close>)
  then show ?case
    using 8(2) [of gs' x y] 8(3,4) j' gs by simp
next
  case 9
  then show ?case
    by (cases js') auto
next
  case (10 j js)
  then obtain k ks where ks: "js' = k # ks"
    by (cases js') auto
  have "j = k \<and> more_elements js @ x = more_elements ks @ y"
    using 10(3-5) ks by (intro 10(1)) (simp_all add: more_ends)
  then show ?case
    using 10(2) [of ks x y] 10(3,4) ks by simp
next
  case 11
  then show ?case
    by (cases fs') auto
next
  case (12 k j fs)
  then obtain k' i gs where gs: "fs' = (k', i) # gs"
    by (cases fs') auto
  have "k = k' \<and> j = i \<and> more_fields fs @ x = more_fields gs @ y"
    by (rule field_delimited [OF 12(1)]) (use 12(3-5) gs in \<open>simp_all add: more_ends\<close>)
  then show ?case
    using 12(2) [of gs x y] 12(3,4) gs by simp
qed

lemma json_text_inj: "json_valid j \<Longrightarrow> json_valid j' \<Longrightarrow> json_text j = json_text j' \<Longrightarrow> j = j'"
  using json_text_delimited(1) [of j j' "[]" "[]"] by (simp add: ends_value_def)

end
