(* ===== verification/Admission.thy ===== *)
theory Admission
  imports Group_Admission Json_Text
begin

text \<open>
  \<open>compute/service.go\<close>, \<open>modify.go\<close> and \<open>tags.go\<close>: how a launch, a power request, a resize and a
  change of tags are admitted. \<open>Run\<close> validates the request, answers a retried client token with the
  original, looks at the host, and then checks quota and budget, picks a VMID and records the
  instance in one transaction.
\<close>

section \<open>A launch request and its fingerprint\<close>

text \<open>The fields in the order of the Go struct; a pointer is an option, so is the map of tags.\<close>

record run_request =
  rr_image_id :: string
  rr_instance_type :: string
  rr_key_name :: string
  rr_vcpus :: "int option"
  rr_memory_mib :: "int option"
  rr_memory_min_mib :: "int option"
  rr_ballooning :: "bool option"
  rr_root_disk_gib :: int
  rr_disk_tier :: string
  rr_subnet_id :: string
  rr_user_data :: string
  rr_client_token :: string
  rr_install_iso_id :: string
  rr_driver_iso_id :: string
  rr_guest_os :: string
  rr_tags :: "(string, string) gomap option"
  rr_security_group_ids :: "string list"

definition size_of :: "run_request \<Rightarrow> size_request" where
  "size_of r = \<lparr>rq_instance_type = rr_instance_type r, rq_vcpus = rr_vcpus r, rq_memory_mib = rr_memory_mib r,
     rq_memory_min_mib = rr_memory_min_mib r, rq_ballooning = rr_ballooning r\<rparr>"

definition tags_of :: "(string, string) gomap option \<Rightarrow> (string, string) gomap" where
  "tags_of tags = (case tags of None \<Rightarrow> [] | Some m \<Rightarrow> m)"

definition json_int :: "int option \<Rightarrow> json" where
  "json_int x = (case x of None \<Rightarrow> JNull | Some i \<Rightarrow> JInt i)"

definition json_bool :: "bool option \<Rightarrow> json" where
  "json_bool x = (case x of None \<Rightarrow> JNull | Some b \<Rightarrow> JBool b)"

definition json_tags :: "(string, string) gomap option \<Rightarrow> json" where
  "json_tags tags = (case tags of None \<Rightarrow> JNull
     | Some m \<Rightarrow> JObject (map (\<lambda>(k, v). (k, JString v)) (sort_key fst m)))"

text \<open>\<open>omitempty\<close>.\<close>

definition unless_empty :: "string \<Rightarrow> string \<Rightarrow> (string \<times> json) list" where
  "unless_empty name s = (if s = '''' then [] else [(name, JString s)])"

definition request_json :: "run_request \<Rightarrow> json" where
  "request_json r = JObject (
     [(''image_id'', JString (rr_image_id r)), (''instance_type'', JString (rr_instance_type r)),
      (''key_name'', JString (rr_key_name r)), (''vcpus'', json_int (rr_vcpus r)),
      (''memory_mib'', json_int (rr_memory_mib r)), (''memory_min_mib'', json_int (rr_memory_min_mib r)),
      (''ballooning'', json_bool (rr_ballooning r)), (''root_disk_gib'', JInt (rr_root_disk_gib r)),
      (''disk_tier'', JString (rr_disk_tier r))] @
     unless_empty ''subnet_id'' (rr_subnet_id r) @
     [(''user_data'', JString (rr_user_data r)), (''client_token'', JString (rr_client_token r))] @
     unless_empty ''install_iso_id'' (rr_install_iso_id r) @
     unless_empty ''driver_iso_id'' (rr_driver_iso_id r) @
     unless_empty ''guest_os'' (rr_guest_os r) @
     [(''tags'', json_tags (rr_tags r))] @
     (if rr_security_group_ids r = [] then []
      else [(''security_group_ids'', JArray (map JString (rr_security_group_ids r)))]))"

definition requestHash :: "'h env \<Rightarrow> run_request \<Rightarrow> nat list" where
  "requestHash E r = e_sha256 E (json_text (request_json (r\<lparr>rr_client_token := ''''\<rparr>)))"

section \<open>Validation\<close>

definition maxUserData :: nat where "maxUserData = 16 * 1024"

text \<open>\<open>^[\x21-\x7e]{1,64}$\<close>\<close>

definition clientToken :: "string \<Rightarrow> bool" where
  "clientToken s \<longleftrightarrow> 1 \<le> length s \<and> length s \<le> 64 \<and>
     list_all (\<lambda>c. 0x21 \<le> (of_char c :: nat) \<and> (of_char c :: nat) \<le> 0x7E) s"

definition tag_ok :: "string \<times> string \<Rightarrow> bool" where
  "tag_ok kv \<longleftrightarrow> \<not> (fst kv = '''' \<or> rune_count (fst kv) > 128 \<or> rune_count (snd kv) > 256 \<or>
     has_prefix (fst kv) ''shakecloud:'')"

definition validateTags :: "(string, string) gomap \<Rightarrow> unit res" where
  "validateTags tags =
     (if length tags > 20 then Inl bad_request
      else if \<not> list_all tag_ok tags then Inl bad_request else Inr ())"

definition diskTierStorage :: "site \<Rightarrow> string \<Rightarrow> string res" where
  "diskTierStorage s tier =
     (case disk_tier_storage (s_storage s) tier of (storage, ok) \<Rightarrow> if ok then Inr storage else Inl bad_request)"

definition subnetName :: "string \<Rightarrow> string" where
  "subnetName k = trim_prefix k ''subnet-''"

definition launchSubnet :: "site \<Rightarrow> string \<Rightarrow> subnet res" where
  "launchSubnet s k =
     (if k \<noteq> '''' \<and> \<not> has_prefix k ''subnet-'' then Inl bad_request
      else case network_subnet (s_network s) (subnetName k) of
          None \<Rightarrow> Inl (Refuse 400 ''InvalidSubnetID.NotFound'')
        | Some n \<Rightarrow> if \<not> fst (launchable (s_network s) n) then Inl (Refuse 400 ''InvalidSubnet.NotLaunchable'')
                    else Inr n)"

text \<open>The guest's system, from the image or from the installation medium.\<close>

definition guest_system :: "run_request \<Rightarrow> string \<Rightarrow> run_request res" where
  "guest_system r os =
     (let r = (if rr_guest_os r = '''' then r\<lparr>rr_guest_os := os\<rparr> else r) in
      if os \<noteq> '''' \<and> rr_guest_os r \<noteq> os then Inl bad_request else Inr r)"

definition validate_media :: "'h env \<Rightarrow> run_request \<Rightarrow> ('h, run_request) cloud" where
  "validate_media E r =
     (if rr_image_id r = '''' \<and> rr_install_iso_id r = '''' then raise bad_request
      else if rr_image_id r \<noteq> '''' \<and> rr_install_iso_id r \<noteq> '''' then raise bad_request
      else if rr_guest_os r \<noteq> '''' \<and> rr_guest_os r \<noteq> OSLinux \<and> rr_guest_os r \<noteq> OSWindows then raise bad_request
      else if rr_image_id r \<noteq> '''' then
        bindE (ResolveImage E (rr_image_id r)) (\<lambda>image. of_res (guest_system r (ii_os image)))
      else bindE (ResolveISO E (rr_install_iso_id r)) (\<lambda>iso.
        bindE (of_res (guest_system r (is_os iso))) (\<lambda>r.
          if rr_driver_iso_id r = '''' then ret r
          else if rr_driver_iso_id r = rr_install_iso_id r then raise bad_request
          else bindE (ResolveISO E (rr_driver_iso_id r)) (\<lambda>_. ret r))))"

text \<open>The rest of \<open>validate\<close>: sizes, defaults filled in, tier, subnet, user data, token and tags.\<close>

definition validate_rest :: "site \<Rightarrow> limits \<Rightarrow> run_request \<Rightarrow> (spec \<times> run_request) res" where
  "validate_rest s limits r =
     (case resolve_spec (instance_types s) (size_of r) of
        Inl e \<Rightarrow> Inl e
      | Inr spec \<Rightarrow>
          let r = (if rr_root_disk_gib r = 0 then r\<lparr>rr_root_disk_gib := root_disk_default limits\<rparr> else r) in
          if rr_root_disk_gib r < root_disk_min limits \<or> rr_root_disk_gib r > root_disk_max limits
          then Inl bad_request
          else let r = (if rr_disk_tier r = '''' then r\<lparr>rr_disk_tier := TierSSD\<rparr> else r) in
            case diskTierStorage s (rr_disk_tier r) of Inl e \<Rightarrow> Inl e | Inr _ \<Rightarrow>
            case launchSubnet s (rr_subnet_id r) of Inl e \<Rightarrow> Inl e | Inr _ \<Rightarrow>
            if length (rr_user_data r) > maxUserData then Inl bad_request
            else if rr_client_token r \<noteq> '''' \<and> \<not> clientToken (rr_client_token r) then Inl bad_request
            else case validateTags (tags_of (rr_tags r)) of Inl e \<Rightarrow> Inl e | Inr _ \<Rightarrow> Inr (spec, r))"

definition validate :: "'h env \<Rightarrow> run_request \<Rightarrow> limits \<Rightarrow> ('h, spec \<times> run_request) cloud" where
  "validate E r limits = bindE (validate_media E r) (\<lambda>r. of_res (validate_rest (e_site E) limits r))"

section \<open>Quota, budget and host\<close>

definition insufficient_capacity :: err where
  "insufficient_capacity = Refuse 503 ''InsufficientInstanceCapacity''"

text \<open>\<open>replacing\<close> is the instance being resized, whose resources are not counted against the new ones.\<close>

definition quota_usage :: "usage \<Rightarrow> instance_row option \<Rightarrow> usage" where
  "quota_usage u replacing = (case replacing of None \<Rightarrow> u
     | Some i \<Rightarrow> u\<lparr>u_vcpus := wrap64 (u_vcpus u - i_cpu i), u_memory := wrap64 (u_memory u - i_memory i),
                  u_root_disk := wrap64 (u_root_disk u - i_root_disk i)\<rparr>)"

definition quota_problem :: "quota \<Rightarrow> usage \<Rightarrow> int \<Rightarrow> spec \<Rightarrow> int \<Rightarrow> err option" where
  "quota_problem q u added sp disk =
     (if q_instances q > 0 \<and> wrap64 (u_instances u + added) > q_instances q
        then Some (Refuse 409 ''InstanceLimitExceeded'')
      else if q_vcpus q > 0 \<and> wrap64 (u_vcpus u + sp_cpu_cores sp) > q_vcpus q
        then Some (Refuse 409 ''VcpuLimitExceeded'')
      else if q_memory_mib q > 0 \<and> wrap64 (u_memory u + sp_memory_mib sp) > q_memory_mib q
        then Some (Refuse 409 ''InstanceLimitExceeded'')
      else if q_root_disk_gib q > 0 \<and> wrap64 (u_root_disk u + disk) > q_root_disk_gib q
        then Some (Refuse 409 ''VolumeLimitExceeded'')
      else None)"

definition checkQuota ::
    "'h env \<Rightarrow> string \<Rightarrow> spec \<Rightarrow> int \<Rightarrow> limits \<Rightarrow> instance_row option \<Rightarrow> ('h, unit) cloud" where
  "checkQuota E acct sp disk limits replacing =
     bindE (sql E (\<lambda>_. reading (\<lambda>d. Inr (AccountUsage acct (d_instances d) (d_volumes d))))) (\<lambda>u.
       case quota_problem (account_quota limits) (quota_usage u replacing) (if replacing = None then 1 else 0) sp disk of
         Some e \<Rightarrow> raise e
       | None \<Rightarrow> bindE (sql E (\<lambda>_. reading (\<lambda>d. Inr (LiveMemoryMiB (d_instances d))))) (\<lambda>live.
           let live = (case replacing of None \<Rightarrow> live | Some i \<Rightarrow> wrap64 (live - i_memory i)) in
           if memory_budget_mib limits > 0 \<and> wrap64 (live + sp_memory_mib sp) > memory_budget_mib limits
           then raise insufficient_capacity else ret ()))"

definition checkDiskPool :: "'h env \<Rightarrow> limits \<Rightarrow> string \<Rightarrow> ('h, unit) cloud" where
  "checkDiskPool E limits storage =
     (let threshold = vm_disk_max_used_percent limits in
      bindE (or_unavailable (external (StorageStatus (e_pve E) storage))) (\<lambda>disks.
        if threshold > 0 \<and> ss_total disks > 0 \<and> wrap64 (ss_used disks * 100) \<ge> wrap64 (threshold * ss_total disks)
        then raise insufficient_capacity else ret ()))"

definition checkHost :: "'h env \<Rightarrow> spec \<Rightarrow> int \<Rightarrow> limits \<Rightarrow> string \<Rightarrow> ('h, unit) cloud" where
  "checkHost E sp needed limits storage =
     bindE (or_unavailable (external (NodeStatus (e_pve E)))) (\<lambda>st.
       if ns_cpus st > 0 \<and> sp_cpu_cores sp > ns_cpus st then raise bad_request
       else if wrap64 (ns_mem_available st - shl64 20 needed) < shl64 20 (node_memory_reserve_mib limits)
         then raise insufficient_capacity
       else seqE (checkDiskPool E limits storage)
         (bindE (or_unavailable (external (StorageStatus (e_pve E) (images_store (s_storage (e_site E)))))) (\<lambda>images.
           if ss_avail images < shl64 20 (image_store_min_free_mib limits)
           then raise insufficient_capacity else ret ())))"

section \<open>Launching\<close>

definition newInstanceID :: "'h env \<Rightarrow> ('h, string) cloud" where
  "newInstanceID E = bindE (random_hex E) (\<lambda>h. ret (''i-'' @ h))"

text \<open>The instance a client token already made; \<open>q\<close> is the pool or the transaction.\<close>

definition by_token ::
    "((int \<Rightarrow> instance_row stmt) \<Rightarrow> ('h, instance_row) cloud) \<Rightarrow> string \<Rightarrow> string \<Rightarrow> ('h, instance_row option) cloud" where
  "by_token q acct token =
     (if token = '''' then ret None
      else attempt (q (\<lambda>_. reading (\<lambda>d. InstanceByClientToken acct token (d_instances d)))) (\<lambda>r. case r of
          Inr i \<Rightarrow> ret (Some i)
        | Inl e \<Rightarrow> if err_is e NotFound then ret None else raise e))"

definition idempotent :: "instance_row \<Rightarrow> nat list \<Rightarrow> ('h, instance_row \<times> bool) cloud" where
  "idempotent i hash =
     (if i_request_hash i \<noteq> hash then raise (Refuse 409 ''IdempotentParameterMismatch'') else ret (i, False))"

definition launch_key :: "'h env \<Rightarrow> string \<Rightarrow> string \<Rightarrow> ('h, string) cloud" where
  "launch_key E acct name =
     (if name = '''' then ret ''''
      else attempt (db E (\<lambda>_. reading (GetKeyPair acct name))) (\<lambda>r. case r of
          Inl e \<Rightarrow> raise (if err_is e NotFound then Refuse 400 ''InvalidKeyPair.NotFound'' else e)
        | Inr kp \<Rightarrow> ret (kp_public_key kp)))"

text \<open>The row \<open>Run\<close> inserts; \<open>InsertInstance\<close> sets the columns that are not named here.\<close>

definition launch_row ::
    "string \<Rightarrow> string \<Rightarrow> run_request \<Rightarrow> spec \<Rightarrow> nat list \<Rightarrow> string \<Rightarrow> int \<Rightarrow> string \<Rightarrow> instance_row" where
  "launch_row k acct r sp hash key vmid mac =
     \<lparr>i_id = k, i_account = acct, i_client_token = rr_client_token r, i_request_hash = hash,
      i_name = gomap_str (tags_of (rr_tags r)) ''Name'', i_image = rr_image_id r, i_guest_os = rr_guest_os r,
      i_install_iso = rr_install_iso_id r, i_driver_iso = rr_driver_iso_id r, i_type = sp_type_name sp,
      i_cpu = sp_cpu_cores sp, i_memory = sp_memory_mib sp, i_memory_min = sp_memory_min_mib sp,
      i_ballooning = sp_ballooning sp, i_root_disk = rr_root_disk_gib r, i_disk_tier = rr_disk_tier r,
      i_subnet = subnetName (rr_subnet_id r), i_user_data = rr_user_data r, i_key_name = rr_key_name r,
      i_key_public = key, i_tags = tags_of (rr_tags r), i_state = StatePending, i_pending = Some ActionLaunch,
      i_state_reason = '''', i_last_error = '''', i_attempts = 0, i_next_attempt = 0, i_lease_until = None,
      i_vmid = Some vmid, i_vm_created = False, i_mac = mac, i_ip = '''', i_netbox_ip = None,
      i_seed_volume = '''', i_launch_time = 0, i_terminated_at = None, i_updated_at = 0, i_adopted = False,
      i_fw_generation = 0, i_fw_applied = 0, i_fw_last_error = '''', i_fw_next_attempt = 0,
      i_fw_lease_until = None\<rparr>"

definition record_launch ::
    "'h env \<Rightarrow> string \<Rightarrow> run_request \<Rightarrow> spec \<Rightarrow> nat list \<Rightarrow> string \<Rightarrow> vm list \<Rightarrow>
     (instance_row \<Rightarrow> unit res) \<Rightarrow> string list \<Rightarrow> ('h, instance_row) cloud" where
  "record_launch E acct r sp hash key visible audit groups =
     bindE (catchE (allocate_vmid E visible) (\<lambda>e. raise (if err_is e NoVMID then insufficient_capacity else e))) (\<lambda>vmid.
     bindE (newInstanceID E) (\<lambda>k.
     bindE (random_mac E) (\<lambda>mac.
     bindE (sql E (\<lambda>now. on_instances (InsertInstance now (launch_row k acct r sp hash key vmid mac)))) (\<lambda>i.
     seqE (sql E (\<lambda>now. SetInstanceGroups now (i_id i) groups))
     (bindE (sql E (\<lambda>_. reading (\<lambda>d. GetInstance (i_id i) (d_instances d)))) (\<lambda>i.
       seqE (of_res (audit i)) (ret i)))))))"

definition admit_tx ::
    "'h env \<Rightarrow> string \<Rightarrow> run_request \<Rightarrow> spec \<Rightarrow> nat list \<Rightarrow> string \<Rightarrow> vm list \<Rightarrow> limits \<Rightarrow>
     (instance_row \<Rightarrow> unit res) \<Rightarrow> ('h, instance_row \<times> bool) cloud" where
  "admit_tx E acct r sp hash key visible limits audit =
     seqE (sql E (\<lambda>_. LockCapacity))
     (bindE (by_token (sql E) acct (rr_client_token r)) (\<lambda>existing. case existing of
         Some i \<Rightarrow> ret (i, False)
       | None \<Rightarrow>
           seqE (checkQuota E acct sp (rr_root_disk_gib r) limits None)
           (bindE (resolveGroups E acct (rr_security_group_ids r)) (\<lambda>groups.
           bindE (record_launch E acct r sp hash key visible audit groups) (\<lambda>i. ret (i, True))))))"

text \<open>
  The error \<open>diskTierStorage\<close> could still report in \<open>Run\<close> was already reported by \<open>validate\<close>.
\<close>

definition Run ::
    "'h env \<Rightarrow> string \<Rightarrow> run_request \<Rightarrow> (instance_row \<Rightarrow> unit res) \<Rightarrow> ('h, instance_row \<times> bool) cloud" where
  "Run E acct r audit =
     bindE (EffectiveLimits E (db E)) (\<lambda>(limits, _).
     bindE (validate E r limits) (\<lambda>(sp, r).
     let hash = requestHash E r in
     bindE (by_token (db E) acct (rr_client_token r)) (\<lambda>existing. case existing of
         Some i \<Rightarrow> idempotent i hash
       | None \<Rightarrow>
           bindE (launch_key E acct (rr_key_name r)) (\<lambda>key.
           bindE (of_res (diskTierStorage (e_site E) (rr_disk_tier r))) (\<lambda>storage.
           seqE (checkHost E sp (sp_memory_mib sp) limits storage)
           (bindE (or_unavailable (list_vms E)) (\<lambda>visible.
           bindE (tx E (admit_tx E acct r sp hash key visible limits audit)) (\<lambda>(i, created).
             if \<not> created then idempotent i hash else seqE Wake (ret (i, True))))))))))"


section \<open>What a launch records\<close>

text \<open>The tables a launch looks at, as the transaction found them.\<close>

definition found :: "inst_table \<Rightarrow> vol_table \<Rightarrow> int list \<Rightarrow> ledger \<Rightarrow> bool" where
  "found t v q d \<longleftrightarrow> d_instances d = t \<and> d_volumes d = v \<and> d_quarantine d = q"

definition has_token :: "string \<Rightarrow> string \<Rightarrow> instance_row \<Rightarrow> bool" where
  "has_token acct token i \<longleftrightarrow> i_account i = acct \<and> token \<noteq> '''' \<and> i_client_token i = token"

definition quota_clear :: "string \<Rightarrow> spec \<Rightarrow> int \<Rightarrow> limits \<Rightarrow> inst_table \<Rightarrow> vol_table \<Rightarrow> bool" where
  "quota_clear acct sp disk limits t v \<longleftrightarrow>
     quota_problem (account_quota limits) (AccountUsage acct t v) 1 sp disk = None \<and>
     (memory_budget_mib limits \<le> 0 \<or> wrap64 (LiveMemoryMiB t + sp_memory_mib sp) \<le> memory_budget_mib limits)"

definition touch :: "int \<Rightarrow> instance_row \<Rightarrow> instance_row" where
  "touch now i = (bump now i)\<lparr>i_updated_at := now\<rparr>"

text \<open>The launch the transaction committed: its row, and the VMID it was given.\<close>

definition launched ::
    "'h env \<Rightarrow> inst_table \<Rightarrow> int list \<Rightarrow> string \<Rightarrow> run_request \<Rightarrow> spec \<Rightarrow> nat list \<Rightarrow> string \<Rightarrow> vm list \<Rightarrow>
     instance_row \<Rightarrow> inst_table \<Rightarrow> bool" where
  "launched E t q acct r sp hash key visible i t' \<longleftrightarrow>
     (\<exists>vmid k mac now now' row u.
        AllocateVMID (vmid_from (e_site E)) (vmid_to (e_site E)) (skipVMIDs E visible) q t = Inr vmid \<and>
        InsertInstance now (launch_row k acct r sp hash key vmid mac) t = (Inr row, u) \<and>
        t' = update_where (by_id k) (touch now') u \<and> GetInstance k t' = Inr i)"

lemma in_tx_by_token:
  fixes E :: "'h env"
  assumes found: "\<And>d. P d \<Longrightarrow> d_instances d = t"
  shows "in_tx P (by_token (sql E) acct token)
    (\<lambda>x d. P d \<and> (case x of None \<Rightarrow> \<not> (\<exists>i \<in> set t. has_token acct token i) | Some i \<Rightarrow> i \<in> set t \<and> has_token acct token i))"
    (is "in_tx P _ ?Q")
proof (cases "token = ''''")
  case True
  then show ?thesis
    by (auto simp: by_token_def has_token_def intro: in_tx_ret)
next
  case False
  show ?thesis
    unfolding in_tx_def triple_def
  proof (intro allI impI)
    fix w :: "'h world" assume w: "db_inv P w"
    then have t: "d_instances (w_db w) = t"
      using found by (simp add: db_inv_def)
    obtain r w' where run: "sql E (\<lambda>_. reading (\<lambda>d. InstanceByClientToken acct token (d_instances d))) w = (r, w')"
      by fastforce
    then have same: "w_db w' = w_db w" and r: "r = Inl db_failed \<or> r = InstanceByClientToken acct token t"
      by (auto simp: sql_def reading_def Let_def t split: if_splits)
    have found: "InstanceByClientToken acct token t = Inr i \<Longrightarrow> i \<in> set t \<and> has_token acct token i" for i
      by (auto simp: InstanceByClientToken_def has_token_def dest: select_one_Inr)
    have missing: "InstanceByClientToken acct token t = Inl e \<Longrightarrow> \<not> (\<exists>i \<in> set t. has_token acct token i)" for e
      by (auto simp: InstanceByClientToken_def has_token_def select_one_Inl)
    show "case by_token (sql E) acct token w of (Inl e, w') \<Rightarrow> True | (Inr x, w') \<Rightarrow> db_inv (?Q x) w'"
      using False run same r w found missing
      by (auto simp: by_token_def attempt_def db_inv_def ret_def raise_def db_failed_def split: sum.split)
  qed
qed

lemma in_tx_checkQuota:
  fixes E :: "'h env"
  assumes "\<And>d. P d \<Longrightarrow> d_instances d = t \<and> d_volumes d = v"
  shows "in_tx P (checkQuota E acct sp disk limits None) (\<lambda>_ d. P d \<and> quota_clear acct sp disk limits t v)"
proof -
  have usage: "in_tx P (sql E (\<lambda>_. reading (\<lambda>d. Inr (AccountUsage acct (d_instances d) (d_volumes d)))))
      (\<lambda>u d. P d \<and> u = AccountUsage acct t v)"
    by (rule in_tx_reading) (use assms in auto)
  have live: "in_tx (\<lambda>d. P d \<and> u = AccountUsage acct t v) (sql E (\<lambda>_. reading (\<lambda>d. Inr (LiveMemoryMiB (d_instances d)))))
      (\<lambda>l d. P d \<and> u = AccountUsage acct t v \<and> l = LiveMemoryMiB t)" for u
    by (rule in_tx_reading) (use assms in auto)
  show ?thesis
    unfolding checkQuota_def quota_usage_def Let_def option.case
    by (rule in_tx_bindE [OF usage], rule in_tx_case_option, rule in_tx_bindE [OF live])
      (auto intro!: in_tx_if in_tx_raise in_tx_ret simp: quota_clear_def)
qed

lemma in_tx_record_launch:
  fixes E :: "'h env"
  shows "in_tx (found t v q) (record_launch E acct r sp hash key visible audit groups)
    (\<lambda>i d. launched E t q acct r sp hash key visible i (d_instances d) \<and> d_volumes d = v \<and> d_quarantine d = q)"
proof -
  let ?A = "\<lambda>vmid d. found t v q d \<and>
      AllocateVMID (vmid_from (e_site E)) (vmid_to (e_site E)) (skipVMIDs E visible) q t = Inr vmid"
  let ?I = "\<lambda>vmid k mac row d. \<exists>now. InsertInstance now (launch_row k acct r sp hash key vmid mac) t = (Inr row, d_instances d) \<and>
      d_volumes d = v \<and> d_quarantine d = q \<and> AllocateVMID (vmid_from (e_site E)) (vmid_to (e_site E)) (skipVMIDs E visible) q t = Inr vmid"
  let ?S = "\<lambda>vmid k mac row d. \<exists>now now' u. InsertInstance now (launch_row k acct r sp hash key vmid mac) t = (Inr row, u) \<and>
      d_instances d = update_where (by_id k) (touch now') u \<and>
      d_volumes d = v \<and> d_quarantine d = q \<and> AllocateVMID (vmid_from (e_site E)) (vmid_to (e_site E)) (skipVMIDs E visible) q t = Inr vmid"
  have alloc: "in_tx (found t v q) (catchE (allocate_vmid E visible)
      (\<lambda>e. raise (if err_is e NoVMID then insufficient_capacity else e))) ?A"
    unfolding allocate_vmid_def
    by (rule in_tx_catchE [OF in_tx_reading]) (auto simp: found_def)
  have kid: "in_tx P (newInstanceID E) (\<lambda>_. P)" for P
    unfolding newInstanceID_def by (intro in_tx_keeps keeps_intros)
  have mac: "in_tx P (random_mac E) (\<lambda>_. P)" for P
    by (intro in_tx_keeps keeps_random_mac)
  have insert: "in_tx (?A vmid) (sql E (\<lambda>now. on_instances (InsertInstance now (launch_row k acct r sp hash key vmid mac))))
      (?I vmid k mac)" for vmid k mac
    by (rule in_tx_sql) (auto simp: on_instances_def found_def split: prod.splits)
  have row_id: "InsertInstance now (launch_row k acct r sp hash key vmid mac) t = (Inr row, u) \<Longrightarrow> i_id row = k"
    for now k vmid mac row u
    by (auto simp: InsertInstance_def constrained_def launch_row_def Let_def split: if_splits)
  have groups: "in_tx (?I vmid k mac row) (sql E (\<lambda>now. SetInstanceGroups now (i_id row) groups)) (\<lambda>_. ?S vmid k mac row)"
    for vmid k mac row
    by (rule in_tx_sql, auto simp: SetInstanceGroups_def touch_def [abs_def] row_id dest!: grp_constrained_Inr) blast
  have get: "in_tx (?S vmid k mac row) (sql E (\<lambda>_. reading (\<lambda>d. GetInstance (i_id row) (d_instances d))))
      (\<lambda>i d. launched E t q acct r sp hash key visible i (d_instances d) \<and> d_volumes d = v \<and> d_quarantine d = q)"
    for vmid k mac row
    by (rule in_tx_reading) (force simp: launched_def row_id)
  show ?thesis
    unfolding record_launch_def
    by (intro in_tx_bindE [OF alloc] in_tx_bindE [OF kid] in_tx_bindE [OF mac] in_tx_bindE [OF insert]
        in_tx_seqE [OF groups] in_tx_bindE [OF get] in_tx_seqE [OF in_tx_audit] in_tx_ret)
qed

definition admitted ::
    "'h env \<Rightarrow> inst_table \<Rightarrow> vol_table \<Rightarrow> int list \<Rightarrow> string \<Rightarrow> run_request \<Rightarrow> spec \<Rightarrow> nat list \<Rightarrow> string \<Rightarrow> vm list \<Rightarrow>
     limits \<Rightarrow> instance_row \<Rightarrow> bool \<Rightarrow> inst_table \<Rightarrow> bool" where
  "admitted E t v q acct r sp hash key visible limits i created t' =
     (if created
      then \<not> (\<exists>j \<in> set t. has_token acct (rr_client_token r) j) \<and>
           quota_clear acct sp (rr_root_disk_gib r) limits t v \<and>
           launched E t q acct r sp hash key visible i t'
      else i \<in> set t \<and> has_token acct (rr_client_token r) i \<and> t' = t)"

lemma in_tx_admit:
  fixes E :: "'h env"
  shows "in_tx (found t v q) (admit_tx E acct r sp hash key visible limits audit)
    (\<lambda>(i, created) d. admitted E t v q acct r sp hash key visible limits i created (d_instances d) \<and> d_volumes d = v \<and>
      d_quarantine d = q)"
    (is "in_tx _ _ ?Q")
  unfolding admit_tx_def
proof (rule in_tx_seqE [OF in_tx_lock_capacity], rule in_tx_bindE [OF in_tx_by_token [where t = t]], simp add: found_def,
    rule in_tx_case_option)
  fix x :: "instance_row option" and i
  assume "x = Some i"
  then show "in_tx (\<lambda>d. found t v q d \<and> (case x of None \<Rightarrow> \<not> (\<exists>i \<in> set t. has_token acct (rr_client_token r) i)
      | Some i \<Rightarrow> i \<in> set t \<and> has_token acct (rr_client_token r) i)) (ret (i, False)) ?Q"
    by (intro in_tx_ret) (auto simp: admitted_def found_def)
next
  fix x :: "instance_row option"
  assume x: "x = None"
  let ?new = "\<not> (\<exists>i \<in> set t. has_token acct (rr_client_token r) i)"
  let ?ok = "quota_clear acct sp (rr_root_disk_gib r) limits t v"
  have quota: "in_tx (\<lambda>d. found t v q d \<and> ?new) (checkQuota E acct sp (rr_root_disk_gib r) limits None)
      (\<lambda>_ d. (found t v q d \<and> ?new) \<and> ?ok)"
    by (rule in_tx_checkQuota) (simp add: found_def)
  have groups: "in_tx (\<lambda>d. (found t v q d \<and> ?new) \<and> ?ok) (resolveGroups E acct (rr_security_group_ids r))
      (\<lambda>_ d. (found t v q d \<and> ?new) \<and> ?ok)"
    by (rule in_tx_keeps, rule keeps_resolveGroups) (simp add: only_groups_def found_def)
  have launch: "in_tx (\<lambda>d. (found t v q d \<and> ?new) \<and> ?ok) (record_launch E acct r sp hash key visible audit gs)
      (\<lambda>i d. admitted E t v q acct r sp hash key visible limits i True (d_instances d) \<and> d_volumes d = v \<and> d_quarantine d = q)"
    for gs
  proof (cases "?new \<and> ?ok")
    case True
    then show ?thesis
      by (intro in_tx_pre [OF in_tx_post [OF in_tx_record_launch]]) (auto simp: admitted_def)
  next
    case False
    then show ?thesis
      by (auto simp: in_tx_def triple_def db_inv_def split: prod.split sum.split)
  qed
  show "in_tx (\<lambda>d. found t v q d \<and> (case x of None \<Rightarrow> \<not> (\<exists>i \<in> set t. has_token acct (rr_client_token r) i)
      | Some i \<Rightarrow> i \<in> set t \<and> has_token acct (rr_client_token r) i))
      (seqE (checkQuota E acct sp (rr_root_disk_gib r) limits None)
        (bindE (resolveGroups E acct (rr_security_group_ids r)) (\<lambda>groups.
          bindE (record_launch E acct r sp hash key visible audit groups) (\<lambda>i. ret (i, True))))) ?Q"
    unfolding x option.case
    by (intro in_tx_seqE [OF quota] in_tx_bindE [OF groups] in_tx_bindE [OF launch] in_tx_ret) simp
qed


section \<open>What a launch leaves alone\<close>

lemma keeps_lookups [keeps_intros]:
  "others_keep P E \<Longrightarrow> keeps (db_inv P) (EffectiveLimits E (db E))"
  "others_keep P E \<Longrightarrow> keeps (db_inv P) (by_token (db E) acct token)"
  "keeps (db_inv P) (by_token (sql E) acct token)"
  "others_keep P E \<Longrightarrow> keeps (db_inv P) (launch_key E acct name)"
  "others_keep P E \<Longrightarrow> keeps (db_inv P) (validate E r limits)"
  "keeps (db_inv P) (checkDiskPool E limits storage)"
  "keeps (db_inv P) (checkHost E sp needed limits storage)"
  "keeps (db_inv P) (checkQuota E acct sp disk limits replacing)"
  "keeps (db_inv P) (idempotent i hash)" "keeps (db_inv P) (newInstanceID E)" "keeps (db_inv P) (list_vms E)"
  "keeps (db_inv P) (allocate_vmid E visible)"
  unfolding EffectiveLimits_def by_token_def launch_key_def validate_def validate_media_def checkHost_def
    checkDiskPool_def checkQuota_def idempotent_def newInstanceID_def list_vms_def allocate_vmid_def Let_def
  by (intro keeps_intros keeps_db keeps_sql; assumption)+

lemma keeps_Run:
  assumes "others_keep P E"
    and "\<And>r sp hash key visible limits. keeps (db_inv P) (admit_tx E acct r sp hash key visible limits audit)"
  shows "keeps (db_inv P) (Run E acct r audit)"
  unfolding Run_def Let_def by (intro keeps_intros keeps_tx assms)

lemma keeps_admit:
  assumes "\<And>d d'. only_groups d d' \<Longrightarrow> P d \<Longrightarrow> P d'"
    and "\<And>i. stmt_keeps P (\<lambda>now. on_instances (InsertInstance now i))"
    and "\<And>k ids. stmt_keeps P (\<lambda>now. SetInstanceGroups now k ids)"
  shows "keeps (db_inv P) (admit_tx E acct r sp hash key visible limits audit)"
proof -
  have "stmt_keeps P (\<lambda>_. LockCapacity)"
    unfolding LockCapacity_def by (intro keeps_intros)
  then show ?thesis
    unfolding admit_tx_def record_launch_def
    by (intro keeps_intros keeps_sql keeps_resolveGroups) (auto intro: assms)
qed

context ledger_contract
begin

lemma keeps_launch_request: "others_keep P E \<Longrightarrow> keeps (db_inv P) (Run E acct r audit)"
  by (intro keeps_Run keeps_admit keeps_instances keeps_members insert) (auto simp: only_groups_def)

end

section \<open>What \<open>Run\<close> answers\<close>

definition normalised :: "limits \<Rightarrow> run_request \<Rightarrow> run_request \<Rightarrow> bool" where
  "normalised limits r r' \<longleftrightarrow> (\<exists>os. r' = r\<lparr>rr_guest_os := os,
     rr_root_disk_gib := (if rr_root_disk_gib r = 0 then root_disk_default limits else rr_root_disk_gib r),
     rr_disk_tier := (if rr_disk_tier r = '''' then TierSSD else rr_disk_tier r)\<rparr>)"

definition other_system :: "run_request \<Rightarrow> run_request \<Rightarrow> bool" where
  "other_system r r' \<longleftrightarrow> r' = r\<lparr>rr_guest_os := rr_guest_os r'\<rparr>"

lemma guest_system_Inr: "guest_system r os = Inr r' \<Longrightarrow> other_system r r'"
  by (auto simp: guest_system_def Let_def other_system_def split: if_splits)

lemma of_res_Inr: "of_res r w = (Inr x, w') \<longleftrightarrow> r = Inr x \<and> w' = w"
  by (auto simp: of_res_def)

lemma validate_media_Inr: "validate_media E r w = (Inr r', w') \<Longrightarrow> other_system r r'"
  unfolding validate_media_def
  by (auto simp: raise_def ret_def of_res_Inr split: if_splits elim!: bindE_InrE dest: guest_system_Inr)

lemma validate_rest_Inr:
  assumes "validate_rest s limits r = Inr (sp, r')"
  shows "resolve_spec (instance_types s) (size_of r) = Inr sp \<and>
    r' = r\<lparr>rr_root_disk_gib := (if rr_root_disk_gib r = 0 then root_disk_default limits else rr_root_disk_gib r),
      rr_disk_tier := (if rr_disk_tier r = '''' then TierSSD else rr_disk_tier r)\<rparr> \<and>
    root_disk_min limits \<le> rr_root_disk_gib r' \<and> rr_root_disk_gib r' \<le> root_disk_max limits \<and>
    (\<exists>n. launchSubnet s (rr_subnet_id r) = Inr n) \<and> (\<exists>x. diskTierStorage s (rr_disk_tier r') = Inr x) \<and>
    validateTags (tags_of (rr_tags r)) = Inr ()"
  using assms by (auto simp: validate_rest_def Let_def split: sum.splits if_splits)

lemma validate_Inr:
  assumes "validate E r limits w = (Inr (sp, r'), w')"
  shows "normalised limits r r' \<and> resolve_spec (instance_types (e_site E)) (size_of r) = Inr sp \<and>
    root_disk_min limits \<le> rr_root_disk_gib r' \<and> rr_root_disk_gib r' \<le> root_disk_max limits"
proof -
  obtain r1 where "other_system r r1" and rest: "validate_rest (e_site E) limits r1 = Inr (sp, r')"
    using assms by (auto simp: validate_def of_res_Inr elim!: bindE_InrE dest!: validate_media_Inr)
  then have "r1 = r\<lparr>rr_guest_os := rr_guest_os r1\<rparr>"
    by (simp add: other_system_def)
  then obtain os where r1: "r1 = r\<lparr>rr_guest_os := os\<rparr>"
    by blast
  show ?thesis
    using validate_rest_Inr [OF rest] by (auto simp: r1 normalised_def size_of_def)
qed

definition limits_in_force :: "'h env \<Rightarrow> 'h world \<Rightarrow> limits" where
  "limits_in_force E w = with_overrides (s_limits (e_site E)) (d_overrides (w_db (interfere E w)))"

lemma EffectiveLimits_Inr:
  "EffectiveLimits E (db E) w = (Inr (limits, ov), w') \<Longrightarrow> limits = limits_in_force E w"
  by (auto simp: EffectiveLimits_def db_def sql_def reading_def GetLimitOverrides_def limits_in_force_def
      Let_def ret_def interfere_def split: if_splits elim!: bindE_InrE)

lemma by_token_pool:
  assumes "by_token (db E) acct token w = (Inr (Some i), w')"
  shows "i \<in> set (d_instances (w_db w')) \<and> has_token acct token i"
  using assms
  by (auto simp: by_token_def attempt_def db_def sql_def reading_def Let_def InstanceByClientToken_def has_token_def
      raise_def ret_def split: if_splits sum.splits dest!: select_one_Inr)

lemma idempotent_Inr: "idempotent i hash w = (Inr (j, created), w') \<Longrightarrow>
    j = i \<and> \<not> created \<and> i_request_hash i = hash \<and> w' = w"
  by (auto simp: idempotent_def raise_def ret_def split: if_splits)

subsection \<open>The row a launch makes\<close>

lemma InsertInstance_Inr:
  assumes "InsertInstance now (launch_row k acct r sp hash key vmid mac) t = (Inr row, u)"
  shows "u = t @ [row] \<and> inst_constraints u \<and> i_id row = k \<and> i_account row = acct \<and>
    i_client_token row = rr_client_token r \<and> i_request_hash row = hash \<and> i_vmid row = Some vmid \<and>
    i_state row = StatePending \<and> i_pending row = Some ActionLaunch \<and> i_terminated_at row = None \<and> i_cpu row = sp_cpu_cores sp \<and>
    i_memory row = sp_memory_mib sp \<and> i_memory_min row = sp_memory_min_mib sp \<and>
    i_ballooning row = sp_ballooning sp \<and> i_root_disk row = rr_root_disk_gib r"
  using assms by (auto simp: InsertInstance_def launch_row_def constrained_def Let_def split: if_splits)

lemma touch_sel [simp]:
  "i_id (touch now i) = i_id i" "i_account (touch now i) = i_account i" "i_state (touch now i) = i_state i"
  "i_client_token (touch now i) = i_client_token i" "i_request_hash (touch now i) = i_request_hash i"
  "i_vmid (touch now i) = i_vmid i" "i_pending (touch now i) = i_pending i" "i_cpu (touch now i) = i_cpu i"
  "i_memory (touch now i) = i_memory i" "i_root_disk (touch now i) = i_root_disk i" "live (touch now i) = live i"
  "i_memory_min (touch now i) = i_memory_min i" "i_ballooning (touch now i) = i_ballooning i"
  by (simp_all add: touch_def bump_def live_def)

lemma launched_rows:
  assumes "launched E t q acct r sp hash key visible i t'"
  obtains vmid k now' row where
    "AllocateVMID (vmid_from (e_site E)) (vmid_to (e_site E)) (skipVMIDs E visible) q t = Inr vmid"
    "t' = t @ [i]" "i = touch now' row" "inst_constraints (t @ [row])" "i_id row = k" "i_account row = acct"
    "i_client_token row = rr_client_token r" "i_request_hash row = hash" "i_vmid row = Some vmid"
    "i_state row = StatePending" "i_pending row = Some ActionLaunch" "i_cpu row = sp_cpu_cores sp"
    "i_memory row = sp_memory_mib sp" "i_root_disk row = rr_root_disk_gib r"
proof -
  obtain vmid k mac now now' row u where
    alloc: "AllocateVMID (vmid_from (e_site E)) (vmid_to (e_site E)) (skipVMIDs E visible) q t = Inr vmid"
    and ins: "InsertInstance now (launch_row k acct r sp hash key vmid mac) t = (Inr row, u)"
    and t': "t' = update_where (by_id k) (touch now') u" and i: "GetInstance k t' = Inr i"
    using assms unfolding launched_def by blast
  note row = InsertInstance_Inr [OF ins]
  then have "k \<notin> i_id ` set t"
    by (auto simp: inst_constraints_def)
  then have "update_where (by_id k) (touch now') t = t"
    by (intro update_where_id) (auto simp: by_id_def)
  then have t'': "t' = t @ [touch now' row]"
    using row t' by (simp add: update_where_def by_id_def)
  moreover have "i = touch now' row"
    using i \<open>k \<notin> i_id ` set t\<close> unfolding t'' by (auto simp: GetInstance_def by_id_def dest!: select_one_Inr)
  ultimately show ?thesis
    using that [of vmid now' row k] alloc row by blast
qed

lemma launched_hash:
  "launched E t q acct r sp hash key visible i t' \<Longrightarrow> i_request_hash i = hash"
  by (erule launched_rows) simp

subsection \<open>The two ways \<open>Run\<close> succeeds\<close>

text \<open>\<open>P\<close> is anything that other requests keep: it then holds where the transaction starts.\<close>

lemma Run_result:
  fixes E :: "'h env"
  assumes run: "Run E acct r audit w = (Inr (i, created), w')" and others: "others_keep P E" and w: "P (w_db w)"
  shows "\<exists>sp r'. normalised (limits_in_force E w) r r' \<and> resolve_spec (instance_types (e_site E)) (size_of r) = Inr sp \<and>
    i_request_hash i = requestHash E r' \<and>
    (created = False \<and> i \<in> set (d_instances (w_db w')) \<and> has_token acct (rr_client_token r) i \<and> P (w_db w') \<or>
     (\<exists>d key visible. P d \<and> admitted E (d_instances d) (d_volumes d) (d_quarantine d) acct r' sp (requestHash E r') key
        visible (limits_in_force E w) i created (d_instances (w_db w')) \<and> d_volumes (w_db w') = d_volumes d \<and>
        d_quarantine (w_db w') = d_quarantine d \<and> (\<exists>h. fst (ListVMs (e_pve E) h) = Inr visible)))"
proof -
  have "db_inv P w"
    using w by (simp add: db_inv_def)
  obtain limits ov w1 where 1: "EffectiveLimits E (db E) w = (Inr (limits, ov), w1)"
    and 2: "bindE (validate E r limits) (\<lambda>(sp, r).
     let hash = requestHash E r in
     bindE (by_token (db E) acct (rr_client_token r)) (\<lambda>existing. case existing of
         Some i \<Rightarrow> idempotent i hash
       | None \<Rightarrow>
           bindE (launch_key E acct (rr_key_name r)) (\<lambda>key.
           bindE (of_res (diskTierStorage (e_site E) (rr_disk_tier r))) (\<lambda>storage.
           seqE (checkHost E sp (sp_memory_mib sp) limits storage)
           (bindE (or_unavailable (list_vms E)) (\<lambda>visible.
           bindE (tx E (admit_tx E acct r sp hash key visible limits audit)) (\<lambda>(i, created).
             if \<not> created then idempotent i hash else seqE Wake (ret (i, True))))))))) w1 = (Inr (i, created), w')"
    using run unfolding Run_def by (auto elim: bindE_InrE)
  have limits: "limits = limits_in_force E w"
    by (rule EffectiveLimits_Inr [OF 1])
  have P1: "db_inv P w1"
    by (rule keeps_result [OF keeps_lookups(1) [OF others] \<open>db_inv P w\<close> 1])
  obtain sp r' w2 where 3: "validate E r limits w1 = (Inr (sp, r'), w2)"
    and 4: "bindE (by_token (db E) acct (rr_client_token r')) (\<lambda>existing. case existing of
         Some i \<Rightarrow> idempotent i (requestHash E r')
       | None \<Rightarrow>
           bindE (launch_key E acct (rr_key_name r')) (\<lambda>key.
           bindE (of_res (diskTierStorage (e_site E) (rr_disk_tier r'))) (\<lambda>storage.
           seqE (checkHost E sp (sp_memory_mib sp) limits storage)
           (bindE (or_unavailable (list_vms E)) (\<lambda>visible.
           bindE (tx E (admit_tx E acct r' sp (requestHash E r') key visible limits audit)) (\<lambda>(i, created).
             if \<not> created then idempotent i (requestHash E r') else seqE Wake (ret (i, True)))))))) w2 =
        (Inr (i, created), w')"
    using 2 unfolding Let_def by (auto elim: bindE_InrE)
  note valid = validate_Inr [OF 3]
  then have token: "rr_client_token r' = rr_client_token r"
    by (auto simp: normalised_def)
  have P2: "db_inv P w2"
    by (rule keeps_result [OF keeps_lookups(5) [OF others] P1 3])
  obtain existing w3 where 5: "by_token (db E) acct (rr_client_token r') w2 = (Inr existing, w3)"
    and 6: "(case existing of
         Some i \<Rightarrow> idempotent i (requestHash E r')
       | None \<Rightarrow>
           bindE (launch_key E acct (rr_key_name r')) (\<lambda>key.
           bindE (of_res (diskTierStorage (e_site E) (rr_disk_tier r'))) (\<lambda>storage.
           seqE (checkHost E sp (sp_memory_mib sp) limits storage)
           (bindE (or_unavailable (list_vms E)) (\<lambda>visible.
           bindE (tx E (admit_tx E acct r' sp (requestHash E r') key visible limits audit)) (\<lambda>(i, created).
             if \<not> created then idempotent i (requestHash E r') else seqE Wake (ret (i, True)))))))) w3 =
        (Inr (i, created), w')"
    using 4 by (rule bindE_InrE)
  have P3: "db_inv P w3"
    by (rule keeps_result [OF keeps_lookups(2) [OF others] P2 5])
  show ?thesis
  proof (cases existing)
    case (Some j)
    then have "created = False \<and> i \<in> set (d_instances (w_db w')) \<and> has_token acct (rr_client_token r) i \<and> P (w_db w')
        \<and> i_request_hash i = requestHash E r'"
      using 5 6 token P3 by (auto simp: db_inv_def dest: by_token_pool dest!: idempotent_Inr)
    with valid limits show ?thesis
      by blast
  next
    case None
    then obtain key storage visible v1 v2 v3 v4 j c w7 where
      7: "launch_key E acct (rr_key_name r') w3 = (Inr key, v1)" "of_res (diskTierStorage (e_site E) (rr_disk_tier r')) v1 = (Inr storage, v2)"
        "checkHost E sp (sp_memory_mib sp) limits storage v2 = (Inr (), v3)" "or_unavailable (list_vms E) v3 = (Inr visible, v4)"
      and 8: "tx E (admit_tx E acct r' sp (requestHash E r') key visible limits audit) v4 = (Inr (j, c), w7)"
      and 9: "(if \<not> c then idempotent j (requestHash E r') else seqE Wake (ret (j, True))) w7 = (Inr (i, created), w')"
      using 6 by (auto elim!: bindE_InrE seqE_InrE)
    have "db_inv P v1"
      by (rule keeps_result [OF keeps_lookups(4) [OF others] P3 7(1)])
    then have "db_inv P v2"
      using 7(2) by (simp add: of_res_def)
    then have "db_inv P v3"
      by (rule keeps_result [OF keeps_lookups(7) _ 7(3)])
    then have "db_inv P v4"
      by (rule keeps_result [OF keeps_or_unavailable [OF keeps_lookups(11)] _ 7(4)])
    have seen: "fst (ListVMs (e_pve E) (w_hv v3)) = Inr visible"
      using 7(4) by (auto simp: or_unavailable_def list_vms_def external_def catchE_def attempt_def raise_def ret_def
          split: prod.splits sum.splits)
    let ?d = "w_db (interfere E v4)"
    have P: "P ?d"
      using db_inv_interfere [OF others \<open>db_inv P v4\<close>] by (simp add: db_inv_def)
    have adm: "admitted E (d_instances ?d) (d_volumes ?d) (d_quarantine ?d) acct r' sp (requestHash E r') key visible limits j c
        (d_instances (w_db w7)) \<and> d_volumes (w_db w7) = d_volumes ?d \<and> d_quarantine (w_db w7) = d_quarantine ?d"
      using tx_result [OF 8 _ in_tx_admit, of "d_instances ?d" "d_volumes ?d" "d_quarantine ?d"]
      by (simp add: found_def)
    have "i = j \<and> created = c \<and> w_db w' = w_db w7 \<and> (c \<or> i_request_hash i = requestHash E r')"
      using 9 by (cases c) (auto simp: wake_ret dest: idempotent_Inr)
    moreover have "c \<Longrightarrow> i_request_hash j = requestHash E r'"
      using adm by (auto simp: admitted_def launched_hash)
    ultimately have "i_request_hash i = requestHash E r'" and "\<exists>d key visible. P d \<and>
        admitted E (d_instances d) (d_volumes d) (d_quarantine d) acct r' sp (requestHash E r') key visible limits i created
          (d_instances (w_db w')) \<and> d_volumes (w_db w') = d_volumes d \<and> d_quarantine (w_db w') = d_quarantine d \<and>
        (\<exists>h. fst (ListVMs (e_pve E) h) = Inr visible)"
      using adm P seen by (auto intro!: exI [where x = ?d])
    with valid limits show ?thesis
      by blast
  qed
qed


text \<open>The sums of a table of \<open>integer\<close> columns fit 64 bits, if it has fewer than \<open>2^31\<close> rows.\<close>

lemma sum_in_i64:
  assumes "\<forall>x \<in> set xs. 0 \<le> f x \<and> f x < 2 ^ 31" and "length xs < 2 ^ 31"
  shows "0 \<le> sum_list (map f xs) \<and> sum_list (map f xs) < (2::int) ^ 62"
proof -
  have "0 \<le> sum_list (map f xs) \<and> sum_list (map f xs) \<le> int (length xs) * 2 ^ 31"
    using assms(1) by (induction xs) (auto simp: algebra_simps)
  moreover have "int (length xs) * 2 ^ 31 < 2 ^ 31 * (2 ^ 31 :: int)"
    using assms(2) by simp
  ultimately show ?thesis
    by (simp add: order.strict_trans1)
qed

lemma row_sums:
  assumes "inst_constraints t" and "length t < 2 ^ 31" and "set xs \<subseteq> set t" and "length xs \<le> length t"
  shows "in_i64 (sum_list (map i_cpu xs))" "in_i64 (sum_list (map i_memory xs))" "in_i64 (sum_list (map i_root_disk xs))"
    "in_i64 (int (length xs))"
proof -
  have ok: "\<forall>i \<in> set xs. row_size_ok i"
    using assms(1,3) by (auto simp: inst_constraints_def list_all_iff)
  then have r: "\<forall>i \<in> set xs. 0 \<le> i_cpu i \<and> i_cpu i < 2 ^ 31" "\<forall>i \<in> set xs. 0 \<le> i_memory i \<and> i_memory i < 2 ^ 31"
    "\<forall>i \<in> set xs. 0 \<le> i_root_disk i \<and> i_root_disk i < 2 ^ 31"
    by (fastforce simp: row_size_ok_def db_size_ok_def int4_def)+
  have n: "length xs < 2 ^ 31"
    using assms(2,4) by simp
  show "in_i64 (sum_list (map i_cpu xs))" "in_i64 (sum_list (map i_memory xs))" "in_i64 (sum_list (map i_root_disk xs))"
    using sum_in_i64 [OF r(1) n] sum_in_i64 [OF r(2) n] sum_in_i64 [OF r(3) n]
    by (simp_all add: in_i64_def min_i64_def max_i64_def)
  show "in_i64 (int (length xs))"
    using n by (simp add: in_i64_def min_i64_def max_i64_def)
qed

definition within :: "int \<Rightarrow> int \<Rightarrow> bool" where
  "within limit used \<longleftrightarrow> limit \<le> 0 \<or> used \<le> limit"

lemma usage_added:
  assumes "live row" and "i_account row = acct"
  shows "u_instances (AccountUsage acct (t @ [row]) v) = u_instances (AccountUsage acct t v) + 1"
    "u_vcpus (AccountUsage acct (t @ [row]) v) = u_vcpus (AccountUsage acct t v) + i_cpu row"
    "u_memory (AccountUsage acct (t @ [row]) v) = u_memory (AccountUsage acct t v) + i_memory row"
    "u_root_disk (AccountUsage acct (t @ [row]) v) = u_root_disk (AccountUsage acct t v) + i_root_disk row"
    "LiveMemoryMiB (t @ [row]) = LiveMemoryMiB t + i_memory row"
  using assms by (simp_all add: AccountUsage_def instance_usage_def held_def LiveMemoryMiB_def)

lemma quota_after_launch:
  assumes clear: "quota_clear acct sp disk limits t v"
    and ok: "inst_constraints (t @ [row])" and few: "length (t @ [row]) < 2 ^ 31"
    and row: "live row" "i_account row = acct" "i_cpu row = sp_cpu_cores sp" "i_memory row = sp_memory_mib sp"
      "i_root_disk row = disk"
  shows "let u = AccountUsage acct (t @ [row]) v; q = account_quota limits in
    within (q_instances q) (u_instances u) \<and> within (q_vcpus q) (u_vcpus u) \<and>
    within (q_memory_mib q) (u_memory u) \<and> within (q_root_disk_gib q) (u_root_disk u) \<and>
    within (memory_budget_mib limits) (LiveMemoryMiB (t @ [row]))"
proof -
  let ?t = "t @ [row]" and ?q = "account_quota limits"
  let ?u = "AccountUsage acct ?t v"
  have "length (held acct ?t) \<le> length ?t" and "length (filter live ?t) \<le> length ?t"
    by (simp_all only: held_def length_filter_le)
  moreover have "set (held acct ?t) \<subseteq> set ?t" and "set (filter live ?t) \<subseteq> set ?t"
    by (auto simp: held_def)
  ultimately have fits: "in_i64 (u_vcpus ?u)" "in_i64 (u_memory ?u)" "in_i64 (u_root_disk ?u)" "in_i64 (u_instances ?u)"
    "in_i64 (LiveMemoryMiB ?t)"
    using row_sums [OF ok few, of "held acct ?t"] row_sums [OF ok few, of "filter live ?t"]
    by (simp_all add: AccountUsage_def instance_usage_def LiveMemoryMiB_def)
  note added = usage_added(1-4) [OF row(1,2), of t v, symmetric, unfolded row]
    usage_added(5) [OF row(1,2), of t, symmetric, unfolded row]
  have "quota_problem ?q (AccountUsage acct t v) 1 sp disk = None"
    and budget: "memory_budget_mib limits \<le> 0 \<or> wrap64 (LiveMemoryMiB t + sp_memory_mib sp) \<le> memory_budget_mib limits"
    using clear by (simp_all add: quota_clear_def)
  then have "(q_instances ?q \<le> 0 \<or> wrap64 (u_instances ?u) \<le> q_instances ?q) \<and>
      (q_vcpus ?q \<le> 0 \<or> wrap64 (u_vcpus ?u) \<le> q_vcpus ?q) \<and>
      (q_memory_mib ?q \<le> 0 \<or> wrap64 (u_memory ?u) \<le> q_memory_mib ?q) \<and>
      (q_root_disk_gib ?q \<le> 0 \<or> wrap64 (u_root_disk ?u) \<le> q_root_disk_gib ?q)"
    by (auto simp: quota_problem_def added split: if_splits)
  moreover have "memory_budget_mib limits \<le> 0 \<or> wrap64 (LiveMemoryMiB ?t) \<le> memory_budget_mib limits"
    using budget by (simp add: added)
  ultimately show ?thesis
    using fits by (simp add: Let_def within_def)
qed


lemma usage_touched:
  "AccountUsage acct (t @ [touch now i]) v = AccountUsage acct (t @ [i]) v"
  "LiveMemoryMiB (t @ [touch now i]) = LiveMemoryMiB (t @ [i])"
  by (auto simp: AccountUsage_def instance_usage_def held_def LiveMemoryMiB_def)

text \<open>
  C16. A launch that is admitted leaves its account within its quota and the node within its
  memory budget, the new instance included: the limits in force are the site's with the operator's
  overrides, a limit that is not positive is none, and the sums are those of the committed ledger.
  The capacity lock is what makes this hold beside other launches.
\<close>

theorem run_within_quota:
  assumes "Run E acct r audit w = (Inr (i, True), w')" and "length (d_instances (w_db w')) < 2 ^ 31"
  shows "let u = AccountUsage acct (d_instances (w_db w')) (d_volumes (w_db w'));
             q = account_quota (limits_in_force E w)
         in within (q_instances q) (u_instances u) \<and> within (q_vcpus q) (u_vcpus u) \<and>
            within (q_memory_mib q) (u_memory u) \<and> within (q_root_disk_gib q) (u_root_disk u) \<and>
            within (memory_budget_mib (limits_in_force E w)) (LiveMemoryMiB (d_instances (w_db w')))"
proof -
  obtain sp r' key visible and d :: ledger where
    adm: "admitted E (d_instances d) (d_volumes d) (d_quarantine d) acct r' sp (requestHash E r') key visible
      (limits_in_force E w) i True (d_instances (w_db w'))"
    and v: "d_volumes (w_db w') = d_volumes d"
    using Run_result [OF assms(1), of "\<lambda>_. True", unfolded others_keep_def, simplified] by blast
  let ?t = "d_instances d" and ?v = "d_volumes d"
  let ?L = "limits_in_force E w" and ?disk = "rr_root_disk_gib r'"
  have clear: "quota_clear acct sp ?disk ?L ?t ?v"
    and "launched E ?t (d_quarantine d) acct r' sp (requestHash E r') key visible i (d_instances (w_db w'))"
    using adm by (simp_all add: admitted_def)
  then obtain now row where t': "d_instances (w_db w') = ?t @ [touch now row]" and ok: "inst_constraints (?t @ [row])"
    and row: "i_account row = acct" "i_state row = StatePending" "i_cpu row = sp_cpu_cores sp"
      "i_memory row = sp_memory_mib sp" "i_root_disk row = ?disk"
    by (auto elim: launched_rows)
  have "live row"
    using row by (simp add: live_def)
  then show ?thesis
    using quota_after_launch [OF clear ok _ _ row(1,3,4,5)] assms(2) by (simp add: t' v usage_touched)
qed


subsection \<open>A deployment with a host that has room\<close>

definition roomy_pve :: "'h hypervisor" where
  "roomy_pve = offline_pve\<lparr>ListVMs := \<lambda>h. (Inr [], h),
     NodeStatus := \<lambda>h. (Inr \<lparr>ns_mem_total = 2 ^ 36, ns_mem_free = 2 ^ 35, ns_mem_available = 2 ^ 35, ns_cpus = 8\<rparr>, h),
     StorageStatus := \<lambda>_ h. (Inr \<lparr>ss_total = 2 ^ 40, ss_used = 2 ^ 39, ss_avail = 2 ^ 39\<rparr>, h)\<rparr>"

abbreviation roomy_env :: "unit env" where
  "roomy_env \<equiv> quiet_env roomy_pve offline_ipam"

definition debian_request :: run_request where
  "debian_request = \<lparr>rr_image_id = ''img-debian-13'', rr_instance_type = ''s1.small'', rr_key_name = '''',
     rr_vcpus = None, rr_memory_mib = None, rr_memory_min_mib = None, rr_ballooning = None, rr_root_disk_gib = 0,
     rr_disk_tier = '''', rr_subnet_id = '''', rr_user_data = '''', rr_client_token = ''token-1'',
     rr_install_iso_id = '''', rr_driver_iso_id = '''', rr_guest_os = '''', rr_tags = Some [(''Name'', ''web'')],
     rr_security_group_ids = [''sg-1'']\<rparr>"

definition debian_normalised :: run_request where
  "debian_normalised = debian_request\<lparr>rr_root_disk_gib := 16, rr_disk_tier := ''ssd''\<rparr>"

definition group_ledger :: ledger where
  "group_ledger = empty_ledger\<lparr>d_groups := [web_group]\<rparr>"

lemma debian_valid:
  "validate_media roomy_env debian_request w = (Inr debian_request, w)"
  by (simp_all add: validate_media_def debian_request_def ResolveImage_def example_site_def gomap_get_def shared_image_def
      guest_system_def of_res_def run_steps)

definition small_spec :: spec where
  "small_spec = \<lparr>sp_cpu_cores = 1, sp_memory_mib = 2048, sp_memory_min_mib = 1024, sp_ballooning = True,
     sp_type_name = ''s1.small''\<rparr>"

lemma debian_size: "resolve_spec (instance_types example_site) (size_of debian_request) = Inr small_spec"
  by (simp add: resolve_spec_def preset_spec_def explicit_spec_def floor_spec_def validate_spec_def size_of_def
      example_site_def gomap_get_def Let_def minMemoryMiB_def debian_request_def small_spec_def)

lemma debian_limits: "s_limits example_site = example_limits"
  by (simp add: example_site_def)

lemma name_tag_ok: "tag_ok (''Name'', ''web'')"
  by code_simp

lemma debian_rest: "validate_rest example_site example_limits debian_request = Inr (small_spec, debian_normalised)"
  by (simp add: validate_rest_def debian_size) (simp add: debian_request_def debian_normalised_def example_limits_def
      example_site_def example_subnet_def diskTierStorage_def disk_tier_storage_def launchSubnet_def
      network_subnet_def launchable_def subnetName_def clientToken_def validateTags_def tags_of_def name_tag_ok
      maxUserData_def Let_def TierSSD_def trim_prefix_def has_prefix_def subnet_list_def)

lemma debian_fields:
  "rr_client_token debian_request = ''token-1''" "rr_client_token debian_normalised = ''token-1''"
  "rr_key_name debian_normalised = ''''" "rr_disk_tier debian_normalised = ''ssd''"
  "rr_root_disk_gib debian_normalised = 16" "rr_security_group_ids debian_normalised = [''sg-1'']"
  by (simp_all add: debian_request_def debian_normalised_def)

lemma debian_storage: "diskTierStorage example_site ''ssd'' = Inr ''local-lvm''"
  by (simp add: diskTierStorage_def disk_tier_storage_def example_site_def TierSSD_def)

lemma small_fields:
  "sp_cpu_cores small_spec = 1" "sp_memory_mib small_spec = 2048" "sp_memory_min_mib small_spec = 1024"
  "sp_ballooning small_spec"
  by (simp_all add: small_spec_def)

lemma roomy_answers:
  "or_unavailable (list_vms roomy_env) w = (Inr [], w)"
  "or_unavailable (external (NodeStatus (e_pve roomy_env))) w =
     (Inr \<lparr>ns_mem_total = 2 ^ 36, ns_mem_free = 2 ^ 35, ns_mem_available = 2 ^ 35, ns_cpus = 8\<rparr>, w)"
  "or_unavailable (external (StorageStatus (e_pve roomy_env) storage)) w =
     (Inr \<lparr>ss_total = 2 ^ 40, ss_used = 2 ^ 39, ss_avail = 2 ^ 39\<rparr>, w)"
  by (simp_all add: or_unavailable_def list_vms_def roomy_pve_def catchE_def attempt_def external_def ret_def)

lemma roomy_host: "checkHost roomy_env small_spec 2048 example_limits storage w = (Inr (), w)"
  by (simp add: checkHost_def checkDiskPool_def bindE_def seqE_def roomy_answers [simplified] small_fields
      example_limits_def shl64_def wrap64_def Let_def ret_def)

lemma debian_recorded:
  "\<exists>i w'. tx roomy_env (admit_tx roomy_env ''acct'' debian_normalised small_spec hash key [] example_limits (\<lambda>_. Inr ()))
       ((start_world () group_ledger)\<lparr>w_tick := n\<rparr>) = (Inr (i, True), w') \<and> length (d_instances (w_db w')) = 1 \<and>
     d_overrides (w_db w') = no_overrides \<and> i_request_hash i = hash"
  by (simp add: admit_tx_def LockCapacity_def group_ledger_def empty_ledger_def debian_fields by_token_def
      InstanceByClientToken_def select_one_def checkQuota_def quota_problem_def quota_usage_def AccountUsage_def
      instance_usage_def held_def LiveMemoryMiB_def small_fields example_limits_def wrap64_def 
      resolveGroups_def lock_groups_of_def GetSecurityGroup_def web_group_def new_group_def maxGroupsPerInstance_def
      record_launch_def  tx_def catchE_def allocate_vmid_def AllocateVMID_def skipVMIDs_def upto.simps example_site_def
      live_vmids_def newInstanceID_def random_hex_def random_mac_def InsertInstance_def launch_row_def constrained_def inst_constraints_def
      SetInstanceGroups_def grp_constrained_def group_constraints_def update_where_def by_id_def GetInstance_def of_res_def
      row_size_ok_def db_size_ok_def int4_def client_tokens_def bump_def
      cloud_eval cong: cloud_lazy)

lemma debian_admitted:
  "\<exists>i w'. Run roomy_env ''acct'' debian_request (\<lambda>_. Inr ()) (start_world () group_ledger) = (Inr (i, True), w') \<and>
     length (d_instances (w_db w')) = 1 \<and> d_overrides (w_db w') = no_overrides \<and>
     i_request_hash i = requestHash roomy_env debian_normalised"
proof -
  obtain i w' where
    "tx roomy_env (admit_tx roomy_env ''acct'' debian_normalised small_spec (requestHash roomy_env debian_normalised) []
       [] example_limits (\<lambda>_. Inr ())) ((start_world () group_ledger)\<lparr>w_tick := 4\<rparr>) = (Inr (i, True), w')"
    and "length (d_instances (w_db w')) = 1" "d_overrides (w_db w') = no_overrides"
      "i_request_hash i = requestHash roomy_env debian_normalised"
    using debian_recorded by blast
  then show ?thesis
    by (simp add: Run_def EffectiveLimits_def GetLimitOverrides_def validate_def debian_valid debian_rest debian_limits
        debian_fields debian_storage small_fields roomy_host roomy_answers of_res_def by_token_def
        InstanceByClientToken_def select_one_def launch_key_def group_ledger_def empty_ledger_def eval_nat_numeral
        cloud_eval cong: cloud_lazy)
qed

theorem run_within_quota_witness:
  "\<exists>i w'. Run roomy_env ''acct'' debian_request (\<lambda>_. Inr ()) (start_world () group_ledger) = (Inr (i, True), w') \<and>
     u_instances (AccountUsage ''acct'' (d_instances (w_db w')) (d_volumes (w_db w'))) \<le> 4"
proof -
  obtain i w' where run: "Run roomy_env ''acct'' debian_request (\<lambda>_. Inr ()) (start_world () group_ledger) =
      (Inr (i, True), w')" and "length (d_instances (w_db w')) = 1"
    using debian_admitted by blast
  then have "u_instances (AccountUsage ''acct'' (d_instances (w_db w')) (d_volumes (w_db w'))) \<le> 4"
    using run_within_quota [OF run]
    by (simp add: Let_def within_def limits_in_force_def interfere_def start_world_def group_ledger_def
        empty_ledger_def debian_limits example_limits_def)
  with run show ?thesis
    by blast
qed


section \<open>VMIDs and retried launches\<close>

lemma find_Some: "find P xs = Some x \<Longrightarrow> x \<in> set xs \<and> P x"
  by (induction xs) (auto split: if_splits)

lemma AllocateVMID_Inr:
  "AllocateVMID from to skip q t = Inr v \<Longrightarrow>
    from \<le> v \<and> v \<le> to \<and> v \<notin> set skip \<and> v \<notin> set q \<and> (\<forall>j \<in> set t. live j \<longrightarrow> i_vmid j \<noteq> Some v)"
  by (auto simp: AllocateVMID_def live_vmids_iff split: option.splits dest!: find_Some)

lemma created_row:
  fixes E :: "'h env"
  assumes run: "Run E acct r audit w = (Inr (i, True), w')" and others: "others_keep P E" and w: "P (w_db w)"
  obtains d vmid visible h where "P d" "d_instances (w_db w') = d_instances d @ [i]" "d_volumes (w_db w') = d_volumes d"
    "d_quarantine (w_db w') = d_quarantine d" "fst (ListVMs (e_pve E) h) = Inr visible"
    "AllocateVMID (vmid_from (e_site E)) (vmid_to (e_site E)) (skipVMIDs E visible) (d_quarantine d) (d_instances d) = Inr vmid"
    "i_vmid i = Some vmid" "i_account i = acct" "i_client_token i = rr_client_token r" "i_state i = StatePending"
    "inst_constraints (d_instances d @ [i])" "\<not> (\<exists>j \<in> set (d_instances d). has_token acct (rr_client_token r) j)"
proof -
  obtain sp r' key visible d h where norm: "normalised (limits_in_force E w) r r'" and P: "P d" and
    adm: "admitted E (d_instances d) (d_volumes d) (d_quarantine d) acct r' sp (requestHash E r') key visible
      (limits_in_force E w) i True (d_instances (w_db w'))"
    and rest: "d_volumes (w_db w') = d_volumes d" "d_quarantine (w_db w') = d_quarantine d"
      "fst (ListVMs (e_pve E) h) = Inr visible"
    using Run_result [OF run others w] by auto
  have token: "rr_client_token r' = rr_client_token r"
    using norm by (auto simp: normalised_def)
  have new: "\<not> (\<exists>j \<in> set (d_instances d). has_token acct (rr_client_token r) j)"
    and "launched E (d_instances d) (d_quarantine d) acct r' sp (requestHash E r') key visible i (d_instances (w_db w'))"
    using adm token by (simp_all add: admitted_def)
  then obtain vmid k now row where
    row: "AllocateVMID (vmid_from (e_site E)) (vmid_to (e_site E)) (skipVMIDs E visible) (d_quarantine d) (d_instances d) = Inr vmid"
    "d_instances (w_db w') = d_instances d @ [i]" "i = touch now row" "inst_constraints (d_instances d @ [row])"
    "i_account row = acct" "i_client_token row = rr_client_token r'" "i_vmid row = Some vmid" "i_state row = StatePending"
    by (auto elim: launched_rows)
  moreover have "inst_constraints (d_instances d @ [i])"
    using row(3,4) inst_constraints_key [of "d_instances d @ [i]" "d_instances d @ [row]"]
    by (simp add: inst_key_def touch_def bump_def live_def row_size_ok_def)
  ultimately show ?thesis
    using that [OF P _ rest] token new by simp
qed

text \<open>
  C19. A launch is given a VMID of the deployment's range that belongs to nobody else: it is not the
  volume holder's nor a probe's, no VM the hypervisor listed has it, it is not in quarantine, and no
  other live instance holds it in the ledger the launch is committed to.
\<close>

theorem run_vmid_free:
  assumes "Run E acct r audit w = (Inr (i, True), w')"
  shows "\<exists>v t visible h. i_vmid i = Some v \<and> d_instances (w_db w') = t @ [i] \<and>
    vmid_from (e_site E) \<le> v \<and> v \<le> vmid_to (e_site E) \<and> v \<noteq> volume_holder_vmid (e_site E) \<and>
    v \<notin> set (probe_vmids (e_site E)) \<and> v \<notin> set (d_quarantine (w_db w')) \<and>
    fst (ListVMs (e_pve E) h) = Inr visible \<and> v \<notin> vm_id ` set visible \<and>
    (\<forall>j \<in> set t. live j \<longrightarrow> i_vmid j \<noteq> Some v)"
proof -
  obtain vmid visible h and d :: ledger where
    row: "d_instances (w_db w') = d_instances d @ [i]" "d_quarantine (w_db w') = d_quarantine d"
      "fst (ListVMs (e_pve E) h) = Inr visible" "i_vmid i = Some vmid"
    and alloc: "AllocateVMID (vmid_from (e_site E)) (vmid_to (e_site E)) (skipVMIDs E visible) (d_quarantine d) (d_instances d) = Inr vmid"
    using assms by (rule created_row [where P = "\<lambda>_. True"]) (simp_all add: others_keep_def)
  have "vmid_from (e_site E) \<le> vmid \<and> vmid \<le> vmid_to (e_site E) \<and> vmid \<noteq> volume_holder_vmid (e_site E) \<and>
    vmid \<notin> set (probe_vmids (e_site E)) \<and> vmid \<notin> set (d_quarantine (w_db w')) \<and> vmid \<notin> vm_id ` set visible \<and>
    (\<forall>j \<in> set (d_instances d). live j \<longrightarrow> i_vmid j \<noteq> Some vmid)"
    using AllocateVMID_Inr [OF alloc] row(2) by (auto simp: skipVMIDs_def)
  with row show ?thesis
    by blast
qed

theorem run_vmid_free_witness:
  "\<exists>i w'. Run roomy_env ''acct'' debian_request (\<lambda>_. Inr ()) (start_world () group_ledger) = (Inr (i, True), w') \<and>
     (\<exists>v. i_vmid i = Some v \<and> v \<in> {5002, 5003})"
proof -
  obtain i w' where run: "Run roomy_env ''acct'' debian_request (\<lambda>_. Inr ()) (start_world () group_ledger) =
      (Inr (i, True), w')"
    using debian_admitted by blast
  obtain v where v: "i_vmid i = Some v" "vmid_from example_site \<le> v \<and> v \<le> vmid_to example_site \<and>
      v \<noteq> volume_holder_vmid example_site \<and> v \<notin> set (probe_vmids example_site)"
    using run_vmid_free [OF run] by auto
  then have "v \<in> {5002, 5003}"
    by (auto simp: example_site_def)
  with run v(1) show ?thesis
    by blast
qed

text \<open>The launch with this token stands in the ledger: one row has it, with this hash.\<close>

definition holds_token :: "string \<Rightarrow> string \<Rightarrow> string \<Rightarrow> nat list \<Rightarrow> ledger \<Rightarrow> bool" where
  "holds_token acct token k hash d \<longleftrightarrow> inst_constraints (d_instances d) \<and>
     (\<exists>i \<in> set (d_instances d). i_id i = k \<and> has_token acct token i \<and> i_request_hash i = hash)"

lemma token_unique:
  assumes "inst_constraints t" and "i \<in> set t" "has_token acct token i" and "j \<in> set t" "has_token acct token j"
  shows "i = j"
proof -
  have "distinct (map (\<lambda>i. (i_account i, i_client_token i)) (filter (\<lambda>i. i_client_token i \<noteq> '''') t))"
    using assms(1) by (simp add: inst_constraints_def client_tokens_def)
  then have "inj_on (\<lambda>i. (i_account i, i_client_token i)) (set (filter (\<lambda>i. i_client_token i \<noteq> '''') t))"
    by (simp add: distinct_map)
  then show ?thesis
    by (rule inj_onD) (use assms in \<open>auto simp: has_token_def\<close>)
qed

lemma Run_token:
  fixes E :: "'h env"
  assumes "Run E acct r audit w = (Inr (j, c), w')" and "others_keep P E" and "P (w_db w)"
  shows "\<exists>n. normalised (limits_in_force E w) r n \<and> i_request_hash j = requestHash E n \<and>
    (\<not> c \<longrightarrow> (\<exists>d. P d \<and> j \<in> set (d_instances d) \<and> has_token acct (rr_client_token r) j)) \<and>
    (c \<longrightarrow> (\<exists>d. P d \<and> \<not> (\<exists>i \<in> set (d_instances d). has_token acct (rr_client_token r) i)))"
proof -
  from Run_result [OF assms] obtain sp n where n: "normalised (limits_in_force E w) r n" "i_request_hash j = requestHash E n"
    and "c = False \<and> j \<in> set (d_instances (w_db w')) \<and> has_token acct (rr_client_token r) j \<and> P (w_db w') \<or>
      (\<exists>d key visible. P d \<and> admitted E (d_instances d) (d_volumes d) (d_quarantine d) acct n sp (requestHash E n) key
        visible (limits_in_force E w) j c (d_instances (w_db w')))"
    by blast
  moreover have "rr_client_token n = rr_client_token r"
    using n(1) by (auto simp: normalised_def)
  ultimately show ?thesis
    by (intro exI [of _ n] conjI) (auto simp: admitted_def)
qed

text \<open>
  C17. A client token makes one instance: when a launch with a token succeeded and its row still
  stands, every later launch of the account with that token that succeeds answers with that very
  instance, creates none, and carried parameters with the same fingerprint. Other requests and the
  worker may run in between and during the retry.
\<close>

theorem retried_token_same_instance:
  assumes first: "Run E acct r audit w = (Inr (i, c), w1)"
    and constraints: "others_keep (\<lambda>d. inst_constraints (d_instances d)) E" "inst_constraints (d_instances (w_db w))"
    and token: "rr_client_token r \<noteq> ''''"
    and stands: "holds_token acct (rr_client_token r) (i_id i) (i_request_hash i) (w_db w1) \<Longrightarrow>
      holds_token acct (rr_client_token r) (i_id i) (i_request_hash i) (w_db v)"
    and others: "others_keep (holds_token acct (rr_client_token r) (i_id i) (i_request_hash i)) E'"
    and second: "Run E' acct r2 audit2 v = (Inr (j, c2), v')" and same: "rr_client_token r2 = rr_client_token r"
  shows "\<not> c2 \<and> i_id j = i_id i \<and>
    (\<exists>n n2. normalised (limits_in_force E w) r n \<and> normalised (limits_in_force E' v) r2 n2 \<and>
       requestHash E n = requestHash E' n2)"
proof -
  let ?tok = "rr_client_token r" and ?uniq = "\<lambda>d. inst_constraints (d_instances d)"
  let ?P = "holds_token acct ?tok (i_id i) (i_request_hash i)"
  obtain n where n: "normalised (limits_in_force E w) r n" "i_request_hash i = requestHash E n"
    using Run_result [where P = ?uniq, OF first constraints] by auto
  have "?P (w_db w1)"
  proof (cases c)
    case True
    obtain d :: ledger where "d_instances (w_db w1) = d_instances d @ [i]" "i_account i = acct"
        "i_client_token i = ?tok" "inst_constraints (d_instances d @ [i])"
      by (rule created_row [where P = ?uniq and E = E and w = w]) (use first constraints True in simp_all)
    then show ?thesis
      using token by (auto simp: holds_token_def has_token_def)
  next
    case False
    then have "i \<in> set (d_instances (w_db w1)) \<and> has_token acct ?tok i \<and> ?uniq (w_db w1)"
      using Run_result [where P = ?uniq, OF first constraints] by (auto simp: admitted_def normalised_def)
    then show ?thesis
      by (auto simp: holds_token_def)
  qed
  then have v: "?P (w_db v)"
    by (rule stands)
  have found: "i_id j = i_id i \<and> i_request_hash j = i_request_hash i" if "?P d" "j \<in> set (d_instances d)" "has_token acct ?tok j"
    for d
    using that token_unique by (fastforce simp: holds_token_def)
  obtain n2 where n2: "normalised (limits_in_force E' v) r2 n2" "i_request_hash j = requestHash E' n2"
    and old: "\<not> c2 \<Longrightarrow> \<exists>d. ?P d \<and> j \<in> set (d_instances d) \<and> has_token acct ?tok j"
    and new: "c2 \<Longrightarrow> \<exists>d. ?P d \<and> \<not> (\<exists>i \<in> set (d_instances d). has_token acct ?tok i)"
    using Run_token [OF second others v] same by metis
  have "\<not> c2"
    using new by (auto simp: holds_token_def)
  with found n n2 old show ?thesis
    by metis
qed


theorem retried_token_same_instance_witness:
  "\<exists>i j c w' v'. Run roomy_env ''acct'' debian_request (\<lambda>_. Inr ()) (start_world () group_ledger) = (Inr (i, True), w') \<and>
     Run roomy_env ''acct'' debian_request (\<lambda>_. Inr ()) w' = (Inr (j, c), v') \<and> \<not> c \<and> i_id j = i_id i"
proof -
  obtain i w' where run: "Run roomy_env ''acct'' debian_request (\<lambda>_. Inr ()) (start_world () group_ledger) =
      (Inr (i, True), w')" and few: "length (d_instances (w_db w')) = 1" and no: "d_overrides (w_db w') = no_overrides"
    and hash: "i_request_hash i = requestHash roomy_env debian_normalised"
    using debian_admitted by blast
  have quiet: "others_keep P roomy_env" for P
    by (simp add: others_keep_def)
  have start: "inst_constraints (d_instances (w_db (start_world () group_ledger)))"
    by (simp add: start_world_def group_ledger_def empty_ledger_def inst_constraints_def live_vmids_def client_tokens_def
        map_filter_simps)
  obtain d :: ledger where "d_instances (w_db w') = d_instances d @ [i]" and i: "i_account i = ''acct''"
      "i_client_token i = ''token-1''"
    by (rule created_row [OF run quiet [of "\<lambda>_. True"]]) (simp_all add: debian_fields)
  with few have t: "d_instances (w_db w') = [i]"
    by simp
  have "\<exists>v'. Run roomy_env ''acct'' debian_request (\<lambda>_. Inr ()) w' = (Inr (i, False), v')"
    by (simp add: Run_def EffectiveLimits_def GetLimitOverrides_def validate_def debian_valid debian_rest debian_limits
        debian_fields by_token_def InstanceByClientToken_def select_one_def t i hash no of_res_def idempotent_def
        cloud_eval cong: cloud_lazy)
  then obtain v' where again: "Run roomy_env ''acct'' debian_request (\<lambda>_. Inr ()) w' = (Inr (i, False), v')"
    by blast
  have "\<not> False \<and> i_id i = i_id i"
    using retried_token_same_instance [OF run quiet start _ _ quiet again] by (simp add: debian_fields)
  with run again show ?thesis
    by blast
qed

end
