(* ===== verification/Request_Hash.thy ===== *)
theory Request_Hash
  imports Admission
begin

text \<open>
  What the fingerprint of a launch stands for: \<open>requestHash\<close> hashes the JSON text of the request
  without its client token, and two requests have the same text only when they ask for the same
  thing. A retried token whose fingerprint matches therefore repeats the original request.
\<close>

definition request_valid :: "run_request \<Rightarrow> bool" where
  "request_valid r \<longleftrightarrow>
     list_all valid_utf8 [rr_image_id r, rr_instance_type r, rr_key_name r, rr_disk_tier r, rr_subnet_id r, rr_user_data r,
       rr_install_iso_id r, rr_driver_iso_id r, rr_guest_os r] \<and>
     list_all valid_utf8 (rr_security_group_ids r) \<and>
     list_all (\<lambda>(k, v). valid_utf8 k \<and> valid_utf8 v) (tags_of (rr_tags r))"

text \<open>Equal but for the client token and the order in which the map of tags is listed.\<close>

definition same_parameters :: "run_request \<Rightarrow> run_request \<Rightarrow> bool" where
  "same_parameters r r' \<longleftrightarrow>
     r'\<lparr>rr_client_token := rr_client_token r, rr_tags := rr_tags r\<rparr> = r \<and>
     rel_option (\<lambda>m m'. set m = set m') (rr_tags r) (rr_tags r')"

definition request_fields :: "run_request \<Rightarrow> (string \<times> json) list" where
  "request_fields r = (case request_json r of JObject fs \<Rightarrow> fs | _ \<Rightarrow> [])"

lemma json_tags_valid:
  "list_all (\<lambda>(k, v). valid_utf8 k \<and> valid_utf8 v) (tags_of tags) \<Longrightarrow> json_valid (json_tags tags)"
  by (cases tags) (auto simp: json_tags_def tags_of_def list_all_iff)

lemma utf8_names: "list_all valid_utf8 [''image_id'', ''instance_type'', ''key_name'', ''vcpus'', ''memory_mib'',
    ''memory_min_mib'', ''ballooning'', ''root_disk_gib'', ''disk_tier'', ''subnet_id'', ''user_data'', ''client_token'',
    ''install_iso_id'', ''driver_iso_id'', ''guest_os'', ''tags'', ''security_group_ids'', '''']"
  by code_simp

lemma request_json_valid: "request_valid r \<Longrightarrow> json_valid (request_json (r\<lparr>rr_client_token := ''''\<rparr>))"
  using utf8_names
  by (auto simp: request_valid_def request_json_def unless_empty_def json_int_def json_bool_def json_tags_valid list_all_iff
      split: option.splits)

lemma json_tags_inj: "json_tags m = json_tags m' \<Longrightarrow> rel_option (\<lambda>m m'. set m = set m') m m'"
proof (cases m; cases m')
  fix a b assume eq: "json_tags m = json_tags m'" and m: "m = Some a" "m' = Some b"
  have "inj (\<lambda>(k, v). (k, JString v))"
    by (auto simp: inj_def)
  moreover have "map (\<lambda>(k, v). (k, JString v)) (sort_key fst a) = map (\<lambda>(k, v). (k, JString v)) (sort_key fst b)"
    using eq m by (simp add: json_tags_def)
  ultimately have "sort_key fst a = sort_key fst b"
    using inj_map_eq_map by blast
  then have "set a = set b"
    by (metis set_sort)
  with m show ?thesis
    by simp
qed (auto simp: json_tags_def)

lemma json_option_inj: "json_int x = json_int y \<longleftrightarrow> x = y" "json_bool b = json_bool c \<longleftrightarrow> b = c"
  by (auto simp: json_int_def json_bool_def split: option.splits)

lemma map_of_unless_empty:
  "map_of (unless_empty n s) k = (if k = n \<and> s \<noteq> '''' then Some (JString s) else None)"
  by (simp add: unless_empty_def)

lemma field_of:
  "map_of (request_fields r) ''image_id'' = Some (JString (rr_image_id r))"
  "map_of (request_fields r) ''instance_type'' = Some (JString (rr_instance_type r))"
  "map_of (request_fields r) ''key_name'' = Some (JString (rr_key_name r))"
  "map_of (request_fields r) ''vcpus'' = Some (json_int (rr_vcpus r))"
  "map_of (request_fields r) ''memory_mib'' = Some (json_int (rr_memory_mib r))"
  "map_of (request_fields r) ''memory_min_mib'' = Some (json_int (rr_memory_min_mib r))"
  "map_of (request_fields r) ''ballooning'' = Some (json_bool (rr_ballooning r))"
  "map_of (request_fields r) ''root_disk_gib'' = Some (JInt (rr_root_disk_gib r))"
  "map_of (request_fields r) ''disk_tier'' = Some (JString (rr_disk_tier r))"
  "map_of (request_fields r) ''subnet_id'' = (if rr_subnet_id r = '''' then None else Some (JString (rr_subnet_id r)))"
  "map_of (request_fields r) ''user_data'' = Some (JString (rr_user_data r))"
  "map_of (request_fields r) ''install_iso_id'' = (if rr_install_iso_id r = '''' then None else Some (JString (rr_install_iso_id r)))"
  "map_of (request_fields r) ''driver_iso_id'' = (if rr_driver_iso_id r = '''' then None else Some (JString (rr_driver_iso_id r)))"
  "map_of (request_fields r) ''guest_os'' = (if rr_guest_os r = '''' then None else Some (JString (rr_guest_os r)))"
  "map_of (request_fields r) ''tags'' = Some (json_tags (rr_tags r))"
  "map_of (request_fields r) ''security_group_ids'' = (if rr_security_group_ids r = [] then None else Some (JArray (map JString (rr_security_group_ids r))))"
  by (simp_all add: request_fields_def request_json_def map_of_unless_empty map_add_def)

lemma request_json_inj:
  assumes "request_json (r\<lparr>rr_client_token := ''''\<rparr>) = request_json (r'\<lparr>rr_client_token := ''''\<rparr>)"
  shows "same_parameters r r'"
proof -
  let ?f = "\<lambda>r. request_fields (r\<lparr>rr_client_token := ''''\<rparr>)"
  have f: "map_of (?f r) n = map_of (?f r') n" for n
    using assms by (simp add: request_fields_def)
  have "rr_image_id r = rr_image_id r'" using f [of "''image_id''"] by (simp add: field_of)
  moreover have "rr_instance_type r = rr_instance_type r'" using f [of "''instance_type''"] by (simp add: field_of)
  moreover have "rr_key_name r = rr_key_name r'" using f [of "''key_name''"] by (simp add: field_of)
  moreover have "rr_vcpus r = rr_vcpus r'" using f [of "''vcpus''"] by (simp add: field_of json_option_inj)
  moreover have "rr_memory_mib r = rr_memory_mib r'" using f [of "''memory_mib''"] by (simp add: field_of json_option_inj)
  moreover have "rr_memory_min_mib r = rr_memory_min_mib r'" using f [of "''memory_min_mib''"] by (simp add: field_of json_option_inj)
  moreover have "rr_ballooning r = rr_ballooning r'" using f [of "''ballooning''"] by (simp add: field_of json_option_inj)
  moreover have "rr_root_disk_gib r = rr_root_disk_gib r'" using f [of "''root_disk_gib''"] by (simp add: field_of)
  moreover have "rr_disk_tier r = rr_disk_tier r'" using f [of "''disk_tier''"] by (simp add: field_of)
  moreover have "rr_subnet_id r = rr_subnet_id r'" using f [of "''subnet_id''"] by (simp add: field_of split: if_splits)
  moreover have "rr_user_data r = rr_user_data r'" using f [of "''user_data''"] by (simp add: field_of)
  moreover have "rr_install_iso_id r = rr_install_iso_id r'" using f [of "''install_iso_id''"] by (simp add: field_of split: if_splits)
  moreover have "rr_driver_iso_id r = rr_driver_iso_id r'" using f [of "''driver_iso_id''"] by (simp add: field_of split: if_splits)
  moreover have "rr_guest_os r = rr_guest_os r'" using f [of "''guest_os''"] by (simp add: field_of split: if_splits)
  moreover have "rel_option (\<lambda>m m'. set m = set m') (rr_tags r) (rr_tags r')"
    using f [of "''tags''"] by (intro json_tags_inj) (simp add: field_of)
  moreover have "rr_security_group_ids r = rr_security_group_ids r'" using f [of "''security_group_ids''"] by (simp add: field_of inj_map_eq_map [of JString] inj_def split: if_splits)
  ultimately show ?thesis
    by (simp add: same_parameters_def)
qed

text \<open>
  C18. Two launches with the same fingerprint ask for the same machine: unless SHA-256 collides on
  their texts, every parameter is equal, up to the client token and the order of the tags. Strings
  are UTF-8, as those of a decoded request are.
\<close>

theorem request_hash_binds:
  assumes "requestHash E r = requestHash E r'"
    and "request_valid r" and "request_valid r'"
    and no_collision: "\<And>s t. s = json_text (request_json (r\<lparr>rr_client_token := ''''\<rparr>)) \<Longrightarrow>
      t = json_text (request_json (r'\<lparr>rr_client_token := ''''\<rparr>)) \<Longrightarrow> e_sha256 E s = e_sha256 E t \<Longrightarrow> s = t"
  shows "same_parameters r r'"
proof -
  have "json_text (request_json (r\<lparr>rr_client_token := ''''\<rparr>)) = json_text (request_json (r'\<lparr>rr_client_token := ''''\<rparr>))"
    by (rule no_collision) (use assms(1) in \<open>simp_all add: requestHash_def\<close>)
  then show ?thesis
    by (intro request_json_inj json_text_inj request_json_valid assms(2,3))
qed

theorem request_hash_binds_witness:
  "same_parameters debian_request (debian_request\<lparr>rr_client_token := ''token-2''\<rparr>)"
proof (rule request_hash_binds [of "quiet_env offline_pve offline_ipam :: unit env"])
  show "request_valid debian_request" "request_valid (debian_request\<lparr>rr_client_token := ''token-2''\<rparr>)"
    unfolding debian_request_def by code_simp+
qed (simp_all add: requestHash_def)

end
