(* ===== verification/Worker_Safety.thy ===== *)
theory Worker_Safety
  imports Call_Contract
begin

text \<open>
  The worker as a whole: that every one of its outside calls meets the conditions of \<open>call_contract\<close>,
  what that means for the VMs and disks it destroys, and what it does to the ledger however other
  requests interfere.
\<close>

section \<open>The worker's calls\<close>

context call_contract
begin

lemmas quiet_steps = keeps_intros log_intros calls_harmless calls_saw_config calls_saw_config'

lemma calls_list_vms: "keeps (log_inv L) (list_vms E)"
  unfolding list_vms_def by (intro log_intros)

lemma calls_owns: "keeps (log_inv L) (owns E vmid i)"
  unfolding owns_def by (intro quiet_steps)

lemma calls_volumeExists: "keeps (log_inv L) (volumeExists E s v)"
  unfolding volumeExists_def by (intro quiet_steps)

lemmas calm_steps = quiet_steps calls_list_vms calls_owns calls_volumeExists

subsection \<open>Firewalls\<close>

lemma calls_keep_entries: "keeps (log_inv L) (keep_entries E vmid missing entries)"
  by (induction entries arbitrary: missing) (auto intro!: quiet_steps split: option.split)

lemma calls_applyFirewall: "keeps (log_inv L) (applyFirewall E i)"
  unfolding applyFirewall_def replaceRules_def pinAddress_def setFilteredOptions_def filterNIC_def Let_def
  by (intro calm_steps calls_keep_entries) simp_all

lemma calls_workFirewallOnce: "keeps (log_inv L) (workFirewallOnce E)"
  unfolding workFirewallOnce_def by (intro calm_steps calls_applyFirewall)

lemma calls_writeFirewall: "keeps (log_inv L) (writeFirewall E k)"
  unfolding writeFirewall_def by (intro calm_steps calls_applyFirewall)

subsection \<open>Disks\<close>

lemma calls_volume_by_volid: "keeps (log_inv L) (volume_by_volid E volid)"
  unfolding volume_by_volid_def by (intro quiet_steps keeps_log_event' harmless) simp_all

lemma calls_ensureHolder: "keeps (log_inv L) (ensureHolder E)"
  unfolding ensureHolder_def Let_def by (intro calm_steps) simp

lemma calls_small_disk_steps:
  "keeps (log_inv L) (pendingKey E vmid key)" "keeps (log_inv L) (diskSizeGiB E volid)"
  "keeps (log_inv L) (volIDClaimed E volid k)"
  unfolding pendingKey_def diskSizeGiB_def volIDClaimed_def Let_def
  by (intro quiet_steps calls_volume_by_volid)+

lemma calls_locate: "keeps (disk_log L) (locate E k)"
  unfolding locate_def find_at_home_def find_at_destination_def Let_def
  by (intro quiet_steps calls_small_disk_steps)

lemma calls_case_bool_res:
  "(\<And>e. keeps I (f e)) \<Longrightarrow> keeps I g \<Longrightarrow> keeps I h \<Longrightarrow>
   keeps I (case r of Inl e \<Rightarrow> f e | Inr True \<Rightarrow> g | Inr False \<Rightarrow> h)"
  by (auto split: sum.split bool.split)

lemma calls_unplug: "keeps (disk_log L) (unplug E k)"
  unfolding unplug_def Let_def
  by (intro quiet_steps calls_small_disk_steps calls_case_bool_res) simp

lemma freeKey_free: "freeKey c p a b = key \<Longrightarrow> key \<noteq> '''' \<Longrightarrow> gomap_get c key = None"
  by (auto simp: freeKey_def find_Some_iff split: option.splits)

lemma free_volid: "gomap_get c key = None \<Longrightarrow> volidAt c key = ''''"
  by (simp add: volidAt_def config_str_def)

lemma hand_over_triple:
  assumes "gomap_get c target_key = None" and "has_prefix key ''unused''"
  shows "triple (saw L target c) (task E (pve_do (DidMoveDisk source key target target_key) f))
    (\<lambda>_. log_inv L) (log_inv L)"
  unfolding task_def
proof (rule triple_bindE)
  show "triple (saw L target c) (pve_do (DidMoveDisk source key target target_key) f) (\<lambda>_. log_inv L) (log_inv L)"
    using hand_over assms by (intro triple_pve_do) (auto simp: saw_def log_inv_def split: prod.split sum.split)
  show "triple (log_inv L) (external (WaitTask (e_pve E) upid)) (\<lambda>_. log_inv L) (log_inv L)" for upid
    unfolding keeps_triple [symmetric] by (intro log_intros)
qed

lemma calls_finish_move: "keeps (disk_log L) (finish_move E k target key)"
  unfolding finish_move_def Let_def by (intro quiet_steps)

lemma hand_over_disk_triple:
  assumes "gomap_get c key = None" and "has_prefix (l_config_key l) ''unused''"
  shows "triple (saw' target c) (hand_over_disk E k l source target key) (\<lambda>_. disk_log L) (disk_log L)"
  unfolding hand_over_disk_def
proof (intro triple_seqE)
  show "triple (saw' target c) (wrapE (''move to VM '' @ itoa target) (on_world (task E
      (pve_do (DidMoveDisk source (l_config_key l) target key)
         (MoveDisk (e_pve E) source (l_config_key l) target key))))) (\<lambda>_. disk_log L) (disk_log L)"
    by (intro triple_wrapE saw_on_world hand_over_triple assms)
qed (rule saw_set_loc saw_record keeps_triple [THEN iffD1, OF calls_finish_move])+

lemma calls_move: "keeps (disk_log L) (move E k target)"
  unfolding move_def Let_def
proof (intro calls_after_config' keeps_intros log_intros triple_if)
  fix l :: location and source c
  assume "\<not> \<not> has_prefix (l_config_key l) ''unused''" and "freeKey c ''unused'' 0 (holderSlots - 1) \<noteq> ''''"
  then show "triple (saw' target c)
      (hand_over_disk E k l source target (freeKey c ''unused'' 0 (holderSlots - 1))) (\<lambda>_. disk_log L) (disk_log L)"
    by (intro hand_over_disk_triple freeKey_free) auto
qed (intro saw_then_keeps keeps_raise)

lemma saw_configure': "volidAt c key = '''' \<Longrightarrow>
    triple (saw' vmid c) (on_world (configure E vmid [(key, disk)])) (\<lambda>_. disk_log L) (disk_log L)"
  by (intro saw_on_world saw_configure)

lemmas disk_steps = calls_locate calls_unplug calls_move calls_small_disk_steps calls_ensureHolder

lemma allocate_rest:
  "keeps (disk_log L) (seqE (locate E k) (bindE get_loc (\<lambda>l. whenE (l_volid l = '''') (raise (e l)))))"
  by (intro quiet_steps disk_steps)

lemma calls_allocate: "keeps (disk_log L) (allocate_disk E v)"
  unfolding allocate_disk_def Let_def
proof (intro calls_after_config', cases "disk_tier_storage (s_storage (e_site E)) (v_tier v)")
  fix c storage known
  let ?holder = "volume_holder_vmid (e_site E)" and ?key = "freeKey c ''scsi'' 0 30"
  assume tier: "disk_tier_storage (s_storage (e_site E)) (v_tier v) = (storage, known)"
  have rest: "triple (saw' ?holder c) (seqE (set_loc (no_location\<lparr>l_move_vmid := Some ?holder, l_move_key := ?key\<rparr>))
      (seqE (record_location E (v_id v)) (seqE (wrapE ''allocate'' (on_world (configure E ?holder
        [(?key, storage @ '':'' @ itoa (v_size v) @ '',discard=on'')]))) (seqE (locate E (v_id v))
      (bindE get_loc (\<lambda>l. whenE (l_volid l = '''')
         (raise (Failed (''the holder has no disk at '' @ ?key @ '' after allocating one'')))))))))
      (\<lambda>_. disk_log L) (disk_log L)" if "?key \<noteq> ''''"
  proof (rule triple_seqE [OF saw_set_loc triple_seqE [OF saw_record triple_seqE]])
    show "triple (saw' ?holder c) (wrapE ''allocate'' (on_world (configure E ?holder
        [(?key, storage @ '':'' @ itoa (v_size v) @ '',discard=on'')]))) (\<lambda>_. disk_log L) (disk_log L)"
      using that by (intro triple_wrapE saw_configure' free_volid freeKey_free) auto
  qed (rule keeps_triple [THEN iffD1, OF allocate_rest])
  show "triple (saw' ?holder c) (if ?key = '''' then raise scsi_slot_missing
      else case disk_tier_storage (s_storage (e_site E)) (v_tier v) of (storage, known) \<Rightarrow>
        if \<not> known
        then raise (GiveUp (''Server.InternalError: volume '' @ v_id v @ '' asks for disk tier '' @
               quoted (v_tier v) @ '', which this deployment does not have''))
        else seqE (set_loc (no_location\<lparr>l_move_vmid := Some ?holder, l_move_key := ?key\<rparr>))
      (seqE (record_location E (v_id v)) (seqE (wrapE ''allocate'' (on_world (configure E ?holder
        [(?key, storage @ '':'' @ itoa (v_size v) @ '',discard=on'')]))) (seqE (locate E (v_id v))
      (bindE get_loc (\<lambda>l. whenE (l_volid l = '''')
         (raise (Failed (''the holder has no disk at '' @ ?key @ '' after allocating one''))))))))) 
      (\<lambda>_. disk_log L) (disk_log L)"
    using rest by (auto simp: tier intro: saw_then_keeps keeps_raise)
qed

lemma calls_createVolumeDisk: "keeps (disk_log L) (createVolumeDisk E v)"
  unfolding createVolumeDisk_def by (intro quiet_steps disk_steps calls_allocate)

lemma calls_attach_target: "keeps (log_inv L) (attach_target E v)"
  unfolding attach_target_def
  by (intro calm_steps; simp split: option.split bool.split; intro calm_steps allI impI conjI)

lemma calls_plug_in: "keeps (disk_log L) (plug_in E v vmid)"
  unfolding plug_in_def Let_def
proof (intro calls_after_config' keeps_intros log_intros triple_if)
  fix l c disk assume "\<not> volidAt c (v_device v) \<noteq> ''''"
  then show "triple (saw' vmid c) (seqE (wrapE (''plug in as '' @ v_device v)
      (on_world (configure E vmid [(v_device v, disk)])))
      (seqE (set_loc (l\<lparr>l_config_key := v_device v\<rparr>)) (record_location E (v_id v))))
      (\<lambda>_. disk_log L) (disk_log L)" for disk and l :: location
    by (intro triple_seqE [OF triple_wrapE [OF saw_configure']] keeps_triple [THEN iffD1]) (simp, intro quiet_steps)
qed (intro saw_then_keeps keeps_raise)

lemma calls_attachVolumeDisk: "keeps (disk_log L) (attachVolumeDisk E v)"
  unfolding attachVolumeDisk_def Let_def
  by (intro quiet_steps disk_steps calls_plug_in calls_attach_target calls_case_bool_res)

lemma calls_detachVolumeDisk: "keeps (disk_log L) (detachVolumeDisk E v)"
  unfolding detachVolumeDisk_def Let_def by (intro quiet_steps disk_steps)

lemma calls_plug_on_holder: "keeps (disk_log L) (plug_on_holder E k)"
  unfolding plug_on_holder_def Let_def
proof (intro calls_after_config' triple_if triple_bindE [OF saw_get_loc])
  fix c :: vm_config and l :: location
  let ?holder = "volume_holder_vmid (e_site E)" and ?key = "freeKey c ''scsi'' 0 30"
  assume "?key \<noteq> ''''"
  then have "volidAt c ?key = ''''"
    by (intro free_volid freeKey_free) auto
  then show "triple (saw' ?holder c) (seqE (on_world (configure E ?holder [(?key, l_volid l @ '',discard=on'')]))
      (seqE (set_loc (l\<lparr>l_config_key := ?key\<rparr>)) (record_location E k))) (\<lambda>_. disk_log L) (disk_log L)"
    by (intro triple_seqE [OF saw_configure'] keeps_triple [THEN iffD1]) (assumption, intro quiet_steps)
qed (intro saw_then_keeps keeps_raise)

lemma calls_resizeVolumeDisk: "keeps (disk_log L) (resizeVolumeDisk E v)"
  unfolding resizeVolumeDisk_def grow_volume_def
  by (intro quiet_steps disk_steps calls_plug_on_holder) simp_all

lemma calls_destroy_disk:
  assumes "volume_holder_vmid (e_site E) = holder"
  shows "keeps (disk_log L) (destroy_disk E v)"
  unfolding destroy_disk_def Let_def assms
  by (intro keeps_log_pve_do destroy quiet_steps)

lemma calls_deleteVolumeDisk:
  "volume_holder_vmid (e_site E) = holder \<Longrightarrow> keeps (disk_log L) (deleteVolumeDisk E v)"
  unfolding deleteVolumeDisk_def by (intro quiet_steps disk_steps calls_destroy_disk)

lemma calls_carryOutVolume:
  "volume_holder_vmid (e_site E) = holder \<Longrightarrow> keeps (disk_log L) (carryOutVolume E v)"
  unfolding carryOutVolume_def
  by (auto split: option.split vol_action.split intro!: keeps_raise calls_createVolumeDisk
      calls_attachVolumeDisk calls_detachVolumeDisk calls_resizeVolumeDisk calls_deleteVolumeDisk)

lemma calls_processVolume:
  "volume_holder_vmid (e_site E) = holder \<Longrightarrow> keeps (log_inv L) (processVolume E v)"
  unfolding processVolume_def volume_failed_def give_up_volume_def Let_def
  by (intro quiet_steps calls_carryOutVolume calls_small_disk_steps)

lemma calls_workVolumeOnce:
  "volume_holder_vmid (e_site E) = holder \<Longrightarrow> keeps (log_inv L) (workVolumeOnce E)"
  unfolding workVolumeOnce_def by (intro quiet_steps calls_processVolume)

subsection \<open>Before a VM is deleted\<close>

definition covered :: "int \<Rightarrow> vm_config \<Rightarrow> string list \<Rightarrow> 'h world \<Rightarrow> bool" where
  "covered vmid c keys w \<longleftrightarrow> L (w_log w) \<and> last_config vmid (dropWhile clear_answer (w_log w)) = Some c \<and>
     disks_clear c keys (takeWhile clear_answer (w_log w))"

lemma covered_log: "covered vmid c keys w \<Longrightarrow> log_inv L w"
  by (simp add: covered_def log_inv_def)

lemma saw_covered: "saw L vmid c w \<Longrightarrow> covered vmid c [] w"
  by (auto simp: saw_def covered_def last_config_Some disks_clear_def clear_answer_def)

lemma covered_skip: "covered vmid c keys w \<Longrightarrow> \<not> diskKey key \<or> volidAt c key = '''' \<Longrightarrow> covered vmid c (keys @ [key]) w"
  by (auto simp: covered_def disks_clear_def)

lemma covered_answer:
  assumes "covered vmid c keys w" and "w_log w' = SawVolumeByVolID (volidAt c key) False # w_log w"
  shows "covered vmid c (keys @ [key]) w'"
  using assms harmless [of "SawVolumeByVolID (volidAt c key) False"]
  by (auto simp: covered_def disks_clear_def clear_answer_def list_all_iff)

lemma volume_by_volid_triple:
  fixes E :: "'h env"
  shows "triple (covered vmid c keys) (volume_by_volid E (volidAt c key))
     (\<lambda>r w. case r of None \<Rightarrow> covered vmid c (keys @ [key]) w | Some v \<Rightarrow> log_inv L w) (log_inv L)"
  unfolding triple_def
proof (intro allI impI)
  fix w :: "'h world" assume w: "covered vmid c keys w"
  let ?q = "db E (\<lambda>_. reading (\<lambda>d. VolumeByVolID (volidAt c key) (d_volumes d)))"
  obtain r w' where q: "?q w = (r, w')" by fastforce
  then have log: "w_log w' = w_log w"
    using db_log [of E "\<lambda>_. reading (\<lambda>d. VolumeByVolID (volidAt c key) (d_volumes d))" w] by simp
  have "covered vmid c (keys @ [key]) (w'\<lparr>w_log := SawVolumeByVolID (volidAt c key) False # w_log w'\<rparr>)"
    using w by (rule covered_answer) (simp add: log)
  moreover have "log_inv L w'" "log_inv L (w'\<lparr>w_log := SawVolumeByVolID (volidAt c key) True # w_log w'\<rparr>)"
    using covered_log [OF w] harmless [of "SawVolumeByVolID (volidAt c key) True"] by (simp_all add: log_inv_def log)
  ultimately show "case volume_by_volid E (volidAt c key) w of (Inl e, w') \<Rightarrow> log_inv L w'
      | (Inr r, w') \<Rightarrow> (case r of None \<Rightarrow> covered vmid c (keys @ [key]) w' | Some v \<Rightarrow> log_inv L w')"
    using q by (cases r) (auto simp: volume_by_volid_def attempt_def log_event_def prog_defs)
qed

lemma no_volume_on_triple:
  "triple (covered vmid c seen) (no_volume_on E vmid c keys) (\<lambda>_. covered vmid c (seen @ keys)) (log_inv L)"
proof (induction keys arbitrary: seen)
  case Nil
  then show ?case by (simp add: triple_ret)
next
  case (Cons key keys)
  have rest: "triple (covered vmid c (seen @ [key])) (no_volume_on E vmid c keys)
      (\<lambda>_. covered vmid c (seen @ key # keys)) (log_inv L)"
    using Cons.IH [of "seen @ [key]"] by simp
  then have "triple (covered vmid c seen) (no_volume_on E vmid c keys)
      (\<lambda>_. covered vmid c (seen @ key # keys)) (log_inv L)" if "\<not> diskKey key \<or> volidAt c key = ''''"
    by (rule triple_pre) (intro covered_skip that)
  with rest show ?case
    unfolding no_volume_on.simps Let_def
    by (intro triple_if triple_bindE [OF volume_by_volid_triple]) (auto intro: triple_raise split: option.split)
qed

lemma refuse_triple:
  "triple (log_inv L) (refuseToDestroyVolumes E vmid)
     (\<lambda>_ w. L (w_log w) \<and> cleared vmid (w_log w)) (log_inv L)"
  unfolding refuseToDestroyVolumes_def
proof (rule triple_bindE [OF saw_config_triple])
  show "triple (saw L vmid c) (no_volume_on E vmid c (map fst c))
      (\<lambda>_ w. L (w_log w) \<and> cleared vmid (w_log w)) (log_inv L)" for c
    by (rule triple_weaken [OF no_volume_on_triple [of vmid c "[]"] saw_covered])
      (auto simp: covered_def cleared_def)
qed

lemma calls_return_volume: "keeps (disk_log L) (return_volume E i vmid v)"
  unfolding return_volume_def by (intro quiet_steps disk_steps)

lemma keeps_log_of_res [log_intros]: "keeps I (of_res r)"
  by (simp add: keeps_def of_res_def)

lemma returnVolumes_triple:
  "triple (log_inv L) (returnVolumes E i vmid) (\<lambda>_ w. L (w_log w) \<and> cleared vmid (w_log w)) (log_inv L)"
  unfolding returnVolumes_def
proof (intro triple_bindE triple_seqE)
  fix onVM attached
  show "triple (log_inv L) (for_eachE (first_by_id [] (onVM @ attached)) (\<lambda>v.
      bindE (with_location (v_location v) (return_volume E i vmid v)) (\<lambda>(r, l). of_res r)))
      (\<lambda>_. log_inv L) (log_inv L)"
    unfolding keeps_triple [symmetric] by (intro quiet_steps calls_return_volume)
qed (rule keeps_triple [THEN iffD1, OF keeps_log_steps(2)] refuse_triple)+

end

context call_contract
begin

lemmas owned_steps = quiet_steps keeps_log_of_res

lemma shown_owned_mono: "shown_owned i vmid l \<Longrightarrow> shown_owned i vmid (ev # l)"
  by (auto simp: shown_owned_def)

text \<open>Ownership once shown stays shown, so it may be carried along with the property.\<close>

lemma owned_contract: "call_contract (\<lambda>l. L l \<and> shown_owned i vmid l) holder claimed"
  by unfold_locales (auto intro: harmless destroy plug hand_over drive delete shown_owned_mono)

lemma owns_triple:
  assumes "i_vmid i = Some vmid"
  shows "triple (log_inv L) (owns E vmid i) (\<lambda>b w. L (w_log w) \<and> (b \<longrightarrow> shown_owned i vmid (w_log w))) (log_inv L)"
proof (cases "i_adopted i")
  case True
  then show ?thesis
    using assms by (simp add: owns_def triple_def ret_def log_inv_def shown_owned_def)
next
  case False
  have "saw L vmid c w \<Longrightarrow> owned_config i c \<Longrightarrow> shown_owned i vmid (w_log w)" for c and w :: "'a world"
    using assms by (auto simp: saw_def shown_owned_def last_config_Some)
  then show ?thesis
    unfolding owns_def using False
    by (auto intro!: triple_bindE [OF saw_config_triple] triple_ret simp: saw_def)
qed

subsection \<open>Terminating\<close>

definition owned_log :: "instance_row \<Rightarrow> int \<Rightarrow> 'h world \<Rightarrow> bool" where
  "owned_log i vmid w \<longleftrightarrow> L (w_log w) \<and> shown_owned i vmid (w_log w)"

lemma owned_log_inv: "owned_log i vmid = log_inv (\<lambda>l. L l \<and> shown_owned i vmid l)"
  by (auto simp: owned_log_def log_inv_def)

lemma owned_log_forget: "owned_log i vmid w \<Longrightarrow> log_inv L w"
  by (simp add: owned_log_def log_inv_def)

lemma keeps_owned_power:
  assumes "claimed i"
  shows "keeps (owned_log i vmid) (task E (pve_do (DidPower vmid act) f))"
  unfolding owned_log_inv using assms
  by (intro keeps_log_task keeps_log_pve_do) (auto intro: drive shown_owned_mono)

lemma delete_vm_triple:
  assumes "claimed i"
  shows "triple (owned_log i vmid) (delete_vm E i vmid st) (\<lambda>_. log_inv L) (log_inv L)"
  unfolding delete_vm_def
proof (intro triple_seqE triple_wrapE)
  show "triple (owned_log i vmid) (whenE (st = ''running'')
      (wrapE ''stop'' (task E (pve_do (DidPower vmid ''stop'') (Power (e_pve E) vmid ''stop'' [])))))
      (\<lambda>_. owned_log i vmid) (log_inv L)"
    by (rule triple_keeps [where I = "owned_log i vmid"])
      (auto intro: keeps_whenE keeps_wrapE keeps_owned_power assms owned_log_forget)
  show "triple (owned_log i vmid) (returnVolumes E i vmid)
      (\<lambda>_ w. owned_log i vmid w \<and> cleared vmid (w_log w)) (log_inv L)"
    unfolding owned_log_inv
    by (rule triple_weaken [OF call_contract.returnVolumes_triple [OF owned_contract]])
      (auto simp: log_inv_def)
  show "triple (\<lambda>w. owned_log i vmid w \<and> cleared vmid (w_log w))
      (task E (pve_do (DidDeleteVM vmid) (DeleteVM (e_pve E) vmid))) (\<lambda>_. log_inv L) (log_inv L)"
    unfolding task_def
  proof (rule triple_bindE)
    show "triple (\<lambda>w. owned_log i vmid w \<and> cleared vmid (w_log w))
        (pve_do (DidDeleteVM vmid) (DeleteVM (e_pve E) vmid)) (\<lambda>_. log_inv L) (log_inv L)"
      using delete assms
      by (intro triple_pve_do) (auto simp: owned_log_def log_inv_def split: prod.split sum.split)
    show "triple (log_inv L) (external (WaitTask (e_pve E) upid)) (\<lambda>_. log_inv L) (log_inv L)" for upid
      unfolding keeps_triple [symmetric] by (rule keeps_log_steps)
  qed
qed

lemma calls_terminate:
  assumes "claimed i"
  shows "keeps (log_inv L) (terminate E i)"
proof -
  have vm: "keeps (log_inv L) (bindE (owns E vmid i) (\<lambda>owned. if owned then delete_vm E i vmid st else ret ()))"
    if "i_vmid i = Some vmid" for vmid st and E :: "'a env"
    unfolding keeps_triple
  proof (rule triple_bindE [OF owns_triple [OF that] triple_if])
    show "triple (\<lambda>w. L (w_log w) \<and> (owned \<longrightarrow> shown_owned i vmid (w_log w))) (delete_vm E i vmid st)
        (\<lambda>_. log_inv L) (log_inv L)" if owned for owned
      by (rule triple_pre [OF delete_vm_triple [OF assms]]) (use that in \<open>simp add: owned_log_def\<close>)
  qed (simp add: triple_ret log_inv_def)
  then show ?thesis
    unfolding terminate_def terminate_vm_def terminate_seed_def terminate_addresses_def release_ip_def Let_def
    by (intro vm quiet_steps calls_list_vms calls_volumeExists) simp_all
qed

subsection \<open>Power and launch\<close>

lemma calls_setOnboot: "keeps (log_inv L) (setOnboot E k vmid on)"
  unfolding setOnboot_def Let_def by (intro quiet_steps) simp_all

lemma power_owned:
  assumes "i_vmid i = Some vmid" and "claimed i"
  shows "keeps (log_inv L) (attempt (owns E vmid i) (\<lambda>owned. case owned of
      Inl e \<Rightarrow> raise (Join e stranger)
    | Inr False \<Rightarrow> raise stranger
    | Inr True \<Rightarrow> seqE (if act = ''start'' then wrapE ''onboot'' (setOnboot E (i_id i) vmid True)
          else if act = ''shutdown'' then wrapE ''onboot'' (setOnboot E (i_id i) vmid False) else ret ())
        (if b then ret () else task E (pve_do (DidPower vmid act) f))))"
  unfolding keeps_triple
proof (rule triple_attempt [where R = "\<lambda>owned w. L (w_log w) \<and> (owned = Inr True \<longrightarrow> shown_owned i vmid (w_log w))"])
  show "triple (log_inv L) (owns E vmid i)
      (\<lambda>x w. L (w_log w) \<and> (Inr x = (Inr True :: bool res) \<longrightarrow> shown_owned i vmid (w_log w))) (log_inv L)"
    using owns_triple [OF assms(1)] by simp
  show "\<forall>e. L (w_log w) \<and> (Inl e = (Inr True :: bool res) \<longrightarrow> shown_owned i vmid (w_log w))"
    if "log_inv L w" for w :: "'a world"
    using that by (simp add: log_inv_def)
  have onboot: "keeps (owned_log i vmid) (setOnboot E (i_id i) vmid on)" for on and E :: "'a env"
    unfolding owned_log_inv by (rule call_contract.calls_setOnboot [OF owned_contract])
  have drive: "keeps (owned_log i vmid) (seqE (if act = ''start'' then wrapE ''onboot'' (setOnboot E (i_id i) vmid True)
          else if act = ''shutdown'' then wrapE ''onboot'' (setOnboot E (i_id i) vmid False) else ret ())
        (if b then ret () else task E (pve_do (DidPower vmid act) f)))"
    by (intro keeps_intros onboot keeps_owned_power assms)
  show "triple (\<lambda>w. L (w_log w) \<and> (owned = Inr True \<longrightarrow> shown_owned i vmid (w_log w)))
     (case owned of
      Inl e \<Rightarrow> raise (Join e stranger)
    | Inr False \<Rightarrow> raise stranger
    | Inr True \<Rightarrow> seqE (if act = ''start'' then wrapE ''onboot'' (setOnboot E (i_id i) vmid True)
          else if act = ''shutdown'' then wrapE ''onboot'' (setOnboot E (i_id i) vmid False) else ret ())
        (if b then ret () else task E (pve_do (DidPower vmid act) f))) (\<lambda>_. log_inv L) (log_inv L)" for owned
  proof (cases "owned = Inr True")
    case True
    show ?thesis
      unfolding True sum.case bool.case
      by (rule triple_keeps [OF drive]) (simp_all add: owned_log_def log_inv_def)
  qed (auto simp: log_inv_def intro!: triple_raise split: sum.split bool.split)
qed

lemma calls_power: "claimed i \<Longrightarrow> keeps (log_inv L) (power E i act params)"
  unfolding power_def Let_def by (intro power_owned quiet_steps calls_list_vms) simp_all

lemma calls_media:
  "keeps (log_inv L) (ResolveImage E k)" "keeps (log_inv L) (adminISOs E)" "keeps (log_inv L) (ResolveISO E k)"
  unfolding ResolveImage_def ResolveISO_def adminISOs_def Let_def by (intro quiet_steps)+

lemma calls_address: "keeps (log_inv L) (address E i)"
  unfolding address_def ipRange_def
  by (auto intro!: quiet_steps split: list.split option.split)

lemma calls_uploadSeed: "keeps (log_inv L) (uploadSeed E i ip)"
  unfolding uploadSeed_def seed_guest_os_def Let_def
  by (intro quiet_steps keeps_log_of_res calls_media calls_volumeExists) simp_all

lemma calls_moveVMID: "keeps (log_inv L) (moveVMID E i r old visible reason)"
  unfolding moveVMID_def allocate_vmid_def by (intro quiet_steps)

lemma calls_createVM: "keeps (log_inv L) (createVM E i r)"
  unfolding createVM_def create_params_def catchE_def
  by (intro quiet_steps keeps_log_of_res calls_media calls_list_vms calls_owns calls_moveVMID) simp_all

lemma calls_launch: "keeps (log_inv L) (launch E i)"
  unfolding launch_def launch_address_def launch_seed_def launch_vm_def launch_boot_def growDisk_def
    record_resources_def Let_def
  by (intro quiet_steps calls_address calls_uploadSeed calls_createVM calls_writeFirewall) simp_all

subsection \<open>The worker\<close>

lemma calls_carryOut: "claimed i \<Longrightarrow> keeps (log_inv L) (carryOut E i a)"
  unfolding carryOut_def catchE_def
  by (cases a) (auto intro!: quiet_steps calls_launch calls_power calls_terminate)

lemma calls_process: "claimed i \<Longrightarrow> keeps (log_inv L) (process E i)"
  unfolding process_def instance_failed_def instance_finished_def give_up_instance_def Let_def
  by (intro quiet_steps calls_carryOut) (auto split: action.split bool.split intro!: quiet_steps)

lemma calls_WorkOnce:
  "volume_holder_vmid (e_site E) = holder \<Longrightarrow> (\<And>i. claimed i) \<Longrightarrow> keeps (log_inv L) (WorkOnce E)"
  unfolding WorkOnce_def workInstanceOnce_def
  by (intro quiet_steps calls_process calls_workVolumeOnce calls_workFirewallOnce)

lemma calls_RunWorker:
  assumes "volume_holder_vmid (e_site E) = holder" and "\<And>i. claimed i"
  shows "keeps (log_inv L) (RunWorker turns E)"
proof (induction turns)
  case (Suc turns)
  then show ?case
    unfolding RunWorker.simps wait_for_wake_def
    by (intro quiet_steps calls_WorkOnce assms) simp_all
qed (simp add: keeps_ret)

end


section \<open>What the contract says of the whole worker\<close>

text \<open>
  The condition on each call, read off the log: a VM is deleted only right after every disk of the
  configuration read last was looked up and found to be no live volume's; a disk is destroyed only on
  the holder; a disk is plugged only into a slot that the configuration read just before shows empty;
  only an unused disk is handed over, to a slot shown free.
\<close>

definition allowed :: "int \<Rightarrow> event list \<Rightarrow> event \<Rightarrow> bool" where
  "allowed holder l ev = (case ev of
       DidDeleteVM vmid \<Rightarrow> cleared vmid l
     | DidUnlink vmid keys force \<Rightarrow> \<not> force \<or> vmid = holder
     | DidConfigureVM vmid params \<Rightarrow> (case last_config vmid l of
           None \<Rightarrow> False | Some c \<Rightarrow> list_all (\<lambda>p. volidAt c (fst p) = '''') params)
     | DidMoveDisk source key target target_key \<Rightarrow> has_prefix key ''unused'' \<and>
         (case last_config target l of None \<Rightarrow> False | Some c \<Rightarrow> gomap_get c target_key = None)
     | _ \<Rightarrow> True)"

fun guarded :: "int \<Rightarrow> event list \<Rightarrow> bool" where
  "guarded holder [] = True"
| "guarded holder (ev # l) = (allowed holder l ev \<and> guarded holder l)"

lemma harmless_allowed: "harmless ev \<Longrightarrow> allowed holder l ev"
  by (cases ev) (simp_all add: allowed_def)

interpretation guard: call_contract "guarded holder" holder "\<lambda>_. True" for holder
  by unfold_locales (simp_all add: harmless_allowed, simp_all add: allowed_def)

text \<open>A VM is deleted, stopped, reset or shut down only after it was shown to be the instance's.\<close>

definition owned_call :: "instance_row \<Rightarrow> event list \<Rightarrow> event \<Rightarrow> bool" where
  "owned_call i l ev = (case ev of
       DidDeleteVM vmid \<Rightarrow> shown_owned i vmid l
     | DidPower vmid act \<Rightarrow> act = ''start'' \<or> shown_owned i vmid l
     | _ \<Rightarrow> True)"

fun owned_calls :: "instance_row \<Rightarrow> event list \<Rightarrow> bool" where
  "owned_calls i [] = True"
| "owned_calls i (ev # l) = (owned_call i l ev \<and> owned_calls i l)"

lemma harmless_owned: "harmless ev \<Longrightarrow> owned_call i l ev"
  by (cases ev) (simp_all add: owned_call_def)

interpretation own: call_contract "owned_calls i" holder "\<lambda>j. j = i" for i holder
  by unfold_locales (simp_all add: harmless_owned, simp_all add: owned_call_def)

text \<open>
  C2. However long the worker runs, whatever the hypervisor answers and whatever other requests do to
  the ledger meanwhile, it never deletes a VM without having looked up every disk of it first and
  found none to be a live volume's, never destroys a disk outside the holder, never plugs a disk into
  a slot in use, and never hands over a disk that is plugged in.
\<close>

theorem destructive_calls_guarded:
  assumes "guarded (volume_holder_vmid (e_site E)) (w_log w)"
  shows "guarded (volume_holder_vmid (e_site E)) (w_log (snd (RunWorker turns E w)))"
  using keepsD [OF guard.calls_RunWorker [OF refl]] assms by (simp add: log_inv_def)

text \<open>
  C3. Carrying out an action of an instance deletes and drives no VM but the instance's own: every
  deletion, stop, shutdown, reboot and reset is on its VMID, and follows a look at the VM that showed
  its ID in the description (or the instance was registered with that VM).
\<close>

theorem process_touches_own_vm:
  assumes "owned_calls i (w_log w)"
  shows "owned_calls i (w_log (snd (process E i w)))"
  using keepsD [OF own.calls_process [OF refl]] assms by (simp add: log_inv_def)

section \<open>What the worker does to the rows\<close>

definition requests_respect :: "ledger \<Rightarrow> 'h env \<Rightarrow> bool" where
  "requests_respect d0 E \<longleftrightarrow>
     others_keep (\<lambda>d. lifecycles (d_instances d0) (d_volumes d0) (d_instances d) (d_volumes d)) E"

lemma RunWorker_lifecycles:
  assumes "requests_respect (w_db w) E"
  shows "evolves (d_instances (w_db w)) (d_instances (w_db (snd (RunWorker turns E w)))) \<and>
    vol_evolves (d_volumes (w_db w)) (d_volumes (w_db (snd (RunWorker turns E w))))"
  using keepsD [OF life.keeps_RunWorker [OF assms [unfolded requests_respect_def]], of w turns]
  by (simp add: db_inv_def lifecycles_def evolves_refl vol_evolves_refl)

text \<open>
  As long as other requests move rows along the lifecycle, the worker does too, over any number of
  turns and whatever fails: every instance and volume of the ledger is still there, at the same place,
  with the identity it was created with, and its phase was reached along the edges of the lifecycle.
\<close>

theorem worker_follows_lifecycle:
  assumes "requests_respect (w_db w) E"
    and "list_all row_ok (d_instances (w_db w))" and "list_all vol_ok (d_volumes (w_db w))"
    and "w' = snd (RunWorker turns E w)"
  shows "(n < length (d_instances (w_db w)) \<longrightarrow> n < length (d_instances (w_db w')) \<and>
      row_next (d_instances (w_db w) ! n) (d_instances (w_db w') ! n)) \<and>
    (m < length (d_volumes (w_db w)) \<longrightarrow> m < length (d_volumes (w_db w')) \<and>
      vol_next (d_volumes (w_db w) ! m) (d_volumes (w_db w') ! m)) \<and>
    list_all row_ok (d_instances (w_db w')) \<and> list_all vol_ok (d_volumes (w_db w'))"
proof -
  have i: "evolves (d_instances (w_db w)) (d_instances (w_db w'))"
    and v: "vol_evolves (d_volumes (w_db w)) (d_volumes (w_db w'))"
    using RunWorker_lifecycles [OF assms(1)] unfolding assms(4) by blast+
  show ?thesis
    by (intro conjI impI inst_life.evolves_ok [OF i assms(2)] vol_life.evolves_ok [OF v assms(3)]
        inst_life.evolves_nth [OF i assms(2), THEN conjunct1]
        inst_life.evolves_nth [OF i assms(2), THEN conjunct2, THEN conjunct2]
        vol_life.evolves_nth [OF v assms(3), THEN conjunct1]
        vol_life.evolves_nth [OF v assms(3), THEN conjunct2, THEN conjunct2])
qed

text \<open>
  Terminated is final: an instance that was terminated when the worker started is terminated after
  any number of turns, with no action pending, and is never brought back.
\<close>

theorem terminated_is_final:
  assumes "requests_respect (w_db w) E" and "list_all row_ok (d_instances (w_db w))"
    and "n < length (d_instances (w_db w))" and "i_state (d_instances (w_db w) ! n) = StateTerminated"
  shows "let i = d_instances (w_db w) ! n; j = d_instances (w_db (snd (RunWorker turns E w))) ! n in
    i_id j = i_id i \<and> i_state j = StateTerminated \<and> i_pending j = None"
  unfolding Let_def
  using evolves_terminated [OF RunWorker_lifecycles [OF assms(1), THEN conjunct1] assms(2-4), of turns]
  by blast

section \<open>A deployment with one VM\<close>

definition web_config :: vm_config where
  "web_config = [(''description'', Str ''shake-cloud instance i-1''), (''virtio0'', Str ''local:vm-5002-disk-0''),
     (''net0'', Str ''virtio=BC'')]"

definition one_vm_pve :: "int list hypervisor" where
  "one_vm_pve = offline_pve\<lparr>
     ListVMs := \<lambda>h. (Inr (map (\<lambda>v. \<lparr>vm_id = v, vm_name = ''web'', vm_status = ''running'', vm_pool = ''cloud'',
        vm_node = ''pve''\<rparr>) h), h),
     VMConfig := \<lambda>vmid h. (Inr web_config, h), Power := \<lambda>_ _ _ h. (Inr ''UPID'', h),
     DeleteVM := \<lambda>v h. (Inr ''UPID'', removeAll v h), WaitTask := \<lambda>_ h. (Inr (), h)\<rparr>"

lemma one_vm_pve_simps:
  "ListVMs one_vm_pve h = (Inr (map (\<lambda>v. \<lparr>vm_id = v, vm_name = ''web'', vm_status = ''running'', vm_pool = ''cloud'',
     vm_node = ''pve''\<rparr>) h), h)"
  "VMConfig one_vm_pve vmid h = (Inr web_config, h)"
  "Power one_vm_pve vmid a ps h = (Inr ''UPID'', h)" "DeleteVM one_vm_pve v h = (Inr ''UPID'', removeAll v h)"
  "WaitTask one_vm_pve u h = (Inr (), h)"
  by (simp_all add: one_vm_pve_def)

definition no_address_ipam :: "'h ipam" where
  "no_address_ipam = offline_ipam\<lparr>IPAddressesByDescription := \<lambda>_ h. (Inr [], h)\<rparr>"

definition terminating :: instance_row where
  "terminating = (example_row ''i-1'')\<lparr>i_state := StateShuttingDown, i_pending := Some ActionTerminate,
     i_vmid := Some 5002, i_vm_created := True\<rparr>"

definition terminating_world :: "int list world" where
  "terminating_world = start_world [5002] (empty_ledger\<lparr>d_instances := [terminating]\<rparr>)"

definition one_vm_env :: "int list env" where
  "one_vm_env = quiet_env one_vm_pve no_address_ipam"

lemma terminating_simps:
  "i_vmid terminating = Some 5002" "i_pending terminating = Some ActionTerminate" "i_adopted terminating = False"
  "i_seed_volume terminating = ''''" "i_netbox_ip terminating = None" "i_id terminating = ''i-1''"
  "i_state_reason terminating = ''''"
  by (simp_all add: terminating_def example_row_def)

lemma web_config_keys: "diskKey ''virtio0''" "\<not> diskKey ''description''" "\<not> diskKey ''net0''"
    "map fst web_config = [''description'', ''virtio0'', ''net0'']"
    "volidAt web_config ''virtio0'' = ''local:vm-5002-disk-0''"
  by (simp_all add: diskKey_def disk_prefixes_def has_prefix_def matches_tail_def is_digit_def
      web_config_def volidAt_def config_str_def gomap_get_def)

lemma web_config_owned: "owned_config (terminating\<lparr>i_lease_until := x\<rparr>) web_config"
proof -
  have "owned_config (terminating\<lparr>i_lease_until := x\<rparr>) web_config = owned_config terminating web_config"
    by (simp add: owned_config_def)
  also have "\<dots>" by code_simp
  finally show ?thesis .
qed

lemma claim_terminating: "0 \<le> now \<Longrightarrow> ClaimWork now l [terminating] =
    (Inr (terminating\<lparr>i_lease_until := Some (now + l)\<rparr>), [terminating\<lparr>i_lease_until := Some (now + l)\<rparr>])"
  by (simp add: terminating_def example_row_def ClaimWork_def claim_first_def action_due_def lease_free_def
      action_order_def hold_lease_def update_where_def)

lemma finish_terminating:
  "FinishAction now ''i-1'' ActionTerminate StateTerminated r [terminating\<lparr>i_lease_until := x\<rparr>] =
     (Inr True, [finish_row now StateTerminated r (terminating\<lparr>i_lease_until := x\<rparr>)])"
  by (simp add: terminating_def example_row_def FinishAction_def set_if_pending_def update_where_def by_id_def
      finish_row_def constrained_def inst_constraints_def row_size_ok_def live_vmids_def client_tokens_def
      live_def db_size_ok_def int4_def)

text \<open>One turn of the worker: the VM is stopped, looked at, and deleted, and the row is terminated.\<close>

lemma terminating_run:
  "RunWorker 1 one_vm_env terminating_world = (Inr (), terminating_world\<lparr>
     w_db := empty_ledger\<lparr>d_instances := [finish_row 10 StateTerminated '''' (terminating\<lparr>i_lease_until := Some (2 + fifteen_minutes)\<rparr>)]\<rparr>,
     w_hv := [], w_tick := 11, w_ledger_wake := True,
     w_log := [DidDeleteVM 5002, SawVolumeByVolID ''local:vm-5002-disk-0'' False, SawConfig 5002 web_config,
       DidPower 5002 ''stop'', SawConfig 5002 web_config]\<rparr>)"
  by (simp add: numeral_1_eq_Suc_0 terminating_world_def one_vm_env_def WorkOnce_def workInstanceOnce_def
      process_def carryOut_def terminate_def terminate_vm_def delete_vm_def returnVolumes_def list_vms_def
      findVM_def owns_def web_config_owned one_vm_pve_simps claim_terminating terminating_simps
      VolumesOnVM_def VolumesOfInstance_def refuseToDestroyVolumes_def volume_by_volid_def VolumeByVolID_def select_one_def empty_ledger_def web_config_keys terminate_seed_def
      terminate_addresses_def no_address_ipam_def instance_finished_def finish_terminating cloud_eval
      cong: cloud_lazy)


section \<open>The properties on that deployment\<close>

theorem destructive_calls_guarded_witness:
  "guarded 5000 [DidDeleteVM 5002, SawVolumeByVolID ''local:vm-5002-disk-0'' False, SawConfig 5002 web_config,
       DidPower 5002 ''stop'', SawConfig 5002 web_config] \<and>
   \<not> guarded 5000 [DidDeleteVM 5002, SawConfig 5002 web_config]"
proof -
  have "volume_holder_vmid (e_site one_vm_env) = 5000" "w_log terminating_world = []"
    by (simp_all add: one_vm_env_def example_site_def terminating_world_def start_world_def)
  then show ?thesis
    using destructive_calls_guarded [of one_vm_env terminating_world 1]
    by (simp add: terminating_run allowed_def cleared_def last_config_def clear_answer_def disks_clear_def web_config_keys)
qed

lemma terminating_ok: "list_all row_ok [terminating]" "requests_respect d one_vm_env"
  by (simp_all add: terminating_def example_row_def row_ok_def phase_def requests_respect_def others_keep_def one_vm_env_def)

theorem worker_follows_lifecycle_witness:
  "row_next terminating (finish_row 10 StateTerminated '''' (terminating\<lparr>i_lease_until := Some (2 + fifteen_minutes)\<rparr>))"
  using worker_follows_lifecycle [OF terminating_ok(2) _ _ refl, of terminating_world 0 1 0, unfolded terminating_run]
    terminating_ok(1)
  by (simp add: terminating_world_def start_world_def empty_ledger_def)

theorem process_touches_own_vm_witness:
  "owned_calls terminating (w_log (snd (process one_vm_env terminating terminating_world))) \<and>
   \<not> owned_calls terminating [DidDeleteVM 5003, SawConfig 5003 web_config]"
proof -
  have "owned_calls terminating (w_log terminating_world)"
    by (simp add: terminating_world_def start_world_def)
  then show ?thesis
    using process_touches_own_vm
    by (simp add: owned_call_def shown_owned_def terminating_simps)
qed

definition gone :: instance_row where
  "gone = finish_row 1 StateTerminated '''' terminating"

theorem terminated_is_final_witness:
  "i_state (d_instances (w_db (snd (RunWorker 7 one_vm_env (terminating_world\<lparr>w_db := empty_ledger\<lparr>d_instances := [gone]\<rparr>\<rparr>)))) ! 0) =
     StateTerminated"
  using terminated_is_final [OF terminating_ok(2), of "terminating_world\<lparr>w_db := empty_ledger\<lparr>d_instances := [gone]\<rparr>\<rparr>" 0 7]
  by (simp add: gone_def finish_row_def terminating_def example_row_def row_ok_def phase_def Let_def empty_ledger_def)

end
