(* ===== verification/Reconciler.thy ===== *)
theory Reconciler
  imports Instance_Worker
begin

text \<open>
  \<open>compute/reconcile.go\<close>: the reconciler follows power changes made outside the API. It looks only at
  settled instances, confirms a changed power state with the VM itself, and never terminates or
  deletes anything.
\<close>

definition missingReason :: string where
  "missingReason = ''Server.VMMissing: the VM is not in the cloud pool''"

definition shutdown_reason :: string where
  "shutdown_reason = ''Client.InstanceInitiatedShutdown: the VM stopped outside the API''"

text \<open>\<open>map[string]string{"running": db.StateRunning, "stopped": db.StateStopped}[status]\<close>\<close>

definition observed_state :: "string \<Rightarrow> inst_state option" where
  "observed_state status =
     (if status = ''running'' then Some StateRunning
      else if status = ''stopped'' then Some StateStopped else None)"

definition visible_vm :: "vm list \<Rightarrow> instance_row \<Rightarrow> (int \<times> vm) option" where
  "visible_vm vms i =
     (case i_vmid i of None \<Rightarrow> None | Some vmid \<Rightarrow> map_option (Pair vmid) (findVM vms vmid))"

text \<open>The listing trails by some seconds: a difference is believed only from the VM's own status.\<close>

definition observe_power :: "'h env \<Rightarrow> instance_row \<Rightarrow> int \<Rightarrow> string \<Rightarrow> ('h, inst_state option) cloud" where
  "observe_power E i vmid status =
     (let observed = observed_state status in
      if observed \<noteq> None \<and> observed \<noteq> Some (i_state i)
      then bindE (external (VMStatus (e_pve E) vmid)) (\<lambda>live. ret (observed_state live))
      else ret observed)"

definition record_observed :: "'h env \<Rightarrow> instance_row \<Rightarrow> inst_state \<Rightarrow> ('h, unit) cloud" where
  "record_observed E i st =
     (if st \<noteq> i_state i then
        seqE (db E (\<lambda>now. on_instances (ObserveState now (i_id i) (i_state i) st
               (if st = StateStopped then shutdown_reason else ''''))))
          wakeLedger
      else whenE (has_prefix (i_state_reason i) ''Server.VMMissing'')
             (db E (\<lambda>now. on_instances (NoteReason now (i_id i) ''''))))"

definition ensure_onboot :: "'h env \<Rightarrow> instance_row \<Rightarrow> int \<Rightarrow> ('h, unit) cloud" where
  "ensure_onboot E i vmid =
     (let on = i_state i = StateRunning in
      bindE (onbootKnown (i_id i) on) (\<lambda>known.
        whenE (\<not> known) (logged (setOnboot E (i_id i) vmid on))))"

definition reconcile_one :: "'h env \<Rightarrow> vm list \<Rightarrow> instance_row \<Rightarrow> ('h, unit) cloud" where
  "reconcile_one E vms i =
     (case visible_vm vms i of
        None \<Rightarrow> db E (\<lambda>now. on_instances (NoteReason now (i_id i) missingReason))
      | Some (vmid, vm) \<Rightarrow>
          bindE (observe_power E i vmid (vm_status vm)) (\<lambda>observed. case observed of
              None \<Rightarrow> ret ()
            | Some st \<Rightarrow> seqE (record_observed E i st) (whenE (st = i_state i) (ensure_onboot E i vmid))))"

text \<open>No instance visible at all, and more than one expected: nothing is believed.\<close>

definition blind :: "vm list \<Rightarrow> instance_row list \<Rightarrow> bool" where
  "blind vms instances \<longleftrightarrow>
     (let missing = length (filter (\<lambda>i. visible_vm vms i = None) instances) in
      missing = length instances \<and> missing > 1)"

definition Reconcile :: "'h env \<Rightarrow> ('h, unit) cloud" where
  "Reconcile E =
     bindE (db E (\<lambda>now. reading (\<lambda>d. Inr (SettledInstances now (d_instances d))))) (\<lambda>instances.
       if instances = [] then ret ()
       else bindE (list_vms E) (\<lambda>vms.
         if blind vms instances then ret () else for_eachE instances (reconcile_one E vms)))"

text \<open>\<open>RunReconciler\<close>: rounds until the context ends, here at most \<open>rounds\<close>; a failed one is only logged.\<close>

fun RunReconciler :: "nat \<Rightarrow> 'h env \<Rightarrow> ('h, unit) cloud" where
  "RunReconciler 0 E = ret ()"
| "RunReconciler (Suc rounds) E =
     seqE (logged (Reconcile E))
       (bindE (cancelled E) (\<lambda>stop. if stop then ret () else RunReconciler rounds E))"

section \<open>What it does to the ledger\<close>

definition settled_state :: "inst_state \<Rightarrow> bool" where
  "settled_state st \<longleftrightarrow> st = StateRunning \<or> st = StateStopped"

lemma observed_settled: "observed_state s = Some st \<Longrightarrow> settled_state st"
  by (auto simp: observed_state_def settled_state_def split: if_splits)

lemma SettledInstances_state: "i \<in> set (SettledInstances now t) \<Longrightarrow> settled_state (i_state i) \<and> i_pending i = None \<and> i \<in> set t"
  by (auto simp: SettledInstances_def settled_state_def)

lemma triple_observe_power:
  assumes "keeps I (external (VMStatus (e_pve E) vmid))"
  shows "triple I (observe_power E i vmid status) (\<lambda>x w. I w \<and> (\<forall>st. x = Some st \<longrightarrow> settled_state st)) I"
  unfolding observe_power_def Let_def
proof (intro triple_if)
  show "triple I (bindE (external (VMStatus (e_pve E) vmid)) (\<lambda>live. ret (observed_state live)))
      (\<lambda>x w. I w \<and> (\<forall>st. x = Some st \<longrightarrow> settled_state st)) I"
    by (rule triple_bindE [OF keeps_triple [THEN iffD1, OF assms]])
      (auto intro: triple_ret observed_settled)
qed (auto intro: triple_ret observed_settled)

lemma db_reads: "db E (\<lambda>now. reading (\<lambda>d. Inr (f now d))) w = (Inr x, w') \<Longrightarrow> \<exists>now d. x = f now d"
  by (auto simp: db_def sql_def Let_def reading_def split: if_splits)

text \<open>An invariant that every step the reconciler takes keeps is kept by the reconciler.\<close>

lemma keeps_Reconcile_steps:
  assumes noted: "\<And>k reason. keeps I (db E (\<lambda>now. on_instances (NoteReason now k reason)))"
    and observed: "\<And>k from to reason. settled_state from \<Longrightarrow> settled_state to \<Longrightarrow>
      keeps I (db E (\<lambda>now. on_instances (ObserveState now k from to reason)))"
    and status: "\<And>v. keeps I (external (VMStatus (e_pve E) v))"
    and vms: "keeps I (list_vms E)"
    and onboot: "\<And>k v on. keeps I (setOnboot E k v on)"
    and wake: "keeps I wakeLedger"
    and settled: "keeps I (db E (\<lambda>now. reading (\<lambda>d. Inr (SettledInstances now (d_instances d)))))"
  shows "keeps I (Reconcile E)"
proof -
  have one: "keeps I (reconcile_one E vs i)" if i: "settled_state (i_state i)" for vs i
  proof (cases "visible_vm vs i")
    case None
    then show ?thesis
      by (simp add: reconcile_one_def noted)
  next
    case (Some p)
    have st: "keeps I (seqE (record_observed E i st) (whenE (st = i_state i) (ensure_onboot E i v)))"
      if "settled_state st" for st v
      unfolding record_observed_def ensure_onboot_def onbootKnown_def logged_def Let_def
      using i that by (intro keeps_intros observed noted wake onboot)
    have "triple I (case x of None \<Rightarrow> ret () | Some st \<Rightarrow> seqE (record_observed E i st)
        (whenE (st = i_state i) (ensure_onboot E i v))) (\<lambda>_. I) I" if "\<forall>st. x = Some st \<longrightarrow> settled_state st" for x v
      using that st by (cases x) (auto simp: keeps_ret keeps_triple [symmetric])
    then have "triple (\<lambda>w. I w \<and> (\<forall>st. x = Some st \<longrightarrow> settled_state st))
        (case x of None \<Rightarrow> ret () | Some st \<Rightarrow> seqE (record_observed E i st)
          (whenE (st = i_state i) (ensure_onboot E i v))) (\<lambda>_. I) I" for x v
      by (auto simp: triple_def)
    with Some show ?thesis
      unfolding keeps_triple reconcile_one_def
      by (auto split: prod.split intro!: triple_bindE [OF triple_observe_power [OF status]])
  qed
  have read: "triple I (db E (\<lambda>now. reading (\<lambda>d. Inr (SettledInstances now (d_instances d)))))
      (\<lambda>is w. I w \<and> (\<forall>i \<in> set is. settled_state (i_state i))) I" (is "triple I ?read _ I")
    unfolding triple_def
  proof (intro allI impI)
    fix w assume "I w"
    moreover obtain r w' where run: "?read w = (r, w')" by fastforce
    ultimately have "I w'"
      using settled by (auto intro: keeps_result)
    then show "case ?read w of (Inl e, w') \<Rightarrow> I w' | (Inr is, w') \<Rightarrow> I w' \<and> (\<forall>i \<in> set is. settled_state (i_state i))"
      using run by (cases r) (auto dest!: db_reads SettledInstances_state)
  qed
  have rest: "keeps I (if is = [] then ret () else bindE (list_vms E) (\<lambda>vs.
      if blind vs is then ret () else for_eachE is (reconcile_one E vs)))"
    if "\<forall>i \<in> set is. settled_state (i_state i)" for "is"
    using that by (intro keeps_intros vms one) auto
  have "triple (\<lambda>w. I w \<and> (\<forall>i \<in> set is. settled_state (i_state i)))
      (if is = [] then ret () else bindE (list_vms E) (\<lambda>vs.
        if blind vs is then ret () else for_eachE is (reconcile_one E vs))) (\<lambda>_. I) I" for "is"
    using rest [of "is"] unfolding keeps_triple by (auto simp: triple_def)
  then show ?thesis
    unfolding Reconcile_def keeps_triple by (rule triple_bindE [OF read])
qed

context ledger_contract
begin

lemma keeps_Reconcile: "others_keep P E \<Longrightarrow> keeps (db_inv P) (Reconcile E)"
  by (rule keeps_Reconcile_steps)
    (simp_all add: keeps_intros keeps_db keeps_instances note_reason observe settled_state_def)

lemma keeps_RunReconciler: "others_keep P E \<Longrightarrow> keeps (db_inv P) (RunReconciler rounds E)"
  by (induction rounds) (simp_all add: keeps_intros keeps_Reconcile)

end

section \<open>The reconciler only observes\<close>

definition observed_row :: "instance_row \<Rightarrow> instance_row \<Rightarrow> bool" where
  "observed_row i j \<longleftrightarrow>
     (\<exists>st reason at. j = i\<lparr>i_state := st, i_state_reason := reason, i_updated_at := at\<rparr> \<and>
        (st = i_state i \<or> i_pending i = None \<and> settled_state (i_state i) \<and> settled_state st))"

definition only_observed :: "ledger \<Rightarrow> ledger \<Rightarrow> bool" where
  "only_observed d d' \<longleftrightarrow> (\<exists>t. d' = d\<lparr>d_instances := t\<rparr> \<and> list_all2 observed_row (d_instances d) t)"

definition onboot_call :: "event \<Rightarrow> bool" where
  "onboot_call ev \<longleftrightarrow> (\<exists>vmid on. ev = DidUpdateVMConfig vmid [(''onboot'', on)])"

definition only_onboot :: "event list \<Rightarrow> event list \<Rightarrow> bool" where
  "only_onboot l l' \<longleftrightarrow> (\<exists>evs. l' = evs @ l \<and> list_all onboot_call evs)"

lemma observed_row_refl: "observed_row i i"
  unfolding observed_row_def
  by (rule exI [of _ "i_state i"], rule exI [of _ "i_state_reason i"], rule exI [of _ "i_updated_at i"]) simp

lemma observed_row_state: "i_pending j = None \<Longrightarrow> settled_state (i_state j) \<Longrightarrow> settled_state st \<Longrightarrow>
    observed_row j (j\<lparr>i_state := st, i_state_reason := reason, i_updated_at := at\<rparr>)"
  unfolding observed_row_def by blast

lemma observed_row_reason: "observed_row j (j\<lparr>i_state_reason := reason, i_updated_at := at\<rparr>)"
  unfolding observed_row_def
  by (rule exI [of _ "i_state j"], rule exI [of _ reason], rule exI [of _ at]) simp

lemma observed_row_trans: "observed_row i j \<Longrightarrow> observed_row j k \<Longrightarrow> observed_row i k"
  unfolding observed_row_def by (elim exE) auto

lemma observed_update:
  assumes "list_all2 observed_row t u" and "\<And>j. c j \<Longrightarrow> observed_row j (f j)"
  shows "list_all2 observed_row t (update_where c f u)"
  using assms(1) unfolding update_where_def
  by (induction rule: list_all2_induct) (auto intro: observed_row_trans assms(2))

lemma onboot_Cons: "only_onboot l l' \<Longrightarrow> onboot_call ev \<Longrightarrow> only_onboot l (ev # l')"
  by (force simp: only_onboot_def)

definition observing :: "ledger \<Rightarrow> event list \<Rightarrow> 'h world \<Rightarrow> bool" where
  "observing d l w \<longleftrightarrow> only_observed d (w_db w) \<and> only_onboot l (w_log w)"

lemma keeps_observing_db:
  fixes E :: "'h env"
  assumes quiet: "\<And>n d. e_others E n d = d"
    and f: "\<And>now t u. list_all2 observed_row t u \<Longrightarrow> list_all2 observed_row t (snd (f now u))"
  shows "keeps (observing d l) (db E (\<lambda>now. on_instances (f now)))"
proof (rule keepsI)
  fix w :: "'h world" assume w: "observing d l w"
  then obtain t where t: "w_db w = d\<lparr>d_instances := t\<rparr>" "list_all2 observed_row (d_instances d) t"
    by (auto simp: observing_def only_observed_def)
  have "only_observed d (d\<lparr>d_instances := snd (f now t)\<rparr>)" for now
    using f [OF t(2)] by (auto simp: only_observed_def)
  with w t show "observing d l (snd (db E (\<lambda>now. on_instances (f now)) w))"
    by (auto simp: db_def sql_def interfere_def Let_def quiet observing_def on_instances_def split_beta)
qed

lemma keeps_observing:
  fixes f :: "('h, 'a) ext" and E :: "'h env"
  shows "keeps (observing d l) (external f)" "keeps (observing d l) (list_vms E)" "keeps (observing d l) wakeLedger"
  "keeps (observing d l) (setOnboot E k v on)"
proof -
  have ext: "observing d l w \<Longrightarrow> observing d l (w\<lparr>w_hv := h\<rparr>)" for w :: "'h world" and h
    by (simp add: observing_def)
  show 1: "keeps (observing d l) (external f)"
    by (rule keepsI) (simp add: external_def ext split: prod.split)
  show "keeps (observing d l) (list_vms E)"
    unfolding list_vms_def by (rule keepsI) (simp add: external_def ext split: prod.split)
  show "keeps (observing d l) wakeLedger"
    by (rule keepsI) (simp add: wakeLedger_def put_world_def observing_def)
  show "keeps (observing d l) (setOnboot E k v on)"
    unfolding setOnboot_def Let_def pve_do_def
    by (intro keeps_seqE keepsI)
      (simp_all add: external_def put_world_def log_event_def observing_def onboot_Cons onboot_call_def split: prod.split)
qed

lemma constrained_either: "P t \<Longrightarrow> P u \<Longrightarrow> P (snd (constrained t u r))"
  by (simp add: constrained_def)



section \<open>What a run records\<close>

definition reconciled :: "vm list \<Rightarrow> (int \<Rightarrow> string) \<Rightarrow> instance_row \<Rightarrow> inst_state \<times> string" where
  "reconciled vms status i =
     (case visible_vm vms i of
        None \<Rightarrow> (i_state i, missingReason)
      | Some (v, vm) \<Rightarrow>
          let listed = observed_state (vm_status vm);
              seen = (if listed \<noteq> None \<and> listed \<noteq> Some (i_state i) then observed_state (status v) else listed) in
          case seen of
            None \<Rightarrow> (i_state i, i_state_reason i)
          | Some st \<Rightarrow>
              if st \<noteq> i_state i then (st, if st = StateStopped then shutdown_reason else '''')
              else (i_state i, if has_prefix (i_state_reason i) ''Server.VMMissing'' then '''' else i_state_reason i))"

definition power_of :: "instance_row \<Rightarrow> inst_state \<times> string" where
  "power_of i = (i_state i, i_state_reason i)"

text \<open>The rows of a table after those named in \<open>seen\<close> were reconciled.\<close>

definition partly_reconciled ::
    "(instance_row \<Rightarrow> inst_state \<times> string) \<Rightarrow> string set \<Rightarrow> inst_table \<Rightarrow> inst_table \<Rightarrow> bool" where
  "partly_reconciled f seen t u \<longleftrightarrow>
     list_all2 (\<lambda>i j. inst_key j = inst_key i \<and> i_pending j = i_pending i \<and>
       power_of j = (if i_id i \<in> seen then f i else power_of i)) t u"

lemma partly_reconciled_ids: "partly_reconciled f seen t u \<Longrightarrow> map inst_key u = map inst_key t"
  by (auto simp: partly_reconciled_def list_all2_conv_all_nth intro!: nth_equalityI)

lemma reconcile_row:
  assumes part: "partly_reconciled f seen t u" and t: "inst_constraints t" "x \<in> set t" and x: "i_id x \<notin> seen"
    and one: "\<And>j. c j \<Longrightarrow> i_id j = i_id x"
    and keep: "\<And>j. c j \<Longrightarrow> live j \<Longrightarrow> live (g j)"
      "\<And>j. inst_key (g j) = (i_id j, i_account j, i_client_token j, i_vmid j, live (g j), row_size_ok j)"
      "\<And>j. i_pending (g j) = i_pending j"
    and new: "\<And>j. i_id j = i_id x \<Longrightarrow> power_of j = power_of x \<Longrightarrow> i_pending j = i_pending x \<Longrightarrow>
      power_of (if c j then g j else j) = f x \<and> live j"
  shows "\<exists>u'. constrained u (update_where c g u) (Inr ()) = (Inr (), u') \<and> partly_reconciled f (insert (i_id x) seen) t u'"
proof -
  have ids: "distinct (map i_id t)"
    using t by (simp add: inst_constraints_def)
  have step: "inst_key (if c j then g j else j) = inst_key i \<and> i_pending (if c j then g j else j) = i_pending i \<and>
      power_of (if c j then g j else j) = (if i_id i \<in> insert (i_id x) seen then f i else power_of i)"
    if i: "i \<in> set t" and ij: "inst_key j = inst_key i \<and> i_pending j = i_pending i \<and>
      power_of j = (if i_id i \<in> seen then f i else power_of i)" for i j
  proof (cases "i_id i = i_id x")
    case True
    then have "i = x"
      using ids i t(2) by (auto simp: distinct_map dest: inj_onD)
    with ij x new [of j] keep(1,2) [of j] keep(3) [of j] show ?thesis
      by (auto simp: inst_key_def)
  next
    case False
    then have "\<not> c j"
      using one [of j] ij by (auto simp: inst_key_def)
    with ij False show ?thesis
      by auto
  qed
  have part': "partly_reconciled f (insert (i_id x) seen) t (update_where c g u)"
    using part step by (auto simp: partly_reconciled_def update_where_def list_all2_conv_all_nth)
  then have "inst_constraints (update_where c g u)"
    using t(1) inst_constraints_key [OF partly_reconciled_ids] by blast
  with part' show ?thesis
    by (simp add: constrained_def)
qed

lemma triple_db_alone:
  fixes E :: "'h env"
  assumes "\<And>n d. e_others E n d = d" and "\<And>n. \<not> e_db_down E n"
    and "\<And>now u. P u \<Longrightarrow> \<exists>u'. f now u = (Inr (), u') \<and> Q u'"
  shows "triple (\<lambda>w. P (d_instances (w_db w))) (db E (\<lambda>now. on_instances (f now))) (\<lambda>_ w. Q (d_instances (w_db w))) F"
  unfolding triple_def
proof (intro allI impI)
  fix w :: "'h world" assume "P (d_instances (w_db w))"
  from assms(3) [OF this, of "e_now E (Suc (w_tick w))"]
  show "case db E (\<lambda>now. on_instances (f now)) w of (Inl e, w') \<Rightarrow> F w' | (Inr x, w') \<Rightarrow> Q (d_instances (w_db w'))"
    using assms(1,2) by (auto simp: db_def sql_def interfere_def on_instances_def Let_def)
qed


text \<open>A deployment that answers: no other requests, the database up, Proxmox reporting these VMs and states.\<close>

definition reports :: "'h env \<Rightarrow> vm list \<Rightarrow> (int \<Rightarrow> string) \<Rightarrow> bool" where
  "reports E vms status \<longleftrightarrow>
     (\<forall>n d. e_others E n d = d) \<and> (\<forall>n. \<not> e_db_down E n) \<and>
     (\<forall>h. fst (ListVMs (e_pve E) h) = Inr vms) \<and> (\<forall>v h. fst (VMStatus (e_pve E) v h) = Inr (status v))"

definition at_part :: "(inst_table \<Rightarrow> bool) \<Rightarrow> 'h world \<Rightarrow> bool" where
  "at_part Q w \<longleftrightarrow> Q (d_instances (w_db w))"

lemma triple_ensure_onboot: "triple (at_part Q) (ensure_onboot E i v) (\<lambda>_. at_part Q) (\<lambda>_. False)"
  by (auto simp: triple_def ensure_onboot_def onbootKnown_def prog_defs logged_def setOnboot_def pve_do_def log_event_def
      external_def at_part_def Let_def split: prod.split sum.split)

lemma triple_observe:
  assumes "reports E vms status"
  shows "triple (at_part Q) (observe_power E i v listed)
    (\<lambda>x w. at_part Q w \<and> x = (if observed_state listed \<noteq> None \<and> observed_state listed \<noteq> Some (i_state i)
       then observed_state (status v) else observed_state listed)) (\<lambda>_. False)"
proof -
  have "triple (at_part Q) (external (VMStatus (e_pve E) v)) (\<lambda>s w. at_part Q w \<and> s = status v) (\<lambda>_. False)"
  proof (rule triple_external)
    fix w :: "'a world" assume "at_part Q w"
    moreover have "fst (VMStatus (e_pve E) v (w_hv w)) = Inr (status v)"
      using assms by (simp add: reports_def)
    ultimately show "case VMStatus (e_pve E) v (w_hv w) of (Inl e, h) \<Rightarrow> False
        | (Inr x, h) \<Rightarrow> at_part Q (w\<lparr>w_hv := h\<rparr>) \<and> x = status v"
      by (cases "VMStatus (e_pve E) v (w_hv w)") (simp add: at_part_def)
  qed
  then show ?thesis
    unfolding observe_power_def Let_def
    by (intro triple_if) (erule triple_bindE, auto intro!: triple_ret)
qed

lemma triple_reconcile_one:
  assumes rep: "reports E vms status" and t: "inst_constraints t" "x \<in> set t" and x: "i_id x \<notin> seen"
    and settled: "settled_state (i_state x)" "i_pending x = None"
  shows "triple (at_part (partly_reconciled (reconciled vms status) seen t)) (reconcile_one E vms x)
    (\<lambda>_. at_part (partly_reconciled (reconciled vms status) (insert (i_id x) seen) t)) (\<lambda>_. False)"
    (is "triple (at_part (?part seen)) _ (\<lambda>_. at_part (?part ?next)) _")
proof -
  have live: "power_of j = power_of x \<Longrightarrow> live j" for j
    using settled by (auto simp: power_of_def settled_state_def live_def)
  have note': "triple (at_part (?part seen)) (db E (\<lambda>now. on_instances (NoteReason now (i_id x) reason)))
      (\<lambda>_. at_part (?part ?next)) (\<lambda>_. False)"
    if "reconciled vms status x = (i_state x, reason)" for reason
    unfolding at_part_def
    by (rule triple_db_alone) (use rep in \<open>auto simp: reports_def NoteReason_def power_of_def inst_key_simps by_id_def that
        settled dest: live intro!: reconcile_row t x\<close>)
  have observe': "triple (at_part (?part seen)) (db E (\<lambda>now. on_instances (ObserveState now (i_id x) (i_state x) st reason)))
      (\<lambda>_. at_part (?part ?next)) (\<lambda>_. False)"
    if "reconciled vms status x = (st, reason)" "settled_state st" for st reason
    unfolding at_part_def
    by (rule triple_db_alone) (use rep that in \<open>auto simp: reports_def ObserveState_def power_of_def inst_key_simps by_id_def
        settled_state_def settled dest: live intro!: reconcile_row t x\<close>)
  have same: "?part ?next u" if "?part seen u" "reconciled vms status x = power_of x" for u
  proof -
    have "distinct (map i_id t)"
      using t by (simp add: inst_constraints_def)
    then show ?thesis
      using that t(2) x by (auto simp: partly_reconciled_def list_all2_conv_all_nth distinct_conv_nth in_set_conv_nth)
        (metis (no_types, lifting) nth_mem)+
  qed
  have believed: "triple (at_part (?part seen)) (seqE (record_observed E x st) (whenE (st = i_state x) (ensure_onboot E x v)))
      (\<lambda>_. at_part (?part ?next)) (\<lambda>_. False)"
    if "reconciled vms status x = (if st \<noteq> i_state x then (st, if st = StateStopped then shutdown_reason else '''')
        else (i_state x, if has_prefix (i_state_reason x) ''Server.VMMissing'' then '''' else i_state_reason x))"
      "settled_state st" for st v
  proof -
    have "triple (at_part (?part seen)) (record_observed E x st) (\<lambda>_. at_part (?part ?next)) (\<lambda>_. False)"
    proof (cases "st = i_state x")
      case True
      then show ?thesis
        using that note' [of "''''"] same
        by (auto simp: record_observed_def power_of_def at_part_def intro!: triple_whenE)
    next
      case False
      moreover have "triple (at_part (?part ?next)) wakeLedger (\<lambda>_. at_part (?part ?next)) (\<lambda>_. False)"
        unfolding wakeLedger_def by (rule triple_put_world) (simp add: at_part_def)
      ultimately show ?thesis
        using that observe' by (auto simp: record_observed_def intro!: triple_seqE [where R = "at_part (?part ?next)"])
    qed
    then show ?thesis
      by (rule triple_seqE) (auto intro!: triple_whenE triple_ensure_onboot)
  qed
  show ?thesis
  proof (cases "visible_vm vms x")
    case None
    then have "reconciled vms status x = (i_state x, missingReason)"
      by (simp add: reconciled_def)
    from note' [OF this] None show ?thesis
      by (simp add: reconcile_one_def)
  next
    case (Some p)
    obtain v m where p: "p = (v, m)" by fastforce
    let ?seen = "if observed_state (vm_status m) \<noteq> None \<and> observed_state (vm_status m) \<noteq> Some (i_state x)
      then observed_state (status v) else observed_state (vm_status m)"
    have "triple (at_part (?part seen)) (case ?seen of None \<Rightarrow> ret ()
        | Some st \<Rightarrow> seqE (record_observed E x st) (whenE (st = i_state x) (ensure_onboot E x v)))
        (\<lambda>_. at_part (?part ?next)) (\<lambda>_. False)"
    proof (cases ?seen)
      case None
      then show ?thesis
        using Some p same by (auto simp: reconciled_def power_of_def at_part_def intro!: triple_ret)
    next
      case (Some st)
      then show ?thesis
        using \<open>visible_vm vms x = Some p\<close> p believed [of st]
        by (auto simp: reconciled_def Let_def observed_settled split: if_splits)
    qed
    then have "triple (\<lambda>w. at_part (?part seen) w \<and> y = ?seen) (case y of None \<Rightarrow> ret ()
        | Some st \<Rightarrow> seqE (record_observed E x st) (whenE (st = i_state x) (ensure_onboot E x v)))
        (\<lambda>_. at_part (?part ?next)) (\<lambda>_. False)" for y
      by (auto simp: triple_def)
    then show ?thesis
      unfolding reconcile_one_def Some p option.case prod.case
      by (rule triple_bindE [OF triple_observe [OF rep]])
  qed
qed



definition down_row :: instance_row where
  "down_row = (example_row ''i-1'')\<lparr>i_state := StateRunning, i_pending := None, i_vmid := Some 5002, i_vm_created := True\<rparr>"

definition down_world :: "unit world" where
  "down_world = start_world () (empty_ledger\<lparr>d_instances := [down_row]\<rparr>)"

definition down_vm :: vm where
  "down_vm = \<lparr>vm_id = 5002, vm_name = ''web'', vm_status = ''stopped'', vm_pool = ''cloud'', vm_node = ''pve1''\<rparr>"

definition down_env :: "unit env" where
  "down_env = quiet_env (offline_pve\<lparr>ListVMs := (\<lambda>h. (Inr [down_vm], h)),
     VMStatus := (\<lambda>_ h. (Inr ''stopped'', h))\<rparr>) offline_ipam"

lemma down_settled: "SettledInstances now [down_row] = [down_row]"
  by (simp add: SettledInstances_def down_row_def example_row_def lease_free_def)

lemma down_constraints: "inst_constraints [down_row]"
  by (simp add: inst_constraints_def down_row_def example_row_def live_vmids_def client_tokens_def live_def
      row_size_ok_def db_size_ok_def int4_def map_filter_simps)

lemma down_reconciled: "reconciled [down_vm] (\<lambda>_. ''stopped'') down_row = (StateStopped, shutdown_reason)"
  by (simp add: reconciled_def visible_vm_def findVM_def down_row_def down_vm_def example_row_def observed_state_def)



end
