(* ===== verification/Account_Ledger.thy ===== *)
theory Account_Ledger
  imports Media_Ledger
begin

text \<open>
  \<open>api/internal/db/accounts.go\<close>, \<open>keys.go\<close> and \<open>sessions.go\<close>: accounts, access keys, sessions and
  logins in flight. One definition per SQL statement, with the constraints of migrations 0001 and
  0012. \<open>lower\<close> is PostgreSQL's \<open>lower(text)\<close>, which depends on the database's collation.
\<close>

definition on_tenants :: "(tenants \<Rightarrow> 'a res \<times> tenants) \<Rightarrow> 'a stmt" where
  "on_tenants f d = (case f (d_tenants d) of (r, t) \<Rightarrow> (r, d\<lparr>d_tenants := t\<rparr>))"

definition violation :: "string \<Rightarrow> err" where
  "violation constraint = Failed (''constraint violation: '' @ constraint)"

section \<open>Accounts\<close>

definition KindUser :: string where "KindUser = ''user''"
definition KindBootstrap :: string where "KindBootstrap = ''bootstrap''"

definition ErrEmailConflict :: err where
  "ErrEmailConflict = Failed ''the email address already belongs to another account''"

definition account_id_ok :: "string \<Rightarrow> bool" where
  "account_id_ok k \<longleftrightarrow> length k = 12 \<and> list_all (\<lambda>c. c \<in> set ''0123456789'') k"

text \<open>The unique index \<open>accounts_user_email\<close>, as it bears on the row \<open>a\<close>.\<close>

definition email_taken :: "(string \<Rightarrow> string) \<Rightarrow> account \<Rightarrow> account list \<Rightarrow> bool" where
  "email_taken lower a accounts \<longleftrightarrow> ac_kind a = KindUser \<and> ac_email a \<noteq> '''' \<and>
     (\<exists>b \<in> set accounts. ac_id b \<noteq> ac_id a \<and> ac_kind b = KindUser \<and> ac_email b \<noteq> '''' \<and>
        lower (ac_email b) = lower (ac_email a))"

definition account_constraints :: "(string \<Rightarrow> string) \<Rightarrow> account list \<Rightarrow> bool" where
  "account_constraints lower accounts \<longleftrightarrow>
     distinct (map ac_id accounts) \<and>
     distinct (List.map_filter ac_subject accounts) \<and>
     length (filter (\<lambda>a. ac_kind a = KindBootstrap) accounts) \<le> 1 \<and>
     (\<forall>a \<in> set accounts. \<not> email_taken lower a accounts \<and> (ac_kind a = KindUser \<longleftrightarrow> ac_subject a \<noteq> None))"

definition GetAccount :: "string \<Rightarrow> ledger \<Rightarrow> account res" where
  "GetAccount k d = select_one (\<lambda>a. ac_id a = k) (t_accounts (d_tenants d))"

definition logged_in :: "int \<Rightarrow> string \<Rightarrow> string \<Rightarrow> bool \<Rightarrow> account \<Rightarrow> account" where
  "logged_in now username email admin a =
     a\<lparr>ac_username := username, ac_email := email, ac_is_admin := admin, ac_last_login_at := Some now\<rparr>"

text \<open>The \<open>UPDATE\<close> of \<open>RecordLogin\<close>.\<close>

definition update_login ::
    "(string \<Rightarrow> string) \<Rightarrow> int \<Rightarrow> string \<Rightarrow> string \<Rightarrow> string \<Rightarrow> bool \<Rightarrow> tenants \<Rightarrow> account res \<times> tenants" where
  "update_login lower now subject username email admin t =
     (case select_one (\<lambda>a. ac_subject a = Some subject) (t_accounts t) of
        Inl e \<Rightarrow> (Inl e, t)
      | Inr a \<Rightarrow>
          let a' = logged_in now username email admin a in
          if email_taken lower a' (t_accounts t) then (Inl ErrEmailConflict, t)
          else (Inr a', t\<lparr>t_accounts := update_where (\<lambda>b. ac_subject b = Some subject)
                  (logged_in now username email admin) (t_accounts t)\<rparr>))"

text \<open>
  Its \<open>INSERT ... ON CONFLICT (id) DO NOTHING\<close>: a taken ID answers with no row before any other
  index is looked at.
\<close>

definition insert_login ::
    "(string \<Rightarrow> string) \<Rightarrow> int \<Rightarrow> string \<Rightarrow> string \<Rightarrow> string \<Rightarrow> string \<Rightarrow> bool \<Rightarrow> tenants \<Rightarrow> account res \<times> tenants" where
  "insert_login lower now k subject username email admin t =
     (let a = \<lparr>ac_id = k, ac_kind = KindUser, ac_subject = Some subject, ac_username = username,
               ac_email = email, ac_is_admin = admin, ac_created_at = now, ac_last_login_at = Some now\<rparr> in
      if \<exists>b \<in> set (t_accounts t). ac_id b = k then (Inl NotFound, t)
      else if \<not> account_id_ok k then (Inl (violation ''accounts_id_check''), t)
      else if \<exists>b \<in> set (t_accounts t). ac_subject b = Some subject then (Inl (violation ''accounts_subject_key''), t)
      else if email_taken lower a (t_accounts t) then (Inl ErrEmailConflict, t)
      else (Inr a, t\<lparr>t_accounts := t_accounts t @ [a]\<rparr>))"

definition BootstrapAccount :: "ledger \<Rightarrow> account res" where
  "BootstrapAccount d = select_one (\<lambda>a. ac_kind a = KindBootstrap) (t_accounts (d_tenants d))"

text \<open>The \<open>INSERT\<close> of \<open>EnsureBootstrapAccount\<close>; any conflict does nothing.\<close>

definition insert_bootstrap :: "int \<Rightarrow> string \<Rightarrow> tenants \<Rightarrow> unit res \<times> tenants" where
  "insert_bootstrap now k t =
     (let a = \<lparr>ac_id = k, ac_kind = KindBootstrap, ac_subject = None, ac_username = ''bootstrap-admin'',
               ac_email = '''', ac_is_admin = True, ac_created_at = now, ac_last_login_at = None\<rparr> in
      if \<not> account_id_ok k then (Inl (violation ''accounts_id_check''), t)
      else if \<exists>b \<in> set (t_accounts t). ac_id b = k \<or> ac_kind b = KindBootstrap then (Inr (), t)
      else (Inr (), t\<lparr>t_accounts := t_accounts t @ [a]\<rparr>))"

definition LockAccount :: "string \<Rightarrow> ledger \<Rightarrow> unit res" where
  "LockAccount k d = (case GetAccount k d of Inl e \<Rightarrow> Inl e | Inr _ \<Rightarrow> Inr ())"

section \<open>Access keys\<close>

datatype key_status = KeyActive | KeyInactive | KeyExpired

definition KeyScopeReadOnly :: string where "KeyScopeReadOnly = ''ReadOnly''"
definition KeyScopeReadWrite :: string where "KeyScopeReadWrite = ''ReadWrite''"

definition Status :: "access_key \<Rightarrow> int \<Rightarrow> key_status" where
  "Status k now =
     (if ak_revoked_at k \<noteq> None then KeyInactive
      else case ak_expires_at k of
          Some at \<Rightarrow> if \<not> now < at then KeyExpired else KeyActive
        | None \<Rightarrow> KeyActive)"

definition has_account :: "string \<Rightarrow> tenants \<Rightarrow> bool" where
  "has_account k t \<longleftrightarrow> (\<exists>a \<in> set (t_accounts t). ac_id a = k)"

definition key_char :: "char \<Rightarrow> bool" where
  "key_char c \<longleftrightarrow> c \<in> set ''abcdefghijklmnopqrstuvwxyz234567''"

definition key_id_ok :: "string \<Rightarrow> bool" where
  "key_id_ok k \<longleftrightarrow> length k = 20 \<and> list_all key_char k"

definition InsertAccessKey ::
    "int \<Rightarrow> string \<Rightarrow> string \<Rightarrow> nat list \<Rightarrow> string \<Rightarrow> string \<Rightarrow> int option \<Rightarrow> tenants \<Rightarrow> access_key res \<times> tenants" where
  "InsertAccessKey now acct k hash description scope expires t =
     (let row = \<lparr>ak_id = k, ak_account = acct, ak_secret = hash, ak_description = description, ak_scope = scope,
                 ak_created_at = now, ak_expires_at = expires, ak_revoked_at = None, ak_last_used_at = None\<rparr> in
      if \<not> key_id_ok k \<or> length hash \<noteq> 32 \<or> scope \<notin> {KeyScopeReadOnly, KeyScopeReadWrite} \<or>
         \<not> has_account acct t \<or> (\<exists>b \<in> set (t_keys t). ak_id b = k)
      then (Inl (violation ''access_keys''), t)
      else (Inr row, t\<lparr>t_keys := t_keys t @ [row]\<rparr>))"

text \<open>\<open>LookupAccessKey\<close>: the key, with its stored hash, joined with its account.\<close>

definition LookupAccessKey :: "string \<Rightarrow> ledger \<Rightarrow> (access_key \<times> account) res" where
  "LookupAccessKey k d =
     (case select_one (\<lambda>b. ak_id b = k) (t_keys (d_tenants d)) of
        Inl e \<Rightarrow> Inl e
      | Inr key \<Rightarrow> (case GetAccount (ak_account key) d of Inl e \<Rightarrow> Inl e | Inr a \<Rightarrow> Inr (key, a)))"

definition one_minute :: int where "one_minute = 60 * 10 ^ 9"

definition TouchAccessKey :: "int \<Rightarrow> string \<Rightarrow> tenants \<Rightarrow> unit res \<times> tenants" where
  "TouchAccessKey now k t =
     (Inr (), t\<lparr>t_keys := update_where
        (\<lambda>b. ak_id b = k \<and> (case ak_last_used_at b of None \<Rightarrow> True | Some at \<Rightarrow> at < now - one_minute))
        (\<lambda>b. b\<lparr>ak_last_used_at := Some now\<rparr>) (t_keys t)\<rparr>)"

definition ListAccessKeys :: "string \<Rightarrow> tenants \<Rightarrow> access_key list" where
  "ListAccessKeys acct t = sort_key ak_created_at (sort_key ak_id
     (filter (\<lambda>b. ak_account b = acct \<and> ak_revoked_at b = None) (t_keys t)))"

definition key_active :: "int \<Rightarrow> string \<Rightarrow> access_key \<Rightarrow> bool" where
  "key_active now acct b \<longleftrightarrow> ak_account b = acct \<and> ak_revoked_at b = None \<and>
     (case ak_expires_at b of None \<Rightarrow> True | Some at \<Rightarrow> at > now)"

definition CountActiveAccessKeys :: "int \<Rightarrow> string \<Rightarrow> tenants \<Rightarrow> int" where
  "CountActiveAccessKeys now acct t = int (length (filter (key_active now acct) (t_keys t)))"

definition revoke :: "int \<Rightarrow> access_key \<Rightarrow> access_key" where
  "revoke now b = b\<lparr>ak_revoked_at := Some now\<rparr>"

definition RevokeAccessKey :: "int \<Rightarrow> string \<Rightarrow> tenants \<Rightarrow> access_key res \<times> tenants" where
  "RevokeAccessKey now k t =
     (case select_one (\<lambda>b. ak_id b = k \<and> ak_revoked_at b = None) (t_keys t) of
        Inl e \<Rightarrow> (Inl e, t)
      | Inr b \<Rightarrow> (Inr (revoke now b),
          t\<lparr>t_keys := update_where (\<lambda>b. ak_id b = k \<and> ak_revoked_at b = None) (revoke now) (t_keys t)\<rparr>))"

definition RevokeAccountKeysExcept :: "int \<Rightarrow> string \<Rightarrow> string \<Rightarrow> tenants \<Rightarrow> string list res \<times> tenants" where
  "RevokeAccountKeysExcept now acct keep t =
     (let c = (\<lambda>b. ak_account b = acct \<and> ak_id b \<noteq> keep \<and> ak_revoked_at b = None) in
      (Inr (map ak_id (filter c (t_keys t))), t\<lparr>t_keys := update_where c (revoke now) (t_keys t)\<rparr>))"

section \<open>Sessions and logins in flight\<close>

definition CreateSession :: "string \<Rightarrow> nat list \<Rightarrow> int \<Rightarrow> tenants \<Rightarrow> unit res \<times> tenants" where
  "CreateSession acct token expires t =
     (if length token \<noteq> 32 \<or> \<not> has_account acct t \<or> (\<exists>s \<in> set (t_sessions t). se_token s = token)
      then (Inl (violation ''sessions''), t)
      else (Inr (), t\<lparr>t_sessions := t_sessions t @ [\<lparr>se_token = token, se_account = acct, se_expires_at = expires\<rparr>]\<rparr>))"

definition LookupSession :: "int \<Rightarrow> nat list \<Rightarrow> ledger \<Rightarrow> account res" where
  "LookupSession now token d =
     (case select_one (\<lambda>s. se_token s = token \<and> se_expires_at s > now) (t_sessions (d_tenants d)) of
        Inl e \<Rightarrow> Inl e
      | Inr s \<Rightarrow> GetAccount (se_account s) d)"

definition DeleteSession :: "nat list \<Rightarrow> tenants \<Rightarrow> unit res \<times> tenants" where
  "DeleteSession token t = (Inr (), t\<lparr>t_sessions := filter (\<lambda>s. se_token s \<noteq> token) (t_sessions t)\<rparr>)"

definition CreateLoginAttempt :: "nat list \<Rightarrow> string \<Rightarrow> string \<Rightarrow> int \<Rightarrow> tenants \<Rightarrow> unit res \<times> tenants" where
  "CreateLoginAttempt state nonce verifier expires t =
     (if length state \<noteq> 32 \<or> (\<exists>l \<in> set (t_logins t). la_state l = state) then (Inl (violation ''login_attempts''), t)
      else (Inr (), t\<lparr>t_logins := t_logins t @
        [\<lparr>la_state = state, la_nonce = nonce, la_verifier = verifier, la_expires_at = expires\<rparr>]\<rparr>))"

definition TakeLoginAttempt :: "int \<Rightarrow> nat list \<Rightarrow> tenants \<Rightarrow> (string \<times> string) res \<times> tenants" where
  "TakeLoginAttempt now state t =
     (case select_one (\<lambda>l. la_state l = state \<and> la_expires_at l > now) (t_logins t) of
        Inl e \<Rightarrow> (Inl e, t)
      | Inr l \<Rightarrow> (Inr (la_nonce l, la_verifier l),
          t\<lparr>t_logins := filter (\<lambda>l. \<not> (la_state l = state \<and> la_expires_at l > now)) (t_logins t)\<rparr>))"

text \<open>The two statements of \<open>DeleteExpired\<close>.\<close>

definition delete_expired_sessions :: "int \<Rightarrow> tenants \<Rightarrow> unit res \<times> tenants" where
  "delete_expired_sessions now t = (Inr (), t\<lparr>t_sessions := filter (\<lambda>s. \<not> se_expires_at s \<le> now) (t_sessions t)\<rparr>)"

definition delete_expired_logins :: "int \<Rightarrow> tenants \<Rightarrow> unit res \<times> tenants" where
  "delete_expired_logins now t = (Inr (), t\<lparr>t_logins := filter (\<lambda>l. \<not> la_expires_at l \<le> now) (t_logins t)\<rparr>)"

lemma leaves_machines_tenants: "leaves_machines (on_tenants f)"
  by (simp add: leaves_machines_def on_tenants_def split: prod.split)

end
