(* ===== verification/Access_Key.thy ===== *)
theory Access_Key
  imports Account_Ledger
begin

text \<open>
  \<open>api/internal/accesskey\<close>: the bearer credentials \<open>sca_<id>.<secret>\<close>, their random parts in base32
  and base64, and the one format \<open>Parse\<close> accepts. SHA-256 is the parameter \<open>sha\<close>.
\<close>

section \<open>Encodings\<close>

text \<open>\<open>encoding/base32\<close> and \<open>encoding/base64\<close> without padding: the bits in groups, the last one filled up.\<close>

definition byte_bits :: "nat \<Rightarrow> bool list" where
  "byte_bits b = map (\<lambda>i. odd (b div 2 ^ (7 - i))) [0..<8]"

definition bits_value :: "bool list \<Rightarrow> nat" where
  "bits_value bs = foldl (\<lambda>v b. 2 * v + (if b then 1 else 0)) 0 bs"

function groups_of :: "nat \<Rightarrow> 'a list \<Rightarrow> 'a list list" where
  "groups_of n xs = (if n = 0 \<or> xs = [] then [] else take n xs # groups_of n (drop n xs))"
  by pat_completeness auto
termination by (relation "measure (\<lambda>(n, xs). length xs)") auto

declare groups_of.simps [simp del]

definition encode_bits :: "nat \<Rightarrow> string \<Rightarrow> nat list \<Rightarrow> string" where
  "encode_bits n alphabet bytes =
     map (\<lambda>g. alphabet ! bits_value (take n (g @ replicate n False))) (groups_of n (concat (map byte_bits bytes)))"

definition id_alphabet :: string where
  "id_alphabet = ''abcdefghijklmnopqrstuvwxyz234567''"

definition url_alphabet :: string where
  "url_alphabet = ''ABCDEFGHIJKLMNOPQRSTUVWXYZabcdefghijklmnopqrstuvwxyz0123456789-_''"

definition raw_url_base64 :: "nat list \<Rightarrow> string" where
  "raw_url_base64 = encode_bits 6 url_alphabet"

section \<open>Tokens\<close>

definition token_prefix :: string where "token_prefix = ''sca_''"
definition ErrMalformed :: err where "ErrMalformed = Failed ''malformed access key''"

record token =
  tk_id :: string
  tk_secret :: string

text \<open>\<open>New\<close>, from the 12 and the 32 random bytes.\<close>

definition New :: "nat list \<Rightarrow> nat list \<Rightarrow> token" where
  "New key secret = \<lparr>tk_id = encode_bits 5 id_alphabet key, tk_secret = raw_url_base64 secret\<rparr>"

definition secret_ok :: "string \<Rightarrow> bool" where
  "secret_ok s \<longleftrightarrow> length s = 43 \<and> list_all (\<lambda>c. c \<in> set url_alphabet) s"

text \<open>
  \<open>tokenPattern\<close>: the prefix, 20 characters of the identifier, a dot, 43 characters of the secret, and
  nothing else.
\<close>

definition Parse :: "string \<Rightarrow> token res" where
  "Parse s =
     (let k = take 20 (drop 4 s); secret = drop 25 s in
      if take 4 s = token_prefix \<and> key_id_ok k \<and> take 1 (drop 24 s) = ''.'' \<and> secret_ok secret
      then Inr \<lparr>tk_id = k, tk_secret = secret\<rparr> else Inl ErrMalformed)"

definition ValidID :: "string \<Rightarrow> bool" where
  "ValidID k = key_id_ok k"

definition token_string :: "token \<Rightarrow> string" where
  "token_string t = token_prefix @ tk_id t @ ''.'' @ tk_secret t"

definition Hash :: "(string \<Rightarrow> nat list) \<Rightarrow> token \<Rightarrow> nat list" where
  "Hash sha t = sha (tk_secret t)"

definition Matches :: "(string \<Rightarrow> nat list) \<Rightarrow> token \<Rightarrow> nat list \<Rightarrow> bool" where
  "Matches sha t stored \<longleftrightarrow> Hash sha t = stored"

section \<open>What an encoding is made of\<close>

lemma bits_value_less: "bits_value bs < 2 ^ length bs"
proof (induction bs rule: rev_induct)
  case (snoc b bs)
  then show ?case
    by (simp add: bits_value_def)
qed (simp add: bits_value_def)

lemma length_groups_of: "0 < n \<Longrightarrow> length (groups_of n xs) = (length xs + n - 1) div n"
proof (induction n xs rule: groups_of.induct)
  case (1 n xs)
  show ?case
  proof (cases "xs = []")
    case False
    then have "length (groups_of n xs) = Suc ((length xs - n + n - 1) div n)"
      using 1 by (subst groups_of.simps) simp
    also have "\<dots> = (length xs + n - 1) div n"
    proof (cases "n \<le> length xs")
      case True
      then have "length xs + n - 1 = length xs - 1 + n" "length xs - n + n - 1 = length xs - 1"
        using 1(2) by auto
      then show ?thesis
        using 1(2) by (simp only: div_add_self2)
    next
      case small: False
      have "(length xs + n - 1) div n = 1"
        using small False 1(2) by (intro div_nat_eqI) (cases xs; auto)+
      moreover have "(n - 1) div n = 0"
        using 1(2) by simp
      ultimately show ?thesis
        using small by simp
    qed
    finally show ?thesis .
  qed (simp add: groups_of.simps 1(2))
qed

lemma length_encode_bits: "0 < n \<Longrightarrow> length (encode_bits n alphabet bytes) = (8 * length bytes + n - 1) div n"
  by (simp add: encode_bits_def length_groups_of length_concat byte_bits_def comp_def sum_list_triv mult.commute)

lemma set_encode_bits: "length alphabet = 2 ^ n \<Longrightarrow> c \<in> set (encode_bits n alphabet bytes) \<Longrightarrow> c \<in> set alphabet"
proof -
  assume n: "length alphabet = 2 ^ n" and "c \<in> set (encode_bits n alphabet bytes)"
  then obtain g where c: "c = alphabet ! bits_value (take n (g @ replicate n False))"
    by (auto simp: encode_bits_def)
  have "bits_value (take n (g @ replicate n False)) < length alphabet"
    using bits_value_less [of "take n (g @ replicate n False)"] n by (simp add: min_def split: if_splits)
  then show ?thesis
    unfolding c by (rule nth_mem)
qed

lemma encode_bits_in:
  "length alphabet = 2 ^ n \<Longrightarrow> list_all (\<lambda>c. c \<in> set alphabet) (encode_bits n alphabet bytes)"
  by (auto simp: list_all_iff intro: set_encode_bits)

section \<open>The format\<close>

definition token_ok :: "token \<Rightarrow> bool" where
  "token_ok t \<longleftrightarrow> key_id_ok (tk_id t) \<and> secret_ok (tk_secret t)"

lemma parse_token: "Parse s = Inr t \<longleftrightarrow> s = token_string t \<and> token_ok t"
proof
  assume p: "Parse s = Inr t"
  then have t: "t = \<lparr>tk_id = take 20 (drop 4 s), tk_secret = drop 25 s\<rparr>" and ok: "token_ok t"
    and pre: "take 4 s = token_prefix" and dot: "take 1 (drop 24 s) = ''.''"
    by (auto simp: Parse_def Let_def token_ok_def split: if_splits)
  have "s = take 4 s @ take 20 (drop 4 s) @ take 1 (drop 24 s) @ drop 25 s"
    using append_take_drop_id [of 4 s] append_take_drop_id [of 20 "drop 4 s"] append_take_drop_id [of 1 "drop 24 s"] by simp
  then show "s = token_string t \<and> token_ok t"
    using t ok pre dot by (simp add: token_string_def)
next
  assume "s = token_string t \<and> token_ok t"
  then have ok: "token_ok t" and s: "s = token_prefix @ tk_id t @ ''.'' @ tk_secret t" and 20: "length (tk_id t) = 20"
    by (auto simp: token_string_def token_ok_def key_id_ok_def)
  show "Parse s = Inr t"
    using ok 20 unfolding s by (simp add: Parse_def token_prefix_def Let_def token_ok_def)
qed

text \<open>
  C36. \<open>Parse\<close> accepts exactly the text of a well-formed credential and reads the same credential back:
  it is inverse to \<open>String\<close>, on every string.
\<close>
theorem parse_exact: "Parse s = Inr t \<longleftrightarrow> s = token_string t \<and> token_ok t"
  by (rule parse_token)

lemma new_token:
  assumes "length key = 12" and "length secret = 32"
  shows "token_ok (New key secret)"
proof -
  have "key_char = (\<lambda>c. c \<in> set id_alphabet)"
    by (simp add: key_char_def id_alphabet_def fun_eq_iff)
  then show ?thesis
    using assms encode_bits_in [of id_alphabet 5 key] encode_bits_in [of url_alphabet 6 secret]
    by (simp add: token_ok_def New_def key_id_ok_def secret_ok_def length_encode_bits raw_url_base64_def
        id_alphabet_def url_alphabet_def)
qed

text \<open>
  C37. What \<open>New\<close> mints from 12 and 32 random bytes is well-formed: the database's check on key IDs
  and the format of \<open>Parse\<close> accept it.
\<close>
theorem new_token_ok:
  assumes "length key = 12" and "length secret = 32"
  shows "token_ok (New key secret) \<and> Parse (token_string (New key secret)) = Inr (New key secret) \<and>
    ValidID (tk_id (New key secret))"
  using new_token [OF assms] by (simp add: parse_token ValidID_def token_ok_def)

theorem new_token_ok_witness: "Parse (token_string (New (replicate 12 7) (replicate 32 9))) = Inr (New (replicate 12 7) (replicate 32 9))"
  using new_token_ok [of "replicate 12 7" "replicate 32 9"] by simp

end
