(* ===== verification/Http_Request.thy ===== *)
theory Http_Request
  imports Access_Key Media
begin

text \<open>
  \<open>server/http.go\<close>: what a handler knows about the request it serves, the audit event it starts,
  the client address written to the audit trail, and the tokens handed to browsers. An event's
  \<open>detail\<close> is not modelled.
\<close>

section \<open>Calls and audit events\<close>

record principal =
  pr_account :: account
  pr_credential :: string
  pr_key :: string
  pr_scope :: string

record call =
  cl_operation :: string
  cl_request :: string
  cl_source :: string
  cl_agent :: string
  cl_principal :: "principal option"

record audit_event =
  av_name :: string
  av_account :: string
  av_key :: string
  av_credential :: string
  av_source :: string
  av_agent :: string
  av_request :: string
  av_resource :: string
  av_error :: string

definition CredentialNone :: string where "CredentialNone = ''none''"
definition CredentialSession :: string where "CredentialSession = ''session''"
definition CredentialAccessKey :: string where "CredentialAccessKey = ''access_key''"

definition call_event :: "call \<Rightarrow> string \<Rightarrow> audit_event" where
  "call_event c code =
     (let e = \<lparr>av_name = cl_operation c, av_account = '''', av_key = '''', av_credential = CredentialNone,
               av_source = cl_source c, av_agent = cl_agent c, av_request = cl_request c, av_resource = '''',
               av_error = code\<rparr> in
      case cl_principal c of None \<Rightarrow> e
      | Some p \<Rightarrow> e\<lparr>av_account := ac_id (pr_account p), av_credential := pr_credential p, av_key := pr_key p\<rparr>)"

text \<open>What the modelled handlers read of an HTTP request: headers, cookies, the query, the peer.\<close>

record http_request =
  rq_id :: string                      \<comment> \<open>the request ID \<open>observe\<close> assigned\<close>
  rq_remote :: string
  rq_forwarded :: "string list"        \<comment> \<open>\<open>X-Forwarded-For\<close>\<close>
  rq_agent :: string
  rq_authorization :: string
  rq_session :: "string option"
  rq_login :: "string option"
  rq_query :: "(string, string) gomap"

section \<open>The client address\<close>

text \<open>\<open>net.SplitHostPort\<close>, as far as the host: \<open>None\<close> for an error.\<close>

definition last_colon :: "string \<Rightarrow> nat option" where
  "last_colon s = (case index_of (rev s) CHR '':'' of None \<Rightarrow> None | Some i \<Rightarrow> Some (length s - 1 - i))"

definition split_host_port :: "string \<Rightarrow> string option" where
  "split_host_port s =
     (case last_colon s of None \<Rightarrow> None
      | Some i \<Rightarrow>
          if hd s = CHR ''['' then
            (case index_of s CHR '']'' of None \<Rightarrow> None
             | Some e \<Rightarrow> if Suc e \<noteq> i \<or> CHR ''['' \<in> set (drop 1 s) \<or> CHR '']'' \<in> set (drop (Suc e) s) then None
                         else Some (take (e - 1) (drop 1 s)))
          else if CHR '':'' \<in> set (take i s) \<or> CHR ''['' \<in> set s \<or> CHR '']'' \<in> set s then None
          else Some (take i s))"

text \<open>\<open>Addr.Unmap\<close>: an IPv4-mapped IPv6 address as the IPv4 one.\<close>

fun unmap :: "addr \<Rightarrow> addr" where
  "unmap (V4 w) = V4 w"
| "unmap (V6 w z) = (if drop_bit 32 w = 0xFFFF then V4 (ucast w) else V6 w z)"

definition isTrustedProxy :: "addr \<Rightarrow> prefix list \<Rightarrow> bool" where
  "isTrustedProxy a trusted \<longleftrightarrow> (\<exists>p \<in> set trusted. prefix_contains p (unmap a))"

text \<open>The hops from the right, up to the first that is not a proxy or not an address.\<close>

fun last_hop :: "prefix list \<Rightarrow> addr \<Rightarrow> string list \<Rightarrow> addr" where
  "last_hop trusted a [] = a"
| "last_hop trusted a (h # hs) =
     (case parse_addr (trim_space h) of None \<Rightarrow> a
      | Some b \<Rightarrow> if isTrustedProxy (unmap b) trusted then last_hop trusted (unmap b) hs else unmap b)"

definition clientIP :: "http_request \<Rightarrow> prefix list \<Rightarrow> string" where
  "clientIP r trusted =
     (let peer = (case split_host_port (rq_remote r) of None \<Rightarrow> rq_remote r | Some host \<Rightarrow> host) in
      case parse_addr peer of None \<Rightarrow> peer
      | Some a \<Rightarrow>
          if \<not> isTrustedProxy a trusted then peer
          else show_addr (last_hop trusted a (rev (split_at CHR '','' (join_with '','' (rq_forwarded r))))))"

definition newCall :: "http_request \<Rightarrow> prefix list \<Rightarrow> string \<Rightarrow> call" where
  "newCall r trusted operation = \<lparr>cl_operation = operation, cl_request = rq_id r, cl_source = clientIP r trusted,
     cl_agent = rq_agent r, cl_principal = None\<rparr>"

definition loggedPath :: "string \<Rightarrow> string" where
  "loggedPath path =
     (if \<not> has_prefix path ''/console/'' then path
      else if has_suffix (trim_prefix path ''/console/'') ''/ws'' then ''/console/{token}/ws''
      else ''/console/{token}'')"

section \<open>Tokens of browsers\<close>

definition randomToken :: "'h env \<Rightarrow> ('h, string) cloud" where
  "randomToken E = bindE (random_bytes E 32) (\<lambda>b. ret (raw_url_base64 b))"

definition hashToken :: "'h env \<Rightarrow> string \<Rightarrow> nat list" where
  "hashToken E t = e_sha256 E t"

lemma keeps_randomToken [keeps_intros]: "keeps (db_inv P) (randomToken E)"
  unfolding randomToken_def by (intro keeps_intros)


section \<open>Who can choose what is logged\<close>

definition peer_of :: "http_request \<Rightarrow> string" where
  "peer_of r = (case split_host_port (rq_remote r) of None \<Rightarrow> rq_remote r | Some host \<Rightarrow> host)"

definition behind_proxy :: "http_request \<Rightarrow> prefix list \<Rightarrow> bool" where
  "behind_proxy r trusted \<longleftrightarrow> (\<exists>a. parse_addr (peer_of r) = Some a \<and> isTrustedProxy a trusted)"

definition hops :: "string list \<Rightarrow> string list" where
  "hops values = split_at CHR '','' (join_with '','' values)"

definition proxy_hop :: "prefix list \<Rightarrow> string \<Rightarrow> bool" where
  "proxy_hop trusted h \<longleftrightarrow> (\<exists>b. parse_addr (trim_space h) = Some b \<and> isTrustedProxy (unmap b) trusted)"

lemma split_at_both: "split_at c (a @ c # b) = split_at c a @ split_at c b"
proof (induction a)
  case (Cons x a)
  have "split_at c a \<noteq> []"
    by (cases a) (auto split: list.split)
  with Cons show ?case
    by (auto split: list.split)
qed simp

lemma join_with_append: "a \<noteq> [] \<Longrightarrow> b \<noteq> [] \<Longrightarrow> join_with sep (a @ b) = join_with sep a @ sep @ join_with sep b"
proof (induction sep a rule: join_with.induct)
  case (2 sep x)
  then show ?case by (cases b) auto
qed auto

lemma hops_append: "a \<noteq> [] \<Longrightarrow> b \<noteq> [] \<Longrightarrow> hops (a @ b) = hops a @ hops b"
  by (simp add: hops_def join_with_append split_at_both)

lemma last_hop_append: "\<exists>h \<in> set hs. \<not> proxy_hop trusted h \<Longrightarrow> last_hop trusted a (hs @ ks) = last_hop trusted a hs"
  by (induction trusted a hs rule: last_hop.induct) (auto simp: proxy_hop_def split: option.splits)

lemma clientIP_direct: "\<not> behind_proxy r trusted \<Longrightarrow> clientIP r trusted = peer_of r"
  by (auto simp: clientIP_def behind_proxy_def peer_of_def Let_def split: option.splits)

lemma clientIP_proxied:
  "parse_addr (peer_of r) = Some a \<Longrightarrow> isTrustedProxy a trusted \<Longrightarrow>
   clientIP r trusted = show_addr (last_hop trusted a (rev (hops (rq_forwarded r))))"
  by (simp add: clientIP_def peer_of_def hops_def Let_def)


definition proxied_request :: http_request where
  "proxied_request = \<lparr>rq_id = ''r'', rq_remote = ''192.168.10.2:4711'', rq_forwarded = [], rq_agent = '''',
     rq_authorization = '''', rq_session = None, rq_login = None, rq_query = []\<rparr>"


end
