(* ===== verification/Sign_In.thy ===== *)
theory Sign_In
  imports Http_Request Request_Steps
begin

text \<open>
  \<open>server/authn.go\<close>, \<open>bootstrap.go\<close>, \<open>oidc.go\<close> and the access key handlers of \<open>handlers.go\<close>: who a
  request is from, and how credentials come and go. A handler that writes an error raises
  \<open>Refuse status code\<close>. OpenID Connect discovery, the code exchange and the verification of the ID
  token are done by libraries and are parameters, as is the audit table's answer to an event.
\<close>

section \<open>The server\<close>

record id_token =
  it_subject :: string
  it_nonce :: string
  it_email :: string
  it_username :: string
  it_groups :: "string list"

record 'h oidc =
  Discover :: "('h, unit) ext"
  Exchange :: "string \<Rightarrow> string \<Rightarrow> ('h, string) ext"        \<comment> \<open>code and verifier to the raw ID token\<close>
  Verify :: "string \<Rightarrow> ('h, id_token res) ext"              \<comment> \<open>inside: the claims, which may be unreadable\<close>

record 'h server =
  sv_cloud :: "'h env"
  sv_compute :: bool                       \<comment> \<open>\<open>s.Compute != nil\<close>\<close>
  sv_oidc :: "'h oidc"
  sv_trusted :: "prefix list"
  sv_user_group :: string
  sv_admin_group :: string
  sv_session_ttl :: int
  sv_bootstrap_key :: "token option"
  sv_audit :: "audit_event \<Rightarrow> unit res"

definition maxUserAgent :: nat where "maxUserAgent = 512"

definition RecordAudit :: "'h server \<Rightarrow> audit_event \<Rightarrow> unit stmt" where
  "RecordAudit S e = reading (\<lambda>_. sv_audit S (e\<lparr>av_agent := truncate_to maxUserAgent (av_agent e)\<rparr>))"

definition recordDenied :: "'h server \<Rightarrow> audit_event \<Rightarrow> ('h, unit) cloud" where
  "recordDenied S e = logged (db (sv_cloud S) (\<lambda>_. RecordAudit S e))"

definition internal_error :: err where "internal_error = Refuse 500 ''InternalError''"
definition errAuthFailure :: err where "errAuthFailure = Refuse 401 ''AuthFailure''"

section \<open>Who a request is from\<close>

definition ascii_lower :: "char \<Rightarrow> char" where
  "ascii_lower c = (if 65 \<le> (of_char c :: nat) \<and> (of_char c :: nat) \<le> 90 then char_of (of_char c + 32 :: nat) else c)"

text \<open>\<open>strings.EqualFold(scheme, "Bearer")\<close>: no letter of the word folds with one outside ASCII.\<close>

definition is_bearer :: "string \<Rightarrow> bool" where
  "is_bearer scheme \<longleftrightarrow> map ascii_lower scheme = ''bearer''"

definition sessionAccount :: "'h server \<Rightarrow> http_request \<Rightarrow> ('h, account) cloud" where
  "sessionAccount S r =
     (case rq_session r of None \<Rightarrow> raise NotFound
      | Some cookie \<Rightarrow>
          if cookie = '''' then raise NotFound
          else db (sv_cloud S) (\<lambda>now. reading (LookupSession now (hashToken (sv_cloud S) cookie))))"

definition key_principal :: "access_key \<Rightarrow> account \<Rightarrow> principal" where
  "key_principal k a = \<lparr>pr_account = a, pr_credential = CredentialAccessKey, pr_key = ak_id k, pr_scope = ak_scope k\<rparr>"

definition session_principal :: "account \<Rightarrow> principal" where
  "session_principal a = \<lparr>pr_account = a, pr_credential = CredentialSession, pr_key = '''', pr_scope = ''''\<rparr>"

text \<open>A key that was found: its secret, then its status, then its use is recorded.\<close>

definition refused_key :: "'h server \<Rightarrow> call \<Rightarrow> principal \<Rightarrow> ('h, principal) cloud" where
  "refused_key S c p =
     seqE (recordDenied S (call_event (c\<lparr>cl_principal := Some p\<rparr>) ''AuthFailure'')) (raise errAuthFailure)"

definition check_key :: "'h server \<Rightarrow> call \<Rightarrow> token \<Rightarrow> access_key \<Rightarrow> account \<Rightarrow> ('h, principal) cloud" where
  "check_key S c token key a =
     (let E = sv_cloud S; p = key_principal key a in
      if \<not> Matches (e_sha256 E) token (ak_secret key) then refused_key S c p
      else bindE (clock E) (\<lambda>now.
        if Status key now \<noteq> KeyActive then refused_key S c p
        else seqE (logged (db E (\<lambda>now. on_tenants (TouchAccessKey now (tk_id token))))) (ret p)))"

definition authenticate :: "'h server \<Rightarrow> http_request \<Rightarrow> call \<Rightarrow> ('h, principal) cloud" where
  "authenticate S r c =
     (let E = sv_cloud S in
      if rq_authorization r \<noteq> '''' then
        (case cut (rq_authorization r) CHR '' '' of (scheme, value, _) \<Rightarrow>
          if \<not> is_bearer scheme then raise errAuthFailure
          else case Parse (trim_space value) of Inl _ \<Rightarrow> raise errAuthFailure
            | Inr token \<Rightarrow>
                attempt (db E (\<lambda>_. reading (LookupAccessKey (tk_id token)))) (\<lambda>found. case found of
                    Inl e \<Rightarrow> raise (if err_is e NotFound then errAuthFailure else internal_error)
                  | Inr (key, a) \<Rightarrow> check_key S c token key a))
      else attempt (sessionAccount S r) (\<lambda>found. case found of
          Inl e \<Rightarrow> raise (if err_is e NotFound then errAuthFailure else internal_error)
        | Inr a \<Rightarrow> ret (session_principal a)))"

section \<open>Access keys\<close>

definition maxActiveAccessKeys :: int where "maxActiveAccessKeys = 5"
definition errLimitExceeded :: err where "errLimitExceeded = Failed ''limit exceeded''"
definition errNoSuchKey :: err where "errNoSuchKey = Failed ''no such key''"

record key_request =
  kr_description :: string
  kr_expires_in_days :: "int option"
  kr_scope :: string

definition one_day :: int where "one_day = 24 * 3600 * 10 ^ 9"

definition key_request_ok :: "key_request \<Rightarrow> bool" where
  "key_request_ok b \<longleftrightarrow> rune_count (kr_description b) \<le> 256 \<and>
     kr_scope b \<in> {'''', KeyScopeReadOnly, KeyScopeReadWrite} \<and>
     (case kr_expires_in_days b of None \<Rightarrow> True | Some days \<Rightarrow> 1 \<le> days \<and> days \<le> 3650)"

definition key_expiry :: "'h env \<Rightarrow> key_request \<Rightarrow> ('h, int option) cloud" where
  "key_expiry E b =
     (case kr_expires_in_days b of None \<Rightarrow> ret None
      | Some days \<Rightarrow> bindE (clock E) (\<lambda>now. ret (Some (now + days * one_day))))"

definition create_key_tx ::
    "'h server \<Rightarrow> call \<Rightarrow> string \<Rightarrow> token \<Rightarrow> string \<Rightarrow> string \<Rightarrow> int option \<Rightarrow> ('h, access_key) cloud" where
  "create_key_tx S c acct token description scope expires =
     (let E = sv_cloud S in
      seqE (sql E (\<lambda>_. reading (LockAccount acct)))
      (bindE (sql E (\<lambda>now. reading (\<lambda>d. Inr (CountActiveAccessKeys now acct (d_tenants d))))) (\<lambda>active.
       if active \<ge> maxActiveAccessKeys then raise errLimitExceeded
       else bindE (sql E (\<lambda>now. on_tenants (InsertAccessKey now acct (tk_id token) (Hash (e_sha256 E) token)
                description scope expires))) (\<lambda>created.
         seqE (sql E (\<lambda>_. RecordAudit S ((call_event c '''')\<lparr>av_resource := ak_id created\<rparr>))) (ret created)))))"

definition mint :: "'h env \<Rightarrow> ('h, token) cloud" where
  "mint E = bindE (random_bytes E 12) (\<lambda>key. bindE (random_bytes E 32) (\<lambda>secret. ret (New key secret)))"

text \<open>\<open>keyBody\<close>: a key is shown with its status at that moment.\<close>

definition key_body :: "'h env \<Rightarrow> access_key \<Rightarrow> ('h, access_key \<times> key_status) cloud" where
  "key_body E k = bindE (clock E) (\<lambda>now. ret (k, Status k now))"

primrec key_bodies :: "'h env \<Rightarrow> access_key list \<Rightarrow> ('h, (access_key \<times> key_status) list) cloud" where
  "key_bodies E [] = ret []"
| "key_bodies E (k # ks) = bindE (key_body E k) (\<lambda>b. bindE (key_bodies E ks) (\<lambda>bs. ret (b # bs)))"

definition createAccessKey ::
    "'h server \<Rightarrow> call \<Rightarrow> account \<Rightarrow> key_request \<Rightarrow> ('h, (access_key \<times> key_status) \<times> string) cloud" where
  "createAccessKey S c a b =
     (let scope = (if kr_scope b = '''' then KeyScopeReadWrite else kr_scope b) in
      if \<not> key_request_ok b then raise (Refuse 400 ''ValidationError'')
      else bindE (key_expiry (sv_cloud S) b) (\<lambda>expires.
        bindE (mint (sv_cloud S)) (\<lambda>token.
        attempt (tx (sv_cloud S) (create_key_tx S c (ac_id a) token (kr_description b) scope expires)) (\<lambda>r. case r of
            Inr created \<Rightarrow> bindE (key_body (sv_cloud S) created) (\<lambda>b. ret (b, token_string token))
          | Inl e \<Rightarrow>
              if err_is e errLimitExceeded
              then seqE (recordDenied S (call_event c ''LimitExceeded'')) (raise (Refuse 409 ''LimitExceeded''))
              else raise internal_error))))"

text \<open>The closure's flag \<open>denied\<close> travels with the error.\<close>

definition denied_key :: err where "denied_key = Detail errNoSuchKey ''denied''"

definition delete_key_tx :: "'h server \<Rightarrow> call \<Rightarrow> account \<Rightarrow> string \<Rightarrow> ('h, unit) cloud" where
  "delete_key_tx S c a k =
     (let E = sv_cloud S in
      attempt (sql E (\<lambda>_. reading (LookupAccessKey k))) (\<lambda>found. case found of
          Inl e \<Rightarrow> raise (if err_is e NotFound then errNoSuchKey else e)
        | Inr (key, owner) \<Rightarrow>
            if ac_id owner \<noteq> ac_id a \<and> \<not> ac_is_admin a then raise denied_key
            else attempt (sql E (\<lambda>now. on_tenants (RevokeAccessKey now k))) (\<lambda>r. case r of
                Inl e \<Rightarrow> raise (if err_is e NotFound then errNoSuchKey else e)
              | Inr _ \<Rightarrow> sql E (\<lambda>_. RecordAudit S ((call_event c '''')\<lparr>av_resource := k\<rparr>)))))"

definition deleteAccessKey :: "'h server \<Rightarrow> call \<Rightarrow> account \<Rightarrow> string \<Rightarrow> ('h, unit) cloud" where
  "deleteAccessKey S c a k =
     (if \<not> ValidID k then raise (Refuse 404 ''NoSuchEntity'')
      else attempt (tx (sv_cloud S) (delete_key_tx S c a k)) (\<lambda>r. case r of
          Inr _ \<Rightarrow> ret ()
        | Inl e \<Rightarrow>
            if err_is e errNoSuchKey
            then seqE (whenE (e = denied_key) (recordDenied S ((call_event c ''AccessDenied'')\<lparr>av_resource := k\<rparr>)))
                   (raise (Refuse 404 ''NoSuchEntity''))
            else raise internal_error))"

definition listAccessKeys :: "'h server \<Rightarrow> account \<Rightarrow> ('h, (access_key \<times> key_status) list) cloud" where
  "listAccessKeys S a =
     attempt (db (sv_cloud S) (\<lambda>_. reading (\<lambda>d. Inr (ListAccessKeys (ac_id a) (d_tenants d))))) (\<lambda>r. case r of
         Inl e \<Rightarrow> raise internal_error
       | Inr keys \<Rightarrow> key_bodies (sv_cloud S) keys)"

section \<open>The bootstrap key\<close>

text \<open>\<open>newAccountID\<close>: twelve decimal digits.\<close>

definition pad_digits :: "nat \<Rightarrow> nat \<Rightarrow> string" where
  "pad_digits width n = replicate (width - length (nat_digits n)) CHR ''0'' @ nat_digits n"

definition newAccountID :: "'h env \<Rightarrow> ('h, string) cloud" where
  "newAccountID E = bindE (random_account E) (\<lambda>n. ret (pad_digits 12 n))"

fun ensure_bootstrap :: "nat \<Rightarrow> 'h env \<Rightarrow> ('h, account) cloud" where
  "ensure_bootstrap 0 E = raise (Failed ''could not create the bootstrap account'')"
| "ensure_bootstrap (Suc tries) E =
     attempt (sql E (\<lambda>_. reading BootstrapAccount)) (\<lambda>r. case r of
         Inr a \<Rightarrow> ret a
       | Inl e \<Rightarrow> if \<not> err_is e NotFound then raise e
           else bindE (newAccountID E) (\<lambda>k.
             seqE (sql E (\<lambda>now. on_tenants (insert_bootstrap now k))) (ensure_bootstrap tries E)))"

definition EnsureBootstrapAccount :: "'h env \<Rightarrow> ('h, account) cloud" where
  "EnsureBootstrapAccount E = ensure_bootstrap 5 E"

definition bootstrap_event :: "account \<Rightarrow> string \<Rightarrow> string \<Rightarrow> audit_event" where
  "bootstrap_event a name key = \<lparr>av_name = name, av_account = ac_id a, av_key = '''', av_credential = CredentialNone,
     av_source = ''local'', av_agent = '''', av_request = ''startup'', av_resource = key, av_error = ''''\<rparr>"

definition bootstrap_account :: "'h env \<Rightarrow> token option \<Rightarrow> ('h, account option) cloud" where
  "bootstrap_account E token =
     (case token of
        None \<Rightarrow> attempt (sql E (\<lambda>_. reading BootstrapAccount)) (\<lambda>r. case r of
            Inr a \<Rightarrow> ret (Some a) | Inl e \<Rightarrow> if err_is e NotFound then ret None else raise e)
      | Some _ \<Rightarrow> bindE (EnsureBootstrapAccount E) (\<lambda>a. ret (Some a)))"

definition register_bootstrap :: "'h server \<Rightarrow> account \<Rightarrow> token \<Rightarrow> ('h, unit) cloud" where
  "register_bootstrap S a token =
     (let E = sv_cloud S in
      attempt (sql E (\<lambda>_. reading (LookupAccessKey (tk_id token)))) (\<lambda>found. case found of
          Inl e \<Rightarrow>
            if \<not> err_is e NotFound then raise e
            else bindE (sql E (\<lambda>now. on_tenants (InsertAccessKey now (ac_id a) (tk_id token) (Hash (e_sha256 E) token)
                     ''bootstrap admin key (SHAKECLOUD_BOOTSTRAP_KEY_FILE)'' KeyScopeReadWrite None))) (\<lambda>_.
              sql E (\<lambda>_. RecordAudit S (bootstrap_event a ''CreateAccessKey'' (tk_id token))))
        | Inr (key, owner) \<Rightarrow>
            if ac_id owner \<noteq> ac_id a \<or> \<not> Matches (e_sha256 E) token (ak_secret key)
            then raise (Failed ''the bootstrap key file does not match the stored key with the same ID; refusing to start'')
            else ret ()))"

definition reconcile_bootstrap_tx :: "'h server \<Rightarrow> ('h, unit) cloud" where
  "reconcile_bootstrap_tx S =
     (let E = sv_cloud S; token = sv_bootstrap_key S in
      seqE (sql E (\<lambda>_. reading (\<lambda>_. Inr ())))           \<comment> \<open>the advisory lock\<close>
      (bindE (bootstrap_account E token) (\<lambda>account. case account of
          None \<Rightarrow> ret ()
        | Some a \<Rightarrow>
            seqE (case token of None \<Rightarrow> ret () | Some t \<Rightarrow> register_bootstrap S a t)
              (bindE (sql E (\<lambda>now. on_tenants (RevokeAccountKeysExcept now (ac_id a)
                   (case token of None \<Rightarrow> '''' | Some t \<Rightarrow> tk_id t)))) (\<lambda>revoked.
                for_eachE revoked (\<lambda>k. sql E (\<lambda>_. RecordAudit S (bootstrap_event a ''DeleteAccessKey'' k))))))))"

definition ReconcileBootstrapKey :: "'h server \<Rightarrow> ('h, unit) cloud" where
  "ReconcileBootstrapKey S = tx (sv_cloud S) (reconcile_bootstrap_tx S)"

section \<open>Logging in\<close>

text \<open>\<open>db.RecordLogin\<close>: five attempts at a random account ID.\<close>

fun insert_account :: "nat \<Rightarrow> 'h env \<Rightarrow> string \<Rightarrow> string \<Rightarrow> string \<Rightarrow> bool \<Rightarrow> ('h, account) cloud" where
  "insert_account 0 E subject username email admin = raise (Failed ''could not allocate an account ID'')"
| "insert_account (Suc tries) E subject username email admin =
     bindE (newAccountID E) (\<lambda>k.
       attempt (db E (\<lambda>now. on_tenants (insert_login (e_lower E) now k subject username email admin))) (\<lambda>r. case r of
           Inr a \<Rightarrow> ret a
         | Inl e \<Rightarrow> if err_is e NotFound then insert_account tries E subject username email admin else raise e))"

definition RecordLogin :: "'h env \<Rightarrow> string \<Rightarrow> string \<Rightarrow> string \<Rightarrow> bool \<Rightarrow> ('h, account \<times> bool) cloud" where
  "RecordLogin E subject username email admin =
     attempt (db E (\<lambda>now. on_tenants (update_login (e_lower E) now subject username email admin))) (\<lambda>r. case r of
         Inr a \<Rightarrow> ret (a, False)
       | Inl e \<Rightarrow> if err_is e NotFound
           then bindE (insert_account 5 E subject username email admin) (\<lambda>a. ret (a, True)) else raise e)"

definition loginTTL :: int where "loginTTL = 10 * 60 * 10 ^ 9"

text \<open>A refusal on a page for people: its status.\<close>

definition login_page :: "int \<Rightarrow> err" where "login_page status = Refuse status ''login''"

definition or_page :: "int \<Rightarrow> ('h, 'a) cloud \<Rightarrow> ('h, 'a) cloud" where
  "or_page status m = catchE m (\<lambda>_. raise (login_page status))"

definition or_internal :: "('h, 'a) cloud \<Rightarrow> ('h, 'a) cloud" where
  "or_internal m = catchE m (\<lambda>_. raise internal_error)"

text \<open>\<open>startLogin\<close>: the state, which is also the cookie's value, and the nonce and verifier of the redirect.\<close>

definition startLogin :: "'h server \<Rightarrow> ('h, string \<times> string \<times> string) cloud" where
  "startLogin S =
     (let E = sv_cloud S in
      seqE (or_page 503 (external (Discover (sv_oidc S))))
      (bindE (randomToken E) (\<lambda>state. bindE (randomToken E) (\<lambda>nonce. bindE (randomToken E) (\<lambda>verifier.
       bindE (clock E) (\<lambda>now.
       seqE (or_internal (db E (\<lambda>_. on_tenants (CreateLoginAttempt (hashToken E state) nonce verifier (now + loginTTL)))))
         (ret (state, nonce, verifier))))))))"

text \<open>The ID token the provider hands out for the code, verified and bound to the nonce.\<close>

definition verified_token :: "'h server \<Rightarrow> string \<Rightarrow> string \<Rightarrow> string \<Rightarrow> ('h, id_token) cloud" where
  "verified_token S code nonce verifier =
     seqE (or_page 503 (external (Discover (sv_oidc S))))
     (bindE (or_page 502 (external (Exchange (sv_oidc S) code verifier))) (\<lambda>raw.
      bindE (or_page 502 (external (Verify (sv_oidc S) raw))) (\<lambda>claims.
      case claims of
        Inl _ \<Rightarrow> raise (login_page 502)
      | Inr t \<Rightarrow> if it_nonce t \<noteq> nonce then raise (login_page 502) else ret t)))"

definition login_principal :: "call \<Rightarrow> account \<Rightarrow> call" where
  "login_principal c a = c\<lparr>cl_principal := Some (session_principal a)\<rparr>"

definition open_session :: "'h server \<Rightarrow> call \<Rightarrow> account \<Rightarrow> ('h, string) cloud" where
  "open_session S c a =
     (let E = sv_cloud S in
      bindE (randomToken E) (\<lambda>t.
        seqE (or_internal (tx E (bindE (clock E) (\<lambda>now.
            seqE (sql E (\<lambda>_. on_tenants (CreateSession (ac_id a) (hashToken E t) (now + sv_session_ttl S))))
              (sql E (\<lambda>_. RecordAudit S (call_event (login_principal c a) '''')))))))
          (ret t)))"

definition admit_login :: "'h server \<Rightarrow> call \<Rightarrow> id_token \<Rightarrow> ('h, account) cloud" where
  "admit_login S c t =
     (let admin = sv_admin_group S \<in> set (it_groups t);
          username = (if it_username t = '''' then it_subject t else it_username t) in
      if \<not> admin \<and> sv_user_group S \<notin> set (it_groups t)
      then seqE (recordDenied S (call_event c ''AccessDenied'')) (raise (login_page 403))
      else attempt (RecordLogin (sv_cloud S) (it_subject t) username (it_email t) admin) (\<lambda>r. case r of
          Inr (a, _) \<Rightarrow> ret a
        | Inl e \<Rightarrow> if err_is e ErrEmailConflict
            then seqE (recordDenied S (call_event c ''AccountConflict'')) (raise (login_page 403))
            else raise internal_error))"

definition completeLogin :: "'h server \<Rightarrow> http_request \<Rightarrow> call \<Rightarrow> ('h, string) cloud" where
  "completeLogin S r c =
     (let E = sv_cloud S; state = gomap_str (rq_query r) ''state'' in
      if gomap_str (rq_query r) ''error'' \<noteq> '''' then raise (login_page 403)
      else if rq_login r = None \<or> state = '''' \<or> rq_login r \<noteq> Some state then raise (login_page 400)
      else bindE (catchE (db E (\<lambda>now. on_tenants (TakeLoginAttempt now (hashToken E state))))
            (\<lambda>e. raise (if err_is e NotFound then login_page 400 else internal_error))) (\<lambda>(nonce, verifier).
        bindE (verified_token S (gomap_str (rq_query r) ''code'') nonce verifier) (\<lambda>t.
        bindE (admit_login S c t) (\<lambda>a. open_session S c a))))"

definition logout :: "'h server \<Rightarrow> http_request \<Rightarrow> call \<Rightarrow> ('h, unit) cloud" where
  "logout S r c =
     (let E = sv_cloud S in
      case rq_session r of None \<Rightarrow> ret ()
      | Some cookie \<Rightarrow>
          if cookie = '''' then ret ()
          else catchE
            (bindE (db E (\<lambda>now. reading (LookupSession now (hashToken E cookie)))) (\<lambda>a.
              tx E (seqE (sql E (\<lambda>_. on_tenants (DeleteSession (hashToken E cookie))))
                (sql E (\<lambda>_. RecordAudit S (call_event (login_principal c a) ''''))))))
            (\<lambda>e. if err_is e NotFound then ret () else raise internal_error))"

text \<open>A round of the janitor. \<open>DeleteExpired\<close> stops at the first statement that fails.\<close>

definition DeleteExpired :: "'h env \<Rightarrow> ('h, unit) cloud" where
  "DeleteExpired E = seqE (db E (\<lambda>now. on_tenants (delete_expired_sessions now)))
     (db E (\<lambda>now. on_tenants (delete_expired_logins now)))"

fun RunJanitor :: "nat \<Rightarrow> 'h env \<Rightarrow> ('h, unit) cloud" where
  "RunJanitor 0 E = ret ()"
| "RunJanitor (Suc rounds) E = seqE (logged (DeleteExpired E))
     (bindE (cancelled E) (\<lambda>stop. if stop then ret () else RunJanitor rounds E))"


section \<open>What authentication decides\<close>

text \<open>The principal of a request as a function of the accounts, keys and sessions: the reference.\<close>

definition bearer_token :: "http_request \<Rightarrow> token option" where
  "bearer_token r =
     (case cut (rq_authorization r) CHR '' '' of (scheme, value, _) \<Rightarrow>
       if \<not> is_bearer scheme then None
       else case Parse (trim_space value) of Inl _ \<Rightarrow> None | Inr t \<Rightarrow> Some t)"

definition key_holder :: "'h env \<Rightarrow> token \<Rightarrow> ledger \<Rightarrow> int \<Rightarrow> principal option" where
  "key_holder E t d now =
     (case LookupAccessKey (tk_id t) d of Inl _ \<Rightarrow> None
      | Inr (k, a) \<Rightarrow> if ak_secret k = e_sha256 E (tk_secret t) \<and> Status k now = KeyActive
                     then Some (key_principal k a) else None)"

definition who_is :: "'h env \<Rightarrow> http_request \<Rightarrow> ledger \<Rightarrow> (nat \<Rightarrow> int) \<Rightarrow> principal option" where
  "who_is E r d now =
     (if rq_authorization r \<noteq> ''''
      then Option.bind (bearer_token r) (\<lambda>t. key_holder E t d (now 1))
      else case rq_session r of None \<Rightarrow> None
        | Some cookie \<Rightarrow> if cookie = '''' then None
            else (case LookupSession (now 0) (hashToken E cookie) d of
                Inl _ \<Rightarrow> None | Inr a \<Rightarrow> Some (session_principal a)))"

definition answer_of :: "'a option \<Rightarrow> 'a res" where
  "answer_of x = (case x of None \<Rightarrow> Inl errAuthFailure | Some p \<Rightarrow> Inr p)"

lemma recordDenied_Inr: "\<exists>w'. recordDenied S e w = (Inr (), w')"
  by (auto simp: recordDenied_def logged_def prog_defs split: prod.splits)

lemma fst_refused_key: "fst (refused_key S c p w) = Inl errAuthFailure"
  using recordDenied_Inr [of S "call_event (c\<lparr>cl_principal := Some p\<rparr>) ''AuthFailure''" w]
  by (auto simp: refused_key_def prog_defs)

lemma fst_logged_ret: "fst (seqE (logged m) (ret p) w) = Inr p"
  by (auto simp: logged_def prog_defs split: prod.splits)

lemma fst_check_key:
  "fst (check_key S c t k a w) = answer_of (if ak_secret k = e_sha256 (sv_cloud S) (tk_secret t) \<and>
     Status k (e_now (sv_cloud S) (w_tick w)) = KeyActive then Some (key_principal k a) else None)"
  by (auto simp: check_key_def Let_def Matches_def Hash_def fst_refused_key fst_logged_ret answer_of_def
      bindE_def clock_def)

lemma lookup_only_misses: "LookupAccessKey k d = Inl e \<Longrightarrow> e = NotFound" "LookupSession now token d = Inl e \<Longrightarrow> e = NotFound"
  by (auto simp: LookupAccessKey_def LookupSession_def GetAccount_def select_one_Inl split: sum.splits prod.splits)

lemma authenticate_decides:
  assumes "\<not> e_db_down (sv_cloud S) (Suc (w_tick w))"
  shows "fst (authenticate S r c w) =
    answer_of (who_is (sv_cloud S) r (e_others (sv_cloud S) (w_tick w) (w_db w)) (\<lambda>n. e_now (sv_cloud S) (w_tick w + 1 + n)))"
  using assms
  by (auto simp: authenticate_def who_is_def bearer_token_def key_holder_def sessionAccount_def Let_def attempt_def db_def
      sql_def interfere_def reading_def raise_def ret_def fst_check_key answer_of_def lookup_only_misses
      split: prod.split sum.split option.split dest: lookup_only_misses)

text \<open>
  C22. Whatever the headers, \<open>authenticate\<close> decides as the reference does on the ledger it reads: a
  bearer key with the stored secret that is active, or without an \<open>Authorization\<close> header a live
  session; and every other request, be it a wrong secret, a revoked or expired key, an unknown one or
  nonsense, gets one and the same answer.
\<close>
theorem authenticate_exact:
  assumes "\<not> e_db_down (sv_cloud S) (Suc (w_tick w))"
  shows "fst (authenticate S r c w) =
    answer_of (who_is (sv_cloud S) r (e_others (sv_cloud S) (w_tick w) (w_db w)) (\<lambda>n. e_now (sv_cloud S) (w_tick w + 1 + n)))"
  using assms by (rule authenticate_decides)


text \<open>A deployment with one account and one key of it.\<close>

definition dead_oidc :: "'h oidc" where
  "dead_oidc = \<lparr>Discover = unreachable, Exchange = (\<lambda>_ _. unreachable), Verify = (\<lambda>_. unreachable)\<rparr>"

definition quiet_server :: "'h env \<Rightarrow> 'h server" where
  "quiet_server E = \<lparr>sv_cloud = E, sv_compute = True, sv_oidc = dead_oidc, sv_trusted = [], sv_user_group = ''users'',
     sv_admin_group = ''admins'', sv_session_ttl = 12 * 3600 * 10 ^ 9, sv_bootstrap_key = None, sv_audit = (\<lambda>_. Inr ())\<rparr>"

definition ash :: account where
  "ash = \<lparr>ac_id = ''000000000007'', ac_kind = KindUser, ac_subject = Some ''s'', ac_username = ''ash'', ac_email = '''',
     ac_is_admin = False, ac_created_at = 0, ac_last_login_at = None\<rparr>"

definition ash_token :: token where
  "ash_token = \<lparr>tk_id = replicate 20 CHR ''a'', tk_secret = replicate 43 CHR ''A''\<rparr>"

definition ash_key :: access_key where
  "ash_key = \<lparr>ak_id = tk_id ash_token, ak_account = ''000000000007'', ak_secret = map of_char (tk_secret ash_token),
     ak_description = '''', ak_scope = KeyScopeReadOnly, ak_created_at = 0, ak_expires_at = None, ak_revoked_at = None,
     ak_last_used_at = None\<rparr>"

definition ash_ledger :: ledger where
  "ash_ledger = empty_ledger\<lparr>d_tenants := no_tenants\<lparr>t_accounts := [ash], t_keys := [ash_key]\<rparr>\<rparr>"

definition ash_request :: http_request where
  "ash_request = proxied_request\<lparr>rq_authorization := ''Bearer '' @ token_string ash_token\<rparr>"

lemma ash_bearer: "bearer_token ash_request = Some ash_token"
proof -
  have "trim_space (token_string ash_token) = token_string ash_token"
    by code_simp
  moreover have "cut (rq_authorization ash_request) CHR '' '' = (''Bearer'', token_string ash_token, True)"
    by code_simp
  moreover have "Parse (token_string ash_token) = Inr ash_token"
    unfolding parse_token token_ok_def by code_simp
  moreover have "is_bearer ''Bearer''"
    by code_simp
  ultimately show ?thesis
    by (simp add: bearer_token_def)
qed

lemma ash_holds: "who_is (quiet_env pve ipam) ash_request ash_ledger now = Some (key_principal ash_key ash)"
proof -
  have "LookupAccessKey (tk_id ash_token) ash_ledger = Inr (ash_key, ash)"
    by (simp add: LookupAccessKey_def ash_ledger_def no_tenants_def select_one_def GetAccount_def ash_key_def ash_def)
  then show ?thesis
    unfolding who_is_def ash_bearer
    by (simp add: key_holder_def ash_key_def Status_def quiet_env_def ash_request_def)
qed

theorem authenticate_exact_witness:
  "fst (authenticate (quiet_server (quiet_env offline_pve offline_ipam :: unit env)) ash_request (newCall proxied_request [] []) (start_world () ash_ledger)) =
   Inr (key_principal ash_key ash)"
  using authenticate_exact [of "quiet_server (quiet_env offline_pve offline_ipam :: unit env)" "start_world () ash_ledger"
      ash_request "newCall proxied_request [] []"]
  by (simp add: quiet_server_def start_world_def ash_holds answer_of_def)

section \<open>What the key handlers leave\<close>

text \<open>A key keeps its identity, and once revoked it stays revoked.\<close>

definition key_next :: "access_key \<Rightarrow> access_key \<Rightarrow> bool" where
  "key_next k k' \<longleftrightarrow> ak_id k' = ak_id k \<and> ak_account k' = ak_account k \<and> ak_secret k' = ak_secret k \<and>
     ak_scope k' = ak_scope k \<and> ak_expires_at k' = ak_expires_at k \<and>
     (ak_revoked_at k \<noteq> None \<longrightarrow> ak_revoked_at k' = ak_revoked_at k)"

interpretation key_life: row_lifecycle "\<lambda>_. True" key_next
  by unfold_locales (auto simp: key_next_def)

definition keys_follow :: "access_key list \<Rightarrow> ledger \<Rightarrow> bool" where
  "keys_follow ks d \<longleftrightarrow> table_evolves (\<lambda>_. True) key_next ks (t_keys (d_tenants d))"

lemma keys_follow_refl: "keys_follow (t_keys (d_tenants d)) d"
  by (simp add: keys_follow_def key_life.evolves_refl)

lemma keys_follow_stmt:
  "(\<And>now t. table_evolves (\<lambda>_. True) key_next (t_keys t) (t_keys (snd (f now t)))) \<Longrightarrow>
   stmt_keeps (keys_follow ks) (\<lambda>now. on_tenants (f now))"
  by (rule stmt_keepsI) (auto simp: keys_follow_def on_tenants_def split_beta intro: key_life.evolves_trans)

lemma keys_follow_steps:
  "table_evolves (\<lambda>_. True) key_next (t_keys t) (t_keys (snd (TouchAccessKey now k t)))"
  "table_evolves (\<lambda>_. True) key_next (t_keys t) (t_keys (snd (RevokeAccessKey now k t)))"
  "table_evolves (\<lambda>_. True) key_next (t_keys t) (t_keys (snd (RevokeAccountKeysExcept now acct keep t)))"
  "table_evolves (\<lambda>_. True) key_next (t_keys t) (t_keys (snd (InsertAccessKey now acct k h description scope expires t)))"
  by (auto simp: TouchAccessKey_def RevokeAccessKey_def RevokeAccountKeysExcept_def InsertAccessKey_def Let_def key_next_def
      revoke_def intro!: key_life.evolves_update key_life.evolves_append key_life.evolves_refl split: sum.split)

lemma keys_follow_others:
  "t_keys (snd (update_login lower now subject username email admin t)) = t_keys t"
  "t_keys (snd (insert_login lower now k subject username email admin t)) = t_keys t"
  "t_keys (snd (insert_bootstrap now k t)) = t_keys t"
  "t_keys (snd (CreateSession acct token expires t)) = t_keys t"
  "t_keys (snd (DeleteSession token t)) = t_keys t"
  "t_keys (snd (CreateLoginAttempt state nonce verifier expires t)) = t_keys t"
  "t_keys (snd (TakeLoginAttempt now state t)) = t_keys t"
  "t_keys (snd (delete_expired_sessions now t)) = t_keys t"
  "t_keys (snd (delete_expired_logins now t)) = t_keys t"
  by (auto simp: update_login_def insert_login_def insert_bootstrap_def CreateSession_def DeleteSession_def
      CreateLoginAttempt_def TakeLoginAttempt_def delete_expired_sessions_def delete_expired_logins_def Let_def
      split: sum.split)

text \<open>A key that is revoked holds nothing any more, however the table evolves.\<close>

lemma revoked_holds_nothing:
  assumes follows: "keys_follow ks d" and k: "k \<in> set ks" "ak_revoked_at k \<noteq> None"
    and ids: "distinct (map ak_id (t_keys (d_tenants d)))" and t: "tk_id t = ak_id k"
  shows "key_holder E t d now = None"
proof -
  obtain n where n: "n < length ks" "ks ! n = k"
    using k(1) by (auto simp: in_set_conv_nth)
  define k' where "k' = t_keys (d_tenants d) ! n"
  have k': "n < length (t_keys (d_tenants d))" "key_next k k'"
    using key_life.evolves_nth [OF follows [unfolded keys_follow_def] _ n(1)] n(2) by (auto simp: k'_def list_all_iff)
  have "select_one (\<lambda>b. ak_id b = tk_id t) (t_keys (d_tenants d)) = Inr k'"
    by (rule select_one_distinct [OF ids]) (use k' t in \<open>auto simp: k'_def key_next_def\<close>)
  moreover have "Status k' now \<noteq> KeyActive"
    using k'(2) k(2) by (simp add: key_next_def Status_def)
  ultimately show ?thesis
    by (auto simp: key_holder_def LookupAccessKey_def split: sum.split)
qed

end
