(* ===== verification/Worker_Stops.thy ===== *)
theory Worker_Stops
  imports Worker_Safety Reconciler Sign_In
begin

text \<open>
  When the loops of the process end: \<open>RunWorker\<close> (\<open>worker.go\<close>), \<open>RunReconciler\<close> (\<open>reconcile.go\<close>) and
  \<open>RunJanitor\<close> (\<open>server.go\<close>) have no end of their own, they stop when their context does. The contract
  of such a loop is a locale: a body that takes time, and a turn that asks the context first or last.
\<close>

section \<open>Time passes\<close>

text \<open>The step counter never goes back, whatever a step does.\<close>

definition ticked :: "nat \<Rightarrow> 'h world \<Rightarrow> bool" where
  "ticked n w \<longleftrightarrow> n \<le> w_tick w"

definition disk_ticked :: "nat \<Rightarrow> 'h world \<times> location \<Rightarrow> bool" where
  "disk_ticked n s \<longleftrightarrow> ticked n (fst s)"

named_theorems tick_intros \<open>rules that carry the passing of time through a program\<close>

lemma ticked_if: "(\<And>w. w_tick w \<le> w_tick (snd (m w))) \<Longrightarrow> keeps (ticked n) m"
  by (rule keepsI) (auto simp: ticked_def intro: order_trans)

lemma ticked_steps [tick_intros]:
  "keeps (ticked n) (sql E f)" "keeps (ticked n) (db E f)" "keeps (ticked n) (external g)"
  "keeps (ticked n) (clock E)" "keeps (ticked n) (cancelled E)" "keeps (ticked n) (random_hex E)"
  "keeps (ticked n) (random_mac E)" "keeps (ticked n) Wake" "keeps (ticked n) wakeLedger" "keeps (ticked n) (log_event ev)"
  "keeps (ticked n) (of_res r)"
  by (rule ticked_if; simp add: sql_def db_def interfere_def external_def clock_def cancelled_def random_hex_def of_res_def
      random_mac_def Wake_def wakeLedger_def log_event_def put_world_def Let_def split_beta)+

lemma ticked_put [tick_intros]: "(\<And>w. w_tick (f w) = w_tick w) \<Longrightarrow> keeps (ticked n) (put_world f)"
  by (rule ticked_if) (simp add: put_world_def)

lemma ticked_tx [tick_intros]:
  fixes E :: "'h env"
  assumes "keeps (ticked n) m"
  shows "keeps (ticked n) (tx E m)"
proof (rule keepsI)
  fix w :: "'h world" assume "ticked n w"
  then have "ticked n (snd (m (interfere E w)))"
    by (intro keepsD [OF assms]) (simp add: ticked_def interfere_def)
  then show "ticked n (snd (tx E m w))"
    by (auto simp: tx_def Let_def ticked_def split: prod.split sum.split)
qed

lemma ticked_calls [tick_intros]: "keeps (ticked n) (pve_do ev f)" "keeps (ticked n) (vm_config E vmid)"
  unfolding pve_do_def vm_config_def by (intro keeps_intros tick_intros)+

lemma ticked_task [tick_intros]: "keeps (ticked n) m \<Longrightarrow> keeps (ticked n) (task E m)"
  unfolding task_def by (intro keeps_intros tick_intros)

lemma ticked_logged [tick_intros]: "keeps (ticked n) m \<Longrightarrow> keeps (ticked n) (logged m)"
  unfolding logged_def by (intro keeps_intros)

lemma ticked_on_world [tick_intros]: "keeps (ticked n) m \<Longrightarrow> keeps (disk_ticked n) (on_world m)"
  by (fastforce simp: keeps_def disk_ticked_def on_world_def split: prod.splits)

lemma ticked_loc [tick_intros]: "keeps (disk_ticked n) get_loc" "keeps (disk_ticked n) (set_loc l)"
  by (simp_all add: get_loc_def get_world_def keeps_def set_loc_def put_world_def disk_ticked_def)

lemma ticked_with_location [tick_intros]:
  fixes m :: "('h, 'a) disk"
  assumes "keeps (disk_ticked n) m"
  shows "keeps (ticked n) (with_location l m)"
proof (rule keepsI)
  fix w :: "'h world" assume "ticked n w"
  then have "disk_ticked n (snd (m (w, l)))"
    by (intro keepsD [OF assms]) (simp add: disk_ticked_def)
  then show "ticked n (snd (with_location l m w))"
    by (simp add: with_location_def disk_ticked_def split_beta)
qed

lemma ticked_disk_steps [tick_intros]: "keeps (disk_ticked n) (record_location E k)" "keeps (disk_ticked n) (vm_config' E vmid)"
  unfolding record_location_def vm_config'_def by (intro keeps_intros tick_intros)+

section \<open>The steps of the worker\<close>

lemma ticked_reads [tick_intros]:
  "keeps (ticked n) (list_vms E)" "keeps (ticked n) (owns E vmid i)" "keeps (ticked n) (volumeExists E s v)"
  "keeps (ticked n) (setOnboot E k vmid on)"
  unfolding list_vms_def owns_def volumeExists_def setOnboot_def Let_def by (intro keeps_intros tick_intros; simp)+

lemma ticked_keep_entries [tick_intros]: "keeps (ticked n) (keep_entries E vmid missing entries)"
  by (induction entries arbitrary: missing) (auto intro!: keeps_intros tick_intros split: option.split)

lemma ticked_firewall [tick_intros]:
  "keeps (ticked n) (applyFirewall E i)"
  unfolding applyFirewall_def replaceRules_def pinAddress_def setFilteredOptions_def filterNIC_def Let_def
  by (intro keeps_intros tick_intros)

lemma ticked_firewalls [tick_intros]:
  "keeps (ticked n) (workFirewallOnce E)" "keeps (ticked n) (writeFirewall E k)"
  unfolding workFirewallOnce_def writeFirewall_def by (intro keeps_intros tick_intros)+

lemma ticked_disks [tick_intros]:
  "keeps (ticked n) (pendingKey E vmid key)" "keeps (ticked n) (diskSizeGiB E volid)"
  "keeps (ticked n) (volIDClaimed E volid k)" "keeps (ticked n) (volume_by_volid E volid)"
  "keeps (ticked n) (configure E vmid params)" "keeps (ticked n) (ensureHolder E)"
  unfolding pendingKey_def diskSizeGiB_def volIDClaimed_def volume_by_volid_def configure_def ensureHolder_def Let_def
  by (intro keeps_intros tick_intros; simp)+

lemma ticked_locate [tick_intros]: "keeps (disk_ticked n) (locate E k)"
  unfolding locate_def find_at_home_def find_at_destination_def Let_def by (intro keeps_intros tick_intros)

lemma ticked_unplug [tick_intros]: "keeps (disk_ticked n) (unplug E k)"
  unfolding unplug_def Let_def by (intro keeps_intros tick_intros)

lemma ticked_move [tick_intros]: "keeps (disk_ticked n) (move E k target)"
  unfolding move_def hand_over_disk_def finish_move_def Let_def by (intro keeps_intros tick_intros)

lemma ticked_allocate [tick_intros]: "keeps (disk_ticked n) (createVolumeDisk E v)"
  unfolding createVolumeDisk_def allocate_disk_def Let_def by (intro keeps_intros tick_intros)

lemma ticked_attach_target [tick_intros]: "keeps (ticked n) (attach_target E v)"
  unfolding attach_target_def
  by (intro keeps_intros tick_intros; simp split: option.split bool.split; intro keeps_intros tick_intros allI impI conjI)

lemma ticked_attach [tick_intros]: "keeps (disk_ticked n) (attachVolumeDisk E v)"
  unfolding attachVolumeDisk_def plug_in_def Let_def by (intro keeps_intros tick_intros)

lemma ticked_volume_steps [tick_intros]:
  "keeps (disk_ticked n) (detachVolumeDisk E v)" "keeps (disk_ticked n) (deleteVolumeDisk E v)"
  unfolding detachVolumeDisk_def deleteVolumeDisk_def destroy_disk_def Let_def by (intro keeps_intros tick_intros)+

lemma ticked_resize [tick_intros]: "keeps (disk_ticked n) (resizeVolumeDisk E v)"
  unfolding resizeVolumeDisk_def grow_volume_def plug_on_holder_def Let_def by (intro keeps_intros tick_intros)

lemma ticked_carryOutVolume [tick_intros]: "keeps (disk_ticked n) (carryOutVolume E v)"
  unfolding carryOutVolume_def by (auto split: option.split vol_action.split intro!: keeps_intros tick_intros)

lemma ticked_workVolumeOnce [tick_intros]: "keeps (ticked n) (workVolumeOnce E)"
  unfolding workVolumeOnce_def processVolume_def volume_failed_def give_up_volume_def Let_def by (intro keeps_intros tick_intros)

lemma ticked_instance_parts [tick_intros]:
  "keeps (ticked n) (ResolveImage E k)" "keeps (ticked n) (ResolveISO E k)"
  unfolding ResolveImage_def ResolveISO_def adminISOs_def Let_def by (intro keeps_intros tick_intros)+

lemma ticked_address [tick_intros]: "keeps (ticked n) (address E i)"
  unfolding address_def ipRange_def by (auto intro!: keeps_intros tick_intros split: list.split option.split)

lemma ticked_uploadSeed [tick_intros]: "keeps (ticked n) (uploadSeed E i ip)"
  unfolding uploadSeed_def seed_guest_os_def Let_def by (intro keeps_intros tick_intros)

lemma ticked_createVM [tick_intros]: "keeps (ticked n) (createVM E i r)"
  unfolding createVM_def create_params_def moveVMID_def allocate_vmid_def by (intro keeps_intros tick_intros)

lemma ticked_launch [tick_intros]: "keeps (ticked n) (launch E i)"
  unfolding launch_def launch_address_def launch_seed_def launch_vm_def launch_boot_def growDisk_def
    record_resources_def Let_def
  by (intro keeps_intros tick_intros)

lemma ticked_no_volume_on [tick_intros]: "keeps (ticked n) (no_volume_on E vmid c keys)"
  by (induction keys) (auto intro!: keeps_intros tick_intros)

lemma ticked_returnVolumes [tick_intros]: "keeps (ticked n) (returnVolumes E i vmid)"
  unfolding returnVolumes_def refuseToDestroyVolumes_def return_volume_def by (intro keeps_intros tick_intros)

lemma ticked_terminate [tick_intros]: "keeps (ticked n) (terminate E i)"
  unfolding terminate_def terminate_vm_def delete_vm_def terminate_seed_def terminate_addresses_def release_ip_def Let_def
  by (intro keeps_intros tick_intros)

lemma ticked_power [tick_intros]: "keeps (ticked n) (power E i act params)"
  unfolding power_def Let_def by (intro keeps_intros tick_intros)

lemma ticked_carryOut [tick_intros]: "keeps (ticked n) (carryOut E i a)"
  unfolding carryOut_def by (cases a) (auto intro!: keeps_intros tick_intros)

lemma ticked_give_up [tick_intros]: "keeps (ticked n) (give_up_instance E i a reason)"
  unfolding give_up_instance_def by (cases a) (auto intro!: keeps_intros tick_intros)

lemma ticked_workInstanceOnce [tick_intros]: "keeps (ticked n) (workInstanceOnce E)"
  unfolding workInstanceOnce_def process_def instance_failed_def instance_finished_def Let_def by (intro keeps_intros tick_intros)

lemma ticked_WorkOnce: "keeps (ticked n) (WorkOnce E)"
  unfolding WorkOnce_def by (intro keeps_intros tick_intros)

lemma ticked_Reconcile: "keeps (ticked n) (Reconcile E)"
  unfolding Reconcile_def reconcile_one_def record_observed_def observe_power_def ensure_onboot_def onbootKnown_def Let_def
  by (intro keeps_intros tick_intros)

lemma ticked_DeleteExpired: "keeps (ticked n) (DeleteExpired E)"
  unfolding DeleteExpired_def by (intro keeps_intros tick_intros)

section \<open>Loops that stop with their context\<close>

text \<open>
  A turn either ends the loop, whatever would have come next, or takes time and goes on. Once the
  context has ended for good a turn ends the loop.
\<close>

locale stopping_loop =
  fixes E :: "'h env"
    and turn :: "('h, unit) cloud \<Rightarrow> ('h, unit) cloud"
    and run :: "nat \<Rightarrow> ('h, unit) cloud"
  assumes run_Suc: "run (Suc n) = turn (run n)"
    and turn_cases: "(\<exists>s. \<forall>rest. turn rest w = s) \<or> (\<exists>w'. w_tick w < w_tick w' \<and> (\<forall>rest. turn rest w = rest w'))"
    and turn_ends: "(\<And>n. N \<le> n \<Longrightarrow> e_cancelled E n) \<Longrightarrow> N \<le> w_tick w \<Longrightarrow> \<exists>s. \<forall>rest. turn rest w = s"
begin

lemma run_ended: "\<forall>rest. turn rest w = s \<Longrightarrow> run (Suc n) w = s"
  by (simp add: run_Suc)

lemma run_stops:
  assumes "\<And>n. N \<le> n \<Longrightarrow> e_cancelled E n"
  shows "N \<le> w_tick w + turns \<Longrightarrow> run (Suc (turns + extra)) w = run (Suc turns) w"
proof (induction turns arbitrary: w)
  case 0
  then have "N \<le> w_tick w"
    by simp
  from turn_ends [OF assms this] obtain s where "\<forall>rest. turn rest w = s"
    by blast
  then show ?case
    using run_ended by simp
next
  case (Suc turns)
  from turn_cases [of w] show ?case
  proof (elim disjE exE conjE)
    fix s assume "\<forall>rest. turn rest w = s"
    then show ?case
      using run_ended by simp
  next
    fix w' assume later: "w_tick w < w_tick w'" and goes_on: "\<forall>rest. turn rest w = rest w'"
    have "run (Suc (turns + extra)) w' = run (Suc turns) w'"
      using Suc later by auto
    then show ?case
      using goes_on run_Suc [of "Suc (turns + extra)"] run_Suc [of "Suc turns"] by simp
  qed
qed

end


definition worker_turn :: "'h env \<Rightarrow> ('h, unit) cloud \<Rightarrow> ('h, unit) cloud" where
  "worker_turn E rest = bindE (cancelled E) (\<lambda>stop. if stop then ret ()
     else bindE (WorkOnce E) (\<lambda>worked. seqE (whenE (\<not> worked) wait_for_wake) rest))"

text \<open>\<open>RunReconciler\<close> and \<open>RunJanitor\<close>: a step whose error is only logged, then the context is asked.\<close>

definition ticker_turn :: "'h env \<Rightarrow> ('h, 'a) cloud \<Rightarrow> ('h, unit) cloud \<Rightarrow> ('h, unit) cloud" where
  "ticker_turn E body rest = seqE (logged body) (bindE (cancelled E) (\<lambda>stop. if stop then ret () else rest))"

lemma logged_Inr: "logged m w = (Inr (), snd (m w))"
  by (simp add: logged_def prog_defs split: prod.split)

lemma ticker_turn_eq:
  "ticker_turn E body rest w = (let w' = snd (body w) in
     if e_cancelled E (w_tick w') then (Inr (), w'\<lparr>w_tick := Suc (w_tick w')\<rparr>) else rest (w'\<lparr>w_tick := Suc (w_tick w')\<rparr>))"
  by (simp add: ticker_turn_def logged_Inr cancelled_def prog_defs Let_def)

lemma worker_turn_eq:
  "worker_turn E rest w = (let v = w\<lparr>w_tick := Suc (w_tick w)\<rparr> in
     if e_cancelled E (w_tick w) then (Inr (), v)
     else case WorkOnce E v of (Inl e, v') \<Rightarrow> (Inl e, v')
       | (Inr worked, v') \<Rightarrow> rest (if worked then v' else v'\<lparr>w_wake := False\<rparr>))"
  by (simp add: worker_turn_def cancelled_def prog_defs Let_def whenE_def wait_for_wake_def split: prod.split sum.split)

lemma ticked_le: "keeps (ticked (w_tick w)) m \<Longrightarrow> w_tick w \<le> w_tick (snd (m w))"
  by (auto simp: keeps_def ticked_def)

lemma ticker_stops:
  assumes "\<And>n. keeps (ticked n) body" and "\<And>n. run (Suc n) = ticker_turn E body (run n)"
  shows "stopping_loop E (ticker_turn E body) run"
proof (unfold_locales, goal_cases)
  case (2 w)
  have "w_tick w \<le> w_tick (snd (body w))"
    by (rule ticked_le [OF assms(1)])
  then show ?case
    by (auto simp: ticker_turn_eq Let_def intro!: exI [of _ "(snd (body w))\<lparr>w_tick := Suc (w_tick (snd (body w)))\<rparr>"])
next
  case (3 N w)
  have "e_cancelled E (w_tick (snd (body w)))"
    using 3 ticked_le [OF assms(1), of w] by simp
  then show ?case
    by (simp add: ticker_turn_eq Let_def)
qed (rule assms(2))

interpretation worker: stopping_loop E "worker_turn E" "\<lambda>n. RunWorker n E"
proof (unfold_locales, goal_cases)
  case (2 w)
  let ?v = "w\<lparr>w_tick := Suc (w_tick w)\<rparr>"
  obtain r v' where run: "WorkOnce E ?v = (r, v')"
    by fastforce
  have "Suc (w_tick w) \<le> w_tick v'"
    using ticked_le [OF ticked_WorkOnce, of ?v E] run by simp
  then have later: "w_tick w < w_tick v'" "w_tick w < w_tick (v'\<lparr>w_wake := False\<rparr>)"
    by simp_all
  show ?case
  proof (cases "e_cancelled E (w_tick w)")
    case True
    then show ?thesis
      by (simp add: worker_turn_eq Let_def)
  next
    case False
    have "\<forall>rest. worker_turn E rest w = (case r of Inl e \<Rightarrow> (Inl e, v') | Inr worked \<Rightarrow> rest (if worked then v' else v'\<lparr>w_wake := False\<rparr>))"
      using run False by (simp add: worker_turn_eq Let_def split: sum.split)
    with later show ?thesis
      by (cases r) (auto intro: exI [of _ v'] exI [of _ "v'\<lparr>w_wake := False\<rparr>"])
  qed
next
  case (3 N w)
  then show ?case
    by (simp add: worker_turn_eq Let_def)
qed (simp add: worker_turn_def)

interpretation reconciler: stopping_loop E "ticker_turn E (Reconcile E)" "\<lambda>n. RunReconciler n E"
  by (rule ticker_stops) (simp_all add: ticked_Reconcile ticker_turn_def)

interpretation janitor: stopping_loop E "ticker_turn E (DeleteExpired E)" "\<lambda>n. RunJanitor n E"
  by (rule ticker_stops) (simp_all add: ticked_DeleteExpired ticker_turn_def)

text \<open>
  C5. The loops of the process end when their context does: once it has ended for good by some step
  of the clock, a bounded number of turns is all they make (more fuel changes nothing), and a worker
  that starts a turn after that does nothing but look.
\<close>
theorem loops_end_with_context:
  assumes "\<And>n. N \<le> n \<Longrightarrow> e_cancelled E n" and "N \<le> w_tick w + turns"
  shows "RunWorker (Suc (turns + extra)) E w = RunWorker (Suc turns) E w \<and>
    RunReconciler (Suc (turns + extra)) E w = RunReconciler (Suc turns) E w \<and>
    RunJanitor (Suc (turns + extra)) E w = RunJanitor (Suc turns) E w \<and>
    (N \<le> w_tick w \<longrightarrow> RunWorker (Suc turns) E w = (Inr (), w\<lparr>w_tick := Suc (w_tick w)\<rparr>))"
proof (intro conjI impI)
  assume "N \<le> w_tick w"
  then show "RunWorker (Suc turns) E w = (Inr (), w\<lparr>w_tick := Suc (w_tick w)\<rparr>)"
    using assms(1) by (simp add: cancelled_def prog_defs)
qed (rule worker.run_stops reconciler.run_stops janitor.run_stops; fact assms)+

text \<open>A context that ends at the fourth step: two turns of a worker that finds nothing to do.\<close>

definition ending_env :: "unit env" where
  "ending_env = (quiet_env offline_pve offline_ipam)\<lparr>e_cancelled := (\<lambda>n. 4 \<le> n)\<rparr>"

theorem loops_end_with_context_witness:
  "RunWorker 7 ending_env (start_world () empty_ledger) = RunWorker 5 ending_env (start_world () empty_ledger) \<and>
   fst (RunReconciler 7 ending_env (start_world () empty_ledger)) = fst (RunReconciler 5 ending_env (start_world () empty_ledger))"
  using loops_end_with_context [of 4 ending_env "start_world () empty_ledger" 4 2]
  by (simp add: ending_env_def start_world_def del: RunWorker.simps RunReconciler.simps)


end
