(* ===== verification/Request_Contract.thy ===== *)
theory Request_Contract
  imports Request_Steps
begin

text \<open>
  The ledger contract as the handlers need it: they act on the one row they locked, so the property
  they are to keep has to come with the tables' constraints (IDs are unique, an attached volume is
  on a device). \<open>request_contract\<close> extends \<open>ledger_contract\<close> with that law; it is interpreted on the
  constraints themselves and on the lifecycles together with them.
\<close>

locale request_contract = ledger_contract +
  assumes tables: "Q t v \<Longrightarrow> tables_ok t v"
begin

lemma one_instance: "Q t v \<Longrightarrow> GetInstance k t = Inr i \<Longrightarrow> j \<in> set t \<Longrightarrow> i_id j = k \<Longrightarrow> j = i"
  using select_one_distinct [of i_id t j k] tables
  by (fastforce simp: tables_ok_def inst_constraints_def GetInstance_def by_id_def [abs_def])

lemma one_volume: "Q t v \<Longrightarrow> GetVolume k v = Inr x \<Longrightarrow> y \<in> set v \<Longrightarrow> v_id y = k \<Longrightarrow> y = x"
  using select_one_distinct [of v_id v y k] tables
  by (fastforce simp: tables_ok_def vol_constraints_def GetVolume_def vol_by_id_def [abs_def])

lemma volume_row_ok: "Q t v \<Longrightarrow> x \<in> set v \<Longrightarrow> vol_row_ok x"
  using tables by (auto simp: tables_ok_def vol_constraints_def list_all_iff)

text \<open>The row a handler locked, while it is still what the ledger holds.\<close>

definition at_instance :: "string \<Rightarrow> instance_row \<Rightarrow> ledger \<Rightarrow> bool" where
  "at_instance k i d \<longleftrightarrow> P d \<and> GetInstance k (d_instances d) = Inr i"

definition at_volume :: "string \<Rightarrow> volume_row \<Rightarrow> ledger \<Rightarrow> bool" where
  "at_volume k x d \<longleftrightarrow> P d \<and> GetVolume k (d_volumes d) = Inr x"

lemma locked_instance: "in_tx P (lock_instance E k authorize) (at_instance k)"
  by (rule in_tx_lock_instance) (simp add: at_instance_def)

lemma locked_volume: "in_tx P (lock_volume E k authorize) (at_volume k)"
  by (rule in_tx_lock_volume) (simp add: at_volume_def)

lemma in_tx_at_instance: "in_tx P m Q' \<Longrightarrow> in_tx (at_instance k i) m Q'"
  by (erule in_tx_pre) (simp add: at_instance_def)

lemma in_tx_at_volume: "in_tx P m Q' \<Longrightarrow> in_tx (at_volume k x) m Q'"
  by (erule in_tx_pre) (simp add: at_volume_def)

text \<open>A read, and the statements a handler issues on the row it locked.\<close>

lemma in_tx_read: "in_tx R (sql E (\<lambda>_. reading f)) (\<lambda>_. R)"
  by (rule in_tx_reading)

lemma in_tx_instance_law:
  "(\<And>now t v. Q t v \<Longrightarrow> GetInstance k t = Inr i \<Longrightarrow> Q (snd (f now t)) v) \<Longrightarrow>
   in_tx (at_instance k i) (sql E (\<lambda>now. on_instances (f now))) (\<lambda>_. P)"
  by (rule in_tx_sql) (auto simp: at_instance_def on_instances_def split: prod.splits dest!: sndI)

lemma in_tx_volume_law:
  "(\<And>now t v. Q t v \<Longrightarrow> GetVolume k v = Inr x \<Longrightarrow> Q t (snd (f now v))) \<Longrightarrow>
   in_tx (at_volume k x) (sql E (\<lambda>now. on_volumes (f now))) (\<lambda>_. P)"
  by (rule in_tx_sql) (auto simp: at_volume_def on_volumes_def split: prod.splits dest!: sndI)

lemma in_tx_set_action:
  assumes "life_edge (phase i) (st, Some a)" and "st \<noteq> StateTerminated"
  shows "in_tx (at_instance k i) (sql E (\<lambda>now. on_instances (SetAction now k st a))) (\<lambda>_. P)"
proof (rule in_tx_instance_law)
  fix now t v assume "Q t v" and "GetInstance k t = Inr i"
  then show "Q (snd (SetAction now k st a t)) v"
    by (intro set_action) (use assms in \<open>auto dest: one_instance\<close>)
qed

end

lemma ask_edge_iff:
  "life_edge p (StateStopping, Some ActionStop) \<longleftrightarrow> p = (StateRunning, None)"
  "life_edge p (StatePending, Some ActionStart) \<longleftrightarrow> p = (StateStopped, None)"
  "life_edge p (StateRunning, Some ActionReboot) \<longleftrightarrow> p = (StateRunning, None)"
  "life_edge p (StateShuttingDown, Some ActionTerminate) \<longleftrightarrow> fst p \<noteq> StateTerminated \<and> snd p \<noteq> Some ActionTerminate"
  by (cases p; auto simp: life_edge.simps)+

section \<open>Interpretations\<close>

definition orderly :: "inst_table \<Rightarrow> vol_table \<Rightarrow> inst_table \<Rightarrow> vol_table \<Rightarrow> bool" where
  "orderly t0 v0 t v \<longleftrightarrow> lifecycles t0 v0 t v \<and> tables_ok t v"

interpretation kept_request: request_contract tables_ok
  by unfold_locales simp

interpretation orderly: request_contract "orderly t0 v0" for t0 v0
  by (unfold_locales; unfold orderly_def; (elim conjE)?; (intro conjI)?)
    (blast intro: life.insert kept.insert life.insert_adopted kept.insert_adopted life.claim kept.claim life.finish
      kept.finish life.retry kept.retry life.abandon kept.abandon life.give_up kept.give_up life.release kept.release
      life.record_resources kept.record_resources life.set_tags kept.set_tags life.set_spec kept.set_spec
      life.note_reason kept.note_reason life.observe kept.observe life.set_action kept.set_action life.bump kept.bump
      life.bump_touch kept.bump_touch life.fw_claim kept.fw_claim life.fw_retry kept.fw_retry life.fw_applied
      kept.fw_applied life.vol_insert kept.vol_insert life.vol_claim kept.vol_claim life.vol_record kept.vol_record
      life.vol_release kept.vol_release life.vol_finish kept.vol_finish life.vol_retry kept.vol_retry
      life.vol_give_up_create kept.vol_give_up_create life.vol_give_up_attach kept.vol_give_up_attach
      life.vol_give_up_resize kept.vol_give_up_resize life.vol_return kept.vol_return life.vol_attach kept.vol_attach
      life.vol_detach kept.vol_detach life.vol_resize kept.vol_resize life.vol_delete kept.vol_delete)+

end
