(* ===== verification/Fleet.thy ===== *)
theory Fleet
  imports Request_Contract
begin

text \<open>
  The abstract specification of the control plane: what an account sees of its machines and disks. A
  fleet maps the ID of a machine or a disk to its owner and to what it is doing; nothing is ever
  removed, nobody changes hands, a machine appears as one being launched or as an adopted one that is
  settled, a disk as one being created, and both move along the edges of their lifecycles. The
  interpretation at the end shows that every statement of the ledger refines it.
\<close>

section \<open>The specification\<close>

type_synonym machines = "(string, string \<times> phase) map"
type_synonym disks = "(string, string \<times> vol_phase) map"

inductive fleet_step :: "machines \<times> disks \<Rightarrow> machines \<times> disks \<Rightarrow> bool" where
  launch: "k \<notin> dom m \<Longrightarrow> fleet_step (m, d) (m(k \<mapsto> (owner, (StatePending, Some ActionLaunch))), d)"
| adopt: "k \<notin> dom m \<Longrightarrow> st = StateRunning \<or> st = StateStopped \<Longrightarrow> fleet_step (m, d) (m(k \<mapsto> (owner, (st, None))), d)"
| machine: "m k = Some (owner, p) \<Longrightarrow> life_edge p q \<Longrightarrow> fleet_step (m, d) (m(k \<mapsto> (owner, q)), d)"
| create: "k \<notin> dom d \<Longrightarrow>
    fleet_step (m, d) (m, d(k \<mapsto> (owner, (VolumeCreating, Some VolumeActionCreate, None))))"
| disk: "d k = Some (owner, p) \<Longrightarrow> vol_edge p q \<Longrightarrow> fleet_step (m, d) (m, d(k \<mapsto> (owner, q)))"

abbreviation fleet_steps :: "machines \<times> disks \<Rightarrow> machines \<times> disks \<Rightarrow> bool" where
  "fleet_steps \<equiv> fleet_step\<^sup>*\<^sup>*"

text \<open>What holds of the specification: owners stay, and what has ended has ended.\<close>

lemma fleet_owner_stays:
  assumes "fleet_steps f g"
  shows "fst f k = Some (owner, p) \<Longrightarrow> \<exists>q. fst g k = Some (owner, q) \<and> life_edge\<^sup>*\<^sup>* p q"
  using assms
proof (induction rule: rtranclp_induct)
  case (step g h)
  then obtain q where q: "fst g k = Some (owner, q)" "life_edge\<^sup>*\<^sup>* p q"
    by blast
  from step(2) show ?case
    by (cases rule: fleet_step.cases) (use q in \<open>auto intro: rtranclp.rtrancl_into_rtrancl simp del: split_paired_Ex split_paired_All\<close>)
qed auto

lemma fleet_terminated_stays:
  "fleet_steps f g \<Longrightarrow> fst f k = Some (owner, (StateTerminated, None)) \<Longrightarrow> fst g k = Some (owner, (StateTerminated, None))"
  using fleet_owner_stays [of f g k owner "(StateTerminated, None)"] terminated_stays by fastforce

lemma fleet_disk_stays:
  assumes "fleet_steps f g"
  shows "snd f k = Some (owner, p) \<Longrightarrow> \<exists>q. snd g k = Some (owner, q) \<and> vol_edge\<^sup>*\<^sup>* p q"
  using assms
proof (induction rule: rtranclp_induct)
  case (step g h)
  then obtain q where q: "snd g k = Some (owner, q)" "vol_edge\<^sup>*\<^sup>* p q"
    by blast
  from step(2) show ?case
    by (cases rule: fleet_step.cases) (use q in \<open>auto intro: rtranclp.rtrancl_into_rtrancl simp del: split_paired_Ex split_paired_All\<close>)
qed auto

section \<open>The abstraction\<close>

definition machines_of :: "inst_table \<Rightarrow> machines" where
  "machines_of t = map_of (map (\<lambda>i. (i_id i, (i_account i, phase i))) t)"

definition disks_of :: "vol_table \<Rightarrow> disks" where
  "disks_of v = map_of (map (\<lambda>x. (v_id x, (v_account x, vol_phase x))) v)"

definition fleet_of :: "inst_table \<Rightarrow> vol_table \<Rightarrow> machines \<times> disks" where
  "fleet_of t v = (machines_of t, disks_of v)"

lemma machine_path:
  assumes "life_edge\<^sup>*\<^sup>* p q"
  shows "fleet_steps (m(k \<mapsto> (owner, p)), d) (m(k \<mapsto> (owner, q)), d)"
  using assms
proof (induction rule: rtranclp_induct)
  case (step q r)
  have "fleet_step (m(k \<mapsto> (owner, q)), d) (m(k \<mapsto> (owner, r)), d)"
    using fleet_step.machine [of "m(k \<mapsto> (owner, q))" k owner q r d] step(2) by simp
  with step(3) show ?case
    by (rule rtranclp.rtrancl_into_rtrancl)
qed simp

lemma disk_path:
  assumes "vol_edge\<^sup>*\<^sup>* p q"
  shows "fleet_steps (m, d(k \<mapsto> (owner, p))) (m, d(k \<mapsto> (owner, q)))"
  using assms
proof (induction rule: rtranclp_induct)
  case (step q r)
  have "fleet_step (m, d(k \<mapsto> (owner, q))) (m, d(k \<mapsto> (owner, r)))"
    using fleet_step.disk [of "d(k \<mapsto> (owner, q))" k owner q r m] step(2) by simp
  with step(3) show ?case
    by (rule rtranclp.rtrancl_into_rtrancl)
qed simp

text \<open>A table whose rows all took steps took them one after the other.\<close>

lemma rows_one_by_one:
  assumes refl: "\<And>f. T f f" and trans: "\<And>f g h. T f g \<Longrightarrow> T g h \<Longrightarrow> T f h"
    and rows: "list_all2 (\<lambda>r s. key s = key r \<and> (\<forall>f. T (f(key r \<mapsto> val r)) (f(key r \<mapsto> val s)))) t u"
    and "distinct (map key t)" and "dom f \<inter> key ` set t = {}"
  shows "T (map_of (map (\<lambda>r. (key r, val r)) t) ++ f) (map_of (map (\<lambda>r. (key r, val r)) u) ++ f)"
  using rows assms(4,5)
proof (induction arbitrary: f rule: list_all2_induct)
  case (Cons r t s u)
  let ?tab = "\<lambda>t. map_of (map (\<lambda>r. (key r, val r)) t)"
  have move: "?tab (x # y) ++ f = ?tab y ++ f(key x \<mapsto> val x)" if "key x \<notin> dom f" for x y
    using that by (simp add: map_add_upd_left)
  have "T (?tab t ++ f(key r \<mapsto> val r)) (?tab u ++ f(key r \<mapsto> val r))"
  proof (rule Cons.IH)
    show "distinct (map key t)"
      using Cons.prems(1) by simp
    have "key r \<notin> key ` set t" and "dom f \<inter> insert (key r) (key ` set t) = {}"
      using Cons.prems by simp_all
    then show "dom (f(key r \<mapsto> val r)) \<inter> key ` set t = {}"
      by (metis Int_insert_left_if0 Int_insert_right dom_fun_upd insert_not_empty option.distinct(1))
  qed
  moreover have "T (?tab u ++ f(key r \<mapsto> val r)) (?tab u ++ f(key r \<mapsto> val s))"
    using Cons.hyps(1) by simp
  ultimately show ?case
    using Cons.prems Cons.hyps(1) by (subst (1 2) move) (auto intro: trans)
qed (simp add: refl)

lemma evolves_refines:
  assumes "evolves t u" "list_all row_ok t" "length u = length t" "distinct (map i_id t)"
  shows "fleet_steps (fleet_of t v) (fleet_of u v)"
proof -
  have "list_all2 row_next t u"
    using assms(1-3) by (simp add: table_evolves_def)
  then have rows: "list_all2 (\<lambda>r s. i_id s = i_id r \<and> (\<forall>f. fleet_steps (f(i_id r \<mapsto> (i_account r, phase r)), disks_of v)
      (f(i_id r \<mapsto> (i_account s, phase s)), disks_of v))) t u"
    by (rule list_all2_mono) (simp add: row_next_def same_identity_def machine_path)
  show ?thesis
    using rows_one_by_one [where f = Map.empty, OF _ _ rows assms(4)]
    by (auto simp: fleet_of_def machines_of_def intro: rtranclp_trans)
qed

lemma vol_evolves_refines:
  assumes "vol_evolves v u" "list_all vol_ok v" "length u = length v" "distinct (map v_id v)"
  shows "fleet_steps (fleet_of t v) (fleet_of t u)"
proof -
  have "list_all2 vol_next v u"
    using assms(1-3) by (simp add: table_evolves_def)
  then have rows: "list_all2 (\<lambda>r s. v_id s = v_id r \<and> (\<forall>f. fleet_steps (machines_of t, f(v_id r \<mapsto> (v_account r, vol_phase r)))
      (machines_of t, f(v_id r \<mapsto> (v_account s, vol_phase s))))) v u"
    by (rule list_all2_mono) (simp add: vol_next_def vol_identity_def disk_path)
  show ?thesis
    using rows_one_by_one [where f = Map.empty, OF _ _ rows assms(4)]
    by (auto simp: fleet_of_def disks_of_def intro: rtranclp_trans)
qed

lemma fresh_machine:
  assumes "distinct (map i_id (t @ [i]))"
  shows "i_id i \<notin> dom (machines_of t)" "machines_of (t @ [i]) = (machines_of t)(i_id i \<mapsto> (i_account i, phase i))"
proof -
  have "map_of (map (\<lambda>i. (i_id i, (i_account i, phase i))) t) (i_id i) = None"
    using assms by (auto simp: map_of_eq_None_iff)
  then show "i_id i \<notin> dom (machines_of t)" "machines_of (t @ [i]) = (machines_of t)(i_id i \<mapsto> (i_account i, phase i))"
    by (auto simp: machines_of_def map_add_def fun_eq_iff split: option.split)
qed

lemma fresh_disk:
  assumes "distinct (map v_id (v @ [x]))"
  shows "v_id x \<notin> dom (disks_of v)" "disks_of (v @ [x]) = (disks_of v)(v_id x \<mapsto> (v_account x, vol_phase x))"
proof -
  have "map_of (map (\<lambda>x. (v_id x, (v_account x, vol_phase x))) v) (v_id x) = None"
    using assms by (auto simp: map_of_eq_None_iff)
  then show "v_id x \<notin> dom (disks_of v)" "disks_of (v @ [x]) = (disks_of v)(v_id x \<mapsto> (v_account x, vol_phase x))"
    by (auto simp: disks_of_def map_add_def fun_eq_iff split: option.split)
qed

section \<open>The ledger refines it\<close>

definition refines_fleet :: "inst_table \<Rightarrow> vol_table \<Rightarrow> inst_table \<Rightarrow> vol_table \<Rightarrow> bool" where
  "refines_fleet t0 v0 t v \<longleftrightarrow> tables_ok t v \<and> list_all row_ok t \<and> list_all vol_ok v \<and>
     fleet_steps (fleet_of t0 v0) (fleet_of t v)"

lemma refines_machines:
  assumes "refines_fleet t0 v0 t v" "list_all row_ok t \<Longrightarrow> evolves t u" "length u = length t" "tables_ok u v"
  shows "refines_fleet t0 v0 u v"
proof -
  have "distinct (map i_id t)" and ok: "list_all row_ok t"
    using assms(1) by (auto simp: refines_fleet_def tables_ok_def inst_constraints_def)
  then have "fleet_steps (fleet_of t v) (fleet_of u v)"
    using assms(2,3) by (intro evolves_refines) auto
  then show ?thesis
    using assms ok inst_life.evolves_ok [of t u] by (auto simp: refines_fleet_def intro: rtranclp_trans)
qed

lemma refines_disks:
  assumes "refines_fleet t0 v0 t v" "list_all vol_ok v \<Longrightarrow> vol_evolves v u" "length u = length v" "tables_ok t u"
  shows "refines_fleet t0 v0 t u"
proof -
  have "distinct (map v_id v)" and ok: "list_all vol_ok v"
    using assms(1) by (auto simp: refines_fleet_def tables_ok_def vol_constraints_def)
  then have "fleet_steps (fleet_of t v) (fleet_of t u)"
    using assms(2,3) by (intro vol_evolves_refines) auto
  then show ?thesis
    using assms ok vol_life.evolves_ok [of v u] by (auto simp: refines_fleet_def intro: rtranclp_trans)
qed

lemma refines_new_machine:
  assumes "refines_fleet t0 v0 t v" "tables_ok (t @ [i]) v" "row_ok i"
    and "phase i = (StatePending, Some ActionLaunch) \<or> phase i = (StateRunning, None) \<or> phase i = (StateStopped, None)"
  shows "refines_fleet t0 v0 (t @ [i]) v"
proof -
  have distinct: "distinct (map i_id (t @ [i]))"
    using assms(2) by (simp add: tables_ok_def inst_constraints_def)
  have "fleet_step (fleet_of t v) (fleet_of (t @ [i]) v)"
    unfolding fleet_of_def fresh_machine(2) [OF distinct] using assms(4) fresh_machine(1) [OF distinct]
    by (elim disjE) (simp_all only: fleet_step.launch fleet_step.adopt simp_thms not_False_eq_True)
  with assms show ?thesis
    by (auto simp: refines_fleet_def intro: rtranclp.rtrancl_into_rtrancl)
qed

lemma refines_new_disk:
  assumes "refines_fleet t0 v0 t v" "tables_ok t (v @ [x])" "vol_ok x"
    and "vol_phase x = (VolumeCreating, Some VolumeActionCreate, None)"
  shows "refines_fleet t0 v0 t (v @ [x])"
proof -
  have distinct: "distinct (map v_id (v @ [x]))"
    using assms(2) by (simp add: tables_ok_def vol_constraints_def)
  have "fleet_step (fleet_of t v) (fleet_of t (v @ [x]))"
    unfolding fleet_of_def fresh_disk(2) [OF distinct] using assms(4) fresh_disk(1) [OF distinct]
    by (auto intro: fleet_step.create)
  with assms show ?thesis
    by (auto simp: refines_fleet_def intro: rtranclp.rtrancl_into_rtrancl)
qed

lemma length_claims:
  "length (snd (ClaimWork now lease t)) = length t" "length (snd (ClaimFirewallWork now lease t)) = length t"
  "length (snd (ClaimVolumeWork now lease v)) = length v"
  by (simp_all add: ClaimWork_def ClaimFirewallWork_def ClaimVolumeWork_def claim_first_def Let_def split: option.split list.split)

lemma length_statements:
  "length (snd (constrained t u r)) = (if inst_constraints u then length u else length t)"
  "length (snd (vol_constrained v w s)) = (if vol_constraints w then length w else length v)"
  by (simp_all add: constrained_def vol_constrained_def)

lemma length_laws:
  "length (snd (FinishAction now k a st reason t)) = length t"
  "length (snd (RetryLater now k a msg next t)) = length t"
  "length (snd (FinishVolumeAction now k va v)) = length v"
  by (simp_all add: FinishAction_def RetryLater_def FinishVolumeAction_def constrained_def vol_constrained_def
      set_if_pending_def set_vol_if_pending_def ReleaseLease_def ReleaseVolumeLease_def set_row_def set_vol_def
      split: prod.split sum.split)

lemmas length_rows = length_claims length_laws length_statements set_row_def set_if_pending_def set_vol_def set_vol_if_pending_def

lemmas machine_moves = evolves_firewall evolves_ClaimFirewallWork lifecycle_intros

lemma refines_tables: "refines_fleet t0 v0 t v \<Longrightarrow> tables_ok t v"
  by (simp add: refines_fleet_def)

interpretation fleet: request_contract "refines_fleet t0 v0" for t0 v0
proof (unfold_locales, goal_cases)
  case (1 t v now i)
  from kept.insert [OF refines_tables [OF 1], of now i] show ?case
    using 1 by (auto simp: InsertInstance_def Let_def constrained_def phase_def row_ok_def intro!: refines_new_machine)
next
  case (2 t v i now)
  from kept.insert_adopted [OF refines_tables [OF 2(1)] 2(2), of now] show ?case
    using 2 by (auto simp: InsertAdoptedInstance_def Let_def constrained_def phase_def row_ok_def intro!: refines_new_machine)
next
  case (14 t v k st a now)
  show ?case
    by (rule refines_machines [OF 14(1)], rule evolves_SetAction)
      (use 14 kept.set_action [OF refines_tables [OF 14(1)] 14(2,3), where now = now] in \<open>auto simp: list_all_iff SetAction_def length_rows\<close>)
next
  case (20 t v now x)
  from kept.vol_insert [OF refines_tables [OF 20], of now x] show ?case
    using 20 by (auto simp: InsertVolume_def Let_def vol_constrained_def vol_phase_def vol_ok_def intro!: refines_new_disk)
next
  case (30 t v k now inst device)
  show ?case
    by (rule refines_disks [OF 30(1)], rule vol_evolves_RequestAttach)
      (use 30 kept.vol_attach [OF refines_tables [OF 30(1)] 30(2), where now = now and inst = inst and device = device] in
        \<open>auto simp: list_all_iff RequestAttach_def length_rows\<close>)
next
  case (31 t v k now)
  show ?case
    by (rule refines_disks [OF 31(1)], rule vol_evolves_RequestDetach)
      (use 31 kept.vol_detach [OF refines_tables [OF 31(1)] 31(2), where now = now] in
        \<open>auto simp: list_all_iff RequestDetach_def length_rows\<close>)
next
  case (32 t v k now sz)
  show ?case
    by (rule refines_disks [OF 32(1)], rule vol_evolves_RequestResize)
      (use 32 kept.vol_resize [OF refines_tables [OF 32(1)] 32(2), where now = now and sz = sz] in
        \<open>auto simp: list_all_iff RequestResize_def length_rows\<close>)
next
  case (33 t v k now)
  show ?case
    by (rule refines_disks [OF 33(1)], rule vol_evolves_RequestDelete)
      (use 33 kept.vol_delete [OF refines_tables [OF 33(1)] 33(2), where now = now] in
        \<open>auto simp: list_all_iff RequestDelete_def length_rows\<close>)
next
  case (34 t v)
  then show ?case
    by (rule refines_tables)
qed (frule refines_tables, (erule refines_machines | erule refines_disks), blast intro: machine_moves,
  simp add: length_rows AbandonLaunch_def GiveUpAction_def ReleaseLease_def RecordResources_def SetInstanceTags_def SetSpec_def
    NoteReason_def ObserveState_def FirewallRetryLater_def RecordFirewallApplied_def RecordLocation_def ReleaseVolumeLease_def
    RetryVolumeLater_def GiveUpCreate_def GiveUpAttach_def GiveUpResize_def ReturnToHolder_def,
  blast intro: kept.instance_laws kept.volume_laws kept.bump kept.bump_touch)+

end
