(* ===== verification/Tenant_Contract.thy ===== *)
theory Tenant_Contract
  imports Sign_In
begin

text \<open>
  The contract between the sign-in handlers and their tables: a property of accounts, keys, sessions
  and logins in flight that every statement on them keeps. Each handler is shown once, inside the
  locale, to keep any such property; the interpretations say which properties those are.
\<close>

locale tenant_contract =
  fixes lower :: "string \<Rightarrow> string" and T :: "tenants \<Rightarrow> bool"
  assumes login_update: "T t \<Longrightarrow> T (snd (update_login lower now subject username email admin t))"
    and login_insert: "T t \<Longrightarrow> T (snd (insert_login lower now k subject username email admin t))"
    and bootstrap_insert: "T t \<Longrightarrow> T (snd (insert_bootstrap now k t))"
    and key_insert: "T t \<Longrightarrow> T (snd (InsertAccessKey now acct k h description scope expires t))"
    and key_touch: "T t \<Longrightarrow> T (snd (TouchAccessKey now k t))"
    and key_revoke: "T t \<Longrightarrow> T (snd (RevokeAccessKey now k t))"
    and key_revoke_except: "T t \<Longrightarrow> T (snd (RevokeAccountKeysExcept now acct keep t))"
    and session_create: "T t \<Longrightarrow> T (snd (CreateSession acct token until t))"
    and session_delete: "T t \<Longrightarrow> T (snd (DeleteSession token t))"
    and attempt_create: "T t \<Longrightarrow> T (snd (CreateLoginAttempt state nonce verifier until t))"
    and attempt_take: "T t \<Longrightarrow> T (snd (TakeLoginAttempt now state t))"
    and sessions_expire: "T t \<Longrightarrow> T (snd (delete_expired_sessions now t))"
    and logins_expire: "T t \<Longrightarrow> T (snd (delete_expired_logins now t))"
begin

abbreviation P :: "ledger \<Rightarrow> bool" where
  "P d \<equiv> T (d_tenants d)"

lemma keeps_tenants: "(\<And>now t. T t \<Longrightarrow> T (snd (f now t))) \<Longrightarrow> stmt_keeps P (\<lambda>now. on_tenants (f now))"
  by (rule stmt_keepsI) (simp add: on_tenants_def split_beta)

lemma keeps_audit: "stmt_keeps P (\<lambda>_. RecordAudit S e)"
  unfolding RecordAudit_def by (intro keeps_intros)

lemmas laws = login_update login_insert bootstrap_insert key_insert key_touch key_revoke key_revoke_except
  session_create session_delete attempt_create attempt_take sessions_expire logins_expire

lemma keeps_recordDenied: "others_keep P (sv_cloud S) \<Longrightarrow> keeps (db_inv P) (recordDenied S e)"
  unfolding recordDenied_def by (intro keeps_intros keeps_db keeps_audit)

lemma keeps_authenticate: "others_keep P (sv_cloud S) \<Longrightarrow> keeps (db_inv P) (authenticate S r c)"
  unfolding authenticate_def check_key_def refused_key_def sessionAccount_def Let_def
  by (intro keeps_intros keeps_db keeps_recordDenied keeps_tenants laws)

lemma keeps_mint: "keeps (db_inv P) (mint E)"
  unfolding mint_def by (intro keeps_intros)

lemma keeps_key_bodies: "keeps (db_inv P) (key_bodies E ks)"
  by (induction ks) (auto simp: key_body_def intro!: keeps_intros)

lemma keeps_listAccessKeys: "others_keep P (sv_cloud S) \<Longrightarrow> keeps (db_inv P) (listAccessKeys S a)"
  unfolding listAccessKeys_def by (intro keeps_intros keeps_db keeps_key_bodies)

lemma keeps_createAccessKey: "others_keep P (sv_cloud S) \<Longrightarrow> keeps (db_inv P) (createAccessKey S c a b)"
  unfolding createAccessKey_def create_key_tx_def key_expiry_def key_body_def Let_def
  by (intro keeps_intros keeps_tx keeps_sql keeps_mint keeps_recordDenied keeps_tenants keeps_audit laws)

lemma keeps_deleteAccessKey: "others_keep P (sv_cloud S) \<Longrightarrow> keeps (db_inv P) (deleteAccessKey S c a k)"
  unfolding deleteAccessKey_def delete_key_tx_def Let_def
  by (intro keeps_intros keeps_tx keeps_sql keeps_recordDenied keeps_tenants keeps_audit laws)

lemma keeps_newAccountID: "keeps (db_inv P) (newAccountID E)"
  unfolding newAccountID_def by (intro keeps_intros)

lemma keeps_ensure_bootstrap: "keeps (db_inv P) (ensure_bootstrap n E)"
  by (induction n) (auto intro!: keeps_intros keeps_sql keeps_newAccountID keeps_tenants laws)

lemma keeps_ReconcileBootstrapKey: "others_keep P (sv_cloud S) \<Longrightarrow> keeps (db_inv P) (ReconcileBootstrapKey S)"
  unfolding ReconcileBootstrapKey_def reconcile_bootstrap_tx_def bootstrap_account_def register_bootstrap_def
    EnsureBootstrapAccount_def Let_def
  by (intro keeps_intros keeps_tx keeps_sql keeps_ensure_bootstrap keeps_tenants keeps_audit laws)

lemma keeps_startLogin: "others_keep P (sv_cloud S) \<Longrightarrow> keeps (db_inv P) (startLogin S)"
  unfolding startLogin_def or_page_def or_internal_def Let_def
  by (intro keeps_intros keeps_catchE keeps_db keeps_tenants laws)

lemma keeps_insert_account:
  "others_keep P E \<Longrightarrow> e_lower E = lower \<Longrightarrow> keeps (db_inv P) (insert_account n E subject username email admin)"
  using login_insert by (induction n) (auto intro!: keeps_intros keeps_db keeps_newAccountID keeps_tenants)

lemma keeps_RecordLogin:
  "others_keep P E \<Longrightarrow> e_lower E = lower \<Longrightarrow> keeps (db_inv P) (RecordLogin E subject username email admin)"
  unfolding RecordLogin_def by (intro keeps_intros keeps_db keeps_insert_account; simp add: keeps_tenants laws)

lemma keeps_admit_login:
  "others_keep P (sv_cloud S) \<Longrightarrow> e_lower (sv_cloud S) = lower \<Longrightarrow> keeps (db_inv P) (admit_login S c t)"
  unfolding admit_login_def Let_def by (intro keeps_intros keeps_recordDenied keeps_RecordLogin)

lemma keeps_completeLogin:
  "others_keep P (sv_cloud S) \<Longrightarrow> e_lower (sv_cloud S) = lower \<Longrightarrow> keeps (db_inv P) (completeLogin S r c)"
  unfolding completeLogin_def verified_token_def open_session_def or_page_def or_internal_def Let_def
  by (intro keeps_intros keeps_catchE keeps_db keeps_tx keeps_sql keeps_admit_login keeps_tenants keeps_audit laws)

lemma keeps_logout: "others_keep P (sv_cloud S) \<Longrightarrow> keeps (db_inv P) (logout S r c)"
  unfolding logout_def Let_def
  by (intro keeps_intros keeps_catchE keeps_db keeps_tx keeps_sql keeps_tenants keeps_audit laws)

lemma keeps_RunJanitor: "others_keep P E \<Longrightarrow> keeps (db_inv P) (RunJanitor n E)"
  by (induction n) (auto simp: DeleteExpired_def intro!: keeps_intros keeps_db keeps_tenants laws)

end

section \<open>Keys\<close>

interpretation live_keys: tenant_contract lower "\<lambda>t. table_evolves (\<lambda>_. True) key_next ks (t_keys t)" for lower ks
  by (unfold_locales; (simp add: keys_follow_others)?; blast intro: key_life.evolves_trans keys_follow_steps)

section \<open>Constraints\<close>

text \<open>The migrations' constraints: unique IDs, subjects, emails, tokens and states, and foreign keys.\<close>

definition tenants_ok :: "(string \<Rightarrow> string) \<Rightarrow> tenants \<Rightarrow> bool" where
  "tenants_ok lower t \<longleftrightarrow> account_constraints lower (t_accounts t) \<and>
     distinct (map ak_id (t_keys t)) \<and> (\<forall>k \<in> set (t_keys t). key_id_ok (ak_id k) \<and> has_account (ak_account k) t) \<and>
     distinct (map se_token (t_sessions t)) \<and> (\<forall>s \<in> set (t_sessions t). has_account (se_account s) t) \<and>
     distinct (map la_state (t_logins t))"

definition same_email :: "(string \<Rightarrow> string) \<Rightarrow> account \<Rightarrow> account \<Rightarrow> bool" where
  "same_email lower a b \<longleftrightarrow> ac_id b \<noteq> ac_id a \<and> ac_kind a = KindUser \<and> ac_kind b = KindUser \<and> ac_email a \<noteq> '''' \<and>
     ac_email b \<noteq> '''' \<and> lower (ac_email b) = lower (ac_email a)"

lemma email_taken_iff: "email_taken lower a accounts \<longleftrightarrow> (\<exists>b \<in> set accounts. same_email lower a b)"
  by (auto simp: email_taken_def same_email_def)

lemma account_constraintsI:
  assumes "distinct (map ac_id accounts)" and "distinct (List.map_filter ac_subject accounts)"
    and "length (filter (\<lambda>a. ac_kind a = KindBootstrap) accounts) \<le> 1"
    and "\<And>x y. x \<in> set accounts \<Longrightarrow> y \<in> set accounts \<Longrightarrow> \<not> same_email lower x y"
    and "\<And>x. x \<in> set accounts \<Longrightarrow> ac_kind x = KindUser \<longleftrightarrow> ac_subject x \<noteq> None"
  shows "account_constraints lower accounts"
  unfolding account_constraints_def email_taken_iff using assms by simp

lemma same_email_sym: "same_email lower a b \<longleftrightarrow> same_email lower b a"
  by (auto simp: same_email_def)

lemma no_same_email_insert:
  assumes "account_constraints lower accounts" and "\<not> email_taken lower a accounts"
    and "x \<in> insert a (set accounts)" and "y \<in> insert a (set accounts)"
  shows "\<not> same_email lower x y"
proof -
  have old: "\<not> same_email lower x y" if "x \<in> set accounts" "y \<in> set accounts" for x y
    using assms(1) that by (auto simp: account_constraints_def email_taken_iff)
  have new: "\<not> same_email lower a y" if "y \<in> set accounts" for y
    using assms(2) that by (auto simp: email_taken_iff)
  have "\<not> same_email lower a a"
    by (simp add: same_email_def)
  then show ?thesis
    using assms(3,4) old new same_email_sym [of lower] by (metis insert_iff)
qed

lemma set_update_one:
  assumes "distinct (map key t)" and "a \<in> set t" and "\<And>b. b \<in> set t \<Longrightarrow> c b \<longleftrightarrow> key b = key a"
  shows "set (update_where c f t) = insert (f a) (set t - {a})"
proof -
  have "c b \<longleftrightarrow> b = a" if "b \<in> set t" for b
    using assms that by (metis distinct_map inj_on_def)
  then show ?thesis
    using assms(2) by (auto simp: update_where_def)
qed

lemma subject_is_key:
  assumes "distinct (List.map_filter ac_subject accounts)" and "a \<in> set accounts" and "ac_subject a = Some s"
    and "b \<in> set accounts" and "ac_subject b = Some s"
  shows "b = a"
  using assms
proof (induction accounts)
  case (Cons x accounts)
  have "s \<in> set (List.map_filter ac_subject accounts)" if "y \<in> set accounts" "ac_subject y = Some s" for y
    using that by (force simp: List.map_filter_def)
  with Cons show ?case
    by (auto simp: map_filter_simps split: option.splits)
qed simp

lemma map_filter_update:
  "(\<And>b. g (f b) = g b) \<Longrightarrow> List.map_filter g (update_where c f t) = List.map_filter g t"
  by (induction t) (auto simp: update_where_def map_filter_simps split: option.split)

lemma filter_update_kind:
  "(\<And>b. q (f b) = q b) \<Longrightarrow> length (filter q (update_where c f t)) = length (filter q t)"
  by (induction t) (auto simp: update_where_def)

lemma constraints_update_login:
  assumes ok: "account_constraints lower (t_accounts t)"
  shows "account_constraints lower (t_accounts (snd (update_login lower now subject username email admin t)))"
proof (cases "select_one (\<lambda>a. ac_subject a = Some subject) (t_accounts t)")
  case (Inr a)
  let ?f = "logged_in now username email admin" and ?c = "\<lambda>b. ac_subject b = Some subject"
  let ?u = "update_where ?c ?f (t_accounts t)"
  have a: "a \<in> set (t_accounts t)" "ac_subject a = Some subject"
    using select_one_Inr [OF Inr] by auto
  have same: "ac_id (?f b) = ac_id b" "ac_kind (?f b) = ac_kind b" "ac_subject (?f b) = ac_subject b" for b
    by (simp_all add: logged_in_def)
  have set_u: "set ?u = insert (?f a) (set (t_accounts t) - {a})"
  proof (rule set_update_one)
    show "distinct (map ac_id (t_accounts t))"
      using ok by (simp add: account_constraints_def)
    show "?c b \<longleftrightarrow> ac_id b = ac_id a" if "b \<in> set (t_accounts t)" for b
      using ok that a subject_is_key [of "t_accounts t" a subject b]
      by (auto simp: account_constraints_def distinct_map inj_on_def)
  qed fact
  have "account_constraints lower ?u" if free: "\<not> email_taken lower (?f a) (t_accounts t)"
  proof -
    have "\<not> same_email lower x y" if "x \<in> set ?u" "y \<in> set ?u" for x y
      using that by (intro no_same_email_insert [OF ok free]) (auto simp: set_u)
    moreover have "ac_kind x = KindUser \<longleftrightarrow> ac_subject x \<noteq> None" if "x \<in> set ?u" for x
      using that ok same a(1) unfolding set_u account_constraints_def by (metis DiffD1 insert_iff)
    moreover have "List.map_filter ac_subject ?u = List.map_filter ac_subject (t_accounts t)" "map ac_id ?u = map ac_id (t_accounts t)"
        "length (filter (\<lambda>a. ac_kind a = KindBootstrap) ?u) = length (filter (\<lambda>a. ac_kind a = KindBootstrap) (t_accounts t))"
      using same by (simp_all add: map_filter_update filter_update_kind map_update_where)
    ultimately show ?thesis
      using ok by (intro account_constraintsI) (simp_all add: account_constraints_def)
  qed
  then show ?thesis
    using ok by (simp add: update_login_def Inr Let_def)
qed (use ok in \<open>simp add: update_login_def\<close>)

lemma constraints_append:
  assumes "account_constraints lower accounts" and "ac_id a \<notin> ac_id ` set accounts"
    and "\<And>b. b \<in> set accounts \<Longrightarrow> ac_subject a \<noteq> None \<Longrightarrow> ac_subject b \<noteq> ac_subject a"
    and "ac_kind a = KindBootstrap \<Longrightarrow> \<forall>b \<in> set accounts. ac_kind b \<noteq> KindBootstrap"
    and "\<not> email_taken lower a accounts" and "ac_kind a = KindUser \<longleftrightarrow> ac_subject a \<noteq> None"
  shows "account_constraints lower (accounts @ [a])"
proof -
  have "distinct (List.map_filter ac_subject (accounts @ [a]))"
    using assms(1,3) by (auto simp: account_constraints_def List.map_filter_def)
  moreover have "\<not> same_email lower x y" if "x \<in> set (accounts @ [a])" "y \<in> set (accounts @ [a])" for x y
    using that by (intro no_same_email_insert [OF assms(1,5)]) auto
  moreover have "length (filter (\<lambda>b. ac_kind b = KindBootstrap) (accounts @ [a])) \<le> 1"
    using assms(1,4) by (auto simp: account_constraints_def filter_empty_conv)
  moreover have "distinct (map ac_id (accounts @ [a]))"
    using assms(1,2) by (simp add: account_constraints_def)
  moreover have "ac_kind x = KindUser \<longleftrightarrow> ac_subject x \<noteq> None" if "x \<in> set (accounts @ [a])" for x
    using that assms(1,6) by (auto simp: account_constraints_def)
  ultimately show ?thesis
    by (intro account_constraintsI)
qed


lemma has_account_mono: "has_account k t \<Longrightarrow> ac_id ` set (t_accounts t) \<subseteq> ac_id ` set (t_accounts t') \<Longrightarrow> has_account k t'"
  unfolding has_account_def by (metis imageE imageI subsetD)

lemma tenants_ok_accounts:
  assumes ok: "tenants_ok lower t" and "account_constraints lower (t_accounts t')"
    and "ac_id ` set (t_accounts t) \<subseteq> ac_id ` set (t_accounts t')"
    and "t_keys t' = t_keys t" "t_sessions t' = t_sessions t" "t_logins t' = t_logins t"
  shows "tenants_ok lower t'"
proof -
  have "has_account k t'" if "has_account k t" for k
    using that assms(3) by (rule has_account_mono)
  then show ?thesis
    using ok by (simp add: tenants_ok_def assms(2,4-6))
qed

lemma tenants_ok_update_login:
  assumes "tenants_ok lower t" shows "tenants_ok lower (snd (update_login lower now subject username email admin t))"
proof (rule tenants_ok_accounts [OF assms])
  show "account_constraints lower (t_accounts (snd (update_login lower now subject username email admin t)))"
    using assms by (intro constraints_update_login) (simp add: tenants_ok_def)
  have "map ac_id (t_accounts (snd (update_login lower now subject username email admin t))) = map ac_id (t_accounts t)"
    by (auto simp: update_login_def Let_def logged_in_def map_update_where split: sum.split)
  then show "ac_id ` set (t_accounts t) \<subseteq> ac_id ` set (t_accounts (snd (update_login lower now subject username email admin t)))"
    by (metis list.set_map order_refl)
qed (auto simp: update_login_def Let_def split: sum.split)

lemma tenants_ok_insert_login:
  assumes "tenants_ok lower t" shows "tenants_ok lower (snd (insert_login lower now k subject username email admin t))"
proof (rule tenants_ok_accounts [OF assms])
  show "account_constraints lower (t_accounts (snd (insert_login lower now k subject username email admin t)))"
    using assms by (auto simp: tenants_ok_def insert_login_def Let_def KindUser_def KindBootstrap_def intro!: constraints_append)
qed (auto simp: insert_login_def Let_def)

lemma tenants_ok_insert_bootstrap:
  assumes "tenants_ok lower t" shows "tenants_ok lower (snd (insert_bootstrap now k t))"
proof (rule tenants_ok_accounts [OF assms])
  show "account_constraints lower (t_accounts (snd (insert_bootstrap now k t)))"
    using assms by (auto simp: tenants_ok_def insert_bootstrap_def Let_def KindUser_def KindBootstrap_def email_taken_def
        intro!: constraints_append)
qed (auto simp: insert_bootstrap_def Let_def)

lemma tenants_ok_keys:
  assumes ok: "tenants_ok lower t" and f: "\<And>k. ak_id (f k) = ak_id k" "\<And>k. ak_account (f k) = ak_account k"
  shows "tenants_ok lower (t\<lparr>t_keys := update_where c f (t_keys t)\<rparr>)"
  using ok f by (auto simp: tenants_ok_def map_update_where set_update_where has_account_def)

lemma distinct_map_filter': "distinct (map g xs) \<Longrightarrow> distinct (map g (filter c xs))"
  by (induction xs) auto

lemma tenants_ok_rows:
  assumes ok: "tenants_ok lower t"
  shows "tenants_ok lower (snd (InsertAccessKey now acct k h description scope expires t))"
    and "tenants_ok lower (snd (CreateSession acct token until t))"
    and "tenants_ok lower (snd (DeleteSession token t))"
    and "tenants_ok lower (snd (CreateLoginAttempt state nonce verifier until t))"
    and "tenants_ok lower (snd (TakeLoginAttempt now state t))"
    and "tenants_ok lower (snd (delete_expired_sessions now t))"
    and "tenants_ok lower (snd (delete_expired_logins now t))"
  using ok by (auto simp: tenants_ok_def InsertAccessKey_def CreateSession_def DeleteSession_def CreateLoginAttempt_def
      TakeLoginAttempt_def delete_expired_sessions_def delete_expired_logins_def Let_def has_account_def distinct_map_filter'
      split: sum.split)

interpretation tenants: tenant_contract lower "tenants_ok lower" for lower
proof unfold_locales
  fix t now k acct keep
  assume "tenants_ok lower t"
  then show "tenants_ok lower (snd (TouchAccessKey now k t))"
      "tenants_ok lower (snd (RevokeAccessKey now k t))" "tenants_ok lower (snd (RevokeAccountKeysExcept now acct keep t))"
    by (auto simp: TouchAccessKey_def RevokeAccessKey_def RevokeAccountKeysExcept_def revoke_def Let_def
        intro!: tenants_ok_keys split: sum.split)
qed (simp_all add: tenants_ok_update_login tenants_ok_insert_login tenants_ok_insert_bootstrap tenants_ok_rows)

end
