(* ===== verification/Sign_In_Safety.thy ===== *)
theory Sign_In_Safety
  imports Tenant_Contract
begin

text \<open>
  What signing in guarantees: which credentials keep working over a history of sign-in requests, what
  a new access key may do and how many there may be, what the bootstrap key file decides, and what a
  completed login has shown.
\<close>

section \<open>Histories\<close>

datatype sign_in_call =
    Authenticate http_request call
  | CreateKey call account key_request
  | DeleteKey call account string
  | ListKeys account
  | StartLogin
  | CompleteLogin http_request call
  | Logout http_request call
  | Janitor nat
  | BootstrapKey

definition ignore :: "('h, 'a) cloud \<Rightarrow> ('h, unit) cloud" where
  "ignore m = attempt m (\<lambda>_. ret ())"

fun sign_in :: "'h server \<Rightarrow> sign_in_call \<Rightarrow> ('h, unit) cloud" where
  "sign_in S (Authenticate r c) = ignore (authenticate S r c)"
| "sign_in S (CreateKey c a b) = ignore (createAccessKey S c a b)"
| "sign_in S (DeleteKey c a k) = ignore (deleteAccessKey S c a k)"
| "sign_in S (ListKeys a) = ignore (listAccessKeys S a)"
| "sign_in S StartLogin = ignore (startLogin S)"
| "sign_in S (CompleteLogin r c) = ignore (completeLogin S r c)"
| "sign_in S (Logout r c) = ignore (logout S r c)"
| "sign_in S (Janitor n) = ignore (RunJanitor n (sv_cloud S))"
| "sign_in S BootstrapKey = ignore (ReconcileBootstrapKey S)"

inductive signed_in :: "'h server \<Rightarrow> 'h world \<Rightarrow> 'h world \<Rightarrow> bool" for S w where
  start: "signed_in S w w"
| step: "signed_in S w u \<Longrightarrow> signed_in S w (snd (sign_in S call u))"

lemma keeps_ignore: "keeps I m \<Longrightarrow> keeps I (ignore m)"
  unfolding ignore_def by (intro keeps_intros)

context tenant_contract
begin

lemma keeps_sign_in: "others_keep P (sv_cloud S) \<Longrightarrow> e_lower (sv_cloud S) = lower \<Longrightarrow> keeps (db_inv P) (sign_in S call)"
  by (cases call) (simp_all add: keeps_ignore keeps_authenticate keeps_createAccessKey keeps_deleteAccessKey
      keeps_listAccessKeys keeps_startLogin keeps_completeLogin keeps_logout keeps_RunJanitor keeps_ReconcileBootstrapKey)

lemma signed_in_keeps:
  assumes "signed_in S w w'" and "others_keep P (sv_cloud S)" and "e_lower (sv_cloud S) = lower" and "db_inv P w"
  shows "db_inv P w'"
  using assms(1)
proof induction
  case (step u call)
  then show ?case
    using keepsD [OF keeps_sign_in [OF assms(2,3)]] by blast
qed (rule assms(4))

end

text \<open>
  C23. A revoked key never works again: after any history of sign-in requests, whatever they answered
  and wherever the database failed, a request that carries it is turned away. The other requests in
  between are held to what these are shown to do: they keep the constraints and never revive a key.
\<close>
theorem revoked_key_stays_out:
  fixes S :: "'h server"
  assumes history: "signed_in S w w'"
    and others: "others_keep (\<lambda>d. tenants_ok (e_lower (sv_cloud S)) (d_tenants d)) (sv_cloud S)"
      "\<And>ks. others_keep (keys_follow ks) (sv_cloud S)"
    and start: "tenants_ok (e_lower (sv_cloud S)) (d_tenants (w_db w))"
    and k: "k \<in> set (t_keys (d_tenants (w_db w)))" "ak_revoked_at k \<noteq> None"
    and r: "rq_authorization r \<noteq> ''''" "bearer_token r = Some t" "tk_id t = ak_id k"
    and up: "\<not> e_db_down (sv_cloud S) (Suc (w_tick w'))"
  shows "fst (authenticate S r c w') = Inl errAuthFailure"
proof -
  let ?d = "e_others (sv_cloud S) (w_tick w') (w_db w')" and ?ks = "t_keys (d_tenants (w_db w))"
  have "db_inv (\<lambda>d. tenants_ok (e_lower (sv_cloud S)) (d_tenants d)) w'"
    by (rule tenants.signed_in_keeps [OF history others(1)]) (simp_all add: db_inv_def start)
  then have ok: "tenants_ok (e_lower (sv_cloud S)) (d_tenants ?d)"
    using others(1) by (simp add: others_keep_def db_inv_def)
  have "db_inv (keys_follow ?ks) w'"
    unfolding keys_follow_def
    by (rule live_keys.signed_in_keeps [OF history others(2) [unfolded keys_follow_def]])
      (simp_all add: db_inv_def key_life.evolves_refl)
  then have follows: "keys_follow ?ks ?d"
    using others(2) by (simp add: others_keep_def db_inv_def)
  have "key_holder (sv_cloud S) t ?d now = None" for now
    by (rule revoked_holds_nothing [OF follows k _ r(3)]) (use ok in \<open>simp add: tenants_ok_def\<close>)
  then show ?thesis
    using authenticate_decides [OF up, of r c] r(1,2) by (simp add: who_is_def answer_of_def)
qed


lemma ash_key_id: "key_id_ok (tk_id ash_token)"
  by code_simp

definition revoked_ledger :: ledger where
  "revoked_ledger = ash_ledger\<lparr>d_tenants := (d_tenants ash_ledger)\<lparr>t_keys := [ash_key\<lparr>ak_revoked_at := Some 1\<rparr>]\<rparr>\<rparr>"

theorem revoked_key_stays_out_witness:
  "let S = quiet_server (quiet_env offline_pve offline_ipam :: unit env) in
     fst (authenticate S ash_request (newCall proxied_request [] []) (snd (sign_in S BootstrapKey (start_world () revoked_ledger)))) = Inl errAuthFailure"
  unfolding Let_def
proof (rule revoked_key_stays_out)
  let ?S = "quiet_server (quiet_env offline_pve offline_ipam :: unit env)"
  show "signed_in ?S (start_world () revoked_ledger) (snd (sign_in ?S BootstrapKey (start_world () revoked_ledger)))"
    by (rule signed_in.step [OF signed_in.start])
  show "tenants_ok (e_lower (sv_cloud ?S)) (d_tenants (w_db (start_world () revoked_ledger)))"
    using ash_key_id by (simp add: tenants_ok_def account_constraints_def start_world_def revoked_ledger_def ash_ledger_def
        no_tenants_def ash_def ash_key_def has_account_def email_taken_def KindUser_def KindBootstrap_def map_filter_simps)
  show "ash_key\<lparr>ak_revoked_at := Some 1\<rparr> \<in> set (t_keys (d_tenants (w_db (start_world () revoked_ledger))))"
    by (simp add: start_world_def revoked_ledger_def ash_ledger_def)
  show "bearer_token ash_request = Some ash_token"
    by (rule ash_bearer)
qed (simp_all add: quiet_server_def others_keep_def ash_request_def ash_key_def)

section \<open>Making a key\<close>

lemma ends_ascii:
  assumes "s \<noteq> ''''" and "(of_char (last s) :: nat) < 128" and "(of_char (last s) :: nat) \<notin> {9, 10, 11, 12, 13, 32}"
  shows "space_suffix (bytes_of s) = 0"
proof -
  obtain t c where s: "s = t @ [c]"
    using assms(1) by (metis rev_exhaust)
  let ?b = "map of_char t :: nat list" and ?c = "of_char c :: nat"
  have b: "bytes_of s = ?b @ [?c]" and c: "?c < 128" "?c \<notin> {9, 10, 11, 12, 13, 32}"
    using assms s by (simp_all add: bytes_of_def)
  have "\<not> (n \<le> length (bytes_of s) \<and> space_size (drop (length (bytes_of s) - n) (bytes_of s)) = n)" if "n \<in> {1, 2, 3}" for n
  proof
    assume n: "n \<le> length (bytes_of s) \<and> space_size (drop (length (bytes_of s) - n) (bytes_of s)) = n"
    define u where "u = drop (length (bytes_of s) - n) (bytes_of s)"
    have "length u = n" "last u = ?c" "space_size u = n"
      using n that by (auto simp: u_def b last_drop)
    then show False
      using that c by (auto simp: space_size_def length_Suc_conv eval_nat_numeral split: if_splits)
  qed
  then show ?thesis
    by (auto simp: space_suffix_def find_None_iff split: option.split dest!: find_SomeD)
qed


lemma starts_ascii: "(of_char x :: nat) < 128 \<Longrightarrow> (of_char x :: nat) \<notin> {9, 10, 11, 12, 13, 32} \<Longrightarrow> space_size (bytes_of (x # s)) = 0"
  by (auto simp: space_size_def bytes_of_def eval_nat_numeral)

lemma trim_space_id:
  assumes "s \<noteq> ''''" and "(of_char (hd s) :: nat) < 128" "(of_char (hd s) :: nat) \<notin> {9, 10, 11, 12, 13, 32}"
    and "(of_char (last s) :: nat) < 128" "(of_char (last s) :: nat) \<notin> {9, 10, 11, 12, 13, 32}"
  shows "trim_space s = s"
proof -
  have "trim_left (bytes_of s) = bytes_of s"
    using assms(1-3) starts_ascii [of "hd s" "tl s"] by (subst trim_left.simps) simp
  moreover have "trim_right (bytes_of s) = bytes_of s"
    using ends_ascii [OF assms(1,4,5)] by (subst trim_right.simps) simp
  ultimately show ?thesis
    by (simp add: trim_space_def bytes_of_def comp_def)
qed

lemma url_char_plain:
  assumes "c \<in> set url_alphabet"
  shows "(of_char c :: nat) < 128 \<and> (of_char c :: nat) \<notin> {9, 10, 11, 12, 13, 32}"
  using assms by (auto simp: url_alphabet_def)

lemma trim_token: "token_ok t \<Longrightarrow> trim_space (token_string t) = token_string t"
proof (rule trim_space_id)
  assume "token_ok t"
  then have "tk_secret t \<noteq> ''''" "set (tk_secret t) \<subseteq> set url_alphabet"
    by (auto simp: token_ok_def secret_ok_def list_all_iff)
  then have "tk_secret t \<noteq> ''''" "last (tk_secret t) \<in> set url_alphabet"
    by auto
  moreover from this have "last (token_string t) = last (tk_secret t)"
    by (simp add: token_string_def)
  ultimately show "(of_char (last (token_string t)) :: nat) < 128" "(of_char (last (token_string t)) :: nat) \<notin> {9, 10, 11, 12, 13, 32}"
    using url_char_plain by metis+
qed (simp_all add: token_string_def token_prefix_def)

lemma cut_found: "c \<notin> set a \<Longrightarrow> cut (a @ c # b) c = (a, b, True)"
  by (induction a) auto

lemma bearer_of_token:
  assumes "token_ok t" and "rq_authorization r = ''Bearer '' @ token_string t"
  shows "bearer_token r = Some t"
proof -
  have "cut (rq_authorization r) CHR '' '' = (''Bearer'', token_string t, True)"
    using cut_found [of "CHR '' ''" "''Bearer''" "token_string t"] by (simp add: assms(2))
  moreover have "is_bearer ''Bearer''"
    by code_simp
  moreover have "Parse (token_string t) = Inr t"
    using assms(1) by (simp add: parse_token)
  ultimately show ?thesis
    using assms(1) by (simp add: bearer_token_def trim_token)
qed

text \<open>What a committed \<open>create_key_tx\<close> leaves.\<close>

definition key_added ::
    "'h env \<Rightarrow> string \<Rightarrow> token \<Rightarrow> string \<Rightarrow> string \<Rightarrow> int option \<Rightarrow> tenants \<Rightarrow> access_key \<Rightarrow> tenants \<Rightarrow> bool" where
  "key_added E acct t description scope expires old k new \<longleftrightarrow>
     new = old\<lparr>t_keys := t_keys old @ [k]\<rparr> \<and>
     k = \<lparr>ak_id = tk_id t, ak_account = acct, ak_secret = e_sha256 E (tk_secret t), ak_description = description,
          ak_scope = scope, ak_created_at = ak_created_at k, ak_expires_at = expires, ak_revoked_at = None,
          ak_last_used_at = None\<rparr> \<and>
     has_account acct old \<and> (\<forall>b \<in> set (t_keys old). ak_id b \<noteq> tk_id t) \<and>
     (\<exists>now \<le> ak_created_at k. CountActiveAccessKeys now acct old < maxActiveAccessKeys)"

lemma create_key_tx_adds:
  fixes S :: "'h server"
  assumes run: "create_key_tx S c acct t description scope expires w = (Inr k, w')" and clock: "mono (e_now (sv_cloud S))"
  shows "key_added (sv_cloud S) acct t description scope expires (d_tenants (w_db w)) k (d_tenants (w_db w'))"
proof -
  have "e_now (sv_cloud S) (Suc n) \<le> e_now (sv_cloud S) (Suc (Suc n))" for n
    using clock by (auto intro: monoD)
  then show ?thesis
    using run
    by (auto simp: create_key_tx_def Let_def prog_defs sql_def reading_def on_tenants_def InsertAccessKey_def Hash_def
        RecordAudit_def key_added_def not_le split: if_splits sum.splits prod.splits
        intro!: exI [of _ "e_now (sv_cloud S) (Suc (w_tick w))"])
qed


lemma active_earlier: "key_active now acct b \<Longrightarrow> now' \<le> now \<Longrightarrow> key_active now' acct b"
  by (auto simp: key_active_def split: option.splits)

lemma length_filter_mono: "(\<And>x. p x \<Longrightarrow> q x) \<Longrightarrow> length (filter p xs) \<le> length (filter q xs)"
  by (induction xs) auto

lemma count_after_added:
  assumes "key_added E acct t description scope expires old k new" and "ak_created_at k \<le> now"
  shows "CountActiveAccessKeys now acct new \<le> maxActiveAccessKeys"
proof -
  obtain now' where now': "now' \<le> ak_created_at k" "CountActiveAccessKeys now' acct old < maxActiveAccessKeys"
    and new: "new = old\<lparr>t_keys := t_keys old @ [k]\<rparr>"
    using assms(1) by (auto simp: key_added_def)
  have "length (filter (key_active now acct) (t_keys old)) \<le> length (filter (key_active now' acct) (t_keys old))"
    using now'(1) assms(2) by (intro length_filter_mono) (auto elim: active_earlier)
  then show ?thesis
    using now'(2) new by (simp add: CountActiveAccessKeys_def)
qed

lemma select_one_last: "(\<forall>b \<in> set xs. \<not> c b) \<Longrightarrow> c k \<Longrightarrow> select_one c (xs @ [k]) = Inr k"
  by (induction xs) (auto simp: select_one_def)

lemma holder_of_added:
  assumes added: "key_added E acct t description scope expires (d_tenants d) k (d_tenants d')"
  obtains owner where "ac_id owner = acct" and "ak_account k = acct" and "ak_scope k = scope"
    and "\<And>now. key_holder E t d' now = (if Status k now = KeyActive then Some (key_principal k owner) else None)"
proof -
  have k: "ak_id k = tk_id t" "ak_account k = acct" "ak_secret k = e_sha256 E (tk_secret t)" "ak_scope k = scope"
    using added by (auto simp: key_added_def) (metis access_key.select_convs)+
  have "\<exists>owner. GetAccount acct d' = Inr owner"
    using added by (cases "GetAccount acct d'")
      (auto simp: key_added_def has_account_def GetAccount_def select_one_Inl)
  then obtain owner where owner: "GetAccount acct d' = Inr owner" "ac_id owner = acct"
    by (auto simp: GetAccount_def dest: select_one_Inr)
  have "select_one (\<lambda>b. ak_id b = tk_id t) (t_keys (d_tenants d')) = Inr k"
    using added k(1) by (auto simp: key_added_def intro!: select_one_last)
  then have "LookupAccessKey (tk_id t) d' = Inr (k, owner)"
    using owner(1) k(2) by (simp add: LookupAccessKey_def)
  then have "key_holder E t d' now = (if Status k now = KeyActive then Some (key_principal k owner) else None)" for now
    using k(3) by (simp add: key_holder_def)
  then show ?thesis
    using that [OF owner(2) k(2,4)] by blast
qed


lemma minted:
  assumes "\<And>n len. length (e_random_bytes E n len) = len" and "mint E w = (Inr t, w')"
  shows "token_ok t \<and> w_db w' = w_db w"
proof -
  obtain n m where "t = New (e_random_bytes E n 12) (e_random_bytes E m 32)" "w_db w' = w_db w"
    using assms(2) by (auto simp: mint_def prog_defs random_bytes_def)
  then show ?thesis
    using new_token [OF assms(1,1)] by blast
qed

text \<open>
  C25. A new key works and the limit holds: the text handed out authenticates, for as long as the key
  is active, as the account that asked for it with the scope that was asked for, and at no time
  from then on has the account more than five active keys on this count.
\<close>
theorem created_key_works:
  fixes S :: "'h server"
  assumes run: "createAccessKey S c a b w = (Inr ((k, st), text), w')"
    and bytes: "\<And>n len. length (e_random_bytes (sv_cloud S) n len) = len" and clock: "mono (e_now (sv_cloud S))"
  shows "\<exists>owner. ac_id owner = ac_id a \<and> ak_account k = ac_id a \<and>
      ak_scope k = (if kr_scope b = '''' then KeyScopeReadWrite else kr_scope b) \<and>
      (\<forall>r now. rq_authorization r = ''Bearer '' @ text \<longrightarrow> who_is (sv_cloud S) r (w_db w') now =
         (if Status k (now 1) = KeyActive then Some (key_principal k owner) else None)) \<and>
      (\<forall>now \<ge> ak_created_at k. CountActiveAccessKeys now (ac_id a) (d_tenants (w_db w')) \<le> maxActiveAccessKeys)"
proof -
  let ?E = "sv_cloud S" and ?scope = "if kr_scope b = '''' then KeyScopeReadWrite else kr_scope b"
  obtain expires t u v v' where mint: "mint ?E u = (Inr t, v)" and shown: "text = token_string t"
    and tx: "tx ?E (create_key_tx S c (ac_id a) t (kr_description b) ?scope expires) v = (Inr k, v')" and w': "w_db w' = w_db v'"
    using run by (auto simp: createAccessKey_def Let_def attempt_def raise_def key_body_def clock_def prog_defs
        split: if_splits sum.splits prod.splits elim!: bindE_InrE)
  obtain z where body: "create_key_tx S c (ac_id a) t (kr_description b) ?scope expires (interfere ?E v) = (Inr k, z)" "w_db v' = w_db z"
    using tx by (auto simp: tx_def Let_def split: sum.splits prod.splits if_splits)
  have ok: "token_ok t"
    using minted [OF bytes mint] by blast
  note added = create_key_tx_adds [OF body(1) clock, folded body(2), folded w']
  obtain owner where owner: "ac_id owner = ac_id a" "ak_account k = ac_id a" "ak_scope k = ?scope"
    and holds: "\<And>now. key_holder ?E t (w_db w') now = (if Status k now = KeyActive then Some (key_principal k owner) else None)"
    using holder_of_added [OF added] by blast
  have "who_is ?E r (w_db w') now = (if Status k (now 1) = KeyActive then Some (key_principal k owner) else None)"
    if "rq_authorization r = ''Bearer '' @ text" for r now
    using bearer_of_token [OF ok that [unfolded shown]] that by (simp add: who_is_def holds)
  then show ?thesis
    using owner count_after_added [OF added] by blast
qed


definition short_hash :: "unit server" where
  "short_hash = quiet_server ((quiet_env offline_pve offline_ipam)\<lparr>e_sha256 := \<lambda>s. take 32 (map of_char s)\<rparr>)"

definition ask_key :: key_request where
  "ask_key = \<lparr>kr_description = ''laptop'', kr_expires_in_days = None, kr_scope = KeyScopeReadOnly\<rparr>"

definition keyless :: "unit world" where
  "keyless = start_world () (ash_ledger\<lparr>d_tenants := no_tenants\<lparr>t_accounts := [ash]\<rparr>\<rparr>)"

lemma short_hash_creates:
  "\<exists>k st text w'. createAccessKey short_hash (newCall proxied_request [] []) ash ask_key keyless = (Inr ((k, st), text), w') \<and> Status k 9 = KeyActive"
proof -
  have ok: "token_ok (New (replicate 12 n) (replicate 32 m))" for n m
    by (rule new_token) simp_all
  then have "key_id_ok (tk_id (New (replicate 12 n) (replicate 32 m)))"
      "length (take 32 (map of_char (tk_secret (New (replicate 12 n) (replicate 32 m)))) :: nat list) = 32" for n m
    by (auto simp: token_ok_def secret_ok_def)
  moreover have "rune_count ''laptop'' \<le> 256"
    by code_simp
  ultimately show ?thesis
    by (simp add: createAccessKey_def ask_key_def key_request_ok_def key_expiry_def mint_def create_key_tx_def keyless_def
        short_hash_def quiet_server_def quiet_env_def cloud_eval tx_def key_body_def LockAccount_def GetAccount_def
        select_one_def ash_ledger_def no_tenants_def ash_def CountActiveAccessKeys_def maxActiveAccessKeys_def
        on_tenants_def InsertAccessKey_def has_account_def Hash_def RecordAudit_def KeyScopeReadOnly_def Status_def
        cong: cloud_lazy)
qed

theorem created_key_works_witness:
  "\<exists>k st text w' owner. createAccessKey short_hash (newCall proxied_request [] []) ash ask_key keyless = (Inr ((k, st), text), w') \<and>
     who_is (sv_cloud short_hash) (proxied_request\<lparr>rq_authorization := ''Bearer '' @ text\<rparr>) (w_db w') (\<lambda>_. 9) =
       Some (key_principal k owner) \<and> ac_id owner = ''000000000007''"
proof -
  obtain k st out w' where run: "createAccessKey short_hash (newCall proxied_request [] []) ash ask_key keyless = (Inr ((k, st), out), w')"
    and active: "Status k 9 = KeyActive"
    using short_hash_creates by blast
  have "mono (e_now (sv_cloud short_hash))" "\<And>n len. length (e_random_bytes (sv_cloud short_hash) n len) = len"
    by (simp_all add: short_hash_def quiet_server_def quiet_env_def mono_def)
  from created_key_works [OF run this(2,1)] obtain owner where "ac_id owner = ac_id ash"
    and "\<forall>r now. rq_authorization r = ''Bearer '' @ out \<longrightarrow> who_is (sv_cloud short_hash) r (w_db w') now =
         (if Status k (now 1) = KeyActive then Some (key_principal k owner) else None)"
    by blast
  then show ?thesis
    using run active by (intro exI [of _ k] exI [of _ st] exI [of _ out] exI [of _ w'] exI [of _ owner]) (simp add: ash_def)
qed


section \<open>The bootstrap key\<close>

definition bootstrap_id :: "ledger \<Rightarrow> string \<Rightarrow> bool" where
  "bootstrap_id d k \<longleftrightarrow> (\<forall>a \<in> set (t_accounts (d_tenants d)). ac_kind a = KindBootstrap \<longrightarrow> ac_id a = k)"

definition file_key :: "'h env \<Rightarrow> token option \<Rightarrow> access_key \<Rightarrow> bool" where
  "file_key E file k \<longleftrightarrow> (\<exists>t. file = Some t \<and> ak_id k = tk_id t \<and> ak_secret k = e_sha256 E (tk_secret t))"

definition only_file_key :: "'h env \<Rightarrow> token option \<Rightarrow> ledger \<Rightarrow> bool" where
  "only_file_key E file d \<longleftrightarrow>
     (\<forall>a \<in> set (t_accounts (d_tenants d)). \<forall>k \<in> set (t_keys (d_tenants d)).
        ac_kind a = KindBootstrap \<and> ak_account k = ac_id a \<and> ak_revoked_at k = None \<longrightarrow> file_key E file k)"

lemma only_bootstrap:
  assumes ok: "tenants_ok lower (d_tenants d)" and a: "BootstrapAccount d = Inr a"
  shows "bootstrap_id d (ac_id a)"
  unfolding bootstrap_id_def
proof (intro ballI impI)
  fix b assume b: "b \<in> set (t_accounts (d_tenants d))" "ac_kind b = KindBootstrap"
  let ?bs = "filter (\<lambda>a. ac_kind a = KindBootstrap) (t_accounts (d_tenants d))"
  have "a \<in> set ?bs" "b \<in> set ?bs"
    using a b by (auto simp: BootstrapAccount_def dest: select_one_Inr)
  moreover have "length ?bs \<le> 1"
    using ok by (simp add: tenants_ok_def account_constraints_def)
  ultimately show "ac_id b = ac_id a"
    by (cases ?bs) auto
qed

lemma in_tx_ensure_bootstrap:
  fixes E :: "'h env"
  shows "in_tx (\<lambda>d. tenants_ok lower (d_tenants d)) (ensure_bootstrap n E)
    (\<lambda>a d. tenants_ok lower (d_tenants d) \<and> bootstrap_id d (ac_id a))"
proof (induction n)
  case (Suc n)
  let ?P = "\<lambda>d. tenants_ok lower (d_tenants d)"
  have insert: "in_tx ?P (sql E (\<lambda>now. on_tenants (insert_bootstrap now k))) (\<lambda>_. ?P)" for k
    by (intro in_tx_keeps keeps_sql tenants.keeps_tenants tenants_ok_insert_bootstrap)
  have none: "in_tx ?P (bindE (newAccountID E) (\<lambda>k. seqE (sql E (\<lambda>now. on_tenants (insert_bootstrap now k))) (ensure_bootstrap n E)))
      (\<lambda>a d. ?P d \<and> bootstrap_id d (ac_id a))"
    by (intro in_tx_bindE [OF in_tx_keeps [OF tenants.keeps_newAccountID]] in_tx_seqE [OF insert] Suc)
  show ?case
    unfolding ensure_bootstrap.simps
  proof (rule in_tx_look)
    show "in_tx (\<lambda>d. ?P d \<and> (BootstrapAccount d = Inl e \<or> e = db_failed)) (case Inl e of Inl e \<Rightarrow> if \<not> err_is e NotFound then raise e
        else bindE (newAccountID E) (\<lambda>k. seqE (sql E (\<lambda>now. on_tenants (insert_bootstrap now k))) (ensure_bootstrap n E))
      | Inr a \<Rightarrow> ret a) (\<lambda>a d. ?P d \<and> bootstrap_id d (ac_id a))" for e
      unfolding sum.case by (intro in_tx_if in_tx_raise) (rule in_tx_pre [OF none], simp)
  qed (auto intro!: in_tx_ret only_bootstrap)
qed (simp add: in_tx_raise)


lemma live_key_unique:
  "tenants_ok lower (d_tenants d) \<Longrightarrow> LookupAccessKey k d = Inr (key, a) \<Longrightarrow> b \<in> set (t_keys (d_tenants d)) \<Longrightarrow>
   ak_id b = k \<Longrightarrow> b = key"
  using select_one_distinct [of ak_id "t_keys (d_tenants d)" b k]
  by (auto simp: tenants_ok_def LookupAccessKey_def split: sum.splits)

definition key_is :: "'h env \<Rightarrow> token \<Rightarrow> ledger \<Rightarrow> bool" where
  "key_is E t d \<longleftrightarrow> (\<forall>k \<in> set (t_keys (d_tenants d)). ak_id k = tk_id t \<longrightarrow> ak_secret k = e_sha256 E (tk_secret t))"

lemma inserted_key_is:
  assumes ok: "tenants_ok lower (d_tenants d)"
    and run: "on_tenants (InsertAccessKey now acct (tk_id t) (Hash (e_sha256 E) t) description scope expires) d = (Inr k, d')"
  shows "tenants_ok lower (d_tenants d') \<and> t_accounts (d_tenants d') = t_accounts (d_tenants d) \<and> key_is E t d'"
proof -
  have d': "d_tenants d' = snd (InsertAccessKey now acct (tk_id t) (Hash (e_sha256 E) t) description scope expires (d_tenants d))"
    using run by (auto simp: on_tenants_def split: prod.splits)
  then have "tenants_ok lower (d_tenants d')"
    using tenants_ok_rows(1) [OF ok] by simp
  then show ?thesis
    using run by (auto simp: on_tenants_def InsertAccessKey_def Let_def Hash_def key_is_def split: if_splits)
qed

lemma in_tx_register:
  fixes S :: "'h server" and a :: account and t :: token and lower :: "string \<Rightarrow> string"
  defines "P \<equiv> \<lambda>d. tenants_ok lower (d_tenants d) \<and> bootstrap_id d (ac_id a)"
  shows "in_tx P (register_bootstrap S a t) (\<lambda>_ d. P d \<and> key_is (sv_cloud S) t d)"
  unfolding register_bootstrap_def Let_def
proof (rule in_tx_look)
  let ?Q = "\<lambda>_ d. P d \<and> key_is (sv_cloud S) t d"
  have insert: "in_tx P (sql (sv_cloud S) (\<lambda>now. on_tenants (InsertAccessKey now (ac_id a) (tk_id t)
      (Hash (e_sha256 (sv_cloud S)) t) description scope None))) ?Q" for description scope
    by (rule in_tx_sql) (auto simp: P_def bootstrap_id_def dest: inserted_key_is)
  show "in_tx (\<lambda>d. P d \<and> (LookupAccessKey (tk_id t) d = Inl e \<or> e = db_failed)) (case Inl e of
      Inl e \<Rightarrow> if \<not> err_is e NotFound then raise e
        else bindE (sql (sv_cloud S) (\<lambda>now. on_tenants (InsertAccessKey now (ac_id a) (tk_id t) (Hash (e_sha256 (sv_cloud S)) t)
                 ''bootstrap admin key (SHAKECLOUD_BOOTSTRAP_KEY_FILE)'' KeyScopeReadWrite None)))
               (\<lambda>_. sql (sv_cloud S) (\<lambda>_. RecordAudit S (bootstrap_event a ''CreateAccessKey'' (tk_id t))))
    | Inr (key, owner) \<Rightarrow> if ac_id owner \<noteq> ac_id a \<or> \<not> Matches (e_sha256 (sv_cloud S)) t (ak_secret key)
            then raise (Failed ''the bootstrap key file does not match the stored key with the same ID; refusing to start'')
            else ret ()) ?Q" for e
    unfolding sum.case RecordAudit_def
    by (rule in_tx_pre [where P = P]) (intro in_tx_if in_tx_raise in_tx_bindE [OF insert] in_tx_reading, auto)
  have stored: "key_is (sv_cloud S) t d" if "tenants_ok lower (d_tenants d)" "LookupAccessKey (tk_id t) d = Inr x"
      "Matches (e_sha256 (sv_cloud S)) t (ak_secret (fst x))" for d x
    using live_key_unique [OF that(1), of "tk_id t" "fst x" "snd x"] that(2,3) by (auto simp: key_is_def Matches_def Hash_def)
  show "in_tx (\<lambda>d. P d \<and> LookupAccessKey (tk_id t) d = Inr x) (case Inr x of
      Inl e \<Rightarrow> if \<not> err_is e NotFound then raise e
        else bindE (sql (sv_cloud S) (\<lambda>now. on_tenants (InsertAccessKey now (ac_id a) (tk_id t) (Hash (e_sha256 (sv_cloud S)) t)
                 ''bootstrap admin key (SHAKECLOUD_BOOTSTRAP_KEY_FILE)'' KeyScopeReadWrite None)))
               (\<lambda>_. sql (sv_cloud S) (\<lambda>_. RecordAudit S (bootstrap_event a ''CreateAccessKey'' (tk_id t))))
    | Inr (key, owner) \<Rightarrow> if ac_id owner \<noteq> ac_id a \<or> \<not> Matches (e_sha256 (sv_cloud S)) t (ak_secret key)
            then raise (Failed ''the bootstrap key file does not match the stored key with the same ID; refusing to start'')
            else ret ()) ?Q" for x
    unfolding sum.case case_prod_beta
    by (intro in_tx_if in_tx_raise in_tx_ret) (auto simp: P_def intro: stored)
qed

lemma in_tx_revoke:
  fixes E :: "'h env"
  assumes "\<And>d. R d \<Longrightarrow> tenants_ok lower (d_tenants d) \<and> bootstrap_id d acct"
    and "\<And>d t. R d \<Longrightarrow> file = Some t \<Longrightarrow> key_is E t d"
  shows "in_tx R (sql E (\<lambda>now. on_tenants (RevokeAccountKeysExcept now acct (case file of None \<Rightarrow> '''' | Some t \<Rightarrow> tk_id t))))
    (\<lambda>_. only_file_key E file)"
proof (rule in_tx_sql)
  fix now d d' revoked
  let ?keep = "case file of None \<Rightarrow> '''' | Some t \<Rightarrow> tk_id t"
  assume R: "R d" and run: "on_tenants (RevokeAccountKeysExcept now acct ?keep) d = (Inr revoked, d')"
  then have d': "t_accounts (d_tenants d') = t_accounts (d_tenants d)"
      "t_keys (d_tenants d') = update_where (\<lambda>b. ak_account b = acct \<and> ak_id b \<noteq> ?keep \<and> ak_revoked_at b = None) (revoke now)
         (t_keys (d_tenants d))"
    by (auto simp: on_tenants_def RevokeAccountKeysExcept_def Let_def)
  have "file_key E file k" if "k \<in> set (t_keys (d_tenants d'))" "ak_account k = acct" "ak_revoked_at k = None" for k
  proof -
    have "k \<in> set (t_keys (d_tenants d)) \<and> \<not> (ak_account k = acct \<and> ak_id k \<noteq> ?keep \<and> ak_revoked_at k = None)"
      using that(1,3) unfolding d'(2) set_update_where by (auto simp: revoke_def simp del: not_None_eq)
    then have k: "k \<in> set (t_keys (d_tenants d))" "ak_id k = ?keep"
      using that(2,3) by blast+
    then have "ak_id k \<noteq> ''''"
      using assms(1) [OF R] by (auto simp: tenants_ok_def key_id_ok_def)
    then show ?thesis
      using assms(2) [OF R] k by (cases "file") (auto simp: file_key_def key_is_def)
  qed
  then show "only_file_key E file d'"
    using assms(1) [OF R] by (simp add: only_file_key_def bootstrap_id_def d'(1))
qed

text \<open>
  C26. The bootstrap key file is the switch: once the API has started, the bootstrap account has no
  live key except the one in the file, with the secret in the file; none at all when the file is
  empty or was not configured, whatever was registered before.
\<close>
theorem bootstrap_only_file_key:
  fixes S :: "'h server"
  assumes run: "ReconcileBootstrapKey S w = (Inr (), w')"
    and ok: "tenants_ok lower (d_tenants (w_db w))" "others_keep (\<lambda>d. tenants_ok lower (d_tenants d)) (sv_cloud S)"
  shows "only_file_key (sv_cloud S) (sv_bootstrap_key S) (w_db w')"
proof -
  let ?E = "sv_cloud S" and ?file = "sv_bootstrap_key S" and ?P = "\<lambda>d. tenants_ok lower (d_tenants d)"
  have audits: "in_tx R (for_eachE ks (\<lambda>k. sql ?E (\<lambda>_. RecordAudit S (e k)))) (\<lambda>_. R)" for R ks e
    unfolding RecordAudit_def by (intro in_tx_keeps keeps_intros keeps_sql)
  have account: "in_tx ?P (bootstrap_account ?E ?file) (\<lambda>x d. ?P d \<and> (case x of
      None \<Rightarrow> only_file_key ?E ?file d | Some a \<Rightarrow> bootstrap_id d (ac_id a)))"
  proof (cases ?file)
    case None
    have "only_file_key ?E None d" if "BootstrapAccount d = Inl e" for d e
      using that by (auto simp: only_file_key_def BootstrapAccount_def select_one_Inl)
    then show ?thesis
      unfolding None bootstrap_account_def option.case
      by (intro in_tx_look) (auto simp: db_failed_def intro!: in_tx_if in_tx_raise in_tx_ret only_bootstrap)
  next
    case (Some t)
    then show ?thesis
      unfolding bootstrap_account_def EnsureBootstrapAccount_def
      by (auto intro!: in_tx_bindE [OF in_tx_ensure_bootstrap] in_tx_ret)
  qed
  have registered: "in_tx (\<lambda>d. ?P d \<and> bootstrap_id d (ac_id a)) (case ?file of None \<Rightarrow> ret () | Some t \<Rightarrow> register_bootstrap S a t)
      (\<lambda>_ d. (?P d \<and> bootstrap_id d (ac_id a)) \<and> (\<forall>t. ?file = Some t \<longrightarrow> key_is ?E t d))" for a
    using in_tx_register [of lower a S] by (cases ?file) (auto intro: in_tx_ret)
  have "in_tx ?P (reconcile_bootstrap_tx S) (\<lambda>_. only_file_key ?E ?file)"
    unfolding reconcile_bootstrap_tx_def Let_def
  proof (intro in_tx_seqE [OF in_tx_keeps [OF keeps_sql]] in_tx_bindE [OF account])
    fix x
    show "in_tx (\<lambda>d. ?P d \<and> (case x of None \<Rightarrow> only_file_key ?E ?file d | Some a \<Rightarrow> bootstrap_id d (ac_id a)))
        (case x of None \<Rightarrow> ret ()
         | Some a \<Rightarrow> seqE (case ?file of None \<Rightarrow> ret () | Some t \<Rightarrow> register_bootstrap S a t)
             (bindE (sql ?E (\<lambda>now. on_tenants (RevokeAccountKeysExcept now (ac_id a) (case ?file of None \<Rightarrow> '''' | Some t \<Rightarrow> tk_id t))))
               (\<lambda>revoked. for_eachE revoked (\<lambda>k. sql ?E (\<lambda>_. RecordAudit S (bootstrap_event a ''DeleteAccessKey'' k))))))
        (\<lambda>_. only_file_key ?E ?file)"
      by (cases x) (auto intro!: in_tx_ret in_tx_seqE [OF registered] in_tx_bindE [OF in_tx_revoke] audits)
  qed (intro keeps_intros)
  moreover have "?P (w_db (interfere ?E w))"
    using ok by (simp add: interfere_def others_keep_def)
  ultimately show ?thesis
    using tx_result [OF run [unfolded ReconcileBootstrapKey_def], of ?P] by simp
qed


definition root_account :: account where
  "root_account = ash\<lparr>ac_kind := KindBootstrap, ac_subject := None, ac_is_admin := True\<rparr>"

definition bootstrap_ledger :: ledger where
  "bootstrap_ledger = empty_ledger\<lparr>d_tenants := no_tenants\<lparr>t_accounts := [root_account], t_keys := [ash_key]\<rparr>\<rparr>"

lemma err_is_db_failed [simp]: "\<not> err_is db_failed NotFound"
  by (simp add: db_failed_def)

theorem bootstrap_only_file_key_witness:
  "let S = quiet_server (quiet_env offline_pve offline_ipam :: unit env) in
     \<exists>w'. ReconcileBootstrapKey S (start_world () bootstrap_ledger) = (Inr (), w') \<and> only_file_key (sv_cloud S) None (w_db w')"
proof -
  let ?S = "quiet_server (quiet_env offline_pve offline_ipam :: unit env)" and ?w = "start_world () bootstrap_ledger"
  have "fst (ReconcileBootstrapKey ?S ?w) = Inr ()"
    by (simp add: ReconcileBootstrapKey_def reconcile_bootstrap_tx_def tx_def quiet_server_def cloud_eval bootstrap_account_def
        BootstrapAccount_def bootstrap_ledger_def no_tenants_def select_one_def root_account_def on_tenants_def
        RevokeAccountKeysExcept_def ash_key_def ash_def RecordAudit_def update_where_def cong: cloud_lazy)
  then obtain w' where run: "ReconcileBootstrapKey ?S ?w = (Inr (), w')"
    by (cases "ReconcileBootstrapKey ?S ?w") auto
  have "tenants_ok id (d_tenants (w_db ?w))"
    using ash_key_id by (simp add: tenants_ok_def account_constraints_def start_world_def bootstrap_ledger_def no_tenants_def
        root_account_def ash_def ash_key_def has_account_def email_taken_def KindUser_def KindBootstrap_def map_filter_simps)
  from bootstrap_only_file_key [OF run this] run show ?thesis
    by (simp add: quiet_server_def others_keep_def Let_def)
qed

section \<open>Logging in\<close>

lemma update_login_Inr:
  "update_login lower now subject username email admin t = (Inr a, t') \<Longrightarrow> ac_subject a = Some subject \<and> ac_is_admin a = admin"
  by (auto simp: update_login_def Let_def logged_in_def split: sum.splits if_splits dest: select_one_Inr)

lemma insert_login_Inr:
  "insert_login lower now k subject username email admin t = (Inr a, t') \<Longrightarrow> ac_subject a = Some subject \<and> ac_is_admin a = admin"
  by (auto simp: insert_login_def Let_def split: if_splits)

lemma db_tenants_Inr: "db E (\<lambda>now. on_tenants (f now)) w = (Inr x, w') \<Longrightarrow>
  \<exists>now. f now (d_tenants (e_others E (w_tick w) (w_db w))) = (Inr x, d_tenants (w_db w'))"
  by (auto simp: db_def sql_def interfere_def on_tenants_def Let_def split: if_splits prod.splits
      intro!: exI [of _ "e_now E (Suc (w_tick w))"])

lemma insert_account_Inr:
  "insert_account n E subject username email admin w = (Inr a, w') \<Longrightarrow> ac_subject a = Some subject \<and> ac_is_admin a = admin"
proof (induction n arbitrary: w)
  case (Suc n)
  from Suc.prems obtain k u r v where ins: "db E (\<lambda>now. on_tenants (insert_login (e_lower E) now k subject username email admin)) u = (r, v)"
    and rest: "(case r of Inr a \<Rightarrow> ret a | Inl e \<Rightarrow> if err_is e NotFound
        then insert_account n E subject username email admin else raise e) v = (Inr a, w')"
    by (auto simp: attempt_def elim!: bindE_InrE split: prod.splits)
  show ?case
  proof (cases r)
    case (Inl e)
    then show ?thesis
      using rest Suc.IH by (auto simp: raise_def split: if_splits)
  next
    case (Inr b)
    then show ?thesis
      using rest db_tenants_Inr [OF ins [unfolded Inr]] by (auto simp: ret_def dest: insert_login_Inr)
  qed
qed (simp add: raise_def)

lemma RecordLogin_Inr:
  assumes "RecordLogin E subject username email admin w = (Inr (a, created), w')"
  shows "ac_subject a = Some subject \<and> ac_is_admin a = admin"
proof -
  obtain r v where upd: "db E (\<lambda>now. on_tenants (update_login (e_lower E) now subject username email admin)) w = (r, v)" by fastforce
  show ?thesis
  proof (cases r)
    case (Inl e)
    then have "\<exists>v'. insert_account 5 E subject username email admin v = (Inr a, v')"
      using assms upd by (auto simp: RecordLogin_def attempt_def raise_def ret_def elim!: bindE_InrE split: if_splits)
    then show ?thesis
      using insert_account_Inr by blast
  next
    case (Inr b)
    then show ?thesis
      using assms upd db_tenants_Inr [OF upd [unfolded Inr]] by (auto simp: RecordLogin_def attempt_def ret_def dest: update_login_Inr)
  qed
qed

lemma or_page_Inr: "or_page st m w = (Inr x, w') \<longleftrightarrow> m w = (Inr x, w')"
  by (auto simp: or_page_def catchE_def attempt_def raise_def ret_def split: prod.splits sum.splits)

lemma or_internal_Inr: "or_internal m w = (Inr x, w') \<longleftrightarrow> m w = (Inr x, w')"
  by (auto simp: or_internal_def catchE_def attempt_def raise_def ret_def split: prod.splits sum.splits)

lemma verified_token_Inr:
  assumes "verified_token S code nonce verifier w = (Inr t, w')"
  shows "it_nonce t = nonce \<and> (\<exists>raw h. fst (Verify (sv_oidc S) raw h) = Inr (Inr t))"
  using assms unfolding verified_token_def
  by (auto simp: or_page_Inr external_def raise_def ret_def elim!: bindE_InrE seqE_InrE split: sum.splits if_splits prod.splits)
    (metis fst_conv)

lemma admit_login_Inr:
  assumes "admit_login S c t w = (Inr a, w')"
  shows "(sv_admin_group S \<in> set (it_groups t) \<or> sv_user_group S \<in> set (it_groups t)) \<and> ac_subject a = Some (it_subject t) \<and>
    (ac_is_admin a \<longleftrightarrow> sv_admin_group S \<in> set (it_groups t))"
proof -
  let ?name = "if it_username t = '''' then it_subject t else it_username t"
  have group: "sv_admin_group S \<in> set (it_groups t) \<or> sv_user_group S \<in> set (it_groups t)"
    using assms by (auto simp: admit_login_def Let_def raise_def elim!: seqE_InrE split: if_splits)
  have "\<exists>created v. RecordLogin (sv_cloud S) (it_subject t) ?name (it_email t) (sv_admin_group S \<in> set (it_groups t)) w = (Inr (a, created), v)"
    using assms group
    by (auto simp: admit_login_def Let_def attempt_def raise_def ret_def elim!: seqE_InrE split: if_splits sum.splits prod.splits)
  then show ?thesis
    using group RecordLogin_Inr by blast
qed


lemma open_session_Inr:
  fixes S :: "'h server"
  assumes "open_session S c a w = (Inr t, w')"
  shows "\<exists>s \<in> set (t_sessions (d_tenants (w_db w'))). se_token s = hashToken (sv_cloud S) t \<and> se_account s = ac_id a"
proof -
  let ?E = "sv_cloud S"
  let ?Q = "\<lambda>t d. \<exists>s \<in> set (t_sessions (d_tenants d)). se_token s = hashToken ?E t \<and> se_account s = ac_id a"
  let ?body = "\<lambda>t. bindE (clock ?E) (\<lambda>now. seqE (sql ?E (\<lambda>_. on_tenants (CreateSession (ac_id a) (hashToken ?E t) (now + sv_session_ttl S))))
      (sql ?E (\<lambda>_. RecordAudit S (call_event (login_principal c a) ''''))))"
  have body: "in_tx (\<lambda>_. True) (?body t) (\<lambda>_. ?Q t)" for t
  proof (intro in_tx_bindE [OF in_tx_keeps] in_tx_seqE [where R = "?Q t"])
    show "keeps (db_inv (\<lambda>_. True)) (clock ?E)"
      by (simp add: keeps_def db_inv_def)
    show "in_tx (\<lambda>_. True) (sql ?E (\<lambda>_. on_tenants (CreateSession (ac_id a) (hashToken ?E t) (now + sv_session_ttl S)))) (\<lambda>_. ?Q t)" for now
      by (rule in_tx_sql) (auto simp: on_tenants_def CreateSession_def split: if_splits)
    show "in_tx (?Q t) (sql ?E (\<lambda>_. RecordAudit S (call_event (login_principal c a) ''''))) (\<lambda>_. ?Q t)"
      unfolding RecordAudit_def by (rule in_tx_reading)
  qed
  have stored: "tx ?E (?body t) u = (Inr x, v) \<Longrightarrow> ?Q t (w_db v)" for t u v x
    by (rule tx_result [OF _ _ body]) simp_all
  obtain t' u where "seqE (or_internal (tx ?E (?body t'))) (ret t') u = (Inr t, w')"
    using assms unfolding open_session_def Let_def by (rule bindE_InrE)
  then obtain x v where run: "or_internal (tx ?E (?body t')) u = (Inr x, v)" and "t' = t" "v = w'"
    by (auto simp: ret_def elim: seqE_InrE)
  show ?thesis
    using stored [OF run [unfolded or_internal_Inr]] \<open>t' = t\<close> \<open>v = w'\<close> by simp
qed

lemma take_login_Inr:
  "TakeLoginAttempt now state t = (Inr (nonce, verifier), t') \<Longrightarrow>
   (\<exists>l \<in> set (t_logins t). la_state l = state \<and> la_nonce l = nonce \<and> la_verifier l = verifier \<and> now < la_expires_at l) \<and>
   (\<forall>l \<in> set (t_logins t'). la_state l = state \<longrightarrow> la_expires_at l \<le> now)"
  by (auto simp: TakeLoginAttempt_def split: sum.splits dest: select_one_Inr)

text \<open>What a login has shown when it answers with a session.\<close>

definition started_here :: "'h server \<Rightarrow> http_request \<Rightarrow> string \<Rightarrow> string \<Rightarrow> ledger \<Rightarrow> bool" where
  "started_here S r nonce verifier d \<longleftrightarrow>
     (let state = gomap_str (rq_query r) ''state'' in
      state \<noteq> '''' \<and> rq_login r = Some state \<and>
      (\<exists>l \<in> set (t_logins (d_tenants d)). la_state l = hashToken (sv_cloud S) state \<and> la_nonce l = nonce \<and> la_verifier l = verifier))"

definition member_token :: "'h server \<Rightarrow> string \<Rightarrow> id_token \<Rightarrow> bool" where
  "member_token S nonce t \<longleftrightarrow> it_nonce t = nonce \<and> (\<exists>raw h. fst (Verify (sv_oidc S) raw h) = Inr (Inr t)) \<and>
     (sv_admin_group S \<in> set (it_groups t) \<or> sv_user_group S \<in> set (it_groups t))"



text \<open>A provider that vouches for one member.\<close>

definition member :: id_token where
  "member = \<lparr>it_subject = ''s'', it_nonce = ''n'', it_email = '''', it_username = ''ash'', it_groups = [''users'']\<rparr>"

definition login_server :: "unit server" where
  "login_server = (quiet_server ((quiet_env offline_pve offline_ipam)\<lparr>e_sha256 := (\<lambda>s. replicate 32 (length s))\<rparr>))
     \<lparr>sv_oidc := \<lparr>Discover = (\<lambda>h. (Inr (), h)), Exchange = (\<lambda>_ _ h. (Inr ''raw'', h)), Verify = (\<lambda>_ h. (Inr (Inr member), h))\<rparr>\<rparr>"

definition login_ledger :: ledger where
  "login_ledger = empty_ledger\<lparr>d_tenants := no_tenants\<lparr>t_accounts := [ash],
     t_logins := [\<lparr>la_state = replicate 32 1, la_nonce = ''n'', la_verifier = ''v'', la_expires_at = 1000\<rparr>]\<rparr>\<rparr>"

definition callback :: http_request where
  "callback = proxied_request\<lparr>rq_login := Some ''x'', rq_query := [(''state'', ''x''), (''code'', ''c'')]\<rparr>"

lemma callback_admitted: "\<exists>session w'. completeLogin login_server callback (newCall callback [] []) (start_world () login_ledger) = (Inr session, w')"
proof -
  have "gomap_str (rq_query callback) ''state'' = ''x'' \<and> gomap_str (rq_query callback) ''error'' = ''''"
    by code_simp
  then have "\<not> isl (fst (completeLogin login_server callback (newCall callback [] []) (start_world () login_ledger)))"
    by (simp add: completeLogin_def login_server_def quiet_server_def cloud_eval callback_def proxied_request_def hashToken_def
      on_tenants_def TakeLoginAttempt_def login_ledger_def no_tenants_def select_one_def verified_token_def or_page_def or_internal_def
      admit_login_def member_def RecordLogin_def update_login_def ash_def email_taken_def logged_in_def open_session_def
      randomToken_def random_bytes_def CreateSession_def has_account_def RecordAudit_def quiet_env_def update_where_def login_principal_def
      call_event_def catchE_def tx_def Let_def cong: cloud_lazy)
  then obtain session where "fst (completeLogin login_server callback (newCall callback [] []) (start_world () login_ledger)) = Inr session"
    unfolding isl_def by (metis obj_sumE)
  then show ?thesis
    by (metis prod.collapse)
qed


end
