(* ===== verification/Appliance_Ledger.thy ===== *)
theory Appliance_Ledger
  imports Account_Ledger
begin

text \<open>
  \<open>api/internal/db/buckets.go\<close>, \<open>databases.go\<close>, \<open>functions.go\<close> and \<open>services.go\<close>: the appliances of
  an account. One definition per SQL statement, with the constraints of migrations 0008, 0010, 0011
  and 0017: the checks of a row come first, then the unique indexes, then the foreign keys.
\<close>

text \<open>\<open>coalesce((SELECT a.username FROM accounts a WHERE a.id = ...), '')\<close>.\<close>

definition username_of :: "string \<Rightarrow> tenants \<Rightarrow> string" where
  "username_of acct t = (case find (\<lambda>a. ac_id a = acct) (t_accounts t) of None \<Rightarrow> '''' | Some a \<Rightarrow> ac_username a)"

text \<open>The filter \<open>$1 = '' OR account_id = $1\<close> of the lists.\<close>

definition of_account :: "string \<Rightarrow> string \<Rightarrow> bool" where
  "of_account wanted acct \<longleftrightarrow> wanted = '''' \<or> acct = wanted"

text \<open>\<open>^[a-z0-9][a-z0-9.-]{1,61}[a-z0-9]$\<close>, \<open>^[A-Za-z0-9][A-Za-z0-9 ._:@-]{0,63}$\<close>, \<open>^[a-z][a-z0-9-]{1,29}$\<close> and
  \<open>^db-[0-9a-f]{17}$\<close> with its siblings.\<close>

definition bucketName :: "string \<Rightarrow> bool" where
  "bucketName s \<longleftrightarrow> 3 \<le> length s \<and> length s \<le> 63 \<and> (is_lower (hd s) \<or> is_digit (hd s)) \<and>
     (is_lower (last s) \<or> is_digit (last s)) \<and> list_all (\<lambda>c. slug_char c \<or> c = CHR ''.'') s"

definition databaseName :: "string \<Rightarrow> bool" where
  "databaseName s \<longleftrightarrow> 2 \<le> length s \<and> length s \<le> 30 \<and> is_lower (hd s) \<and> list_all slug_char s"

definition appliance_id_ok :: "string \<Rightarrow> string \<Rightarrow> bool" where
  "appliance_id_ok kind k \<longleftrightarrow> has_prefix k kind \<and> length k = length kind + 17 \<and>
     list_all (\<lambda>c. c \<in> set ''0123456789abcdef'') (drop (length kind) k)"

definition key_name_ok :: "string \<Rightarrow> bool" where
  "key_name_ok s \<longleftrightarrow> s \<noteq> '''' \<and> length s \<le> 64 \<and> (is_letter (hd s) \<or> is_digit (hd s)) \<and>
     list_all (\<lambda>c. is_letter c \<or> is_digit c \<or> c \<in> set '' ._:@-'') s"

section \<open>Buckets and S3 keys\<close>

definition with_bucket_owner :: "tenants \<Rightarrow> bucket_row \<Rightarrow> bucket_row" where
  "with_bucket_owner t b = b\<lparr>bu_owner := username_of (bu_account b) t\<rparr>"

definition InsertBucket :: "int \<Rightarrow> string \<Rightarrow> string \<Rightarrow> string \<Rightarrow> tenants \<Rightarrow> bucket_row res \<times> tenants" where
  "InsertBucket now name acct garage t =
     (let b = \<lparr>bu_name = name, bu_account = acct, bu_owner = '''', bu_garage_id = garage, bu_created_at = now\<rparr> in
      if \<not> bucketName name then (Inl (violation ''buckets_bucket_name_check''), t)
      else if \<exists>x \<in> set (t_buckets t). bu_name x = name then (Inl Duplicate, t)
      else if \<exists>x \<in> set (t_buckets t). bu_garage_id x = garage then (Inl (violation ''buckets_garage_id_key''), t)
      else if \<not> has_account acct t then (Inl (violation ''buckets_account_id_fkey''), t)
      else (Inr (with_bucket_owner t b), t\<lparr>t_buckets := t_buckets t @ [b]\<rparr>))"

definition GetBucket :: "string \<Rightarrow> ledger \<Rightarrow> bucket_row res" where
  "GetBucket name d =
     map_sum id (with_bucket_owner (d_tenants d)) (select_one (\<lambda>b. bu_name b = name) (t_buckets (d_tenants d)))"

definition ListBuckets :: "string \<Rightarrow> tenants \<Rightarrow> bucket_row list" where
  "ListBuckets acct t = map (with_bucket_owner t) (sort_key (\<lambda>b. - bu_created_at b) (sort_key bu_name
     (filter (\<lambda>b. of_account acct (bu_account b)) (t_buckets t))))"

definition DeleteBucket :: "string \<Rightarrow> tenants \<Rightarrow> unit res \<times> tenants" where
  "DeleteBucket name t = (Inr (), t\<lparr>t_buckets := filter (\<lambda>b. bu_name b \<noteq> name) (t_buckets t),
     t_bucket_keys := filter (\<lambda>m. bk_bucket m \<noteq> name) (t_bucket_keys t)\<rparr>)"

definition CountBuckets :: "string \<Rightarrow> tenants \<Rightarrow> int" where
  "CountBuckets acct t = int (length (filter (\<lambda>b. bu_account b = acct) (t_buckets t)))"

definition InsertS3Key :: "int \<Rightarrow> string \<Rightarrow> string \<Rightarrow> string \<Rightarrow> tenants \<Rightarrow> s3_key res \<times> tenants" where
  "InsertS3Key now k acct name t =
     (let key = \<lparr>sk_id = k, sk_account = acct, sk_name = name, sk_created_at = now\<rparr> in
      if \<not> key_name_ok name then (Inl (violation ''s3_keys_name_check''), t)
      else if \<exists>x \<in> set (t_s3_keys t). sk_id x = k then (Inl (violation ''s3_keys_pkey''), t)
      else if \<exists>x \<in> set (t_s3_keys t). sk_account x = acct \<and> sk_name x = name then (Inl Duplicate, t)
      else if \<not> has_account acct t then (Inl (violation ''s3_keys_account_id_fkey''), t)
      else (Inr key, t\<lparr>t_s3_keys := t_s3_keys t @ [key]\<rparr>))"

definition GetS3Key :: "string \<Rightarrow> ledger \<Rightarrow> s3_key res" where
  "GetS3Key k d = select_one (\<lambda>x. sk_id x = k) (t_s3_keys (d_tenants d))"

definition GetS3KeyByName :: "string \<Rightarrow> string \<Rightarrow> ledger \<Rightarrow> s3_key res" where
  "GetS3KeyByName acct name d = select_one (\<lambda>x. sk_account x = acct \<and> sk_name x = name) (t_s3_keys (d_tenants d))"

definition ListS3Keys :: "string \<Rightarrow> tenants \<Rightarrow> s3_key list" where
  "ListS3Keys acct t = sort_key (\<lambda>x. - sk_created_at x) (sort_key sk_name
     (filter (\<lambda>x. of_account acct (sk_account x)) (t_s3_keys t)))"

definition DeleteS3Key :: "string \<Rightarrow> tenants \<Rightarrow> unit res \<times> tenants" where
  "DeleteS3Key k t = (Inr (), t\<lparr>t_s3_keys := filter (\<lambda>x. sk_id x \<noteq> k) (t_s3_keys t),
     t_bucket_keys := filter (\<lambda>m. bk_key m \<noteq> k) (t_bucket_keys t)\<rparr>)"

definition CountS3Keys :: "string \<Rightarrow> tenants \<Rightarrow> int" where
  "CountS3Keys acct t = int (length (filter (\<lambda>x. sk_account x = acct) (t_s3_keys t)))"

text \<open>\<open>INSERT ... ON CONFLICT (bucket_name, key_id) DO UPDATE\<close>.\<close>

definition SetBucketPermission :: "string \<Rightarrow> string \<Rightarrow> bool \<times> bool \<times> bool \<Rightarrow> tenants \<Rightarrow> unit res \<times> tenants" where
  "SetBucketPermission name k perm t =
     (case perm of (r, w, own) \<Rightarrow>
      let m = \<lparr>bk_bucket = name, bk_key = k, bk_read = r, bk_write = w, bk_owner = own\<rparr>;
          same = (\<lambda>x. bk_bucket x = name \<and> bk_key x = k) in
      if \<exists>x \<in> set (t_bucket_keys t). same x
      then (Inr (), t\<lparr>t_bucket_keys := update_where same (\<lambda>_. m) (t_bucket_keys t)\<rparr>)
      else if \<not> (\<exists>b \<in> set (t_buckets t). bu_name b = name) \<or> \<not> (\<exists>x \<in> set (t_s3_keys t). sk_id x = k)
      then (Inl (violation ''bucket_keys_fkey''), t)
      else (Inr (), t\<lparr>t_bucket_keys := t_bucket_keys t @ [m]\<rparr>))"

definition DeleteBucketPermission :: "string \<Rightarrow> string \<Rightarrow> tenants \<Rightarrow> unit res \<times> tenants" where
  "DeleteBucketPermission name k t =
     (Inr (), t\<lparr>t_bucket_keys := filter (\<lambda>m. \<not> (bk_bucket m = name \<and> bk_key m = k)) (t_bucket_keys t)\<rparr>)"

record bucket_permission =
  bp_key :: string
  bp_name :: string
  bp_read :: bool
  bp_write :: bool
  bp_owner :: bool

definition BucketPermissions :: "string \<Rightarrow> tenants \<Rightarrow> bucket_permission list" where
  "BucketPermissions name t = sort_key bp_name (concat (map (\<lambda>m.
     map (\<lambda>x. \<lparr>bp_key = bk_key m, bp_name = sk_name x, bp_read = bk_read m, bp_write = bk_write m, bp_owner = bk_owner m\<rparr>)
       (filter (\<lambda>x. sk_id x = bk_key m) (t_s3_keys t)))
     (filter (\<lambda>m. bk_bucket m = name) (t_bucket_keys t))))"

section \<open>Databases\<close>

definition with_database_owner :: "tenants \<Rightarrow> database_row \<Rightarrow> database_row" where
  "with_database_owner t d = d\<lparr>da_owner := username_of (da_account d) t\<rparr>"

definition InsertDatabase ::
    "int \<Rightarrow> string \<Rightarrow> string \<Rightarrow> string \<Rightarrow> string \<Rightarrow> string \<Rightarrow> string \<Rightarrow> int \<Rightarrow> tenants \<Rightarrow> database_row res \<times> tenants" where
  "InsertDatabase now k acct name namespace engine version gib t =
     (let d = \<lparr>da_id = k, da_account = acct, da_owner = '''', da_name = name, da_namespace = namespace, da_engine = engine,
               da_version = version, da_storage_gib = gib, da_created_at = now\<rparr> in
      if \<not> appliance_id_ok ''db-'' k \<or> \<not> databaseName name \<or> \<not> gib > 0 then (Inl (violation ''databases_check''), t)
      else if \<exists>x \<in> set (t_databases t). da_id x = k \<or> da_account x = acct \<and> da_name x = name then (Inl Duplicate, t)
      else if \<not> has_account acct t then (Inl (violation ''databases_account_id_fkey''), t)
      else (Inr (with_database_owner t d), t\<lparr>t_databases := t_databases t @ [d]\<rparr>))"

definition GetDatabase :: "string \<Rightarrow> ledger \<Rightarrow> database_row res" where
  "GetDatabase k d =
     map_sum id (with_database_owner (d_tenants d)) (select_one (\<lambda>x. da_id x = k) (t_databases (d_tenants d)))"

definition GetDatabaseByName :: "string \<Rightarrow> string \<Rightarrow> ledger \<Rightarrow> database_row res" where
  "GetDatabaseByName acct name d = map_sum id (with_database_owner (d_tenants d))
     (select_one (\<lambda>x. da_account x = acct \<and> da_name x = name) (t_databases (d_tenants d)))"

definition ListDatabases :: "string \<Rightarrow> tenants \<Rightarrow> database_row list" where
  "ListDatabases acct t = map (with_database_owner t) (sort_key (\<lambda>x. - da_created_at x) (sort_key da_name
     (filter (\<lambda>x. of_account acct (da_account x)) (t_databases t))))"

definition DeleteDatabase :: "string \<Rightarrow> tenants \<Rightarrow> unit res \<times> tenants" where
  "DeleteDatabase k t = (Inr (), t\<lparr>t_databases := filter (\<lambda>x. da_id x \<noteq> k) (t_databases t)\<rparr>)"

definition CountDatabases :: "string \<Rightarrow> tenants \<Rightarrow> int" where
  "CountDatabases acct t = int (length (filter (\<lambda>x. da_account x = acct) (t_databases t)))"

section \<open>Functions\<close>

definition with_function_owner :: "tenants \<Rightarrow> function_row \<Rightarrow> function_row" where
  "with_function_owner t f = f\<lparr>fu_owner := username_of (fu_account f) t\<rparr>"

definition InsertFunction ::
    "int \<Rightarrow> string \<Rightarrow> string \<Rightarrow> string \<Rightarrow> string \<Rightarrow> string \<Rightarrow> tenants \<Rightarrow> function_row res \<times> tenants" where
  "InsertFunction now k acct name namespace img t =
     (let f = \<lparr>fu_id = k, fu_account = acct, fu_owner = '''', fu_name = name, fu_namespace = namespace, fu_image = img,
               fu_created_at = now\<rparr> in
      if \<not> appliance_id_ok ''fn-'' k \<or> \<not> databaseName name \<or> img = '''' then (Inl (violation ''functions_check''), t)
      else if \<exists>x \<in> set (t_functions t). fu_id x = k \<or> fu_account x = acct \<and> fu_name x = name then (Inl Duplicate, t)
      else if \<not> has_account acct t then (Inl (violation ''functions_account_id_fkey''), t)
      else (Inr (with_function_owner t f), t\<lparr>t_functions := t_functions t @ [f]\<rparr>))"

definition GetFunction :: "string \<Rightarrow> ledger \<Rightarrow> function_row res" where
  "GetFunction k d =
     map_sum id (with_function_owner (d_tenants d)) (select_one (\<lambda>x. fu_id x = k) (t_functions (d_tenants d)))"

definition GetFunctionByName :: "string \<Rightarrow> string \<Rightarrow> ledger \<Rightarrow> function_row res" where
  "GetFunctionByName acct name d = map_sum id (with_function_owner (d_tenants d))
     (select_one (\<lambda>x. fu_account x = acct \<and> fu_name x = name) (t_functions (d_tenants d)))"

definition ListFunctions :: "string \<Rightarrow> tenants \<Rightarrow> function_row list" where
  "ListFunctions acct t = map (with_function_owner t) (sort_key (\<lambda>x. - fu_created_at x) (sort_key fu_name
     (filter (\<lambda>x. of_account acct (fu_account x)) (t_functions t))))"

definition DeleteFunction :: "string \<Rightarrow> tenants \<Rightarrow> unit res \<times> tenants" where
  "DeleteFunction k t = (Inr (), t\<lparr>t_functions := filter (\<lambda>x. fu_id x \<noteq> k) (t_functions t)\<rparr>)"

definition CountFunctions :: "string \<Rightarrow> tenants \<Rightarrow> int" where
  "CountFunctions acct t = int (length (filter (\<lambda>x. fu_account x = acct) (t_functions t)))"

section \<open>Services\<close>

definition with_service_owner :: "tenants \<Rightarrow> service_row \<Rightarrow> service_row" where
  "with_service_owner t s = s\<lparr>sv_owner := username_of (sv_account s) t\<rparr>"

definition service_row_ok :: "service_row \<Rightarrow> bool" where
  "service_row_ok s \<longleftrightarrow> appliance_id_ok ''svc-'' (sv_id s) \<and> databaseName (sv_name s) \<and> sv_image s \<noteq> '''' \<and>
     0 \<le> sv_port s \<and> sv_port s \<le> 65535 \<and> 32 \<le> sv_memory_mib s \<and> sv_memory_mib s \<le> 512 \<and>
     0 \<le> sv_disk_gib s \<and> sv_disk_gib s \<le> 32"

text \<open>\<open>InsertService\<close>: the row as given, the columns with a default set by the database.\<close>

definition InsertService :: "int \<Rightarrow> service_row \<Rightarrow> tenants \<Rightarrow> service_row res \<times> tenants" where
  "InsertService now s t =
     (let s = s\<lparr>sv_owner := '''', sv_created_at := now\<rparr> in
      if \<not> service_row_ok s then (Inl (violation ''services_check''), t)
      else if \<exists>x \<in> set (t_services t). sv_id x = sv_id s \<or> sv_account x = sv_account s \<and> sv_name x = sv_name s
      then (Inl Duplicate, t)
      else if \<not> has_account (sv_account s) t then (Inl (violation ''services_account_id_fkey''), t)
      else (Inr (with_service_owner t s), t\<lparr>t_services := t_services t @ [s]\<rparr>))"

definition change_service :: "service_row \<Rightarrow> service_row \<Rightarrow> service_row" where
  "change_service s x = x\<lparr>sv_image := sv_image s, sv_memory_mib := sv_memory_mib s, sv_env := sv_env s,
     sv_secret_names := sv_secret_names s\<rparr>"

definition UpdateService :: "service_row \<Rightarrow> tenants \<Rightarrow> service_row res \<times> tenants" where
  "UpdateService s t =
     (case select_one (\<lambda>x. sv_id x = sv_id s) (t_services t) of
        Inl e \<Rightarrow> (Inl e, t)
      | Inr x \<Rightarrow>
          if \<not> service_row_ok (change_service s x) then (Inl (violation ''services_check''), t)
          else (Inr (with_service_owner t (change_service s x)),
                t\<lparr>t_services := update_where (\<lambda>x. sv_id x = sv_id s) (change_service s) (t_services t)\<rparr>))"

definition GetService :: "string \<Rightarrow> ledger \<Rightarrow> service_row res" where
  "GetService k d =
     map_sum id (with_service_owner (d_tenants d)) (select_one (\<lambda>x. sv_id x = k) (t_services (d_tenants d)))"

definition GetServiceByName :: "string \<Rightarrow> string \<Rightarrow> ledger \<Rightarrow> service_row res" where
  "GetServiceByName acct name d = map_sum id (with_service_owner (d_tenants d))
     (select_one (\<lambda>x. sv_account x = acct \<and> sv_name x = name) (t_services (d_tenants d)))"

definition ListServices :: "string \<Rightarrow> tenants \<Rightarrow> service_row list" where
  "ListServices acct t = map (with_service_owner t) (sort_key (\<lambda>x. - sv_created_at x) (sort_key sv_name
     (filter (\<lambda>x. of_account acct (sv_account x)) (t_services t))))"

definition DeleteService :: "string \<Rightarrow> tenants \<Rightarrow> unit res \<times> tenants" where
  "DeleteService k t = (Inr (), t\<lparr>t_services := filter (\<lambda>x. sv_id x \<noteq> k) (t_services t)\<rparr>)"

definition CountServices :: "string \<Rightarrow> tenants \<Rightarrow> int" where
  "CountServices acct t = int (length (filter (\<lambda>x. sv_account x = acct) (t_services t)))"

end
