(* ===== verification/Appliances.thy ===== *)
theory Appliances
  imports Appliance_Ledger Group_Admission
begin

text \<open>
  \<open>compute/buckets.go\<close>, \<open>databases.go\<close>, \<open>functions.go\<close> and \<open>services.go\<close>: the appliances of an account,
  whose objects live in Garage and Kubernetes. Each is created and deleted in one transaction around
  the call of the backend. A backend that is not configured answers 503.
\<close>

section \<open>What they share\<close>

text \<open>\<open>storageReady\<close>, \<open>databaseReady\<close>, \<open>functionReady\<close>, \<open>serviceReady\<close>, and the backend they look for.\<close>

definition backend :: "'b option \<Rightarrow> ('h, 'b) cloud" where
  "backend b = (case b of None \<Rightarrow> raise unavailable | Some x \<Rightarrow> ret x)"

definition storageReady :: "'h env \<Rightarrow> ('h, 'h bucket_store) cloud" where
  "storageReady E = backend (ap_garage (e_appliances E))"

definition databaseReady :: "'h env \<Rightarrow> ('h, 'h database_store) cloud" where
  "databaseReady E = backend (ap_databases (e_appliances E))"

definition functionReady :: "'h env \<Rightarrow> ('h, 'h function_store) cloud" where
  "functionReady E = backend (ap_functions (e_appliances E))"

definition serviceReady :: "'h env \<Rightarrow> ('h, 'h workload_store) cloud" where
  "serviceReady E = backend (ap_workloads (e_appliances E))"

text \<open>\<open>hex.EncodeToString(b)[:17]\<close> of nine random bytes, behind the prefix of the kind.\<close>

definition new_appliance_id :: "'h env \<Rightarrow> string \<Rightarrow> ('h, string) cloud" where
  "new_appliance_id E kind = bindE (random_bytes E 9) (\<lambda>b. ret (kind @ take 17 (hex_encode b)))"

text \<open>A delete that the backend answers with "not found" is done.\<close>

definition or_gone :: "('h, unit) cloud \<Rightarrow> err \<Rightarrow> ('h, unit) cloud" where
  "or_gone m refusal = catchE m (\<lambda>e. if err_is e NotFound then ret () else raise refusal)"

definition row_or :: "('h, 'a) cloud \<Rightarrow> err \<Rightarrow> ('a \<Rightarrow> bool) \<Rightarrow> ('h, 'a) cloud" where
  "row_or m missing authorize = attempt m (\<lambda>r. case r of
       Inl e \<Rightarrow> raise (if err_is e NotFound then missing else e)
     | Inr x \<Rightarrow> if authorize x then ret x else raise missing)"

definition maxBucketsPerAccount :: int where "maxBucketsPerAccount = 20"
definition maxS3KeysPerAccount :: int where "maxS3KeysPerAccount = 10"
definition maxDatabasesPerAccount :: int where "maxDatabasesPerAccount = 5"
definition maxFunctionsPerAccount :: int where "maxFunctionsPerAccount = 10"
definition maxServicesPerAccount :: int where "maxServicesPerAccount = 10"

section \<open>Buckets\<close>

definition bucketNotFound :: err where "bucketNotFound = Refuse 404 ''NoSuchBucket''"
definition keyNotFound :: err where "keyNotFound = Refuse 404 ''NoSuchKey''"

text \<open>
  PostgreSQL answers every statement of a transaction in which one has failed with this error; the
  \<open>GetBucket\<close> after the unique violation gets it.
\<close>

definition tx_aborted :: err where
  "tx_aborted = Failed ''current transaction is aborted, commands ignored until end of transaction block''"

definition create_bucket_tx ::
    "'h env \<Rightarrow> 'h bucket_store \<Rightarrow> string \<Rightarrow> string \<Rightarrow> (bucket_row \<Rightarrow> unit res) \<Rightarrow> ('h, bucket_row \<times> bool) cloud" where
  "create_bucket_tx E G acct name audit =
     attempt (sql E (\<lambda>_. reading (GetBucket name))) (\<lambda>found. case found of
         Inr b \<Rightarrow> if bu_account b \<noteq> acct then raise (Refuse 409 ''BucketAlreadyExists'') else ret (b, False)
       | Inl e \<Rightarrow>
           if \<not> err_is e NotFound then raise e
           else bindE (sql E (\<lambda>_. reading (\<lambda>d. Inr (CountBuckets acct (d_tenants d))))) (\<lambda>count.
             if count \<ge> maxBucketsPerAccount then raise (Refuse 409 ''BucketLimitExceeded'')
             else bindE (or_unavailable (pve_do (DidCreateBucket name) (GCreateBucket G name))) (\<lambda>info.
               attempt (sql E (\<lambda>now. on_tenants (InsertBucket now name acct (gb_id info)))) (\<lambda>r. case r of
                   Inr b \<Rightarrow> seqE (of_res (audit b)) (ret (b, True))
                 | Inl e \<Rightarrow> seqE (logged (pve_do (DidDeleteBucket (gb_id info)) (GDeleteBucket G (gb_id info))))
                     (raise (if err_is e Duplicate then tx_aborted else e))))))"

definition CreateBucket ::
    "'h env \<Rightarrow> string \<Rightarrow> string \<Rightarrow> (bucket_row \<Rightarrow> unit res) \<Rightarrow> ('h, bucket_row \<times> bool) cloud" where
  "CreateBucket E acct name audit =
     (if length name < 3 \<or> length name > 63 \<or> \<not> bucketName name \<or> contains_str name ''..''
      then raise (Refuse 400 ''InvalidBucketName'')
      else bindE (storageReady E) (\<lambda>G. tx E (create_bucket_tx E G acct name audit)))"

record bucket_status =
  bs_bucket :: bucket_row
  bs_keys :: "bucket_permission list"
  bs_objects :: int
  bs_bytes :: int

definition bucket_usage :: "'h env \<Rightarrow> string \<Rightarrow> ('h, int \<times> int) cloud" where
  "bucket_usage E name = (case ap_garage (e_appliances E) of
       None \<Rightarrow> ret (0, 0)
     | Some G \<Rightarrow> attempt (external (GBucketInfo G name)) (\<lambda>r. case r of
           Inl e \<Rightarrow> ret (0, 0) | Inr info \<Rightarrow> ret (gb_objects info, gb_bytes info)))"

definition bucket_status_of :: "'h env \<Rightarrow> bucket_row \<Rightarrow> ('h, bucket_status) cloud" where
  "bucket_status_of E b =
     bindE (db E (\<lambda>_. reading (\<lambda>d. Inr (BucketPermissions (bu_name b) (d_tenants d))))) (\<lambda>keys.
     bindE (bucket_usage E (bu_name b)) (\<lambda>(objects, bytes).
       ret \<lparr>bs_bucket = b, bs_keys = keys, bs_objects = objects, bs_bytes = bytes\<rparr>))"

primrec bucket_statuses :: "'h env \<Rightarrow> bucket_row list \<Rightarrow> ('h, bucket_status list) cloud" where
  "bucket_statuses E [] = ret []"
| "bucket_statuses E (b # bs) =
     bindE (bucket_status_of E b) (\<lambda>st. bindE (bucket_statuses E bs) (\<lambda>sts. ret (st # sts)))"

definition ListBuckets' :: "'h env \<Rightarrow> string \<Rightarrow> ('h, bucket_status list) cloud" where
  "ListBuckets' E acct =
     bindE (db E (\<lambda>_. reading (\<lambda>d. Inr (ListBuckets acct (d_tenants d))))) (bucket_statuses E)"

definition GetBucket' :: "'h env \<Rightarrow> string \<Rightarrow> (bucket_row \<Rightarrow> bool) \<Rightarrow> ('h, bucket_status) cloud" where
  "GetBucket' E name authorize =
     bindE (row_or (db E (\<lambda>_. reading (GetBucket name))) bucketNotFound authorize) (bucket_status_of E)"

definition delete_bucket_tx ::
    "'h env \<Rightarrow> 'h bucket_store \<Rightarrow> string \<Rightarrow> (bucket_row \<Rightarrow> bool) \<Rightarrow> (bucket_row \<Rightarrow> unit res) \<Rightarrow> ('h, unit) cloud" where
  "delete_bucket_tx E G name authorize audit =
     bindE (row_or (sql E (\<lambda>_. reading (GetBucket name))) bucketNotFound authorize) (\<lambda>b.
       seqE (or_gone (pve_do (DidDeleteBucket (bu_garage_id b)) (GDeleteBucket G (bu_garage_id b)))
               (Refuse 409 ''BucketNotEmpty''))
       (seqE (sql E (\<lambda>_. on_tenants (DeleteBucket name))) (of_res (audit b))))"

definition DeleteBucket' ::
    "'h env \<Rightarrow> string \<Rightarrow> (bucket_row \<Rightarrow> bool) \<Rightarrow> (bucket_row \<Rightarrow> unit res) \<Rightarrow> ('h, unit) cloud" where
  "DeleteBucket' E name authorize audit =
     bindE (storageReady E) (\<lambda>G. tx E (delete_bucket_tx E G name authorize audit))"

section \<open>S3 keys\<close>

definition create_s3_key_tx ::
    "'h env \<Rightarrow> 'h bucket_store \<Rightarrow> string \<Rightarrow> string \<Rightarrow> (s3_key \<Rightarrow> unit res) \<Rightarrow> ('h, s3_key \<times> string) cloud" where
  "create_s3_key_tx E G acct name audit =
     attempt (sql E (\<lambda>_. reading (GetS3KeyByName acct name))) (\<lambda>found. case found of
         Inr k \<Rightarrow> ret (k, '''')
       | Inl e \<Rightarrow>
           if \<not> err_is e NotFound then raise e
           else bindE (sql E (\<lambda>_. reading (\<lambda>d. Inr (CountS3Keys acct (d_tenants d))))) (\<lambda>count.
             if count \<ge> maxS3KeysPerAccount then raise (Refuse 409 ''S3KeyLimitExceeded'')
             else bindE (or_unavailable (pve_do (DidCreateS3Key name) (GCreateKey G name))) (\<lambda>info.
               bindE (catchE (sql E (\<lambda>now. on_tenants (InsertS3Key now (gk_id info) acct name)))
                 (\<lambda>e. seqE (logged (pve_do (DidDeleteS3Key (gk_id info)) (GDeleteKey G (gk_id info)))) (raise e))) (\<lambda>k.
               seqE (of_res (audit k)) (ret (k, gk_secret info))))))"

definition CreateS3Key ::
    "'h env \<Rightarrow> string \<Rightarrow> string \<Rightarrow> (s3_key \<Rightarrow> unit res) \<Rightarrow> ('h, s3_key \<times> string) cloud" where
  "CreateS3Key E acct name audit =
     (if name = '''' \<or> \<not> groupName name then raise bad_request
      else bindE (storageReady E) (\<lambda>G. tx E (create_s3_key_tx E G acct name audit)))"

definition ListS3Keys' :: "'h env \<Rightarrow> string \<Rightarrow> ('h, s3_key list) cloud" where
  "ListS3Keys' E acct = db E (\<lambda>_. reading (\<lambda>d. Inr (ListS3Keys acct (d_tenants d))))"

definition GetS3Key' :: "'h env \<Rightarrow> string \<Rightarrow> (s3_key \<Rightarrow> bool) \<Rightarrow> ('h, s3_key) cloud" where
  "GetS3Key' E k authorize = row_or (db E (\<lambda>_. reading (GetS3Key k))) keyNotFound authorize"

definition DeleteS3Key' ::
    "'h env \<Rightarrow> string \<Rightarrow> (s3_key \<Rightarrow> bool) \<Rightarrow> (s3_key \<Rightarrow> unit res) \<Rightarrow> ('h, unit) cloud" where
  "DeleteS3Key' E k authorize audit =
     bindE (storageReady E) (\<lambda>G. tx E (
       bindE (row_or (sql E (\<lambda>_. reading (GetS3Key k))) keyNotFound authorize) (\<lambda>key.
         seqE (or_gone (pve_do (DidDeleteS3Key k) (GDeleteKey G k)) unavailable)
         (seqE (sql E (\<lambda>_. on_tenants (DeleteS3Key k))) (of_res (audit key))))))"

section \<open>Permissions\<close>

definition permitted_status :: "'h env \<Rightarrow> bucket_row \<Rightarrow> ('h, bucket_status) cloud" where
  "permitted_status E b =
     bindE (sql E (\<lambda>_. reading (\<lambda>d. Inr (BucketPermissions (bu_name b) (d_tenants d))))) (\<lambda>keys.
       ret \<lparr>bs_bucket = b, bs_keys = keys, bs_objects = 0, bs_bytes = 0\<rparr>)"

definition set_permission_tx ::
    "'h env \<Rightarrow> 'h bucket_store \<Rightarrow> string \<Rightarrow> string \<Rightarrow> bool \<times> bool \<times> bool \<Rightarrow> (bucket_row \<Rightarrow> bool) \<Rightarrow>
     (bucket_row \<Rightarrow> s3_key \<Rightarrow> unit res) \<Rightarrow> ('h, bucket_status) cloud" where
  "set_permission_tx E G name k perm authorize audit =
     bindE (row_or (sql E (\<lambda>_. reading (GetBucket name))) bucketNotFound authorize) (\<lambda>b.
     bindE (row_or (sql E (\<lambda>_. reading (GetS3Key k))) keyNotFound (\<lambda>key. sk_account key = bu_account b)) (\<lambda>key.
     seqE (or_unavailable (case perm of (r, w, own) \<Rightarrow>
             pve_do (DidAllow (bu_garage_id b) k r w own) (GAllow G (bu_garage_id b) k perm)))
     (seqE (sql E (\<lambda>_. on_tenants (SetBucketPermission name k perm)))
     (bindE (permitted_status E b) (\<lambda>st. seqE (of_res (audit b key)) (ret st))))))"

definition SetBucketPermission' ::
    "'h env \<Rightarrow> string \<Rightarrow> string \<Rightarrow> bool \<times> bool \<times> bool \<Rightarrow> (bucket_row \<Rightarrow> bool) \<Rightarrow>
     (bucket_row \<Rightarrow> s3_key \<Rightarrow> unit res) \<Rightarrow> ('h, bucket_status) cloud" where
  "SetBucketPermission' E name k perm authorize audit =
     bindE (storageReady E) (\<lambda>G. tx E (set_permission_tx E G name k perm authorize audit))"

text \<open>A key that is gone from the ledger is revoked all the same; its audit row then names no key.\<close>

definition no_key :: s3_key where
  "no_key = \<lparr>sk_id = '''', sk_account = '''', sk_name = '''', sk_created_at = 0\<rparr>"

definition revoke_permission_tx ::
    "'h env \<Rightarrow> 'h bucket_store \<Rightarrow> string \<Rightarrow> string \<Rightarrow> (bucket_row \<Rightarrow> bool) \<Rightarrow>
     (bucket_row \<Rightarrow> s3_key \<Rightarrow> unit res) \<Rightarrow> ('h, bucket_status) cloud" where
  "revoke_permission_tx E G name k authorize audit =
     bindE (row_or (sql E (\<lambda>_. reading (GetBucket name))) bucketNotFound authorize) (\<lambda>b.
     bindE (catchE (sql E (\<lambda>_. reading (GetS3Key k))) (\<lambda>e. if err_is e NotFound then ret no_key else raise e)) (\<lambda>key.
     seqE (or_gone (pve_do (DidDeny (bu_garage_id b) k) (GDeny G (bu_garage_id b) k (True, True, True))) unavailable)
     (seqE (sql E (\<lambda>_. on_tenants (DeleteBucketPermission name k)))
     (bindE (permitted_status E b) (\<lambda>st. seqE (of_res (audit b key)) (ret st))))))"

definition RevokeBucketPermission ::
    "'h env \<Rightarrow> string \<Rightarrow> string \<Rightarrow> (bucket_row \<Rightarrow> bool) \<Rightarrow> (bucket_row \<Rightarrow> s3_key \<Rightarrow> unit res) \<Rightarrow>
     ('h, bucket_status) cloud" where
  "RevokeBucketPermission E name k authorize audit =
     bindE (storageReady E) (\<lambda>G. tx E (revoke_permission_tx E G name k authorize audit))"

section \<open>Databases\<close>

definition databaseMinGiB :: int where "databaseMinGiB = 1"
definition databaseMaxGiB :: int where "databaseMaxGiB = 50"
definition databaseEngineVersion :: string where "databaseEngineVersion = ''18''"
definition databaseNotFound :: err where "databaseNotFound = Refuse 404 ''NoSuchDatabase''"

record database_status =
  ds_database :: database_row
  ds_phase :: string
  ds_ready :: int
  ds_instances :: int

definition newDatabaseID :: "'h env \<Rightarrow> ('h, string) cloud" where
  "newDatabaseID E = new_appliance_id E ''db-''"

definition create_database_tx ::
    "'h env \<Rightarrow> 'h database_store \<Rightarrow> string \<Rightarrow> string \<Rightarrow> int \<Rightarrow> (database_row \<Rightarrow> unit res) \<Rightarrow>
     ('h, database_row \<times> bool) cloud" where
  "create_database_tx E K acct name gib audit =
     (let ns = ap_database_namespace (e_appliances E) in
      attempt (sql E (\<lambda>_. reading (GetDatabaseByName acct name))) (\<lambda>found. case found of
         Inr d \<Rightarrow> ret (d, False)
       | Inl e \<Rightarrow>
           if \<not> err_is e NotFound then raise e
           else bindE (sql E (\<lambda>_. reading (\<lambda>d. Inr (CountDatabases acct (d_tenants d))))) (\<lambda>count.
             if count \<ge> maxDatabasesPerAccount then raise (Refuse 409 ''DatabaseLimitExceeded'')
             else bindE (newDatabaseID E) (\<lambda>k.
               bindE (or_unavailable (pve_do (DidCreateAppliance ns k) (KCreateCluster K
                 \<lparr>cs_name = k, cs_namespace = ns, cs_instances = 1, cs_storage_class = ap_storage_class (e_appliances E),
                  cs_storage_gib = gib,
                  cs_labels = [(''shakecloud.io/account'', acct), (''shakecloud.io/database'', k)]\<rparr>))) (\<lambda>_.
               attempt (sql E (\<lambda>now. on_tenants (InsertDatabase now k acct name ns ''postgres'' databaseEngineVersion gib))) (\<lambda>r.
                 case r of
                   Inr d \<Rightarrow> seqE (of_res (audit d)) (ret (d, True))
                 | Inl e \<Rightarrow> seqE (logged (pve_do (DidDeleteAppliance ns k) (KDeleteCluster K ns k)))
                     (raise (if err_is e Duplicate then Refuse 409 ''ResourceAlreadyExists'' else e))))))))"

definition CreateDatabase ::
    "'h env \<Rightarrow> string \<Rightarrow> string \<Rightarrow> int \<Rightarrow> (database_row \<Rightarrow> unit res) \<Rightarrow> ('h, database_row \<times> bool) cloud" where
  "CreateDatabase E acct name gib audit =
     (let name = trim_space name in
      if \<not> databaseName name \<or> gib < databaseMinGiB \<or> gib > databaseMaxGiB then raise bad_request
      else bindE (databaseReady E) (\<lambda>K. tx E (create_database_tx E K acct name gib audit)))"

definition database_status_of :: "database_row \<Rightarrow> cluster \<Rightarrow> database_status" where
  "database_status_of d c = \<lparr>ds_database = d, ds_phase = cl_phase c, ds_ready = cl_ready c, ds_instances = cl_instances c\<rparr>"

text \<open>\<open>byName[record.ID]\<close>: the last cluster of that name, or an empty one.\<close>

definition by_name :: "('c \<Rightarrow> string) \<Rightarrow> 'c \<Rightarrow> 'c list \<Rightarrow> string \<Rightarrow> 'c" where
  "by_name name none cs k = (case find (\<lambda>c. name c = k) (rev cs) of None \<Rightarrow> none | Some c \<Rightarrow> c)"

definition account_selector :: "string \<Rightarrow> string" where
  "account_selector acct = (if acct = '''' then '''' else ''shakecloud.io/account='' @ acct)"

definition ListDatabases' :: "'h env \<Rightarrow> string \<Rightarrow> ('h, database_status list) cloud" where
  "ListDatabases' E acct =
     bindE (databaseReady E) (\<lambda>K.
     bindE (db E (\<lambda>_. reading (\<lambda>d. Inr (ListDatabases acct (d_tenants d))))) (\<lambda>rows.
     bindE (or_unavailable (external (KListClusters K (ap_database_namespace (e_appliances E)) (account_selector acct)))) (\<lambda>cs.
       ret (map (\<lambda>d. database_status_of d
         (by_name cl_name \<lparr>cl_name = '''', cl_phase = '''', cl_ready = 0, cl_instances = 0\<rparr> cs (da_id d))) rows))))"

definition GetDatabase' :: "'h env \<Rightarrow> string \<Rightarrow> ('h, database_status) cloud" where
  "GetDatabase' E k =
     bindE (databaseReady E) (\<lambda>K.
     bindE (row_or (db E (\<lambda>_. reading (GetDatabase k))) databaseNotFound (\<lambda>_. True)) (\<lambda>d.
     bindE (or_unavailable (external (KGetCluster K (da_namespace d) (da_id d)))) (\<lambda>c. ret (database_status_of d c))))"

definition DeleteDatabase' :: "'h env \<Rightarrow> string \<Rightarrow> (database_row \<Rightarrow> unit res) \<Rightarrow> ('h, unit) cloud" where
  "DeleteDatabase' E k audit =
     bindE (databaseReady E) (\<lambda>K. tx E (
       bindE (row_or (sql E (\<lambda>_. reading (GetDatabase k))) databaseNotFound (\<lambda>_. True)) (\<lambda>d.
         seqE (or_gone (pve_do (DidDeleteAppliance (da_namespace d) (da_id d)) (KDeleteCluster K (da_namespace d) (da_id d)))
                 unavailable)
         (seqE (sql E (\<lambda>_. on_tenants (DeleteDatabase k))) (of_res (audit d))))))"

definition DatabaseCredentials :: "'h env \<Rightarrow> string \<Rightarrow> ('h, database_row \<times> (string, string) gomap) cloud" where
  "DatabaseCredentials E k =
     bindE (databaseReady E) (\<lambda>K.
     bindE (row_or (db E (\<lambda>_. reading (GetDatabase k))) databaseNotFound (\<lambda>_. True)) (\<lambda>d.
     bindE (or_unavailable (external (KGetCredentials K (da_namespace d) (da_id d @ ''-app'')))) (\<lambda>c. ret (d, c))))"

end
