(* ===== verification/Workloads.thy ===== *)
theory Workloads
  imports Appliances
begin

text \<open>
  \<open>compute/functions.go\<close> and \<open>compute/services.go\<close>: serverless functions (Knative) and always-on
  container services (Deployments), the appliances that run an account's own images.
\<close>

section \<open>Functions\<close>

definition maxImageLength :: nat where "maxImageLength = 512"
definition functionNotFound :: err where "functionNotFound = Refuse 404 ''NoSuchFunction''"

record function_status =
  fs_function :: function_row
  fs_url :: string
  fs_ready :: bool

definition newFunctionID :: "'h env \<Rightarrow> ('h, string) cloud" where
  "newFunctionID E = new_appliance_id E ''fn-''"

definition create_function_tx ::
    "'h env \<Rightarrow> 'h function_store \<Rightarrow> string \<Rightarrow> string \<Rightarrow> string \<Rightarrow> (function_row \<Rightarrow> unit res) \<Rightarrow>
     ('h, function_row \<times> bool) cloud" where
  "create_function_tx E K acct name img audit =
     (let ns = ap_function_namespace (e_appliances E) in
      attempt (sql E (\<lambda>_. reading (GetFunctionByName acct name))) (\<lambda>found. case found of
         Inr f \<Rightarrow> ret (f, False)
       | Inl e \<Rightarrow>
           if \<not> err_is e NotFound then raise e
           else bindE (sql E (\<lambda>_. reading (\<lambda>d. Inr (CountFunctions acct (d_tenants d))))) (\<lambda>count.
             if count \<ge> maxFunctionsPerAccount then raise (Refuse 409 ''FunctionLimitExceeded'')
             else bindE (newFunctionID E) (\<lambda>k.
               bindE (or_unavailable (pve_do (DidCreateAppliance ns k) (KCreateService K
                 \<lparr>ks_name = k, ks_namespace = ns, ks_image = img,
                  ks_labels = [(''shakecloud.io/account'', acct), (''shakecloud.io/function'', k)]\<rparr>))) (\<lambda>_.
               attempt (sql E (\<lambda>now. on_tenants (InsertFunction now k acct name ns img))) (\<lambda>r. case r of
                   Inr f \<Rightarrow> seqE (of_res (audit f)) (ret (f, True))
                 | Inl e \<Rightarrow> seqE (logged (pve_do (DidDeleteAppliance ns k) (KDeleteService K ns k)))
                     (raise (if err_is e Duplicate then Refuse 409 ''ResourceAlreadyExists'' else e))))))))"

definition CreateFunction ::
    "'h env \<Rightarrow> string \<Rightarrow> string \<Rightarrow> string \<Rightarrow> (function_row \<Rightarrow> unit res) \<Rightarrow> ('h, function_row \<times> bool) cloud" where
  "CreateFunction E acct name img audit =
     (let name = trim_space name; img = trim_space img in
      if \<not> databaseName name \<or> img = '''' \<or> length img > maxImageLength then raise bad_request
      else bindE (functionReady E) (\<lambda>K. tx E (create_function_tx E K acct name img audit)))"

definition functionStatusOf :: "function_row \<Rightarrow> knative_service \<Rightarrow> function_status" where
  "functionStatusOf f s = \<lparr>fs_function = f, fs_url = kn_url s, fs_ready = kn_ready s\<rparr>"

definition ListFunctions' :: "'h env \<Rightarrow> string \<Rightarrow> ('h, function_status list) cloud" where
  "ListFunctions' E acct =
     bindE (functionReady E) (\<lambda>K.
     bindE (db E (\<lambda>_. reading (\<lambda>d. Inr (ListFunctions acct (d_tenants d))))) (\<lambda>rows.
     bindE (or_unavailable (external (KListServices K (ap_function_namespace (e_appliances E)) (account_selector acct)))) (\<lambda>ss.
       ret (map (\<lambda>f. functionStatusOf f (by_name kn_name \<lparr>kn_name = '''', kn_url = '''', kn_ready = False\<rparr> ss (fu_id f))) rows))))"

definition GetFunction' :: "'h env \<Rightarrow> string \<Rightarrow> ('h, function_status) cloud" where
  "GetFunction' E k =
     bindE (functionReady E) (\<lambda>K.
     bindE (row_or (db E (\<lambda>_. reading (GetFunction k))) functionNotFound (\<lambda>_. True)) (\<lambda>f.
     bindE (or_unavailable (external (KGetService K (fu_namespace f) (fu_id f)))) (\<lambda>s. ret (functionStatusOf f s))))"

definition DeleteFunction' :: "'h env \<Rightarrow> string \<Rightarrow> (function_row \<Rightarrow> unit res) \<Rightarrow> ('h, unit) cloud" where
  "DeleteFunction' E k audit =
     bindE (functionReady E) (\<lambda>K. tx E (
       bindE (row_or (sql E (\<lambda>_. reading (GetFunction k))) functionNotFound (\<lambda>_. True)) (\<lambda>f.
         seqE (or_gone (pve_do (DidDeleteAppliance (fu_namespace f) (fu_id f)) (KDeleteService K (fu_namespace f) (fu_id f)))
                 unavailable)
         (seqE (sql E (\<lambda>_. on_tenants (DeleteFunction k))) (of_res (audit f))))))"

section \<open>Services\<close>

definition defaultServiceMemory :: int where "defaultServiceMemory = 128"
definition minServiceMemory :: int where "minServiceMemory = 32"
definition maxServiceMemory :: int where "maxServiceMemory = 512"
definition maxServiceDiskGiB :: int where "maxServiceDiskGiB = 32"
definition maxServiceEnv :: nat where "maxServiceEnv = 50"
definition maxServiceSecrets :: nat where "maxServiceSecrets = 20"

text \<open>\<open>^[A-Za-z_][A-Za-z0-9_]{0,127}$\<close> and \<open>^/[A-Za-z0-9._/-]*$\<close>.\<close>

definition envName :: "string \<Rightarrow> bool" where
  "envName s \<longleftrightarrow> s \<noteq> '''' \<and> length s \<le> 128 \<and> (is_letter (hd s) \<or> hd s = CHR ''_'') \<and>
     list_all (\<lambda>c. is_letter c \<or> is_digit c \<or> c = CHR ''_'') s"

definition mountPath :: "string \<Rightarrow> bool" where
  "mountPath s \<longleftrightarrow> s \<noteq> '''' \<and> hd s = CHR ''/'' \<and> list_all (\<lambda>c. is_letter c \<or> is_digit c \<or> c \<in> set ''._/-'') (tl s)"

record service_request =
  sq_name :: string
  sq_image :: string
  sq_port :: int
  sq_memory_mib :: int
  sq_env :: "(string, string) gomap"
  sq_secrets :: "(string, string) gomap"
  sq_disk_gib :: int
  sq_mount_path :: string

record service_change =
  sg_image :: "string option"
  sg_memory_mib :: "int option"
  sg_env :: "(string, string) gomap"
  sg_secrets :: "(string, string) gomap"
  sg_set_env :: bool
  sg_set_secret :: bool

record service_status =
  st_service :: service_row
  st_ready :: bool
  st_url :: string

definition serviceNotFound :: err where "serviceNotFound = Refuse 404 ''NoSuchService''"

definition newServiceID :: "'h env \<Rightarrow> ('h, string) cloud" where
  "newServiceID E = new_appliance_id E ''svc-''"

definition checkImage :: "string \<Rightarrow> bool" where
  "checkImage img \<longleftrightarrow> img \<noteq> '''' \<and> length img \<le> maxImageLength"

definition checkMemory :: "int \<Rightarrow> bool" where
  "checkMemory memory \<longleftrightarrow> minServiceMemory \<le> memory \<and> memory \<le> maxServiceMemory"

definition checkEnv :: "(string, string) gomap \<Rightarrow> (string, string) gomap \<Rightarrow> bool" where
  "checkEnv env secrets \<longleftrightarrow> length env \<le> maxServiceEnv \<and> length secrets \<le> maxServiceSecrets \<and>
     list_all (\<lambda>(name, v). envName name \<and> gomap_get secrets name = None) env \<and>
     list_all (\<lambda>(name, v). envName name) secrets"

definition secretNames :: "(string, string) gomap \<Rightarrow> string list" where
  "secretNames secrets = sort (map fst secrets)"

definition workloadSpec :: "service_row \<Rightarrow> (string, string) gomap \<Rightarrow> workload_spec" where
  "workloadSpec s secrets = \<lparr>ws_name = sv_id s, ws_namespace = sv_namespace s, ws_image = sv_image s, ws_port = sv_port s,
     ws_memory_mib = sv_memory_mib s, ws_env = sv_env s, ws_secrets = secrets, ws_disk_gib = sv_disk_gib s,
     ws_mount_path = sv_mount_path s,
     ws_labels = [(''shakecloud.io/account'', sv_account s), (''shakecloud.io/service'', sv_id s)]\<rparr>"

definition service_request_ok :: "service_request \<Rightarrow> bool" where
  "service_request_ok r \<longleftrightarrow> databaseName (sq_name r) \<and> checkImage (sq_image r) \<and>
     0 \<le> sq_port r \<and> sq_port r \<le> 65535 \<and> checkMemory (sq_memory_mib r) \<and> checkEnv (sq_env r) (sq_secrets r) \<and>
     0 \<le> sq_disk_gib r \<and> sq_disk_gib r \<le> maxServiceDiskGiB \<and>
     (sq_disk_gib r > 0 \<longrightarrow> mountPath (sq_mount_path r) \<and> sq_mount_path r \<noteq> ''/'' \<and> sq_mount_path r \<noteq> ''/tmp'') \<and>
     (sq_disk_gib r = 0 \<longrightarrow> sq_mount_path r = '''')"

definition new_service :: "string \<Rightarrow> string \<Rightarrow> string \<Rightarrow> service_request \<Rightarrow> service_row" where
  "new_service k acct ns r = \<lparr>sv_id = k, sv_account = acct, sv_owner = '''', sv_name = sq_name r, sv_namespace = ns,
     sv_image = sq_image r, sv_port = sq_port r, sv_memory_mib = sq_memory_mib r, sv_env = sq_env r,
     sv_secret_names = secretNames (sq_secrets r), sv_disk_gib = sq_disk_gib r, sv_mount_path = sq_mount_path r,
     sv_created_at = 0\<rparr>"

text \<open>\<open>s.Workloads.Apply\<close>; the log names the objects.\<close>

definition apply_workload :: "'h workload_store \<Rightarrow> service_row \<Rightarrow> (string, string) gomap \<Rightarrow> ('h, unit) cloud" where
  "apply_workload K s secrets =
     pve_do (DidCreateAppliance (sv_namespace s) (sv_id s)) (WApply K (workloadSpec s secrets))"

definition create_service_tx ::
    "'h env \<Rightarrow> 'h workload_store \<Rightarrow> string \<Rightarrow> service_request \<Rightarrow> (service_row \<Rightarrow> unit res) \<Rightarrow>
     ('h, service_row \<times> bool) cloud" where
  "create_service_tx E K acct r audit =
     attempt (sql E (\<lambda>_. reading (GetServiceByName acct (sq_name r)))) (\<lambda>found. case found of
         Inr s \<Rightarrow> ret (s, False)
       | Inl e \<Rightarrow>
           if \<not> err_is e NotFound then raise e
           else bindE (sql E (\<lambda>_. reading (\<lambda>d. Inr (CountServices acct (d_tenants d))))) (\<lambda>count.
             if count \<ge> maxServicesPerAccount then raise (Refuse 409 ''ServiceLimitExceeded'')
             else bindE (newServiceID E) (\<lambda>k.
               bindE (catchE (sql E (\<lambda>now. on_tenants (InsertService now
                    (new_service k acct (ap_service_namespace (e_appliances E)) r))))
                 (\<lambda>e. raise (if err_is e Duplicate then Refuse 409 ''ResourceAlreadyExists'' else e))) (\<lambda>s.
               seqE (catchE (apply_workload K s (sq_secrets r))
                      (\<lambda>_. seqE (logged (pve_do (DidDeleteAppliance (sv_namespace s) (sv_id s)) (WDelete K (sv_namespace s) (sv_id s))))
                        (raise unavailable)))
                 (seqE (of_res (audit s)) (ret (s, True)))))))"

definition CreateService ::
    "'h env \<Rightarrow> string \<Rightarrow> service_request \<Rightarrow> (service_row \<Rightarrow> unit res) \<Rightarrow> ('h, service_row \<times> bool) cloud" where
  "CreateService E acct r audit =
     (let r = r\<lparr>sq_name := trim_space (sq_name r), sq_image := trim_space (sq_image r),
                sq_memory_mib := (if sq_memory_mib r = 0 then defaultServiceMemory else sq_memory_mib r)\<rparr> in
      if \<not> service_request_ok r then raise bad_request
      else bindE (serviceReady E) (\<lambda>K. tx E (create_service_tx E K acct r audit)))"

text \<open>The row a modify asks for, before the secrets; \<open>None\<close> is a refusal.\<close>

definition changed_service :: "service_change \<Rightarrow> service_row \<Rightarrow> service_row option" where
  "changed_service g s =
     (let img = (case sg_image g of None \<Rightarrow> sv_image s | Some i \<Rightarrow> trim_space i);
          memory = (case sg_memory_mib g of None \<Rightarrow> sv_memory_mib s | Some m \<Rightarrow> m) in
      if sg_image g \<noteq> None \<and> \<not> checkImage img then None
      else if sg_memory_mib g \<noteq> None \<and> \<not> checkMemory memory then None
      else Some (s\<lparr>sv_image := img, sv_memory_mib := memory,
                   sv_env := (if sg_set_env g then sg_env g else sv_env s)\<rparr>))"

definition modify_service_tx ::
    "'h env \<Rightarrow> 'h workload_store \<Rightarrow> string \<Rightarrow> service_change \<Rightarrow> (service_row \<Rightarrow> unit res) \<Rightarrow> ('h, service_row) cloud" where
  "modify_service_tx E K k g audit =
     bindE (row_or (sql E (\<lambda>_. reading (GetService k))) serviceNotFound (\<lambda>_. True)) (\<lambda>s.
       case changed_service g s of
         None \<Rightarrow> raise bad_request
       | Some s \<Rightarrow>
           bindE (if sg_set_secret g then ret (sg_secrets g)
                  else or_unavailable (external (WSecrets K (sv_namespace s) (sv_id s)))) (\<lambda>secrets.
             if \<not> checkEnv (sv_env s) secrets then raise bad_request
             else bindE (sql E (\<lambda>_. on_tenants (UpdateService (s\<lparr>sv_secret_names := secretNames secrets\<rparr>)))) (\<lambda>s.
               seqE (or_unavailable (apply_workload K s secrets))
                 (seqE (of_res (audit s)) (ret s)))))"

definition ModifyService ::
    "'h env \<Rightarrow> string \<Rightarrow> service_change \<Rightarrow> (service_row \<Rightarrow> unit res) \<Rightarrow> ('h, service_row) cloud" where
  "ModifyService E k g audit =
     bindE (serviceReady E) (\<lambda>K. tx E (modify_service_tx E K k g audit))"

definition serviceStatus :: "'h workload_store \<Rightarrow> service_row \<Rightarrow> ('h, service_status) cloud" where
  "serviceStatus K s =
     bindE (or_unavailable (external (WGet K (sv_namespace s) (sv_id s)))) (\<lambda>st.
       ret \<lparr>st_service = s, st_ready = wl_ready st,
            st_url = (if sv_port s > 0 \<and> wl_address st \<noteq> '''' then ''http://'' @ wl_address st @ '':'' @ itoa (sv_port s)
                      else '''')\<rparr>)"

primrec service_statuses :: "'h workload_store \<Rightarrow> service_row list \<Rightarrow> ('h, service_status list) cloud" where
  "service_statuses K [] = ret []"
| "service_statuses K (s # ss) =
     bindE (serviceStatus K s) (\<lambda>st. bindE (service_statuses K ss) (\<lambda>sts. ret (st # sts)))"

definition ListServices' :: "'h env \<Rightarrow> string \<Rightarrow> ('h, service_status list) cloud" where
  "ListServices' E acct =
     bindE (serviceReady E) (\<lambda>K.
     bindE (db E (\<lambda>_. reading (\<lambda>d. Inr (ListServices acct (d_tenants d))))) (service_statuses K))"

definition GetService' :: "'h env \<Rightarrow> string \<Rightarrow> ('h, service_status) cloud" where
  "GetService' E k =
     bindE (serviceReady E) (\<lambda>K.
     bindE (row_or (db E (\<lambda>_. reading (GetService k))) serviceNotFound (\<lambda>_. True)) (serviceStatus K))"

definition DeleteService' :: "'h env \<Rightarrow> string \<Rightarrow> (service_row \<Rightarrow> unit res) \<Rightarrow> ('h, unit) cloud" where
  "DeleteService' E k audit =
     bindE (serviceReady E) (\<lambda>K. tx E (
       bindE (row_or (sql E (\<lambda>_. reading (GetService k))) serviceNotFound (\<lambda>_. True)) (\<lambda>s.
         seqE (or_unavailable (pve_do (DidDeleteAppliance (sv_namespace s) (sv_id s)) (WDelete K (sv_namespace s) (sv_id s))))
         (seqE (sql E (\<lambda>_. on_tenants (DeleteService k))) (of_res (audit s))))))"

end
