(* ===== verification/Appliance_Contract.thy ===== *)
theory Appliance_Contract
  imports Workloads
begin

text \<open>
  The contract between the appliance handlers and their tables: a property that every statement on
  them keeps, with the side conditions under which the handlers issue it: they insert only below the
  account's limit and permit a key only on a bucket of its own account. Each handler is shown once,
  inside the locale, to keep any such property; the interpretations at the end are the limits and
  the separation of accounts.
\<close>

section \<open>Steps of a transaction\<close>

lemma in_tx_row_or:
  fixes E :: "'h env"
  assumes "\<And>d x. P d \<Longrightarrow> get d = Inr x \<Longrightarrow> authorize x \<Longrightarrow> Q x d"
  shows "in_tx P (row_or (sql E (\<lambda>_. reading get)) missing authorize) Q"
  unfolding row_or_def
  by (rule in_tx_look) (auto intro!: in_tx_if in_tx_raise in_tx_ret assms)

lemma in_tx_outside:
  "in_tx P (or_unavailable (pve_do ev f)) (\<lambda>_. P)" "in_tx P (or_gone (pve_do ev g) e) (\<lambda>_. P)"
  "in_tx P (or_unavailable (external f)) (\<lambda>_. P)"
  unfolding or_gone_def by (intro in_tx_keeps keeps_intros)+

lemma in_tx_new_id: "in_tx P (new_appliance_id E kind) (\<lambda>_. P)"
  unfolding new_appliance_id_def by (intro in_tx_keeps keeps_intros)

lemma in_tx_tenants:
  fixes E :: "'h env"
  assumes "\<And>now d x t. P d \<Longrightarrow> f now (d_tenants d) = (Inr x, t) \<Longrightarrow> Q x (d\<lparr>d_tenants := t\<rparr>)"
  shows "in_tx P (sql E (\<lambda>now. on_tenants (f now))) Q"
  by (rule in_tx_sql) (auto simp: on_tenants_def split: prod.splits intro: assms)

lemma keeps_backend: "keeps I (backend b)"
  unfolding backend_def by (intro keeps_intros)

section \<open>The contract\<close>

locale appliance_contract =
  fixes A :: "tenants \<Rightarrow> bool"
  assumes bucket_insert: "A t \<Longrightarrow> CountBuckets acct t < maxBucketsPerAccount \<Longrightarrow>
      InsertBucket now name acct garage t = (Inr b, t') \<Longrightarrow> A t'"
    and bucket_delete: "A t \<Longrightarrow> A (snd (DeleteBucket name t))"
    and s3_insert: "A t \<Longrightarrow> CountS3Keys acct t < maxS3KeysPerAccount \<Longrightarrow> InsertS3Key now k acct name t = (Inr key, t') \<Longrightarrow> A t'"
    and s3_delete: "A t \<Longrightarrow> A (snd (DeleteS3Key k t))"
    and permit: "A t \<Longrightarrow> b \<in> set (t_buckets t) \<Longrightarrow> bu_name b = name \<Longrightarrow> key \<in> set (t_s3_keys t) \<Longrightarrow> sk_id key = k \<Longrightarrow>
      sk_account key = bu_account b \<Longrightarrow> SetBucketPermission name k perm t = (Inr u, t') \<Longrightarrow> A t'"
    and forbid: "A t \<Longrightarrow> A (snd (DeleteBucketPermission name k t))"
    and database_insert: "A t \<Longrightarrow> CountDatabases acct t < maxDatabasesPerAccount \<Longrightarrow>
      InsertDatabase now k acct name ns engine version gib t = (Inr row, t') \<Longrightarrow> A t'"
    and database_delete: "A t \<Longrightarrow> A (snd (DeleteDatabase k t))"
    and function_insert: "A t \<Longrightarrow> CountFunctions acct t < maxFunctionsPerAccount \<Longrightarrow>
      InsertFunction now k acct name ns img t = (Inr f, t') \<Longrightarrow> A t'"
    and function_delete: "A t \<Longrightarrow> A (snd (DeleteFunction k t))"
    and service_insert: "A t \<Longrightarrow> CountServices (sv_account s) t < maxServicesPerAccount \<Longrightarrow>
      InsertService now s t = (Inr s', t') \<Longrightarrow> A t'"
    and service_update: "A t \<Longrightarrow> A (snd (UpdateService s t))"
    and service_delete: "A t \<Longrightarrow> A (snd (DeleteService k t))"
begin

abbreviation P :: "ledger \<Rightarrow> bool" where
  "P d \<equiv> A (d_tenants d)"

lemma in_tx_law: "(\<And>now t. A t \<Longrightarrow> A (snd (f now t))) \<Longrightarrow> in_tx P (sql E (\<lambda>now. on_tenants (f now))) (\<lambda>_. P)"
  by (rule in_tx_tenants) (auto dest!: sndI)

lemma in_tx_count:
  fixes E :: "'h env" and limit :: int
  assumes "\<And>n. n < limit \<Longrightarrow> in_tx (\<lambda>d. P d \<and> counted (d_tenants d) < limit) (f n) Q"
  shows "in_tx P (bindE (sql E (\<lambda>_. reading (\<lambda>d. Inr (counted (d_tenants d))))) (\<lambda>n. if n \<ge> limit then raise e else f n)) Q"
proof (rule in_tx_bindE)
  show "in_tx P (sql E (\<lambda>_. reading (\<lambda>d. Inr (counted (d_tenants d))))) (\<lambda>n d. P d \<and> counted (d_tenants d) = n)"
    by (rule in_tx_reading) simp
  show "in_tx (\<lambda>d. P d \<and> counted (d_tenants d) = n) (if n \<ge> limit then raise e else f n) Q" for n
    by (intro in_tx_if in_tx_raise) (rule in_tx_pre [OF assms], auto)
qed

lemma in_tx_find:
  fixes E :: "'h env"
  assumes "\<And>e. in_tx P (k (Inl e)) Q" and "\<And>x. in_tx P (k (Inr x)) Q"
  shows "in_tx P (attempt (sql E (\<lambda>_. reading f)) k) Q"
  by (rule in_tx_look) (rule in_tx_pre [OF assms(1)] in_tx_pre [OF assms(2)]; simp)+

lemmas in_tx_steps = in_tx_bindE [OF in_tx_outside(1)] in_tx_bindE [OF in_tx_outside(3)] in_tx_bindE [OF in_tx_new_id]
  in_tx_seqE [OF in_tx_outside(1)] in_tx_seqE [OF in_tx_outside(2)] in_tx_clean_up in_tx_raise in_tx_if

lemma in_tx_row: "in_tx P (row_or (sql E (\<lambda>_. reading get)) missing authorize) (\<lambda>_. P)"
  by (rule in_tx_row_or)

lemma in_tx_done: "in_tx P (ret x) (\<lambda>_. P)"
  by (rule in_tx_ret)

lemma in_tx_audited: "in_tx P (of_res r) (\<lambda>_. P)"
  by (rule in_tx_of_res)

lemma finish_create: "in_tx P (seqE (of_res r) (ret x)) (\<lambda>_. P)"
  by (intro in_tx_seqE [OF in_tx_of_res] in_tx_ret)

lemma in_tx_create_bucket: "in_tx P (create_bucket_tx E G acct name audit) (\<lambda>_. P)"
proof -
  have insert: "in_tx (\<lambda>d. P d \<and> CountBuckets acct (d_tenants d) < maxBucketsPerAccount)
      (sql E (\<lambda>now. on_tenants (InsertBucket now name acct g))) (\<lambda>_. P)" for g
    by (rule in_tx_tenants) (auto intro: bucket_insert)
  show ?thesis
    unfolding create_bucket_tx_def
    by (rule in_tx_find; unfold sum.case)
      (intro in_tx_steps in_tx_done in_tx_count in_tx_attempt_fail [OF insert]; auto intro: in_tx_done in_tx_steps finish_create)+
qed


lemma in_tx_delete_bucket: "in_tx P (delete_bucket_tx E G name authorize audit) (\<lambda>_. P)"
  unfolding delete_bucket_tx_def
  by (intro in_tx_bindE [OF in_tx_row] in_tx_steps in_tx_seqE [OF in_tx_law] bucket_delete in_tx_audited)

lemma in_tx_create_s3_key: "in_tx P (create_s3_key_tx E G acct name audit) (\<lambda>_. P)"
proof -
  have insert: "in_tx (\<lambda>d. P d \<and> CountS3Keys acct (d_tenants d) < maxS3KeysPerAccount)
      (sql E (\<lambda>now. on_tenants (InsertS3Key now k acct name))) (\<lambda>_. P)" for k
    by (rule in_tx_tenants) (auto intro: s3_insert)
  show ?thesis
    unfolding create_s3_key_tx_def
    by (rule in_tx_find; unfold sum.case)
      (intro in_tx_steps in_tx_done in_tx_count in_tx_bindE [OF in_tx_catchE_fail [OF insert]]; auto intro: in_tx_done in_tx_steps finish_create)+
qed

lemma in_tx_set_permission: "in_tx P (set_permission_tx E G name k perm authorize audit) (\<lambda>_. P)"
proof -
  let ?R = "\<lambda>b d. P d \<and> GetBucket name d = Inr b"
  let ?S = "\<lambda>b key d. ?R b d \<and> GetS3Key k d = Inr key \<and> sk_account key = bu_account b"
  have bucket: "in_tx P (row_or (sql E (\<lambda>_. reading (GetBucket name))) bucketNotFound authorize) ?R"
    by (rule in_tx_row_or) simp
  have key: "in_tx (?R b) (row_or (sql E (\<lambda>_. reading (GetS3Key k))) keyNotFound (\<lambda>key. sk_account key = bu_account b)) (?S b)" for b
    by (rule in_tx_row_or) simp
  have "in_tx (?S b key) (sql E (\<lambda>_. on_tenants (SetBucketPermission name k perm))) (\<lambda>_. P)" for b key
  proof (rule in_tx_tenants)
    fix d x t assume d: "?S b key d" and set: "SetBucketPermission name k perm (d_tenants d) = (Inr x, t)"
    then obtain b' where "b' \<in> set (t_buckets (d_tenants d))" "bu_name b' = name" "bu_account b' = bu_account b"
      by (auto simp: GetBucket_def with_bucket_owner_def map_sum_def dest!: select_one_Inr split: sum.splits)
    moreover from d have "key \<in> set (t_s3_keys (d_tenants d))" "sk_id key = k" "sk_account key = bu_account b"
      by (auto simp: GetS3Key_def dest: select_one_Inr)
    ultimately show "P (d\<lparr>d_tenants := t\<rparr>)"
      using permit [OF _ _ _ _ _ _ set] d by auto
  qed
  then have "in_tx (?S b key) (sql E (\<lambda>_. on_tenants (SetBucketPermission name k perm))) (\<lambda>_. P)" for b key .
  moreover have "in_tx P (permitted_status E b) (\<lambda>_. P)" for b
    unfolding permitted_status_def by (intro in_tx_keeps keeps_intros keeps_sql)
  ultimately show ?thesis
    unfolding set_permission_tx_def
    by (cases perm) (auto intro!: in_tx_bindE [OF bucket] in_tx_bindE [OF key] in_tx_seqE [OF in_tx_outside(1)] in_tx_seqE [where R = P]
        in_tx_bindE [where R = "\<lambda>_. P"] finish_create)
qed

lemma in_tx_revoke_permission: "in_tx P (revoke_permission_tx E G name k authorize audit) (\<lambda>_. P)"
proof -
  have status: "in_tx P (permitted_status E b) (\<lambda>_. P)" for b
    unfolding permitted_status_def by (intro in_tx_keeps keeps_intros keeps_sql)
  have found: "in_tx P (catchE (sql E (\<lambda>_. reading (GetS3Key k))) (\<lambda>e. if err_is e NotFound then ret no_key else raise e)) (\<lambda>_. P)"
    by (intro in_tx_keeps keeps_intros keeps_sql)
  show ?thesis
    unfolding revoke_permission_tx_def
    by (intro in_tx_bindE [OF in_tx_row] in_tx_bindE [OF found] in_tx_bindE [OF status] in_tx_steps
        in_tx_seqE [OF in_tx_law] finish_create forbid)
qed

lemma in_tx_create_database: "in_tx P (create_database_tx E K acct name gib audit) (\<lambda>_. P)"
proof -
  have insert: "in_tx (\<lambda>d. P d \<and> CountDatabases acct (d_tenants d) < maxDatabasesPerAccount)
      (sql E (\<lambda>now. on_tenants (InsertDatabase now k acct name ns engine version gib))) (\<lambda>_. P)" for k ns engine version
    by (rule in_tx_tenants) (auto intro: database_insert)
  show ?thesis
    unfolding create_database_tx_def Let_def newDatabaseID_def
    by (rule in_tx_find; unfold sum.case)
      (intro in_tx_steps in_tx_done in_tx_count in_tx_attempt_fail [OF insert]; auto intro: in_tx_done in_tx_steps finish_create)+
qed

lemma in_tx_create_function: "in_tx P (create_function_tx E K acct name img audit) (\<lambda>_. P)"
proof -
  have insert: "in_tx (\<lambda>d. P d \<and> CountFunctions acct (d_tenants d) < maxFunctionsPerAccount)
      (sql E (\<lambda>now. on_tenants (InsertFunction now k acct name ns img))) (\<lambda>_. P)" for k ns
    by (rule in_tx_tenants) (auto intro: function_insert)
  show ?thesis
    unfolding create_function_tx_def Let_def newFunctionID_def
    by (rule in_tx_find; unfold sum.case)
      (intro in_tx_steps in_tx_done in_tx_count in_tx_attempt_fail [OF insert]; auto intro: in_tx_done in_tx_steps finish_create)+
qed

lemma in_tx_create_service: "in_tx P (create_service_tx E K acct r audit) (\<lambda>_. P)"
proof -
  have insert: "in_tx (\<lambda>d. P d \<and> CountServices acct (d_tenants d) < maxServicesPerAccount)
      (sql E (\<lambda>now. on_tenants (InsertService now (new_service k acct ns r)))) (\<lambda>_. P)" for k ns
    using service_insert [where s = "new_service k acct ns r"] by (intro in_tx_tenants) (auto simp: new_service_def)
  have deploy: "in_tx P (apply_workload K s secrets) (\<lambda>_. P)" for s secrets
    unfolding apply_workload_def by (intro in_tx_keeps keeps_intros)
  show ?thesis
    unfolding create_service_tx_def newServiceID_def
    by (rule in_tx_find; unfold sum.case)
      (intro in_tx_steps in_tx_done in_tx_count in_tx_bindE [OF in_tx_catchE [OF insert]] in_tx_seqE [OF in_tx_catchE_fail [OF deploy]];
        auto intro: in_tx_done in_tx_steps finish_create)+
qed

lemma in_tx_modify_service: "in_tx P (modify_service_tx E K k g audit) (\<lambda>_. P)"
proof -
  have deploy: "in_tx P (or_unavailable (apply_workload K s secrets)) (\<lambda>_. P)" for s secrets
    unfolding apply_workload_def by (intro in_tx_outside)
  have secrets: "in_tx P (if b then ret x else or_unavailable (external f)) (\<lambda>_. P)" for b x f
    by (intro in_tx_if in_tx_done in_tx_outside)
  show ?thesis
    unfolding modify_service_tx_def
    by (intro in_tx_bindE [OF in_tx_row] in_tx_case_option in_tx_raise in_tx_bindE [OF secrets] in_tx_if
        in_tx_bindE [OF in_tx_law] in_tx_seqE [OF deploy] finish_create service_update)
qed

text \<open>The handlers.\<close>

lemma keeps_appliance_creates:
  assumes "others_keep P E"
  shows "keeps (db_inv P) (CreateBucket E acct name ab)" "keeps (db_inv P) (CreateS3Key E acct name ak)"
    "keeps (db_inv P) (CreateDatabase E acct name gib ad)" "keeps (db_inv P) (CreateFunction E acct name img af)"
    "keeps (db_inv P) (CreateService E acct r as)"
  unfolding CreateBucket_def CreateS3Key_def CreateDatabase_def CreateFunction_def CreateService_def Let_def
    storageReady_def databaseReady_def functionReady_def serviceReady_def
  by (intro keeps_if keeps_raise keeps_bindE keeps_backend keeps_tx_body assms in_tx_create_bucket in_tx_create_s3_key
      in_tx_create_database in_tx_create_function in_tx_create_service)+

lemma keeps_appliance_changes:
  assumes "others_keep P E"
  shows "keeps (db_inv P) (SetBucketPermission' E name k perm auth ap)" "keeps (db_inv P) (RevokeBucketPermission E name k auth ap)"
    "keeps (db_inv P) (ModifyService E k g as)"
  unfolding SetBucketPermission'_def RevokeBucketPermission_def ModifyService_def storageReady_def serviceReady_def
  by (intro keeps_bindE keeps_backend keeps_tx_body assms in_tx_set_permission in_tx_revoke_permission in_tx_modify_service)+

lemma keeps_appliance_deletes:
  assumes "others_keep P E"
  shows "keeps (db_inv P) (DeleteBucket' E name auth ab)" "keeps (db_inv P) (DeleteS3Key' E k authk ak)"
    "keeps (db_inv P) (DeleteDatabase' E k ad)" "keeps (db_inv P) (DeleteFunction' E k af)" "keeps (db_inv P) (DeleteService' E k as)"
  unfolding DeleteBucket'_def DeleteS3Key'_def DeleteDatabase'_def DeleteFunction'_def DeleteService'_def
    storageReady_def databaseReady_def functionReady_def serviceReady_def
  by (intro keeps_bindE keeps_backend keeps_tx_body assms in_tx_delete_bucket in_tx_bindE [OF in_tx_row] in_tx_steps
      in_tx_seqE [OF in_tx_law] s3_delete database_delete function_delete service_delete in_tx_audited; assumption)+

end

end
