(* ===== verification/Appliance_Safety.thy ===== *)
theory Appliance_Safety
  imports Appliance_Contract
begin

text \<open>
  What the appliance requests guarantee: the limits of an account, that no key is permitted on a
  bucket of another account, and that a service runs what its row says.
\<close>

section \<open>Limits\<close>

definition appliances_within :: "tenants \<Rightarrow> bool" where
  "appliances_within t \<longleftrightarrow> (\<forall>acct. CountBuckets acct t \<le> maxBucketsPerAccount \<and> CountS3Keys acct t \<le> maxS3KeysPerAccount \<and>
     CountDatabases acct t \<le> maxDatabasesPerAccount \<and> CountFunctions acct t \<le> maxFunctionsPerAccount \<and>
     CountServices acct t \<le> maxServicesPerAccount)"

lemmas count_defs = CountBuckets_def CountS3Keys_def CountDatabases_def CountFunctions_def CountServices_def

lemma count_filtered: "length (filter (\<lambda>x. q x \<and> p x) xs) \<le> length (filter p xs)"
  by (induction xs) auto

lemma withinI:
  assumes "appliances_within t"
    and "\<And>a. CountBuckets a t' \<le> CountBuckets a t \<or> CountBuckets a t' \<le> maxBucketsPerAccount"
    and "\<And>a. CountS3Keys a t' \<le> CountS3Keys a t \<or> CountS3Keys a t' \<le> maxS3KeysPerAccount"
    and "\<And>a. CountDatabases a t' \<le> CountDatabases a t \<or> CountDatabases a t' \<le> maxDatabasesPerAccount"
    and "\<And>a. CountFunctions a t' \<le> CountFunctions a t \<or> CountFunctions a t' \<le> maxFunctionsPerAccount"
    and "\<And>a. CountServices a t' \<le> CountServices a t \<or> CountServices a t' \<le> maxServicesPerAccount"
  shows "appliances_within t'"
  using assms unfolding appliances_within_def by (meson order_trans)

lemma counts_after_insert:
  "InsertBucket now name acct g t = (Inr b, t') \<Longrightarrow> CountBuckets a t' = CountBuckets a t + (if a = acct then 1 else 0) \<and>
     CountS3Keys a t' = CountS3Keys a t \<and> CountDatabases a t' = CountDatabases a t \<and> CountFunctions a t' = CountFunctions a t \<and>
     CountServices a t' = CountServices a t"
  "InsertS3Key now k acct name t = (Inr key, t') \<Longrightarrow> CountS3Keys a t' = CountS3Keys a t + (if a = acct then 1 else 0) \<and>
     CountBuckets a t' = CountBuckets a t \<and> CountDatabases a t' = CountDatabases a t \<and> CountFunctions a t' = CountFunctions a t \<and>
     CountServices a t' = CountServices a t"
  "InsertDatabase now k acct name ns engine version gib t = (Inr row, t') \<Longrightarrow>
     CountDatabases a t' = CountDatabases a t + (if a = acct then 1 else 0) \<and> CountS3Keys a t' = CountS3Keys a t \<and>
     CountBuckets a t' = CountBuckets a t \<and> CountFunctions a t' = CountFunctions a t \<and> CountServices a t' = CountServices a t"
  "InsertFunction now k acct name ns img t = (Inr f, t') \<Longrightarrow>
     CountFunctions a t' = CountFunctions a t + (if a = acct then 1 else 0) \<and> CountS3Keys a t' = CountS3Keys a t \<and>
     CountBuckets a t' = CountBuckets a t \<and> CountDatabases a t' = CountDatabases a t \<and> CountServices a t' = CountServices a t"
  "InsertService now s t = (Inr s', t') \<Longrightarrow>
     CountServices a t' = CountServices a t + (if a = sv_account s then 1 else 0) \<and> CountS3Keys a t' = CountS3Keys a t \<and>
     CountBuckets a t' = CountBuckets a t \<and> CountDatabases a t' = CountDatabases a t \<and> CountFunctions a t' = CountFunctions a t"
  by (auto simp: InsertBucket_def InsertS3Key_def InsertDatabase_def InsertFunction_def InsertService_def Let_def count_defs
      split: if_splits)

lemma count_services_updated: "CountServices a (snd (UpdateService s t)) = CountServices a t"
proof -
  have "map sv_account (update_where c (change_service s) ss) = map sv_account ss" for c ss
    by (rule map_update_where) (simp add: change_service_def)
  moreover have "length (filter (\<lambda>x. sv_account x = a) ss) = length (filter (\<lambda>b. b = a) (map sv_account ss))" for ss
    by (induction ss) auto
  ultimately have "length (filter (\<lambda>x. sv_account x = a) (update_where c (change_service s) ss)) =
      length (filter (\<lambda>x. sv_account x = a) ss)" for c ss
    by metis
  then show ?thesis
    by (auto simp: UpdateService_def CountServices_def split: sum.split)
qed

interpretation limited: appliance_contract appliances_within
proof (unfold_locales, goal_cases)
  case (1 t acct now name garage b t')
  then show ?case by (intro withinI [OF 1(1)]) (simp_all add: counts_after_insert(1) [OF 1(3)])
next
  case (3 t acct now k name key t')
  then show ?case by (intro withinI [OF 3(1)]) (simp_all add: counts_after_insert(2) [OF 3(3)])
next
  case (7 t acct now k name ns engine version gib row t')
  then show ?case by (intro withinI [OF 7(1)]) (simp_all add: counts_after_insert(3) [OF 7(3)])
next
  case (9 t acct now k name ns img f t')
  then show ?case by (intro withinI [OF 9(1)]) (simp_all add: counts_after_insert(4) [OF 9(3)])
next
  case (11 t s now s' t')
  then show ?case by (intro withinI [OF 11(1)]) (simp_all add: counts_after_insert(5) [OF 11(3)])
next
  case (12 t s)
  then show ?case
    by (intro withinI [OF 12]) (simp_all add: count_services_updated, simp_all add: UpdateService_def count_defs split: sum.split)
qed (auto elim!: withinI simp: count_defs count_filtered DeleteBucket_def DeleteS3Key_def DeleteBucketPermission_def
    DeleteDatabase_def DeleteFunction_def DeleteService_def SetBucketPermission_def Let_def split: if_splits prod.splits)

section \<open>Separation\<close>

definition permitted :: "bucket_row list \<Rightarrow> s3_key list \<Rightarrow> bucket_key \<Rightarrow> bool" where
  "permitted bs ks m \<longleftrightarrow> (\<exists>b \<in> set bs. \<exists>k \<in> set ks. bu_name b = bk_bucket m \<and> sk_id k = bk_key m \<and> sk_account k = bu_account b)"

definition keys_apart :: "tenants \<Rightarrow> bool" where
  "keys_apart t \<longleftrightarrow> distinct (map bu_name (t_buckets t)) \<and> distinct (map sk_id (t_s3_keys t)) \<and>
     (\<forall>m \<in> set (t_bucket_keys t). permitted (t_buckets t) (t_s3_keys t) m)"

lemma permitted_more:
  "permitted bs ks m \<Longrightarrow> permitted (bs @ cs) ks m" "permitted bs ks m \<Longrightarrow> permitted bs (ks @ keys) m"
  unfolding permitted_def by auto

lemma permitted_kept:
  "permitted bs ks m \<Longrightarrow> bk_bucket m \<noteq> name \<Longrightarrow> permitted (filter (\<lambda>b. bu_name b \<noteq> name) bs) ks m"
  "permitted bs ks m \<Longrightarrow> bk_key m \<noteq> k \<Longrightarrow> permitted bs (filter (\<lambda>x. sk_id x \<noteq> k) ks) m"
  unfolding permitted_def by fastforce+

interpretation apart: appliance_contract keys_apart
proof (unfold_locales, goal_cases)
  case (1 t acct now name g b t')
  then show ?case
    by (auto simp: keys_apart_def InsertBucket_def Let_def permitted_more split: if_splits)
next
  case (3 t acct now k name key t')
  then show ?case
    by (auto simp: keys_apart_def InsertS3Key_def Let_def permitted_more split: if_splits)
next
  case (5 t b name key k perm u t')
  have "permitted (t_buckets t) (t_s3_keys t) \<lparr>bk_bucket = name, bk_key = k, bk_read = r, bk_write = w, bk_owner = own\<rparr>" for r w own
    using 5(2-6) by (auto simp: permitted_def)
  with 5(1,7) show ?case
    by (auto simp: keys_apart_def SetBucketPermission_def Let_def set_update_where split: if_splits prod.splits)
qed (auto simp: keys_apart_def DeleteBucket_def DeleteS3Key_def DeleteBucketPermission_def DeleteDatabase_def
    DeleteFunction_def DeleteService_def InsertDatabase_def InsertFunction_def InsertService_def UpdateService_def Let_def
    distinct_map_filter permitted_kept split: if_splits sum.splits)

section \<open>Histories\<close>

datatype appliance_call =
    MakeBucket string string "bucket_row \<Rightarrow> unit res"
  | DropBucket string "bucket_row \<Rightarrow> bool" "bucket_row \<Rightarrow> unit res"
  | MakeKey string string "s3_key \<Rightarrow> unit res"
  | DropKey string "s3_key \<Rightarrow> bool" "s3_key \<Rightarrow> unit res"
  | Permit string string "bool \<times> bool \<times> bool" "bucket_row \<Rightarrow> bool" "bucket_row \<Rightarrow> s3_key \<Rightarrow> unit res"
  | Forbid string string "bucket_row \<Rightarrow> bool" "bucket_row \<Rightarrow> s3_key \<Rightarrow> unit res"
  | MakeDatabase string string int "database_row \<Rightarrow> unit res"
  | DropDatabase string "database_row \<Rightarrow> unit res"
  | MakeFunction string string string "function_row \<Rightarrow> unit res"
  | DropFunction string "function_row \<Rightarrow> unit res"
  | MakeService string service_request "service_row \<Rightarrow> unit res"
  | ChangeService string service_change "service_row \<Rightarrow> unit res"
  | DropService string "service_row \<Rightarrow> unit res"

definition quietly :: "('h, 'a) cloud \<Rightarrow> ('h, unit) cloud" where
  "quietly m = attempt m (\<lambda>_. ret ())"

fun appliance :: "'h env \<Rightarrow> appliance_call \<Rightarrow> ('h, unit) cloud" where
  "appliance E (MakeBucket acct name audit) = quietly (CreateBucket E acct name audit)"
| "appliance E (DropBucket name authorize audit) = quietly (DeleteBucket' E name authorize audit)"
| "appliance E (MakeKey acct name audit) = quietly (CreateS3Key E acct name audit)"
| "appliance E (DropKey k authorize audit) = quietly (DeleteS3Key' E k authorize audit)"
| "appliance E (Permit name k perm authorize audit) = quietly (SetBucketPermission' E name k perm authorize audit)"
| "appliance E (Forbid name k authorize audit) = quietly (RevokeBucketPermission E name k authorize audit)"
| "appliance E (MakeDatabase acct name gib audit) = quietly (CreateDatabase E acct name gib audit)"
| "appliance E (DropDatabase k audit) = quietly (DeleteDatabase' E k audit)"
| "appliance E (MakeFunction acct name img audit) = quietly (CreateFunction E acct name img audit)"
| "appliance E (DropFunction k audit) = quietly (DeleteFunction' E k audit)"
| "appliance E (MakeService acct r audit) = quietly (CreateService E acct r audit)"
| "appliance E (ChangeService k g audit) = quietly (ModifyService E k g audit)"
| "appliance E (DropService k audit) = quietly (DeleteService' E k audit)"

inductive appliances_served :: "'h env \<Rightarrow> 'h world \<Rightarrow> 'h world \<Rightarrow> bool" for E w where
  start: "appliances_served E w w"
| step: "appliances_served E w u \<Longrightarrow> appliances_served E w (snd (appliance E call u))"

lemma keeps_quietly: "keeps I m \<Longrightarrow> keeps I (quietly m)"
  unfolding quietly_def by (intro keeps_intros)

context appliance_contract
begin

lemma keeps_appliance: "others_keep P E \<Longrightarrow> keeps (db_inv P) (appliance E call)"
  by (cases call) (simp_all add: keeps_quietly keeps_appliance_creates keeps_appliance_changes keeps_appliance_deletes)

lemma served_keeps: "appliances_served E w w' \<Longrightarrow> others_keep P E \<Longrightarrow> P (w_db w) \<Longrightarrow> P (w_db w')"
proof (induction rule: appliances_served.induct)
  case (step u call)
  then show ?case
    using keepsD [OF keeps_appliance, of E u call] by (simp add: db_inv_def)
qed

end

text \<open>
  C34. After any history of requests on buckets, keys, databases, functions and services, whatever
  they ask for and wherever the database or a backend fails, no account is above a limit and every
  permission in the ledger joins a bucket and a key of one account. Other requests are held to the
  same.
\<close>
theorem appliances_within_limits:
  assumes "appliances_served E w w'"
    and "others_keep (\<lambda>d. appliances_within (d_tenants d)) E" "others_keep (\<lambda>d. keys_apart (d_tenants d)) E"
    and "appliances_within (d_tenants (w_db w))" "keys_apart (d_tenants (w_db w))"
  shows "appliances_within (d_tenants (w_db w')) \<and> keys_apart (d_tenants (w_db w'))"
  using limited.served_keeps [OF assms(1,2,4)] apart.served_keeps [OF assms(1,3,5)] ..

definition garage :: "unit bucket_store" where
  "garage = \<lparr>GCreateBucket = (\<lambda>name h. (Inr \<lparr>gb_id = ''g'', gb_objects = 0, gb_bytes = 0\<rparr>, h)), GBucketInfo = (\<lambda>_. unreachable),
     GDeleteBucket = (\<lambda>_ h. (Inr (), h)), GCreateKey = (\<lambda>_ h. (Inr \<lparr>gk_id = ''GK1'', gk_secret = ''s''\<rparr>, h)),
     GDeleteKey = (\<lambda>_ h. (Inr (), h)), GAllow = (\<lambda>_ _ _ h. (Inr (), h)), GDeny = (\<lambda>_ _ _ h. (Inr (), h))\<rparr>"

definition garage_env :: "unit env" where
  "garage_env = (quiet_env offline_pve offline_ipam)\<lparr>e_appliances := no_appliances\<lparr>ap_garage := Some garage\<rparr>\<rparr>"

theorem appliances_within_limits_witness:
  "\<exists>w'. appliances_served garage_env (start_world () empty_ledger) w' \<and>
     appliances_within (d_tenants (w_db w')) \<and> keys_apart (d_tenants (w_db w'))"
proof -
  let ?w = "start_world () empty_ledger :: unit world" and ?call = "MakeBucket ''000000000007'' ''pics'' (\<lambda>_. Inr ())"
  have served: "appliances_served garage_env ?w (snd (appliance garage_env ?call ?w))"
    by (rule appliances_served.step [OF appliances_served.start])
  show ?thesis
    using appliances_within_limits [OF served] served
    by (auto simp: garage_env_def others_keep_def start_world_def empty_ledger_def no_tenants_def appliances_within_def count_defs
        keys_apart_def maxBucketsPerAccount_def maxS3KeysPerAccount_def maxDatabasesPerAccount_def maxFunctionsPerAccount_def
        maxServicesPerAccount_def quiet_env_def)
qed

end
