(* ===== verification/Instance_Requests.thy ===== *)
theory Instance_Requests
  imports Admission Request_Contract Call_Contract
begin

text \<open>
  \<open>compute/service.go\<close>, \<open>modify.go\<close> and \<open>tags.go\<close>: the requests on an existing instance. \<open>Request\<close>
  records a terminate, start, stop or reboot; \<open>Modify\<close> changes the size; \<open>SetInstanceTags\<close> replaces
  the tags and renames the VM.
\<close>

section \<open>Terminate, start, stop, reboot\<close>

text \<open>The action is one of the constants of \<open>db\<close>; \<open>ActionLaunch\<close> is the \<open>default\<close> branch.\<close>

definition set_action :: "'h env \<Rightarrow> string \<Rightarrow> inst_state \<Rightarrow> action \<Rightarrow> ('h, instance_row) cloud" where
  "set_action E k st a = sql E (\<lambda>now. on_instances (SetAction now k st a))"

definition request_step :: "'h env \<Rightarrow> string \<Rightarrow> action \<Rightarrow> instance_row \<Rightarrow> ('h, instance_row) cloud" where
  "request_step E k a i =
     (let busy = i_pending i \<noteq> None in
      case a of
        ActionTerminate \<Rightarrow>
          if i_state i = StateTerminated \<or> i_pending i = Some ActionTerminate then ret i
          else set_action E k StateShuttingDown ActionTerminate
      | ActionStop \<Rightarrow>
          if (i_state i = StateStopped \<and> \<not> busy) \<or> i_pending i = Some ActionStop then ret i
          else if i_state i \<noteq> StateRunning \<or> busy then raise incorrect_state
          else set_action E k StateStopping ActionStop
      | ActionStart \<Rightarrow>
          if (i_state i = StateRunning \<and> \<not> busy) \<or> i_pending i = Some ActionStart then ret i
          else if i_state i \<noteq> StateStopped \<or> busy then raise incorrect_state
          else set_action E k StatePending ActionStart
      | ActionReboot \<Rightarrow>
          if i_state i \<noteq> StateRunning \<or> busy then raise incorrect_state
          else set_action E k StateRunning ActionReboot
      | ActionLaunch \<Rightarrow> raise (Failed ''unknown action''))"

definition Request ::
    "'h env \<Rightarrow> string \<Rightarrow> action \<Rightarrow> (instance_row \<Rightarrow> bool) \<Rightarrow> (instance_row \<Rightarrow> unit res) \<Rightarrow> ('h, instance_row) cloud" where
  "Request E k a authorize audit =
     bindE (tx E
       (bindE (lock_instance E k authorize) (\<lambda>i.
        bindE (request_step E k a i) (\<lambda>result.
        seqE (of_res (audit result)) (ret result)))))
     (\<lambda>result. seqE Wake (ret result))"

section \<open>Tags\<close>

definition rename_vm :: "'h env \<Rightarrow> instance_row \<Rightarrow> string \<Rightarrow> ('h, unit) cloud" where
  "rename_vm E i name =
     (case i_vmid i of
        Some vmid \<Rightarrow> whenE (name \<noteq> i_name i \<and> i_vm_created i)
          (pve_do (DidUpdateVMConfig vmid [(''name'', Hostname name (i_id i))])
             (UpdateVMConfig (e_pve E) vmid [(''name'', Hostname name (i_id i))]))
      | None \<Rightarrow> ret ())"

definition SetInstanceTags' ::
    "'h env \<Rightarrow> string \<Rightarrow> (string, string) gomap option \<Rightarrow> (instance_row \<Rightarrow> bool) \<Rightarrow> (instance_row \<Rightarrow> unit res) \<Rightarrow>
     ('h, instance_row) cloud" where
  "SetInstanceTags' E k given authorize audit =
     (let tags = tags_of given in
      seqE (of_res (validateTags tags))
      (bindE (tx E
        (bindE (lock_instance E k authorize) (\<lambda>i.
          if i_state i = StateTerminated \<or> i_state i = StateShuttingDown then raise incorrect_state
          else let name = gomap_str tags ''Name'' in
            seqE (rename_vm E i name)
            (seqE (sql E (\<lambda>now. on_instances (SetInstanceTags now k name tags)))
            (bindE (sql E (\<lambda>_. reading (\<lambda>d. GetInstance k (d_instances d)))) (\<lambda>result.
              seqE (of_res (audit result)) (ret result)))))))
       (\<lambda>result. seqE wakeLedger (ret result))))"

section \<open>Size\<close>

definition current_spec :: "instance_row \<Rightarrow> spec" where
  "current_spec i = \<lparr>sp_cpu_cores = i_cpu i, sp_memory_mib = i_memory i, sp_memory_min_mib = i_memory_min i,
     sp_ballooning = i_ballooning i, sp_type_name = ''''\<rparr>"

text \<open>The new size of the root disk; a root disk only grows.\<close>

definition modify_disk :: "modify_request \<Rightarrow> limits \<Rightarrow> instance_row \<Rightarrow> int res" where
  "modify_disk r limits i =
     (case m_root_disk_gib r of
        None \<Rightarrow> Inr (i_root_disk i)
      | Some disk \<Rightarrow> if disk < i_root_disk i then Inl bad_request
                     else if disk > root_disk_max limits then Inl bad_request else Inr disk)"

definition modify_refused :: "instance_row \<Rightarrow> spec \<Rightarrow> bool" where
  "modify_refused i target \<longleftrightarrow>
     i_state i = StateTerminated \<or> i_pending i = Some ActionTerminate \<or> i_pending i \<noteq> None \<or>
     (target \<noteq> current_spec i \<and> i_state i \<noteq> StateStopped) \<or> i_vmid i = None \<or> \<not> i_vm_created i"

definition modify_params :: "spec \<Rightarrow> spec \<Rightarrow> url_values" where
  "modify_params target current =
     (if sp_cpu_cores target \<noteq> sp_cpu_cores current then [(''cores'', itoa (sp_cpu_cores target))] else []) @
     (if sp_memory_mib target \<noteq> sp_memory_mib current then [(''memory'', itoa (sp_memory_mib target))] else []) @
     (if sp_memory_min_mib target \<noteq> sp_memory_min_mib current
      then [(''balloon'', itoa (sp_memory_min_mib target))] else [])"

text \<open>The VM first, the ledger after it.\<close>

definition modify_vm :: "'h env \<Rightarrow> instance_row \<Rightarrow> int \<Rightarrow> spec \<Rightarrow> int \<Rightarrow> ('h, unit) cloud" where
  "modify_vm E i vmid target disk =
     (let params = modify_params target (current_spec i); size = itoa disk @ ''G'' in
      seqE (attempt (owns E vmid i) (\<lambda>r. case r of
          Inl e \<Rightarrow> raise (Join e incorrect_state)
        | Inr owned \<Rightarrow> if owned then ret () else raise incorrect_state))
      (seqE (whenE (params \<noteq> [])
         (wrapE ''update VM config: ''
           (pve_do (DidUpdateVMConfig vmid params) (UpdateVMConfig (e_pve E) vmid params))))
      (whenE (disk > i_root_disk i)
         (wrapE ''resize disk: ''
           (pve_do (DidResizeDisk vmid ''virtio0'' size) (ResizeDisk (e_pve E) vmid ''virtio0'' size))))))"

definition modify_pool :: "site \<Rightarrow> instance_row \<Rightarrow> string" where
  "modify_pool s i = (case disk_tier_storage (s_storage s) (i_disk_tier i) of
     (storage, ok) \<Rightarrow> if ok then storage else vm_disks (s_storage s))"

definition record_spec :: "'h env \<Rightarrow> string \<Rightarrow> spec \<Rightarrow> int \<Rightarrow> (instance_row \<Rightarrow> unit res) \<Rightarrow> ('h, instance_row) cloud" where
  "record_spec E k target disk audit =
     tx E (bindE (sql E (\<lambda>now. on_instances (SetSpec now k (sp_cpu_cores target) (sp_memory_mib target)
             (sp_memory_min_mib target) (sp_ballooning target) disk))) (\<lambda>modified.
       seqE (of_res (audit modified)) (ret modified)))"

definition modify_admitted ::
    "'h env \<Rightarrow> limits \<Rightarrow> instance_row \<Rightarrow> int \<Rightarrow> spec \<Rightarrow> int \<Rightarrow> (instance_row \<Rightarrow> unit res) \<Rightarrow> ('h, instance_row) cloud" where
  "modify_admitted E limits i vmid target disk audit =
     seqE (checkHost E target (max 0 (wrap64 (sp_memory_mib target - i_memory i))) limits (modify_pool (e_site E) i))
     (seqE (tx E (seqE (sql E (\<lambda>_. LockCapacity)) (checkQuota E (i_account i) target disk limits (Some i))))
     (seqE (modify_vm E i vmid target disk)
     (record_spec E (i_id i) target disk audit)))"

definition Modify ::
    "'h env \<Rightarrow> string \<Rightarrow> modify_request \<Rightarrow> (instance_row \<Rightarrow> unit res) \<Rightarrow> ('h, instance_row) cloud" where
  "Modify E k r audit =
     (if modify_empty r then raise bad_request
      else bindE (catchE (db E (\<lambda>_. reading (\<lambda>d. GetInstance k (d_instances d))))
                   (\<lambda>e. raise (if err_is e NotFound then instance_not_found else e))) (\<lambda>i.
        bindE (EffectiveLimits E (db E)) (\<lambda>(limits, _).
        let target = modify_target r (current_spec i) in
        case validate_spec target of Some e \<Rightarrow> raise e | None \<Rightarrow>
        bindE (of_res (modify_disk r limits i)) (\<lambda>disk.
          if target = current_spec i \<and> disk = i_root_disk i then ret i
          else if modify_refused i target then raise incorrect_state
          else case i_vmid i of
              None \<Rightarrow> raise incorrect_state
            | Some vmid \<Rightarrow> modify_admitted E limits i vmid target disk audit))))"


section \<open>What \<open>Request\<close> answers\<close>

definition asked :: "int \<Rightarrow> inst_state \<Rightarrow> action \<Rightarrow> instance_row \<Rightarrow> instance_row" where
  "asked now st a i = i\<lparr>i_state := st, i_pending := Some a, i_attempts := 0, i_last_error := '''',
     i_next_attempt := now, i_updated_at := now\<rparr>"

lemma find_update: "(\<And>r. i_id (f r) = i_id r) \<Longrightarrow> GetInstance k (update_where (by_id k) f t) = (case GetInstance k t of
    Inl e \<Rightarrow> Inl e | Inr i \<Rightarrow> Inr (f i))"
  by (induction t) (auto simp: GetInstance_def select_one_def update_where_def by_id_def split: option.splits)

lemma inst_constraints_local:
  assumes "\<And>i. i \<in> set t \<Longrightarrow> c i \<Longrightarrow> inst_key (f i) = inst_key i"
  shows "inst_constraints (update_where c f t) = inst_constraints t"
  using assms by (intro inst_constraints_key) (auto simp: update_where_def)

lemma GetInstance_unique:
  assumes "inst_constraints t" and "GetInstance k t = Inr i" and "j \<in> set t" "i_id j = k"
  shows "j = i"
  using select_one_distinct [of i_id t j k] assms by (simp add: inst_constraints_def GetInstance_def by_id_def [abs_def])

lemma SetAction_row:
  assumes t: "inst_constraints t" and i: "GetInstance k t = Inr i" and "i_state i \<noteq> StateTerminated" "st \<noteq> StateTerminated"
  shows "SetAction now k st a t = (Inr (asked now st a i), update_where (by_id k) (asked now st a) t)"
proof -
  have "inst_constraints (update_where (by_id k) (asked now st a) t) = inst_constraints t"
    using GetInstance_unique [OF t i] assms(3,4)
    by (intro inst_constraints_local) (auto simp: by_id_def asked_def inst_key_def live_def row_size_ok_def)
  then show ?thesis
    using t i by (simp add: SetAction_def set_row_def returning_def constrained_def asked_def [symmetric, abs_def]
        find_update) (simp add: find_update asked_def i)
qed

text \<open>Asking again for what the instance already is, or is already doing, changes nothing.\<close>

definition already :: "action \<Rightarrow> instance_row \<Rightarrow> bool" where
  "already a i \<longleftrightarrow> i_pending i = Some a \<and> a \<noteq> ActionReboot \<or>
     (case a of ActionTerminate \<Rightarrow> i_state i = StateTerminated
      | ActionStop \<Rightarrow> phase i = (StateStopped, None)
      | ActionStart \<Rightarrow> phase i = (StateRunning, None)
      | _ \<Rightarrow> False)"

inductive_simps ask_edge: "life_edge p (st, Some a)"

lemma request_step_cases:
  assumes "a \<noteq> ActionLaunch"
  shows "request_step E k a i =
    (if already a i then ret i
     else case (if a = ActionTerminate then StateShuttingDown else if a = ActionStop then StateStopping
                else if a = ActionStart then StatePending else StateRunning) of st \<Rightarrow>
       if life_edge (phase i) (st, Some a) then set_action E k st a else raise incorrect_state)"
  using assms by (cases a) (auto simp: request_step_def already_def phase_def ask_edge)



lemma GetInstance_missing: "GetInstance k t = Inl e \<Longrightarrow> e = NotFound"
  by (simp add: GetInstance_def select_one_Inl)

lemma lock_instance_quiet:
  fixes E :: "'h env"
  assumes "\<And>n. \<not> e_db_down E n"
  shows "lock_instance E k authorize w =
    ((case GetInstance k (d_instances (w_db w)) of
        Inl _ \<Rightarrow> Inl instance_not_found
      | Inr i \<Rightarrow> if authorize i then Inr i else Inl instance_not_found), w\<lparr>w_tick := Suc (w_tick w)\<rparr>)"
  using assms
  by (auto simp: lock_instance_def lock_row_def attempt_def sql_def reading_def raise_def ret_def Let_def split: sum.split
      dest: GetInstance_missing)

lemma edge_not_terminated: "life_edge (phase i) (st, Some a) \<Longrightarrow> i_state i \<noteq> StateTerminated \<and> st \<noteq> StateTerminated"
  by (auto simp: ask_edge phase_def)

lemma ask_edge_state:
  "life_edge p (st, Some a) \<Longrightarrow> st = (if a = ActionTerminate then StateShuttingDown else if a = ActionStop then StateStopping
                else if a = ActionStart then StatePending else StateRunning)"
  by (auto simp: ask_edge)

text \<open>
  C20. \<open>Request\<close> is the instance's lifecycle seen from outside: with the database at hand, an action
  is recorded exactly when the lifecycle has a transition for it from the instance's state, and the
  instance is then in the state of that transition with the action pending; asking for what the
  instance already is or is doing answers with the instance and changes nothing; anything else is
  refused as \<open>IncorrectInstanceState\<close>. An instance the caller may not touch answers like one that
  does not exist.
\<close>

theorem request_follows_lifecycle:
  fixes E :: "'h env"
  assumes run: "Request E k a authorize audit w = (r, w')" and known: "a \<noteq> ActionLaunch"
    and d: "d = e_others E (w_tick w) (w_db w)" and ok: "inst_constraints (d_instances d)"
    and up: "\<And>n. \<not> e_db_down E n" "\<And>i. audit i = Inr ()"
  shows "case GetInstance k (d_instances d) of
      Inl _ \<Rightarrow> r = Inl instance_not_found \<and> w_db w' = d
    | Inr i \<Rightarrow>
        if \<not> authorize i then r = Inl instance_not_found \<and> w_db w' = d
        else if already a i then r = Inr i \<and> w_db w' = d
        else if \<exists>st. life_edge (phase i) (st, Some a)
        then \<exists>now st. life_edge (phase i) (st, Some a) \<and> r = Inr (asked now st a i) \<and> w_wake w' \<and>
               d_instances (w_db w') = update_where (by_id k) (asked now st a) (d_instances d)
        else r = Inl incorrect_state \<and> w_db w' = d"
proof (cases "GetInstance k (d_instances d)")
  case (Inl e)
  then show ?thesis
    using run d up by (auto simp: Request_def bindE_def tx_def interfere_def lock_instance_quiet Let_def)
next
  case (Inr i)
  show ?thesis
  proof (cases "authorize i")
    case False
    then show ?thesis
      using Inr run d up by (auto simp: Request_def bindE_def tx_def interfere_def lock_instance_quiet Let_def)
  next
    case True
    have steps: "Request E k a authorize audit w = (case request_step E k a i (w\<lparr>w_db := d, w_tick := Suc (Suc (w_tick w))\<rparr>) of
        (Inl e, v) \<Rightarrow> (Inl e, v\<lparr>w_db := d\<rparr>)
      | (Inr x, v) \<Rightarrow> (Inr x, v\<lparr>w_tick := Suc (w_tick v), w_wake := True\<rparr>))"
      using True Inr d up
      by (simp add: Request_def bindE_def seqE_def tx_def interfere_def lock_instance_quiet Let_def of_res_def ret_def
          Wake_def put_world_def split: prod.split sum.split)
    consider "already a i" | "\<not> already a i" "\<nexists>st. life_edge (phase i) (st, Some a)"
      | st where "\<not> already a i" "life_edge (phase i) (st, Some a)"
      by blast
    then show ?thesis
    proof cases
      case 1
      then have "r = Inr i \<and> w_db w' = d"
        using run steps known by (auto simp: request_step_cases ret_def)
      with 1 True show ?thesis
        by (simp add: Inr)
    next
      case 2
      then have "r = Inl incorrect_state \<and> w_db w' = d"
        using run steps known by (auto simp: request_step_cases raise_def)
      with 2 True show ?thesis
        by (simp add: Inr)
    next
      case 3
      then have "SetAction now k st a (d_instances d) =
          (Inr (asked now st a i), update_where (by_id k) (asked now st a) (d_instances d))" for now
        using SetAction_row [OF ok Inr] edge_not_terminated by blast
      moreover have "request_step E k a i = set_action E k st a"
        using 3 known ask_edge_state [OF 3(2)] by (simp add: request_step_cases)
      ultimately show ?thesis
        using 3 run steps True Inr up
        by (auto simp: set_action_def sql_def on_instances_def Let_def
            intro!: exI [of _ "e_now E (Suc (Suc (w_tick w)))"] exI [of _ st])
    qed
  qed
qed

theorem request_follows_lifecycle_witness:
  "\<exists>now w'. Request (quiet_env offline_pve offline_ipam :: unit env) ''i-1'' ActionStop (\<lambda>_. True) (\<lambda>_. Inr ())
       (start_world () member_ledger) =
     (Inr (asked now StateStopping ActionStop (hd (d_instances member_ledger))), w')"
proof -
  let ?E = "quiet_env offline_pve offline_ipam :: unit env" and ?i = "hd (d_instances member_ledger)"
  obtain r w' where run: "Request ?E ''i-1'' ActionStop (\<lambda>_. True) (\<lambda>_. Inr ()) (start_world () member_ledger) = (r, w')"
    by fastforce
  have i: "GetInstance ''i-1'' (d_instances member_ledger) = Inr ?i" "phase ?i = (StateRunning, None)"
    and ok: "inst_constraints (d_instances member_ledger)"
    by (simp_all add: member_ledger_def GetInstance_def select_one_def by_id_def example_row_def phase_def
        inst_constraints_def live_vmids_def client_tokens_def live_def row_size_ok_def db_size_ok_def int4_def
        map_filter_simps)
  have "\<not> already ActionStop ?i"
    using i(2) by (auto simp: already_def phase_def)
  moreover have "life_edge (phase ?i) (st, Some ActionStop) \<longleftrightarrow> st = StateStopping" for st
    using i(2) by (auto simp: ask_edge)
  ultimately show ?thesis
    using request_follows_lifecycle [OF run _ refl] run i(1) ok by (auto simp: start_world_def)
qed



section \<open>What the requests do to the ledger\<close>

lemma keeps_modify_steps [keeps_intros]:
  "keeps (db_inv P) (modify_vm E i vmid target disk)"
  "keeps (db_inv P) (rename_vm E i name)"
  unfolding modify_vm_def rename_vm_def owns_def Let_def by (intro keeps_intros)+

context ledger_contract
begin

lemma keeps_record_spec: "others_keep P E \<Longrightarrow> keeps (db_inv P) (record_spec E k target disk audit)"
  unfolding record_spec_def by (intro keeps_intros keeps_tx keeps_sql keeps_instances set_spec)

lemma keeps_Modify: "others_keep P E \<Longrightarrow> keeps (db_inv P) (Modify E k r audit)"
  unfolding Modify_def modify_admitted_def LockCapacity_def Let_def
  by (intro keeps_intros keeps_db keeps_tx keeps_sql keeps_record_spec)

lemma keeps_SetInstanceTags: "others_keep P E \<Longrightarrow> keeps (db_inv P) (SetInstanceTags' E k tags authorize audit)"
proof -
  have lock: "keeps (db_inv P) (lock_instance E k authorize)"
    using ledger_free_lock_row unfolding lock_instance_def ledger_free_keeps by blast
  assume "others_keep P E"
  then show ?thesis
    unfolding SetInstanceTags'_def Let_def
    by (intro keeps_intros keeps_tx keeps_sql keeps_instances set_tags lock)
qed

end

context request_contract
begin

lemma in_tx_request_step: "in_tx (at_instance k i) (request_step E k a i) (\<lambda>_. P)"
proof -
  have same: "in_tx (at_instance k i) (ret i) (\<lambda>_. P)"
    by (rule in_tx_ret) (simp add: at_instance_def)
  show ?thesis
    unfolding request_step_def set_action_def Let_def
    by (cases a) (auto intro!: in_tx_if in_tx_raise same in_tx_set_action simp: ask_edge_iff phase_def
        simp del: not_None_eq)
qed

lemma keeps_Request: "others_keep P E \<Longrightarrow> keeps (db_inv P) (Request E k a authorize audit)"
  unfolding Request_def
  by (intro keeps_intros keeps_tx_body in_tx_bindE [OF locked_instance] in_tx_bindE [OF in_tx_request_step]
      in_tx_seqE [OF in_tx_keeps [OF keeps_of_res]] in_tx_ret)

end



section \<open>What \<open>Modify\<close> does to the VM\<close>

definition modify_event :: "string \<Rightarrow> modify_request \<Rightarrow> event list \<Rightarrow> event \<Rightarrow> bool" where
  "modify_event k r l ev \<longleftrightarrow> (case ev of
     SawConfig v c \<Rightarrow> True
   | DidUpdateVMConfig v params \<Rightarrow> \<exists>i. i_id i = k \<and> i_vmid i = Some v \<and> shown_owned i v l \<and> i_state i = StateStopped \<and>
       i_pending i = None \<and> params = modify_params (modify_target r (current_spec i)) (current_spec i)
   | DidResizeDisk v disk grown \<Rightarrow> \<exists>i n. i_id i = k \<and> i_vmid i = Some v \<and> shown_owned i v l \<and> i_pending i = None \<and>
       disk = ''virtio0'' \<and> m_root_disk_gib r = Some n \<and> n > i_root_disk i \<and> grown = itoa n @ ''G''
   | _ \<Rightarrow> False)"

text \<open>What \<open>Modify\<close> has added to the log so far.\<close>

definition modify_log :: "string \<Rightarrow> modify_request \<Rightarrow> event list \<Rightarrow> event list \<Rightarrow> bool" where
  "modify_log k r l0 l \<longleftrightarrow> (\<exists>evs. l = evs @ l0 \<and> (\<forall>ev \<in> set evs. modify_event k r l ev))"

definition modify_owned :: "instance_row \<Rightarrow> int \<Rightarrow> modify_request \<Rightarrow> event list \<Rightarrow> event list \<Rightarrow> bool" where
  "modify_owned i vmid r l0 l \<longleftrightarrow> modify_log (i_id i) r l0 l \<and> shown_owned i vmid l"

lemma shown_owned_Cons: "shown_owned i v l \<Longrightarrow> shown_owned i v (ev # l)"
  by (auto simp: shown_owned_def)

lemma modify_event_Cons: "modify_event k r l ev \<Longrightarrow> modify_event k r (ev' # l) ev"
  using shown_owned_Cons by (fastforce simp: modify_event_def split: event.splits)

lemma modify_log_Cons: "modify_log k r l0 l \<Longrightarrow> modify_event k r (ev # l) ev \<Longrightarrow> modify_log k r l0 (ev # l)"
  using modify_event_Cons by (fastforce simp: modify_log_def intro: exI [of _ "ev # _"])

lemma modify_owned_Cons:
  "modify_owned i v r l0 l \<Longrightarrow> modify_event (i_id i) r (ev # l) ev \<Longrightarrow> modify_owned i v r l0 (ev # l)"
  by (simp add: modify_owned_def modify_log_Cons shown_owned_Cons)

lemma modify_log_refl: "modify_log k r l l"
  by (simp add: modify_log_def)

lemma modify_params_empty: "modify_params s s = []"
  by (simp add: modify_params_def)

lemma triple_logged_call:
  assumes "\<And>l. L l \<Longrightarrow> L (ev # l)"
  shows "triple (log_inv L) (pve_do ev f) (\<lambda>_. log_inv L) (log_inv L)"
  unfolding keeps_triple [symmetric] by (intro keeps_log_pve_do assms)

lemma modify_vm_calls:
  assumes "i_vmid i = Some vmid" and "i_pending i = None"
    and target: "target = modify_target r (current_spec i)" and stopped: "target \<noteq> current_spec i \<Longrightarrow> i_state i = StateStopped"
    and disk: "disk > i_root_disk i \<Longrightarrow> m_root_disk_gib r = Some disk"
  shows "triple (log_inv (\<lambda>l. l = l0)) (modify_vm E i vmid target disk)
    (\<lambda>_. log_inv (modify_log (i_id i) r l0)) (log_inv (modify_log (i_id i) r l0))"
proof -
  let ?own = "log_inv (modify_owned i vmid r l0)" and ?ok = "log_inv (modify_log (i_id i) r l0)"
  have shown: "triple (log_inv (\<lambda>l. l = l0)) (owns E vmid i)
      (\<lambda>owned w. ?ok w \<and> (owned \<longrightarrow> ?own w)) ?ok"
    using assms(1)
    by (auto simp: triple_def owns_def ret_def vm_config_def bindE_def seqE_def external_def log_event_def put_world_def
        log_inv_def modify_owned_def modify_log_refl shown_owned_def modify_log_Cons modify_event_def
        split: prod.splits sum.splits)
  have update: "triple ?own (pve_do (DidUpdateVMConfig vmid params) f) (\<lambda>_. ?own) ?own"
    if "params = modify_params target (current_spec i)" "params \<noteq> []" for params and f :: "('h, unit) ext"
  proof (rule triple_logged_call, rule modify_owned_Cons)
    have "target \<noteq> current_spec i"
      using that modify_params_empty by metis
    then show "modify_owned i vmid r l0 l \<Longrightarrow> modify_event (i_id i) r (DidUpdateVMConfig vmid params # l) (DidUpdateVMConfig vmid params)"
      for l
      using assms(1,2) that(1) target stopped
      by (auto simp: modify_event_def modify_owned_def shown_owned_Cons)
  qed
  have resize: "triple ?own (pve_do (DidResizeDisk vmid ''virtio0'' (itoa disk @ ''G'')) f) (\<lambda>_. ?own) ?own"
    if "disk > i_root_disk i" for f :: "('h, unit) ext"
    using assms(1,2) disk that
    by (intro triple_logged_call modify_owned_Cons) (auto simp: modify_event_def modify_owned_def shown_owned_Cons)
  have weaken: "?own w \<Longrightarrow> ?ok w" for w :: "'h world"
    by (simp add: log_inv_def modify_owned_def)
  have owned: "triple (log_inv (\<lambda>l. l = l0)) (attempt (owns E vmid i) (\<lambda>r. case r of
          Inl e \<Rightarrow> raise (Join e incorrect_state)
        | Inr owned \<Rightarrow> if owned then ret () else raise incorrect_state)) (\<lambda>_. ?own) ?ok"
    by (rule triple_attempt [OF triple_weaken [OF shown], where R = "\<lambda>r w. ?ok w \<and> (r = Inr True \<longrightarrow> ?own w)" and G = ?ok])
      (auto simp: triple_def ret_def raise_def split: sum.split)
  show ?thesis
    unfolding modify_vm_def Let_def
    by (rule triple_seqE [OF owned], rule triple_weaken [where P = ?own and Q = "\<lambda>_. ?own" and F = ?own])
      (auto intro!: triple_seqE [where R = ?own] triple_whenE triple_wrapE update resize weaken)
qed




end
