(* ===== verification/Volume_Admission.thy ===== *)
theory Volume_Admission
  imports Admission Request_Contract
begin

text \<open>
  \<open>compute/volumes.go\<close>: how requests on volumes are admitted. The worker (\<open>Volume_Worker\<close>) then moves
  the disks.
\<close>

section \<open>Requests\<close>

definition lastVolumeDevice :: int where "lastVolumeDevice = 15"


definition candidates :: "string list" where
  "candidates = map (\<lambda>n. ''virtio'' @ itoa n) [1..lastVolumeDevice]"

text \<open>\<open>^virtio([1-9]|1[0-5])$\<close>\<close>

definition volumeDevice :: "string \<Rightarrow> bool" where
  "volumeDevice s \<longleftrightarrow> (case s of
     [v, i, r, t, u, n, d] \<Rightarrow> [v, i, r, t, u, n] = ''virtio'' \<and> d \<in> set ''123456789''
   | [v, i, r, t, u, n, c, d] \<Rightarrow> [v, i, r, t, u, n] = ''virtio'' \<and> c = CHR ''1'' \<and> d \<in> set ''012345''
   | _ \<Rightarrow> False)"

record volume_request =
  vr_size :: int
  vr_tier :: string
  vr_client_token :: string
  vr_tags :: "(string, string) gomap option"

definition volume_request_json :: "volume_request \<Rightarrow> json" where
  "volume_request_json r = JObject [(''size_gib'', JInt (vr_size r)), (''disk_tier'', JString (vr_tier r)),
     (''client_token'', JString (vr_client_token r)), (''tags'', json_tags (vr_tags r))]"

definition volumeRequestHash :: "'h env \<Rightarrow> volume_request \<Rightarrow> nat list" where
  "volumeRequestHash E r = e_sha256 E (json_text (volume_request_json (r\<lparr>vr_client_token := ''''\<rparr>)))"

definition newVolumeID :: "'h env \<Rightarrow> ('h, string) cloud" where
  "newVolumeID E = bindE (random_hex E) (\<lambda>h. ret (''vol-'' @ h))"

definition volume_state_refused :: err where "volume_state_refused = Refuse 409 ''IncorrectState''"

section \<open>Creating\<close>

definition idempotentVolume :: "volume_row \<Rightarrow> nat list \<Rightarrow> ('h, volume_row \<times> bool) cloud" where
  "idempotentVolume v hash =
     (if v_request_hash v \<noteq> hash then raise (Refuse 409 ''IdempotentParameterMismatch'') else ret (v, False))"

definition volume_quota_problem :: "quota \<Rightarrow> usage \<Rightarrow> int \<Rightarrow> int \<Rightarrow> bool" where
  "volume_quota_problem q u volumes gib \<longleftrightarrow>
     (q_volumes q > 0 \<and> wrap64 (u_volumes u + volumes) > q_volumes q) \<or>
     (q_volume_gib q > 0 \<and> wrap64 (u_volume_gib u + gib) > q_volume_gib q)"

definition checkVolumeQuota :: "'h env \<Rightarrow> string \<Rightarrow> int \<Rightarrow> int \<Rightarrow> limits \<Rightarrow> ('h, unit) cloud" where
  "checkVolumeQuota E acct volumes gib limits =
     bindE (sql E (\<lambda>_. reading (\<lambda>d. Inr (AccountUsage acct (d_instances d) (d_volumes d))))) (\<lambda>u.
       whenE (volume_quota_problem (account_quota limits) u volumes gib) (raise (Refuse 409 ''VolumeLimitExceeded'')))"

definition volume_by_token ::
    "((int \<Rightarrow> volume_row stmt) \<Rightarrow> ('h, volume_row) cloud) \<Rightarrow> string \<Rightarrow> string \<Rightarrow> ('h, volume_row option) cloud" where
  "volume_by_token q acct token =
     (if token = '''' then ret None
      else attempt (q (\<lambda>_. reading (\<lambda>d. VolumeByClientToken acct token (d_volumes d)))) (\<lambda>r. case r of
          Inr v \<Rightarrow> ret (Some v)
        | Inl e \<Rightarrow> if err_is e NotFound then ret None else raise e))"

text \<open>\<open>InsertVolume\<close> sets the columns that are not named here.\<close>

definition new_volume :: "string \<Rightarrow> string \<Rightarrow> volume_request \<Rightarrow> nat list \<Rightarrow> volume_row" where
  "new_volume k acct r hash =
     \<lparr>v_id = k, v_account = acct, v_client_token = vr_client_token r, v_request_hash = hash, v_size = vr_size r,
      v_tier = vr_tier r, v_tags = tags_of (vr_tags r), v_state = VolumeCreating, v_instance = '''', v_device = '''',
      v_attachment = None, v_pending = Some VolumeActionCreate, v_state_reason = '''', v_last_error = '''', v_attempts = 0,
      v_next_attempt = 0, v_lease_until = None, v_location = no_location, v_created_at = 0, v_deleted_at = None,
      v_updated_at = 0\<rparr>"

definition create_volume_tx ::
    "'h env \<Rightarrow> string \<Rightarrow> volume_request \<Rightarrow> nat list \<Rightarrow> limits \<Rightarrow> (volume_row \<Rightarrow> unit res) \<Rightarrow> ('h, volume_row \<times> bool) cloud" where
  "create_volume_tx E acct r hash limits audit =
     seqE (sql E (\<lambda>_. LockCapacity))
     (bindE (volume_by_token (sql E) acct (vr_client_token r)) (\<lambda>existing. case existing of
         Some v \<Rightarrow> ret (v, False)
       | None \<Rightarrow>
           seqE (checkVolumeQuota E acct 1 (vr_size r) limits)
           (bindE (sql E (\<lambda>_. reading (\<lambda>d. Inr (LiveVolumeCount (d_volumes d))))) (\<lambda>alive.
             if alive \<ge> holderSlots then raise (Refuse 503 ''InsufficientVolumeCapacity'')
             else bindE (newVolumeID E) (\<lambda>k.
                  bindE (sql E (\<lambda>now. on_volumes (InsertVolume now (new_volume k acct r hash)))) (\<lambda>v.
                  seqE (of_res (audit v)) (ret (v, True))))))))"

definition CreateVolume ::
    "'h env \<Rightarrow> string \<Rightarrow> volume_request \<Rightarrow> (volume_row \<Rightarrow> unit res) \<Rightarrow> ('h, volume_row \<times> bool) cloud" where
  "CreateVolume E acct r audit =
     bindE (EffectiveLimits E (db E)) (\<lambda>(limits, _).
     if vr_size r < volume_size_min limits \<or> vr_size r > volume_size_max limits then raise bad_request
     else let r = (if vr_tier r = '''' then r\<lparr>vr_tier := TierSSD\<rparr> else r) in
       bindE (of_res (diskTierStorage (e_site E) (vr_tier r))) (\<lambda>storage.
       if vr_client_token r \<noteq> '''' \<and> \<not> clientToken (vr_client_token r) then raise bad_request
       else seqE (of_res (validateTags (tags_of (vr_tags r))))
         (let hash = volumeRequestHash E r in
          bindE (volume_by_token (db E) acct (vr_client_token r)) (\<lambda>existing. case existing of
              Some v \<Rightarrow> idempotentVolume v hash
            | None \<Rightarrow>
                seqE (checkDiskPool E limits storage)
                (bindE (tx E (create_volume_tx E acct r hash limits audit)) (\<lambda>(v, created).
                   if \<not> created then idempotentVolume v hash else seqE Wake (ret (v, True))))))))"

section \<open>Growing and deleting\<close>

definition tier_pool :: "site \<Rightarrow> string \<Rightarrow> string" where
  "tier_pool s tier = (case disk_tier_storage (s_storage s) tier of
     (storage, ok) \<Rightarrow> if ok then storage else vm_disks (s_storage s))"

definition modify_volume_tx ::
    "'h env \<Rightarrow> string \<Rightarrow> int \<Rightarrow> limits \<Rightarrow> (volume_row \<Rightarrow> bool) \<Rightarrow> (volume_row \<Rightarrow> unit res) \<Rightarrow> ('h, volume_row) cloud" where
  "modify_volume_tx E k sz limits authorize audit =
     seqE (sql E (\<lambda>_. LockCapacity))
     (bindE (lock_volume E k authorize) (\<lambda>v.
        if (v_state v \<noteq> VolumeAvailable \<and> v_state v \<noteq> VolumeInUse) \<or> v_pending v \<noteq> None then raise volume_state_refused
        else if sz \<le> v_size v then raise bad_request
        else seqE (checkVolumeQuota E (v_account v) 0 (wrap64 (sz - v_size v)) limits)
          (bindE (sql E (\<lambda>now. on_volumes (RequestResize now k sz))) (\<lambda>result.
             seqE (of_res (audit result)) (ret result)))))"

definition ModifyVolume ::
    "'h env \<Rightarrow> string \<Rightarrow> int \<Rightarrow> (volume_row \<Rightarrow> bool) \<Rightarrow> (volume_row \<Rightarrow> unit res) \<Rightarrow> ('h, volume_row) cloud" where
  "ModifyVolume E k sz authorize audit =
     bindE (EffectiveLimits E (db E)) (\<lambda>(limits, _).
     if sz > volume_size_max limits then raise bad_request
     else seqE
       (attempt (db E (\<lambda>_. reading (\<lambda>d. GetVolume k (d_volumes d)))) (\<lambda>r. case r of
            Inr v \<Rightarrow> checkDiskPool E limits (tier_pool (e_site E) (v_tier v))
          | Inl e \<Rightarrow> if err_is e NotFound then ret () else raise e))
       (bindE (tx E (modify_volume_tx E k sz limits authorize audit)) (\<lambda>result. seqE Wake (ret result))))"

definition delete_volume_tx ::
    "'h env \<Rightarrow> string \<Rightarrow> (volume_row \<Rightarrow> bool) \<Rightarrow> (volume_row \<Rightarrow> unit res) \<Rightarrow> ('h, volume_row) cloud" where
  "delete_volume_tx E k authorize audit =
     bindE (lock_volume E k authorize) (\<lambda>v.
       if v_state v = VolumeDeleted \<or> v_pending v = Some VolumeActionDelete then ret v
       else if v_instance v \<noteq> '''' then raise (Refuse 409 ''VolumeInUse'')
       else if (v_state v \<noteq> VolumeAvailable \<and> v_state v \<noteq> VolumeError) \<or> v_pending v \<noteq> None
         then raise volume_state_refused
       else bindE (sql E (\<lambda>now. on_volumes (RequestDelete now k))) (\<lambda>result.
              seqE (of_res (audit result)) (ret result)))"

definition DeleteVolume ::
    "'h env \<Rightarrow> string \<Rightarrow> (volume_row \<Rightarrow> bool) \<Rightarrow> (volume_row \<Rightarrow> unit res) \<Rightarrow> ('h, volume_row) cloud" where
  "DeleteVolume E k authorize audit =
     bindE (tx E (delete_volume_tx E k authorize audit)) (\<lambda>result. seqE Wake (ret result))"

section \<open>Attaching and detaching\<close>

definition pick_device :: "string \<Rightarrow> string list \<Rightarrow> string res" where
  "pick_device device used =
     (if device = '''' then
        case find (\<lambda>c. c \<notin> set used) candidates of
          None \<Rightarrow> Inl (Refuse 409 ''AttachmentLimitExceeded'') | Some c \<Rightarrow> Inr c
      else if device \<in> set used then Inl bad_request else Inr device)"

definition attach_volume_tx ::
    "'h env \<Rightarrow> string \<Rightarrow> string \<Rightarrow> string \<Rightarrow> (volume_row \<Rightarrow> bool) \<Rightarrow> (volume_row \<Rightarrow> unit res) \<Rightarrow>
     ('h, volume_row) cloud" where
  "attach_volume_tx E k inst device authorize audit =
     bindE (lock_volume E k authorize) (\<lambda>v.
       if v_state v \<noteq> VolumeAvailable \<or> v_pending v \<noteq> None \<or> v_instance v \<noteq> '''' then raise volume_state_refused
       else bindE (lock_instance E inst (\<lambda>_. True)) (\<lambda>i.
         if i_account i \<noteq> v_account v then raise bad_request
         else if (i_state i \<noteq> StateRunning \<and> i_state i \<noteq> StateStopped) \<or> i_pending i \<noteq> None then raise incorrect_state
         else bindE (sql E (\<lambda>_. reading (\<lambda>d. Inr (VolumesOfInstance inst (d_volumes d))))) (\<lambda>attached.
           bindE (of_res (pick_device device (map v_device attached))) (\<lambda>device.
           bindE (sql E (\<lambda>now. on_volumes (RequestAttach now k inst device))) (\<lambda>result.
             seqE (of_res (audit result)) (ret result))))))"

definition AttachVolume ::
    "'h env \<Rightarrow> string \<Rightarrow> string \<Rightarrow> string \<Rightarrow> (volume_row \<Rightarrow> bool) \<Rightarrow> (volume_row \<Rightarrow> unit res) \<Rightarrow>
     ('h, volume_row) cloud" where
  "AttachVolume E k inst device authorize audit =
     (if device \<noteq> '''' \<and> \<not> volumeDevice device then raise bad_request
      else bindE (tx E (attach_volume_tx E k inst device authorize audit)) (\<lambda>result. seqE Wake (ret result)))"

definition detach_volume_tx ::
    "'h env \<Rightarrow> string \<Rightarrow> (volume_row \<Rightarrow> bool) \<Rightarrow> (volume_row \<Rightarrow> unit res) \<Rightarrow> ('h, volume_row) cloud" where
  "detach_volume_tx E k authorize audit =
     bindE (lock_volume E k authorize) (\<lambda>v.
       if v_pending v = Some VolumeActionDetach then ret v
       else if v_instance v = '''' then raise volume_state_refused
       else if v_attachment v \<noteq> Some AttachmentAttached \<or> v_pending v \<noteq> None then raise volume_state_refused
       else bindE (sql E (\<lambda>now. on_volumes (RequestDetach now k))) (\<lambda>result.
              seqE (of_res (audit result)) (ret result)))"

definition DetachVolume ::
    "'h env \<Rightarrow> string \<Rightarrow> (volume_row \<Rightarrow> bool) \<Rightarrow> (volume_row \<Rightarrow> unit res) \<Rightarrow> ('h, volume_row) cloud" where
  "DetachVolume E k authorize audit =
     bindE (tx E (detach_volume_tx E k authorize audit)) (\<lambda>result. seqE Wake (ret result))"

section \<open>What the requests do to the ledger\<close>

lemma keeps_volume_lookups [keeps_intros]:
  "others_keep P E \<Longrightarrow> keeps (db_inv P) (volume_by_token (db E) acct token)"
  "keeps (db_inv P) (volume_by_token (sql E) acct token)"
  "keeps (db_inv P) (checkVolumeQuota E acct n gib limits)"
  "keeps (db_inv P) (idempotentVolume v hash)" "keeps (db_inv P) (newVolumeID E)"
  unfolding volume_by_token_def checkVolumeQuota_def idempotentVolume_def newVolumeID_def
  by (intro keeps_intros keeps_db keeps_sql; assumption)+

context ledger_contract
begin

lemma keeps_CreateVolume: "others_keep P E \<Longrightarrow> keeps (db_inv P) (CreateVolume E acct r audit)"
  unfolding CreateVolume_def create_volume_tx_def LockCapacity_def Let_def
  by (intro keeps_intros keeps_tx keeps_sql keeps_volumes vol_insert)

end

context request_contract
begin

lemma in_tx_answer: "in_tx P (seqE (of_res r) (ret x)) (\<lambda>_. P)"
  by (intro in_tx_keeps keeps_intros)

lemma in_tx_resize:
  assumes "v_state x = VolumeAvailable \<or> v_state x = VolumeInUse" and "v_pending x = None"
  shows "in_tx (at_volume k x) (sql E (\<lambda>now. on_volumes (RequestResize now k sz))) (\<lambda>_. P)"
proof (rule in_tx_volume_law)
  fix now t v assume Q: "Q t v" and got: "GetVolume k v = Inr x"
  show "Q t (snd (RequestResize now k sz v))"
  proof (rule vol_resize [OF Q])
    fix y assume "y \<in> set v" "v_id y = k" and ok: "vol_ok y"
    then have "y = x" using one_volume [OF Q got] by blast
    then show "vol_phase y = (VolumeAvailable, None, None) \<or> vol_phase y = (VolumeInUse, None, Some AttachmentAttached)"
      using ok assms by (auto simp: vol_ok_def vol_phase_def)
  qed
qed

lemma in_tx_delete:
  assumes "v_state x = VolumeAvailable \<or> v_state x = VolumeError" and "v_pending x = None" and "v_instance x = ''''"
  shows "in_tx (at_volume k x) (sql E (\<lambda>now. on_volumes (RequestDelete now k))) (\<lambda>_. P)"
proof (rule in_tx_volume_law)
  fix now t v assume Q: "Q t v" and got: "GetVolume k v = Inr x"
  show "Q t (snd (RequestDelete now k v))"
  proof (rule vol_delete [OF Q])
    fix y assume "y \<in> set v" "v_id y = k" and ok: "vol_ok y"
    then have "y = x" using one_volume [OF Q got] by blast
    then show "vol_phase y = (VolumeAvailable, None, None) \<or> vol_phase y = (VolumeError, None, None)"
      using ok assms by (auto simp: vol_ok_def vol_phase_def)
  qed
qed

lemma in_tx_attach:
  assumes "v_state x = VolumeAvailable" and "v_pending x = None"
  shows "in_tx (at_volume k x) (sql E (\<lambda>now. on_volumes (RequestAttach now k inst device))) (\<lambda>_. P)"
proof (rule in_tx_volume_law)
  fix now t v assume "Q t v" "GetVolume k v = Inr x"
  then show "Q t (snd (RequestAttach now k inst device v))"
    by (intro vol_attach) (use assms in \<open>auto dest!: one_volume simp: vol_ok_def vol_phase_def\<close>)
qed

lemma in_tx_detach:
  assumes "v_attachment x = Some AttachmentAttached" and "v_pending x = None"
  shows "in_tx (at_volume k x) (sql E (\<lambda>now. on_volumes (RequestDetach now k))) (\<lambda>_. P)"
proof (rule in_tx_volume_law)
  fix now t v assume "Q t v" "GetVolume k v = Inr x"
  moreover have "vol_ok x \<Longrightarrow> vol_phase x = (VolumeInUse, None, Some AttachmentAttached)"
    using assms by (cases "v_state x") (auto simp: vol_ok_def vol_phase_def)
  ultimately show "Q t (snd (RequestDetach now k v))"
    by (intro vol_detach) (auto dest!: one_volume)
qed

lemma in_tx_keep_row: "keeps (db_inv (at_volume k x)) m \<Longrightarrow> in_tx (at_volume k x) m (\<lambda>_. at_volume k x)"
  by (rule in_tx_keeps)

lemma in_tx_same_volume: "in_tx (at_volume k x) (ret y) (\<lambda>_. P)"
  by (rule in_tx_ret) (simp add: at_volume_def)

lemma keeps_ModifyVolume: "others_keep P E \<Longrightarrow> keeps (db_inv P) (ModifyVolume E k sz authorize audit)"
  unfolding ModifyVolume_def modify_volume_tx_def LockCapacity_def
  by (intro keeps_intros keeps_db keeps_tx_body in_tx_seqE [OF in_tx_read] in_tx_bindE [OF locked_volume] in_tx_if in_tx_raise
      in_tx_seqE [OF in_tx_keep_row] in_tx_bindE [OF in_tx_resize] in_tx_answer; (assumption | auto)?)

lemma keeps_DeleteVolume: "others_keep P E \<Longrightarrow> keeps (db_inv P) (DeleteVolume E k authorize audit)"
  unfolding DeleteVolume_def delete_volume_tx_def
  by (intro keeps_intros keeps_tx_body in_tx_bindE [OF locked_volume] in_tx_if in_tx_raise in_tx_same_volume
      in_tx_bindE [OF in_tx_delete] in_tx_answer) auto

lemma keeps_AttachVolume: "others_keep P E \<Longrightarrow> keeps (db_inv P) (AttachVolume E k inst device authorize audit)"
proof -
  have lock: "in_tx (at_volume k x) (lock_instance E inst (\<lambda>_. True)) (\<lambda>_. at_volume k x)" for x
    by (rule in_tx_ledger_free) (simp add: lock_instance_def ledger_free_lock_row)
  have pick: "in_tx (at_volume k x) (of_res r) (\<lambda>_. at_volume k x)" for x and r :: "string res"
    by (rule in_tx_of_res)
  assume "others_keep P E"
  then show ?thesis
    unfolding AttachVolume_def attach_volume_tx_def
    by (intro keeps_intros keeps_tx_body in_tx_bindE [OF locked_volume] in_tx_if in_tx_raise in_tx_bindE [OF lock]
        in_tx_bindE [OF in_tx_read] in_tx_bindE [OF pick] in_tx_bindE [OF in_tx_attach] in_tx_answer) auto
qed

lemma keeps_DetachVolume: "others_keep P E \<Longrightarrow> keeps (db_inv P) (DetachVolume E k authorize audit)"
  unfolding DetachVolume_def detach_volume_tx_def
  by (intro keeps_intros keeps_tx_body in_tx_bindE [OF locked_volume] in_tx_if in_tx_raise in_tx_same_volume
      in_tx_bindE [OF in_tx_detach] in_tx_answer) auto

end


section \<open>Which device a volume gets\<close>

lemma find_update_vol: "(\<And>r. v_id (f r) = v_id r) \<Longrightarrow> GetVolume k (update_where (vol_by_id k) f t) = (case GetVolume k t of
    Inl e \<Rightarrow> Inl e | Inr x \<Rightarrow> Inr (f x))"
  by (induction t) (auto simp: GetVolume_def select_one_def update_where_def vol_by_id_def split: option.splits)

lemma RequestAttach_Inr:
  assumes "RequestAttach now k inst device t = (Inr v, t')" and "GetVolume k t = Inr x"
  shows "v_instance v = inst \<and> v_device v = device \<and> v_attachment v = Some AttachmentAttaching \<and>
    v_pending v = Some VolumeActionAttach \<and> v_account v = v_account x \<and> v_id v = v_id x \<and> v \<in> set t'"
proof -
  let ?f = "\<lambda>v. (fresh_request now VolumeActionAttach v)\<lparr>v_instance := inst, v_device := device,
        v_attachment := Some AttachmentAttaching\<rparr>"
  have t': "t' = update_where (vol_by_id k) ?f t" and "GetVolume k t' = Inr v"
    using assms(1) by (auto simp: RequestAttach_def vol_returning_def vol_constrained_def set_vol_def GetVolume_def
        split: if_splits)
  moreover have "GetVolume k t' = Inr (?f x)"
    unfolding t' by (subst find_update_vol) (simp_all add: fresh_request_def assms(2))
  ultimately show ?thesis
    by (auto simp: fresh_request_def GetVolume_def dest: select_one_Inr)
qed

lemma pick_device_Inr:
  assumes "pick_device device used = Inr c" and "device = '''' \<or> volumeDevice device"
  shows "c \<notin> set used \<and> (device \<noteq> '''' \<longrightarrow> c = device) \<and>
    (device = '''' \<longrightarrow> (\<exists>n. 1 \<le> n \<and> n \<le> lastVolumeDevice \<and> c = ''virtio'' @ itoa n \<and>
       (\<forall>m. 1 \<le> m \<and> m < n \<longrightarrow> ''virtio'' @ itoa m \<in> set used)))"
proof (cases "device = ''''")
  case True
  then have "find (\<lambda>c. c \<notin> set used) candidates = Some c"
    using assms(1) by (auto simp: pick_device_def split: option.splits)
  then obtain j where j: "j < length candidates" "candidates ! j \<notin> set used" "c = candidates ! j"
    and low: "\<forall>i<j. candidates ! i \<in> set used"
    unfolding find_Some_iff by auto
  have nth: "i < length candidates \<Longrightarrow> candidates ! i = ''virtio'' @ itoa (1 + int i)" for i
    by (simp add: candidates_def nth_upto)
  have len: "length candidates = 15"
    by (simp add: candidates_def lastVolumeDevice_def)
  have "''virtio'' @ itoa m \<in> set used" if "1 \<le> m" "m < 1 + int j" for m
    using low [rule_format, of "nat (m - 1)"] nth [of "nat (m - 1)"] that j(1) by simp
  then show ?thesis
    using True j nth [OF j(1)] len by (auto simp: lastVolumeDevice_def intro!: exI [of _ "1 + int j"])
qed (use assms in \<open>auto simp: pick_device_def split: if_splits\<close>)



definition attach_ledger :: ledger where
  "attach_ledger = member_ledger\<lparr>d_volumes := [example_volume ''vol-1'']\<rparr>"

lemma first_device: "pick_device '''' [] = Inr ''virtio1''"
  by code_simp




section \<open>Quota of volumes\<close>

text \<open>What the transaction of a volume that was created left.\<close>

definition volume_created :: "string \<Rightarrow> volume_request \<Rightarrow> nat list \<Rightarrow> limits \<Rightarrow> inst_table \<Rightarrow> vol_table \<Rightarrow> volume_row \<Rightarrow> ledger \<Rightarrow> bool" where
  "volume_created acct r hash limits t vs v d \<longleftrightarrow> d_instances d = t \<and>
     (\<exists>now k. InsertVolume now (new_volume k acct r hash) vs = (Inr v, d_volumes d)) \<and>
     \<not> volume_quota_problem (account_quota limits) (AccountUsage acct t vs) 1 (vr_size r) \<and> LiveVolumeCount vs < holderSlots"

lemma in_tx_create_volume:
  fixes E :: "'h env"
  shows "in_tx (\<lambda>d. d_instances d = t \<and> d_volumes d = vs) (create_volume_tx E acct r hash limits audit)
    (\<lambda>(v, created) d. created \<longrightarrow> volume_created acct r hash limits t vs v d)"
    (is "in_tx ?P _ ?Q")
proof -
  let ?fits = "\<not> volume_quota_problem (account_quota limits) (AccountUsage acct t vs) 1 (vr_size r)"
  have token: "in_tx ?P (volume_by_token (sql E) acct (vr_client_token r)) (\<lambda>_. ?P)"
    by (intro in_tx_keeps keeps_intros)
  have quota: "in_tx ?P (checkVolumeQuota E acct 1 (vr_size r) limits) (\<lambda>_ d. ?P d \<and> ?fits)"
    unfolding checkVolumeQuota_def
    by (rule in_tx_bindE [OF in_tx_reading [where Q = "\<lambda>u d. ?P d \<and> u = AccountUsage acct t vs"]])
      (auto intro!: in_tx_whenE in_tx_raise)
  have count: "in_tx (\<lambda>d. ?P d \<and> ?fits) (sql E (\<lambda>_. reading (\<lambda>d. Inr (LiveVolumeCount (d_volumes d)))))
      (\<lambda>n d. (?P d \<and> ?fits) \<and> n = LiveVolumeCount vs)"
    by (rule in_tx_reading) auto
  have kid: "in_tx R (newVolumeID E) (\<lambda>_. R)" for R
    by (intro in_tx_keeps keeps_intros)
  have insert: "in_tx (\<lambda>d. (?P d \<and> ?fits) \<and> n = LiveVolumeCount vs) (sql E (\<lambda>now. on_volumes (InsertVolume now (new_volume k acct r hash))))
      (\<lambda>v. volume_created acct r hash limits t vs v)" if "\<not> holderSlots \<le> n" for k n
    using that by (intro in_tx_sql) (auto simp: on_volumes_def volume_created_def split: prod.splits intro!: exI)
  show ?thesis
    unfolding create_volume_tx_def
    by (rule in_tx_seqE [OF in_tx_lock_capacity], rule in_tx_bindE [OF token], rule in_tx_case_option,
        rule in_tx_seqE [OF quota], rule in_tx_bindE [OF count], intro in_tx_if in_tx_raise, rule in_tx_bindE [OF kid],
        rule in_tx_bindE [OF insert]) (auto intro!: in_tx_seqE [OF in_tx_audit] in_tx_ret)
qed

lemma CreateVolume_result:
  fixes E :: "'h env"
  assumes "CreateVolume E acct r audit w = (Inr (v, True), w')"
  shows "\<exists>r' hash t vs. vr_size r' = vr_size r \<and> volume_size_min (limits_in_force E w) \<le> vr_size r \<and>
    vr_size r \<le> volume_size_max (limits_in_force E w) \<and> volume_created acct r' hash (limits_in_force E w) t vs v (w_db w')"
proof -
  obtain limits ov w1 where 1: "EffectiveLimits E (db E) w = (Inr (limits, ov), w1)"
    and 2: "\<not> (vr_size r < volume_size_min limits \<or> vr_size r > volume_size_max limits)"
    and 3: "(let r = (if vr_tier r = '''' then r\<lparr>vr_tier := TierSSD\<rparr> else r) in
       bindE (of_res (diskTierStorage (e_site E) (vr_tier r))) (\<lambda>storage.
       if vr_client_token r \<noteq> '''' \<and> \<not> clientToken (vr_client_token r) then raise bad_request
       else seqE (of_res (validateTags (tags_of (vr_tags r))))
         (let hash = volumeRequestHash E r in
          bindE (volume_by_token (db E) acct (vr_client_token r)) (\<lambda>existing. case existing of
              Some v \<Rightarrow> idempotentVolume v hash
            | None \<Rightarrow>
                seqE (checkDiskPool E limits storage)
                (bindE (tx E (create_volume_tx E acct r hash limits audit)) (\<lambda>(v, created).
                   if \<not> created then idempotentVolume v hash else seqE Wake (ret (v, True)))))))) w1 = (Inr (v, True), w')"
    using assms unfolding CreateVolume_def by (auto elim!: bindE_InrE simp: raise_def split: if_splits prod.splits)
  obtain r' where r': "r' = (if vr_tier r = '''' then r\<lparr>vr_tier := TierSSD\<rparr> else r)" "vr_size r' = vr_size r"
    by simp
  obtain u x c u' where t: "tx E (create_volume_tx E acct r' (volumeRequestHash E r') limits audit) u = (Inr (x, c), u')"
    and rest: "(if \<not> c then idempotentVolume x (volumeRequestHash E r') else seqE Wake (ret (x, True))) u' = (Inr (v, True), w')"
    using 3 unfolding Let_def r'(1) [symmetric]
    by (auto elim!: bindE_InrE seqE_InrE simp: raise_def ret_def idempotentVolume_def split: if_splits option.splits)
  have made: "c \<and> x = v \<and> w_db w' = w_db u'"
  proof (cases c)
    case False
    then show ?thesis
      using rest by (auto simp: idempotentVolume_def raise_def ret_def split: if_splits)
  qed (use rest in \<open>simp add: wake_ret\<close>)
  have "limits = limits_in_force E w"
    by (rule EffectiveLimits_Inr [OF 1])
  moreover have "case (x, c) of (v, created) \<Rightarrow> created \<longrightarrow> volume_created acct r' (volumeRequestHash E r') limits
      (d_instances (w_db (interfere E u))) (d_volumes (w_db (interfere E u))) v (w_db u')"
    using tx_result [OF t _ in_tx_create_volume, of "d_instances (w_db (interfere E u))" "d_volumes (w_db (interfere E u))"]
    by simp
  ultimately show ?thesis
    using r'(2) 2 made by (intro exI [of _ r'] exI [of _ "volumeRequestHash E r'"] exI conjI) auto
qed

text \<open>
  C33. A volume that was created leaves its account within its quota of volumes and of their space,
  has a size the limits in force allow, and leaves no more volumes in the cloud than the holder VM
  has slots for, so that every volume can be kept detached.
\<close>

theorem create_volume_within_limits:
  assumes "CreateVolume E acct r audit w = (Inr (v, True), w')" and "length (d_volumes (w_db w')) < 2 ^ 31"
  shows "let u = AccountUsage acct (d_instances (w_db w')) (d_volumes (w_db w')); l = limits_in_force E w
    in within (q_volumes (account_quota l)) (u_volumes u) \<and> within (q_volume_gib (account_quota l)) (u_volume_gib u) \<and>
       volume_size_min l \<le> v_size v \<and> v_size v \<le> volume_size_max l \<and>
       LiveVolumeCount (d_volumes (w_db w')) \<le> 256"
proof -
  let ?L = "limits_in_force E w"
  obtain r' hash t vs where size: "vr_size r' = vr_size r" "volume_size_min ?L \<le> vr_size r" "vr_size r \<le> volume_size_max ?L"
    and new: "volume_created acct r' hash ?L t vs v (w_db w')"
    using CreateVolume_result [OF assms(1)] by blast
  then obtain now k where ins: "InsertVolume now (new_volume k acct r' hash) vs = (Inr v, d_volumes (w_db w'))"
    and t: "d_instances (w_db w') = t"
    and fits: "\<not> volume_quota_problem (account_quota ?L) (AccountUsage acct t vs) 1 (vr_size r')" "LiveVolumeCount vs < 256"
    unfolding volume_created_def holderSlots_def by blast
  have row: "d_volumes (w_db w') = vs @ [v]" "vol_constraints (vs @ [v])" "v_account v = acct" "v_size v = vr_size r" "vol_live v"
    using ins size(1) by (auto simp: InsertVolume_def new_volume_def vol_constrained_def Let_def vol_live_def split: if_splits)
  let ?u = "AccountUsage acct t (vs @ [v])"
  have added: "u_volumes ?u = u_volumes (AccountUsage acct t vs) + 1"
      "u_volume_gib ?u = u_volume_gib (AccountUsage acct t vs) + vr_size r'"
    using row size(1) by (simp_all add: AccountUsage_def vol_held_def)
  have sizes: "\<forall>x \<in> set (vol_held acct (vs @ [v])). 0 \<le> v_size x \<and> v_size x < 2 ^ 31"
  proof
    fix x assume "x \<in> set (vol_held acct (vs @ [v]))"
    then have "x \<in> set (vs @ [v])"
      unfolding vol_held_def by (simp only: set_filter mem_Collect_eq)
    then have "vol_row_ok x"
      using row(2) unfolding vol_constraints_def list_all_iff by blast
    then show "0 \<le> v_size x \<and> v_size x < 2 ^ 31"
      by (simp add: vol_row_ok_def int4_def)
  qed
  have few: "length (vol_held acct (vs @ [v])) < 2 ^ 31"
    using assms(2) unfolding row(1) vol_held_def by (rule order.strict_trans1 [OF length_filter_le])
  have "in_i64 (u_volumes ?u)" "in_i64 (u_volume_gib ?u)"
    using few sum_in_i64 [OF sizes few] by (simp_all add: AccountUsage_def in_i64_def min_i64_def max_i64_def)
  then have "within (q_volumes (account_quota ?L)) (u_volumes ?u) \<and> within (q_volume_gib (account_quota ?L)) (u_volume_gib ?u)"
    using fits(1) unfolding volume_quota_problem_def within_def added(1) [symmetric] added(2) [symmetric] by auto
  moreover have "LiveVolumeCount (vs @ [v]) \<le> 256"
    using fits(2) by (simp add: LiveVolumeCount_def)
  ultimately show ?thesis
    using size row(1,4) t by (simp add: Let_def)
qed


definition small_volume :: volume_request where
  "small_volume = \<lparr>vr_size = 10, vr_tier = '''', vr_client_token = '''', vr_tags = None\<rparr>"

lemma small_volume_simps:
  "vr_size small_volume = 10" "vr_tier small_volume = ''''" "vr_client_token small_volume = ''''" "vr_tags small_volume = None"
  by (simp_all add: small_volume_def)

lemma roomy_pool: "checkDiskPool roomy_env example_limits storage w = (Inr (), w)"
  by (simp add: checkDiskPool_def bindE_def roomy_answers [simplified] example_limits_def wrap64_def Let_def ret_def)

theorem create_volume_within_limits_witness:
  "\<exists>v w'. CreateVolume roomy_env ''acct'' small_volume (\<lambda>_. Inr ()) (start_world () empty_ledger) = (Inr (v, True), w') \<and>
     LiveVolumeCount (d_volumes (w_db w')) \<le> 256"
proof -
  have "\<exists>v w'. CreateVolume roomy_env ''acct'' small_volume (\<lambda>_. Inr ()) (start_world () empty_ledger) = (Inr (v, True), w') \<and>
      length (d_volumes (w_db w')) = 1"
    by (simp add: CreateVolume_def create_volume_tx_def EffectiveLimits_def GetLimitOverrides_def empty_ledger_def
        debian_limits debian_storage [unfolded TierSSD_def [symmetric]] small_volume_simps roomy_pool of_res_def validateTags_def tags_of_def
        volume_by_token_def checkVolumeQuota_def volume_quota_problem_def AccountUsage_def vol_held_def LiveVolumeCount_def
        holderSlots_def newVolumeID_def random_hex_def InsertVolume_def new_volume_def vol_constrained_def vol_constraints_def
        vol_tokens_def used_devices_def live_volids_def no_location_def vol_live_def vol_row_ok_def int4_def LockCapacity_def tx_def
        with_no_overrides cloud_eval cong: cloud_lazy)
      (simp add: example_limits_def wrap64_def)
  then obtain v w' where run: "CreateVolume roomy_env ''acct'' small_volume (\<lambda>_. Inr ()) (start_world () empty_ledger) =
      (Inr (v, True), w')" and "length (d_volumes (w_db w')) = 1"
    by blast
  with create_volume_within_limits [OF run] show ?thesis
    by (auto simp: Let_def)
qed


end
