(* ===== verification/Adoption.thy ===== *)
theory Adoption
  imports Admission Account_Ledger Reconciler Call_Contract
begin

text \<open>
  \<open>compute/adopt.go\<close>: an administrator registers a VM that already exists in the cloud's pool. The
  VM's configuration says what it is: its size, its MAC address and the disk it boots from.
\<close>

section \<open>Reading a configuration\<close>

text \<open>\<open>strconv.Atoi\<close>: a sign and digits, in the range of \<open>int\<close>; and the number it gives beside an error.\<close>

definition atoi_digits :: "string \<Rightarrow> int option" where
  "atoi_digits s =
     (case s of [] \<Rightarrow> None
      | c # r \<Rightarrow>
          let neg = c = CHR ''-''; body = (if neg \<or> c = CHR ''+'' then r else s) in
          if body = [] \<or> \<not> list_all is_digit body then None
          else Some (if neg then - int (dec_value body) else int (dec_value body)))"

definition atoi :: "string \<Rightarrow> int option" where
  "atoi s = (case atoi_digits s of Some n \<Rightarrow> if in_i64 n then Some n else None | None \<Rightarrow> None)"

definition atoi_value :: "string \<Rightarrow> int" where
  "atoi_value s = (case atoi_digits s of None \<Rightarrow> 0 | Some n \<Rightarrow> max min_i64 (min max_i64 n))"

text \<open>
  \<open>int(f)\<close> of a number of the configuration, from the text \<open>strconv.FormatFloat(f, 'f', -1, 64)\<close> the
  model keeps of it: truncated towards zero; beyond 64 bits the conversion is up to the machine.
\<close>

definition float_int :: "(int \<Rightarrow> int) \<Rightarrow> string \<Rightarrow> int" where
  "float_int overflow s =
     (let whole = fst (cut s CHR ''.'');
          n = (if has_prefix whole ''-'' then - int (dec_value (tl whole)) else int (dec_value whole)) in
      if in_i64 n then n else overflow n)"

definition configInt :: "(int \<Rightarrow> int) \<Rightarrow> vm_config \<Rightarrow> string \<Rightarrow> int option" where
  "configInt overflow c key =
     (case gomap_get c key of
        Some (Str s) \<Rightarrow> atoi s
      | Some (Num s) \<Rightarrow> Some (float_int overflow s)
      | _ \<Rightarrow> None)"

definition configIntOr :: "(int \<Rightarrow> int) \<Rightarrow> vm_config \<Rightarrow> string \<Rightarrow> int \<Rightarrow> int" where
  "configIntOr overflow c key fallback = (case configInt overflow c key of Some n \<Rightarrow> n | None \<Rightarrow> fallback)"

definition macFromNet0 :: "vm_config \<Rightarrow> string" where
  "macFromNet0 c =
     (case cut (configString c ''net0'') CHR ''='' of (_, rest, hit) \<Rightarrow>
        if \<not> hit then '''' else trim_space (fst (cut rest CHR '','')))"

definition storageOfVolid :: "string \<Rightarrow> string" where
  "storageOfVolid volid = fst (cut volid CHR '':'')"

definition diskIndex :: "string \<Rightarrow> int" where
  "diskIndex key = atoi_value (dropWhile is_lower key)"

definition diskOrder :: "string \<Rightarrow> int" where
  "diskOrder key =
     (case find (\<lambda>(i, p). has_prefix key p) (enumerate 0 disk_prefixes) of
        Some (i, p) \<Rightarrow> wrap64 (int i * 100 + diskIndex key)
      | None \<Rightarrow> 2 ^ 20)"

text \<open>
  The keys in the order of \<open>slices.SortFunc\<close>; a configuration has no two keys of the same order, and
  Proxmox numbers disks from 0 to 255.
\<close>

definition firstDiskVolid :: "vm_config \<Rightarrow> string" where
  "firstDiskVolid c =
     (let keys = sort_key diskOrder (filter (\<lambda>key. diskKey key \<and> plugged key) (map fst c)) in
      case find (\<lambda>key. volidAt c key \<noteq> '''') keys of Some key \<Rightarrow> volidAt c key | None \<Rightarrow> '''')"

section \<open>Adopting\<close>

record adopt_request =
  ar_vmid :: int
  ar_account :: string
  ar_name :: string
  ar_address :: string
  ar_root_disk :: int
  ar_tags :: "(string, string) gomap option"
  ar_groups :: "string list"

definition reserved_vmid :: "site \<Rightarrow> int \<Rightarrow> bool" where
  "reserved_vmid s v \<longleftrightarrow> v = volume_holder_vmid s \<or> v \<in> set (probe_vmids s)"

definition adopt_refused :: "site \<Rightarrow> adopt_request \<Rightarrow> bool" where
  "adopt_refused s r \<longleftrightarrow> ar_vmid r \<le> 0 \<or> reserved_vmid s (ar_vmid r) \<or> ar_account r = ''''"

definition adopt_address_ok :: "string \<Rightarrow> bool" where
  "adopt_address_ok s \<longleftrightarrow> s = '''' \<or> parse_prefix s \<noteq> None \<or> parse_addr s \<noteq> None"

text \<open>A live instance on the VM; \<open>q\<close> is the pool or the transaction.\<close>

definition vmid_unregistered ::
    "((int \<Rightarrow> instance_row stmt) \<Rightarrow> ('h, instance_row) cloud) \<Rightarrow> int \<Rightarrow> ('h, unit) cloud" where
  "vmid_unregistered q v =
     attempt (q (\<lambda>_. reading (\<lambda>d. LiveInstanceByVMID v (d_instances d)))) (\<lambda>r. case r of
         Inr _ \<Rightarrow> raise (Refuse 409 ''InvalidParameterValue'')
       | Inl e \<Rightarrow> if err_is e NotFound then ret () else raise e)"

definition adopted_disk :: "'h env \<Rightarrow> adopt_request \<Rightarrow> vm_config \<Rightarrow> ('h, int) cloud" where
  "adopted_disk E r c =
     (if ar_root_disk r > 0 then ret (ar_root_disk r)
      else if firstDiskVolid c = '''' then raise bad_request
      else bindE (or_unavailable (diskSizeGiB E (firstDiskVolid c))) (\<lambda>size. case size of
          None \<Rightarrow> raise bad_request | Some n \<Rightarrow> ret n))"

definition adopted_name :: "adopt_request \<Rightarrow> vm_config \<Rightarrow> string" where
  "adopted_name r c =
     (let name = (if ar_name r = '''' then configString c ''name'' else ar_name r) in
      if name = '''' then gomap_str (tags_of (ar_tags r)) ''Name'' else name)"

definition adopted_tags :: "adopt_request \<Rightarrow> string \<Rightarrow> (string, string) gomap" where
  "adopted_tags r name =
     (let tags = tags_of (ar_tags r) in
      if name \<noteq> '''' \<and> gomap_get tags ''Name'' = None then gomap_set ''Name'' name tags else tags)"

definition adopted_spec :: "(int \<Rightarrow> int) \<Rightarrow> vm_config \<Rightarrow> spec" where
  "adopted_spec overflow c =
     (let balloon = configIntOr overflow c ''balloon'' 0 in
      \<lparr>sp_cpu_cores = configIntOr overflow c ''cores'' 1,
       sp_memory_mib = configIntOr overflow c ''memory'' minMemoryMiB,
       sp_memory_min_mib = (if balloon > 0 then balloon else 0), sp_ballooning = (balloon > 0), sp_type_name = ''''\<rparr>)"

definition adopted_row ::
    "string \<Rightarrow> string \<Rightarrow> adopt_request \<Rightarrow> string \<Rightarrow> spec \<Rightarrow> int \<Rightarrow> string \<Rightarrow> inst_state \<Rightarrow> string \<Rightarrow> instance_row" where
  "adopted_row k acct r name sp disk tier st mac =
     \<lparr>i_id = k, i_account = acct, i_client_token = '''', i_request_hash = [], i_name = name, i_image = '''',
      i_guest_os = '''', i_install_iso = '''', i_driver_iso = '''', i_type = '''', i_cpu = sp_cpu_cores sp,
      i_memory = sp_memory_mib sp, i_memory_min = sp_memory_min_mib sp, i_ballooning = sp_ballooning sp,
      i_root_disk = disk, i_disk_tier = tier, i_subnet = '''', i_user_data = '''', i_key_name = '''',
      i_key_public = '''', i_tags = adopted_tags r name, i_state = st, i_pending = None, i_state_reason = '''',
      i_last_error = '''', i_attempts = 0, i_next_attempt = 0, i_lease_until = None, i_vmid = Some (ar_vmid r),
      i_vm_created = False, i_mac = mac, i_ip = ar_address r, i_netbox_ip = None, i_seed_volume = '''',
      i_launch_time = 0, i_terminated_at = None, i_updated_at = 0, i_adopted = False, i_fw_generation = 0,
      i_fw_applied = 0, i_fw_last_error = '''', i_fw_next_attempt = 0, i_fw_lease_until = None\<rparr>"

definition adopt_tx ::
    "'h env \<Rightarrow> string \<Rightarrow> adopt_request \<Rightarrow> string \<Rightarrow> spec \<Rightarrow> int \<Rightarrow> string \<Rightarrow> inst_state \<Rightarrow> string \<Rightarrow> limits \<Rightarrow>
     (instance_row \<Rightarrow> unit res) \<Rightarrow> ('h, instance_row) cloud" where
  "adopt_tx E acct r name sp disk tier st mac limits audit =
     seqE (sql E (\<lambda>_. LockCapacity))
     (seqE (vmid_unregistered (sql E) (ar_vmid r))
     (seqE (checkQuota E acct (sp\<lparr>sp_memory_min_mib := 0, sp_ballooning := False\<rparr>) disk limits None)
     (bindE (resolveGroups E acct (ar_groups r)) (\<lambda>groups.
     bindE (newInstanceID E) (\<lambda>k.
     bindE (sql E (\<lambda>now. on_instances (InsertAdoptedInstance now (adopted_row k acct r name sp disk tier st mac)))) (\<lambda>i.
     seqE (sql E (\<lambda>now. SetInstanceGroups now (i_id i) groups))
     (bindE (sql E (\<lambda>_. reading (\<lambda>d. GetInstance (i_id i) (d_instances d)))) (\<lambda>i.
       seqE (of_res (audit i)) (ret i)))))))))"

definition Adopt :: "'h env \<Rightarrow> adopt_request \<Rightarrow> (instance_row \<Rightarrow> unit res) \<Rightarrow> ('h, instance_row) cloud" where
  "Adopt E r audit =
     (if adopt_refused (e_site E) r then raise bad_request
      else seqE (of_res (validateTags (tags_of (ar_tags r))))
        (if \<not> adopt_address_ok (ar_address r) then raise bad_request
         else bindE (catchE (db E (\<lambda>_. reading (GetAccount (ar_account r))))
                (\<lambda>e. raise (if err_is e NotFound then bad_request else e))) (\<lambda>owner.
           bindE (or_unavailable (list_vms E)) (\<lambda>vms.
           if findVM vms (ar_vmid r) = None then raise instance_not_found
           else seqE (vmid_unregistered (db E) (ar_vmid r))
             (bindE (or_unavailable (vm_config E (ar_vmid r))) (\<lambda>c.
              bindE (or_unavailable (external (VMStatus (e_pve E) (ar_vmid r)))) (\<lambda>status.
              case observed_state status of None \<Rightarrow> raise incorrect_state | Some st \<Rightarrow>
              if macFromNet0 c = '''' then raise bad_request
              else bindE (adopted_disk E r c) (\<lambda>disk.
                bindE (EffectiveLimits E (db E)) (\<lambda>(limits, _).
                bindE (tx E (adopt_tx E (ac_id owner) r (adopted_name r c) (adopted_spec (e_overflow E) c) disk
                    (tier_of_storage (s_storage (e_site E)) (storageOfVolid (firstDiskVolid c))) st (macFromNet0 c)
                    limits audit)) (\<lambda>i.
                  seqE Wake (ret i)))))))))))"

section \<open>What the ledger contract says of adoption\<close>

lemma keeps_vmid_unregistered [keeps_intros]:
  "others_keep P E \<Longrightarrow> keeps (db_inv P) (vmid_unregistered (db E) v)"
  "keeps (db_inv P) (vmid_unregistered (sql E) v)"
  unfolding vmid_unregistered_def by (intro keeps_intros keeps_db keeps_sql; assumption)+

lemma keeps_adopted_disk [keeps_intros]: "keeps (db_inv P) (adopted_disk E r c)"
  unfolding adopted_disk_def diskSizeGiB_def Let_def by (intro keeps_intros)

lemma keeps_Adopt_body:
  assumes "others_keep P E"
    and "\<And>acct name sp disk tier st mac limits. settled_state st \<Longrightarrow>
      keeps (db_inv P) (tx E (adopt_tx E acct r name sp disk tier st mac limits audit))"
  shows "keeps (db_inv P) (Adopt E r audit)"
  unfolding Adopt_def by (intro keeps_intros keeps_db assms(1)) (auto intro: assms(2) observed_settled)

context ledger_contract
begin

lemma keeps_Adopt: "others_keep P E \<Longrightarrow> keeps (db_inv P) (Adopt E r audit)"
proof (rule keeps_Adopt_body, assumption, rule keeps_tx, assumption)
  fix acct name sp disk tier st mac limits
  assume st: "settled_state st"
  have row: "stmt_keeps P (\<lambda>now. on_instances (InsertAdoptedInstance now (adopted_row k acct r name sp disk tier st mac)))" for k
    using st by (intro keeps_instances insert_adopted) (auto simp: adopted_row_def settled_state_def)
  have lock: "stmt_keeps P (\<lambda>_. LockCapacity)"
    unfolding LockCapacity_def by (intro keeps_intros)
  have groups: "keeps (db_inv P) (resolveGroups E acct ids)" for ids
    by (rule keeps_resolveGroups) (auto simp: only_groups_def)
  show "keeps (db_inv P) (adopt_tx E acct r name sp disk tier st mac limits audit)"
    unfolding adopt_tx_def by (intro keeps_intros keeps_sql row lock groups keeps_members)
qed

end

section \<open>What is adopted\<close>

text \<open>A row inserted and put into its groups in one transaction, and nothing else.\<close>

lemma inserted_row:
  assumes t': "t' = update_where (by_id k) (touch now) (t @ [row])" and k: "i_id row = k"
    and ok: "inst_constraints (t @ [row])" and i: "GetInstance k t' = Inr i"
  shows "t' = t @ [i] \<and> i = touch now row"
proof -
  have fresh: "k \<notin> i_id ` set t"
    using ok k by (auto simp: inst_constraints_def)
  then have "update_where (by_id k) (touch now) t = t"
    by (intro update_where_id) (auto simp: by_id_def)
  then have "t' = t @ [touch now row]"
    using t' k by (simp add: update_where_def by_id_def)
  moreover have "i = touch now row"
    using i fresh unfolding calculation by (auto simp: GetInstance_def by_id_def dest!: select_one_Inr)
  ultimately show ?thesis
    by simp
qed

definition adopted_as ::
    "inst_table \<Rightarrow> vol_table \<Rightarrow> string \<Rightarrow> int \<Rightarrow> spec \<Rightarrow> int \<Rightarrow> inst_state \<Rightarrow> limits \<Rightarrow> instance_row \<Rightarrow> ledger \<Rightarrow> bool" where
  "adopted_as t v acct vmid sp disk st limits i d \<longleftrightarrow>
     (\<exists>row now. d_instances d = t @ [i] \<and> d_volumes d = v \<and> i = touch now row \<and> inst_constraints (t @ [row]) \<and>
        i_account row = acct \<and> i_vmid row = Some vmid \<and> i_adopted row \<and> i_state row = st \<and> i_pending row = None \<and>
        i_vm_created row \<and> i_cpu row = sp_cpu_cores sp \<and> i_memory row = sp_memory_mib sp \<and> i_root_disk row = disk \<and>
        quota_clear acct sp disk limits t v \<and> \<not> (\<exists>j \<in> set t. i_vmid j = Some vmid \<and> live j))"

lemma in_tx_unregistered:
  fixes E :: "'h env"
  assumes "\<And>d. P d \<Longrightarrow> d_instances d = t"
  shows "in_tx P (vmid_unregistered (sql E) v) (\<lambda>_ d. P d \<and> \<not> (\<exists>j \<in> set t. i_vmid j = Some v \<and> live j))"
  unfolding in_tx_def triple_def
proof (intro allI impI)
  fix w :: "'h world" assume w: "db_inv P w"
  then have t: "d_instances (w_db w) = t"
    using assms by (simp add: db_inv_def)
  have none: "LiveInstanceByVMID v t = Inl e \<Longrightarrow> \<not> (\<exists>j \<in> set t. i_vmid j = Some v \<and> live j)" for e
    by (auto simp: LiveInstanceByVMID_def select_one_Inl)
  show "case vmid_unregistered (sql E) v w of (Inl e, w') \<Rightarrow> True
      | (Inr x, w') \<Rightarrow> db_inv (\<lambda>d. P d \<and> \<not> (\<exists>j \<in> set t. i_vmid j = Some v \<and> live j)) w'"
    using w none by (auto simp: vmid_unregistered_def attempt_def sql_def reading_def Let_def t db_inv_def ret_def raise_def
        db_failed_def split: sum.split)
qed

lemma in_tx_adopt:
  fixes E :: "'h env"
  shows "in_tx (\<lambda>d. d_instances d = t \<and> d_volumes d = v) (adopt_tx E acct r name sp disk tier st mac limits audit)
    (adopted_as t v acct (ar_vmid r) (sp\<lparr>sp_memory_min_mib := 0, sp_ballooning := False\<rparr>) disk st limits)"
    (is "in_tx ?F _ (adopted_as t v acct ?vmid ?sp disk st limits)")
proof -
  let ?free = "\<not> (\<exists>j \<in> set t. i_vmid j = Some ?vmid \<and> live j)"
  let ?A = "\<lambda>d. (?F d \<and> ?free) \<and> quota_clear acct ?sp disk limits t v"
  let ?ins = "\<lambda>k row u. \<exists>now. InsertAdoptedInstance now (adopted_row k acct r name sp disk tier st mac) t = (Inr row, u)"
  let ?B = "\<lambda>k row d. ?A (d\<lparr>d_instances := t\<rparr>) \<and> ?ins k row (d_instances d)"
  let ?C = "\<lambda>k row d. ?A (d\<lparr>d_instances := t\<rparr>) \<and>
      (\<exists>u now. ?ins k row u \<and> d_instances d = update_where (by_id k) (touch now) u)"
  have row: "?ins k row u \<Longrightarrow> u = t @ [row] \<and> inst_constraints (t @ [row]) \<and> i_id row = k \<and> i_account row = acct \<and>
      i_vmid row = Some ?vmid \<and> i_adopted row \<and> i_state row = st \<and> i_pending row = None \<and> i_vm_created row \<and>
      i_cpu row = sp_cpu_cores sp \<and> i_memory row = sp_memory_mib sp \<and> i_root_disk row = disk" for k row u
    by (auto simp: InsertAdoptedInstance_def adopted_row_def constrained_def Let_def split: if_splits)
  have free: "in_tx ?F (vmid_unregistered (sql E) ?vmid) (\<lambda>_ d. ?F d \<and> ?free)"
    by (rule in_tx_unregistered) simp
  have quota: "in_tx (\<lambda>d. ?F d \<and> ?free) (checkQuota E acct ?sp disk limits None) (\<lambda>_. ?A)"
    by (rule in_tx_checkQuota) simp
  have groups: "in_tx ?A (resolveGroups E acct ids) (\<lambda>_. ?A)" for ids
    by (rule in_tx_keeps, rule keeps_resolveGroups) (simp add: only_groups_def)
  have kid: "in_tx P (newInstanceID E) (\<lambda>_. P)" for P
    unfolding newInstanceID_def by (intro in_tx_keeps keeps_intros)
  have insert: "in_tx ?A (sql E (\<lambda>now. on_instances (InsertAdoptedInstance now (adopted_row k acct r name sp disk tier st mac))))
      (?B k)" for k
    by (rule in_tx_sql) (auto simp: on_instances_def split: prod.splits)
  have member: "in_tx (?B k i) (sql E (\<lambda>now. SetInstanceGroups now (i_id i) ids)) (\<lambda>_. ?C k i)" for k i ids
  proof (rule in_tx_sql)
    fix now d d' and x :: unit
    assume B: "?B k i d" and set: "SetInstanceGroups now (i_id i) ids d = (Inr x, d')"
    then have "i_id i = k" and "d_instances d' = update_where (by_id k) (touch now) (d_instances d)"
        "d_volumes d' = d_volumes d"
      using row [of k i "d_instances d"]
      by (auto simp: SetInstanceGroups_def touch_def [abs_def] dest!: grp_constrained_Inr)
    with B show "?C k i d'"
      by auto
  qed
  have get: "in_tx (?C k row) (sql E (\<lambda>_. reading (\<lambda>d. GetInstance (i_id row) (d_instances d))))
      (adopted_as t v acct ?vmid ?sp disk st limits)" for k row
  proof (rule in_tx_reading)
    fix d i assume C: "?C k row d" and i: "GetInstance (i_id row) (d_instances d) = Inr i"
    then obtain u now where u: "?ins k row u" and t': "d_instances d = update_where (by_id k) (touch now) u"
      by blast
    note r = row [OF u]
    have "d_instances d = t @ [i] \<and> i = touch now row"
      using inserted_row [of "d_instances d" k now t row i] r t' i by simp
    then show "adopted_as t v acct ?vmid ?sp disk st limits i d"
      using r C unfolding adopted_as_def by auto
  qed
  show ?thesis
    unfolding adopt_tx_def
    by (rule in_tx_seqE [OF in_tx_lock_capacity], rule in_tx_seqE [OF free], rule in_tx_seqE [OF quota],
        rule in_tx_bindE [OF groups], rule in_tx_bindE [OF kid], rule in_tx_bindE [OF insert], rule in_tx_seqE [OF member],
        rule in_tx_bindE [OF get], rule in_tx_seqE [OF in_tx_audit], rule in_tx_ret)
qed


definition saw_one :: "int \<Rightarrow> event list \<Rightarrow> event list \<Rightarrow> bool" where
  "saw_one v l l' \<longleftrightarrow> (\<exists>c. l' = SawConfig v c # l)"

lemma tx_log:
  fixes E :: "'h env"
  assumes "\<And>L. keeps (log_inv L) m" and "tx E m w = (r, w')"
  shows "w_log w' = w_log w"
  using keeps_result [OF keeps_log_tx [OF assms(1) [of "\<lambda>l. l = w_log w"]] _ assms(2)] by (simp add: log_inv_def)

lemma adopt_log:
  fixes E :: "'h env"
  assumes "tx E (adopt_tx E acct r name sp disk tier st mac limits audit) w = (Inr i, w')"
  shows "w_log w' = w_log w"
  using _ assms
proof (rule tx_log)
  show "keeps (log_inv L) (adopt_tx E acct r name sp disk tier st mac limits audit)" for L
    unfolding adopt_tx_def vmid_unregistered_def checkQuota_def resolveGroups_def EnsureDefaultSecurityGroup'_def
      newInstanceID_def newGroupID_def lock_groups_of_def Let_def allTraffic_def newRuleID_def
    by (intro log_intros keeps_intros)
qed

lemma vmid_unregistered_silent: "vmid_unregistered (db E) v w = (Inr x, w') \<Longrightarrow> w_log w' = w_log w"
  by (auto simp: vmid_unregistered_def attempt_def db_def sql_def interfere_def reading_def Let_def ret_def raise_def
      split: prod.splits sum.splits if_splits)

lemma raise_Inr: "raise e w \<noteq> (Inr x, w')"
  by (simp add: raise_def)

lemma catchE_raise_Inr: "catchE m (\<lambda>e. raise (h e)) w = (Inr x, w') \<Longrightarrow> m w = (Inr x, w')"
  by (auto simp: catchE_def attempt_def raise_def ret_def split: prod.splits sum.splits)

lemma or_unavailable_Inr: "or_unavailable m w = (Inr x, w') \<Longrightarrow> m w = (Inr x, w')"
  unfolding or_unavailable_def by (rule catchE_raise_Inr)

lemma external_Inr: "external f w = (Inr x, w') \<Longrightarrow> fst (f (w_hv w)) = Inr x \<and> w_log w' = w_log w"
  by (auto simp: external_def split: prod.splits)

lemma db_reading_Inr: "db E (\<lambda>_. reading f) w = (Inr x, w') \<Longrightarrow> (\<exists>d. f d = Inr x) \<and> w_log w' = w_log w"
  by (auto simp: db_def sql_def interfere_def reading_def Let_def split: if_splits)

lemma vm_config_Inr: "vm_config E v w = (Inr c, w') \<Longrightarrow> w_log w' = SawConfig v c # w_log w"
  by (auto simp: vm_config_def external_def bindE_def seqE_def log_event_def put_world_def ret_def split: prod.splits sum.splits)

lemma adopted_disk_silent: "adopted_disk E r c w = (Inr n, w') \<Longrightarrow> w_log w' = w_log w"
  by (auto simp: adopted_disk_def diskSizeGiB_def Let_def ret_def raise_def split: if_splits option.splits
      dest!: or_unavailable_Inr external_Inr elim!: bindE_InrE)

lemma limits_silent: "EffectiveLimits E (db E) w = (Inr x, w') \<Longrightarrow> w_log w' = w_log w"
  by (auto simp: EffectiveLimits_def ret_def dest!: db_reading_Inr elim!: bindE_InrE)

text \<open>The steps of an adoption that succeeds, up to its transaction.\<close>

lemma Adopt_steps:
  fixes E :: "'h env"
  assumes run: "Adopt E r audit w = (Inr i, w')" and others: "\<And>n d. d_overrides (e_others E n d) = d_overrides d"
  obtains owner st sp disk name tier mac v v' where
    "\<not> adopt_refused (e_site E) r" "GetAccount (ar_account r) (e_others E (w_tick w) (w_db w)) = Inr owner"
    "\<exists>h vms. fst (ListVMs (e_pve E) h) = Inr vms \<and> findVM vms (ar_vmid r) \<noteq> None" "settled_state st"
    "saw_one (ar_vmid r) (w_log w) (w_log v)" "w_db w' = w_db v'" "w_log w' = w_log v'"
    "tx E (adopt_tx E (ac_id owner) r name sp disk tier st mac (limits_in_force E w) audit) v = (Inr i, v')"
proof -
  have ok: "\<not> adopt_refused (e_site E) r"
    using run by (auto simp: Adopt_def raise_def)
  with run obtain owner vms c status st disk limits ov v1 v2 v3 v4 v5 v6 v7 v8 where
    runs: "db E (\<lambda>_. reading (GetAccount (ar_account r))) w = (Inr owner, v1)" "list_vms E v1 = (Inr vms, v2)"
      "vmid_unregistered (db E) (ar_vmid r) v2 = (Inr (), v3)" "vm_config E (ar_vmid r) v3 = (Inr c, v4)"
      "external (VMStatus (e_pve E) (ar_vmid r)) v4 = (Inr status, v5)" "adopted_disk E r c v5 = (Inr disk, v6)"
      "EffectiveLimits E (db E) v6 = (Inr (limits, ov), v7)" "w_db w' = w_db v8" "w_log w' = w_log v8"
    and seen: "findVM vms (ar_vmid r) \<noteq> None" "observed_state status = Some st"
    and t: "tx E (adopt_tx E (ac_id owner) r (adopted_name r c) (adopted_spec (e_overflow E) c) disk
        (tier_of_storage (s_storage (e_site E)) (storageOfVolid (firstDiskVolid c))) st (macFromNet0 c) limits audit) v7 =
        (Inr i, v8)"
    unfolding Adopt_def
    by (auto simp: Wake_def put_world_def ret_def of_res_def raise_Inr elim!: bindE_InrE seqE_InrE
        split: if_splits option.splits sum.splits dest!: catchE_raise_Inr or_unavailable_Inr)
  let ?P = "db_inv (\<lambda>d. d_overrides d = d_overrides (w_db w)) :: 'h world \<Rightarrow> bool"
  have keep: "others_keep (\<lambda>d. d_overrides d = d_overrides (w_db w)) E"
    using others by (simp add: others_keep_def)
  have "?P w"
    by (simp add: db_inv_def)
  note keeps_result [OF keeps_db [OF keep stmt_keeps_reading] this runs(1)]
  note keeps_result [OF keeps_list_vms this runs(2)]
  note keeps_result [OF keeps_vmid_unregistered(1) [OF keep] this runs(3)]
  note keeps_result [OF keeps_vm_config this runs(4)]
  note keeps_result [OF keeps_external this runs(5)]
  note keeps_result [OF keeps_adopted_disk this runs(6)]
  then have limits: "limits = limits_in_force E w"
    using EffectiveLimits_Inr [OF runs(7)] by (simp add: limits_in_force_def db_inv_def interfere_def others)
  have "saw_one (ar_vmid r) (w_log w) (w_log v7)"
    using runs vm_config_Inr [OF runs(4)]
    by (auto simp: saw_one_def list_vms_def dest!: db_reading_Inr external_Inr vmid_unregistered_silent adopted_disk_silent limits_silent)
  moreover have "GetAccount (ar_account r) (e_others E (w_tick w) (w_db w)) = Inr owner"
    using runs(1) by (auto simp: db_def sql_def interfere_def reading_def Let_def split: if_splits)
  moreover have "\<exists>h vms. fst (ListVMs (e_pve E) h) = Inr vms \<and> findVM vms (ar_vmid r) \<noteq> None"
    using runs(2) seen(1) by (auto simp: list_vms_def dest!: external_Inr)
  ultimately show ?thesis
    using that ok observed_settled [OF seen(2)] t runs(8,9) unfolding limits by blast
qed


definition found_vm :: vm where
  "found_vm = \<lparr>vm_id = 5002, vm_name = ''web'', vm_status = ''running'', vm_pool = ''cloud'', vm_node = ''pve1''\<rparr>"

definition found_pve :: "unit hypervisor" where
  "found_pve = offline_pve\<lparr>ListVMs := (\<lambda>h. (Inr [found_vm], h)),
     VMConfig := (\<lambda>_ h. (Inr [(''net0'', Str ''virtio=A,bridge=vmbr0''), (''cores'', Num ''2''), (''memory'', Str ''2048'')], h)),
     VMStatus := (\<lambda>_ h. (Inr ''running'', h))\<rparr>"

definition adopt_example :: adopt_request where
  "adopt_example = \<lparr>ar_vmid = 5002, ar_account = ''000000000001'', ar_name = ''web'', ar_address = '''', ar_root_disk = 16,
     ar_tags = None, ar_groups = [''sg-1'']\<rparr>"

definition adopt_ledger :: ledger where
  "adopt_ledger = empty_ledger\<lparr>d_groups := [web_group\<lparr>g_account := ''000000000001''\<rparr>],
     d_tenants := no_tenants\<lparr>t_accounts := [\<lparr>ac_id = ''000000000001'', ac_kind = KindUser, ac_subject = Some ''s'',
       ac_username = ''u'', ac_email = '''', ac_is_admin = False, ac_created_at = 0, ac_last_login_at = None\<rparr>]\<rparr>\<rparr>"


lemma found_config:
  "configIntOr f [(''net0'', Str ''virtio=A,bridge=vmbr0''), (''cores'', Num ''2''), (''memory'', Str ''2048'')] ''cores'' 1 = 2"
  "configIntOr f [(''net0'', Str ''virtio=A,bridge=vmbr0''), (''cores'', Num ''2''), (''memory'', Str ''2048'')] ''memory'' minMemoryMiB = 2048"
  "configIntOr f [(''net0'', Str ''virtio=A,bridge=vmbr0''), (''cores'', Num ''2''), (''memory'', Str ''2048'')] ''balloon'' 0 = 0"
  "macFromNet0 [(''net0'', Str ''virtio=A,bridge=vmbr0''), (''cores'', Num ''2''), (''memory'', Str ''2048'')] = ''A''"
  "firstDiskVolid [(''net0'', Str ''virtio=A,bridge=vmbr0''), (''cores'', Num ''2''), (''memory'', Str ''2048'')] = ''''"
  by (code_simp)+


lemma found_tx:
  "\<exists>i w'. tx (quiet_env found_pve offline_ipam) (adopt_tx (quiet_env found_pve offline_ipam) ''000000000001'' adopt_example ''web''
       \<lparr>sp_cpu_cores = 2, sp_memory_mib = 2048, sp_memory_min_mib = 0, sp_ballooning = False, sp_type_name = ''''\<rparr> 16 ''ssd''
       StateRunning ''A'' example_limits (\<lambda>_. Inr ()))
       \<lparr>w_db = adopt_ledger, w_hv = (), w_tick = 6, w_log = l, w_wake = False, w_ledger_wake = False,
        w_range_ids = [], w_onboot = []\<rparr> = (Inr i, w') \<and>
     length (d_instances (w_db w')) = 1"
  by (simp add: adopt_tx_def LockCapacity_def adopt_ledger_def empty_ledger_def vmid_unregistered_def LiveInstanceByVMID_def
      select_one_def checkQuota_def quota_problem_def quota_usage_def AccountUsage_def
      instance_usage_def held_def LiveMemoryMiB_def example_limits_def wrap64_def adopt_example_def
      resolveGroups_def lock_groups_of_def GetSecurityGroup_def web_group_def new_group_def maxGroupsPerInstance_def
      tx_def live_vmids_def newInstanceID_def random_hex_def InsertAdoptedInstance_def adopted_row_def constrained_def inst_constraints_def
      SetInstanceGroups_def grp_constrained_def group_constraints_def update_where_def by_id_def GetInstance_def of_res_def
      row_size_ok_def db_size_ok_def int4_def client_tokens_def bump_def map_filter_simps live_def
      cloud_eval cong: cloud_lazy)

lemma found_adopted:
  "\<exists>i w'. Adopt (quiet_env found_pve offline_ipam) adopt_example (\<lambda>_. Inr ()) (start_world () adopt_ledger) = (Inr i, w') \<and>
     length (d_instances (w_db w')) = 1"
proof -
  obtain i w' where "tx (quiet_env found_pve offline_ipam) (adopt_tx (quiet_env found_pve offline_ipam) ''000000000001'' adopt_example ''web''
       \<lparr>sp_cpu_cores = 2, sp_memory_mib = 2048, sp_memory_min_mib = 0, sp_ballooning = False, sp_type_name = ''''\<rparr> 16 ''ssd''
       StateRunning ''A'' example_limits (\<lambda>_. Inr ()))
       \<lparr>w_db = adopt_ledger, w_hv = (), w_tick = 6, w_log =
         [SawConfig 5002 [(''net0'', Str ''virtio=A,bridge=vmbr0''), (''cores'', Num ''2''), (''memory'', Str ''2048'')]],
        w_wake = False, w_ledger_wake = False, w_range_ids = [], w_onboot = []\<rparr> = (Inr i, w')"
     "length (d_instances (w_db w')) = 1"
    using found_tx by blast
  moreover have "adopt_refused example_site adopt_example = False"
    by (simp add: adopt_refused_def adopt_example_def example_site_def reserved_vmid_def)
  moreover have "tier_of_storage (s_storage example_site) (storageOfVolid '''') = ''ssd''"
    by code_simp
  moreover have "GetAccount ''000000000001'' adopt_ledger = Inr (hd (t_accounts (d_tenants adopt_ledger)))"
    by (simp add: GetAccount_def select_one_def adopt_ledger_def empty_ledger_def no_tenants_def)
  moreover have "ac_id (hd (t_accounts (d_tenants adopt_ledger))) = ''000000000001''"
    by (simp add: adopt_ledger_def)
  moreover have "LiveInstanceByVMID 5002 (d_instances adopt_ledger) = Inl NotFound" "d_overrides adopt_ledger = no_overrides"
    by (simp_all add: LiveInstanceByVMID_def select_one_def adopt_ledger_def empty_ledger_def)
  moreover have "adopted_name adopt_example c = ''web''" for c
    by (simp add: adopted_name_def adopt_example_def Let_def)
  ultimately show ?thesis
    using debian_limits with_no_overrides
    by (simp add: Adopt_def catchE_def or_unavailable_def list_vms_def found_pve_def findVM_def found_vm_def
        vmid_unregistered_def adopted_disk_def EffectiveLimits_def GetLimitOverrides_def validateTags_def tags_of_def
        adopt_address_ok_def observed_state_def adopted_spec_def found_config adopt_example_def of_res_def
        eval_nat_numeral cloud_eval cong: cloud_lazy)
qed


end
