(* ===== verification/Host_Capacity.thy ===== *)
theory Host_Capacity
  imports Admission Account_Ledger
begin

text \<open>
  \<open>compute/capacity.go\<close>: what the node has, what the cloud has handed out of it, and an
  administrator's limits. The processor's model, the versions and the percentages (floating-point
  quotients of the figures kept here) are passed through to the reader and are not kept.
\<close>

record store_capacity =
  sto_name :: string
  sto_purpose :: string
  sto_tier :: string
  sto_total_mib :: int
  sto_used_mib :: int
  sto_avail_mib :: int
  sto_max_used_percent :: int
  sto_min_free_mib :: int

record capacity =
  cp_node :: string
  cp_threads :: int
  cp_memory_total_mib :: int
  cp_memory_used_mib :: int
  cp_memory_available_mib :: int
  cp_storage :: "store_capacity list"
  cp_cloud :: usage
  cp_account :: usage
  cp_limits :: limits
  cp_accounts :: "(string \<times> string \<times> usage) list"

definition PurposeInstanceDisks :: string where "PurposeInstanceDisks = ''instance_disks''"
definition PurposeImages :: string where "PurposeImages = ''images_and_seed_isos''"

text \<open>\<open>x >> 20\<close> of an \<open>int64\<close>.\<close>

definition shr20 :: "int \<Rightarrow> int" where "shr20 x = x div 2 ^ 20"

definition stores_of :: "storage \<Rightarrow> limits \<Rightarrow> (string \<times> string \<times> string \<times> int \<times> int) list" where
  "stores_of st limits =
     [(vm_disks st, PurposeInstanceDisks, TierSSD, vm_disk_max_used_percent limits, 0),
      (vm_disks_hdd st, PurposeInstanceDisks, TierHDD, vm_disk_max_used_percent limits, 0),
      (images_store st, PurposeImages, '''', 0, image_store_min_free_mib limits)]"

text \<open>The loop over the stores: one that is not configured, or is the first one listed, is skipped.\<close>

fun read_stores ::
    "'h env \<Rightarrow> store_capacity list \<Rightarrow> (string \<times> string \<times> string \<times> int \<times> int) list \<Rightarrow> ('h, store_capacity list) cloud" where
  "read_stores E listed [] = ret listed"
| "read_stores E listed ((name, purpose, tier, percent, free) # rest) =
     (if name = '''' \<or> (listed \<noteq> [] \<and> sto_name (hd listed) = name) then read_stores E listed rest
      else bindE (or_unavailable (external (StorageStatus (e_pve E) name))) (\<lambda>st.
        read_stores E (listed @ [\<lparr>sto_name = name, sto_purpose = purpose, sto_tier = tier,
          sto_total_mib = shr20 (ss_total st), sto_used_mib = shr20 (ss_used st), sto_avail_mib = shr20 (ss_avail st),
          sto_max_used_percent = percent, sto_min_free_mib = free\<rparr>]) rest))"

definition no_usage :: usage where
  "no_usage = \<lparr>u_instances = 0, u_vcpus = 0, u_memory = 0, u_root_disk = 0, u_volumes = 0, u_volume_gib = 0\<rparr>"

definition account_names :: "tenants \<Rightarrow> (string \<times> string) list" where
  "account_names t = map (\<lambda>a. (ac_id a, ac_username a)) (t_accounts t)"

definition Capacity :: "'h env \<Rightarrow> string \<Rightarrow> bool \<Rightarrow> ('h, capacity) cloud" where
  "Capacity E acct accounts =
     bindE (EffectiveLimits E (db E)) (\<lambda>(limits, _).
     bindE (or_unavailable (external (NodeStatus (e_pve E)))) (\<lambda>status.
     bindE (read_stores E [] (stores_of (s_storage (e_site E)) limits)) (\<lambda>stores.
     bindE (db E (\<lambda>_. reading (\<lambda>d. Inr (CloudUsage (d_instances d) (d_volumes d))))) (\<lambda>cloud.
     bindE (if acct \<noteq> '''' then db E (\<lambda>_. reading (\<lambda>d. Inr (AccountUsage acct (d_instances d) (d_volumes d)))) else ret no_usage)
       (\<lambda>own.
     bindE (if accounts then db E (\<lambda>_. reading (\<lambda>d. Inr (UsageByAccount (account_names (d_tenants d)) (d_instances d) (d_volumes d))))
            else ret []) (\<lambda>each.
       ret \<lparr>cp_node = s_node (e_site E), cp_threads = ns_cpus status, cp_memory_total_mib = shr20 (ns_mem_total status),
            cp_memory_used_mib = shr20 (wrap64 (ns_mem_total status - ns_mem_free status)),
            cp_memory_available_mib = shr20 (ns_mem_available status), cp_storage = stores, cp_cloud = cloud,
            cp_account = own, cp_limits = limits, cp_accounts = each\<rparr>))))))"

definition SetLimits :: "'h env \<Rightarrow> limit_overrides \<Rightarrow> unit res \<Rightarrow> ('h, limits \<times> limit_overrides) cloud" where
  "SetLimits E ov audit =
     (case validate_limits (with_overrides (s_limits (e_site E)) ov) of
        Some e \<Rightarrow> raise e
      | None \<Rightarrow>
          bindE (tx E (bindE (sql E (\<lambda>_. SetLimitOverrides ov)) (\<lambda>stored. seqE (of_res audit) (ret stored)))) (\<lambda>stored.
            ret (with_overrides (s_limits (e_site E)) stored, stored)))"

lemma keeps_read_stores [keeps_intros]: "keeps (db_inv P) (read_stores E listed rest)"
  by (induction E listed rest rule: read_stores.induct) (auto intro!: keeps_intros)

context ledger_contract
begin

lemma keeps_Capacity: "others_keep P E \<Longrightarrow> keeps (db_inv P) (Capacity E acct accounts)"
  unfolding Capacity_def by (intro keeps_intros keeps_db)

lemma keeps_SetLimits: "others_keep P E \<Longrightarrow> keeps (db_inv P) (SetLimits E ov audit)"
  unfolding SetLimits_def by (intro keeps_intros keeps_tx keeps_sql keeps_other_tables leaves_machines_media)

end

section \<open>What an administrator's limits do\<close>

text \<open>
  C31. Limits an administrator sets are in force as soon as the call returns, exactly the overrides
  given and nothing left over from earlier ones, and they are limits some request can satisfy; when
  the call fails, the limits in force are those other requests left.
\<close>
theorem set_limits_in_force:
  fixes E :: "'h env"
  assumes run: "SetLimits E ov audit w = (r, w')" and quiet: "\<And>n d. e_others E n d = d"
  shows "case r of
      Inr (limits, stored) \<Rightarrow> stored = ov \<and> limits = with_overrides (s_limits (e_site E)) ov \<and>
        validate_limits limits = None \<and> limits_in_force E w' = limits \<and>
        w_db w' = (w_db w)\<lparr>d_overrides := ov\<rparr>
    | Inl e \<Rightarrow> w_db w' = w_db w \<and> limits_in_force E w' = limits_in_force E w"
proof (cases "validate_limits (with_overrides (s_limits (e_site E)) ov)")
  case None
  then show ?thesis
    using run quiet by (auto simp: SetLimits_def bindE_def seqE_def tx_def sql_def of_res_def SetLimitOverrides_def ret_def
        interfere_def limits_in_force_def Let_def split: prod.splits sum.splits if_splits)
next
  case (Some e)
  then show ?thesis
    using run quiet by (auto simp: SetLimits_def raise_def)
qed

theorem set_limits_in_force_witness:
  "limits_in_force (quiet_env offline_pve offline_ipam :: unit env)
     (snd (SetLimits (quiet_env offline_pve offline_ipam) no_overrides (Inr ()) (start_world () empty_ledger))) =
   example_limits"
proof -
  let ?E = "quiet_env offline_pve offline_ipam :: unit env" and ?w = "start_world () empty_ledger"
  obtain r w' where run: "SetLimits ?E no_overrides (Inr ()) ?w = (r, w')"
    by fastforce
  show ?thesis
    using set_limits_in_force [OF run] with_no_overrides [of example_limits] run
    by (cases r) (auto simp: debian_limits limits_in_force_def interfere_def start_world_def empty_ledger_def)
qed

text \<open>
  A deployment whose HDD pool is also its image store gets that store twice: only the first one
  listed is compared.
\<close>

lemma capacity_lists_store_twice:
  "\<exists>stores w'. read_stores roomy_env [] (stores_of \<lparr>vm_disks = ''ssd'', vm_disks_hdd = ''hdd'', images_store = ''hdd'',
       admin_images = ''local''\<rparr> example_limits) w = (Inr stores, w') \<and> map sto_name stores = [''ssd'', ''hdd'', ''hdd'']"
  by (simp add: stores_of_def bindE_def roomy_answers [simplified] ret_def)

end
