(* ===== verification/System.thy ===== *)
theory System
  imports Fleet Worker_Safety Sign_In_Safety Appliance_Safety Instance_Requests Volume_Admission Group_Admission Adoption Host_Capacity
begin

text \<open>
  The whole control plane against its specification: whatever sequence of API requests, worker turns,
  reconciler rounds, sign-ins and appliance calls the process carries out, the ledger takes steps of
  the abstract fleet, one account's calls never move another's machines out of their lifecycle, and
  the tables keep their constraints.
\<close>

section \<open>Handlers that leave machines and disks alone\<close>

lemma keeps_newGroupID: "keeps (db_inv P) (newGroupID E)"
  unfolding newGroupID_def by (intro keeps_intros)

lemma keeps_allTraffic: "keeps (db_inv P) (allTraffic E dir)"
  unfolding allTraffic_def newRuleID_def by (intro keeps_intros)

lemma keeps_validateRules: "keeps (db_inv P) (validateRules E grp dir qs)"
  using ledger_free_rule_rows [of E grp dir qs] unfolding validateRules_def by (intro keeps_intros) (simp add: ledger_free_keeps)

lemma keeps_lock_group: "keeps (db_inv P) (lock_group E k authorize)"
  unfolding lock_group_def lock_row_def by (intro keeps_intros keeps_sql)

context ledger_contract
begin

lemmas quiet_statements = keeps_sql keeps_db keeps_tx keeps_members keeps_other_tables leaves_machines_groups leaves_machines_media
  leaves_machines_tenants

lemma keeps_default_group: "keeps (db_inv P) (EnsureDefaultSecurityGroup' E acct)"
  unfolding EnsureDefaultSecurityGroup'_def by (intro keeps_intros quiet_statements keeps_newGroupID keeps_allTraffic)

lemma keeps_groups:
  assumes "others_keep P E"
  shows "keeps (db_inv P) (CreateSecurityGroup E acct name description ag)"
    and "keeps (db_inv P) (DeleteSecurityGroup' E k authg ag)"
    and "keeps (db_inv P) (AuthorizeRules E k dir requests authg ar)"
    and "keeps (db_inv P) (RevokeRule E k rule authg ag)"
    and "keeps (db_inv P) (SetInstanceSecurityGroups E k ids authi ai)"
  unfolding CreateSecurityGroup_def create_group_tx_def DeleteSecurityGroup'_def AuthorizeRules_def authorize_rules_tx_def
    RevokeRule_def SetInstanceSecurityGroups_def resolveGroups_def lock_groups_of_def LockCapacity_def lock_instance_def lock_row_def Let_def
  by (intro keeps_intros quiet_statements keeps_newGroupID keeps_allTraffic keeps_validateRules keeps_lock_group
      keeps_default_group assms)+

lemma keeps_media_requests:
  assumes "others_keep P E"
  shows "keeps (db_inv P) (ImportImage E dir spool acct name file b am)" and "keeps (db_inv P) (DeleteImage' E k authm am)"
    and "keeps (db_inv P) (ImportISO E dir spool acct name guest file b as)" and "keeps (db_inv P) (DeleteISO' E k auths as)"
  unfolding ImportImage_def DeleteImage'_def delete_image_allowed_def ImportISO_def DeleteISO'_def delete_iso_allowed_def
    upload_allowance_def EffectiveLimits_def storedVolume_def Let_def
  by (intro keeps_intros quiet_statements assms)+

lemma keeps_row_or: "keeps (db_inv P) m \<Longrightarrow> keeps (db_inv P) (row_or m missing authorize)"
  unfolding row_or_def by (intro keeps_intros)

lemma keeps_gone: "keeps (db_inv P) m \<Longrightarrow> keeps (db_inv P) (or_gone m refusal)"
  unfolding or_gone_def by (intro keeps_intros)

lemma keeps_new_appliance_id: "keeps (db_inv P) (new_appliance_id E kind)"
  unfolding new_appliance_id_def by (intro keeps_intros)

lemmas appliance_rules = keeps_intros quiet_statements keeps_row_or keeps_gone keeps_backend keeps_new_appliance_id

lemma keeps_machines_appliance_creates:
  assumes "others_keep P E"
  shows "keeps (db_inv P) (CreateBucket E acct name ab)" "keeps (db_inv P) (CreateS3Key E acct name ak)"
    "keeps (db_inv P) (CreateDatabase E acct name gib ad)" "keeps (db_inv P) (CreateFunction E acct name img af)"
    "keeps (db_inv P) (CreateService E acct r as)"
  unfolding CreateBucket_def create_bucket_tx_def CreateS3Key_def create_s3_key_tx_def CreateDatabase_def create_database_tx_def
    CreateFunction_def create_function_tx_def CreateService_def create_service_tx_def Let_def newDatabaseID_def newFunctionID_def
    newServiceID_def apply_workload_def storageReady_def databaseReady_def functionReady_def serviceReady_def
  by (intro appliance_rules assms)+

lemma keeps_machines_appliance_changes:
  assumes "others_keep P E"
  shows "keeps (db_inv P) (SetBucketPermission' E name k perm auth ap)" "keeps (db_inv P) (RevokeBucketPermission E name k auth ap)"
    "keeps (db_inv P) (ModifyService E k g as)"
  unfolding SetBucketPermission'_def set_permission_tx_def RevokeBucketPermission_def revoke_permission_tx_def ModifyService_def
    modify_service_tx_def permitted_status_def apply_workload_def storageReady_def serviceReady_def
  by (intro appliance_rules assms)+

lemma keeps_machines_appliance_deletes:
  assumes "others_keep P E"
  shows "keeps (db_inv P) (DeleteBucket' E name auth ab)" "keeps (db_inv P) (DeleteS3Key' E k authk ak)"
    "keeps (db_inv P) (DeleteDatabase' E k ad)" "keeps (db_inv P) (DeleteFunction' E k af)" "keeps (db_inv P) (DeleteService' E k as)"
  unfolding DeleteBucket'_def delete_bucket_tx_def DeleteS3Key'_def DeleteDatabase'_def DeleteFunction'_def DeleteService'_def
    storageReady_def databaseReady_def functionReady_def serviceReady_def
  by (intro appliance_rules assms)+

lemma keeps_machines_appliance: "others_keep P E \<Longrightarrow> keeps (db_inv P) (appliance E call)"
  by (cases call) (simp_all add: keeps_quietly keeps_machines_appliance_creates keeps_machines_appliance_changes
      keeps_machines_appliance_deletes)

subsection \<open>Signing in\<close>

lemma keeps_audit_row: "stmt_keeps P (\<lambda>_. RecordAudit S e)"
  unfolding RecordAudit_def by (intro keeps_intros)

lemmas sign_in_rules = keeps_intros quiet_statements keeps_audit_row

lemma keeps_denied: "others_keep P (sv_cloud S) \<Longrightarrow> keeps (db_inv P) (recordDenied S e)"
  unfolding recordDenied_def by (intro sign_in_rules)

lemma keeps_machines_authenticate: "others_keep P (sv_cloud S) \<Longrightarrow> keeps (db_inv P) (authenticate S r c)"
  unfolding authenticate_def check_key_def refused_key_def sessionAccount_def Let_def
  by (intro sign_in_rules keeps_denied)

lemma keeps_machines_key_bodies: "keeps (db_inv P) (key_bodies E ks)"
  by (induction ks) (auto simp: key_body_def intro!: keeps_intros)

lemma keeps_machines_keys:
  assumes "others_keep P (sv_cloud S)"
  shows "keeps (db_inv P) (listAccessKeys S a)" "keeps (db_inv P) (createAccessKey S c a b)"
    "keeps (db_inv P) (deleteAccessKey S c a k)"
  unfolding listAccessKeys_def createAccessKey_def create_key_tx_def key_expiry_def key_body_def mint_def deleteAccessKey_def
    delete_key_tx_def Let_def
  by (intro sign_in_rules keeps_machines_key_bodies keeps_denied assms)+

lemma keeps_machines_new_account: "keeps (db_inv P) (newAccountID E)"
  unfolding newAccountID_def by (intro keeps_intros)

lemma keeps_machines_ensure_bootstrap: "keeps (db_inv P) (ensure_bootstrap n E)"
  by (induction n) (auto intro!: sign_in_rules keeps_machines_new_account)

lemma keeps_machines_bootstrap: "others_keep P (sv_cloud S) \<Longrightarrow> keeps (db_inv P) (ReconcileBootstrapKey S)"
  unfolding ReconcileBootstrapKey_def reconcile_bootstrap_tx_def bootstrap_account_def register_bootstrap_def
    EnsureBootstrapAccount_def Let_def
  by (intro sign_in_rules keeps_machines_ensure_bootstrap)

lemma keeps_machines_insert_account:
  "others_keep P E \<Longrightarrow> keeps (db_inv P) (insert_account n E subject username email admin)"
  by (induction n) (auto intro!: sign_in_rules keeps_machines_new_account)

lemma keeps_machines_login:
  assumes "others_keep P (sv_cloud S)"
  shows "keeps (db_inv P) (startLogin S)" "keeps (db_inv P) (completeLogin S r c)" "keeps (db_inv P) (logout S r c)"
  unfolding startLogin_def completeLogin_def logout_def verified_token_def open_session_def admit_login_def RecordLogin_def
    or_page_def or_internal_def Let_def
  by (intro sign_in_rules keeps_machines_insert_account keeps_denied assms)+

lemma keeps_machines_janitor: "others_keep P E \<Longrightarrow> keeps (db_inv P) (RunJanitor n E)"
  by (induction n) (auto simp: DeleteExpired_def intro!: sign_in_rules)

lemma keeps_machines_sign_in: "others_keep P (sv_cloud S) \<Longrightarrow> keeps (db_inv P) (sign_in S call)"
  by (cases call) (simp_all add: keeps_ignore keeps_machines_authenticate keeps_machines_keys keeps_machines_bootstrap
      keeps_machines_login keeps_machines_janitor)

end

section \<open>Everything the process does\<close>

datatype system_call =
    Launch string run_request "instance_row \<Rightarrow> unit res"
  | Ask string action "instance_row \<Rightarrow> bool" "instance_row \<Rightarrow> unit res"
  | Resize string modify_request "instance_row \<Rightarrow> unit res"
  | Retag string "(string, string) gomap option" "instance_row \<Rightarrow> bool" "instance_row \<Rightarrow> unit res"
  | Register adopt_request "instance_row \<Rightarrow> unit res"
  | MakeVolume string volume_request "volume_row \<Rightarrow> unit res"
  | GrowVolume string int "volume_row \<Rightarrow> bool" "volume_row \<Rightarrow> unit res"
  | DropVolume string "volume_row \<Rightarrow> bool" "volume_row \<Rightarrow> unit res"
  | PlugVolume string string string "volume_row \<Rightarrow> bool" "volume_row \<Rightarrow> unit res"
  | UnplugVolume string "volume_row \<Rightarrow> bool" "volume_row \<Rightarrow> unit res"
  | MakeGroup string string string "group_row \<Rightarrow> unit res"
  | DropGroup string "group_row \<Rightarrow> bool" "group_row \<Rightarrow> unit res"
  | AddRules string direction "rule_request list" "group_row \<Rightarrow> bool" "group_row \<Rightarrow> rule_row list \<Rightarrow> unit res"
  | DropRule string string "group_row \<Rightarrow> bool" "group_row \<Rightarrow> unit res"
  | Regroup string "string list" "instance_row \<Rightarrow> bool" "instance_row \<Rightarrow> unit res"
  | Upload bool "unit res \<times> unit res" string string string body "image_row \<Rightarrow> unit res"
  | DropImage string "image_row \<Rightarrow> bool" "image_row \<Rightarrow> unit res"
  | UploadDisc bool "unit res \<times> unit res" string string string string body "iso_row \<Rightarrow> unit res"
  | DropDisc string "iso_row \<Rightarrow> bool" "iso_row \<Rightarrow> unit res"
  | Limit limit_overrides "unit res"
  | LookAround string bool
  | Appliances appliance_call
  | SignIn sign_in_call
  | WorkerTurns nat
  | ReconcilerRounds nat

text \<open>A call as the process makes it; its answer goes to the caller, its effects stay.\<close>

fun perform :: "'h server \<Rightarrow> system_call \<Rightarrow> ('h, unit) cloud" where
  "perform S (Launch acct r audit) = quietly (Run (sv_cloud S) acct r audit)"
| "perform S (Ask k a auth audit) = quietly (Request (sv_cloud S) k a auth audit)"
| "perform S (Resize k r audit) = quietly (Modify (sv_cloud S) k r audit)"
| "perform S (Retag k tags auth audit) = quietly (SetInstanceTags' (sv_cloud S) k tags auth audit)"
| "perform S (Register r audit) = quietly (Adopt (sv_cloud S) r audit)"
| "perform S (MakeVolume acct r audit) = quietly (CreateVolume (sv_cloud S) acct r audit)"
| "perform S (GrowVolume k sz auth audit) = quietly (ModifyVolume (sv_cloud S) k sz auth audit)"
| "perform S (DropVolume k auth audit) = quietly (DeleteVolume (sv_cloud S) k auth audit)"
| "perform S (PlugVolume k inst device auth audit) = quietly (AttachVolume (sv_cloud S) k inst device auth audit)"
| "perform S (UnplugVolume k auth audit) = quietly (DetachVolume (sv_cloud S) k auth audit)"
| "perform S (MakeGroup acct name description audit) = quietly (CreateSecurityGroup (sv_cloud S) acct name description audit)"
| "perform S (DropGroup k auth audit) = quietly (DeleteSecurityGroup' (sv_cloud S) k auth audit)"
| "perform S (AddRules k dir rs auth audit) = quietly (AuthorizeRules (sv_cloud S) k dir rs auth audit)"
| "perform S (DropRule k rule auth audit) = quietly (RevokeRule (sv_cloud S) k rule auth audit)"
| "perform S (Regroup k ids auth audit) = quietly (SetInstanceSecurityGroups (sv_cloud S) k ids auth audit)"
| "perform S (Upload dir spool acct name f b audit) = quietly (ImportImage (sv_cloud S) dir spool acct name f b audit)"
| "perform S (DropImage k auth audit) = quietly (DeleteImage' (sv_cloud S) k auth audit)"
| "perform S (UploadDisc dir spool acct name guest f b audit) = quietly (ImportISO (sv_cloud S) dir spool acct name guest f b audit)"
| "perform S (DropDisc k auth audit) = quietly (DeleteISO' (sv_cloud S) k auth audit)"
| "perform S (Limit ov audit) = quietly (SetLimits (sv_cloud S) ov audit)"
| "perform S (LookAround acct accounts) = quietly (Capacity (sv_cloud S) acct accounts)"
| "perform S (Appliances call) = appliance (sv_cloud S) call"
| "perform S (SignIn call) = sign_in S call"
| "perform S (WorkerTurns n) = quietly (RunWorker n (sv_cloud S))"
| "perform S (ReconcilerRounds n) = quietly (RunReconciler n (sv_cloud S))"

context request_contract
begin

lemma keeps_perform: "others_keep P (sv_cloud S) \<Longrightarrow> keeps (db_inv P) (perform S call)"
  by (cases call)
    (simp_all add: keeps_quietly keeps_launch_request keeps_Request keeps_Modify keeps_SetInstanceTags keeps_Adopt
      keeps_CreateVolume keeps_ModifyVolume keeps_DeleteVolume keeps_AttachVolume keeps_DetachVolume keeps_groups
      keeps_media_requests keeps_SetLimits keeps_Capacity keeps_machines_appliance keeps_machines_sign_in keeps_RunWorker
      keeps_RunReconciler)

end

text \<open>
  What other requests commit between two statements of one call is itself what calls commit, under
  the same kind of interference: the assumption about other requests is met by the calls themselves.
\<close>

inductive concurrent :: "'h env \<Rightarrow> bool" where
  others: "(\<And>n d. e_others E n d = d \<or>
      (\<exists>S w call. concurrent (sv_cloud S) \<and> w_db w = d \<and> e_others E n d = w_db (snd (perform S call w)))) \<Longrightarrow>
    concurrent E"

text \<open>
  A history: calls one after the other, each under any interference. Between two of them the process
  may restart and the world outside may change in any way; the ledger stays.
\<close>

inductive history :: "'h world \<Rightarrow> 'h world \<Rightarrow> bool" for w where
  start: "history w w"
| step: "history w u \<Longrightarrow> concurrent (sv_cloud S) \<Longrightarrow> history w (snd (perform S call u))"
| restart: "history w u \<Longrightarrow> w_db v = w_db u \<Longrightarrow> history w v"

context request_contract
begin

lemma concurrent_keeps:
  fixes E :: "'h env"
  assumes "concurrent E"
  shows "others_keep P E"
  using assms
proof (induction rule: concurrent.induct)
  case (others E)
  show ?case
    unfolding others_keep_def
  proof (intro allI impI)
    fix n d assume d: "P d"
    from others [of n d] show "P (e_others E n d)"
    proof (elim disjE exE conjE)
      fix S call and w :: "'h world"
      assume "others_keep P (sv_cloud S)" and w: "w_db w = d" "e_others E n d = w_db (snd (perform S call w))"
      from keepsD [OF keeps_perform [OF this(1)], of w call] show ?thesis
        using d w by (simp add: db_inv_def)
    qed (use d in simp)
  qed
qed

lemma history_keeps: "history w w' \<Longrightarrow> P (w_db w) \<Longrightarrow> P (w_db w')"
proof (induction rule: history.induct)
  case (step u S call)
  then show ?case
    using keepsD [OF keeps_perform [OF concurrent_keeps [OF step(2)]], of u call] by (simp add: db_inv_def)
qed simp_all

end

text \<open>The tables as the migrations allow them and as the code leaves them.\<close>

definition ledger_ok :: "ledger \<Rightarrow> bool" where
  "ledger_ok d \<longleftrightarrow> tables_ok (d_instances d) (d_volumes d) \<and> list_all row_ok (d_instances d) \<and> list_all vol_ok (d_volumes d)"

definition fleet_in :: "'h world \<Rightarrow> machines \<times> disks" where
  "fleet_in w = fleet_of (d_instances (w_db w)) (d_volumes (w_db w))"

lemma history_refines:
  assumes "history w w'" and "ledger_ok (w_db w)"
  shows "refines_fleet (d_instances (w_db w)) (d_volumes (w_db w)) (d_instances (w_db w')) (d_volumes (w_db w'))"
  using fleet.history_keeps [OF assms(1), of "d_instances (w_db w)" "d_volumes (w_db w)"] assms(2)
  by (simp add: refines_fleet_def ledger_ok_def)

text \<open>
  C1. The program refines the abstract fleet: whatever calls the process carries out one after the
  other, each while any others interfere between its statements, wherever the database, the
  hypervisor or a backend fails, and however often the process restarts, the machines and disks in
  the ledger have taken steps of the specification, and the ledger still meets its constraints.
\<close>
theorem control_plane_refines_fleet:
  assumes "history w w'" and "ledger_ok (w_db w)"
  shows "fleet_steps (fleet_in w) (fleet_in w') \<and> ledger_ok (w_db w')"
  using history_refines [OF assms] by (simp add: refines_fleet_def ledger_ok_def fleet_in_def)

text \<open>
  C4. Over any history of calls a machine keeps its owner and follows its lifecycle, and one that was
  terminated stays terminated, whatever anybody asks for.
\<close>
theorem machines_keep_owner:
  assumes "history w w'" and "ledger_ok (w_db w)" and "fst (fleet_in w) k = Some (owner, p)"
  shows "\<exists>q. fst (fleet_in w') k = Some (owner, q) \<and> life_edge\<^sup>*\<^sup>* p q \<and> (fst p = StateTerminated \<longrightarrow> q = p)"
proof -
  have "fleet_steps (fleet_in w) (fleet_in w')"
    using history_refines [OF assms(1,2)] by (simp add: refines_fleet_def fleet_in_def)
  from fleet_owner_stays [OF this assms(3)] obtain q where q: "fst (fleet_in w') k = Some (owner, q)" "life_edge\<^sup>*\<^sup>* p q"
    by blast
  have "q = p" if "fst p = StateTerminated"
    using q(2) that by (induction rule: rtranclp_induct) (auto elim: from_terminated)
  with q show ?thesis
    by blast
qed

lemma quiet_concurrent: "concurrent (quiet_env pve ipam)"
  by (rule concurrent.others) simp

text \<open>A launch, after which the fleet has its first machine.\<close>

theorem control_plane_refines_fleet_witness:
  "\<exists>w'. history (start_world () group_ledger) w' \<and> length (d_instances (w_db w')) = 1 \<and>
     fleet_steps (Map.empty, Map.empty) (fleet_in w') \<and> ledger_ok (w_db w')"
proof -
  let ?w = "start_world () group_ledger :: unit world" and ?S = "quiet_server roomy_env"
  obtain i u where run: "Run roomy_env ''acct'' debian_request (\<lambda>_. Inr ()) ?w = (Inr (i, True), u)"
    and one: "length (d_instances (w_db u)) = 1"
    using debian_admitted by blast
  have "snd (perform ?S (Launch ''acct'' debian_request (\<lambda>_. Inr ())) ?w) = u"
    using run by (simp add: quiet_server_def quietly_def prog_defs)
  then have hist: "history ?w u"
    using history.step [OF history.start, of ?S ?w "Launch ''acct'' debian_request (\<lambda>_. Inr ())"]
    by (simp add: quiet_server_def quiet_concurrent)
  have "ledger_ok (w_db ?w)" "fleet_in ?w = (Map.empty, Map.empty)"
    by (simp_all add: ledger_ok_def fleet_in_def fleet_of_def machines_of_def disks_of_def start_world_def group_ledger_def
        empty_ledger_def tables_ok_def inst_constraints_def vol_constraints_def live_vmids_def client_tokens_def vol_tokens_def
        used_devices_def live_volids_def)
  with hist one control_plane_refines_fleet [OF hist] show ?thesis
    by auto
qed

theorem machines_keep_owner_witness:
  "\<exists>w'. history (start_world () (empty_ledger\<lparr>d_instances := [terminating]\<rparr>)) w' \<and>
     (\<exists>q. fst (fleet_in w') (i_id terminating) = Some (i_account terminating, q) \<and> life_edge\<^sup>*\<^sup>* (phase terminating) q)"
proof -
  let ?w = "start_world () (empty_ledger\<lparr>d_instances := [terminating]\<rparr>) :: unit world"
  let ?S = "quiet_server (quiet_env offline_pve offline_ipam :: unit env)"
  have hist: "history ?w (snd (perform ?S (WorkerTurns 3) ?w))"
    by (rule history.step [OF history.start]) (simp add: quiet_server_def quiet_concurrent)
  have "ledger_ok (w_db ?w)" "fst (fleet_in ?w) (i_id terminating) = Some (i_account terminating, phase terminating)"
    using terminating_ok(1)
    by (simp_all add: ledger_ok_def fleet_in_def fleet_of_def machines_of_def start_world_def 
        empty_ledger_def tables_ok_def inst_constraints_def vol_constraints_def live_vmids_def client_tokens_def vol_tokens_def
        used_devices_def live_volids_def terminating_def example_row_def row_size_ok_def db_size_ok_def int4_def map_filter_simps)
  with hist machines_keep_owner [OF hist] show ?thesis
    by blast
qed

end
