(* ===== verification/Http_Routes.thy ===== *)
theory Http_Routes
  imports Sign_In
begin

text \<open>
  \<open>server/server.go\<close>: the API table, which requests of it need which credential, and the guard in
  front of every handler. A path is the list of its segments, already unescaped; \<open>net/http\<close>'s
  \<open>ServeMux\<close> picks the pattern a request matches (a \<open>GET\<close> pattern serves \<open>HEAD\<close> too, a wildcard
  matches one segment that is not empty), and everything else is answered 404 by the last pattern.
\<close>

section \<open>The table\<close>

datatype auth_mode = public | anyCredential | sessionOnly
datatype op_scope = readOp | writeOp

record route =
  rt_method :: string
  rt_pattern :: string
  rt_operation :: string
  rt_auth :: auth_mode
  rt_scope :: op_scope

definition route_entry :: "string \<Rightarrow> string \<Rightarrow> string \<Rightarrow> auth_mode \<Rightarrow> op_scope \<Rightarrow> route" where
  "route_entry method pattern operation a s = \<lparr>rt_method = method, rt_pattern = pattern, rt_operation = operation,
     rt_auth = a, rt_scope = s\<rparr>"

definition routes :: "route list" where
  "routes = [
     route_entry ''GET'' ''/healthz'' ''GetHealth'' public readOp,
     route_entry ''GET'' ''/help'' ''Help'' public readOp,
     route_entry ''GET'' ''/auth/login'' ''StartLogin'' public readOp,
     route_entry ''GET'' ''/auth/callback'' ''CompleteLogin'' public writeOp,
     route_entry ''POST'' ''/auth/logout'' ''Logout'' public writeOp,
     route_entry ''GET'' ''/v1/caller-identity'' ''GetCallerIdentity'' anyCredential readOp,
     route_entry ''GET'' ''/v1/access-keys'' ''ListAccessKeys'' anyCredential readOp,
     route_entry ''POST'' ''/v1/access-keys'' ''CreateAccessKey'' sessionOnly writeOp,
     route_entry ''DELETE'' ''/v1/access-keys/{access_key_id}'' ''DeleteAccessKey'' anyCredential writeOp,
     route_entry ''GET'' ''/v1/audit-events'' ''LookupEvents'' anyCredential readOp,
     route_entry ''GET'' ''/v1/key-pairs'' ''DescribeKeyPairs'' anyCredential readOp,
     route_entry ''POST'' ''/v1/key-pairs'' ''ImportKeyPair'' anyCredential writeOp,
     route_entry ''DELETE'' ''/v1/key-pairs/{key_name}'' ''DeleteKeyPair'' anyCredential writeOp,
     route_entry ''GET'' ''/v1/images'' ''DescribeImages'' anyCredential readOp,
     route_entry ''POST'' ''/v1/images'' ''ImportImage'' anyCredential writeOp,
     route_entry ''DELETE'' ''/v1/images/{image_id}'' ''DeleteImage'' anyCredential writeOp,
     route_entry ''GET'' ''/v1/isos'' ''DescribeISOs'' anyCredential readOp,
     route_entry ''POST'' ''/v1/isos'' ''ImportISO'' anyCredential writeOp,
     route_entry ''DELETE'' ''/v1/isos/{iso_id}'' ''DeleteISO'' anyCredential writeOp,
     route_entry ''GET'' ''/v1/instance-types'' ''DescribeInstanceTypes'' anyCredential readOp,
     route_entry ''GET'' ''/v1/subnets'' ''DescribeSubnets'' anyCredential readOp,
     route_entry ''GET'' ''/v1/subnets/{subnet_id}'' ''DescribeSubnet'' anyCredential readOp,
     route_entry ''GET'' ''/v1/capacity'' ''DescribeCapacity'' anyCredential readOp,
     route_entry ''GET'' ''/v1/limits'' ''DescribeLimits'' anyCredential readOp,
     route_entry ''PUT'' ''/v1/limits'' ''UpdateLimits'' anyCredential writeOp,
     route_entry ''POST'' ''/v1/instances'' ''RunInstances'' anyCredential writeOp,
     route_entry ''POST'' ''/v1/instances/adopt'' ''AdoptInstance'' anyCredential writeOp,
     route_entry ''GET'' ''/v1/instances'' ''DescribeInstances'' anyCredential readOp,
     route_entry ''GET'' ''/v1/instances/{instance_id}'' ''DescribeInstance'' anyCredential readOp,
     route_entry ''PATCH'' ''/v1/instances/{instance_id}'' ''ModifyInstance'' anyCredential writeOp,
     route_entry ''DELETE'' ''/v1/instances/{instance_id}'' ''TerminateInstance'' anyCredential writeOp,
     route_entry ''POST'' ''/v1/instances/{instance_id}/start'' ''StartInstance'' anyCredential writeOp,
     route_entry ''POST'' ''/v1/instances/{instance_id}/stop'' ''StopInstance'' anyCredential writeOp,
     route_entry ''POST'' ''/v1/instances/{instance_id}/reboot'' ''RebootInstance'' anyCredential writeOp,
     route_entry ''POST'' ''/v1/instances/{instance_id}/console'' ''CreateConsoleSession'' anyCredential writeOp,
     route_entry ''PUT'' ''/v1/instances/{instance_id}/tags'' ''ModifyInstanceTags'' anyCredential writeOp,
     route_entry ''PUT'' ''/v1/instances/{instance_id}/security-groups'' ''ModifyInstanceSecurityGroups'' anyCredential writeOp,
     route_entry ''GET'' ''/v1/volumes'' ''DescribeVolumes'' anyCredential readOp,
     route_entry ''POST'' ''/v1/volumes'' ''CreateVolume'' anyCredential writeOp,
     route_entry ''GET'' ''/v1/volumes/{volume_id}'' ''DescribeVolume'' anyCredential readOp,
     route_entry ''PATCH'' ''/v1/volumes/{volume_id}'' ''ModifyVolume'' anyCredential writeOp,
     route_entry ''DELETE'' ''/v1/volumes/{volume_id}'' ''DeleteVolume'' anyCredential writeOp,
     route_entry ''POST'' ''/v1/volumes/{volume_id}/attach'' ''AttachVolume'' anyCredential writeOp,
     route_entry ''POST'' ''/v1/volumes/{volume_id}/detach'' ''DetachVolume'' anyCredential writeOp,
     route_entry ''GET'' ''/v1/security-groups'' ''DescribeSecurityGroups'' anyCredential readOp,
     route_entry ''POST'' ''/v1/security-groups'' ''CreateSecurityGroup'' anyCredential writeOp,
     route_entry ''GET'' ''/v1/security-groups/{group_id}'' ''DescribeSecurityGroup'' anyCredential readOp,
     route_entry ''DELETE'' ''/v1/security-groups/{group_id}'' ''DeleteSecurityGroup'' anyCredential writeOp,
     route_entry ''POST'' ''/v1/security-groups/{group_id}/ingress'' ''AuthorizeSecurityGroupIngress'' anyCredential writeOp,
     route_entry ''POST'' ''/v1/security-groups/{group_id}/egress'' ''AuthorizeSecurityGroupEgress'' anyCredential writeOp,
     route_entry ''DELETE'' ''/v1/security-groups/{group_id}/rules/{rule_id}'' ''RevokeSecurityGroupRule'' anyCredential writeOp,
     route_entry ''GET'' ''/v1/buckets'' ''DescribeBuckets'' anyCredential readOp,
     route_entry ''POST'' ''/v1/buckets'' ''CreateBucket'' anyCredential writeOp,
     route_entry ''GET'' ''/v1/buckets/{bucket_name}'' ''DescribeBucket'' anyCredential readOp,
     route_entry ''DELETE'' ''/v1/buckets/{bucket_name}'' ''DeleteBucket'' anyCredential writeOp,
     route_entry ''PUT'' ''/v1/buckets/{bucket_name}/keys/{key_id}'' ''PutBucketKey'' anyCredential writeOp,
     route_entry ''DELETE'' ''/v1/buckets/{bucket_name}/keys/{key_id}'' ''DeleteBucketKey'' anyCredential writeOp,
     route_entry ''GET'' ''/v1/s3-keys'' ''ListS3Keys'' anyCredential readOp,
     route_entry ''POST'' ''/v1/s3-keys'' ''CreateS3Key'' anyCredential writeOp,
     route_entry ''DELETE'' ''/v1/s3-keys/{key_id}'' ''DeleteS3Key'' anyCredential writeOp,
     route_entry ''GET'' ''/v1/databases'' ''DescribeDatabases'' anyCredential readOp,
     route_entry ''POST'' ''/v1/databases'' ''CreateDatabase'' anyCredential writeOp,
     route_entry ''GET'' ''/v1/databases/{database_id}'' ''DescribeDatabase'' anyCredential readOp,
     route_entry ''DELETE'' ''/v1/databases/{database_id}'' ''DeleteDatabase'' anyCredential writeOp,
     route_entry ''GET'' ''/v1/databases/{database_id}/credentials'' ''GetDatabaseCredentials'' anyCredential writeOp,
     route_entry ''GET'' ''/v1/functions'' ''DescribeFunctions'' anyCredential readOp,
     route_entry ''POST'' ''/v1/functions'' ''CreateFunction'' anyCredential writeOp,
     route_entry ''GET'' ''/v1/functions/{function_id}'' ''DescribeFunction'' anyCredential readOp,
     route_entry ''DELETE'' ''/v1/functions/{function_id}'' ''DeleteFunction'' anyCredential writeOp,
     route_entry ''GET'' ''/v1/services'' ''DescribeServices'' anyCredential readOp,
     route_entry ''POST'' ''/v1/services'' ''CreateService'' anyCredential writeOp,
     route_entry ''GET'' ''/v1/services/{service_id}'' ''DescribeService'' anyCredential readOp,
     route_entry ''PATCH'' ''/v1/services/{service_id}'' ''ModifyService'' anyCredential writeOp,
     route_entry ''DELETE'' ''/v1/services/{service_id}'' ''DeleteService'' anyCredential writeOp]"

text \<open>\<open>net/http\<close>'s matching of one pattern.\<close>

definition segments :: "string \<Rightarrow> string list" where
  "segments path = split_at CHR ''/'' (drop 1 path)"

definition wildcard :: "string \<Rightarrow> bool" where
  "wildcard s \<longleftrightarrow> has_prefix s ''{''"

definition segment_matches :: "string \<Rightarrow> string \<Rightarrow> bool" where
  "segment_matches p s \<longleftrightarrow> (if wildcard p then s \<noteq> '''' else p = s)"

definition serves :: "route \<Rightarrow> string \<Rightarrow> string list \<Rightarrow> bool" where
  "serves rt method path \<longleftrightarrow> (rt_method rt = method \<or> (rt_method rt = ''GET'' \<and> method = ''HEAD'')) \<and>
     list_all2 segment_matches (segments (rt_pattern rt)) path"

definition route_for :: "string \<Rightarrow> string list \<Rightarrow> route option" where
  "route_for method path = find (\<lambda>rt. serves rt method path) routes"

section \<open>The guard\<close>

definition errUnauthorizedOperation :: err where "errUnauthorizedOperation = Refuse 403 ''UnauthorizedOperation''"
definition errAccessDenied :: err where "errAccessDenied = Refuse 403 ''AccessDenied''"

definition refused_call :: "'h server \<Rightarrow> call \<Rightarrow> string \<Rightarrow> err \<Rightarrow> ('h, 'a) cloud" where
  "refused_call S c code e = seqE (recordDenied S (call_event c code)) (raise e)"

definition endpoint :: "'h server \<Rightarrow> route \<Rightarrow> http_request \<Rightarrow> (call \<Rightarrow> ('h, 'a) cloud) \<Rightarrow> ('h, 'a) cloud" where
  "endpoint S rt r handle =
     (let c = newCall r (sv_trusted S) (rt_operation rt) in
      if rt_auth rt = public then handle c
      else bindE (authenticate S r c) (\<lambda>p.
        let c = c\<lparr>cl_principal := Some p\<rparr> in
        if rt_auth rt = sessionOnly \<and> pr_credential p \<noteq> CredentialSession
        then refused_call S c ''UnauthorizedOperation'' errUnauthorizedOperation
        else if rt_scope rt = writeOp \<and> pr_credential p = CredentialAccessKey \<and> pr_scope p = KeyScopeReadOnly
        then refused_call S c ''AccessDenied'' errAccessDenied
        else handle c))"

section \<open>A request matches one pattern at most\<close>

text \<open>
  The method and the segments of a pattern, \<open>None\<close> for a wildcard, and whether some request could match
  two of them.
\<close>

definition shape :: "route \<Rightarrow> string \<times> string option list" where
  "shape rt = (rt_method rt, map (\<lambda>p. if wildcard p then None else Some p) (segments (rt_pattern rt)))"

fun segments_overlap :: "string option list \<Rightarrow> string option list \<Rightarrow> bool" where
  "segments_overlap [] qs \<longleftrightarrow> qs = []"
| "segments_overlap (p # ps) [] \<longleftrightarrow> False"
| "segments_overlap (p # ps) (q # qs) \<longleftrightarrow>
     (case p of None \<Rightarrow> segments_overlap ps qs
      | Some a \<Rightarrow> (case q of None \<Rightarrow> segments_overlap ps qs
        | Some b \<Rightarrow> if a = b then segments_overlap ps qs else False))"

fun overlap :: "string \<times> string option list \<Rightarrow> string \<times> string option list \<Rightarrow> bool" where
  "overlap (m, ps) (n, qs) \<longleftrightarrow> (if m = n then segments_overlap ps qs else False)"

lemma serves_overlap:
  assumes "serves a method path" and "serves b method path" and "rt_method a \<noteq> ''HEAD''" and "rt_method b \<noteq> ''HEAD''"
  shows "overlap (shape a) (shape b)"
proof -
  have segs: "list_all2 segment_matches (segments (rt_pattern a)) path" "list_all2 segment_matches (segments (rt_pattern b)) path"
    using assms by (simp_all add: serves_def)
  have "rt_method a = rt_method b"
    using assms by (auto simp: serves_def)
  moreover have "segments_overlap (map (\<lambda>p. if wildcard p then None else Some p) ps)
      (map (\<lambda>p. if wildcard p then None else Some p) qs)"
    if "list_all2 segment_matches ps ss" "list_all2 segment_matches qs ss" for ps qs ss
    using that
    by (induction ps ss arbitrary: qs rule: list_all2_induct)
      (auto simp: list_all2_Cons2 segment_matches_def split: if_splits)
  ultimately show ?thesis
    using segs by (auto simp: shape_def)
qed

fun unambiguous :: "(string \<times> string option list) list \<Rightarrow> bool" where
  "unambiguous [] \<longleftrightarrow> True"
| "unambiguous (a # rest) \<longleftrightarrow> fst a \<noteq> ''HEAD'' \<and> list_all (\<lambda>b. \<not> overlap a b) rest \<and> unambiguous rest"

lemma shapes_unambiguous: "unambiguous (map shape routes)"
  by code_simp

lemma unambiguous_served:
  assumes "unambiguous (map shape rts)" and "a \<in> set rts" and "b \<in> set rts" and "serves a method path" and "serves b method path"
  shows "a = b"
proof -
  have heads: "unambiguous (map shape rts) \<Longrightarrow> rt \<in> set rts \<Longrightarrow> rt_method rt \<noteq> ''HEAD''" for rt and rts
    by (induction rts) (auto simp: shape_def)
  have "overlap (shape a) (shape b)" "overlap (shape b) (shape a)"
    using assms heads by (blast intro: serves_overlap)+
  with assms(1-3) show ?thesis
    by (induction rts) (auto simp: list_all_iff)
qed

lemma route_for_served: "rt \<in> set routes \<Longrightarrow> serves rt method path \<Longrightarrow> route_for method path = Some rt"
proof -
  assume rt: "rt \<in> set routes" "serves rt method path"
  then obtain found where found: "route_for method path = Some found"
    unfolding route_for_def by (metis (mono_tags, lifting) find_None_iff option.exhaust)
  then have "found \<in> set routes \<and> serves found method path"
    unfolding route_for_def by (metis (mono_tags, lifting) find_Some_iff nth_mem)
  with rt have "found = rt"
    by (intro unambiguous_served [OF shapes_unambiguous]) auto
  with found show ?thesis
    by simp
qed

section \<open>What the guard decides\<close>

text \<open>Whether a caller may reach the handler of a route: the reference.\<close>

definition may_call :: "route \<Rightarrow> principal \<Rightarrow> bool" where
  "may_call rt p \<longleftrightarrow> (rt_auth rt = sessionOnly \<longrightarrow> pr_credential p = CredentialSession) \<and>
     (rt_scope rt = writeOp \<longrightarrow> \<not> (pr_credential p = CredentialAccessKey \<and> pr_scope p = KeyScopeReadOnly))"

lemma endpoint_admits:
  assumes "rt_auth rt \<noteq> public" and "authenticate S r (newCall r (sv_trusted S) (rt_operation rt)) w = (Inr p, w')" and "may_call rt p"
  shows "endpoint S rt r handle w = handle ((newCall r (sv_trusted S) (rt_operation rt))\<lparr>cl_principal := Some p\<rparr>) w'"
  using assms by (auto simp: endpoint_def may_call_def Let_def prog_defs)

lemma endpoint_refuses:
  assumes "rt_auth rt \<noteq> public" and "authenticate S r (newCall r (sv_trusted S) (rt_operation rt)) w = (Inr p, w')" and "\<not> may_call rt p"
  shows "\<exists>code. \<exists>e \<in> {errUnauthorizedOperation, errAccessDenied}.
    endpoint S rt r handle w = refused_call S ((newCall r (sv_trusted S) (rt_operation rt))\<lparr>cl_principal := Some p\<rparr>) code e w'"
  using assms by (auto simp: endpoint_def may_call_def Let_def prog_defs)

lemma endpoint_unknown:
  assumes "rt_auth rt \<noteq> public" and "authenticate S r (newCall r (sv_trusted S) (rt_operation rt)) w = (Inl e, w')"
  shows "endpoint S rt r handle w = (Inl e, w')"
  using assms by (auto simp: endpoint_def Let_def prog_defs)

lemma fst_refused_call: "fst (refused_call S c code e w) = Inl e"
  using recordDenied_Inr [of S "call_event c code" w] by (auto simp: refused_call_def prog_defs)

lemma keeps_recorded_denial [keeps_intros]: "others_keep P (sv_cloud S) \<Longrightarrow> keeps (db_inv P) (recordDenied S e)"
  unfolding recordDenied_def RecordAudit_def by (intro keeps_intros keeps_db stmt_keeps_reading)

lemma keeps_refused_call: "others_keep P (sv_cloud S) \<Longrightarrow> keeps (db_inv P) (refused_call S c code e)"
  unfolding refused_call_def by (intro keeps_intros)

end
