(* ===== verification/Endpoints.thy ===== *)
theory Endpoints
  imports Http_Routes Instance_Requests Volume_Admission Group_Admission Adoption Host_Capacity
begin

text \<open>
  The JSON handlers of \<open>server/instances.go\<close>, \<open>volumes.go\<close>, \<open>securitygroups.go\<close>, \<open>capacity.go\<close> and
  \<open>subnets.go\<close>: who may act on what, what is recorded of a refusal, and what a caller is shown. A
  handler answers a status and a body or raises the refusal it writes. \<open>encoding/json\<close> has decoded a
  body already (\<open>posted\<close>); the owner's user name in the bodies is a join that is left out.
\<close>

section \<open>What the handlers share\<close>

datatype 'b posted = OtherMediaType | Malformed | Posted 'b

fun decodeJSON :: "'b posted \<Rightarrow> ('h, 'b) cloud" where
  "decodeJSON OtherMediaType = raise (Refuse 415 ''MalformedRequest'')"
| "decodeJSON Malformed = raise (Refuse 400 ''MalformedRequest'')"
| "decodeJSON (Posted b) = ret b"

definition computeService :: "'h server \<Rightarrow> ('h, 'h env) cloud" where
  "computeService S = (if sv_compute S then ret (sv_cloud S) else raise unavailable)"

text \<open>\<open>errors.As(err, &refusal)\<close>: the refusal's status and code, if there is one.\<close>

fun as_refusal :: "err \<Rightarrow> (int \<times> string) option" where
  "as_refusal (Refuse st code) = Some (st, code)"
| "as_refusal (Wrap p e) = as_refusal e"
| "as_refusal (Detail e m) = as_refusal e"
| "as_refusal (Join a b) = (case as_refusal a of Some r \<Rightarrow> Some r | None \<Rightarrow> as_refusal b)"
| "as_refusal _ = None"

definition computeError :: "err \<Rightarrow> err" where
  "computeError e = (case as_refusal e of Some (st, code) \<Rightarrow> Refuse st code | None \<Rightarrow> internal_error)"

definition or_compute_error :: "('h, 'a) cloud \<Rightarrow> ('h, 'a) cloud" where
  "or_compute_error m = catchE m (\<lambda>e. raise (computeError e))"

text \<open>The event of a call on a resource, written for a refusal or handed to the service to write.\<close>

definition resource_event :: "call \<Rightarrow> string \<Rightarrow> string \<Rightarrow> audit_event" where
  "resource_event c code k = (call_event c code)\<lparr>av_resource := k\<rparr>"

definition record_refusal :: "'h server \<Rightarrow> call \<Rightarrow> string \<Rightarrow> err \<Rightarrow> ('h, unit) cloud" where
  "record_refusal S c k e = (case as_refusal e of
       None \<Rightarrow> ret () | Some (st, code) \<Rightarrow> recordDenied S (resource_event c code k))"

text \<open>\<open>volumeRefused\<close>, \<open>groupRefused\<close>, \<open>bucketRefused\<close> and the same steps written out elsewhere.\<close>

definition or_refused :: "'h server \<Rightarrow> call \<Rightarrow> string \<Rightarrow> ('h, 'a) cloud \<Rightarrow> ('h, 'a) cloud" where
  "or_refused S c k m = catchE m (\<lambda>e. seqE (record_refusal S c k e) (raise (computeError e)))"

text \<open>\<open>RecordAudit\<close> inside the transaction of the service.\<close>

definition audited :: "'h server \<Rightarrow> call \<Rightarrow> string \<Rightarrow> unit res" where
  "audited S c k = (let e = resource_event c '''' k in
     sv_audit S (e\<lparr>av_agent := truncate_to maxUserAgent (av_agent e)\<rparr>))"

definition admins_only :: "'h server \<Rightarrow> call \<Rightarrow> account \<Rightarrow> ('h, unit) cloud" where
  "admins_only S c a =
     whenE (\<not> ac_is_admin a)
       (seqE (recordDenied S (call_event c ''UnauthorizedOperation'')) (raise errUnauthorizedOperation))"

section \<open>Instances\<close>

record instance_body =
  ib_instance_id :: string
  ib_account_id :: string
  ib_image_id :: string
  ib_image_name :: string
  ib_guest_os :: string
  ib_install_iso_id :: string
  ib_driver_iso_id :: string
  ib_instance_type :: string
  ib_state :: inst_state
  ib_pending_action :: "action option"
  ib_state_reason :: string
  ib_private_ip :: string
  ib_mac :: string
  ib_vcpus :: int
  ib_memory_mib :: int
  ib_memory_min_mib :: int
  ib_ballooning :: bool
  ib_root_disk_gib :: int
  ib_disk_tier :: string
  ib_subnet_id :: string
  ib_key_name :: string
  ib_tags :: "(string, string) gomap"
  ib_client_token :: string
  ib_launch_time :: int
  ib_terminated_at :: "int option"
  ib_adopted :: bool
  ib_security_groups :: "(string \<times> string) list"
  ib_firewall_state :: string

definition instanceSubnetID :: "site \<Rightarrow> instance_row \<Rightarrow> string" where
  "instanceSubnetID s i =
     (case network_subnet (s_network s) (i_subnet i) of
        Some sub \<Rightarrow> subnet_id (sub_name sub)
      | None \<Rightarrow> (case network_subnet (s_network s) '''' of
          Some sub \<Rightarrow> subnet_id (sub_name sub) | None \<Rightarrow> subnet_id ''''))"

definition instanceJSON :: "site \<Rightarrow> instance_row \<Rightarrow> bool \<Rightarrow> (string \<times> string) list \<Rightarrow> instance_body" where
  "instanceJSON s i owned groups =
     \<lparr>ib_instance_id = i_id i, ib_account_id = i_account i, ib_image_id = i_image i,
      ib_image_name = (case gomap_get (s_images s) (i_image i) of None \<Rightarrow> '''' | Some d \<Rightarrow> img_name d),
      ib_guest_os = i_guest_os i, ib_install_iso_id = i_install_iso i, ib_driver_iso_id = i_driver_iso i,
      ib_instance_type = i_type i, ib_state = i_state i, ib_pending_action = i_pending i,
      ib_state_reason = i_state_reason i, ib_private_ip = fst (cut (i_ip i) CHR ''/''), ib_mac = i_mac i,
      ib_vcpus = i_cpu i, ib_memory_mib = i_memory i, ib_memory_min_mib = i_memory_min i,
      ib_ballooning = i_ballooning i, ib_root_disk_gib = i_root_disk i, ib_disk_tier = i_disk_tier i,
      ib_subnet_id = instanceSubnetID s i, ib_key_name = i_key_name i, ib_tags = i_tags i,
      ib_client_token = (if owned then i_client_token i else ''''), ib_launch_time = i_launch_time i,
      ib_terminated_at = i_terminated_at i, ib_adopted = i_adopted i, ib_security_groups = groups,
      ib_firewall_state = (if i_fw_generation i \<noteq> i_fw_applied i then ''applying'' else ''in-sync'')\<rparr>"

definition mayTouch :: "account \<Rightarrow> instance_row \<Rightarrow> bool" where
  "mayTouch a i \<longleftrightarrow> ac_is_admin a \<or> i_account i = ac_id a"

text \<open>The refusal is \<open>mayAct\<close>'s own to write, so it is an error here.\<close>

definition mayAct :: "'h server \<Rightarrow> call \<Rightarrow> account \<Rightarrow> string \<Rightarrow> ('h, unit) cloud" where
  "mayAct S c a k =
     attempt (db (sv_cloud S) (\<lambda>_. reading (\<lambda>d. GetInstance k (d_instances d)))) (\<lambda>r. case r of
         Inl e \<Rightarrow> raise (if err_is e NotFound then instance_not_found else internal_error)
       | Inr i \<Rightarrow> if mayTouch a i then ret ()
           else seqE (recordDenied S (resource_event c ''UnauthorizedOperation'' k)) (raise errUnauthorizedOperation))"

definition writeInstance :: "'h server \<Rightarrow> bool \<Rightarrow> instance_row \<Rightarrow> ('h, instance_body) cloud" where
  "writeInstance S owned i =
     bindE (or_internal (db (sv_cloud S) (\<lambda>_. reading (\<lambda>d. Inr (InstanceGroups (i_id i) d))))) (\<lambda>groups.
       ret (instanceJSON (e_site (sv_cloud S)) i owned groups))"

definition runInstances :: "'h server \<Rightarrow> call \<Rightarrow> account \<Rightarrow> run_request posted \<Rightarrow> ('h, int \<times> instance_body) cloud" where
  "runInstances S c a b =
     bindE (computeService S) (\<lambda>E.
     bindE (decodeJSON b) (\<lambda>r.
     bindE (or_refused S c '''' (Run E (ac_id a) r (\<lambda>i. audited S c (i_id i)))) (\<lambda>(i, created).
     bindE (writeInstance S True i) (\<lambda>body. ret (if created then 202 else 200, body)))))"

definition adoptInstance :: "'h server \<Rightarrow> call \<Rightarrow> account \<Rightarrow> adopt_request posted \<Rightarrow> ('h, int \<times> instance_body) cloud" where
  "adoptInstance S c a b =
     seqE (admins_only S c a)
     (bindE (computeService S) (\<lambda>E.
      bindE (decodeJSON b) (\<lambda>r.
      bindE (or_refused S c '''' (Adopt E r (\<lambda>i. audited S c (i_id i)))) (\<lambda>i.
      bindE (writeInstance S True i) (\<lambda>body. ret (201, body))))))"

text \<open>One query for the groups of all the instances.\<close>

definition describeInstances :: "'h server \<Rightarrow> account \<Rightarrow> string \<Rightarrow> ('h, instance_body list) cloud" where
  "describeInstances S a wanted =
     bindE (computeService S) (\<lambda>E.
     bindE (or_internal (db E (\<lambda>now. reading (\<lambda>d. Inr (ListInstances now wanted (d_instances d)))))) (\<lambda>is.
     bindE (or_internal (db E (\<lambda>_. reading (\<lambda>d. Inr (map (\<lambda>i. InstanceGroups (i_id i) d) is))))) (\<lambda>groups.
       ret (map2 (\<lambda>i. instanceJSON (e_site E) i (mayTouch a i)) is groups))))"

definition describeInstance :: "'h server \<Rightarrow> account \<Rightarrow> string \<Rightarrow> ('h, instance_body) cloud" where
  "describeInstance S a k =
     bindE (computeService S) (\<lambda>E.
     bindE (catchE (db E (\<lambda>_. reading (\<lambda>d. GetInstance k (d_instances d))))
             (\<lambda>e. raise (if err_is e NotFound then instance_not_found else internal_error))) (\<lambda>i.
       writeInstance S (mayTouch a i) i))"

definition modifyInstance :: "'h server \<Rightarrow> call \<Rightarrow> account \<Rightarrow> string \<Rightarrow> modify_request posted \<Rightarrow> ('h, instance_body) cloud" where
  "modifyInstance S c a k b =
     seqE (admins_only S c a)
     (bindE (computeService S) (\<lambda>E.
      bindE (decodeJSON b) (\<lambda>r.
      bindE (or_refused S c k (Modify E k r (\<lambda>i. audited S c (i_id i)))) (writeInstance S True))))"

definition modifyInstanceTags ::
    "'h server \<Rightarrow> call \<Rightarrow> account \<Rightarrow> string \<Rightarrow> (string, string) gomap option posted \<Rightarrow> ('h, instance_body) cloud" where
  "modifyInstanceTags S c a k b =
     bindE (computeService S) (\<lambda>E.
     seqE (mayAct S c a k)
     (bindE (decodeJSON b) (\<lambda>tags.
      bindE (or_refused S c k (SetInstanceTags' E k tags (mayTouch a) (\<lambda>i. audited S c (i_id i)))) (writeInstance S True))))"

definition instanceAction :: "action \<Rightarrow> 'h server \<Rightarrow> call \<Rightarrow> account \<Rightarrow> string \<Rightarrow> ('h, instance_body) cloud" where
  "instanceAction act S c a k =
     bindE (computeService S) (\<lambda>E.
     seqE (mayAct S c a k)
     (bindE (or_refused S c k (Request E k act (mayTouch a) (\<lambda>i. audited S c (i_id i)))) (\<lambda>i.
        writeInstance S (mayTouch a i) i)))"

text \<open>The order of \<open>sort.Slice\<close> among types of one memory size is left to the map's iteration; here it is the declaration's.\<close>

definition describeInstanceTypes :: "'h server \<Rightarrow> ('h, (string \<times> instance_type) list) cloud" where
  "describeInstanceTypes S =
     bindE (computeService S) (\<lambda>E. ret (sort_key (\<lambda>(name, t). it_memory_mib t) (instance_types (e_site E))))"

section \<open>The default group outside a transaction\<close>

text \<open>
  \<open>describeSecurityGroups\<close> gives \<open>EnsureDefaultSecurityGroup\<close> the pool instead of a transaction:
  the statements that \<open>Group_Ledger\<close> runs as one are then separate, and each is committed on its own.
\<close>

definition insert_default_group :: "int \<Rightarrow> group_row \<Rightarrow> group_row stmt" where
  "insert_default_group now g d =
     (let row = g\<lparr>g_default := True, g_created_at := now, g_updated_at := now\<rparr> in
      if name_taken (g_account g) (g_name g) d \<or> (\<exists>h \<in> set (d_groups d). g_account h = g_account g \<and> g_default h) \<or>
         g_id g \<in> g_id ` set (d_groups d)
      then (Inl NotFound, d)
      else grp_constrained d (d\<lparr>d_groups := d_groups d @ [row]\<rparr>) (Inr row))"

definition touch_groups :: "int \<Rightarrow> string list \<Rightarrow> unit stmt" where
  "touch_groups now ids d =
     grp_constrained d (d\<lparr>d_groups := update_where (\<lambda>g. g_id g \<in> set ids) (\<lambda>g. g\<lparr>g_updated_at := now\<rparr>) (d_groups d)\<rparr>) (Inr ())"

definition insert_rules_on_pool :: "'h env \<Rightarrow> rule_row list \<Rightarrow> ('h, unit) cloud" where
  "insert_rules_on_pool E rules =
     seqE (for_eachE rules (\<lambda>r. db E (\<lambda>now. insert_rules now [r])))
       (db E (\<lambda>now. touch_groups now (map gr_group rules)))"

definition ensure_default_on_pool :: "'h env \<Rightarrow> string \<Rightarrow> ('h, group_row) cloud" where
  "ensure_default_on_pool E acct =
     bindE (newGroupID E) (\<lambda>k.
     bindE (allTraffic E DirectionIngress) (\<lambda>ingress.
     bindE (allTraffic E DirectionEgress) (\<lambda>egress.
     attempt (db E (\<lambda>now. insert_default_group now (new_group k acct defaultGroupName ''default group: allows all traffic'')))
       (\<lambda>r. case r of
           Inl e \<Rightarrow> if err_is e NotFound
             then db E (\<lambda>_. reading (\<lambda>d. select_one (\<lambda>h. g_account h = acct \<and> g_default h) (d_groups d)))
             else raise e
         | Inr g \<Rightarrow> seqE (insert_rules_on_pool E (map (\<lambda>r. r\<lparr>gr_group := g_id g\<rparr>) (ingress @ egress))) (ret g)))))"

section \<open>Volumes\<close>

record attachment_body =
  ab_instance_id :: string
  ab_device :: string
  ab_state :: "attachment option"
  ab_device_path :: string

record volume_body =
  vb_volume_id :: string
  vb_account_id :: string
  vb_size_gib :: int
  vb_disk_tier :: string
  vb_state :: vol_state
  vb_state_reason :: string
  vb_modification_state :: string
  vb_serial :: string
  vb_tags :: "(string, string) gomap"
  vb_client_token :: string
  vb_create_time :: int
  vb_attachment :: "attachment_body option"

definition volumeJSON :: "volume_row \<Rightarrow> bool \<Rightarrow> volume_body" where
  "volumeJSON v owned =
     (let serial = VolumeSerial (v_id v) in
      \<lparr>vb_volume_id = v_id v, vb_account_id = v_account v, vb_size_gib = v_size v, vb_disk_tier = v_tier v,
       vb_state = v_state v,
       vb_state_reason = (if v_pending v = Some VolumeActionDetach \<and> v_last_error v \<noteq> '''' \<and> v_state_reason v = ''''
                          then ''Client.VolumeBusy: '' @ v_last_error v else v_state_reason v),
       vb_modification_state = (if v_pending v = Some VolumeActionResize then ''modifying'' else ''''),
       vb_serial = serial, vb_tags = v_tags v, vb_client_token = (if owned then v_client_token v else ''''),
       vb_create_time = v_created_at v,
       vb_attachment = (if v_instance v = '''' then None
          else Some \<lparr>ab_instance_id = v_instance v, ab_device = v_device v, ab_state = v_attachment v,
                     ab_device_path = ''/dev/disk/by-id/virtio-'' @ serial\<rparr>)\<rparr>)"

definition mayTouchVolume :: "account \<Rightarrow> volume_row \<Rightarrow> bool" where
  "mayTouchVolume a v \<longleftrightarrow> ac_is_admin a \<or> v_account v = ac_id a"

definition mayActOnVolume :: "'h server \<Rightarrow> call \<Rightarrow> account \<Rightarrow> string \<Rightarrow> ('h, unit) cloud" where
  "mayActOnVolume S c a k =
     attempt (db (sv_cloud S) (\<lambda>_. reading (\<lambda>d. GetVolume k (d_volumes d)))) (\<lambda>r. case r of
         Inl e \<Rightarrow> raise (if err_is e NotFound then volume_not_found else internal_error)
       | Inr v \<Rightarrow> if mayTouchVolume a v then ret ()
           else seqE (recordDenied S (resource_event c ''UnauthorizedOperation'' k)) (raise errUnauthorizedOperation))"

definition describeVolumes :: "'h server \<Rightarrow> account \<Rightarrow> ('h, volume_body list) cloud" where
  "describeVolumes S a =
     bindE (computeService S) (\<lambda>E.
     bindE (or_internal (db E (\<lambda>now. reading (\<lambda>d. Inr (ListVolumes now (d_volumes d)))))) (\<lambda>vs.
       ret (map (\<lambda>v. volumeJSON v (mayTouchVolume a v)) vs)))"

definition describeVolume :: "'h server \<Rightarrow> account \<Rightarrow> string \<Rightarrow> ('h, volume_body) cloud" where
  "describeVolume S a k =
     bindE (computeService S) (\<lambda>E.
     bindE (catchE (db E (\<lambda>_. reading (\<lambda>d. GetVolume k (d_volumes d))))
             (\<lambda>e. raise (if err_is e NotFound then volume_not_found else internal_error))) (\<lambda>v.
       ret (volumeJSON v (mayTouchVolume a v))))"

definition createVolume :: "'h server \<Rightarrow> call \<Rightarrow> account \<Rightarrow> volume_request posted \<Rightarrow> ('h, int \<times> volume_body) cloud" where
  "createVolume S c a b =
     bindE (computeService S) (\<lambda>E.
     bindE (decodeJSON b) (\<lambda>r.
     bindE (or_refused S c '''' (CreateVolume E (ac_id a) r (\<lambda>v. audited S c (v_id v)))) (\<lambda>(v, created).
       ret (if created then 202 else 200, volumeJSON v True))))"

definition modifyVolume :: "'h server \<Rightarrow> call \<Rightarrow> account \<Rightarrow> string \<Rightarrow> int posted \<Rightarrow> ('h, volume_body) cloud" where
  "modifyVolume S c a k b =
     bindE (computeService S) (\<lambda>E.
     seqE (mayActOnVolume S c a k)
     (bindE (decodeJSON b) (\<lambda>sz.
      bindE (or_refused S c k (ModifyVolume E k sz (mayTouchVolume a) (\<lambda>v. audited S c (v_id v)))) (\<lambda>v.
        ret (volumeJSON v True)))))"

definition deleteVolume :: "'h server \<Rightarrow> call \<Rightarrow> account \<Rightarrow> string \<Rightarrow> ('h, volume_body) cloud" where
  "deleteVolume S c a k =
     bindE (computeService S) (\<lambda>E.
     seqE (mayActOnVolume S c a k)
     (bindE (or_refused S c k (DeleteVolume E k (mayTouchVolume a) (\<lambda>v. audited S c (v_id v)))) (\<lambda>v.
        ret (volumeJSON v True))))"

text \<open>The body of an attach: the instance and the device.\<close>

definition attachVolume :: "'h server \<Rightarrow> call \<Rightarrow> account \<Rightarrow> string \<Rightarrow> (string \<times> string) posted \<Rightarrow> ('h, volume_body) cloud" where
  "attachVolume S c a k b =
     bindE (computeService S) (\<lambda>E.
     seqE (mayActOnVolume S c a k)
     (bindE (decodeJSON b) (\<lambda>(inst, device).
      bindE (or_refused S c k (AttachVolume E k inst device (mayTouchVolume a) (\<lambda>v. audited S c (v_id v)))) (\<lambda>v.
        ret (volumeJSON v True)))))"

text \<open>\<open>None\<close> is a request without a body.\<close>

definition detachVolume :: "'h server \<Rightarrow> call \<Rightarrow> account \<Rightarrow> string \<Rightarrow> unit posted option \<Rightarrow> ('h, volume_body) cloud" where
  "detachVolume S c a k b =
     bindE (computeService S) (\<lambda>E.
     seqE (mayActOnVolume S c a k)
     (seqE (case b of None \<Rightarrow> ret () | Some b \<Rightarrow> decodeJSON b)
     (bindE (or_refused S c k (DetachVolume E k (mayTouchVolume a) (\<lambda>v. audited S c (v_id v)))) (\<lambda>v.
        ret (volumeJSON v True)))))"

section \<open>Security groups\<close>

record rule_body =
  rb_rule_id :: string
  rb_protocol :: string
  rb_from_port :: "int option"
  rb_to_port :: "int option"
  rb_cidr :: string
  rb_description :: string

record group_body =
  gb_group_id :: string
  gb_account_id :: string
  gb_group_name :: string
  gb_description :: string
  gb_is_default :: bool
  gb_ingress :: "rule_body list"
  gb_egress :: "rule_body list"
  gb_instance_ids :: "string list"
  gb_created_at :: int

definition mayTouchGroup :: "account \<Rightarrow> group_row \<Rightarrow> bool" where
  "mayTouchGroup a g \<longleftrightarrow> ac_is_admin a \<or> g_account g = ac_id a"

definition ruleJSON :: "rule_row \<Rightarrow> rule_body" where
  "ruleJSON r = \<lparr>rb_rule_id = gr_id r, rb_protocol = gr_protocol r, rb_from_port = gr_from_port r, rb_to_port = gr_to_port r,
     rb_cidr = show_prefix (gr_cidr r), rb_description = gr_description r\<rparr>"

text \<open>The rules of a listing go to the group they belong to, in the listing's order.\<close>

definition groupJSON :: "rule_row list \<Rightarrow> string list \<Rightarrow> group_row \<Rightarrow> group_body" where
  "groupJSON rules instances g =
     (let own = filter (\<lambda>r. gr_group r = g_id g) rules in
      \<lparr>gb_group_id = g_id g, gb_account_id = g_account g, gb_group_name = g_name g, gb_description = g_description g,
       gb_is_default = g_default g,
       gb_ingress = map ruleJSON (filter (\<lambda>r. gr_direction r = DirectionIngress) own),
       gb_egress = map ruleJSON (filter (\<lambda>r. gr_direction r \<noteq> DirectionIngress) own),
       gb_instance_ids = instances, gb_created_at = g_created_at g\<rparr>)"

definition renderGroups :: "'h env \<Rightarrow> group_row list \<Rightarrow> ('h, group_body list) cloud" where
  "renderGroups E gs =
     bindE (db E (\<lambda>_. reading (\<lambda>d. Inr (RulesOfGroups (map g_id gs) d)))) (\<lambda>rules.
     bindE (db E (\<lambda>_. reading (\<lambda>d. Inr (map (\<lambda>g. GroupInstances (g_id g) d) gs)))) (\<lambda>instances.
       ret (map2 (\<lambda>g is. groupJSON rules is g) gs instances)))"

definition writeGroup :: "'h server \<Rightarrow> group_row \<Rightarrow> ('h, group_body) cloud" where
  "writeGroup S g = bindE (or_internal (renderGroups (sv_cloud S) [g])) (\<lambda>bodies. ret (hd bodies))"

definition describeSecurityGroups :: "'h server \<Rightarrow> account \<Rightarrow> ('h, group_body list) cloud" where
  "describeSecurityGroups S a =
     bindE (computeService S) (\<lambda>E.
     bindE (or_internal (ensure_default_on_pool E (ac_id a))) (\<lambda>_.
     bindE (or_internal (db E (\<lambda>_. reading (\<lambda>d. Inr (ListSecurityGroups (if ac_is_admin a then '''' else ac_id a) d))))) (\<lambda>gs.
       or_internal (renderGroups E gs))))"

definition describeSecurityGroup :: "'h server \<Rightarrow> account \<Rightarrow> string \<Rightarrow> ('h, group_body) cloud" where
  "describeSecurityGroup S a k =
     bindE (computeService S) (\<lambda>E.
     attempt (db E (\<lambda>_. reading (GetSecurityGroup k))) (\<lambda>r. case r of
         Inl e \<Rightarrow> raise (if err_is e NotFound then group_not_found else internal_error)
       | Inr g \<Rightarrow> if mayTouchGroup a g then writeGroup S g else raise group_not_found))"

definition createSecurityGroup :: "'h server \<Rightarrow> call \<Rightarrow> account \<Rightarrow> (string \<times> string) posted \<Rightarrow> ('h, group_body) cloud" where
  "createSecurityGroup S c a b =
     bindE (computeService S) (\<lambda>E.
     bindE (decodeJSON b) (\<lambda>(name, description).
     bindE (or_refused S c '''' (CreateSecurityGroup E (ac_id a) name description (\<lambda>g. audited S c (g_id g)))) (writeGroup S)))"

definition deleteSecurityGroup :: "'h server \<Rightarrow> call \<Rightarrow> account \<Rightarrow> string \<Rightarrow> ('h, unit) cloud" where
  "deleteSecurityGroup S c a k =
     bindE (computeService S) (\<lambda>E.
       or_refused S c k (DeleteSecurityGroup' E k (mayTouchGroup a) (\<lambda>g. audited S c (g_id g))))"

definition authorizeRules ::
    "direction \<Rightarrow> 'h server \<Rightarrow> call \<Rightarrow> account \<Rightarrow> string \<Rightarrow> rule_request list posted \<Rightarrow> ('h, group_body) cloud" where
  "authorizeRules dir S c a k b =
     bindE (computeService S) (\<lambda>E.
     bindE (decodeJSON b) (\<lambda>rs.
     bindE (or_refused S c k (AuthorizeRules E k dir rs (mayTouchGroup a) (\<lambda>g rules. audited S c (g_id g)))) (writeGroup S)))"

definition revokeSecurityGroupRule :: "'h server \<Rightarrow> call \<Rightarrow> account \<Rightarrow> string \<Rightarrow> string \<Rightarrow> ('h, group_body) cloud" where
  "revokeSecurityGroupRule S c a k rule =
     bindE (computeService S) (\<lambda>E.
     bindE (or_refused S c k (RevokeRule E k rule (mayTouchGroup a) (\<lambda>g. audited S c (g_id g)))) (writeGroup S))"

definition modifyInstanceSecurityGroups ::
    "'h server \<Rightarrow> call \<Rightarrow> account \<Rightarrow> string \<Rightarrow> string list posted \<Rightarrow> ('h, instance_body) cloud" where
  "modifyInstanceSecurityGroups S c a k b =
     bindE (computeService S) (\<lambda>E.
     seqE (mayAct S c a k)
     (bindE (decodeJSON b) (\<lambda>ids.
      bindE (or_refused S c k (SetInstanceSecurityGroups E k ids (mayTouch a) (\<lambda>i. audited S c (i_id i)))) (writeInstance S True))))"

section \<open>Limits and capacity\<close>

record quota_patch =
  qp_instances :: "int option"
  qp_vcpus :: "int option"
  qp_memory_mib :: "int option"
  qp_root_disk_gib :: "int option"
  qp_volumes :: "int option"
  qp_volume_gib :: "int option"

record root_disk_patch =
  rp_min :: "int option"
  rp_default :: "int option"
  rp_max :: "int option"

record capacity_patch =
  cq_memory_budget_mib :: "int option"
  cq_node_memory_reserve_mib :: "int option"
  cq_vm_disk_max_used_percent :: "int option"
  cq_image_store_min_free_mib :: "int option"
  cq_max_image_gib :: "int option"

record limits_patch =
  lp_quota :: "quota_patch option"
  lp_root_disk :: "root_disk_patch option"
  lp_volume_size :: "(int option \<times> int option) option"
  lp_capacity :: "capacity_patch option"

definition overrides :: "limits_patch \<Rightarrow> limit_overrides" where
  "overrides p =
     (let q = (\<lambda>f. Option.bind (lp_quota p) f); d = (\<lambda>f. Option.bind (lp_root_disk p) f);
          v = (\<lambda>f. Option.bind (lp_volume_size p) f); c = (\<lambda>f. Option.bind (lp_capacity p) f) in
      \<lparr>o_account_instances = q qp_instances, o_account_vcpus = q qp_vcpus, o_account_memory_mib = q qp_memory_mib,
       o_account_root_disk_gib = q qp_root_disk_gib, o_root_disk_min_gib = d rp_min, o_root_disk_default_gib = d rp_default,
       o_root_disk_max_gib = d rp_max, o_memory_budget_mib = c cq_memory_budget_mib,
       o_node_memory_reserve_mib = c cq_node_memory_reserve_mib, o_vm_disk_max_used_percent = c cq_vm_disk_max_used_percent,
       o_image_store_min_free_mib = c cq_image_store_min_free_mib, o_max_image_gib = c cq_max_image_gib,
       o_account_volumes = q qp_volumes, o_account_volume_gib = q qp_volume_gib, o_volume_min_gib = v fst,
       o_volume_max_gib = v snd\<rparr>)"

definition given :: "int option list \<Rightarrow> 'p \<Rightarrow> 'p option" where
  "given xs p = (if \<exists>f \<in> set xs. f \<noteq> None then Some p else None)"

definition overridesJSON :: "limit_overrides \<Rightarrow> limits_patch" where
  "overridesJSON ov =
     \<lparr>lp_quota = given [o_account_instances ov, o_account_vcpus ov, o_account_memory_mib ov, o_account_root_disk_gib ov,
          o_account_volumes ov, o_account_volume_gib ov]
        \<lparr>qp_instances = o_account_instances ov, qp_vcpus = o_account_vcpus ov, qp_memory_mib = o_account_memory_mib ov,
         qp_root_disk_gib = o_account_root_disk_gib ov, qp_volumes = o_account_volumes ov, qp_volume_gib = o_account_volume_gib ov\<rparr>,
      lp_root_disk = given [o_root_disk_min_gib ov, o_root_disk_default_gib ov, o_root_disk_max_gib ov]
        \<lparr>rp_min = o_root_disk_min_gib ov, rp_default = o_root_disk_default_gib ov, rp_max = o_root_disk_max_gib ov\<rparr>,
      lp_volume_size = given [o_volume_min_gib ov, o_volume_max_gib ov] (o_volume_min_gib ov, o_volume_max_gib ov),
      lp_capacity = given [o_memory_budget_mib ov, o_node_memory_reserve_mib ov, o_vm_disk_max_used_percent ov,
          o_image_store_min_free_mib ov, o_max_image_gib ov]
        \<lparr>cq_memory_budget_mib = o_memory_budget_mib ov, cq_node_memory_reserve_mib = o_node_memory_reserve_mib ov,
         cq_vm_disk_max_used_percent = o_vm_disk_max_used_percent ov,
         cq_image_store_min_free_mib = o_image_store_min_free_mib ov, cq_max_image_gib = o_max_image_gib ov\<rparr>\<rparr>"

text \<open>A field of a patch that is left out because it has no field is no field.\<close>

lemma bind_given: "f p \<in> set xs \<Longrightarrow> Option.bind (given xs p) f = f p"
  by (auto simp: given_def)

lemma overrides_overridesJSON: "overrides (overridesJSON ov) = ov"
  by (cases ov) (simp add: overrides_def overridesJSON_def bind_given Let_def)

text \<open>The answer: the limits in force, the deployment's own, and what is overridden.\<close>

definition limitsResponse :: "'h env \<Rightarrow> limits \<Rightarrow> limit_overrides \<Rightarrow> limits \<times> limits \<times> limits_patch" where
  "limitsResponse E effective ov = (effective, s_limits (e_site E), overridesJSON ov)"

definition describeLimits :: "'h server \<Rightarrow> ('h, limits \<times> limits \<times> limits_patch) cloud" where
  "describeLimits S =
     bindE (computeService S) (\<lambda>E.
     bindE (or_internal (EffectiveLimits E (db E))) (\<lambda>(effective, ov). ret (limitsResponse E effective ov)))"

definition updateLimits ::
    "'h server \<Rightarrow> call \<Rightarrow> account \<Rightarrow> limits_patch posted \<Rightarrow> ('h, limits \<times> limits \<times> limits_patch) cloud" where
  "updateLimits S c a b =
     seqE (admins_only S c a)
     (bindE (computeService S) (\<lambda>E.
      bindE (decodeJSON b) (\<lambda>p.
      bindE (or_compute_error (SetLimits E (overrides p) (audited S c ''''))) (\<lambda>(effective, stored).
        ret (limitsResponse E effective stored)))))"

text \<open>The usage of every account is in the answer only for an administrator.\<close>

definition describeCapacity :: "'h server \<Rightarrow> account \<Rightarrow> ('h, capacity) cloud" where
  "describeCapacity S a =
     bindE (computeService S) (\<lambda>E. or_compute_error (Capacity E (ac_id a) (ac_is_admin a)))"

section \<open>Subnets\<close>

record subnet_body =
  sb_subnet_id :: string
  sb_name :: string
  sb_cidr_block :: string
  sb_gateway :: string
  sb_vlan_id :: int
  sb_default :: bool
  sb_launchable :: bool
  sb_state_reason :: string
  sb_description :: string

definition subnetJSON :: "network \<Rightarrow> subnet \<Rightarrow> subnet_body" where
  "subnetJSON n s = (case launchable n s of (ok, reason) \<Rightarrow>
     \<lparr>sb_subnet_id = subnet_id (sub_name s), sb_name = sub_name s, sb_cidr_block = sub_prefix s, sb_gateway = sub_gateway s,
      sb_vlan_id = sub_vlan_id s, sb_default = sub_default s, sb_launchable = ok, sb_state_reason = reason,
      sb_description = sub_description s\<rparr>)"

definition describeSubnets :: "'h server \<Rightarrow> ('h, subnet_body list) cloud" where
  "describeSubnets S =
     bindE (computeService S) (\<lambda>E.
       ret (map (subnetJSON (s_network (e_site E))) (subnet_list (s_network (e_site E)))))"

definition describeSubnet :: "'h server \<Rightarrow> string \<Rightarrow> ('h, subnet_body) cloud" where
  "describeSubnet S k =
     bindE (computeService S) (\<lambda>E.
       let n = s_network (e_site E); name = trim_prefix k ''subnet-'' in
       if \<not> has_prefix k ''subnet-'' \<or> name = '''' then raise (Refuse 404 ''InvalidSubnetID.NotFound'')
       else case network_subnet n name of
           None \<Rightarrow> raise (Refuse 404 ''InvalidSubnetID.NotFound'')
         | Some s \<Rightarrow> ret (subnetJSON n s))"

end
