(* ===== verification/Ssh_Key.thy ===== *)
theory Ssh_Key
  imports Http_Request
begin

text \<open>
  \<open>api/internal/sshkey\<close>: the SSH public keys an account may import. \<open>Parse\<close> reads one line, checks the
  algorithm against the one inside the key, and normalises and fingerprints the key. SHA-256 is the
  parameter \<open>sha\<close>. Which of its messages a refusal carries is not modelled.
\<close>

section \<open>Fields and base64\<close>

text \<open>
  \<open>strings.Fields\<close>: the runs of bytes between white space. No white space character starts inside
  another character, so the scan may go byte by byte.
\<close>

function field_bytes :: "nat list \<Rightarrow> nat list \<Rightarrow> nat list list" where
  "field_bytes acc s =
     (let done = (if acc = [] then [] else [acc]) in
      if s = [] then done
      else if space_size s > 0 then done @ field_bytes [] (drop (space_size s) s)
      else field_bytes (acc @ [hd s]) (tl s))"
  by pat_completeness auto
termination by (relation "measure (\<lambda>(acc, s). length s)") auto

declare field_bytes.simps [simp del]

definition fields_of :: "string \<Rightarrow> string list" where
  "fields_of s = map (map char_of) (field_bytes [] (bytes_of s))"

definition std_alphabet :: string where
  "std_alphabet = ''ABCDEFGHIJKLMNOPQRSTUVWXYZabcdefghijklmnopqrstuvwxyz0123456789+/''"

definition raw_std_base64 :: "nat list \<Rightarrow> string" where
  "raw_std_base64 = encode_bits 6 std_alphabet"

definition value_bits :: "nat \<Rightarrow> bool list" where
  "value_bits v = map (\<lambda>i. odd (v div 2 ^ (5 - i))) [0..<6]"

text \<open>
  \<open>base64.StdEncoding.DecodeString\<close>: line breaks are skipped, the text is padded to a multiple of four,
  and the bits of the last character that do not fill a byte are dropped.
\<close>

definition std_base64_decode :: "string \<Rightarrow> nat list option" where
  "std_base64_decode s =
     (let t = filter (\<lambda>ch. ch \<noteq> CHR 0x0A \<and> ch \<noteq> CHR 0x0D) s;
          data = takeWhile (\<lambda>ch. ch \<noteq> CHR ''='') t; pad = dropWhile (\<lambda>ch. ch \<noteq> CHR ''='') t in
      if length t mod 4 \<noteq> 0 \<or> length pad > 2 \<or> \<not> list_all (\<lambda>ch. ch = CHR ''='') pad then None
      else case those (map (index_of std_alphabet) data) of None \<Rightarrow> None
      | Some vs \<Rightarrow> Some (map bits_value (filter (\<lambda>g. length g = 8) (groups_of 8 (concat (map value_bits vs))))))"

section \<open>Parsing a key\<close>

definition accepted :: "string list" where
  "accepted = [''ssh-ed25519'', ''sk-ssh-ed25519@openssh.com'', ''ecdsa-sha2-nistp256'', ''ecdsa-sha2-nistp384'',
     ''ecdsa-sha2-nistp521'', ''sk-ecdsa-sha2-nistp256@openssh.com'', ''ssh-rsa'', ''rsa-sha2-256'', ''rsa-sha2-512'']"

record ssh_key =
  ssh_type :: string
  ssh_text :: string
  ssh_fingerprint :: string
  ssh_comment :: string

definition be32 :: "nat list \<Rightarrow> nat" where
  "be32 b = ((b ! 0 * 256 + b ! 1) * 256 + b ! 2) * 256 + b ! 3"

definition firstString :: "nat list \<Rightarrow> string option" where
  "firstString blob =
     (if length blob < 4 then None
      else let n = be32 (take 4 blob) in
        if n = 0 \<or> n > length blob - 4 then None else Some (map char_of (take n (drop 4 blob))))"

definition key_line :: "string \<Rightarrow> string \<Rightarrow> string \<Rightarrow> string" where
  "key_line kind encoded comment = trim_space (kind @ '' '' @ encoded @ '' '' @ comment)"

definition ssh_parse :: "(string \<Rightarrow> nat list) \<Rightarrow> string \<Rightarrow> ssh_key option" where
  "ssh_parse sha line =
     (let line = trim_space (filter (\<lambda>ch. ch \<noteq> CHR 0x0D) line) in
      if contains_str line ''PRIVATE KEY'' \<or> CHR 0x0A \<in> set line then None
      else case fields_of line of
          kind # encoded # rest \<Rightarrow>
            if kind \<notin> set accepted then None
            else (case std_base64_decode encoded of None \<Rightarrow> None
              | Some blob \<Rightarrow>
                  if firstString blob \<noteq> Some kind then None
                  else let comment = join_with '' '' rest in
                    Some \<lparr>ssh_type = kind, ssh_text = key_line kind encoded comment,
                      ssh_fingerprint = ''SHA256:'' @ raw_std_base64 (sha (map char_of blob)), ssh_comment = comment\<rparr>)
        | _ \<Rightarrow> None)"

end
