(* ===== verification/Tenant_Endpoints.thy ===== *)
theory Tenant_Endpoints
  imports Endpoints Workloads Ssh_Key
begin

text \<open>
  The JSON handlers of \<open>server/images.go\<close>, \<open>isos.go\<close>, \<open>keypairs.go\<close>, \<open>buckets.go\<close>, \<open>databases.go\<close>,
  \<open>functions.go\<close>, \<open>services.go\<close> and \<open>handlers.go\<close>: uploads, keys and the appliances of an account, and
  who may read the audit trail.
\<close>

section \<open>Images and ISOs\<close>

record image_body =
  mb_image_id :: string
  mb_name :: string
  mb_public :: bool
  mb_account_id :: string
  mb_format :: string
  mb_os :: string
  mb_size_mib :: "int option"
  mb_created_at :: "int option"

text \<open>\<open>(bytes + (1 << 20) - 1) >> 20\<close>.\<close>

definition sizeMiB :: "int \<Rightarrow> int" where "sizeMiB bytes = wrap64 (bytes + 2 ^ 20 - 1) div 2 ^ 20"

text \<open>A row of the ledger has a creation time; the shared media, whose time is zero, have none.\<close>

definition imageJSON :: "image_info \<Rightarrow> image_body" where
  "imageJSON i = \<lparr>mb_image_id = ii_id i, mb_name = ii_name i, mb_public = ii_public i, mb_account_id = ii_account i,
     mb_format = ii_format i, mb_os = ii_os i, mb_size_mib = (if ii_size i > 0 then Some (sizeMiB (ii_size i)) else None),
     mb_created_at = (if ii_created_at i = 0 then None else Some (ii_created_at i))\<rparr>"

definition describeImages :: "'h server \<Rightarrow> ('h, image_body list) cloud" where
  "describeImages S =
     bindE (computeService S) (\<lambda>E. bindE (or_internal (Images E)) (\<lambda>is. ret (map imageJSON is)))"

text \<open>
  A multipart body as the parts \<open>NextPart\<close> hands out: the name of the form field, what reading the
  part as text gives (\<open>None\<close> is an error), and the file. Whether the sequence of parts ends cleanly
  or with an error only changes the message, so the end is not told apart.
\<close>

record part =
  pt_form :: string
  pt_text :: "string option"
  pt_filename :: string
  pt_body :: body

definition maxImageNameField :: nat where "maxImageNameField = 4096"

definition malformed :: err where "malformed = Refuse 400 ''MalformedRequest''"

text \<open>The loop of \<open>importImage\<close>, with the name read so far.\<close>

fun image_part :: "part list \<Rightarrow> string \<Rightarrow> (string \<times> part) res" where
  "image_part [] name = Inl malformed"
| "image_part (p # ps) name =
     (if pt_form p = ''name'' then
        (case pt_text p of None \<Rightarrow> Inl malformed | Some s \<Rightarrow> image_part ps (trim_space (take maxImageNameField s)))
      else if pt_form p = ''file'' then (if name = '''' then Inl malformed else Inr (name, p))
      else Inl malformed)"

text \<open>An upload runs outside a transaction; its audit closure writes on the pool.\<close>

definition importImage ::
    "'h server \<Rightarrow> call \<Rightarrow> account \<Rightarrow> bool \<Rightarrow> unit res \<times> unit res \<Rightarrow> part list option \<Rightarrow> ('h, image_body) cloud" where
  "importImage S c a has_dir spool parts =
     bindE (computeService S) (\<lambda>E.
     case parts of None \<Rightarrow> raise malformed
     | Some ps \<Rightarrow> bindE (of_res (image_part ps '''')) (\<lambda>(name, p).
         bindE (or_refused S c '''' (ImportImage E has_dir spool (ac_id a) name (pt_filename p) (pt_body p)
             (\<lambda>i. audited S c (im_id i)))) (\<lambda>i. ret (imageJSON (imageOf i)))))"

definition mayDelete :: "account \<Rightarrow> image_row \<Rightarrow> bool" where
  "mayDelete a i \<longleftrightarrow> ac_is_admin a \<or> im_account i = ac_id a"

definition deleteImage :: "'h server \<Rightarrow> call \<Rightarrow> account \<Rightarrow> string \<Rightarrow> ('h, unit) cloud" where
  "deleteImage S c a k =
     bindE (computeService S) (\<lambda>E.
       or_refused S c k (DeleteImage' E k (mayDelete a) (\<lambda>i. audited S c (im_id i))))"

record iso_body =
  xb_iso_id :: string
  xb_name :: string
  xb_os :: string
  xb_public :: bool
  xb_account_id :: string
  xb_size_mib :: int
  xb_created_at :: "int option"

definition isoJSON :: "iso_info \<Rightarrow> iso_body" where
  "isoJSON i = \<lparr>xb_iso_id = is_id i, xb_name = is_name i, xb_os = is_os i, xb_public = is_public i,
     xb_account_id = is_account i, xb_size_mib = sizeMiB (is_size i),
     xb_created_at = (if is_created_at i = 0 then None else Some (is_created_at i))\<rparr>"

definition describeISOs :: "'h server \<Rightarrow> ('h, iso_body list) cloud" where
  "describeISOs S =
     bindE (computeService S) (\<lambda>E. bindE (or_compute_error (ISOs E)) (\<lambda>is. ret (map isoJSON is)))"

fun iso_part :: "part list \<Rightarrow> string \<Rightarrow> string \<Rightarrow> (string \<times> string \<times> part) res" where
  "iso_part [] name guest = Inl malformed"
| "iso_part (p # ps) name guest =
     (if pt_form p = ''name'' \<or> pt_form p = ''os'' then
        (case pt_text p of None \<Rightarrow> Inl malformed
         | Some s \<Rightarrow> let s = trim_space (take maxImageNameField s) in
             if pt_form p = ''name'' then iso_part ps s guest else iso_part ps name s)
      else if pt_form p = ''file'' then (if name = '''' then Inl malformed else Inr (name, guest, p))
      else Inl malformed)"

definition importISO ::
    "'h server \<Rightarrow> call \<Rightarrow> account \<Rightarrow> bool \<Rightarrow> unit res \<times> unit res \<Rightarrow> part list option \<Rightarrow> ('h, iso_body) cloud" where
  "importISO S c a has_dir spool parts =
     bindE (computeService S) (\<lambda>E.
     case parts of None \<Rightarrow> raise malformed
     | Some ps \<Rightarrow> bindE (of_res (iso_part ps '''' '''')) (\<lambda>(name, guest, p).
         bindE (or_refused S c '''' (ImportISO E has_dir spool (ac_id a) name guest (pt_filename p) (pt_body p)
             (\<lambda>i. audited S c (iso_id i)))) (\<lambda>i. ret (isoJSON (isoOf i)))))"

text \<open>ISOs are shared: the handler passes no authorization, so anyone signed in may delete one.\<close>

definition deleteISO :: "'h server \<Rightarrow> call \<Rightarrow> string \<Rightarrow> ('h, unit) cloud" where
  "deleteISO S c k =
     bindE (computeService S) (\<lambda>E.
       or_refused S c k (DeleteISO' E k (\<lambda>_. True) (\<lambda>i. audited S c (iso_id i))))"

section \<open>SSH keys\<close>

definition keyPairJSON :: "key_pair \<Rightarrow> string \<times> string \<times> int" where
  "keyPairJSON k = (kp_name k, kp_fingerprint k, kp_created_at k)"

definition describeKeyPairs :: "'h server \<Rightarrow> account \<Rightarrow> ('h, (string \<times> string \<times> int) list) cloud" where
  "describeKeyPairs S a =
     bindE (or_internal (db (sv_cloud S) (\<lambda>_. reading (\<lambda>d. Inr (ListKeyPairs (ac_id a) d))))) (\<lambda>ks. ret (map keyPairJSON ks))"

definition importKeyPair ::
    "'h server \<Rightarrow> call \<Rightarrow> account \<Rightarrow> (string \<times> string) posted \<Rightarrow> ('h, string \<times> string \<times> int) cloud" where
  "importKeyPair S c a b =
     bindE (decodeJSON b) (\<lambda>(name, public_key).
     if \<not> key_name_ok name then raise (Refuse 400 ''ValidationError'')
     else case ssh_parse (e_sha256 (sv_cloud S)) public_key of None \<Rightarrow> raise (Refuse 400 ''ValidationError'')
     | Some key \<Rightarrow>
         bindE (catchE (db (sv_cloud S) (\<lambda>now. InsertKeyPair now \<lparr>kp_account = ac_id a, kp_name = name,
                  kp_public_key = ssh_text key, kp_fingerprint = ssh_fingerprint key, kp_created_at = 0\<rparr>))
             (\<lambda>e. if err_is e ErrKeyNameTaken
                  then seqE (recordDenied S (call_event c ''InvalidKeyPair.Duplicate'')) (raise (Refuse 409 ''InvalidKeyPair.Duplicate''))
                  else raise internal_error)) (\<lambda>created.
           seqE (recordDenied S (resource_event c '''' (kp_name created))) (ret (keyPairJSON created))))"

definition deleteKeyPair :: "'h server \<Rightarrow> call \<Rightarrow> account \<Rightarrow> string \<Rightarrow> ('h, unit) cloud" where
  "deleteKeyPair S c a name =
     seqE (catchE (db (sv_cloud S) (\<lambda>_. DeleteKeyPair (ac_id a) name))
       (\<lambda>e. raise (if err_is e NotFound then Refuse 404 ''InvalidKeyPair.NotFound'' else internal_error)))
     (recordDenied S (resource_event c '''' name))"

section \<open>Buckets and S3 keys\<close>

record bucket_body =
  bb_name :: string
  bb_account_id :: string
  bb_objects :: int
  bb_bytes :: int
  bb_keys :: "bucket_permission list"
  bb_created_at :: int

definition mayTouchBucket :: "account \<Rightarrow> bucket_row \<Rightarrow> bool" where
  "mayTouchBucket a b \<longleftrightarrow> ac_is_admin a \<or> bu_account b = ac_id a"

definition mayTouchS3Key :: "account \<Rightarrow> s3_key \<Rightarrow> bool" where
  "mayTouchS3Key a k \<longleftrightarrow> ac_is_admin a \<or> sk_account k = ac_id a"

definition bucketJSON :: "bucket_status \<Rightarrow> bucket_body" where
  "bucketJSON st = \<lparr>bb_name = bu_name (bs_bucket st), bb_account_id = bu_account (bs_bucket st), bb_objects = bs_objects st,
     bb_bytes = bs_bytes st, bb_keys = bs_keys st, bb_created_at = bu_created_at (bs_bucket st)\<rparr>"

text \<open>The account a listing is restricted to: every account for an administrator.\<close>

definition list_scope :: "account \<Rightarrow> string" where
  "list_scope a = (if ac_is_admin a then '''' else ac_id a)"

definition describeBuckets :: "'h server \<Rightarrow> account \<Rightarrow> ('h, bucket_body list) cloud" where
  "describeBuckets S a =
     bindE (computeService S) (\<lambda>E.
     bindE (or_internal (ListBuckets' E (list_scope a))) (\<lambda>sts.
       ret (map bucketJSON (filter (\<lambda>st. mayTouchBucket a (bs_bucket st)) sts))))"

definition createBucket :: "'h server \<Rightarrow> call \<Rightarrow> account \<Rightarrow> string posted \<Rightarrow> ('h, int \<times> bucket_body) cloud" where
  "createBucket S c a b =
     bindE (computeService S) (\<lambda>E.
     bindE (decodeJSON b) (\<lambda>name.
     bindE (or_refused S c name (CreateBucket E (ac_id a) name (\<lambda>b. audited S c (bu_name b)))) (\<lambda>(bucket, created).
     bindE (or_compute_error (GetBucket' E (bu_name bucket) (mayTouchBucket a))) (\<lambda>st.
       ret (if created then 201 else 200, bucketJSON st)))))"

definition describeBucket :: "'h server \<Rightarrow> call \<Rightarrow> account \<Rightarrow> string \<Rightarrow> ('h, bucket_body) cloud" where
  "describeBucket S c a name =
     bindE (computeService S) (\<lambda>E.
     bindE (or_refused S c name (GetBucket' E name (mayTouchBucket a))) (\<lambda>st. ret (bucketJSON st)))"

definition deleteBucket :: "'h server \<Rightarrow> call \<Rightarrow> account \<Rightarrow> string \<Rightarrow> ('h, unit) cloud" where
  "deleteBucket S c a name =
     bindE (computeService S) (\<lambda>E.
       or_refused S c name (DeleteBucket' E name (mayTouchBucket a) (\<lambda>b. audited S c (bu_name b))))"

definition listS3Keys :: "'h server \<Rightarrow> account \<Rightarrow> ('h, s3_key list) cloud" where
  "listS3Keys S a =
     bindE (computeService S) (\<lambda>E.
     bindE (or_internal (ListS3Keys' E (list_scope a))) (\<lambda>ks. ret (filter (mayTouchS3Key a) ks)))"

definition createS3Key :: "'h server \<Rightarrow> call \<Rightarrow> account \<Rightarrow> string posted \<Rightarrow> ('h, s3_key \<times> string) cloud" where
  "createS3Key S c a b =
     bindE (computeService S) (\<lambda>E.
     bindE (decodeJSON b) (\<lambda>name.
       or_refused S c name (CreateS3Key E (ac_id a) name (\<lambda>k. audited S c (sk_id k)))))"

definition deleteS3Key :: "'h server \<Rightarrow> call \<Rightarrow> account \<Rightarrow> string \<Rightarrow> ('h, unit) cloud" where
  "deleteS3Key S c a k =
     bindE (computeService S) (\<lambda>E.
       or_refused S c k (DeleteS3Key' E k (mayTouchS3Key a) (\<lambda>key. audited S c (sk_id key))))"

definition setBucketPermission ::
    "'h server \<Rightarrow> call \<Rightarrow> account \<Rightarrow> string \<Rightarrow> string \<Rightarrow> (bool \<times> bool \<times> bool) posted \<Rightarrow> ('h, bucket_body) cloud" where
  "setBucketPermission S c a name k b =
     bindE (computeService S) (\<lambda>E.
     bindE (decodeJSON b) (\<lambda>perm.
     bindE (or_refused S c name (SetBucketPermission' E name k perm (mayTouchBucket a)
         (\<lambda>bucket key. audited S c (bu_name bucket)))) (\<lambda>st. ret (bucketJSON st))))"

definition revokeBucketPermission :: "'h server \<Rightarrow> call \<Rightarrow> account \<Rightarrow> string \<Rightarrow> string \<Rightarrow> ('h, bucket_body) cloud" where
  "revokeBucketPermission S c a name k =
     bindE (computeService S) (\<lambda>E.
     bindE (or_refused S c name (RevokeBucketPermission E name k (mayTouchBucket a)
         (\<lambda>bucket key. audited S c (bu_name bucket)))) (\<lambda>st. ret (bucketJSON st)))"

section \<open>Databases\<close>

record database_body =
  db_id :: string
  db_name :: string
  db_account_id :: string
  db_engine :: string
  db_version :: string
  db_storage_gib :: int
  db_status :: string
  db_instances :: int
  db_ready :: int
  db_host :: string
  db_port :: int
  db_created_at :: int

definition mayTouchDatabase :: "account \<Rightarrow> database_row \<Rightarrow> bool" where
  "mayTouchDatabase a d \<longleftrightarrow> ac_is_admin a \<or> da_account d = ac_id a"

definition databaseJSON :: "database_status \<Rightarrow> database_body" where
  "databaseJSON st =
     (let d = ds_database st in
      \<lparr>db_id = da_id d, db_name = da_name d, db_account_id = da_account d, db_engine = da_engine d, db_version = da_version d,
       db_storage_gib = da_storage_gib d, db_status = ds_phase st, db_instances = ds_instances st, db_ready = ds_ready st,
       db_host = da_id d @ ''-rw.'' @ da_namespace d @ ''.svc'', db_port = 5432, db_created_at = da_created_at d\<rparr>)"

definition describeDatabases :: "'h server \<Rightarrow> account \<Rightarrow> ('h, database_body list) cloud" where
  "describeDatabases S a =
     bindE (computeService S) (\<lambda>E.
     bindE (or_compute_error (ListDatabases' E (list_scope a))) (\<lambda>sts.
       ret (map databaseJSON (filter (\<lambda>st. mayTouchDatabase a (ds_database st)) sts))))"

definition createDatabase :: "'h server \<Rightarrow> call \<Rightarrow> account \<Rightarrow> (string \<times> int) posted \<Rightarrow> ('h, int \<times> database_body) cloud" where
  "createDatabase S c a b =
     bindE (computeService S) (\<lambda>E.
     bindE (decodeJSON b) (\<lambda>(name, gib).
     bindE (or_refused S c name (CreateDatabase E (ac_id a) name gib (\<lambda>d. audited S c (da_id d)))) (\<lambda>(d, created).
     bindE (or_compute_error (GetDatabase' E (da_id d))) (\<lambda>st. ret (if created then 201 else 200, databaseJSON st)))))"

text \<open>The status of a database the caller may see; anyone else's answers as if there were none.\<close>

definition owned_database :: "'h env \<Rightarrow> account \<Rightarrow> string \<Rightarrow> ('h, database_status) cloud" where
  "owned_database E a k =
     bindE (or_compute_error (GetDatabase' E k)) (\<lambda>st.
       if mayTouchDatabase a (ds_database st) then ret st else raise databaseNotFound)"

definition describeDatabase :: "'h server \<Rightarrow> account \<Rightarrow> string \<Rightarrow> ('h, database_body) cloud" where
  "describeDatabase S a k =
     bindE (computeService S) (\<lambda>E. bindE (owned_database E a k) (\<lambda>st. ret (databaseJSON st)))"

definition deleteDatabase :: "'h server \<Rightarrow> call \<Rightarrow> account \<Rightarrow> string \<Rightarrow> ('h, unit) cloud" where
  "deleteDatabase S c a k =
     bindE (computeService S) (\<lambda>E.
     bindE (owned_database E a k) (\<lambda>st.
       or_refused S c k (DeleteDatabase' E k (\<lambda>d. audited S c (da_id d)))))"

definition getDatabaseCredentials :: "'h server \<Rightarrow> call \<Rightarrow> account \<Rightarrow> string \<Rightarrow> ('h, (string, string) gomap) cloud" where
  "getDatabaseCredentials S c a k =
     bindE (computeService S) (\<lambda>E.
     bindE (or_compute_error (DatabaseCredentials E k)) (\<lambda>(d, credentials).
       if \<not> mayTouchDatabase a d then raise databaseNotFound
       else seqE (or_internal (db E (\<lambda>_. RecordAudit S (resource_event c '''' (da_id d))))) (ret credentials)))"

section \<open>Functions\<close>

record function_body =
  nb_id :: string
  nb_name :: string
  nb_account_id :: string
  nb_image :: string
  nb_status :: string
  nb_url :: string
  nb_created_at :: int

definition mayTouchFunction :: "account \<Rightarrow> function_row \<Rightarrow> bool" where
  "mayTouchFunction a f \<longleftrightarrow> ac_is_admin a \<or> fu_account f = ac_id a"

definition functionJSON :: "function_status \<Rightarrow> function_body" where
  "functionJSON st =
     (let f = fs_function st in
      \<lparr>nb_id = fu_id f, nb_name = fu_name f, nb_account_id = fu_account f, nb_image = fu_image f,
       nb_status = (if fs_ready st then ''Ready'' else ''Provisioning''), nb_url = fs_url st, nb_created_at = fu_created_at f\<rparr>)"

definition describeFunctions :: "'h server \<Rightarrow> account \<Rightarrow> ('h, function_body list) cloud" where
  "describeFunctions S a =
     bindE (computeService S) (\<lambda>E.
     bindE (or_compute_error (ListFunctions' E (list_scope a))) (\<lambda>sts.
       ret (map functionJSON (filter (\<lambda>st. mayTouchFunction a (fs_function st)) sts))))"

definition createFunction :: "'h server \<Rightarrow> call \<Rightarrow> account \<Rightarrow> (string \<times> string) posted \<Rightarrow> ('h, int \<times> function_body) cloud" where
  "createFunction S c a b =
     bindE (computeService S) (\<lambda>E.
     bindE (decodeJSON b) (\<lambda>(name, img).
     bindE (or_refused S c name (CreateFunction E (ac_id a) name img (\<lambda>f. audited S c (fu_id f)))) (\<lambda>(f, created).
     bindE (or_compute_error (GetFunction' E (fu_id f))) (\<lambda>st. ret (if created then 201 else 200, functionJSON st)))))"

definition owned_function :: "'h env \<Rightarrow> account \<Rightarrow> string \<Rightarrow> ('h, function_status) cloud" where
  "owned_function E a k =
     bindE (or_compute_error (GetFunction' E k)) (\<lambda>st.
       if mayTouchFunction a (fs_function st) then ret st else raise functionNotFound)"

definition describeFunction :: "'h server \<Rightarrow> account \<Rightarrow> string \<Rightarrow> ('h, function_body) cloud" where
  "describeFunction S a k =
     bindE (computeService S) (\<lambda>E. bindE (owned_function E a k) (\<lambda>st. ret (functionJSON st)))"

definition deleteFunction :: "'h server \<Rightarrow> call \<Rightarrow> account \<Rightarrow> string \<Rightarrow> ('h, unit) cloud" where
  "deleteFunction S c a k =
     bindE (computeService S) (\<lambda>E.
     bindE (owned_function E a k) (\<lambda>st.
       or_refused S c k (DeleteFunction' E k (\<lambda>f. audited S c (fu_id f)))))"

section \<open>Services\<close>

record service_body =
  wb_id :: string
  wb_name :: string
  wb_account_id :: string
  wb_image :: string
  wb_port :: int
  wb_memory_mib :: int
  wb_env :: "(string, string) gomap"
  wb_secret_names :: "string list"
  wb_disk :: "(int \<times> string) option"
  wb_status :: string
  wb_url :: string
  wb_created_at :: int

definition mayTouchService :: "account \<Rightarrow> service_row \<Rightarrow> bool" where
  "mayTouchService a s \<longleftrightarrow> ac_is_admin a \<or> sv_account s = ac_id a"

definition serviceJSON :: "service_status \<Rightarrow> service_body" where
  "serviceJSON st =
     (let s = st_service st in
      \<lparr>wb_id = sv_id s, wb_name = sv_name s, wb_account_id = sv_account s, wb_image = sv_image s, wb_port = sv_port s,
       wb_memory_mib = sv_memory_mib s, wb_env = sv_env s, wb_secret_names = sv_secret_names s,
       wb_disk = (if sv_disk_gib s > 0 then Some (sv_disk_gib s, sv_mount_path s) else None),
       wb_status = (if st_ready st then ''Running'' else ''Provisioning''), wb_url = st_url st, wb_created_at = sv_created_at s\<rparr>)"

definition ownedService :: "'h env \<Rightarrow> account \<Rightarrow> string \<Rightarrow> ('h, service_status) cloud" where
  "ownedService E a k =
     bindE (or_compute_error (GetService' E k)) (\<lambda>st.
       if mayTouchService a (st_service st) then ret st else raise serviceNotFound)"

definition describeServices :: "'h server \<Rightarrow> account \<Rightarrow> ('h, service_body list) cloud" where
  "describeServices S a =
     bindE (computeService S) (\<lambda>E.
     bindE (or_compute_error (ListServices' E (list_scope a))) (\<lambda>sts.
       ret (map serviceJSON (filter (\<lambda>st. mayTouchService a (st_service st)) sts))))"

text \<open>The disk of the body is a pair of its size and its mount path.\<close>

record service_post =
  sp_name :: string
  sp_image :: string
  sp_port :: int
  sp_memory :: int
  sp_env :: "(string, string) gomap"
  sp_secrets :: "(string, string) gomap"
  sp_disk :: "(int \<times> string) option"

definition service_request_of :: "service_post \<Rightarrow> service_request" where
  "service_request_of b = \<lparr>sq_name = sp_name b, sq_image = sp_image b, sq_port = sp_port b, sq_memory_mib = sp_memory b,
     sq_env = sp_env b, sq_secrets = sp_secrets b, sq_disk_gib = (case sp_disk b of None \<Rightarrow> 0 | Some (gib, _) \<Rightarrow> gib),
     sq_mount_path = (case sp_disk b of None \<Rightarrow> '''' | Some (_, path) \<Rightarrow> path)\<rparr>"

definition createService :: "'h server \<Rightarrow> call \<Rightarrow> account \<Rightarrow> service_post posted \<Rightarrow> ('h, int \<times> service_body) cloud" where
  "createService S c a b =
     bindE (computeService S) (\<lambda>E.
     bindE (decodeJSON b) (\<lambda>r.
       if sp_disk r \<noteq> None \<and> sq_disk_gib (service_request_of r) = 0 then raise bad_request
       else bindE (or_refused S c (sp_name r) (CreateService E (ac_id a) (service_request_of r) (\<lambda>s. audited S c (sv_id s))))
         (\<lambda>(s, created).
       bindE (or_compute_error (GetService' E (sv_id s))) (\<lambda>st. ret (if created then 201 else 200, serviceJSON st)))))"

definition describeService :: "'h server \<Rightarrow> account \<Rightarrow> string \<Rightarrow> ('h, service_body) cloud" where
  "describeService S a k =
     bindE (computeService S) (\<lambda>E. bindE (ownedService E a k) (\<lambda>st. ret (serviceJSON st)))"

record service_patch =
  sf_image :: "string option"
  sf_memory_mib :: "int option"
  sf_env :: "(string, string) gomap option"
  sf_secrets :: "(string, string) gomap option"

definition service_change_of :: "service_patch \<Rightarrow> service_change" where
  "service_change_of p = \<lparr>sg_image = sf_image p, sg_memory_mib = sf_memory_mib p,
     sg_env = (case sf_env p of None \<Rightarrow> [] | Some m \<Rightarrow> m), sg_secrets = (case sf_secrets p of None \<Rightarrow> [] | Some m \<Rightarrow> m),
     sg_set_env = (sf_env p \<noteq> None), sg_set_secret = (sf_secrets p \<noteq> None)\<rparr>"

definition modifyService :: "'h server \<Rightarrow> call \<Rightarrow> account \<Rightarrow> string \<Rightarrow> service_patch posted \<Rightarrow> ('h, service_body) cloud" where
  "modifyService S c a k b =
     bindE (computeService S) (\<lambda>E.
     bindE (ownedService E a k) (\<lambda>current.
     bindE (decodeJSON b) (\<lambda>p.
       let g = service_change_of p; k = sv_id (st_service current) in
       if sg_image g = None \<and> sg_memory_mib g = None \<and> \<not> sg_set_env g \<and> \<not> sg_set_secret g then raise bad_request
       else bindE (or_refused S c k (ModifyService E k g (\<lambda>s. audited S c (sv_id s)))) (\<lambda>_.
         bindE (or_compute_error (GetService' E k)) (\<lambda>st. ret (serviceJSON st))))))"

definition deleteService :: "'h server \<Rightarrow> call \<Rightarrow> account \<Rightarrow> string \<Rightarrow> ('h, unit) cloud" where
  "deleteService S c a k =
     bindE (computeService S) (\<lambda>E.
     bindE (ownedService E a k) (\<lambda>current.
       let k = sv_id (st_service current) in
       or_refused S c k (DeleteService' E k (\<lambda>s. audited S c (sv_id s)))))"

section \<open>The caller, and the audit trail\<close>

definition getCallerIdentity :: "principal \<Rightarrow> string \<times> string \<times> bool \<times> string \<times> string \<times> string" where
  "getCallerIdentity p = (ac_id (pr_account p), ac_username (pr_account p), ac_is_admin (pr_account p), pr_credential p,
     pr_key p, pr_scope p)"

text \<open>\<open>lookupEvents\<close> as far as the filter it asks the audit table with; the table is not modelled.\<close>

record audit_filter =
  af_account :: string
  af_key :: string
  af_event :: string
  af_before :: int
  af_limit :: int

text \<open>\<open>strconv.ParseInt(s, 10, 64)\<close>, and \<open>Atoi\<close>: a sign and digits, in range.\<close>

definition parse_i64 :: "string \<Rightarrow> int option" where
  "parse_i64 s =
     (let digits = (if has_prefix s ''-'' \<or> has_prefix s ''+'' then drop 1 s else s);
          n = foldl (\<lambda>n ch. 10 * n + (of_char ch - 48)) (0::int) digits;
          v = (if has_prefix s ''-'' then - n else n) in
      if digits = '''' \<or> \<not> list_all is_digit digits \<or> \<not> in_i64 v then None else Some v)"

definition in_bounds :: "string \<Rightarrow> int \<Rightarrow> int \<Rightarrow> int \<Rightarrow> int option" where
  "in_bounds raw missing low high =
     (if raw = '''' then Some missing
      else case parse_i64 raw of None \<Rightarrow> None | Some n \<Rightarrow> if low \<le> n \<and> n \<le> high then Some n else None)"

definition events_filter :: "account \<Rightarrow> (string, string) gomap \<Rightarrow> audit_filter res" where
  "events_filter a q =
     (let asked = gomap_str q ''account_id'' in
      if asked \<noteq> '''' \<and> asked \<noteq> ac_id a \<and> \<not> ac_is_admin a then Inl errUnauthorizedOperation
      else case in_bounds (gomap_str q ''max_results'') 50 1 1000 of None \<Rightarrow> Inl (Refuse 400 ''ValidationError'')
      | Some limit \<Rightarrow> (case in_bounds (gomap_str q ''next_token'') 0 1 max_i64 of None \<Rightarrow> Inl (Refuse 400 ''ValidationError'')
         | Some before \<Rightarrow> Inr \<lparr>af_account = (if asked \<noteq> '''' \<and> asked \<noteq> ac_id a then asked
                                 else if ac_is_admin a \<and> asked = '''' then '''' else ac_id a),
             af_key = gomap_str q ''access_key_id'', af_event = gomap_str q ''event_name'', af_before = before,
             af_limit = limit\<rparr>))"

definition lookupEvents :: "(audit_filter \<Rightarrow> audit_event list res) \<Rightarrow> 'h server \<Rightarrow> account \<Rightarrow> (string, string) gomap \<Rightarrow>
    ('h, audit_event list) cloud" where
  "lookupEvents events S a q =
     bindE (of_res (events_filter a q)) (\<lambda>f. or_internal (db (sv_cloud S) (\<lambda>_. reading (\<lambda>_. events f))))"

end
