(* ===== verification/Serving.thy ===== *)
theory Serving
  imports Tenant_Endpoints
begin

text \<open>
  \<open>server/server.go\<close>: every operation of the API table that needs a caller, with what its request
  carries (path values, query, decoded body), as one datatype for each part of the API; the entry of
  the table it is, its handler, and the guard in front of it. The public operations are the login
  endpoints (\<open>Sign_In\<close>), the health check and static pages; the console relay is not modelled.
\<close>

section \<open>Answers\<close>

definition answer :: "int \<Rightarrow> ('b \<Rightarrow> 'a) \<Rightarrow> ('h, 'b) cloud \<Rightarrow> ('h, int \<times> 'a) cloud" where
  "answer status f m = bindE m (\<lambda>x. ret (status, f x))"

text \<open>A handler that chooses its own status, and one that answers 204 without a body.\<close>

definition answer_with :: "('b \<Rightarrow> 'a) \<Rightarrow> ('h, int \<times> 'b) cloud \<Rightarrow> ('h, int \<times> 'a) cloud" where
  "answer_with f m = bindE m (\<lambda>(status, x). ret (status, f x))"

definition answer_none :: "'a \<Rightarrow> ('h, unit) cloud \<Rightarrow> ('h, int \<times> 'a) cloud" where
  "answer_none b m = seqE m (ret (204, b))"

lemma keeps_answer [keeps_intros]:
  "keeps (db_inv P) m \<Longrightarrow> keeps (db_inv P) (answer status f m)"
  "keeps (db_inv P) n \<Longrightarrow> keeps (db_inv P) (answer_with f n)"
  "keeps (db_inv P) u \<Longrightarrow> keeps (db_inv P) (answer_none b u)"
  unfolding answer_def answer_with_def answer_none_def by (intro keeps_intros; assumption)+

section \<open>Accounts, keys and the audit trail\<close>

datatype account_call =
    Get_Caller_Identity
  | List_Access_Keys
  | Create_Access_Key "key_request posted"
  | Delete_Access_Key string
  | Lookup_Events "(string, string) gomap"
  | Describe_Key_Pairs
  | Import_Key_Pair "(string \<times> string) posted"
  | Delete_Key_Pair string

datatype account_answer =
    No_Account_Body
  | A_Identity "string \<times> string \<times> bool \<times> string \<times> string \<times> string"
  | A_Keys "(access_key \<times> key_status) list"
  | A_NewKey "(access_key \<times> key_status) \<times> string"
  | A_Events "audit_event list"
  | A_KeyPairs "(string \<times> string \<times> int) list"
  | A_KeyPair "string \<times> string \<times> int"

fun account_operation :: "account_call \<Rightarrow> string" where
  "account_operation Get_Caller_Identity = ''GetCallerIdentity''"
| "account_operation List_Access_Keys = ''ListAccessKeys''"
| "account_operation (Create_Access_Key _) = ''CreateAccessKey''"
| "account_operation (Delete_Access_Key _) = ''DeleteAccessKey''"
| "account_operation (Lookup_Events _) = ''LookupEvents''"
| "account_operation Describe_Key_Pairs = ''DescribeKeyPairs''"
| "account_operation (Import_Key_Pair _) = ''ImportKeyPair''"
| "account_operation (Delete_Key_Pair _) = ''DeleteKeyPair''"

fun handle_account :: "(audit_filter \<Rightarrow> audit_event list res) \<Rightarrow> 'h server \<Rightarrow> call \<Rightarrow> principal \<Rightarrow> account_call \<Rightarrow> ('h, int \<times> account_answer) cloud" where
  "handle_account events S c p Get_Caller_Identity = ret (200, A_Identity (getCallerIdentity p))"
| "handle_account events S c p List_Access_Keys = answer 200 A_Keys (listAccessKeys S (pr_account p))"
| "handle_account events S c p (Create_Access_Key b) = answer 201 A_NewKey (bindE (decodeJSON b) (createAccessKey S c (pr_account p)))"
| "handle_account events S c p (Delete_Access_Key k) = answer_none No_Account_Body (deleteAccessKey S c (pr_account p) k)"
| "handle_account events S c p (Lookup_Events q) = answer 200 A_Events (lookupEvents events S (pr_account p) q)"
| "handle_account events S c p Describe_Key_Pairs = answer 200 A_KeyPairs (describeKeyPairs S (pr_account p))"
| "handle_account events S c p (Import_Key_Pair b) = answer 201 A_KeyPair (importKeyPair S c (pr_account p) b)"
| "handle_account events S c p (Delete_Key_Pair k) = answer_none No_Account_Body (deleteKeyPair S c (pr_account p) k)"

section \<open>Images and ISOs\<close>

datatype media_call =
    Describe_Images
  | Import_Image bool "unit res \<times> unit res" "part list option"
  | Delete_Image string
  | Describe_ISOs
  | Import_ISO bool "unit res \<times> unit res" "part list option"
  | Delete_ISO string

datatype media_answer =
    No_Media_Body
  | A_Images "image_body list"
  | A_Image image_body
  | A_Discs "iso_body list"
  | A_Disc iso_body

fun media_operation :: "media_call \<Rightarrow> string" where
  "media_operation Describe_Images = ''DescribeImages''"
| "media_operation (Import_Image _ _ _) = ''ImportImage''"
| "media_operation (Delete_Image _) = ''DeleteImage''"
| "media_operation Describe_ISOs = ''DescribeISOs''"
| "media_operation (Import_ISO _ _ _) = ''ImportISO''"
| "media_operation (Delete_ISO _) = ''DeleteISO''"

fun handle_media :: "'h server \<Rightarrow> call \<Rightarrow> principal \<Rightarrow> media_call \<Rightarrow> ('h, int \<times> media_answer) cloud" where
  "handle_media S c p Describe_Images = answer 200 A_Images (describeImages S)"
| "handle_media S c p (Import_Image dir sp ps) = answer 201 A_Image (importImage S c (pr_account p) dir sp ps)"
| "handle_media S c p (Delete_Image k) = answer_none No_Media_Body (deleteImage S c (pr_account p) k)"
| "handle_media S c p Describe_ISOs = answer 200 A_Discs (describeISOs S)"
| "handle_media S c p (Import_ISO dir sp ps) = answer 201 A_Disc (importISO S c (pr_account p) dir sp ps)"
| "handle_media S c p (Delete_ISO k) = answer_none No_Media_Body (deleteISO S c k)"

section \<open>The site and its limits\<close>

datatype site_call =
    Describe_Instance_Types
  | Describe_Subnets
  | Describe_Subnet string
  | Describe_Capacity
  | Describe_Limits
  | Update_Limits "limits_patch posted"

datatype site_answer =
    A_Types "(string \<times> instance_type) list"
  | A_Subnets "subnet_body list"
  | A_Subnet subnet_body
  | A_Capacity capacity
  | A_Limits "limits \<times> limits \<times> limits_patch"

fun site_operation :: "site_call \<Rightarrow> string" where
  "site_operation Describe_Instance_Types = ''DescribeInstanceTypes''"
| "site_operation Describe_Subnets = ''DescribeSubnets''"
| "site_operation (Describe_Subnet _) = ''DescribeSubnet''"
| "site_operation Describe_Capacity = ''DescribeCapacity''"
| "site_operation Describe_Limits = ''DescribeLimits''"
| "site_operation (Update_Limits _) = ''UpdateLimits''"

fun handle_site :: "'h server \<Rightarrow> call \<Rightarrow> principal \<Rightarrow> site_call \<Rightarrow> ('h, int \<times> site_answer) cloud" where
  "handle_site S c p Describe_Instance_Types = answer 200 A_Types (describeInstanceTypes S)"
| "handle_site S c p Describe_Subnets = answer 200 A_Subnets (describeSubnets S)"
| "handle_site S c p (Describe_Subnet k) = answer 200 A_Subnet (describeSubnet S k)"
| "handle_site S c p Describe_Capacity = answer 200 A_Capacity (describeCapacity S (pr_account p))"
| "handle_site S c p Describe_Limits = answer 200 A_Limits (describeLimits S)"
| "handle_site S c p (Update_Limits b) = answer 200 A_Limits (updateLimits S c (pr_account p) b)"

section \<open>Instances\<close>

datatype instance_call =
    Run_Instances "run_request posted"
  | Adopt_Instance "adopt_request posted"
  | Describe_Instances string
  | Describe_Instance string
  | Modify_Instance string "modify_request posted"
  | Terminate_Instance string
  | Start_Instance string
  | Stop_Instance string
  | Reboot_Instance string
  | Modify_Instance_Tags string "(string, string) gomap option posted"
  | Modify_Instance_Security_Groups string "string list posted"

datatype instance_answer =
    A_Instance instance_body
  | A_Instances "instance_body list"

fun instance_operation :: "instance_call \<Rightarrow> string" where
  "instance_operation (Run_Instances _) = ''RunInstances''"
| "instance_operation (Adopt_Instance _) = ''AdoptInstance''"
| "instance_operation (Describe_Instances _) = ''DescribeInstances''"
| "instance_operation (Describe_Instance _) = ''DescribeInstance''"
| "instance_operation (Modify_Instance _ _) = ''ModifyInstance''"
| "instance_operation (Terminate_Instance _) = ''TerminateInstance''"
| "instance_operation (Start_Instance _) = ''StartInstance''"
| "instance_operation (Stop_Instance _) = ''StopInstance''"
| "instance_operation (Reboot_Instance _) = ''RebootInstance''"
| "instance_operation (Modify_Instance_Tags _ _) = ''ModifyInstanceTags''"
| "instance_operation (Modify_Instance_Security_Groups _ _) = ''ModifyInstanceSecurityGroups''"

fun handle_instance :: "'h server \<Rightarrow> call \<Rightarrow> principal \<Rightarrow> instance_call \<Rightarrow> ('h, int \<times> instance_answer) cloud" where
  "handle_instance S c p (Run_Instances b) = answer_with A_Instance (runInstances S c (pr_account p) b)"
| "handle_instance S c p (Adopt_Instance b) = answer_with A_Instance (adoptInstance S c (pr_account p) b)"
| "handle_instance S c p (Describe_Instances k) = answer 200 A_Instances (describeInstances S (pr_account p) k)"
| "handle_instance S c p (Describe_Instance k) = answer 200 A_Instance (describeInstance S (pr_account p) k)"
| "handle_instance S c p (Modify_Instance k b) = answer 200 A_Instance (modifyInstance S c (pr_account p) k b)"
| "handle_instance S c p (Terminate_Instance k) = answer 202 A_Instance (instanceAction ActionTerminate S c (pr_account p) k)"
| "handle_instance S c p (Start_Instance k) = answer 202 A_Instance (instanceAction ActionStart S c (pr_account p) k)"
| "handle_instance S c p (Stop_Instance k) = answer 202 A_Instance (instanceAction ActionStop S c (pr_account p) k)"
| "handle_instance S c p (Reboot_Instance k) = answer 202 A_Instance (instanceAction ActionReboot S c (pr_account p) k)"
| "handle_instance S c p (Modify_Instance_Tags k b) = answer 200 A_Instance (modifyInstanceTags S c (pr_account p) k b)"
| "handle_instance S c p (Modify_Instance_Security_Groups k b) = answer 200 A_Instance (modifyInstanceSecurityGroups S c (pr_account p) k b)"

section \<open>Volumes\<close>

datatype volume_call =
    Describe_Volumes
  | Create_Volume "volume_request posted"
  | Describe_Volume string
  | Modify_Volume string "int posted"
  | Delete_Volume string
  | Attach_Volume string "(string \<times> string) posted"
  | Detach_Volume string "unit posted option"

datatype volume_answer =
    A_Volume volume_body
  | A_Volumes "volume_body list"

fun volume_operation :: "volume_call \<Rightarrow> string" where
  "volume_operation Describe_Volumes = ''DescribeVolumes''"
| "volume_operation (Create_Volume _) = ''CreateVolume''"
| "volume_operation (Describe_Volume _) = ''DescribeVolume''"
| "volume_operation (Modify_Volume _ _) = ''ModifyVolume''"
| "volume_operation (Delete_Volume _) = ''DeleteVolume''"
| "volume_operation (Attach_Volume _ _) = ''AttachVolume''"
| "volume_operation (Detach_Volume _ _) = ''DetachVolume''"

fun handle_volume :: "'h server \<Rightarrow> call \<Rightarrow> principal \<Rightarrow> volume_call \<Rightarrow> ('h, int \<times> volume_answer) cloud" where
  "handle_volume S c p Describe_Volumes = answer 200 A_Volumes (describeVolumes S (pr_account p))"
| "handle_volume S c p (Create_Volume b) = answer_with A_Volume (createVolume S c (pr_account p) b)"
| "handle_volume S c p (Describe_Volume k) = answer 200 A_Volume (describeVolume S (pr_account p) k)"
| "handle_volume S c p (Modify_Volume k b) = answer 202 A_Volume (modifyVolume S c (pr_account p) k b)"
| "handle_volume S c p (Delete_Volume k) = answer 202 A_Volume (deleteVolume S c (pr_account p) k)"
| "handle_volume S c p (Attach_Volume k b) = answer 202 A_Volume (attachVolume S c (pr_account p) k b)"
| "handle_volume S c p (Detach_Volume k b) = answer 202 A_Volume (detachVolume S c (pr_account p) k b)"

section \<open>Security groups\<close>

datatype group_call =
    Describe_Security_Groups
  | Create_Security_Group "(string \<times> string) posted"
  | Describe_Security_Group string
  | Delete_Security_Group string
  | Authorize_Security_Group_Ingress string "rule_request list posted"
  | Authorize_Security_Group_Egress string "rule_request list posted"
  | Revoke_Security_Group_Rule string string

datatype group_answer =
    No_Group_Body
  | A_Group group_body
  | A_Groups "group_body list"

fun group_operation :: "group_call \<Rightarrow> string" where
  "group_operation Describe_Security_Groups = ''DescribeSecurityGroups''"
| "group_operation (Create_Security_Group _) = ''CreateSecurityGroup''"
| "group_operation (Describe_Security_Group _) = ''DescribeSecurityGroup''"
| "group_operation (Delete_Security_Group _) = ''DeleteSecurityGroup''"
| "group_operation (Authorize_Security_Group_Ingress _ _) = ''AuthorizeSecurityGroupIngress''"
| "group_operation (Authorize_Security_Group_Egress _ _) = ''AuthorizeSecurityGroupEgress''"
| "group_operation (Revoke_Security_Group_Rule _ _) = ''RevokeSecurityGroupRule''"

fun handle_group :: "'h server \<Rightarrow> call \<Rightarrow> principal \<Rightarrow> group_call \<Rightarrow> ('h, int \<times> group_answer) cloud" where
  "handle_group S c p Describe_Security_Groups = answer 200 A_Groups (describeSecurityGroups S (pr_account p))"
| "handle_group S c p (Create_Security_Group b) = answer 201 A_Group (createSecurityGroup S c (pr_account p) b)"
| "handle_group S c p (Describe_Security_Group k) = answer 200 A_Group (describeSecurityGroup S (pr_account p) k)"
| "handle_group S c p (Delete_Security_Group k) = answer_none No_Group_Body (deleteSecurityGroup S c (pr_account p) k)"
| "handle_group S c p (Authorize_Security_Group_Ingress k b) = answer 200 A_Group (authorizeRules DirectionIngress S c (pr_account p) k b)"
| "handle_group S c p (Authorize_Security_Group_Egress k b) = answer 200 A_Group (authorizeRules DirectionEgress S c (pr_account p) k b)"
| "handle_group S c p (Revoke_Security_Group_Rule k l) = answer 200 A_Group (revokeSecurityGroupRule S c (pr_account p) k l)"

section \<open>Buckets and S3 keys\<close>

datatype bucket_call =
    Describe_Buckets
  | Create_Bucket "string posted"
  | Describe_Bucket string
  | Delete_Bucket string
  | Put_Bucket_Key string string "(bool \<times> bool \<times> bool) posted"
  | Delete_Bucket_Key string string
  | List_S3_Keys
  | Create_S3_Key "string posted"
  | Delete_S3_Key string

datatype bucket_answer =
    No_Bucket_Body
  | A_Bucket bucket_body
  | A_Buckets "bucket_body list"
  | A_S3Keys "s3_key list"
  | A_S3Key "s3_key \<times> string"

fun bucket_operation :: "bucket_call \<Rightarrow> string" where
  "bucket_operation Describe_Buckets = ''DescribeBuckets''"
| "bucket_operation (Create_Bucket _) = ''CreateBucket''"
| "bucket_operation (Describe_Bucket _) = ''DescribeBucket''"
| "bucket_operation (Delete_Bucket _) = ''DeleteBucket''"
| "bucket_operation (Put_Bucket_Key _ _ _) = ''PutBucketKey''"
| "bucket_operation (Delete_Bucket_Key _ _) = ''DeleteBucketKey''"
| "bucket_operation List_S3_Keys = ''ListS3Keys''"
| "bucket_operation (Create_S3_Key _) = ''CreateS3Key''"
| "bucket_operation (Delete_S3_Key _) = ''DeleteS3Key''"

fun handle_bucket :: "'h server \<Rightarrow> call \<Rightarrow> principal \<Rightarrow> bucket_call \<Rightarrow> ('h, int \<times> bucket_answer) cloud" where
  "handle_bucket S c p Describe_Buckets = answer 200 A_Buckets (describeBuckets S (pr_account p))"
| "handle_bucket S c p (Create_Bucket b) = answer_with A_Bucket (createBucket S c (pr_account p) b)"
| "handle_bucket S c p (Describe_Bucket k) = answer 200 A_Bucket (describeBucket S c (pr_account p) k)"
| "handle_bucket S c p (Delete_Bucket k) = answer_none No_Bucket_Body (deleteBucket S c (pr_account p) k)"
| "handle_bucket S c p (Put_Bucket_Key k l b) = answer 200 A_Bucket (setBucketPermission S c (pr_account p) k l b)"
| "handle_bucket S c p (Delete_Bucket_Key k l) = answer 200 A_Bucket (revokeBucketPermission S c (pr_account p) k l)"
| "handle_bucket S c p List_S3_Keys = answer 200 A_S3Keys (listS3Keys S (pr_account p))"
| "handle_bucket S c p (Create_S3_Key b) = answer 201 A_S3Key (createS3Key S c (pr_account p) b)"
| "handle_bucket S c p (Delete_S3_Key k) = answer_none No_Bucket_Body (deleteS3Key S c (pr_account p) k)"

section \<open>Databases\<close>

datatype database_call =
    Describe_Databases
  | Create_Database "(string \<times> int) posted"
  | Describe_Database string
  | Delete_Database string
  | Get_Database_Credentials string

datatype database_answer =
    No_Database_Body
  | A_Database database_body
  | A_Databases "database_body list"
  | A_Credentials "(string, string) gomap"

fun database_operation :: "database_call \<Rightarrow> string" where
  "database_operation Describe_Databases = ''DescribeDatabases''"
| "database_operation (Create_Database _) = ''CreateDatabase''"
| "database_operation (Describe_Database _) = ''DescribeDatabase''"
| "database_operation (Delete_Database _) = ''DeleteDatabase''"
| "database_operation (Get_Database_Credentials _) = ''GetDatabaseCredentials''"

fun handle_database :: "'h server \<Rightarrow> call \<Rightarrow> principal \<Rightarrow> database_call \<Rightarrow> ('h, int \<times> database_answer) cloud" where
  "handle_database S c p Describe_Databases = answer 200 A_Databases (describeDatabases S (pr_account p))"
| "handle_database S c p (Create_Database b) = answer_with A_Database (createDatabase S c (pr_account p) b)"
| "handle_database S c p (Describe_Database k) = answer 200 A_Database (describeDatabase S (pr_account p) k)"
| "handle_database S c p (Delete_Database k) = answer_none No_Database_Body (deleteDatabase S c (pr_account p) k)"
| "handle_database S c p (Get_Database_Credentials k) = answer 200 A_Credentials (getDatabaseCredentials S c (pr_account p) k)"

section \<open>Functions\<close>

datatype function_call =
    Describe_Functions
  | Create_Function "(string \<times> string) posted"
  | Describe_Function string
  | Delete_Function string

datatype function_answer =
    No_Function_Body
  | A_Function function_body
  | A_Functions "function_body list"

fun function_operation :: "function_call \<Rightarrow> string" where
  "function_operation Describe_Functions = ''DescribeFunctions''"
| "function_operation (Create_Function _) = ''CreateFunction''"
| "function_operation (Describe_Function _) = ''DescribeFunction''"
| "function_operation (Delete_Function _) = ''DeleteFunction''"

fun handle_function :: "'h server \<Rightarrow> call \<Rightarrow> principal \<Rightarrow> function_call \<Rightarrow> ('h, int \<times> function_answer) cloud" where
  "handle_function S c p Describe_Functions = answer 200 A_Functions (describeFunctions S (pr_account p))"
| "handle_function S c p (Create_Function b) = answer_with A_Function (createFunction S c (pr_account p) b)"
| "handle_function S c p (Describe_Function k) = answer 200 A_Function (describeFunction S (pr_account p) k)"
| "handle_function S c p (Delete_Function k) = answer_none No_Function_Body (deleteFunction S c (pr_account p) k)"

section \<open>Services\<close>

datatype service_call =
    Describe_Services
  | Create_Service "service_post posted"
  | Describe_Service string
  | Modify_Service string "service_patch posted"
  | Delete_Service string

datatype service_answer =
    No_Service_Body
  | A_Service service_body
  | A_Services "service_body list"

fun service_operation :: "service_call \<Rightarrow> string" where
  "service_operation Describe_Services = ''DescribeServices''"
| "service_operation (Create_Service _) = ''CreateService''"
| "service_operation (Describe_Service _) = ''DescribeService''"
| "service_operation (Modify_Service _ _) = ''ModifyService''"
| "service_operation (Delete_Service _) = ''DeleteService''"

fun handle_service :: "'h server \<Rightarrow> call \<Rightarrow> principal \<Rightarrow> service_call \<Rightarrow> ('h, int \<times> service_answer) cloud" where
  "handle_service S c p Describe_Services = answer 200 A_Services (describeServices S (pr_account p))"
| "handle_service S c p (Create_Service b) = answer_with A_Service (createService S c (pr_account p) b)"
| "handle_service S c p (Describe_Service k) = answer 200 A_Service (describeService S (pr_account p) k)"
| "handle_service S c p (Modify_Service k b) = answer 200 A_Service (modifyService S c (pr_account p) k b)"
| "handle_service S c p (Delete_Service k) = answer_none No_Service_Body (deleteService S c (pr_account p) k)"

section \<open>The whole table\<close>

datatype api_call =
    On_Account account_call
  | On_Media media_call
  | On_Site site_call
  | On_Instance instance_call
  | On_Volume volume_call
  | On_Group group_call
  | On_Bucket bucket_call
  | On_Database database_call
  | On_Function function_call
  | On_Service service_call

datatype api_answer =
    Of_Account account_answer
  | Of_Media media_answer
  | Of_Site site_answer
  | Of_Instance instance_answer
  | Of_Volume volume_answer
  | Of_Group group_answer
  | Of_Bucket bucket_answer
  | Of_Database database_answer
  | Of_Function function_answer
  | Of_Service service_answer

fun operation_of :: "api_call \<Rightarrow> string" where
  "operation_of (On_Account q) = account_operation q"
| "operation_of (On_Media q) = media_operation q"
| "operation_of (On_Site q) = site_operation q"
| "operation_of (On_Instance q) = instance_operation q"
| "operation_of (On_Volume q) = volume_operation q"
| "operation_of (On_Group q) = group_operation q"
| "operation_of (On_Bucket q) = bucket_operation q"
| "operation_of (On_Database q) = database_operation q"
| "operation_of (On_Function q) = function_operation q"
| "operation_of (On_Service q) = service_operation q"

text \<open>The \<open>handle\<close> column, with the principal the guard has put into the call.\<close>

fun handle :: "(audit_filter \<Rightarrow> audit_event list res) \<Rightarrow> 'h server \<Rightarrow> call \<Rightarrow> principal \<Rightarrow> api_call \<Rightarrow>
    ('h, int \<times> api_answer) cloud" where
  "handle events S c p (On_Account q) = answer_with Of_Account (handle_account events S c p q)"
| "handle events S c p (On_Media q) = answer_with Of_Media (handle_media S c p q)"
| "handle events S c p (On_Site q) = answer_with Of_Site (handle_site S c p q)"
| "handle events S c p (On_Instance q) = answer_with Of_Instance (handle_instance S c p q)"
| "handle events S c p (On_Volume q) = answer_with Of_Volume (handle_volume S c p q)"
| "handle events S c p (On_Group q) = answer_with Of_Group (handle_group S c p q)"
| "handle events S c p (On_Bucket q) = answer_with Of_Bucket (handle_bucket S c p q)"
| "handle events S c p (On_Database q) = answer_with Of_Database (handle_database S c p q)"
| "handle events S c p (On_Function q) = answer_with Of_Function (handle_function S c p q)"
| "handle events S c p (On_Service q) = answer_with Of_Service (handle_service S c p q)"

definition route_of :: "api_call \<Rightarrow> route option" where
  "route_of call = find (\<lambda>rt. rt_operation rt = operation_of call) routes"

text \<open>A request as the server answers it: the guard, then the handler.\<close>

definition serve :: "(audit_filter \<Rightarrow> audit_event list res) \<Rightarrow> 'h server \<Rightarrow> http_request \<Rightarrow> api_call \<Rightarrow>
    ('h, int \<times> api_answer) cloud" where
  "serve events S r call = (case route_of call of
       None \<Rightarrow> raise (Refuse 404 ''NotFound'')
     | Some rt \<Rightarrow> endpoint S rt r (\<lambda>c. case cl_principal c of
           None \<Rightarrow> raise internal_error | Some p \<Rightarrow> handle events S c p call))"

end
