(* ===== verification/Spec2Isabelle.thy ===== *)
theory Spec2Isabelle
  imports Site_Model Sizing Row_Lifecycle Disk_Recovery Request_Hash Worker_Stops System Serving
begin

text \<open>
  A verification development for the control plane of shake-cloud: a Go service
  (\<open>src/api/internal\<close>) that keeps a ledger of instances, volumes, security groups and media in
  PostgreSQL and carries it out on a Proxmox node, with NetBox as the address registry.

  \<^bold>\<open>How the program is put together.\<close> HTTP handlers (\<open>server\<close>) call the methods of
  \<open>compute.Service\<close>. A handler checks a request and records it as a row with a pending action
  (\<open>db\<close>); one worker loop (\<open>RunWorker\<close>) claims rows under a lease and carries their actions out on
  the hypervisor, recording every backend object as soon as it exists, so that a crash at any point
  resumes rather than duplicates. What the deployment may use is declared in \<open>site.json\<close> (\<open>site\<close>).

  \<^bold>\<open>Which theory models what.\<close>
  \<^item> \<open>Prelude\<close>, \<open>Go_Lib\<close>, \<open>Net_Prefix\<close>: errors, the state-and-error combinators with their
    preservation rules and Hoare triples, the part of Go's standard library that the code uses
    (strings, UTF-8, integers at 64 bits, \<open>net/netip\<close>).
  \<^item> \<open>Site_Model\<close>: \<open>site/site.go\<close>, every check of \<open>Site.Validate\<close>. \<open>Sizing\<close>: limits and their overrides,
    the size a launch or a resize ends with, the retry delay (\<open>service.go\<close>, \<open>capacity.go\<close>, \<open>modify.go\<close>,
    \<open>worker.go\<close>).
  \<^item> \<open>Work_Queue\<close>, \<open>Row_Lifecycle\<close>: the shape shared by the three work queues (claim under a lease)
    and the lifecycle of a row, as locales.
  \<^item> \<open>Instance_Ledger\<close>, \<open>Volume_Ledger\<close>, \<open>Group_Ledger\<close>, \<open>Media_Ledger\<close>, \<open>Tenant_Tables\<close>, \<open>Account_Ledger\<close>,
    \<open>Appliance_Ledger\<close>: the statements of \<open>db/*.go\<close> over tables held as lists of rows, with the
    constraints of the migrations.
  \<^item> \<open>Cloud_World\<close>: the world a method of \<open>Service\<close> runs in: the ledger, the clock, the caches, the
    state of the external services and a log of the calls made to them. The hypervisor, the
    address registry and the object stores are records of functions over an unknown external state.
    Before every statement on the pool and before every transaction other requests may change the
    ledger, and the database may fail.
  \<^item> \<open>Ledger_Contract\<close>, \<open>Request_Contract\<close>, \<open>Tenant_Contract\<close>, \<open>Appliance_Contract\<close>: the laws every statement
    of a part of the ledger keeps, as locales, each interpreted on the invariants that are proved.
  \<^item> \<open>Vm_Identity\<close>, \<open>Firewall\<close>, \<open>Media\<close>, \<open>Volume_Worker\<close>, \<open>Instance_Worker\<close>: the workers of
    \<open>compute.Service\<close> in \<open>firewall.go\<close>, \<open>images.go\<close>, \<open>isos.go\<close>, \<open>volume_worker.go\<close>, \<open>worker.go\<close>.
  \<^item> \<open>Call_Contract\<close>, \<open>Worker_Safety\<close>: under which conditions the worker makes its destructive calls, as
    a locale over the log of calls and answers, kept by every worker step; its two interpretations
    give the safety properties of \<open>RunWorker\<close>. \<open>Disk_Recovery\<close>: that a disk is found again after a crash
    in the middle of a move.
  \<^item> \<open>Request_Steps\<close>, \<open>Group_Admission\<close>, \<open>Admission\<close>, \<open>Instance_Requests\<close>, \<open>Volume_Admission\<close>: the admission
    handlers of \<open>securitygroups.go\<close>, \<open>service.go\<close>, \<open>modify.go\<close>, \<open>tags.go\<close> and \<open>volumes.go\<close>. \<open>Json_Text\<close>,
    \<open>Request_Hash\<close>: the JSON text of a launch and what its fingerprint binds.
  \<^item> \<open>Reconciler\<close>, \<open>Adoption\<close>, \<open>Host_Capacity\<close>: \<open>reconcile.go\<close>, \<open>adopt.go\<close>, \<open>capacity.go\<close>.
  \<^item> \<open>Appliances\<close>, \<open>Workloads\<close>, \<open>Appliance_Safety\<close>: \<open>buckets.go\<close>, \<open>databases.go\<close>, \<open>functions.go\<close>, \<open>services.go\<close>
    and the invariants of a history of their calls.
  \<^item> \<open>Access_Key\<close>, \<open>Http_Request\<close>, \<open>Sign_In\<close>, \<open>Sign_In_Safety\<close>: access keys, the address and the audit event
    of a request, authentication, key management, the bootstrap key and the OIDC login
    (\<open>accesskey\<close>, \<open>server\<close>). \<open>Ssh_Key\<close>: the SSH public keys an account may import (\<open>sshkey\<close>).
  \<^item> \<open>Http_Routes\<close>, \<open>Endpoints\<close>, \<open>Tenant_Endpoints\<close>, \<open>Serving\<close>: the API table with the guard in front of
    every handler, the handlers (\<open>server/*.go\<close>), and the whole API as one dispatcher over the
    operations of the table.
  \<^item> \<open>Worker_Stops\<close>: that the loops of the process end with their context. Their fuel is the number of
    turns; enough is any number past the step at which the context ends.
  \<^item> \<open>Fleet\<close>: the abstract specification, machines and disks with owners and lifecycles, and that
    every statement of the ledger refines it. \<open>System\<close>: all calls of the process together refine it,
    each under the interference of the others.

  \<^bold>\<open>Conventions.\<close> A fallible Go function over shared state is a function from a world to a result and
  a new world; the result is \<open>Inl e\<close> for a non-nil error. The text of a refusal is not modelled, its
  status and code are. Go maps are association lists whose order stands for the random iteration
  order. Go integers are integers, wrapped to 64 bits (\<open>wrap64\<close>) where the code's values can overflow.
  SHA-256, random bytes, JSON and the seed ISO builder are parameters. A transaction is atomic and is
  rolled back on an error.

  \<^bold>\<open>Not modelled.\<close> Process start and configuration, the HTTP clients of the external services and
  the byte relay of the console are I/O around the modelled service; the command line client, the
  SDK, the provider and the MCP server only build requests and format answers.
\<close>

end
